(* ===== verification/Float64.thy ===== *)
theory Float64
  imports Complex_Main 
begin

text \<open>
  Go's \<open>float64\<close> (IEEE 754 binary64, round to nearest even) as an executable datatype: a finite value
  is the rational it denotes, and every arithmetic operation is the exact rational operation followed
  by \<open>rnd\<close>. The two signed zeros are one value: the program never divides by a zero it computed nor
  takes a reciprocal, so they differ only when printed. Also here: \<open>math.Max\<close>, \<open>math.Min\<close>, \<open>math.Abs\<close>,
  \<open>math.Ceil\<close>, \<open>math.Floor\<close>, \<open>math.Round\<close> and the conversions to and from \<open>int64\<close>; then monotonicity,
  exactness and error bounds of the rounding, on which the money proofs rest.
\<close>

datatype f64 = NaN | PInf | NInf | Fin rat

fun bit_len :: "int \<Rightarrow> int" where
  "bit_len n = (if n \<le> 0 then 0 else 1 + bit_len (n div 2))"
declare bit_len.simps [simp del]

definition ilog2 :: "rat \<Rightarrow> int" where
  "ilog2 x = (let (p, q) = quotient_of x; e = bit_len p - bit_len q
     in if 2 powi e \<le> x then e else e - 1)"

definition ulp_exp :: "rat \<Rightarrow> int" where
  "ulp_exp x = max (ilog2 \<bar>x\<bar>) (-1022) - 52"

definition rne :: "rat \<Rightarrow> int" where
  "rne x = (let f = \<lfloor>x\<rfloor>; d = x - of_int f in
     if d < 1/2 then f else if 1/2 < d then f + 1 else if even f then f else f + 1)"

definition rnd_raw :: "rat \<Rightarrow> rat" where
  "rnd_raw x = (if x = 0 then 0 else of_int (rne (x / 2 powi ulp_exp x)) * 2 powi ulp_exp x)"

definition rnd :: "rat \<Rightarrow> f64" where
  "rnd x = (let r = rnd_raw x in if r = 0 \<or> ilog2 \<bar>r\<bar> < 1024 then Fin r else if r > 0 then PInf else NInf)"

section \<open>Bit length\<close>

lemma bit_len_nonneg: "0 \<le> bit_len n"
  by (induction n rule: bit_len.induct) (subst bit_len.simps, simp)

lemma bit_len_bounds: "0 < n \<Longrightarrow> 2 powi (bit_len n - 1) \<le> (of_int n :: rat) \<and> (of_int n :: rat) < 2 powi bit_len n"
proof (induction n rule: bit_len.induct)
  case (1 n)
  show ?case
  proof (cases "n = 1")
    case True
    then show ?thesis by (simp add: bit_len.simps)
  next
    case False
    define b where "b = bit_len (n div 2)"
    from False 1 have IH: "2 powi (b - 1) \<le> (of_int (n div 2) :: rat)" "(of_int (n div 2) :: rat) < 2 powi b"
      unfolding b_def by auto
    have b0: "0 \<le> b" unfolding b_def by (rule bit_len_nonneg)
    have eq: "bit_len n = b + 1" using 1(2) by (subst bit_len.simps) (simp add: b_def)
    have "of_int (n div 2) + 1 \<le> (2 powi b :: rat)"
    proof -
      have p: "(2 powi b :: rat) = of_int (2 ^ nat b)" using b0 by (simp add: power_int_def)
      have "n div 2 < 2 ^ nat b" using IH(2) unfolding p of_int_less_iff .
      then have "n div 2 + 1 \<le> 2 ^ nat b" by simp
      then have "of_int (n div 2 + 1) \<le> (of_int (2 ^ nat b) :: rat)" unfolding of_int_le_iff .
      then show ?thesis unfolding p by simp
    qed
    moreover have "of_int (n div 2) * 2 \<le> (of_int n :: rat)" "(of_int n :: rat) < (of_int (n div 2) + 1) * 2"
    proof -
      have "n div 2 * 2 \<le> n" "n < (n div 2 + 1) * 2" by simp_all
      then have "of_int (n div 2 * 2) \<le> (of_int n :: rat)" "(of_int n :: rat) < of_int ((n div 2 + 1) * 2)"
        unfolding of_int_le_iff of_int_less_iff by auto
      then show "of_int (n div 2) * 2 \<le> (of_int n :: rat)" "(of_int n :: rat) < (of_int (n div 2) + 1) * 2"
        by simp_all
    qed
    moreover have "(2 powi (b + 1) :: rat) = 2 powi b * 2" "(2 powi b :: rat) = 2 powi (b - 1) * 2"
      using power_int_add[of "2::rat" b 1] power_int_add[of "2::rat" "b - 1" 1] by simp_all
    ultimately show ?thesis using IH unfolding eq by auto
  qed
qed

lemma powi_le_iff [simp]: "(2 powi a :: rat) \<le> 2 powi b \<longleftrightarrow> a \<le> b"
  using power_int_increasing[of a b "2::rat"] power_int_strict_increasing[of b a "2::rat"]
  by (cases "a \<le> b") (auto simp: not_le)

lemma powi_less_iff [simp]: "(2 powi a :: rat) < 2 powi b \<longleftrightarrow> a < b"
  by (metis linorder_not_le powi_le_iff)

lemma powi_pos [simp]: "0 < (2 powi a :: rat)"
  by simp

lemma powi_not_le_0 [simp]: "\<not> (2 powi a :: rat) \<le> 0"
  by (simp add: not_le)

lemma powi_split: "(2 powi (a + b) :: rat) = 2 powi a * 2 powi b"
  by (simp add: power_int_add)

lemma powi_diff: "(2 powi (a - b) :: rat) = 2 powi a / 2 powi b"
  by (simp add: power_int_diff)

lemma powi_int: "0 \<le> k \<Longrightarrow> (2 powi k :: rat) = of_int (2 ^ nat k)"
  by (simp add: power_int_def)

section \<open>Exponent\<close>

lemma ilog2_bounds:
  assumes "0 < x"
  shows "2 powi ilog2 x \<le> x \<and> x < 2 powi (ilog2 x + 1)"
proof -
  obtain p q where pq: "quotient_of x = (p, q)" by force
  have q: "0 < q" using quotient_of_denom_pos[OF pq] .
  have x: "x = of_int p / of_int q" using quotient_of_div[OF pq] .
  have p: "0 < p" using assms q unfolding x by (simp add: zero_less_divide_iff)
  define a b where "a = bit_len p" and "b = bit_len q"
  define P Q where "P = (of_int p :: rat)" and "Q = (of_int q :: rat)"
  have P: "2 powi (a - 1) \<le> P" "P < 2 powi a" and Q: "2 powi (b - 1) \<le> Q" "Q < 2 powi b"
    using bit_len_bounds[OF p] bit_len_bounds[OF q] unfolding a_def b_def P_def Q_def by auto
  have xPQ: "x = P / Q" and Qpos: "0 < Q" using x q unfolding P_def Q_def by auto
  have up: "x < 2 powi (a - b + 1)"
  proof -
    have "2 powi (a - b + 1) * Q \<ge> 2 powi (a - b + 1) * 2 powi (b - 1)" using Q(1) by simp
    also have "2 powi (a - b + 1) * (2::rat) powi (b - 1) = 2 powi a"
      unfolding powi_split[symmetric] by simp
    finally have "P < 2 powi (a - b + 1) * Q" using P(2) by linarith
    then show ?thesis unfolding xPQ using Qpos by (simp add: field_simps)
  qed
  have lo: "2 powi (a - b - 1) \<le> x"
  proof -
    have "2 powi (a - b - 1) * Q \<le> 2 powi (a - b - 1) * 2 powi b" using Q(2) by simp
    also have "2 powi (a - b - 1) * (2::rat) powi b = 2 powi (a - 1)"
      unfolding powi_split[symmetric] by simp
    finally have "2 powi (a - b - 1) * Q \<le> P" using P(1) by linarith
    then show ?thesis unfolding xPQ using Qpos by (simp add: field_simps)
  qed
  show ?thesis
    using up lo by (auto simp: ilog2_def pq a_def b_def Let_def not_le)
qed

lemma ilog2_eqI: "2 powi e \<le> x \<Longrightarrow> x < 2 powi (e + 1) \<Longrightarrow> ilog2 x = e"
proof -
  assume a: "2 powi e \<le> x" "x < 2 powi (e + 1)"
  then have "0 < x" using powi_pos[of e] by linarith
  note b = ilog2_bounds[OF this]
  have "(2::rat) powi e < 2 powi (ilog2 x + 1)" using a b by linarith
  moreover have "(2::rat) powi ilog2 x < 2 powi (e + 1)" using a b by linarith
  ultimately show ?thesis by simp
qed

lemma ilog2_mono: "0 < x \<Longrightarrow> x \<le> y \<Longrightarrow> ilog2 x \<le> ilog2 y"
proof -
  assume a: "0 < x" "x \<le> y"
  then have "(2::rat) powi ilog2 x < 2 powi (ilog2 y + 1)"
    using ilog2_bounds[of x] ilog2_bounds[of y] by linarith
  then show ?thesis by simp
qed

lemma ilog2_less_iff: "0 < x \<Longrightarrow> ilog2 x < e \<longleftrightarrow> x < 2 powi e"
proof
  assume "0 < x" "ilog2 x < e"
  then have "(2::rat) powi (ilog2 x + 1) \<le> 2 powi e" by simp
  then show "x < 2 powi e" using ilog2_bounds[OF \<open>0 < x\<close>] by linarith
next
  assume "0 < x" "x < 2 powi e"
  then have "(2::rat) powi ilog2 x < 2 powi e" using ilog2_bounds[OF \<open>0 < x\<close>] by linarith
  then show "ilog2 x < e" by simp
qed

section \<open>Round half even\<close>

lemma rne_bounds: "x - 1/2 \<le> of_int (rne x)" "of_int (rne x) \<le> x + 1/2"
  using floor_correct[of x] unfolding rne_def Let_def
  by (simp_all split: if_splits, linarith+)

lemma rne_of_int [simp]: "rne (of_int k) = k"
  by (simp add: rne_def)

lemma rne_ge: "of_int k \<le> x \<Longrightarrow> k \<le> rne x"
  using floor_correct[of x] le_floor_iff[of k x] unfolding rne_def Let_def
  by (auto split: if_splits)

lemma rne_le: "x \<le> of_int k \<Longrightarrow> rne x \<le> k"
proof (cases "x = of_int k")
  case True then show ?thesis by simp
next
  case False
  assume "x \<le> of_int k"
  with False have "\<lfloor>x\<rfloor> < k" by (simp add: floor_less_iff)
  then show ?thesis unfolding rne_def Let_def by (auto split: if_splits)
qed

lemma rne_mono: assumes "x \<le> y" shows "rne x \<le> rne y"
proof (cases "\<lfloor>x\<rfloor> = \<lfloor>y\<rfloor>")
  case True
  then show ?thesis using assms unfolding rne_def Let_def by (auto split: if_splits)
next
  case False
  with floor_mono[OF assms] have "\<lfloor>x\<rfloor> + 1 \<le> \<lfloor>y\<rfloor>" by simp
  moreover have "rne x \<le> \<lfloor>x\<rfloor> + 1" unfolding rne_def Let_def by auto
  moreover have "\<lfloor>y\<rfloor> \<le> rne y" unfolding rne_def Let_def by auto
  ultimately show ?thesis by linarith
qed

lemma rne_minus: "rne (- x) = - rne x"
proof (cases "x = of_int \<lfloor>x\<rfloor>")
  case True
  then obtain k where k: "x = of_int k" by blast
  have "rne (- x) = rne (of_int (- k))" unfolding k by simp
  then show ?thesis unfolding rne_of_int unfolding k by simp
next
  case False
  define f where "f = \<lfloor>x\<rfloor>"
  have f: "of_int f < x" "x < of_int f + 1" using False floor_correct[of x] unfolding f_def by linarith+
  have g: "\<lfloor>- x\<rfloor> = - f - 1" using f by (simp add: floor_eq_iff)
  show ?thesis unfolding rne_def Let_def g f_def[symmetric] using f by auto
qed

section \<open>Rounding\<close>

lemma ulp_exp_minus [simp]: "ulp_exp (- x) = ulp_exp x"
  by (simp add: ulp_exp_def)

lemma rnd_raw_minus: "rnd_raw (- x) = - rnd_raw x"
  by (simp add: rnd_raw_def rne_minus)

lemma rnd_raw_0 [simp]: "rnd_raw 0 = 0"
  by (simp add: rnd_raw_def)

lemma rnd_raw_nonneg: "0 \<le> x \<Longrightarrow> 0 \<le> rnd_raw x"
  using rne_ge[of 0 "x / 2 powi ulp_exp x"] by (simp add: rnd_raw_def)

lemma rnd_raw_upper: "0 < x \<Longrightarrow> rnd_raw x \<le> 2 powi (ulp_exp x + 53)"
proof -
  assume "0 < x"
  have "x < 2 powi (ilog2 x + 1)" using ilog2_bounds[OF \<open>0 < x\<close>] by simp
  also have "\<dots> \<le> (2::rat) powi (ulp_exp x + 53)" using \<open>0 < x\<close> by (simp add: ulp_exp_def)
  finally have "x / 2 powi ulp_exp x \<le> of_int (2 ^ 53)"
    by (simp add: powi_split field_simps)
  then have "rne (x / 2 powi ulp_exp x) \<le> 2 ^ 53" by (rule rne_le)
  then have "of_int (rne (x / 2 powi ulp_exp x)) \<le> (of_int (2 ^ 53) :: rat)"
    by (simp only: of_int_le_iff)
  then show ?thesis using \<open>0 < x\<close> by (simp add: rnd_raw_def powi_split)
qed

lemma rnd_raw_lower: "0 < x \<Longrightarrow> -1022 \<le> ilog2 x \<Longrightarrow> 2 powi (ulp_exp x + 52) \<le> rnd_raw x"
proof -
  assume a: "0 < x" "-1022 \<le> ilog2 x"
  then have u: "ulp_exp x = ilog2 x - 52" by (simp add: ulp_exp_def)
  have "2 powi (ulp_exp x + 52) \<le> x" using ilog2_bounds[OF a(1)] by (simp add: u)
  then have "of_int (2 ^ 52) \<le> x / 2 powi ulp_exp x"
    by (simp add: powi_split field_simps)
  then have "2 ^ 52 \<le> rne (x / 2 powi ulp_exp x)" by (rule rne_ge)
  then have "(of_int (2 ^ 52) :: rat) \<le> of_int (rne (x / 2 powi ulp_exp x))"
    by (simp only: of_int_le_iff)
  then show ?thesis using a by (simp add: rnd_raw_def powi_split)
qed

lemma rnd_raw_mono_pos: assumes "0 < x" "x \<le> y" shows "rnd_raw x \<le> rnd_raw y"
proof (cases "ulp_exp x = ulp_exp y")
  case True
  have "rne (x / 2 powi ulp_exp y) \<le> rne (y / 2 powi ulp_exp y)"
    by (rule rne_mono) (simp add: assms divide_right_mono)
  then show ?thesis using assms by (simp add: rnd_raw_def True)
next
  case False
  have "ilog2 x \<le> ilog2 y" using assms by (rule ilog2_mono)
  with False assms have y: "-1022 \<le> ilog2 y" and lt: "ulp_exp x + 53 \<le> ulp_exp y + 52"
    by (auto simp: ulp_exp_def max_def split: if_splits)
  have "rnd_raw x \<le> 2 powi (ulp_exp x + 53)" using assms by (intro rnd_raw_upper) simp
  also have "\<dots> \<le> 2 powi (ulp_exp y + 52)" using lt by simp
  also have "\<dots> \<le> rnd_raw y" using assms y by (intro rnd_raw_lower) auto
  finally show ?thesis .
qed

lemma rnd_raw_mono: assumes "x \<le> y" shows "rnd_raw x \<le> rnd_raw y"
proof (cases "0 < x")
  case True then show ?thesis using assms by (rule rnd_raw_mono_pos)
next
  case x: False
  show ?thesis
  proof (cases "0 \<le> y")
    case True
    have "rnd_raw x \<le> 0" using rnd_raw_nonneg[of "- x"] x by (simp add: rnd_raw_minus)
    then show ?thesis using rnd_raw_nonneg[OF True] by linarith
  next
    case False
    then have "rnd_raw (- y) \<le> rnd_raw (- x)" using assms by (intro rnd_raw_mono_pos) auto
    then show ?thesis by (simp add: rnd_raw_minus)
  qed
qed

text \<open>The rationals a float64 can hold.\<close>

definition rep64 :: "rat \<Rightarrow> bool" where
  "rep64 x \<longleftrightarrow> rnd x = Fin x"

lemma rnd_raw_exact:
  assumes "x = of_int m * 2 powi k" "\<bar>m\<bar> \<le> 2 ^ 53" "-1074 \<le> k"
  shows "rnd_raw x = x"
proof (cases "x = 0")
  case True then show ?thesis by simp
next
  case False
  then have ax: "0 < \<bar>x\<bar>" by simp
  show ?thesis
  proof (cases "\<bar>m\<bar> = 2 ^ 53")
    case True
    have e: "\<bar>x\<bar> = 2 powi (k + 53)"
    proof -
      have "\<bar>x\<bar> = of_int \<bar>m\<bar> * 2 powi k" by (simp add: assms(1) abs_mult)
      then show ?thesis unfolding True by (simp add: powi_split)
    qed
    have il: "ilog2 \<bar>x\<bar> = k + 53" unfolding e by (rule ilog2_eqI) simp_all
    have u: "ulp_exp x = k + 1" using assms(3) by (simp add: ulp_exp_def il)
    have me: "m = 2 ^ 53 \<or> m = - (2 ^ 53)" using True by (auto simp: abs_if split: if_splits)
    have "x / 2 powi ulp_exp x = of_int (m div 2)"
      unfolding u using me by (auto simp: assms(1) powi_split)
    then have "rnd_raw x = of_int (m div 2) * 2 powi (k + 1)"
      using False by (simp add: rnd_raw_def u)
    then show ?thesis using me by (auto simp: assms(1) powi_split)
  next
    case False
    with assms(2) have m: "\<bar>m\<bar> < 2 ^ 53" by simp
    have "\<bar>x\<bar> = of_int \<bar>m\<bar> * 2 powi k" by (simp add: assms(1) abs_mult)
    also have "\<dots> < of_int (2 ^ 53) * 2 powi k" using m by (simp only: of_int_less_iff mult_less_cancel_right) simp
    also have "\<dots> = 2 powi (k + 53)" by (simp add: powi_split)
    finally have "ilog2 \<bar>x\<bar> < k + 53" using ax by (simp add: ilog2_less_iff)
    then have u: "ulp_exp x \<le> k" using assms(3) by (simp add: ulp_exp_def)
    define v where "v = ulp_exp x"
    have pk: "(2::rat) powi k = of_int (2 ^ nat (k - v)) * 2 powi v"
      using powi_split[of "k - v" v] powi_int[of "k - v"] u by (simp add: v_def)
    have x: "x = of_int (m * 2 ^ nat (k - v)) * 2 powi v"
      by (simp add: assms(1) pk)
    then have "x / 2 powi v = of_int (m * 2 ^ nat (k - v))" by simp
    then have "rne (x / 2 powi v) = m * 2 ^ nat (k - v)"
      by (simp only: rne_of_int)
    then have "of_int (rne (x / 2 powi v)) * 2 powi v = x" by (simp only: x[symmetric])
    then show ?thesis using ax unfolding rnd_raw_def v_def by simp
  qed
qed

lemma rnd_raw_shape:
  "\<exists>m k. rnd_raw x = of_int m * 2 powi k \<and> \<bar>m\<bar> \<le> 2 ^ 53 \<and> -1074 \<le> k"
proof -
  have pos: "\<exists>m k. rnd_raw x = of_int m * 2 powi k \<and> \<bar>m\<bar> \<le> 2 ^ 53 \<and> -1074 \<le> k" if x: "0 < x" for x
  proof -
    have "rnd_raw x \<le> 2 powi (ulp_exp x + 53)" "0 \<le> rnd_raw x"
      using rnd_raw_upper rnd_raw_nonneg x by simp_all
    then have "of_int (rne (x / 2 powi ulp_exp x)) \<le> (of_int (2 ^ 53) :: rat)"
      "(of_int 0 :: rat) \<le> of_int (rne (x / 2 powi ulp_exp x))"
      using x by (simp_all add: rnd_raw_def powi_split zero_le_mult_iff not_le)
    then have "\<bar>rne (x / 2 powi ulp_exp x)\<bar> \<le> 2 ^ 53" unfolding of_int_le_iff by simp
    moreover have "-1074 \<le> ulp_exp x" by (simp add: ulp_exp_def)
    ultimately show ?thesis using x unfolding rnd_raw_def by auto
  qed
  consider "0 < x" | "x = 0" | "0 < - x" by linarith
  then show ?thesis
  proof cases
    case 1 then show ?thesis by (rule pos)
  next
    case 2 then show ?thesis by (intro exI[of _ 0]) auto
  next
    case 3
    from pos[OF 3] obtain m k where "rnd_raw (- x) = of_int m * 2 powi k" "\<bar>m\<bar> \<le> 2 ^ 53" "-1074 \<le> k" by blast
    then show ?thesis by (intro exI[of _ "- m"] exI[of _ k]) (simp add: rnd_raw_minus)
  qed
qed

lemma rnd_raw_idem [simp]: "rnd_raw (rnd_raw x) = rnd_raw x"
  using rnd_raw_shape[of x] rnd_raw_exact by metis

lemma rnd_raw_error:
  assumes "2 powi (-1022) \<le> \<bar>x\<bar>"
  shows "\<bar>rnd_raw x - x\<bar> \<le> \<bar>x\<bar> * 2 powi (-53)"
proof -
  have ax: "0 < \<bar>x\<bar>" using assms powi_pos[of "-1022"] by linarith
  then have "\<not> ilog2 \<bar>x\<bar> < -1022" using assms by (simp add: ilog2_less_iff)
  then have u: "ulp_exp x = ilog2 \<bar>x\<bar> - 52" by (simp add: ulp_exp_def)
  define t where "t = (2::rat) powi ulp_exp x"
  have t: "0 < t" by (simp add: t_def)
  have "\<bar>of_int (rne (x / t)) - x / t\<bar> \<le> 1/2" using rne_bounds[of "x / t"] by linarith
  then have "\<bar>of_int (rne (x / t)) - x / t\<bar> * t \<le> 1/2 * t" using t by simp
  moreover have "\<bar>of_int (rne (x / t)) - x / t\<bar> * t = \<bar>rnd_raw x - x\<bar>"
  proof -
    have "\<bar>of_int (rne (x / t)) - x / t\<bar> * t = \<bar>(of_int (rne (x / t)) - x / t) * t\<bar>"
      using t by (simp add: abs_mult)
    also have "(of_int (rne (x / t)) - x / t) * t = rnd_raw x - x"
      using ax t by (simp add: rnd_raw_def t_def left_diff_distrib)
    finally show ?thesis .
  qed
  moreover have "1/2 * t = 2 powi (ilog2 \<bar>x\<bar>) * 2 powi (-53)"
    unfolding t_def u powi_split[symmetric] by (simp add: powi_diff power_int_minus)
  moreover have "(2::rat) powi (ilog2 \<bar>x\<bar>) * 2 powi (-53) \<le> \<bar>x\<bar> * 2 powi (-53)"
    using ilog2_bounds[OF ax] by simp
  ultimately show ?thesis by linarith
qed

definition f64_lim :: rat where
  "f64_lim = 2 powi 1024"

lemma f64_lim_pos [simp]: "0 < f64_lim"
  unfolding f64_lim_def by (rule powi_pos)

lemma rnd_alt: "rnd x = (if \<bar>rnd_raw x\<bar> < f64_lim then Fin (rnd_raw x)
    else if 0 < rnd_raw x then PInf else NInf)"
proof -
  have "rnd_raw x = 0 \<or> ilog2 \<bar>rnd_raw x\<bar> < 1024 \<longleftrightarrow> \<bar>rnd_raw x\<bar> < f64_lim"
    using ilog2_less_iff[of "\<bar>rnd_raw x\<bar>" 1024, folded f64_lim_def] by (cases "rnd_raw x = 0") simp_all
  then show ?thesis by (simp only: rnd_def Let_def)
qed

lemma rnd_cases:
  obtains (fin) "rnd x = Fin (rnd_raw x)" "\<bar>rnd_raw x\<bar> < f64_lim"
  | (pinf) "rnd x = PInf" "f64_lim \<le> rnd_raw x"
  | (ninf) "rnd x = NInf" "rnd_raw x \<le> - f64_lim"
  using that rnd_alt[of x] by (cases "\<bar>rnd_raw x\<bar> < f64_lim"; cases "0 < rnd_raw x") auto

lemma rnd_Fin_iff: "rnd x = Fin r \<Longrightarrow> r = rnd_raw x"
  by (cases x rule: rnd_cases) auto

lemma rnd_raw_small:
  assumes "\<bar>x\<bar> < 2 powi 1023"
  shows "rnd x = Fin (rnd_raw x)"
proof -
  have "rnd_raw x \<le> rnd_raw (2 powi 1023)" "rnd_raw (- (2 powi 1023)) \<le> rnd_raw x"
    using assms by (auto intro!: rnd_raw_mono)
  moreover have "rnd_raw (2 powi 1023) = 2 powi 1023" by (rule rnd_raw_exact[of _ 1 1023]) simp_all
  ultimately have b: "\<bar>rnd_raw x\<bar> \<le> 2 powi 1023" by (simp add: rnd_raw_minus abs_le_iff)
  moreover have "(2::rat) powi 1023 < 2 powi 1024" using powi_less_iff[of 1023 1024] by simp
  ultimately have "\<bar>rnd_raw x\<bar> < f64_lim" unfolding f64_lim_def by linarith
  then show ?thesis by (simp add: rnd_alt)
qed

section \<open>Arithmetic and comparison\<close>

definition inf_of_sign :: "rat \<Rightarrow> f64" where
  "inf_of_sign a = (if a = 0 then NaN else if 0 < a then PInf else NInf)"

instantiation f64 :: "{plus, minus, times, inverse, uminus, ord}"
begin

fun plus_f64 :: "f64 \<Rightarrow> f64 \<Rightarrow> f64" where
  "plus_f64 NaN _ = NaN"
| "plus_f64 _ NaN = NaN"
| "plus_f64 (Fin a) (Fin b) = rnd (a + b)"
| "plus_f64 PInf NInf = NaN"
| "plus_f64 NInf PInf = NaN"
| "plus_f64 PInf _ = PInf"
| "plus_f64 _ PInf = PInf"
| "plus_f64 NInf _ = NInf"
| "plus_f64 _ NInf = NInf"

fun uminus_f64 :: "f64 \<Rightarrow> f64" where
  "uminus_f64 NaN = NaN"
| "uminus_f64 PInf = NInf"
| "uminus_f64 NInf = PInf"
| "uminus_f64 (Fin a) = Fin (- a)"

definition minus_f64 :: "f64 \<Rightarrow> f64 \<Rightarrow> f64" where
  "minus_f64 x y = x + (- y)"

fun times_f64 :: "f64 \<Rightarrow> f64 \<Rightarrow> f64" where
  "times_f64 NaN _ = NaN"
| "times_f64 _ NaN = NaN"
| "times_f64 (Fin a) (Fin b) = rnd (a * b)"
| "times_f64 (Fin a) PInf = inf_of_sign a"
| "times_f64 (Fin a) NInf = inf_of_sign (- a)"
| "times_f64 PInf (Fin b) = inf_of_sign b"
| "times_f64 NInf (Fin b) = inf_of_sign (- b)"
| "times_f64 PInf PInf = PInf"
| "times_f64 NInf NInf = PInf"
| "times_f64 PInf NInf = NInf"
| "times_f64 NInf PInf = NInf"

fun divide_f64 :: "f64 \<Rightarrow> f64 \<Rightarrow> f64" where
  "divide_f64 NaN _ = NaN"
| "divide_f64 _ NaN = NaN"
| "divide_f64 (Fin a) (Fin b) = (if b = 0 then inf_of_sign a else rnd (a / b))"
| "divide_f64 (Fin a) _ = Fin 0"
| "divide_f64 PInf (Fin b) = (if b < 0 then NInf else PInf)"
| "divide_f64 NInf (Fin b) = (if b < 0 then PInf else NInf)"
| "divide_f64 _ _ = NaN"

definition inverse_f64 :: "f64 \<Rightarrow> f64" where
  "inverse_f64 x = divide (Fin 1) x"

fun less_f64 :: "f64 \<Rightarrow> f64 \<Rightarrow> bool" where
  "less_f64 NaN _ = False"
| "less_f64 _ NaN = False"
| "less_f64 (Fin a) (Fin b) = (a < b)"
| "less_f64 _ NInf = False"
| "less_f64 PInf _ = False"
| "less_f64 _ _ = True"

fun less_eq_f64 :: "f64 \<Rightarrow> f64 \<Rightarrow> bool" where
  "less_eq_f64 NaN _ = False"
| "less_eq_f64 _ NaN = False"
| "less_eq_f64 (Fin a) (Fin b) = (a \<le> b)"
| "less_eq_f64 NInf _ = True"
| "less_eq_f64 _ PInf = True"
| "less_eq_f64 _ _ = False"

instance ..

end

lemma minus_Fin [simp]: "Fin a - Fin b = rnd (a - b)"
  by (simp add: minus_f64_def)

lemma f64_le_trans: "x \<le> y \<Longrightarrow> y \<le> z \<Longrightarrow> x \<le> (z::f64)"
  by (cases x; cases y; cases z) auto

lemma f64_le_refl: "x \<noteq> NaN \<Longrightarrow> x \<le> (x::f64)"
  by (cases x) auto

lemma f64_le_antisym: "x \<le> y \<Longrightarrow> y \<le> x \<Longrightarrow> x = (y::f64)"
  by (cases x; cases y) auto

lemma f64_between: "Fin a \<le> x \<Longrightarrow> x \<le> Fin b \<Longrightarrow> \<exists>r. x = Fin r \<and> a \<le> r \<and> r \<le> b"
  by (cases x) auto

lemma f64_not_less: "x \<noteq> NaN \<Longrightarrow> y \<noteq> NaN \<Longrightarrow> \<not> x < y \<longleftrightarrow> y \<le> (x::f64)"
  by (cases x; cases y) auto

lemma f64_less_imp_le: "x < y \<Longrightarrow> x \<le> (y::f64)"
  by (cases x; cases y) auto

lemma rnd_not_NaN [simp]: "rnd x \<noteq> NaN" "NaN \<noteq> rnd x"
  by (cases x rule: rnd_cases; simp)+

lemma rnd_mono: "x \<le> y \<Longrightarrow> rnd x \<le> rnd y"
proof -
  assume "x \<le> y"
  then have m: "rnd_raw x \<le> rnd_raw y" by (rule rnd_raw_mono)
  show ?thesis
    using m f64_lim_pos by (auto simp: rnd_alt simp del: f64_lim_pos)
qed

lemma rep64_exact: "\<bar>m\<bar> \<le> 2 ^ 53 \<Longrightarrow> -1074 \<le> k \<Longrightarrow> k \<le> 960 \<Longrightarrow> rep64 (of_int m * 2 powi k)"
proof -
  assume a: "\<bar>m\<bar> \<le> 2 ^ 53" "-1074 \<le> k" "k \<le> 960"
  have "\<bar>of_int m * 2 powi k\<bar> = of_int \<bar>m\<bar> * (2 powi k :: rat)" by (simp add: abs_mult)
  also have "\<dots> \<le> of_int (2 ^ 53) * 2 powi k"
    using a(1) by (intro mult_right_mono) (simp only: of_int_le_iff, simp)
  also have "\<dots> = 2 powi (53 + k)" by (simp add: powi_split)
  also have "\<dots> < 2 powi 1023" using a(3) by (simp only: powi_less_iff)
  finally have "rnd (of_int m * 2 powi k) = Fin (rnd_raw (of_int m * 2 powi k))" by (rule rnd_raw_small)
  then show ?thesis using rnd_raw_exact[of _ m k] a by (simp add: rep64_def)
qed

lemma rnd_of_int: "\<bar>m\<bar> \<le> 2 ^ 53 \<Longrightarrow> rnd (of_int m) = Fin (of_int m)"
  using rep64_exact[of m 0] by (simp add: rep64_def)

lemma rep64_raw: "rnd x = Fin r \<Longrightarrow> rep64 r"
  by (cases x rule: rnd_cases) (auto simp: rep64_def rnd_alt)

section \<open>The math package\<close>

fun is_nan :: "f64 \<Rightarrow> bool" where
  "is_nan NaN = True"
| "is_nan _ = False"

fun is_inf :: "f64 \<Rightarrow> bool" where
  "is_inf PInf = True"
| "is_inf NInf = True"
| "is_inf _ = False"

definition fmax :: "f64 \<Rightarrow> f64 \<Rightarrow> f64" where
  "fmax x y = (if x = PInf \<or> y = PInf then PInf else if is_nan x \<or> is_nan y then NaN
     else if y < x then x else y)"

definition fmin :: "f64 \<Rightarrow> f64 \<Rightarrow> f64" where
  "fmin x y = (if x = NInf \<or> y = NInf then NInf else if is_nan x \<or> is_nan y then NaN
     else if x < y then x else y)"

fun fabs :: "f64 \<Rightarrow> f64" where
  "fabs NaN = NaN"
| "fabs PInf = PInf"
| "fabs NInf = PInf"
| "fabs (Fin a) = Fin \<bar>a\<bar>"

fun fceil :: "f64 \<Rightarrow> f64" where
  "fceil (Fin a) = Fin (of_int \<lceil>a\<rceil>)"
| "fceil x = x"

fun ffloor :: "f64 \<Rightarrow> f64" where
  "ffloor (Fin a) = Fin (of_int \<lfloor>a\<rfloor>)"
| "ffloor x = x"

text \<open>\<open>math.Round\<close>: half away from zero.\<close>

definition round_away :: "rat \<Rightarrow> int" where
  "round_away a = (if a < 0 then - \<lfloor>- a + 1/2\<rfloor> else \<lfloor>a + 1/2\<rfloor>)"

fun fround :: "f64 \<Rightarrow> f64" where
  "fround (Fin a) = Fin (of_int (round_away a))"
| "fround x = x"

definition trunc :: "rat \<Rightarrow> int" where
  "trunc a = (if a < 0 then - \<lfloor>- a\<rfloor> else \<lfloor>a\<rfloor>)"

fun f2i :: "f64 \<Rightarrow> int" where
  "f2i (Fin a) = (if - (2 ^ 63) \<le> trunc a \<and> trunc a < 2 ^ 63 then trunc a else - (2 ^ 63))"
| "f2i _ = - (2 ^ 63)"

definition i2f :: "int \<Rightarrow> f64" where
  "i2f n = rnd (of_int n)"

lemma fmax_Fin [simp]: "fmax (Fin a) (Fin b) = Fin (max a b)"
  by (simp add: fmax_def max_def)

lemma fmin_Fin [simp]: "fmin (Fin a) (Fin b) = Fin (min a b)"
  by (simp add: fmin_def min_def)

lemma fmax_ge: "x \<noteq> NaN \<Longrightarrow> y \<noteq> NaN \<Longrightarrow> x \<le> fmax x y \<and> y \<le> fmax x y"
  by (cases x; cases y) (auto simp: fmax_def)

lemma fmin_le: "x \<noteq> NaN \<Longrightarrow> y \<noteq> NaN \<Longrightarrow> fmin x y \<le> x \<and> fmin x y \<le> y"
  by (cases x; cases y) (auto simp: fmin_def)

lemma fmax_lub: "x \<le> z \<Longrightarrow> y \<le> z \<Longrightarrow> fmax x y \<le> z"
  by (cases x; cases y; cases z) (auto simp: fmax_def)

lemma fmin_glb: "z \<le> x \<Longrightarrow> z \<le> y \<Longrightarrow> z \<le> fmin x y"
  by (cases x; cases y; cases z) (auto simp: fmin_def)

lemma trunc_mono: "a \<le> b \<Longrightarrow> trunc a \<le> trunc b"
proof -
  assume ab: "a \<le> b"
  have neg: "0 \<le> \<lfloor>- a\<rfloor>" if "a < 0" using that by simp
  have pos: "0 \<le> \<lfloor>b\<rfloor>" if "\<not> b < 0" using that by simp
  show ?thesis
    using ab neg pos floor_mono[of a b] floor_mono[of "- b" "- a"] unfolding trunc_def
    by (cases "a < 0"; cases "b < 0"; simp only: if_True if_False; linarith)
qed

lemma round_away_mono: assumes "a \<le> b" shows "round_away a \<le> round_away b"
proof -
  consider "a < 0" "b < 0" | "a < 0" "\<not> b < 0" | "\<not> a < 0" "\<not> b < 0"
    using assms by linarith
  then show ?thesis
  proof cases
    case 1
    then show ?thesis using floor_mono[of "- b + 1/2" "- a + 1/2"] assms by (simp add: round_away_def)
  next
    case 2
    then have "0 \<le> \<lfloor>- a + 1/2\<rfloor>" "0 \<le> \<lfloor>b + 1/2\<rfloor>" by simp_all
    with 2 show ?thesis unfolding round_away_def by presburger
  next
    case 3
    then show ?thesis using floor_mono[of "a + 1/2" "b + 1/2"] assms by (simp add: round_away_def)
  qed
qed

lemma round_away_bounds: "\<bar>of_int (round_away a) - a\<bar> \<le> 1/2"
proof (cases "a < 0")
  case True
  then show ?thesis using floor_correct[of "- a + 1/2"]
    unfolding round_away_def if_P[OF True] by (simp only: of_int_minus of_int_add of_int_1) linarith
next
  case False
  then show ?thesis using floor_correct[of "a + 1/2"]
    unfolding round_away_def if_not_P[OF False] by (simp only: of_int_minus of_int_add of_int_1) linarith
qed

lemma le_PInf [simp]: "x \<le> PInf \<longleftrightarrow> x \<noteq> NaN" and NInf_le [simp]: "NInf \<le> x \<longleftrightarrow> x \<noteq> NaN"
  by (cases x; simp)+

lemma f64_times_mono: "x \<le> y \<Longrightarrow> 0 < c \<Longrightarrow> x * Fin c \<le> y * Fin c"
  by (cases x; cases y) (auto simp: inf_of_sign_def intro!: rnd_mono mult_right_mono)

lemma f64_divide_mono: "x \<le> y \<Longrightarrow> 0 < c \<Longrightarrow> x / Fin c \<le> y / Fin c"
  by (cases x; cases y) (auto intro!: rnd_mono divide_right_mono)

lemma f64_plus_mono: "x \<le> y \<Longrightarrow> x + Fin e \<le> y + Fin e"
  by (cases x; cases y) (auto intro!: rnd_mono)

lemma f64_minus_mono: "x \<le> y \<Longrightarrow> x - Fin e \<le> y - Fin e"
  by (simp add: minus_f64_def f64_plus_mono)

lemma fceil_mono: "x \<le> y \<Longrightarrow> fceil x \<le> fceil y" and ffloor_mono: "x \<le> y \<Longrightarrow> ffloor x \<le> ffloor y"
  by (cases x; cases y; auto intro: ceiling_mono floor_mono)+

lemma is_nan_iff [simp]: "is_nan x \<longleftrightarrow> x = NaN"
  by (cases x) auto

lemma not_NaN_simps [simp]:
  "Fin e + x = NaN \<longleftrightarrow> x = NaN" "Fin e - x = NaN \<longleftrightarrow> x = NaN"
  "x + Fin e = NaN \<longleftrightarrow> x = NaN" "x - Fin e = NaN \<longleftrightarrow> x = NaN"
  "c \<noteq> 0 \<Longrightarrow> x * Fin c = NaN \<longleftrightarrow> x = NaN" "c \<noteq> 0 \<Longrightarrow> Fin c * x = NaN \<longleftrightarrow> x = NaN"
  "c \<noteq> 0 \<Longrightarrow> x / Fin c = NaN \<longleftrightarrow> x = NaN"
  "fceil x = NaN \<longleftrightarrow> x = NaN" "ffloor x = NaN \<longleftrightarrow> x = NaN" "fround x = NaN \<longleftrightarrow> x = NaN" "fabs x = NaN \<longleftrightarrow> x = NaN"
  by (cases x; simp add: minus_f64_def inf_of_sign_def)+

lemma f64_le_not_less: "x \<le> y \<Longrightarrow> \<not> y < (x::f64)"
  by (cases x; cases y) auto

end
