(* ===== verification/Prelude.thy ===== *)
theory Prelude
  imports Float64
begin

text \<open>
  Shared by every component: the hint collections, Go's clock values and 64-bit integers, the
  \<open>fmt\<close> verbs the reasons and messages use, errors as values, and generic facts on lists and
  maps. An instant is the number of nanoseconds since Go's zero time (1 January of year 1, UTC), so
  \<open>time.Time{}\<close> is \<open>0\<close>; a duration is a number of nanoseconds.
\<close>

named_theorems model_defs \<open>unfolding of the small definitions of the model\<close>
named_theorems float_simps \<open>evaluation of float operations on finite operands\<close>

section \<open>Machine integers and clock values\<close>

type_synonym instant = int
type_synonym duration = int

definition wrap64 :: "int \<Rightarrow> int" where
  "wrap64 n = (n + 2 ^ 63) mod 2 ^ 64 - 2 ^ 63"

lemma wrap64_id [simp]: "- (2 ^ 63) \<le> n \<Longrightarrow> n < 2 ^ 63 \<Longrightarrow> wrap64 n = n"
  by (simp add: wrap64_def)

lemma wrap64_range: "- (2 ^ 63) \<le> wrap64 n \<and> wrap64 n < 2 ^ 63"
  using pos_mod_bound[of "2 ^ 64" "n + 2 ^ 63"] pos_mod_sign[of "2 ^ 64" "n + 2 ^ 63"]
  by (simp add: wrap64_def)

definition Second :: duration where "Second = 1000000000"
definition Minute :: duration where "Minute = 60 * Second"
definition Hour :: duration where "Hour = 60 * Minute"

text \<open>\<open>time.Time.Sub\<close> saturates at the range of a duration; \<open>Add\<close>, \<open>Before\<close>, \<open>After\<close> and
  \<open>IsZero\<close> are \<open>+\<close>, \<open><\<close>, \<open>>\<close> and comparison with \<open>0\<close>.\<close>

definition time_Sub :: "instant \<Rightarrow> instant \<Rightarrow> duration" where
  "time_Sub a b = max (- (2 ^ 63)) (min (2 ^ 63 - 1) (a - b))"

definition IsZero :: "instant \<Rightarrow> bool" where
  "IsZero t \<longleftrightarrow> t = 0"

lemmas time_defs = Second_def Minute_def Hour_def

lemma time_Sub_less_iff: "- (2 ^ 63) < d \<Longrightarrow> d < 2 ^ 63 \<Longrightarrow> time_Sub a b < d \<longleftrightarrow> a - b < d"
  by (auto simp: time_Sub_def)

lemma time_Sub_greater_iff: "- (2 ^ 63) \<le> d \<Longrightarrow> d < 2 ^ 63 - 1 \<Longrightarrow> d < time_Sub a b \<longleftrightarrow> d < a - b"
  by (auto simp: time_Sub_def)

section \<open>Formatting\<close>

definition digit :: "int \<Rightarrow> char" where
  "digit d = char_of (48 + d)"

fun dec_digits :: "int \<Rightarrow> string" where
  "dec_digits n = (if n < 10 then [digit n] else dec_digits (n div 10) @ [digit (n mod 10)])"

declare dec_digits.simps [simp del]

definition dec_int :: "int \<Rightarrow> string" where
  "dec_int n = (if n < 0 then ''-'' @ dec_digits (- n) else dec_digits n)"

definition is_digit :: "char \<Rightarrow> bool" where
  "is_digit c \<longleftrightarrow> 48 \<le> (of_char c :: int) \<and> (of_char c :: int) \<le> 57"

definition digits_value :: "string \<Rightarrow> int" where
  "digits_value ds = foldl (\<lambda>n c. 10 * n + (of_char c - 48)) 0 ds"

lemma of_char_digit: "0 \<le> d \<Longrightarrow> d < 10 \<Longrightarrow> (of_char (digit d) :: int) = 48 + d"
  by (simp add: digit_def of_char_of)

lemma is_digit_digit [simp]: "0 \<le> d \<Longrightarrow> d < 10 \<Longrightarrow> is_digit (digit d)"
  by (simp add: is_digit_def of_char_digit)

lemma dec_digits_are_digits: "0 \<le> n \<Longrightarrow> list_all is_digit (dec_digits n)"
  by (induction n rule: dec_digits.induct) (subst dec_digits.simps, simp)

lemma dec_digits_nonempty [simp]: "dec_digits n \<noteq> []"
  by (subst dec_digits.simps) simp

lemma digits_value_snoc: "digits_value (ds @ [c]) = 10 * digits_value ds + (of_char c - 48)"
  by (simp add: digits_value_def)

lemma digits_value_dec_digits: "0 \<le> n \<Longrightarrow> digits_value (dec_digits n) = n"
proof (induction n rule: dec_digits.induct)
  case (1 n)
  show ?case
  proof (cases "n < 10")
    case True
    then show ?thesis using 1(2) by (subst dec_digits.simps) (simp add: digits_value_def of_char_digit)
  next
    case False
    then have "digits_value (dec_digits (n div 10)) = n div 10" using 1 by simp
    then show ?thesis using False 1(2) by (subst dec_digits.simps) (simp add: digits_value_snoc of_char_digit)
  qed
qed

text \<open>\<open>%.<d>f\<close>: the exact value rounded half to even at \<open>d\<close> decimals, as \<open>strconv\<close> does.\<close>

fun fmt_f :: "nat \<Rightarrow> f64 \<Rightarrow> string" where
  "fmt_f d NaN = ''NaN''"
| "fmt_f d PInf = ''+Inf''"
| "fmt_f d NInf = ''-Inf''"
| "fmt_f d (Fin r) =
    (let n = rne (\<bar>r\<bar> * 10 ^ d); frac = dec_digits (n mod 10 ^ d)
     in (if r < 0 then ''-'' else '''') @ dec_digits (n div 10 ^ d)
        @ (if d = 0 then '''' else ''.'' @ replicate (d - length frac) (CHR ''0'') @ frac))"

section \<open>Lists and maps\<close>

lemma length_filter_mono: "(\<And>x. x \<in> set xs \<Longrightarrow> P x \<Longrightarrow> Q x) \<Longrightarrow> length (filter P xs) \<le> length (filter Q xs)"
  by (induction xs) (auto simp: le_SucI)

lemma foldl_inv:
  assumes "P s" "\<And>s x. x \<in> set xs \<Longrightarrow> P s \<Longrightarrow> P (f s x)"
  shows "P (foldl f s xs)"
  using assms by (induction xs arbitrary: s) auto

text \<open>A loop invariant that speaks of the elements already visited.\<close>

lemma foldl_prefix_inv:
  assumes "P [] s" "\<And>xs1 x xs2 s. xs = xs1 @ x # xs2 \<Longrightarrow> P xs1 s \<Longrightarrow> P (xs1 @ [x]) (f s x)"
  shows "P xs (foldl f s xs)"
proof -
  have "P ys (foldl f s ys)" if "xs = ys @ zs" for ys zs
    using that
  proof (induction ys arbitrary: zs rule: rev_induct)
    case Nil
    then show ?case using assms(1) by simp
  next
    case (snoc y ys)
    have "P ys (foldl f s ys)" using snoc.IH[of "y # zs"] snoc.prems by simp
    then show ?case using assms(2)[of ys y zs "foldl f s ys"] snoc.prems by simp
  qed
  from this[of xs "[]"] show ?thesis by simp
qed

lemma find_unique: "distinct (map g xs) \<Longrightarrow> x \<in> set xs \<Longrightarrow> find (\<lambda>r. g r = g x) xs = Some x"
  by (induction xs) auto

end
