(* ===== verification/Money.thy ===== *)
theory Money
  imports Float64
begin

text \<open>
  Money values: \<open>Round2\<close> and \<open>Round4\<close> of \<open>internal/pricing/engine.go\<close> and \<open>round2Money\<close> of
  \<open>internal/store/money.go\<close>. \<open>cents k\<close> is the float nearest to k/100. The locale \<open>quantizer\<close> states what
  a rounding routine promises (monotone grid, values between grid points stay between them) and its
  facts are obtained for \<open>Round2\<close> and \<open>Round4\<close> by interpretation.
\<close>

definition finite_f :: "f64 \<Rightarrow> bool" where
  "finite_f v \<longleftrightarrow> \<not> is_nan v \<and> \<not> is_inf v"

definition posFinite :: "f64 \<Rightarrow> bool" where
  "posFinite v \<longleftrightarrow> Fin 0 < v \<and> finite_f v"

definition Round2 :: "f64 \<Rightarrow> f64" where
  "Round2 v =
    (if \<not> finite_f v \<or> Fin (10 ^ 15) \<le> v \<or> v \<le> Fin (- (10 ^ 15)) then Fin 0
     else if Fin 0 \<le> v then i2f (f2i (v * Fin 100 + Fin (1/2))) / Fin 100
     else i2f (f2i (v * Fin 100 - Fin (1/2))) / Fin 100)"

definition Round4 :: "f64 \<Rightarrow> f64" where
  "Round4 v = fround (v * Fin 10000) / Fin 10000"

definition cents :: "int \<Rightarrow> f64" where
  "cents k = rnd (of_int k / 100)"

definition cent_of :: "rat \<Rightarrow> int" where
  "cent_of a = (if 0 \<le> a then trunc (rnd_raw (rnd_raw (a * 100) + 1/2))
                else trunc (rnd_raw (rnd_raw (a * 100) - 1/2)))"

lemma finite_f_Fin [simp]: "finite_f (Fin a)"
  by (simp add: finite_f_def)

lemma finite_f_iff: "finite_f v \<longleftrightarrow> (\<exists>a. v = Fin a)"
  by (cases v) (auto simp: finite_f_def)

lemma rnd_raw_abs_le:
  assumes "\<bar>x\<bar> \<le> of_int (2 ^ n)" "n \<le> 1000"
  shows "\<bar>rnd_raw x\<bar> \<le> of_int (2 ^ n)"
proof -
  have e: "rnd_raw (of_int (2 ^ n)) = of_int (2 ^ n)"
    by (rule rnd_raw_exact[of _ 1 "int n"]) simp_all
  have "rnd_raw x \<le> rnd_raw (of_int (2 ^ n))" "rnd_raw (- of_int (2 ^ n)) \<le> rnd_raw x"
    using assms by (auto intro!: rnd_raw_mono)
  then show ?thesis using e by (simp add: rnd_raw_minus abs_le_iff)
qed

lemma rnd_Fin_of_le:
  assumes "\<bar>x\<bar> \<le> of_int (2 ^ n)" "n \<le> 1000"
  shows "rnd x = Fin (rnd_raw x)"
proof (rule rnd_raw_small)
  have "\<bar>x\<bar> \<le> 2 powi (int n)" using assms(1) by simp
  also have "\<dots> < 2 powi 1023" using assms(2) by (simp only: powi_less_iff)
  finally show "\<bar>x\<bar> < 2 powi 1023" .
qed

lemma cent_steps:
  assumes "\<bar>a\<bar> < 10 ^ 15"
  shows "\<bar>rnd_raw (a * 100)\<bar> \<le> of_int (2 ^ 57)"
    "rnd (a * 100) = Fin (rnd_raw (a * 100))"
    "\<bar>rnd_raw (rnd_raw (a * 100) + 1/2)\<bar> \<le> of_int (2 ^ 58)"
    "\<bar>rnd_raw (rnd_raw (a * 100) - 1/2)\<bar> \<le> of_int (2 ^ 58)"
    "rnd (rnd_raw (a * 100) + 1/2) = Fin (rnd_raw (rnd_raw (a * 100) + 1/2))"
    "rnd (rnd_raw (a * 100) - 1/2) = Fin (rnd_raw (rnd_raw (a * 100) - 1/2))"
proof -
  have b: "\<bar>a * 100\<bar> \<le> of_int (2 ^ 57)" using assms by (simp add: abs_mult)
  show 1: "\<bar>rnd_raw (a * 100)\<bar> \<le> of_int (2 ^ 57)" using b by (rule rnd_raw_abs_le) simp
  show "rnd (a * 100) = Fin (rnd_raw (a * 100))" using b by (rule rnd_Fin_of_le) simp
  have c: "\<bar>rnd_raw (a * 100) + 1/2\<bar> \<le> of_int (2 ^ 58)" "\<bar>rnd_raw (a * 100) - 1/2\<bar> \<le> of_int (2 ^ 58)"
    using 1 by (auto simp: abs_le_iff)
  show "\<bar>rnd_raw (rnd_raw (a * 100) + 1/2)\<bar> \<le> of_int (2 ^ 58)"
    "\<bar>rnd_raw (rnd_raw (a * 100) - 1/2)\<bar> \<le> of_int (2 ^ 58)"
    using rnd_raw_abs_le[OF c(1)] rnd_raw_abs_le[OF c(2)] by simp_all
  show "rnd (rnd_raw (a * 100) + 1/2) = Fin (rnd_raw (rnd_raw (a * 100) + 1/2))"
    "rnd (rnd_raw (a * 100) - 1/2) = Fin (rnd_raw (rnd_raw (a * 100) - 1/2))"
    using rnd_Fin_of_le[OF c(1)] rnd_Fin_of_le[OF c(2)] by simp_all
qed

lemma trunc_abs_le: "\<bar>a\<bar> \<le> of_int n \<Longrightarrow> \<bar>trunc a\<bar> \<le> n"
proof -
  assume "\<bar>a\<bar> \<le> of_int n"
  then have "a \<le> of_int n" "of_int (- n) \<le> a" by (auto simp: abs_le_iff)
  then have "trunc a \<le> trunc (of_int n)" "trunc (of_int (- n)) \<le> trunc a" by (auto intro: trunc_mono)
  moreover have "trunc (of_int k) = k" for k by (simp add: trunc_def)
  ultimately show ?thesis by (metis abs_le_iff minus_le_iff)
qed

lemma cent_of_abs_le: assumes "\<bar>a\<bar> < 10 ^ 15" shows "\<bar>cent_of a\<bar> \<le> 2 ^ 58"
  using trunc_abs_le[OF cent_steps(3)[OF assms]] trunc_abs_le[OF cent_steps(4)[OF assms]]
  by (simp add: cent_of_def)

lemma Round2_Fin:
  assumes "\<bar>a\<bar> < 10 ^ 15"
  shows "Round2 (Fin a) = i2f (cent_of a) / Fin 100"
proof -
  note c = cent_steps[OF assms]
  have t: "\<bar>trunc (rnd_raw (rnd_raw (a * 100) + 1/2))\<bar> \<le> 2 ^ 58"
    "\<bar>trunc (rnd_raw (rnd_raw (a * 100) - 1/2))\<bar> \<le> 2 ^ 58"
    using trunc_abs_le[OF c(3)] trunc_abs_le[OF c(4)] by simp_all
  then have "f2i (Fin a * Fin 100 + Fin (1/2)) = trunc (rnd_raw (rnd_raw (a * 100) + 1/2))"
    "f2i (Fin a * Fin 100 - Fin (1/2)) = trunc (rnd_raw (rnd_raw (a * 100) - 1/2))"
    using c(2,5,6) by (simp_all add: abs_le_iff)
  then show ?thesis using assms by (auto simp: Round2_def cent_of_def abs_less_iff)
qed

lemma cent_of_mono: assumes "a \<le> b" shows "cent_of a \<le> cent_of b"
proof -
  have m: "rnd_raw (a * 100) \<le> rnd_raw (b * 100)" using assms by (intro rnd_raw_mono) simp
  have p: "trunc (rnd_raw (rnd_raw (a * 100) + 1/2)) \<le> trunc (rnd_raw (rnd_raw (b * 100) + 1/2))"
    "trunc (rnd_raw (rnd_raw (a * 100) - 1/2)) \<le> trunc (rnd_raw (rnd_raw (b * 100) - 1/2))"
    using m by (auto intro!: trunc_mono rnd_raw_mono)
  have q: "trunc (rnd_raw (rnd_raw (a * 100) - 1/2)) \<le> trunc (rnd_raw (rnd_raw (b * 100) + 1/2))"
    using m by (auto intro!: trunc_mono rnd_raw_mono)
  show ?thesis using p q assms by (auto simp: cent_of_def)
qed

lemma i2f_div_mono: "m \<le> n \<Longrightarrow> \<bar>m\<bar> \<le> 2 ^ 58 \<Longrightarrow> \<bar>n\<bar> \<le> 2 ^ 58 \<Longrightarrow> i2f m / Fin 100 \<le> i2f n / Fin 100"
proof -
  assume a: "m \<le> n" "\<bar>m\<bar> \<le> 2 ^ 58" "\<bar>n\<bar> \<le> 2 ^ 58"
  have f: "i2f k = Fin (rnd_raw (of_int k))" if "\<bar>k\<bar> \<le> 2 ^ 58" for k
  proof -
    have "of_int \<bar>k\<bar> \<le> (of_int (2 ^ 58) :: rat)" using that by (simp only: of_int_le_iff)
    then show ?thesis unfolding i2f_def by (intro rnd_Fin_of_le[of _ 58]) simp_all
  qed
  have "rnd_raw (of_int m) \<le> rnd_raw (of_int n)" using a(1) by (intro rnd_raw_mono) simp
  then show ?thesis using f[OF a(2)] f[OF a(3)] by (auto intro!: rnd_mono divide_right_mono)
qed

lemma Round2_mono:
  assumes "a \<le> b" "\<bar>a\<bar> < 10 ^ 15" "\<bar>b\<bar> < 10 ^ 15"
  shows "Round2 (Fin a) \<le> Round2 (Fin b)"
  unfolding Round2_Fin[OF assms(2)] Round2_Fin[OF assms(3)]
  by (intro i2f_div_mono cent_of_mono cent_of_abs_le assms)

lemma rnd_raw_error_le:
  assumes "\<bar>x\<bar> \<le> B" "1 \<le> B"
  shows "\<bar>rnd_raw x - x\<bar> \<le> B * 2 powi (-53)"
proof (cases "2 powi (-1022) \<le> \<bar>x\<bar>")
  case True
  have "\<bar>x\<bar> * 2 powi (-53) \<le> B * (2 powi (-53) :: rat)" using assms by (intro mult_right_mono) auto
  with rnd_raw_error[OF True] show ?thesis by linarith
next
  case False
  then have lt: "\<bar>x\<bar> < 2 powi (-1022)" by (simp only: not_le)
  have e: "rnd_raw (2 powi (-1022)) = 2 powi (-1022)" by (rule rnd_raw_exact[of _ 1 "-1022"]) simp_all
  have "rnd_raw x \<le> rnd_raw (2 powi (-1022))" "rnd_raw (- (2 powi (-1022))) \<le> rnd_raw x"
    using lt by (auto intro!: rnd_raw_mono simp only: abs_less_iff)
  then have "rnd_raw x \<le> 2 powi (-1022)" "- (2 powi (-1022)) \<le> rnd_raw x"
    by (simp_all only: e rnd_raw_minus)
  then have "\<bar>rnd_raw x - x\<bar> \<le> 2 powi (-1022) + 2 powi (-1022)" using lt by linarith
  also have "\<dots> = (2::rat) powi (-1021)" using powi_split[of "-1022" 1] by simp
  also have "\<dots> \<le> 2 powi (-53)" by (simp only: powi_le_iff)
  also have "\<dots> \<le> B * 2 powi (-53)" using assms(2) by simp
  finally show ?thesis .
qed


lemma cent_of_minus: "cent_of (- a) = - cent_of a"
proof -
  have m: "rnd_raw (- (a * 100)) = - rnd_raw (a * 100)" by (rule rnd_raw_minus)
  have p: "rnd_raw (rnd_raw (- (a * 100)) - 1/2) = - rnd_raw (rnd_raw (a * 100) + 1/2)"
    "rnd_raw (rnd_raw (- (a * 100)) + 1/2) = - rnd_raw (rnd_raw (a * 100) - 1/2)"
    using rnd_raw_minus[of "rnd_raw (a * 100) + 1/2"] rnd_raw_minus[of "rnd_raw (a * 100) - 1/2"]
    by (simp_all add: m)
  have t: "trunc (- x) = - trunc x" for x by (auto simp: trunc_def)
  have h: "trunc (rnd_raw (1/2)) = 0"
  proof -
    have "rnd_raw (1/2) = 1/2" by (rule rnd_raw_exact[of _ 1 "-1"]) (simp_all add: power_int_minus)
    then show ?thesis by (simp add: trunc_def floor_eq_iff)
  qed
  have hm: "trunc (rnd_raw (- (1/2))) = 0" using h t[of "rnd_raw (1/2)"] by (simp add: rnd_raw_minus)
  show ?thesis
    by (cases "a = 0") (use h hm p in \<open>auto simp: cent_of_def t\<close>)
qed

lemma cent_of_near:
  assumes "0 \<le> a" "a \<le> 2 ^ 33"
  shows "\<bar>of_int (cent_of a) - a * 100\<bar> \<le> 1/2 + 1/1000"
proof -
  define w where "w = rnd_raw (a * 100)"
  define v where "v = rnd_raw (w + 1/2)"
  have "\<bar>w - a * 100\<bar> \<le> 2 ^ 40 * 2 powi (-53)"
    unfolding w_def using assms by (intro rnd_raw_error_le) auto
  then have ew: "\<bar>w - a * 100\<bar> \<le> 1/8192" by (simp add: power_int_minus)
  have w0: "0 \<le> w" unfolding w_def using assms by (intro rnd_raw_nonneg) simp
  have w1: "w \<le> 2 ^ 40" using abs_le_D1[OF ew] assms(2) by simp
  have "\<bar>v - (w + 1/2)\<bar> \<le> 2 ^ 41 * 2 powi (-53)"
    unfolding v_def using w0 w1 by (intro rnd_raw_error_le) auto
  then have ev: "\<bar>v - (w + 1/2)\<bar> \<le> 1/4096" by (simp add: power_int_minus)
  then have "0 \<le> v" using w0 unfolding abs_le_iff by linarith
  then have t: "of_int (trunc v) \<le> v" "v < of_int (trunc v) + 1"
    using floor_correct[of v] by (simp_all add: trunc_def)
  have c: "cent_of a = trunc v" using assms by (simp add: cent_of_def v_def w_def)
  show ?thesis unfolding c using abs_le_D1[OF ew] abs_le_D2[OF ew] abs_le_D1[OF ev] abs_le_D2[OF ev] t
    by (intro abs_leI) linarith+
qed

lemma cents_Fin: "\<bar>k\<bar> \<le> 2 ^ 58 \<Longrightarrow> cents k = Fin (rnd_raw (of_int k / 100))"
proof -
  assume "\<bar>k\<bar> \<le> 2 ^ 58"
  then have "of_int \<bar>k\<bar> \<le> (of_int (2 ^ 58) :: rat)" by (simp only: of_int_le_iff)
  then show ?thesis unfolding cents_def by (intro rnd_Fin_of_le[of _ 58]) (simp_all add: field_simps)
qed

lemma cent_of_cents_nonneg:
  assumes "0 \<le> k" "k \<le> 2 ^ 50"
  shows "cent_of (rnd_raw (of_int k / 100)) = k"
proof -
  define a where "a = rnd_raw (of_int k / 100)"
  define K :: rat where "K = of_int k"
  have K: "0 \<le> K" "K \<le> 2 ^ 50"
    using assms of_int_le_iff[of k "2 ^ 50", where 'a = rat] by (simp_all add: K_def)
  have "\<bar>a - K / 100\<bar> \<le> 2 ^ 44 * 2 powi (-53)"
    unfolding a_def K_def[symmetric] using K by (intro rnd_raw_error_le) auto
  then have "\<bar>a - K / 100\<bar> \<le> 1/512" by (simp add: power_int_minus)
  from abs_le_D1[OF this] abs_le_D2[OF this]
  have e1: "\<bar>a * 100 - K\<bar> \<le> 1/4" by (intro abs_leI) linarith+
  have q: "rnd_raw (K + of_int j / 4) = K + of_int j / 4" if "\<bar>j\<bar> \<le> 3" for j
  proof (rule rnd_raw_exact[of _ "4 * k + j" "-2"])
    show "K + of_int j / 4 = of_int (4 * k + j) * 2 powi - 2" by (simp add: K_def power_int_minus field_simps)
    show "\<bar>4 * k + j\<bar> \<le> 2 ^ 53" using assms that by (simp add: abs_le_iff)
  qed simp
  define w where "w = rnd_raw (a * 100)"
  have b: "K - 1/4 \<le> a * 100" "a * 100 \<le> K + 1/4"
    using abs_le_D1[OF e1] abs_le_D2[OF e1] by linarith+
  have w: "K - 1/4 \<le> w" "w \<le> K + 1/4"
    using rnd_raw_mono[of "K - 1/4" "a * 100"] rnd_raw_mono[of "a * 100" "K + 1/4"] q[of 1] q[of "-1"] b
    by (simp_all add: w_def)
  define v where "v = rnd_raw (w + 1/2)"
  have v: "K + 1/4 \<le> v" "v \<le> K + 3/4"
    using rnd_raw_mono[of "K + 1/4" "w + 1/2"] rnd_raw_mono[of "w + 1/2" "K + 3/4"] q[of 1] q[of 3] w
    by (simp_all add: v_def)
  have "\<lfloor>v\<rfloor> = k" using v K unfolding K_def by (simp add: floor_eq_iff)
  moreover have "0 \<le> a" unfolding a_def using K by (intro rnd_raw_nonneg) (simp add: K_def)
  ultimately show ?thesis using v K unfolding a_def[symmetric] by (simp add: cent_of_def trunc_def w_def v_def)
qed

lemma cent_of_cents:
  assumes "\<bar>k\<bar> \<le> 2 ^ 50"
  shows "cent_of (rnd_raw (of_int k / 100)) = k"
proof (cases "0 \<le> k")
  case True then show ?thesis using assms by (intro cent_of_cents_nonneg) auto
next
  case False
  have "cent_of (rnd_raw (of_int (- k) / 100)) = - k"
    using False assms by (intro cent_of_cents_nonneg) auto
  then have "cent_of (- rnd_raw (of_int k / 100)) = - k"
    by (simp add: rnd_raw_minus[symmetric])
  then show ?thesis by (simp add: cent_of_minus)
qed

lemma i2f_cents: "\<bar>k\<bar> \<le> 2 ^ 53 \<Longrightarrow> i2f k / Fin 100 = cents k"
  by (simp add: i2f_def rnd_of_int cents_def)

lemma Round2_cents:
  assumes "\<bar>k\<bar> \<le> 2 ^ 50"
  shows "Round2 (cents k) = cents k"
proof -
  have f: "cents k = Fin (rnd_raw (of_int k / 100))" using assms by (intro cents_Fin) simp
  have "\<bar>of_int k / 100\<bar> \<le> (of_int (2 ^ 44) :: rat)"
    using assms of_int_le_iff[of "\<bar>k\<bar>" "2 ^ 50", where 'a = rat] by simp
  then have "\<bar>rnd_raw (of_int k / 100)\<bar> \<le> of_int (2 ^ 44)" by (rule rnd_raw_abs_le) simp
  then have "\<bar>rnd_raw (of_int k / 100)\<bar> < 10 ^ 15" by simp
  from Round2_Fin[OF this] show ?thesis
    unfolding f[symmetric] cent_of_cents[OF assms] using i2f_cents[of k] assms by simp
qed

lemma cent_of_abs_bound:
  assumes "\<bar>a\<bar> \<le> 2 ^ 43" shows "\<bar>cent_of a\<bar> \<le> 2 ^ 50"
proof -
  have m: "cent_of a \<le> cent_of (2 ^ 43)" "cent_of (- (2 ^ 43)) \<le> cent_of a"
    using assms by (auto intro!: cent_of_mono simp: abs_le_iff)
  have "cent_of (2 ^ 43) = 100 * 2 ^ 43"
  proof -
    have "rnd_raw (of_int (100 * 2 ^ 43) / 100) = 2 ^ 43" using rnd_raw_exact[of _ "2 ^ 43" 0] by simp
    moreover have "cent_of (rnd_raw (of_int (100 * 2 ^ 43) / 100)) = 100 * 2 ^ 43"
      by (rule cent_of_cents) simp
    ultimately show ?thesis by simp
  qed
  then show ?thesis using m by (simp add: cent_of_minus)
qed

lemma Round2_is_cents:
  assumes "\<bar>a\<bar> \<le> 2 ^ 43" shows "Round2 (Fin a) = cents (cent_of a)" "\<bar>cent_of a\<bar> \<le> 2 ^ 50"
proof -
  show b: "\<bar>cent_of a\<bar> \<le> 2 ^ 50" using assms by (rule cent_of_abs_bound)
  show "Round2 (Fin a) = cents (cent_of a)"
    using Round2_Fin[of a] assms i2f_cents[of "cent_of a"] b by simp
qed

lemma Round2_idem_bounded: "\<bar>a\<bar> \<le> 2 ^ 43 \<Longrightarrow> Round2 (Round2 (Fin a)) = Round2 (Fin a)"
  using Round2_is_cents[of a] Round2_cents by simp

lemma Round2_error_bounded:
  assumes "\<bar>a\<bar> \<le> 2 ^ 33"
  shows "\<exists>r. Round2 (Fin a) = Fin r \<and> \<bar>r - a\<bar> \<le> 51 / 10000"
proof -
  have near: "\<bar>of_int (cent_of a) - a * 100\<bar> \<le> 1/2 + 1/1000"
  proof (cases "0 \<le> a")
    case True then show ?thesis using assms by (intro cent_of_near) (auto simp: abs_le_iff)
  next
    case False
    then have "\<bar>of_int (cent_of (- a)) - (- a) * 100\<bar> \<le> 1/2 + 1/1000"
      using assms by (intro cent_of_near) (auto simp: abs_le_iff)
    then show ?thesis by (simp add: cent_of_minus abs_minus_commute add.commute)
  qed
  define K :: rat where "K = of_int (cent_of a)"
  have big: "\<bar>a\<bar> \<le> 2 ^ 43" using assms by simp
  note R = Round2_is_cents[OF big]
  have f: "Round2 (Fin a) = Fin (rnd_raw (K / 100))" using R cents_Fin[of "cent_of a"] by (simp add: K_def)
  have "\<bar>K / 100\<bar> \<le> 2 ^ 34" using near assms abs_le_D1[OF near] abs_le_D2[OF near]
    unfolding K_def by (intro abs_leI) (auto simp: abs_le_iff)
  then have "\<bar>rnd_raw (K / 100) - K / 100\<bar> \<le> 2 ^ 34 * 2 powi (-53)" by (intro rnd_raw_error_le) auto
  then have e: "\<bar>rnd_raw (K / 100) - K / 100\<bar> \<le> 1/524288" by (simp add: power_int_minus)
  have "\<bar>rnd_raw (K / 100) - a\<bar> \<le> 51 / 10000"
    using abs_le_D1[OF e] abs_le_D2[OF e] abs_le_D1[OF near] abs_le_D2[OF near]
    unfolding K_def by (intro abs_leI) linarith+
  with f show ?thesis by blast
qed

lemma cents_mono: "m \<le> n \<Longrightarrow> cents m \<le> cents n"
  unfolding cents_def by (intro rnd_mono) (simp add: divide_right_mono)

lemma rnd_raw_close:
  assumes "\<bar>x\<bar> \<le> B" "1 \<le> B" "B * 2 powi (-53) \<le> d"
  shows "rnd_raw x \<le> x + d" "x - d \<le> rnd_raw x"
proof -
  have "\<bar>rnd_raw x - x\<bar> \<le> d" using rnd_raw_error_le[OF assms(1,2)] assms(3) by linarith
  then show "rnd_raw x \<le> x + d" "x - d \<le> rnd_raw x" by (auto simp: abs_le_iff)
qed

lemma Round2_finite: "\<exists>r. Round2 v = Fin r"
proof (cases "\<not> finite_f v \<or> Fin (10 ^ 15) \<le> v \<or> v \<le> Fin (- (10 ^ 15))")
  case True
  then show ?thesis unfolding Round2_def by simp
next
  case False
  then obtain a where a: "v = Fin a" by (auto simp: finite_f_iff)
  with False have b: "\<bar>a\<bar> < 10 ^ 15" by (auto simp: abs_less_iff not_le)
  have "of_int \<bar>cent_of a\<bar> \<le> (of_int (2 ^ 58) :: rat)" using cent_of_abs_le[OF b] by (simp only: of_int_le_iff)
  then have i: "i2f (cent_of a) = Fin (rnd_raw (of_int (cent_of a)))"
    unfolding i2f_def by (intro rnd_Fin_of_le[of _ 58]) simp_all
  have "\<bar>rnd_raw (of_int (cent_of a))\<bar> \<le> of_int (2 ^ 58)"
    using \<open>of_int \<bar>cent_of a\<bar> \<le> _\<close> by (intro rnd_raw_abs_le) simp_all
  then have "rnd (rnd_raw (of_int (cent_of a)) / 100) = Fin (rnd_raw (rnd_raw (of_int (cent_of a)) / 100))"
    by (intro rnd_Fin_of_le[of _ 58]) simp_all
  then show ?thesis unfolding a Round2_Fin[OF b] i by simp
qed

lemma cents_reflect:
  assumes "cents m \<le> cents n" "\<bar>m\<bar> \<le> 2 ^ 50" "\<bar>n\<bar> \<le> 2 ^ 50"
  shows "m \<le> n"
proof -
  have "rnd_raw (of_int m / 100) \<le> rnd_raw (of_int n / 100)"
    using assms(1) cents_Fin[of m] cents_Fin[of n] assms(2,3) by simp
  then have "cent_of (rnd_raw (of_int m / 100)) \<le> cent_of (rnd_raw (of_int n / 100))" by (rule cent_of_mono)
  then show ?thesis using cent_of_cents assms(2,3) by simp
qed

lemma cents_inject: "cents m = cents n \<Longrightarrow> \<bar>m\<bar> \<le> 2 ^ 50 \<Longrightarrow> \<bar>n\<bar> \<le> 2 ^ 50 \<Longrightarrow> m = n"
  using cents_reflect[of m n] cents_reflect[of n m] cents_Fin[of n] f64_le_refl[of "cents n"] by fastforce

lemma Round2_between_cents:
  assumes "cents m \<le> x" "x \<le> cents n" "\<bar>m\<bar> \<le> 2 ^ 40" "\<bar>n\<bar> \<le> 2 ^ 40"
  shows "\<exists>k. Round2 x = cents k \<and> m \<le> k \<and> k \<le> n"
proof -
  have c: "cents j = Fin (rnd_raw (of_int j / 100))" "\<bar>rnd_raw (of_int j / 100)\<bar> \<le> of_int (2 ^ 34)" if "\<bar>j\<bar> \<le> 2 ^ 40" for j
  proof -
    show "cents j = Fin (rnd_raw (of_int j / 100))" using that by (intro cents_Fin) simp
    have "\<bar>of_int j / 100\<bar> \<le> (of_int (2 ^ 34) :: rat)"
      using that of_int_le_iff[of "\<bar>j\<bar>" "2 ^ 40", where 'a = rat] by simp
    then show "\<bar>rnd_raw (of_int j / 100)\<bar> \<le> of_int (2 ^ 34)" by (rule rnd_raw_abs_le) simp
  qed
  from assms(1,2) obtain r where x: "x = Fin r"
    and r: "rnd_raw (of_int m / 100) \<le> r" "r \<le> rnd_raw (of_int n / 100)"
    unfolding c(1)[OF assms(3)] c(1)[OF assms(4)] by (blast dest: f64_between)
  have "\<bar>r\<bar> \<le> 2 ^ 43" using r c(2)[OF assms(3)] c(2)[OF assms(4)] by (auto simp: abs_le_iff)
  note R = Round2_is_cents[OF this]
  have "m \<le> cent_of r" "cent_of r \<le> n"
    using cent_of_mono[OF r(1)] cent_of_mono[OF r(2)] cent_of_cents[of m] cent_of_cents[of n] assms(3,4) by simp_all
  with R show ?thesis unfolding x by blast
qed

lemma cents_close: "\<bar>m\<bar> \<le> 2 ^ 40 \<Longrightarrow> \<exists>r. cents m = Fin r \<and> r * 100 \<le> of_int m + 1/1000 \<and> of_int m - 1/1000 \<le> r * 100"
proof -
  assume m: "\<bar>m\<bar> \<le> 2 ^ 40"
  then have "\<bar>of_int m / 100\<bar> \<le> (2 ^ 34 :: rat)"
    using of_int_le_iff[of "\<bar>m\<bar>" "2 ^ 40", where 'a = rat] by simp
  then have "rnd_raw (of_int m / 100) \<le> of_int m / 100 + 1/500000" "of_int m / 100 - 1/500000 \<le> rnd_raw (of_int m / 100)"
    by (intro rnd_raw_close[of _ "2 ^ 34"]; simp add: power_int_minus)+
  then show ?thesis using cents_Fin[of m] m by (intro exI[of _ "rnd_raw (of_int m / 100)"]) simp
qed

section \<open>Four-decimal factors\<close>

definition quanta :: "int \<Rightarrow> f64" where
  "quanta k = rnd (of_int k / 10000)"

definition quant_of :: "rat \<Rightarrow> int" where
  "quant_of a = round_away (rnd_raw (a * 10000))"

lemma quant_of_mono: "a \<le> b \<Longrightarrow> quant_of a \<le> quant_of b"
  unfolding quant_of_def by (intro round_away_mono rnd_raw_mono) simp

lemma round_away_of_int [simp]: "round_away (of_int n) = n"
  by (simp add: round_away_def floor_eq_iff)

lemma Round4_Fin:
  assumes "\<bar>a\<bar> \<le> 2 ^ 30"
  shows "Round4 (Fin a) = quanta (quant_of a)" "\<bar>quant_of a\<bar> \<le> 2 ^ 44"
proof -
  have b: "\<bar>a * 10000\<bar> \<le> of_int (2 ^ 44)" using assms by (simp add: abs_mult)
  then have r: "\<bar>rnd_raw (a * 10000)\<bar> \<le> of_int (2 ^ 44)" by (rule rnd_raw_abs_le) simp
  then have "rnd_raw (a * 10000) \<le> of_int (2 ^ 44)" "of_int (- (2 ^ 44)) \<le> rnd_raw (a * 10000)"
    by (auto simp: abs_le_iff)
  from this[THEN round_away_mono] show "\<bar>quant_of a\<bar> \<le> 2 ^ 44"
    unfolding round_away_of_int quant_of_def by (simp add: abs_le_iff)
  show "Round4 (Fin a) = quanta (quant_of a)"
    using rnd_Fin_of_le[OF b] by (simp add: Round4_def quanta_def quant_of_def)
qed

lemma quanta_Fin: "\<bar>k\<bar> \<le> 2 ^ 44 \<Longrightarrow> quanta k = Fin (rnd_raw (of_int k / 10000)) \<and> \<bar>rnd_raw (of_int k / 10000)\<bar> \<le> 2 ^ 31"
proof -
  assume "\<bar>k\<bar> \<le> 2 ^ 44"
  then have b: "\<bar>of_int k / 10000\<bar> \<le> (of_int (2 ^ 31) :: rat)"
    using of_int_le_iff[of "\<bar>k\<bar>" "2 ^ 44", where 'a = rat] by simp
  have "\<bar>rnd_raw (of_int k / 10000)\<bar> \<le> of_int (2 ^ 31)" using b by (rule rnd_raw_abs_le) simp
  then show ?thesis using rnd_Fin_of_le[OF b] by (simp add: quanta_def)
qed

lemma quant_of_quanta:
  assumes "\<bar>k\<bar> \<le> 2 ^ 40"
  shows "quant_of (rnd_raw (of_int k / 10000)) = k"
proof -
  define a where "a = rnd_raw (of_int k / 10000)"
  define K :: rat where "K = of_int k"
  have K: "\<bar>K\<bar> \<le> 2 ^ 40" using assms of_int_le_iff[of "\<bar>k\<bar>" "2 ^ 40", where 'a = rat] by (simp add: K_def)
  have a: "a \<le> K / 10000 + 1/16777216" "K / 10000 - 1/16777216 \<le> a"
    unfolding a_def K_def[symmetric] using K by (intro rnd_raw_close[of _ "2 ^ 29"]; simp add: power_int_minus)+
  have "K \<le> 1099511627776" "- 1099511627776 \<le> K" using K by (auto simp: abs_le_iff)
  then have "\<bar>a * 10000\<bar> \<le> 2199023255552" using a by (intro abs_leI) linarith+
  then have b: "\<bar>a * 10000\<bar> \<le> 2 ^ 41" by simp
  have "rnd_raw (a * 10000) \<le> a * 10000 + 1/4096" "a * 10000 - 1/4096 \<le> rnd_raw (a * 10000)"
    using b by (intro rnd_raw_close[of _ "2 ^ 41"]; simp add: power_int_minus)+
  then have "rnd_raw (a * 10000) < K + 1/2" "K - 1/2 < rnd_raw (a * 10000)" using a by linarith+
  then have "\<bar>of_int (round_away (rnd_raw (a * 10000))) - K\<bar> < 1"
    using round_away_bounds[of "rnd_raw (a * 10000)"] by (simp add: abs_less_iff abs_le_iff, linarith)
  then have "\<bar>round_away (rnd_raw (a * 10000)) - k\<bar> < 1" unfolding K_def
    by (metis of_int_abs of_int_diff of_int_less_1_iff)
  then show ?thesis by (simp add: quant_of_def a_def)
qed

lemma quanta_mono: "m \<le> n \<Longrightarrow> quanta m \<le> quanta n"
  unfolding quanta_def by (intro rnd_mono) (simp add: divide_right_mono)

lemma Round4_between_quanta:
  assumes "quanta m \<le> x" "x \<le> quanta n" "\<bar>m\<bar> \<le> 2 ^ 40" "\<bar>n\<bar> \<le> 2 ^ 40"
  shows "\<exists>k. Round4 x = quanta k \<and> m \<le> k \<and> k \<le> n"
proof -
  note M = quanta_Fin[of m] and N = quanta_Fin[of n]
  have b: "\<bar>rnd_raw (of_int j / 10000)\<bar> \<le> 2 ^ 30" if "\<bar>j\<bar> \<le> 2 ^ 40" for j
  proof -
    have "\<bar>of_int j / 10000\<bar> \<le> (of_int (2 ^ 30) :: rat)"
      using that of_int_le_iff[of "\<bar>j\<bar>" "2 ^ 40", where 'a = rat] by simp
    from rnd_raw_abs_le[OF this] show ?thesis by simp
  qed
  from assms M N obtain r where x: "x = Fin r"
    and r: "rnd_raw (of_int m / 10000) \<le> r" "r \<le> rnd_raw (of_int n / 10000)"
    by (auto dest: f64_between)
  have "\<bar>r\<bar> \<le> 2 ^ 30" using r b[OF assms(3)] b[OF assms(4)] by (auto simp: abs_le_iff)
  note R = Round4_Fin[OF this]
  have "m \<le> quant_of r" "quant_of r \<le> n"
    using quant_of_mono[OF r(1)] quant_of_mono[OF r(2)] quant_of_quanta assms(3,4) by simp_all
  with R show ?thesis unfolding x by blast
qed


section \<open>The rounding interface\<close>

text \<open>
  What the pricing code relies on when it rounds: a grid of prices \<open>unit k\<close> that grows with
  \<open>k\<close>, and a rounding function that never leaves the grid interval its argument lies in.
\<close>

locale quantizer =
  fixes round_to :: "f64 \<Rightarrow> f64"
    and unit :: "int \<Rightarrow> f64"
    and lim :: int
  assumes unit_mono: "m \<le> n \<Longrightarrow> unit m \<le> unit n"
    and round_between: "unit m \<le> x \<Longrightarrow> x \<le> unit n \<Longrightarrow> \<bar>m\<bar> \<le> lim \<Longrightarrow> \<bar>n\<bar> \<le> lim \<Longrightarrow>
      \<exists>k. round_to x = unit k \<and> m \<le> k \<and> k \<le> n"
begin

lemma unit_not_NaN: "unit k \<noteq> NaN"
  using unit_mono[of k k] by (cases "unit k") auto

lemma round_unit: "\<bar>k\<bar> \<le> lim \<Longrightarrow> round_to (unit k) = unit k"
  using round_between[of k "unit k" k] unit_mono[of k k] by auto

lemma round_idem: "unit m \<le> x \<Longrightarrow> x \<le> unit n \<Longrightarrow> \<bar>m\<bar> \<le> lim \<Longrightarrow> \<bar>n\<bar> \<le> lim \<Longrightarrow>
    round_to (round_to x) = round_to x"
  using round_between[of m x n] round_unit by fastforce

lemma round_stays: "unit m \<le> x \<Longrightarrow> x \<le> unit n \<Longrightarrow> \<bar>m\<bar> \<le> lim \<Longrightarrow> \<bar>n\<bar> \<le> lim \<Longrightarrow>
    unit m \<le> round_to x \<and> round_to x \<le> unit n"
  using round_between[of m x n] unit_mono by metis

lemma round_capped:
  assumes "x \<noteq> NaN" "m \<le> k" "\<bar>m\<bar> \<le> lim" "\<bar>k\<bar> \<le> lim"
  shows "\<exists>j. round_to (fmax (fmin x (unit k)) (unit m)) = unit j \<and> m \<le> j \<and> j \<le> k"
proof (rule round_between[OF _ _ assms(3,4)])
  have "fmin x (unit k) \<noteq> NaN" using assms(1) unit_not_NaN[of k] by (cases x; cases "unit k") (auto simp: fmin_def)
  then show "unit m \<le> fmax (fmin x (unit k)) (unit m)" using fmax_ge unit_not_NaN by blast
  show "fmax (fmin x (unit k)) (unit m) \<le> unit k"
    using fmin_le[OF assms(1) unit_not_NaN] unit_mono[OF assms(2)] by (intro fmax_lub) blast+
qed

lemma round_clamped:
  assumes "x \<noteq> NaN" "unit m \<le> unit n" "\<bar>m\<bar> \<le> lim" "\<bar>n\<bar> \<le> lim"
  shows "\<exists>j. round_to (fmin (fmax x (unit m)) (unit n)) = unit j \<and> m \<le> j \<and> j \<le> n"
proof (rule round_between[OF _ _ assms(3,4)])
  have n: "fmax x (unit m) \<noteq> NaN" using assms(1) unit_not_NaN[of m] by (cases x; cases "unit m") (auto simp: fmax_def)
  show "fmin (fmax x (unit m)) (unit n) \<le> unit n" using fmin_le[OF n unit_not_NaN] by blast
  show "unit m \<le> fmin (fmax x (unit m)) (unit n)"
    using fmax_ge[OF assms(1) unit_not_NaN] assms(2) by (intro fmin_glb) blast+
qed

end

interpretation c2: quantizer Round2 cents "2 ^ 40"
  by unfold_locales (rule cents_mono, assumption, rule Round2_between_cents)

interpretation c4: quantizer Round4 quanta "2 ^ 40"
  by unfold_locales (rule quanta_mono, assumption, rule Round4_between_quanta)

section \<open>The copy of the rounding in the store\<close>

definition round2Money :: "f64 \<Rightarrow> f64" where
  "round2Money v =
    (if is_nan v \<or> is_inf v \<or> Fin (10 ^ 15) \<le> v \<or> v \<le> Fin (- (10 ^ 15)) then Fin 0
     else if Fin 0 \<le> v then i2f (f2i (v * Fin 100 + Fin (1/2))) / Fin 100
     else i2f (f2i (v * Fin 100 - Fin (1/2))) / Fin 100)"

definition round2MoneyPtr :: "f64 option \<Rightarrow> f64 option" where
  "round2MoneyPtr p = map_option round2Money p"

lemma round2Money_eq: "round2Money v = Round2 v"
  by (simp add: round2Money_def Round2_def finite_f_def)

end
