(* ===== verification/Domain.thy ===== *)
theory Domain
  imports Prelude
begin

text \<open>
  The channel-neutral data of \<open>internal/domain/domain.go\<close> and the errors of the program. A Go
  \<open>error\<close> that is not nil is its message with the sentinels it wraps (those \<open>errors.Is\<close> finds);
  nil is \<open>None\<close>.
\<close>

section \<open>Channels and business records\<close>

type_synonym channel = string

abbreviation (input) ChannelUU :: channel where "ChannelUU \<equiv> ''uu''"
abbreviation (input) ChannelECO :: channel where "ChannelECO \<equiv> ''eco''"

definition Valid :: "channel \<Rightarrow> bool" where
  "Valid c \<longleftrightarrow> c = ChannelUU \<or> c = ChannelECO"

text \<open>The values of \<open>map[string]any\<close> (audit details, settings, parameters) as JSON values.\<close>

datatype json = JNull | JBool bool | JInt int | JNum f64 | JStr string | JArr "json list" | JObj "(string \<times> json) list"

record InventoryItem =
  ii_Channel :: channel
  ii_AssetID :: string
  ii_HashName :: string
  ii_DisplayName :: string
  ii_TemplateID :: int
  ii_MarkPrice :: f64
  ii_Tradable :: bool
  ii_Status :: string
  ii_Abrade :: f64

record ShelfListing =
  sl_Channel :: channel
  sl_GoodsRef :: string
  sl_AssetID :: string
  sl_HashName :: string
  sl_DisplayName :: string
  sl_TemplateID :: int
  sl_RentPrice :: f64
  sl_LongRentPrice :: f64
  sl_MaxDays :: int
  sl_Deposit :: f64
  sl_MarkPrice :: f64
  sl_Leased :: bool
  sl_ListedAt :: instant

record LeaseOrder =
  lo_Channel :: channel
  lo_OrderRef :: string
  lo_AssetID :: string
  lo_HashName :: string
  lo_OrderType :: string
  lo_Status :: string
  lo_RentDays :: int
  lo_RentPrice :: f64
  lo_Amount :: f64
  lo_Deposits :: f64
  lo_StartedAt :: instant
  lo_DueAt :: instant
  lo_FinishedAt :: "instant option"
  lo_UpdatedAt :: instant
  lo_Raw :: "(string \<times> json) list option"

record AuditEntry =
  ae_Time :: instant
  ae_Actor :: string
  ae_Action :: string
  ae_Channel :: string
  ae_Target :: string
  ae_Detail :: "(string \<times> json) list option"

section \<open>Errors\<close>

datatype sentinel =
    ErrUnsupported | ErrAuthExpired | ErrRateLimited | ErrPlatformBlocked | ErrPartialFailure
  | ErrVersionBlocked | ErrCaptchaRequired
  | ErrUKExpired
  | ErrNotFound | ErrNoRows | ErrFactorOrdersChanged | ErrPasswordChanged
  | ErrInvalidStrategyParams
  | ErrCanceled | ErrDeadlineExceeded
  | ErrChannelCooling | ErrNoMasterKey | ErrSevenDayHold | ErrEmailCodeRequired | ErrInstanceLockLost

record goerr =
  Error :: string
  wrapped :: "sentinel list"

definition errors_Is :: "goerr option \<Rightarrow> sentinel \<Rightarrow> bool" where
  "errors_Is e s = (case e of None \<Rightarrow> False | Some x \<Rightarrow> s \<in> set (wrapped x))"

text \<open>\<open>fmt.Errorf\<close> without and with a final \<open>%w\<close>, and \<open>errors.Join\<close>.\<close>

definition Errorf :: "string \<Rightarrow> goerr" where
  "Errorf m = \<lparr>Error = m, wrapped = []\<rparr>"

definition Wrap :: "string \<Rightarrow> goerr \<Rightarrow> goerr" where
  "Wrap m e = \<lparr>Error = m @ Error e, wrapped = wrapped e\<rparr>"

fun join_lines :: "string list \<Rightarrow> string" where
  "join_lines [] = []"
| "join_lines [m] = m"
| "join_lines (m # ms) = m @ char_of (10::int) # join_lines ms"

definition errors_Join :: "goerr list \<Rightarrow> goerr option" where
  "errors_Join es = (if es = [] then None
     else Some \<lparr>Error = join_lines (map Error es), wrapped = concat (map wrapped es)\<rparr>)"

lemma errors_Is_None [simp]: "errors_Is None s = False"
  and errors_Is_Some [simp]: "errors_Is (Some e) s \<longleftrightarrow> s \<in> set (wrapped e)"
  by (simp_all add: errors_Is_def)

lemma wrapped_simps [simp]: "wrapped (Errorf m) = []" "wrapped (Wrap m e) = wrapped e"
  by (simp_all add: Errorf_def Wrap_def)

lemma errors_Join_eq_None [simp]: "errors_Join es = None \<longleftrightarrow> es = []"
  by (simp add: errors_Join_def)

lemma errors_Is_Join: "errors_Is (errors_Join es) s \<longleftrightarrow> (\<exists>e \<in> set es. errors_Is (Some e) s)"
  by (auto simp: errors_Join_def)

end
