(* ===== verification/Pricing.thy ===== *)
theory Pricing
  imports Prelude Money Domain
begin

text \<open>
  The pricing engine, \<open>internal/pricing/engine.go\<close>: quotes, parameters and their validation, the
  market baseline, the feedback controller of the price factor, and the decision with its guardrails.
  Functions keep the names of the source; the steps of \<open>Decide\<close> are definitions of their own, in the
  order the function takes them.
\<close>

section \<open>Quotes and parameters\<close>

record Quote =
  q_Name :: string
  q_Short :: f64
  q_Long :: f64
  q_Deposit :: f64

record BaselineParams =
  TopN :: int
  K1 :: f64
  K2 :: f64
  K3 :: f64
  MinLeaseRatio :: f64

record ControllerParams =
  FMin :: f64
  FMax :: f64
  StepUp :: f64
  StepDown :: f64
  StaleDays :: int

record Guardrails =
  MinRent :: f64
  MaxRent :: f64
  MaxChangeRatio :: f64
  NoiseRatio :: f64
  CooldownMinutes :: int
  DepositFloorRatio :: f64
  DepositCapRatio :: f64

record Params =
  p_Baseline :: BaselineParams
  Ctrl :: ControllerParams
  Guard :: Guardrails
  UUMaxDays :: int
  ECOMaxDays :: int

definition DefaultParams :: Params where
  "DefaultParams =
    \<lparr>p_Baseline = \<lparr>TopN = 15, K1 = rnd (97/100), K2 = rnd (95/100), K3 = rnd (98/100), MinLeaseRatio = Fin 0\<rparr>,
     Ctrl = \<lparr>FMin = rnd (85/100), FMax = rnd (125/100), StepUp = rnd (3/100), StepDown = rnd (5/100), StaleDays = 7\<rparr>,
     Guard = \<lparr>MinRent = rnd (1/2), MaxRent = Fin 20000, MaxChangeRatio = rnd (15/100), NoiseRatio = rnd (2/100),
              CooldownMinutes = 30, DepositFloorRatio = rnd (3/10), DepositCapRatio = Fin 2\<rparr>,
     UUMaxDays = 60, ECOMaxDays = 30\<rparr>"

datatype params_error =
    FactorRange f64 f64
  | NegativeRatios
  | RentRangeInvalid
  | NegativeDepositRatios

definition Validate :: "Params \<Rightarrow> params_error option" where
  "Validate p =
    (if FMax (Ctrl p) < FMin (Ctrl p) then Some (FactorRange (FMin (Ctrl p)) (FMax (Ctrl p)))
     else if MaxChangeRatio (Guard p) < Fin 0 \<or> NoiseRatio (Guard p) < Fin 0 then Some NegativeRatios
     else if MinRent (Guard p) < Fin 0 \<or> MaxRent (Guard p) < Fin 0 \<or> MaxRent (Guard p) < MinRent (Guard p)
       then Some RentRangeInvalid
     else if DepositFloorRatio (Guard p) < Fin 0 \<or> DepositCapRatio (Guard p) < Fin 0
       then Some NegativeDepositRatios
     else None)"

section \<open>Baseline\<close>

record Base =
  b_Short :: f64
  b_Long :: f64
  b_Deposit :: f64

definition mean :: "f64 list \<Rightarrow> f64" where
  "mean v = (if v = [] then Fin 0 else foldl (+) (Fin 0) v / i2f (int (length v)))"

definition minF :: "f64 list \<Rightarrow> f64" where
  "minF v = foldl (\<lambda>m x. if x < m then x else m) (hd v) (tl v)"

definition clampF :: "f64 \<Rightarrow> f64 \<Rightarrow> f64 \<Rightarrow> f64" where
  "clampF v lo hi = fmin (fmax v lo) hi"

fun scan_quotes :: "nat \<Rightarrow> Quote list \<Rightarrow> f64 list \<times> f64 list \<times> f64 list \<Rightarrow> f64 list \<times> f64 list \<times> f64 list" where
  "scan_quotes i [] acc = acc"
| "scan_quotes i (q # qs) (shorts, longs, deps) =
    (let use = posFinite (q_Short q) \<and> i < 10;
         shorts' = (if use then shorts @ [q_Short q] else shorts);
         deps' = (if use \<and> posFinite (q_Deposit q) then deps @ [q_Deposit q] else deps);
         longs' = (if posFinite (q_Long q) then longs @ [q_Long q] else longs)
     in scan_quotes (Suc i) qs (shorts', longs', deps'))"

definition baseline_short :: "f64 list \<Rightarrow> BaselineParams \<Rightarrow> f64 \<Rightarrow> f64" where
  "baseline_short shorts p V =
    (let short = clampF (mean shorts * K1 p) (fmax (hd shorts) (rnd (1/100))) PInf
     in if Fin 0 < MinLeaseRatio p \<and> Fin 0 < V \<and> finite_f (MinLeaseRatio p * V)
        then fmax short (MinLeaseRatio p * V) else short)"

definition baseline_long :: "f64 list \<Rightarrow> BaselineParams \<Rightarrow> f64 \<Rightarrow> f64" where
  "baseline_long longs p short =
    (if longs = [] then fmax (short - rnd (1/100)) (rnd (1/100))
     else fmax (fmin (short * rnd (98/100)) (mean longs * K2 p)) (fmax (hd longs) (rnd (1/100))))"

definition baseline_deposit :: "f64 list \<Rightarrow> BaselineParams \<Rightarrow> f64" where
  "baseline_deposit deps p = (if deps \<noteq> [] then fmax (mean deps * K3 p) (minF deps) else Fin 0)"

definition Baseline :: "Quote list \<Rightarrow> BaselineParams \<Rightarrow> f64 \<Rightarrow> Base option" where
  "Baseline quotes p V =
    (let topn = (if TopN p \<le> 0 then 15 else TopN p);
         (shorts, longs, deps) = scan_quotes 0 (take (nat topn) quotes) ([], [], [])
     in if shorts = [] then None
        else let short = baseline_short shorts p V; long = baseline_long longs p short
        in Some \<lparr>b_Short = Round2 short, b_Long = Round2 (fmin long short), b_Deposit = Round2 (baseline_deposit deps p)\<rparr>)"

section \<open>Feedback controller\<close>

abbreviation (input) EventRentSuccess :: string where "EventRentSuccess \<equiv> ''rent_success''"
abbreviation (input) EventBoughtOut :: string where "EventBoughtOut \<equiv> ''bought_out''"
abbreviation (input) EventStaleDay :: string where "EventStaleDay \<equiv> ''stale_day''"
abbreviation (input) EventReset :: string where "EventReset \<equiv> ''reset''"

definition NextFactor :: "f64 \<Rightarrow> string \<Rightarrow> ControllerParams \<Rightarrow> f64 \<times> string" where
  "NextFactor cur ev p =
    (let (cur, ev, reason) =
           (if \<not> finite_f cur then (FMin p, EventReset, ''non_finite_recovered'') else (cur, ev, ''''));
         (cur, reason) =
           (if ev = EventRentSuccess then (cur + StepUp p, ''rented'')
            else if ev = EventBoughtOut then (cur + Fin 2 * StepUp p, ''bought_out'')
            else if ev = EventStaleDay then (cur - StepDown p, ''stale'')
            else if ev = EventReset then (Fin 1, ''reset'')
            else (cur, reason));
         (cur, reason) = (if cur < FMin p then (FMin p, reason @ ''|clamped_min'') else (cur, reason));
         (cur, reason) = (if FMax p < cur then (FMax p, reason @ ''|clamped_max'') else (cur, reason))
     in (Round4 cur, reason))"

text \<open>Go's \<open>!=\<close> on floats: a NaN differs from everything.\<close>

definition f64_neq :: "f64 \<Rightarrow> f64 \<Rightarrow> bool" where
  "f64_neq x y \<longleftrightarrow> is_nan x \<or> is_nan y \<or> x \<noteq> y"

section \<open>Decision\<close>

record Current =
  cur_RentPrice :: f64
  cur_LastActionAt :: instant
  cur_LongPrice :: f64
  cur_Deposit :: f64
  cur_MaxDays :: int
  cur_TermsKnown :: bool

record Input =
  in_Channel :: channel
  HasV :: bool
  in_V :: f64
  in_Base :: Base
  HasBase :: bool
  Factor :: f64
  Cur :: Current
  in_P :: Params
  Now :: instant
  RentMaxDayMin :: int
  RentMaxDayMax :: int
  IgnoreNoiseFloor :: bool

record Decision =
  OK :: bool
  SkipReason :: string
  Reasons :: "string list"
  d_Rent :: f64
  d_Long :: f64
  d_MaxDays :: int
  d_Deposit :: f64

definition skip :: "string \<Rightarrow> string list \<Rightarrow> Decision" where
  "skip r rs = \<lparr>OK = False, SkipReason = r, Reasons = rs, d_Rent = Fin 0, d_Long = Fin 0, d_MaxDays = 0, d_Deposit = Fin 0\<rparr>"

text \<open>The admissible rent interval: absolute bounds, lease-ratio floor, change cap, quantized inwards.\<close>

definition lease_floor :: "Input \<Rightarrow> f64" where
  "lease_floor inp = MinLeaseRatio (p_Baseline (in_P inp)) * in_V inp"

definition lease_floor_on :: "Input \<Rightarrow> bool" where
  "lease_floor_on inp \<longleftrightarrow> Fin 0 < MinLeaseRatio (p_Baseline (in_P inp)) \<and> finite_f (lease_floor inp)"

definition target_rent :: "Input \<Rightarrow> f64" where
  "target_rent inp =
    (let g = Guard (in_P inp);
         f = clampF (Factor inp) (FMin (Ctrl (in_P inp))) (FMax (Ctrl (in_P inp)));
         rent = b_Short (in_Base inp) * f;
         rent = (if rent < MinRent g then MinRent g else rent)
     in if MaxRent g < rent then MaxRent g else rent)"

definition raw_floor :: "Input \<Rightarrow> f64" where
  "raw_floor inp =
    (let g = Guard (in_P inp); floor = MinRent g;
         floor = (if lease_floor_on inp then fmax floor (lease_floor inp) else floor)
     in if Fin 0 < cur_RentPrice (Cur inp) then fmax floor (cur_RentPrice (Cur inp) * (Fin 1 - MaxChangeRatio g)) else floor)"

definition raw_ceiling :: "Input \<Rightarrow> f64" where
  "raw_ceiling inp =
    (let g = Guard (in_P inp)
     in if Fin 0 < cur_RentPrice (Cur inp) then fmin (MaxRent g) (cur_RentPrice (Cur inp) * (Fin 1 + MaxChangeRatio g)) else MaxRent g)"

definition rent_floor :: "Input \<Rightarrow> f64" where
  "rent_floor inp = fceil (raw_floor inp * Fin 100 - rnd (1/10^9)) / Fin 100"

definition rent_ceiling :: "Input \<Rightarrow> f64" where
  "rent_ceiling inp = ffloor (raw_ceiling inp * Fin 100 + rnd (1/10^9)) / Fin 100"

definition floor_reasons :: "Input \<Rightarrow> string list" where
  "floor_reasons inp =
    (let floor = fmax (MinRent (Guard (in_P inp))) (lease_floor inp)
     in if lease_floor_on inp \<and> target_rent inp < floor
        then [''min_lease_ratio_floor='' @ fmt_f 2 (Round2 floor)] else [])"

definition final_rent :: "Input \<Rightarrow> f64" where
  "final_rent inp = Round2 (clampF (target_rent inp) (rent_floor inp) (rent_ceiling inp))"

definition eco_days :: "Input \<Rightarrow> int" where
  "eco_days inp =
    (let days = ECOMaxDays (in_P inp);
         days = (if 0 < RentMaxDayMin inp \<and> days < RentMaxDayMin inp then RentMaxDayMin inp else days)
     in if 0 < RentMaxDayMax inp \<and> RentMaxDayMax inp < days then RentMaxDayMax inp else days)"

definition eco_deposit :: "Input \<Rightarrow> f64 \<Rightarrow> f64 \<Rightarrow> int \<Rightarrow> f64" where
  "eco_deposit inp rent long days =
    (let derived = fmax (in_V inp * rnd (14/10)) (rent * i2f days)
     in if Fin 0 < long then fmax derived (long * i2f days) else derived)"

text \<open>Days, long price and deposit of the channel; \<open>Inl\<close> is the refused ECO deposit.\<close>

definition channel_terms :: "Input \<Rightarrow> f64 \<Rightarrow> Decision + int \<times> f64 \<times> f64" where
  "channel_terms inp rent =
    (let g = Guard (in_P inp); V = in_V inp;
         long = fmin (rent * rnd (98/100)) (b_Long (in_Base inp));
         dep = fmax (b_Deposit (in_Base inp)) (DepositFloorRatio g * V)
     in if in_Channel inp = ChannelECO then
          let days = eco_days inp; derived = eco_deposit inp rent long days
          in if Fin 0 < DepositCapRatio g \<and> DepositCapRatio g * V < derived
             then Inl (skip ''deposit_cap_exceeded''
                    [''derived_deposit='' @ fmt_f 2 derived @ '' cap='' @ fmt_f 2 (DepositCapRatio g * V) @ '' V='' @ fmt_f 2 V])
             else Inr (days, long, derived)
        else let days = UUMaxDays (in_P inp) in Inr (days, if days < 8 then Fin 0 else long, dep))"

definition cooldown_active :: "Input \<Rightarrow> bool" where
  "cooldown_active inp \<longleftrightarrow> \<not> IsZero (cur_LastActionAt (Cur inp)) \<and>
     time_Sub (Now inp) (cur_LastActionAt (Cur inp)) < wrap64 (CooldownMinutes (Guard (in_P inp)) * Minute)"

definition terms_changed :: "Input \<Rightarrow> f64 \<Rightarrow> f64 \<Rightarrow> int \<Rightarrow> bool" where
  "terms_changed inp long dep days \<longleftrightarrow> cur_TermsKnown (Cur inp) \<and>
     (f64_neq long (cur_LongPrice (Cur inp)) \<or> f64_neq dep (cur_Deposit (Cur inp)) \<or> days \<noteq> cur_MaxDays (Cur inp))"

definition is_noise :: "Input \<Rightarrow> f64 \<Rightarrow> f64 \<Rightarrow> f64 \<Rightarrow> int \<Rightarrow> bool" where
  "is_noise inp rent long dep days \<longleftrightarrow>
     (let old = cur_RentPrice (Cur inp)
      in Fin 0 < old \<and> fabs (rent - old) / fmax old (rnd (1/100)) < NoiseRatio (Guard (in_P inp))
         \<and> \<not> IgnoreNoiseFloor inp \<and> \<not> terms_changed inp long dep days)"

definition Decide :: "Input \<Rightarrow> Decision" where
  "Decide inp =
    (if \<not> HasV inp \<or> in_V inp \<le> Fin 0 then skip ''no_value_anchor'' []
     else if \<not> HasBase inp \<or> b_Short (in_Base inp) \<le> Fin 0 then skip ''no_baseline'' []
     else if \<not> finite_f (in_V inp) \<or> \<not> finite_f (b_Short (in_Base inp)) \<or> \<not> finite_f (b_Long (in_Base inp))
       \<or> \<not> finite_f (b_Deposit (in_Base inp)) \<or> \<not> finite_f (Factor inp) then skip ''non_finite_input'' []
     else if rent_ceiling inp < rent_floor inp
       then skip ''guardrail_conflict'' [''rent_interval='' @ fmt_f 2 (rent_floor inp) @ ''..'' @ fmt_f 2 (rent_ceiling inp)]
     else let rent = final_rent inp in
       case channel_terms inp rent of
         Inl d \<Rightarrow> d
       | Inr (days, long, dep) \<Rightarrow>
           if cooldown_active inp then skip ''cooldown'' []
           else let long = Round2 (fmax (fmin long rent) (Fin 0)); dep = Round2 dep in
             if is_noise inp rent long dep days then skip ''noise'' []
             else \<lparr>OK = True, SkipReason = '''',
                   Reasons = floor_reasons inp @
                     [''factor='' @ fmt_f 4 (clampF (Factor inp) (FMin (Ctrl (in_P inp))) (FMax (Ctrl (in_P inp))))
                      @ '' base='' @ fmt_f 2 (b_Short (in_Base inp)) @ '' V='' @ fmt_f 2 (in_V inp)],
                   d_Rent = rent, d_Long = long, d_MaxDays = days, d_Deposit = dep\<rparr>)"

lemma skip_OK [simp]: "OK (skip r rs) = False" "SkipReason (skip r rs) = r"
  by (simp_all add: skip_def)

lemma channel_terms_Inl: "channel_terms inp rent = Inl d \<Longrightarrow> \<not> OK d"
  by (auto simp: channel_terms_def Let_def split: if_splits)

lemma Decide_OK:
  assumes "OK (Decide inp)"
  obtains v short long0 dep0 fac days long dep where
    "in_V inp = Fin v" "0 < v" "b_Short (in_Base inp) = Fin short" "0 < short"
    "b_Long (in_Base inp) = Fin long0" "b_Deposit (in_Base inp) = Fin dep0" "Factor inp = Fin fac"
    "\<not> rent_ceiling inp < rent_floor inp"
    "channel_terms inp (final_rent inp) = Inr (days, long, dep)"
    "\<not> cooldown_active inp"
    "d_Rent (Decide inp) = final_rent inp" "d_MaxDays (Decide inp) = days"
    "d_Long (Decide inp) = Round2 (fmax (fmin long (final_rent inp)) (Fin 0))"
    "d_Deposit (Decide inp) = Round2 dep"
    "\<not> is_noise inp (final_rent inp) (d_Long (Decide inp)) (d_Deposit (Decide inp)) days"
    "HasV inp" "HasBase inp"
  using assms unfolding Decide_def
  by (auto simp: Let_def finite_f_iff not_le split: if_splits sum.splits dest: channel_terms_Inl)

end
