(* ===== verification/PricingProps.thy ===== *)
theory PricingProps
  imports Pricing
begin

text \<open>
  What the pricing engine guarantees: the quantized rent interval and where the decided rent lies,
  the long price, the ECO deposit, the cooldown, the controller's range, and the baseline.
  All statements are about float64 arithmetic, rounding errors included.
\<close>

section \<open>Directed quantization of the rent interval\<close>

lemma fceil_cents:
  assumes "0 \<le> f" "f \<le> 2 * 10 ^ 7"
  shows "\<exists>n. fceil (Fin f * Fin 100 - rnd (1/10^9)) / Fin 100 = cents n \<and> 0 \<le> n \<and> n \<le> 2 ^ 40 \<and> f * 100 - 1/2000000 \<le> of_int n"
proof -
  define w where "w = rnd_raw (f * 100)"
  define e where "e = rnd_raw (1/1000000000)"
  define u where "u = rnd_raw (w - e)"
  have w: "w \<le> f * 100 + 1/4194304" "f * 100 - 1/4194304 \<le> w"
    unfolding w_def using assms by (intro rnd_raw_close[of _ "2 ^ 31"]; simp add: power_int_minus)+
  have e: "e \<le> 1/1000000000 + 1/1000000000000" "1/1000000000 - 1/1000000000000 \<le> e"
    unfolding e_def by (intro rnd_raw_close[of _ 1]; simp add: power_int_minus)+
  have fb: "f \<le> 20000000" using assms(2) by simp
  have wb: "\<bar>w - e\<bar> \<le> 2147483648" using w e assms(1) fb by (intro abs_leI) linarith+
  have u: "u \<le> w - e + 1/4194304" "w - e - 1/4194304 \<le> u"
    unfolding u_def using wb by (intro rnd_raw_close[of _ "2 ^ 31"]; simp add: power_int_minus)+
  have f1: "Fin f * Fin 100 = Fin w" using assms unfolding w_def by (simp add: rnd_Fin_of_le[of _ 31])
  have f2: "rnd (1/10^9) = Fin e" unfolding e_def by (simp add: rnd_Fin_of_le[of _ 1])
  have f3: "Fin w - Fin e = Fin u" using wb unfolding u_def by (simp add: rnd_Fin_of_le[of _ 31])
  have ub: "- 1 < u" "u \<le> 2147483648" "f * 100 - 1/2000000 \<le> u"
    using w e u assms(1) fb by linarith+
  have n: "0 \<le> \<lceil>u\<rceil>" "\<lceil>u\<rceil> \<le> 2147483648"
    using ub by (simp_all add: ceiling_le_iff le_ceiling_iff)
  have "f * 100 - 1/2000000 \<le> of_int \<lceil>u\<rceil>" using ub(3) le_of_int_ceiling[of u] by (rule order_trans)
  note n = n this
  have "fceil (Fin u) / Fin 100 = cents \<lceil>u\<rceil>" by (simp add: cents_def)
  then show ?thesis using n unfolding f1 f2 f3 by (intro exI[of _ "\<lceil>u\<rceil>"]) auto
qed

lemma ffloor_cents:
  assumes "0 \<le> f" "f \<le> 10 ^ 7"
  shows "\<exists>n. ffloor (Fin f * Fin 100 + rnd (1/10^9)) / Fin 100 = cents n \<and> 0 \<le> n \<and> n \<le> 2 ^ 40 \<and> of_int n \<le> f * 100 + 1/2000000"
proof -
  define w where "w = rnd_raw (f * 100)"
  define e where "e = rnd_raw (1/1000000000)"
  define u where "u = rnd_raw (w + e)"
  have w: "w \<le> f * 100 + 1/8388608" "f * 100 - 1/8388608 \<le> w"
    unfolding w_def using assms by (intro rnd_raw_close[of _ "2 ^ 30"]; simp add: power_int_minus)+
  have w0: "0 \<le> w" unfolding w_def using assms by (intro rnd_raw_nonneg) simp
  have e: "e \<le> 1/1000000000 + 1/1000000000000" "1/1000000000 - 1/1000000000000 \<le> e"
    unfolding e_def by (intro rnd_raw_close[of _ 1]; simp add: power_int_minus)+
  have fb: "f \<le> 10000000" using assms(2) by simp
  have wb: "\<bar>w + e\<bar> \<le> 1073741824" using w e assms(1) fb by (intro abs_leI) linarith+
  have u: "u \<le> w + e + 1/8388608"
    unfolding u_def using wb by (intro rnd_raw_close[of _ "2 ^ 30"]; simp add: power_int_minus)+
  have u0: "0 \<le> u" unfolding u_def using w0 e by (intro rnd_raw_nonneg) linarith
  have f1: "Fin f * Fin 100 = Fin w" using assms unfolding w_def by (simp add: rnd_Fin_of_le[of _ 30])
  have f2: "rnd (1/10^9) = Fin e" unfolding e_def by (simp add: rnd_Fin_of_le[of _ 1])
  have f3: "Fin w + Fin e = Fin u" using wb unfolding u_def by (simp add: rnd_Fin_of_le[of _ 30])
  have ub: "u \<le> 2147483648" "u \<le> f * 100 + 1/2000000"
    using w e u assms(1) fb by linarith+
  have n: "0 \<le> \<lfloor>u\<rfloor>" "\<lfloor>u\<rfloor> \<le> 2147483648"
    using ub u0 by (simp_all add: floor_le_iff)
  have "of_int \<lfloor>u\<rfloor> \<le> f * 100 + 1/2000000" using of_int_floor_le[of u] ub(2) by (rule order_trans)
  note n = n this
  have "ffloor (Fin u) / Fin 100 = cents \<lfloor>u\<rfloor>" by (simp add: cents_def)
  then show ?thesis using n unfolding f1 f2 f3 by (intro exI[of _ "\<lfloor>u\<rfloor>"]) auto
qed

definition finite_params :: "Params \<Rightarrow> bool" where
  "finite_params p \<longleftrightarrow>
    list_all finite_f [K1 (p_Baseline p), K2 (p_Baseline p), K3 (p_Baseline p), MinLeaseRatio (p_Baseline p),
      FMin (Ctrl p), FMax (Ctrl p), StepUp (Ctrl p), StepDown (Ctrl p),
      MinRent (Guard p), MaxRent (Guard p), MaxChangeRatio (Guard p), NoiseRatio (Guard p),
      DepositFloorRatio (Guard p), DepositCapRatio (Guard p)]"

definition sane_params :: "Params \<Rightarrow> bool" where
  "sane_params p \<longleftrightarrow> finite_params p \<and> Validate p = None \<and> MaxRent (Guard p) \<le> Fin (10 ^ 7)"

lemma sane_paramsE:
  assumes "sane_params p"
  obtains lo hi c fmin fmax where
    "MinRent (Guard p) = Fin lo" "MaxRent (Guard p) = Fin hi" "0 \<le> lo" "lo \<le> hi" "hi \<le> 10 ^ 7"
    "MaxChangeRatio (Guard p) = Fin c" "0 \<le> c" "FMin (Ctrl p) = Fin fmin" "FMax (Ctrl p) = Fin fmax" "fmin \<le> fmax"
  using assms unfolding sane_params_def finite_params_def Validate_def
  by (auto simp: finite_f_iff not_less split: if_splits)

lemma raw_floor_facts:
  assumes "sane_params (in_P inp)" "finite_f (cur_RentPrice (Cur inp))"
  shows "MinRent (Guard (in_P inp)) \<le> raw_floor inp" "raw_floor inp \<noteq> NaN"
    "lease_floor_on inp \<Longrightarrow> lease_floor inp \<le> raw_floor inp"
    "Fin 0 < cur_RentPrice (Cur inp) \<Longrightarrow>
       cur_RentPrice (Cur inp) * (Fin 1 - MaxChangeRatio (Guard (in_P inp))) \<le> raw_floor inp"
proof -
  obtain lo hi c fmi fma where s: "MinRent (Guard (in_P inp)) = Fin lo" "MaxChangeRatio (Guard (in_P inp)) = Fin c"
    using sane_paramsE[OF assms(1)] by metis
  obtain old where o: "cur_RentPrice (Cur inp) = Fin old" using assms(2) by (auto simp: finite_f_iff)
  define F where "F = (if lease_floor_on inp then fmax (Fin lo) (lease_floor inp) else Fin lo)"
  define G where "G = Fin old * (Fin 1 - Fin c)"
  have F: "F \<noteq> NaN" "Fin lo \<le> F" "lease_floor_on inp \<Longrightarrow> lease_floor inp \<le> F"
    unfolding F_def lease_floor_on_def by (auto simp: finite_f_iff)
  have G: "G \<noteq> NaN" if "0 < old" unfolding G_def using that by simp
  have R: "raw_floor inp = (if 0 < old then fmax F G else F)"
    by (simp add: raw_floor_def Let_def s o F_def G_def)
  show "MinRent (Guard (in_P inp)) \<le> raw_floor inp" "raw_floor inp \<noteq> NaN"
    "lease_floor_on inp \<Longrightarrow> lease_floor inp \<le> raw_floor inp"
    using R F G fmax_ge[of F G] by (auto intro: f64_le_trans simp: s) (auto simp: fmax_def split: if_splits)
  show "cur_RentPrice (Cur inp) * (Fin 1 - MaxChangeRatio (Guard (in_P inp))) \<le> raw_floor inp"
    if "Fin 0 < cur_RentPrice (Cur inp)"
    using R F G fmax_ge[of F G] that by (simp add: s o G_def)
qed

lemma raw_ceiling_facts:
  assumes "sane_params (in_P inp)" "finite_f (cur_RentPrice (Cur inp))"
  shows "raw_ceiling inp \<le> MaxRent (Guard (in_P inp))" "raw_ceiling inp \<noteq> NaN"
    "Fin 0 < cur_RentPrice (Cur inp) \<Longrightarrow>
       raw_ceiling inp \<le> cur_RentPrice (Cur inp) * (Fin 1 + MaxChangeRatio (Guard (in_P inp)))"
    "Fin 0 \<le> raw_ceiling inp"
proof -
  obtain lo hi c fmi fma where s: "MaxRent (Guard (in_P inp)) = Fin hi" "MaxChangeRatio (Guard (in_P inp)) = Fin c"
    and b: "0 \<le> hi" "0 \<le> c"
    using sane_paramsE[OF assms(1)] by (metis order_trans)
  obtain old where o: "cur_RentPrice (Cur inp) = Fin old" using assms(2) by (auto simp: finite_f_iff)
  define G where "G = Fin old * (Fin 1 + Fin c)"
  have r1: "Fin 0 \<le> rnd (1 + c)" using rnd_mono[of 0 "1 + c"] b rnd_of_int[of 0] by simp
  have G: "G \<noteq> NaN \<and> Fin 0 \<le> G" if "0 < old"
  proof (cases "rnd (1 + c)")
    case (Fin x)
    then have "Fin 0 \<le> rnd (old * x)" using r1 that rnd_mono[of 0 "old * x"] rnd_of_int[of 0] by simp
    then show ?thesis using Fin by (auto simp: G_def)
  qed (use r1 that in \<open>auto simp: G_def inf_of_sign_def\<close>)
  have R: "raw_ceiling inp = (if 0 < old then fmin (Fin hi) G else Fin hi)"
    by (simp add: raw_ceiling_def Let_def s o G_def)
  show "raw_ceiling inp \<le> MaxRent (Guard (in_P inp))" "raw_ceiling inp \<noteq> NaN" "Fin 0 \<le> raw_ceiling inp"
    using R G fmin_le[of "Fin hi" G] b by (auto simp: s fmin_def intro!: fmin_glb split: if_splits)
  show "raw_ceiling inp \<le> cur_RentPrice (Cur inp) * (Fin 1 + MaxChangeRatio (Guard (in_P inp)))"
    if "Fin 0 < cur_RentPrice (Cur inp)"
    using R G fmin_le[of "Fin hi" G] that by (simp add: s o G_def)
qed

lemma target_rent_not_NaN:
  assumes "sane_params (in_P inp)" "finite_f (b_Short (in_Base inp))" "finite_f (Factor inp)"
  shows "target_rent inp \<noteq> NaN"
proof -
  obtain lo hi c fmi fma where s: "MinRent (Guard (in_P inp)) = Fin lo" "MaxRent (Guard (in_P inp)) = Fin hi"
     "FMin (Ctrl (in_P inp)) = Fin fmi" "FMax (Ctrl (in_P inp)) = Fin fma"
    using sane_paramsE[OF assms(1)] by metis
  show ?thesis using assms(2,3)
    by (auto simp: target_rent_def Let_def s finite_f_iff clampF_def)
qed

lemma decide_rent_interval:
  assumes ok: "OK (Decide inp)" and sp: "sane_params (in_P inp)" and fc: "finite_f (cur_RentPrice (Cur inp))"
  obtains k f c where "d_Rent (Decide inp) = cents k" "0 \<le> k" "k \<le> 2 ^ 40"
    "raw_floor inp = Fin f" "raw_ceiling inp = Fin c"
    "f * 100 - 1/2000000 \<le> of_int k" "of_int k \<le> c * 100 + 1/2000000"
proof -
  obtain v short long0 dep0 fac days long dep where D: "in_V inp = Fin v"
    "b_Short (in_Base inp) = Fin short" "Factor inp = Fin fac" "\<not> rent_ceiling inp < rent_floor inp"
    "d_Rent (Decide inp) = final_rent inp" using Decide_OK[OF ok] by metis
  obtain lo hi where s: "MinRent (Guard (in_P inp)) = Fin lo" "MaxRent (Guard (in_P inp)) = Fin hi" "0 \<le> lo" "hi \<le> 10 ^ 7"
    using sane_paramsE[OF sp] by metis
  note F = raw_floor_facts[OF sp fc] and C = raw_ceiling_facts[OF sp fc]
  from C(1,4) s obtain c where c: "raw_ceiling inp = Fin c" "0 \<le> c" "c \<le> 10 ^ 7"
    using f64_between[of 0 "raw_ceiling inp" hi] by auto
  from ffloor_cents[OF c(2,3)] obtain n where n: "rent_ceiling inp = cents n" "0 \<le> n" "n \<le> 2 ^ 40" "of_int n \<le> c * 100 + 1/2000000"
    unfolding rent_ceiling_def c(1) by blast
  have le: "rent_floor inp \<le> rent_ceiling inp"
  proof -
    have "rent_floor inp \<noteq> NaN" using F(2) rnd_Fin_of_le[of "1/10^9" 1] by (simp add: rent_floor_def)
    then show ?thesis using D(4) cents_Fin[of n] n by (simp add: f64_not_less)
  qed
  have big: "raw_floor inp \<le> Fin (2 * 10 ^ 7)"
  proof (rule ccontr)
    assume "\<not> raw_floor inp \<le> Fin (2 * 10 ^ 7)"
    then have b: "Fin (2 * 10 ^ 7) \<le> raw_floor inp" using F(2) by (cases "raw_floor inp") auto
    obtain m where m: "fceil (Fin (2 * 10 ^ 7) * Fin 100 - rnd (1/10^9)) / Fin 100 = cents m" "m \<le> 2 ^ 40" "0 \<le> m"
      "2 * 10 ^ 7 * 100 - 1/2000000 \<le> (of_int m :: rat)" using fceil_cents[of "2 * 10 ^ 7"] by auto
    obtain e where e: "rnd (1/10^9) = Fin e" using rnd_Fin_of_le[of "1/10^9" 1] by simp
    have "cents m \<le> rent_floor inp" unfolding rent_floor_def m(1)[symmetric] e
      by (intro f64_divide_mono fceil_mono f64_minus_mono f64_times_mono b) simp_all
    from f64_le_trans[OF this le] have "cents m \<le> cents n" unfolding n(1) .
    then have "m \<le> n" by (rule cents_reflect) (use m(2,3) n(2,3) in auto)
    then have "(of_int m :: rat) \<le> of_int n" by simp
    moreover have "c \<le> 10000000" "2000000000 - 1/2000000 \<le> (of_int m :: rat)" using c(3) m(4) by simp_all
    ultimately show False using n(4) by linarith
  qed
  obtain f where f: "raw_floor inp = Fin f" "0 \<le> f" "f \<le> 2 * 10 ^ 7"
    using F(1) big s by (cases "raw_floor inp") auto
  from fceil_cents[OF f(2,3)] obtain m where m: "rent_floor inp = cents m" "0 \<le> m" "m \<le> 2 ^ 40" "f * 100 - 1/2000000 \<le> of_int m"
    unfolding rent_floor_def f(1) by blast
  have t: "target_rent inp \<noteq> NaN" using target_rent_not_NaN[OF sp] D by simp
  obtain k where k: "final_rent inp = cents k" "m \<le> k" "k \<le> n"
    using c2.round_clamped[OF t, of m n] le m(1-3) n(1-3) unfolding final_rent_def clampF_def m(1) n(1) by auto
  show ?thesis
  proof (rule that[of k f c])
    have km: "(of_int m :: rat) \<le> of_int k" "(of_int k :: rat) \<le> of_int n" using k by simp_all
    show "f * 100 - 1/2000000 \<le> of_int k" using m(4) km(1) by (rule order_trans)
    show "of_int k \<le> c * 100 + 1/2000000" using km(2) n(4) by (rule order_trans)
  qed (use k D(5) f(1) c(1) m(2) n(3) in auto)
qed


text \<open>An accepted decision moves the current rent by at most the configured change ratio, up to
  the engine's quantization slack (below 1e-7).\<close>

theorem decide_rent_change_cap:
  assumes "OK (Decide inp)" "sane_params (in_P inp)" "cur_RentPrice (Cur inp) = Fin old" "0 < old" "old \<le> 10 ^ 7"
    "MaxChangeRatio (Guard (in_P inp)) = Fin r" "r \<le> 1"
  shows "\<exists>k. d_Rent (Decide inp) = cents k \<and> \<bar>of_int k / 100 - old\<bar> \<le> old * r + 1 / 10 ^ 7"
proof -
  have fc: "finite_f (cur_RentPrice (Cur inp))" using assms(3) by simp
  obtain k f c where k: "d_Rent (Decide inp) = cents k" "raw_floor inp = Fin f" "raw_ceiling inp = Fin c"
    "f * 100 - 1/2000000 \<le> of_int k" "of_int k \<le> c * 100 + 1/2000000"
    using decide_rent_interval[OF assms(1,2) fc] by metis
  have r0: "0 \<le> r" using sane_paramsE[OF assms(2)] assms(6) by (metis f64.inject)
  define a where "a = rnd_raw (1 - r)"
  define b where "b = rnd_raw (1 + r)"
  have a: "a \<le> 1 - r + 1/4503599627370496" "1 - r - 1/4503599627370496 \<le> a" "0 \<le> a"
    unfolding a_def using r0 assms(7) by ((intro rnd_raw_close[of _ 1]; simp add: power_int_minus)+, intro rnd_raw_nonneg, simp)
  have b: "b \<le> 1 + r + 1/4503599627370496"
    unfolding b_def using r0 assms(7) by (intro rnd_raw_close[of _ 2]; simp add: power_int_minus)
  have ob: "old \<le> 10000000" using assms(5) by simp
  have b0: "0 \<le> b" unfolding b_def using r0 by (intro rnd_raw_nonneg) simp
  have oa: "old * a \<le> 10000000 * 2" "old * b \<le> 10000000 * 3"
    using a b b0 r0 assms(4,7) ob by (intro mult_mono; simp)+
  have fa: "rnd (1 - r) = Fin a" "rnd (1 + r) = Fin b" unfolding a_def b_def
    using r0 assms(7) by (intro rnd_Fin_of_le[of _ 2]; simp)+
  have fo: "rnd (old * a) = Fin (rnd_raw (old * a))" "rnd (old * b) = Fin (rnd_raw (old * b))"
    using oa a(3) b0 assms(4) by (intro rnd_Fin_of_le[of _ 30]; simp)+
  have e: "old * a - 1/200000000 \<le> rnd_raw (old * a)" "rnd_raw (old * b) \<le> old * b + 1/200000000"
    using oa a(3) b0 assms(4) by (intro rnd_raw_close[of _ "30000000"]; simp add: power_int_minus)+
  have "rnd_raw (old * a) \<le> f" "c \<le> rnd_raw (old * b)"
    using raw_floor_facts(4)[OF assms(2) fc] raw_ceiling_facts(3)[OF assms(2) fc] assms(3,4,6) k fa fo by simp_all
  note fc = this
  define d where "d = old * r"
  have "old * (1 - r - 1/4503599627370496) \<le> old * a" "old * b \<le> old * (1 + r + 1/4503599627370496)"
    using a b assms(4) by (intro mult_left_mono; simp)+
  then have m: "old - d - old / 4503599627370496 \<le> old * a" "old * b \<le> old + d + old / 4503599627370496"
    by (simp_all add: algebra_simps d_def)
  define x where "x = old * a"
  define y where "y = old * b"
  note m = m[folded x_def y_def] and e = e[folded x_def y_def] and fc = fc[folded x_def y_def]
  have "old - d - 1 / 10000000 \<le> of_int k / 100" using m(1) e(1) fc(1) k(4) ob by linarith
  moreover have "of_int k / 100 \<le> old + d + 1 / 10000000" using m(2) e(2) fc(2) k(5) ob by linarith
  ultimately have "of_int k / 100 \<le> old + old * r + 1 / 10000000" "old - old * r - 1 / 10000000 \<le> of_int k / 100"
    unfolding d_def by blast+
  then have "\<bar>of_int k / 100 - old\<bar> \<le> old * r + 1 / 10 ^ 7" by (simp add: abs_le_iff)
  with k(1) show ?thesis by blast
qed

lemma channel_terms_long:
  assumes "channel_terms inp (cents k) = Inr (days, long, dep)" "\<bar>k\<bar> \<le> 2 ^ 40" "finite_f (b_Long (in_Base inp))"
  shows "long \<noteq> NaN"
proof -
  obtain r where r: "cents k = Fin r" using cents_close[of k] assms by auto
  have e: "rnd (98/100) = Fin (rnd_raw (98/100))" by (rule rnd_Fin_of_le[of _ 1]) simp_all
  have "fmin (cents k * rnd (98/100)) (b_Long (in_Base inp)) \<noteq> NaN"
    using assms(3) unfolding r e by (cases "rnd (r * rnd_raw (98/100))") (auto simp: finite_f_iff fmin_def)
  then show ?thesis using assms(1) by (auto simp: channel_terms_def Let_def split: if_splits)
qed

text \<open>The long-lease price of an accepted decision is never negative and never above the short
  rent, and a UU listing with fewer than 8 days carries no long price.\<close>

theorem decide_long_price:
  assumes "OK (Decide inp)" "sane_params (in_P inp)" "finite_f (cur_RentPrice (Cur inp))"
  shows "Fin 0 \<le> d_Long (Decide inp) \<and> d_Long (Decide inp) \<le> d_Rent (Decide inp)
    \<and> (in_Channel inp \<noteq> ChannelECO \<and> UUMaxDays (in_P inp) < 8 \<longrightarrow> d_Long (Decide inp) = Fin 0)"
proof -
  obtain k where k: "d_Rent (Decide inp) = cents k" "0 \<le> k" "k \<le> 2 ^ 40"
    using decide_rent_interval[OF assms] by metis
  obtain long0 days long dep where D: "b_Long (in_Base inp) = Fin long0"
    "channel_terms inp (final_rent inp) = Inr (days, long, dep)"
    "d_Rent (Decide inp) = final_rent inp"
    "d_Long (Decide inp) = Round2 (fmax (fmin long (final_rent inp)) (Fin 0))"
    using Decide_OK[OF assms(1)] by metis
  have f: "final_rent inp = cents k" using D(3) k(1) by simp
  have z: "cents 0 = Fin 0" using rnd_of_int[of 0] by (simp add: cents_def)
  have "long \<noteq> NaN" using channel_terms_long D(1,2) f k by force
  from c2.round_capped[OF this k(2)] obtain j where j: "d_Long (Decide inp) = cents j" "0 \<le> j" "j \<le> k"
    using D(4) f k(2,3) z by auto
  have 1: "Fin 0 \<le> d_Long (Decide inp)" "d_Long (Decide inp) \<le> d_Rent (Decide inp)"
    using j k cents_mono[of j k] cents_mono[of 0 j] z by simp_all
  have 2: "d_Long (Decide inp) = Fin 0" if c: "in_Channel inp \<noteq> ChannelECO" "UUMaxDays (in_P inp) < 8"
  proof -
    have "long = Fin 0" using D(2) c by (auto simp: channel_terms_def Let_def split: if_splits)
    then have "fmax (fmin long (final_rent inp)) (Fin 0) = cents 0"
      using f cents_mono[OF k(2)] cents_close[of k] k unfolding z by (auto simp: z)
    then show ?thesis using D(4) Round2_cents[of 0] z by simp
  qed
  from 1 2 show ?thesis by blast
qed

text \<open>An accepted ECO decision carries the deposit derived from the rent, long price and days that
  are submitted, with the days clamped to the channel's capability, and that deposit does not exceed the cap.\<close>

theorem decide_eco_deposit:
  assumes "OK (Decide inp)" "in_Channel inp = ChannelECO"
  shows "\<exists>dep long. d_Deposit (Decide inp) = Round2 dep
    \<and> dep = eco_deposit inp (d_Rent (Decide inp)) long (d_MaxDays (Decide inp))
    \<and> long = fmin (d_Rent (Decide inp) * rnd (98/100)) (b_Long (in_Base inp))
    \<and> d_MaxDays (Decide inp) = eco_days inp
    \<and> \<not> (Fin 0 < DepositCapRatio (Guard (in_P inp)) \<and> DepositCapRatio (Guard (in_P inp)) * in_V inp < dep)"
proof -
  obtain days long dep where D: "channel_terms inp (final_rent inp) = Inr (days, long, dep)"
    "d_Rent (Decide inp) = final_rent inp" "d_MaxDays (Decide inp) = days" "d_Deposit (Decide inp) = Round2 dep"
    using Decide_OK[OF assms(1)] by metis
  then show ?thesis using assms(2) by (auto simp: channel_terms_def Let_def split: if_splits)
qed


lemma NextFactor_nonfinite:
  assumes "\<not> finite_f cur"
  shows "NextFactor cur ev p = NextFactor (Fin 1) EventReset p"
  using assms by (simp add: NextFactor_def)

text \<open>A corrupted (non-finite) stored factor recovers at the neutral 1.00 with reason reset under the
  default parameters, for every event: not at the minimum factor, and not with the reason the code sets first.\<close>

theorem next_factor_recovers_neutral:
  assumes "\<not> finite_f cur"
  shows "NextFactor cur ev (Ctrl DefaultParams) = (Fin 1, ''reset'') \<and> Fin 1 \<noteq> FMin (Ctrl DefaultParams)"
proof -
  have a: "NextFactor (Fin 1) EventReset (Ctrl DefaultParams) = (Fin 1, ''reset'')"
    and b: "Fin 1 \<noteq> FMin (Ctrl DefaultParams)"
    by code_simp+
  show ?thesis by (rule conjI[OF trans[OF NextFactor_nonfinite[OF assms] a] b])
qed

theorem next_factor_recovers_neutral_witness:
  "NextFactor NaN EventStaleDay (Ctrl DefaultParams) = (Fin 1, ''reset'') \<and> Fin 1 \<noteq> FMin (Ctrl DefaultParams)"
  by (rule next_factor_recovers_neutral) (simp add: finite_f_def)

section \<open>Baseline\<close>

lemma scan_quotes_spec:
  "scan_quotes i qs (s, l, d) =
    (s @ map q_Short (filter (\<lambda>q. posFinite (q_Short q)) (take (10 - i) qs)),
     l @ map q_Long (filter (\<lambda>q. posFinite (q_Long q)) qs),
     d @ map q_Deposit (filter (\<lambda>q. posFinite (q_Short q) \<and> posFinite (q_Deposit q)) (take (10 - i) qs)))"
proof (induction qs arbitrary: i s l d)
  case (Cons q qs)
  show ?case
    by (cases "i < 10") (auto simp: Cons.IH Let_def take_Cons' Suc_diff_Suc)
qed simp

definition usable_shorts :: "Quote list \<Rightarrow> BaselineParams \<Rightarrow> f64 list" where
  "usable_shorts quotes p =
    map q_Short (filter (\<lambda>q. posFinite (q_Short q)) (take 10 (take (nat (if TopN p \<le> 0 then 15 else TopN p)) quotes)))"

lemma Baseline_Some:
  assumes "Baseline quotes p V = Some b"
  obtains longs where "usable_shorts quotes p \<noteq> []"
    "b_Short b = Round2 (baseline_short (usable_shorts quotes p) p V)"
    "b_Long b = Round2 (fmin (baseline_long longs p (baseline_short (usable_shorts quotes p) p V)) (baseline_short (usable_shorts quotes p) p V))"
    "\<forall>x \<in> set longs. posFinite x"
  using assms by (auto simp: Baseline_def scan_quotes_spec usable_shorts_def Let_def split: if_splits)

lemma baseline_defined_iff: "Baseline quotes p V = None \<longleftrightarrow> usable_shorts quotes p = []"
  by (auto simp: Baseline_def scan_quotes_spec usable_shorts_def Let_def)

lemma Round2_pos: "Fin 0 < Round2 x \<Longrightarrow> \<exists>a. x = Fin a \<and> \<bar>a\<bar> < 10 ^ 15"
  by (auto simp: Round2_def finite_f_iff not_le abs_less_iff split: if_splits)

lemma Round2_0 [simp]: "Round2 NaN = Fin 0" "Round2 (Fin 0) = Fin 0"
  using Round2_cents[of 0] rnd_of_int[of 0] by (simp_all add: cents_def Round2_def finite_f_def)

text \<open>A usable baseline (positive short price) never has a long price above the short one or below zero.\<close>

theorem baseline_long_le_short:
  assumes "Baseline quotes p V = Some b" "Fin 0 < b_Short b"
  shows "Fin 0 \<le> b_Long b \<and> b_Long b \<le> b_Short b"
proof -
  obtain longs where L: "\<forall>x \<in> set longs. posFinite x"
    and B: "b_Short b = Round2 (baseline_short (usable_shorts quotes p) p V)"
    "b_Long b = Round2 (fmin (baseline_long longs p (baseline_short (usable_shorts quotes p) p V)) (baseline_short (usable_shorts quotes p) p V))"
    using Baseline_Some[OF assms(1)] by metis
  define S where "S = baseline_short (usable_shorts quotes p) p V"
  define l where "l = baseline_long longs p S"
  obtain s where s: "S = Fin s" "\<bar>s\<bar> < 10 ^ 15" using Round2_pos assms(2) B(1) unfolding S_def by metis
  have s0: "0 < s"
    using f64_le_not_less[OF Round2_mono[of s 0]] s assms(2) B(1) unfolding S_def[symmetric] by (cases "0 < s") auto
  obtain e where e: "rnd (1/100) = Fin e" "0 \<le> e"
    using rnd_mono[of 0 "1/100"] rnd_of_int[of 0] rnd_Fin_of_le[of "1/100" 1] by auto
  have l0: "Fin 0 \<le> l" if "l \<noteq> NaN"
  proof -
    have g: "Fin 0 \<le> fmax x y" if "Fin 0 \<le> y" "fmax x y \<noteq> NaN" for x y
      using that by (cases x; cases y) (auto simp: fmax_def)
    show ?thesis
    proof (cases "longs = []")
      case True
      then show ?thesis using g[of "rnd (1/100)"] that e unfolding l_def baseline_long_def by simp
    next
      case False
      then have "posFinite (hd longs)" using L list.set_sel(1)[OF False] by blast
      then obtain h where h: "hd longs = Fin h" "0 < h" by (auto simp: posFinite_def finite_f_iff)
      have "Fin 0 \<le> fmax (hd longs) (rnd (1/100))" using h e by simp
      then show ?thesis using g that False unfolding l_def baseline_long_def by simp
    qed
  qed
  show ?thesis
  proof (cases "l = NaN")
    case True
    then have "fmin l S = NaN" using s by (simp add: fmin_def)
    then show ?thesis using B assms(2) unfolding S_def[symmetric] l_def[symmetric] by (auto intro: f64_less_imp_le)
  next
    case False
    obtain m where m: "fmin l S = Fin m" "0 \<le> m" "m \<le> s"
    proof (cases l)
      case PInf
      then show ?thesis using that[of s] s s0 by (simp add: fmin_def)
    next
      case (Fin x)
      then show ?thesis using that[of "min x s"] s s0 l0[OF False] by simp
    qed (use l0[OF False] False in simp_all)
    have "Round2 (Fin 0) \<le> Round2 (Fin m)" "Round2 (Fin m) \<le> Round2 (Fin s)"
      using m s by (intro Round2_mono; simp)+
    then show ?thesis using B m s unfolding S_def[symmetric] l_def[symmetric] by simp
  qed
qed

lemma baseline_short_floor:
  assumes "Baseline quotes p V = Some b" "Fin 0 < b_Short b"
  shows "Round2 (hd (usable_shorts quotes p)) \<le> b_Short b"
proof -
  have B: "b_Short b = Round2 (baseline_short (usable_shorts quotes p) p V)"
    using Baseline_Some[OF assms(1)] by metis
  have ne: "usable_shorts quotes p \<noteq> []" using Baseline_Some[OF assms(1)] by metis
  then have "posFinite (hd (usable_shorts quotes p))"
    using list.set_sel(1)[OF ne] unfolding usable_shorts_def by auto
  then obtain h where h: "hd (usable_shorts quotes p) = Fin h" "0 < h" by (auto simp: posFinite_def finite_f_iff)
  obtain s where s: "baseline_short (usable_shorts quotes p) p V = Fin s" "\<bar>s\<bar> < 10 ^ 15"
    using Round2_pos assms(2) B by metis
  have "h \<le> s"
  proof -
    obtain e where e: "rnd (1/100) = Fin e" using rnd_Fin_of_le[of "1/100" 1] by auto
    have "Fin h \<le> baseline_short (usable_shorts quotes p) p V"
      using s(1) unfolding baseline_short_def h(1) e
      by (cases "mean (usable_shorts quotes p) * K1 p")
        (auto simp: clampF_def Let_def fmax_def fmin_def finite_f_iff split: if_splits)
    then show ?thesis using s by simp
  qed
  then have "Round2 (Fin h) \<le> Round2 (Fin s)" using h s by (intro Round2_mono) auto
  then show ?thesis using h s B by simp
qed


section \<open>A concrete decision\<close>

definition sample_params :: Params where
  "sample_params =
    \<lparr>p_Baseline = \<lparr>TopN = 15, K1 = Fin 1, K2 = Fin 1, K3 = Fin 1, MinLeaseRatio = Fin 0\<rparr>,
     Ctrl = \<lparr>FMin = Fin (1/2), FMax = Fin 2, StepUp = Fin (1/16), StepDown = Fin (1/8), StaleDays = 7\<rparr>,
     Guard = \<lparr>MinRent = Fin 1, MaxRent = Fin 16, MaxChangeRatio = Fin (1/4), NoiseRatio = Fin (1/64),
              CooldownMinutes = 30, DepositFloorRatio = Fin (1/4), DepositCapRatio = Fin 2\<rparr>,
     UUMaxDays = 7, ECOMaxDays = 30\<rparr>"

definition sample_input :: "channel \<Rightarrow> Input" where
  "sample_input ch =
    \<lparr>in_Channel = ch, HasV = True, in_V = Fin 1000,
     in_Base = \<lparr>b_Short = Fin 9, b_Long = Fin 8, b_Deposit = Fin 500\<rparr>, HasBase = True, Factor = Fin 1,
     Cur = \<lparr>cur_RentPrice = Fin 8, cur_LastActionAt = 0, cur_LongPrice = Fin 7, cur_Deposit = Fin 500,
            cur_MaxDays = 30, cur_TermsKnown = True\<rparr>,
     in_P = sample_params, Now = 10 ^ 20, RentMaxDayMin = 8, RentMaxDayMax = 90, IgnoreNoiseFloor = False\<rparr>"

lemma sample_sane: "sane_params sample_params"
  by code_simp

lemma sample_rent: "final_rent (sample_input ch) = Fin 9"
  by code_simp

lemma sample_interval: "rent_floor (sample_input ch) = Fin 6" "rent_ceiling (sample_input ch) = Fin 10"
  by code_simp+

lemma sample_terms: "channel_terms (sample_input ChannelECO) (Fin 9) = Inr (30, Fin 8, rnd 1400)"
    "channel_terms (sample_input ChannelUU) (Fin 9) = Inr (7, Fin 0, Fin 500)"
  by code_simp+

lemma sample_not_noise: "\<not> is_noise (sample_input ch) (Fin 9) long dep days"
proof -
  have "\<not> fabs (Fin 9 - Fin 8) / fmax (Fin 8) (rnd (1/100)) < Fin (1/64)" by code_simp
  then show ?thesis by (simp add: is_noise_def sample_input_def sample_params_def Let_def)
qed

lemma sample_fields [simp]:
  "in_P (sample_input ch) = sample_params" "in_Channel (sample_input ch) = ch"
  "cur_RentPrice (Cur (sample_input ch)) = Fin 8"
  "MinRent (Guard sample_params) = Fin 1" "MaxRent (Guard sample_params) = Fin 16"
  "MaxChangeRatio (Guard sample_params) = Fin (1/4)" "UUMaxDays sample_params = 7"
  by (simp_all add: sample_input_def sample_params_def)

lemma sample_OK: "OK (Decide (sample_input ChannelECO))" "OK (Decide (sample_input ChannelUU))"
  using sample_not_noise
  by (simp_all add: Decide_def sample_interval sample_rent sample_terms Let_def)
    (simp_all add: sample_input_def cooldown_active_def IsZero_def)

lemma cents_whole: "\<bar>n\<bar> \<le> 2 ^ 40 \<Longrightarrow> cents (100 * n) = Fin (of_int n)"
  using rnd_of_int[of n] by (simp add: cents_def)


theorem decide_rent_change_cap_witness:
  "\<exists>k. d_Rent (Decide (sample_input ChannelECO)) = cents k \<and> \<bar>of_int k / 100 - 8\<bar> \<le> 8 * (1/4) + (1 / 10 ^ 7 :: rat)"
  by (rule decide_rent_change_cap[OF sample_OK(1)]) (use sample_sane in simp_all)

theorem decide_long_price_witness:
  "Fin 0 \<le> d_Long (Decide (sample_input ChannelUU)) \<and> d_Long (Decide (sample_input ChannelUU)) \<le> d_Rent (Decide (sample_input ChannelUU))
    \<and> d_Long (Decide (sample_input ChannelUU)) = Fin 0"
proof -
  have h: "sane_params (in_P (sample_input ChannelUU))" "finite_f (cur_RentPrice (Cur (sample_input ChannelUU)))"
    using sample_sane by simp_all
  have c: "in_Channel (sample_input ChannelUU) \<noteq> ChannelECO \<and> UUMaxDays (in_P (sample_input ChannelUU)) < 8"
    by simp
  show ?thesis using decide_long_price[OF sample_OK(2) h] c by blast
qed

theorem decide_eco_deposit_witness:
  "\<exists>dep long. d_Deposit (Decide (sample_input ChannelECO)) = Round2 dep
    \<and> dep = eco_deposit (sample_input ChannelECO) (d_Rent (Decide (sample_input ChannelECO))) long (d_MaxDays (Decide (sample_input ChannelECO)))
    \<and> long = fmin (d_Rent (Decide (sample_input ChannelECO)) * rnd (98/100)) (b_Long (in_Base (sample_input ChannelECO)))
    \<and> d_MaxDays (Decide (sample_input ChannelECO)) = eco_days (sample_input ChannelECO)
    \<and> \<not> (Fin 0 < DepositCapRatio (Guard (in_P (sample_input ChannelECO))) \<and>
         DepositCapRatio (Guard (in_P (sample_input ChannelECO))) * in_V (sample_input ChannelECO) < dep)"
  by (rule decide_eco_deposit[OF sample_OK(1)]) simp

lemma sample_quanta: "quanta 5000 = Fin (1/2)" "quanta 20000 = Fin 2"
  by code_simp+


definition sample_quotes :: "Quote list" where
  "sample_quotes = [\<lparr>q_Name = ''a'', q_Short = Fin 4, q_Long = Fin 3, q_Deposit = Fin 100\<rparr>,
                    \<lparr>q_Name = ''b'', q_Short = Fin 6, q_Long = Fin 0, q_Deposit = Fin 0\<rparr>]"

lemma sample_scan: "scan_quotes 0 (take 15 sample_quotes) ([], [], []) = ([Fin 4, Fin 6], [Fin 3], [Fin 100])"
  by (simp add: sample_quotes_def posFinite_def)

lemma sample_base_values:
  "Round2 (baseline_short [Fin 4, Fin 6] (p_Baseline sample_params) (Fin 1000)) = Fin 5"
  "Round2 (fmin (baseline_long [Fin 3] (p_Baseline sample_params) (baseline_short [Fin 4, Fin 6] (p_Baseline sample_params) (Fin 1000)))
     (baseline_short [Fin 4, Fin 6] (p_Baseline sample_params) (Fin 1000))) = Fin 3"
  "Round2 (baseline_deposit [Fin 100] (p_Baseline sample_params)) = Fin 100"
  by code_simp+

theorem baseline_long_le_short_witness:
  "\<exists>b. Baseline sample_quotes (p_Baseline sample_params) (Fin 1000) = Some b \<and> Fin 0 \<le> b_Long b \<and> b_Long b \<le> b_Short b"
proof -
  have t: "TopN (p_Baseline sample_params) = 15" by (simp add: sample_params_def)
  have b: "Baseline sample_quotes (p_Baseline sample_params) (Fin 1000)
     = Some \<lparr>b_Short = Fin 5, b_Long = Fin 3, b_Deposit = Fin 100\<rparr>"
    unfolding Baseline_def t by (simp add: sample_scan sample_base_values)
  show ?thesis using baseline_long_le_short[OF b] b by simp
qed

end
