(* ===== verification/ParamsJson.thy ===== *)
theory ParamsJson
  imports Pricing "HOL-Library.List_Lexorder" "HOL-Library.Char_ord" "HOL-Library.AList"
begin

text \<open>
  The layered strategy parameters of \<open>internal/pricing/engine.go\<close> (\<open>ParseParams\<close>, \<open>deepMerge\<close>, \<open>typedToRaw\<close>) over JSON
  values, with what the code uses of \<open>encoding/json\<close>: struct fields are matched ignoring case, the last of
  several matching keys wins, null leaves a field alone, an integer field takes integer literals only, and any
  number read into \<open>any\<close> is a float64 (printed without a fraction when it is whole and below 1e21).
  \<open>JInt\<close> is a number literal without fraction or exponent, \<open>JNum\<close> any other. Object keys are sorted when printed.
\<close>

section \<open>Decoding\<close>

definition lower :: "char \<Rightarrow> char" where
  "lower c = (if (of_char c :: int) \<ge> 65 \<and> (of_char c :: int) \<le> 90 then char_of (of_char c + 32 :: int) else c)"

definition same_field :: "string \<Rightarrow> string \<Rightarrow> bool" where
  "same_field a b \<longleftrightarrow> map lower a = map lower b"

definition to_float :: "json \<Rightarrow> f64 \<Rightarrow> f64 option" where
  "to_float j old = (case j of JNull \<Rightarrow> Some old
     | JInt n \<Rightarrow> if finite_f (rnd (of_int n)) then Some (rnd (of_int n)) else None
     | JNum f \<Rightarrow> Some f | _ \<Rightarrow> None)"

definition to_int :: "json \<Rightarrow> int \<Rightarrow> int option" where
  "to_int j old = (case j of JNull \<Rightarrow> Some old
     | JInt n \<Rightarrow> if - (2 ^ 63) \<le> n \<and> n < 2 ^ 63 then Some n else None | _ \<Rightarrow> None)"

text \<open>A field: its tag and how a value is stored into it.\<close>

type_synonym 'p field = "string \<times> (json \<Rightarrow> 'p \<Rightarrow> 'p option)"

definition float_field :: "string \<Rightarrow> ('p \<Rightarrow> f64) \<Rightarrow> (f64 \<Rightarrow> 'p \<Rightarrow> 'p) \<Rightarrow> 'p field" where
  "float_field tag get put = (tag, \<lambda>j p. map_option (\<lambda>v. put v p) (to_float j (get p)))"

definition int_field :: "string \<Rightarrow> ('p \<Rightarrow> int) \<Rightarrow> (int \<Rightarrow> 'p \<Rightarrow> 'p) \<Rightarrow> 'p field" where
  "int_field tag get put = (tag, \<lambda>j p. map_option (\<lambda>v. put v p) (to_int j (get p)))"

definition store_field :: "'p field list \<Rightarrow> 'p option \<Rightarrow> string \<times> json \<Rightarrow> 'p option" where
  "store_field fs p kv = (case p of None \<Rightarrow> None
     | Some x \<Rightarrow> (case filter (\<lambda>f. same_field (fst f) (fst kv)) fs of [] \<Rightarrow> Some x | f # _ \<Rightarrow> snd f (snd kv) x))"

definition to_struct :: "'p field list \<Rightarrow> json \<Rightarrow> 'p \<Rightarrow> 'p option" where
  "to_struct fs j p = (case j of JNull \<Rightarrow> Some p | JObj kvs \<Rightarrow> foldl (store_field fs) (Some p) kvs | _ \<Rightarrow> None)"

definition struct_field :: "string \<Rightarrow> 'q field list \<Rightarrow> ('p \<Rightarrow> 'q) \<Rightarrow> ('q \<Rightarrow> 'p \<Rightarrow> 'p) \<Rightarrow> 'p field" where
  "struct_field tag fs get put = (tag, \<lambda>j p. map_option (\<lambda>v. put v p) (to_struct fs j (get p)))"

section \<open>The parameter structs\<close>

definition baseline_fields :: "BaselineParams field list" where
  "baseline_fields =
    [int_field ''topn'' TopN (\<lambda>v p. p\<lparr>TopN := v\<rparr>), float_field ''k1'' K1 (\<lambda>v p. p\<lparr>K1 := v\<rparr>),
     float_field ''k2'' K2 (\<lambda>v p. p\<lparr>K2 := v\<rparr>), float_field ''k3'' K3 (\<lambda>v p. p\<lparr>K3 := v\<rparr>),
     float_field ''min_lease_ratio'' MinLeaseRatio (\<lambda>v p. p\<lparr>MinLeaseRatio := v\<rparr>)]"

definition factor_fields :: "ControllerParams field list" where
  "factor_fields =
    [float_field ''min'' FMin (\<lambda>v p. p\<lparr>FMin := v\<rparr>), float_field ''max'' FMax (\<lambda>v p. p\<lparr>FMax := v\<rparr>),
     float_field ''step_up'' StepUp (\<lambda>v p. p\<lparr>StepUp := v\<rparr>), float_field ''step_down'' StepDown (\<lambda>v p. p\<lparr>StepDown := v\<rparr>),
     int_field ''stale_days'' StaleDays (\<lambda>v p. p\<lparr>StaleDays := v\<rparr>)]"

definition guardrail_fields :: "Guardrails field list" where
  "guardrail_fields =
    [float_field ''min_rent'' MinRent (\<lambda>v p. p\<lparr>MinRent := v\<rparr>), float_field ''max_rent'' MaxRent (\<lambda>v p. p\<lparr>MaxRent := v\<rparr>),
     float_field ''max_change_ratio'' MaxChangeRatio (\<lambda>v p. p\<lparr>MaxChangeRatio := v\<rparr>),
     float_field ''noise_ratio'' NoiseRatio (\<lambda>v p. p\<lparr>NoiseRatio := v\<rparr>),
     int_field ''cooldown_minutes'' CooldownMinutes (\<lambda>v p. p\<lparr>CooldownMinutes := v\<rparr>),
     float_field ''deposit_floor_ratio'' DepositFloorRatio (\<lambda>v p. p\<lparr>DepositFloorRatio := v\<rparr>),
     float_field ''deposit_cap_ratio'' DepositCapRatio (\<lambda>v p. p\<lparr>DepositCapRatio := v\<rparr>)]"

definition params_fields :: "Params field list" where
  "params_fields =
    [struct_field ''baseline'' baseline_fields p_Baseline (\<lambda>v p. p\<lparr>p_Baseline := v\<rparr>),
     struct_field ''factor'' factor_fields Ctrl (\<lambda>v p. p\<lparr>Ctrl := v\<rparr>),
     struct_field ''guardrails'' guardrail_fields Guard (\<lambda>v p. p\<lparr>Guard := v\<rparr>),
     int_field ''uu_max_days'' UUMaxDays (\<lambda>v p. p\<lparr>UUMaxDays := v\<rparr>), int_field ''eco_max_days'' ECOMaxDays (\<lambda>v p. p\<lparr>ECOMaxDays := v\<rparr>)]"

section \<open>Layers\<close>

text \<open>\<open>typedToRaw\<close>: every number of the map is a float64.\<close>

definition typedToRaw :: "Params \<Rightarrow> (string \<times> json) list" where
  "typedToRaw p =
    (let b = p_Baseline p; c = Ctrl p; g = Guard p in
     [(''baseline'', JObj [(''topn'', JNum (i2f (TopN b))), (''k1'', JNum (K1 b)), (''k2'', JNum (K2 b)), (''k3'', JNum (K3 b)),
         (''min_lease_ratio'', JNum (MinLeaseRatio b))]),
      (''factor'', JObj [(''min'', JNum (FMin c)), (''max'', JNum (FMax c)), (''step_up'', JNum (StepUp c)),
         (''step_down'', JNum (StepDown c)), (''stale_days'', JNum (i2f (StaleDays c)))]),
      (''guardrails'', JObj [(''min_rent'', JNum (MinRent g)), (''max_rent'', JNum (MaxRent g)),
         (''max_change_ratio'', JNum (MaxChangeRatio g)), (''noise_ratio'', JNum (NoiseRatio g)),
         (''cooldown_minutes'', JNum (i2f (CooldownMinutes g))), (''deposit_floor_ratio'', JNum (DepositFloorRatio g)),
         (''deposit_cap_ratio'', JNum (DepositCapRatio g))]),
      (''uu_max_days'', JNum (i2f (UUMaxDays p))), (''eco_max_days'', JNum (i2f (ECOMaxDays p)))])"

lemma size_map_of: "map_of m k = Some v \<Longrightarrow> size v < size_list (size_prod (\<lambda>_. 0) size) m"
  by (induction m) (auto split: if_splits)

fun deep_merge :: "(string \<times> json) list \<Rightarrow> (string \<times> json) list \<Rightarrow> (string \<times> json) list" where
  "deep_merge out [] = out"
| "deep_merge out ((k, JObj vm) # l) =
    (case map_of out k of Some (JObj bm) \<Rightarrow> deep_merge (AList.update k (JObj (deep_merge bm vm)) out) l
       | _ \<Rightarrow> deep_merge (AList.update k (JObj vm) out) l)"
| "deep_merge out ((k, v) # l) = deep_merge (AList.update k v out) l"

definition deepMerge :: "(string \<times> json) list \<Rightarrow> (string \<times> json) list list \<Rightarrow> (string \<times> json) list" where
  "deepMerge base layers = foldl deep_merge (AList.clearjunk base) layers"

text \<open>Reading a value into \<open>any\<close>: integers become floats, a repeated key keeps its last value. \<open>None\<close> where a number is out
  of range.\<close>

fun to_any :: "json \<Rightarrow> json option" and to_any_fields :: "(string \<times> json) list \<Rightarrow> (string \<times> json) list option"
    and to_any_list :: "json list \<Rightarrow> json list option" where
  "to_any (JInt n) = (if finite_f (rnd (of_int n)) then Some (JNum (rnd (of_int n))) else None)"
| "to_any (JArr js) = map_option JArr (to_any_list js)"
| "to_any (JObj kvs) = map_option (\<lambda>m. JObj (foldl (\<lambda>m (k, v). AList.update k v m) [] m)) (to_any_fields kvs)"
| "to_any j = Some j"
| "to_any_fields [] = Some []"
| "to_any_fields ((k, j) # kvs) = (case to_any j of None \<Rightarrow> None | Some v \<Rightarrow> map_option ((#) (k, v)) (to_any_fields kvs))"
| "to_any_list [] = Some []"
| "to_any_list (j # js) = (case to_any j of None \<Rightarrow> None | Some v \<Rightarrow> map_option ((#) v) (to_any_list js))"

text \<open>\<open>json.Unmarshal\<close> into a nil \<open>map[string]any\<close>: null gives the nil map.\<close>

definition to_map :: "json \<Rightarrow> (string \<times> json) list option" where
  "to_map j = (case j of JNull \<Rightarrow> Some [] | JObj kvs \<Rightarrow> (case to_any j of Some (JObj m) \<Rightarrow> Some m | _ \<Rightarrow> None) | _ \<Rightarrow> None)"

text \<open>Printing a map and reading the text again.\<close>

definition reprint_num :: "f64 \<Rightarrow> json" where
  "reprint_num f = (case f of Fin r \<Rightarrow> if r = of_int \<lfloor>r\<rfloor> \<and> \<bar>r\<bar> < 10 ^ 21 then JInt \<lfloor>r\<rfloor> else JNum f | _ \<Rightarrow> JNum f)"

fun reprint :: "json \<Rightarrow> json" and reprint_fields :: "(string \<times> json) list \<Rightarrow> (string \<times> json) list"
    and reprint_list :: "json list \<Rightarrow> json list" where
  "reprint (JNum f) = reprint_num f"
| "reprint (JArr js) = JArr (reprint_list js)"
| "reprint (JObj kvs) = JObj (sort_key fst (reprint_fields kvs))"
| "reprint j = j"
| "reprint_fields [] = []"
| "reprint_fields ((k, j) # kvs) = (k, reprint j) # reprint_fields kvs"
| "reprint_list [] = []"
| "reprint_list (j # js) = reprint j # reprint_list js"

definition params_error_msg :: "params_error \<Rightarrow> string" where
  "params_error_msg e = (case e of
      FactorRange lo hi \<Rightarrow> ''pricing: factor.min '' @ fmt_f 4 lo @ '' > max '' @ fmt_f 4 hi
    | NegativeRatios \<Rightarrow> ''pricing: change/noise ratios must be >= 0''
    | RentRangeInvalid \<Rightarrow> ''pricing: min_rent/max_rent range invalid''
    | NegativeDepositRatios \<Rightarrow> ''pricing: deposit ratios must be >= 0'')"

definition merged_params :: "Params \<Rightarrow> json option \<Rightarrow> json \<Rightarrow> (goerr + Params)" where
  "merged_params p globalJSON templateJSON =
    (let g = (case globalJSON of None \<Rightarrow> [] | Some j \<Rightarrow> (case to_map j of None \<Rightarrow> [] | Some m \<Rightarrow> m))
     in case to_map templateJSON of
         None \<Rightarrow> Inl (Errorf ''pricing: template params: json'')
       | Some o' \<Rightarrow>
          (case to_struct params_fields (reprint (JObj (deepMerge (typedToRaw p) [g, o']))) p of
             None \<Rightarrow> Inl (Errorf ''json'') | Some p' \<Rightarrow> Inr p'))"

definition ParseParams :: "json option \<Rightarrow> json option \<Rightarrow> goerr + Params" where
  "ParseParams globalJSON templateJSON =
    (case (case globalJSON of None \<Rightarrow> Some DefaultParams | Some j \<Rightarrow> to_struct params_fields j DefaultParams) of
       None \<Rightarrow> Inl (Errorf ''pricing: global params: json'')
     | Some p \<Rightarrow>
        (case (case templateJSON of None \<Rightarrow> Inr p | Some t \<Rightarrow> merged_params p globalJSON t) of
           Inl e \<Rightarrow> Inl e
         | Inr p' \<Rightarrow> (case Validate p' of Some e \<Rightarrow> Inl (Errorf (params_error_msg e)) | None \<Rightarrow> Inr p')))"

section \<open>What merging does\<close>

definition override :: "json option \<Rightarrow> json option \<Rightarrow> json option" where
  "override old new = (case new of None \<Rightarrow> old
     | Some v \<Rightarrow> (case (v, old) of (JObj vm, Some (JObj bm)) \<Rightarrow> Some (JObj (deep_merge bm vm)) | _ \<Rightarrow> Some v))"

lemma deep_merge_Cons:
  "deep_merge out ((k, v) # l) = deep_merge (AList.update k (the (override (map_of out k) (Some v))) out) l"
  by (cases v) (auto simp: override_def split: option.splits json.splits)

text \<open>A layer (with distinct keys) overrides exactly its own keys: a key it lacks is inherited, a key with an object on
  both sides is merged recursively, any other value replaces the inherited one.\<close>

theorem deep_merge_lookup:
  assumes "distinct (map fst l)"
  shows "map_of (deep_merge out l) k = override (map_of out k) (map_of l k)"
  using assms
proof (induction l arbitrary: out)
  case Nil
  then show ?case by (simp add: override_def)
next
  case (Cons kv l)
  obtain k' v where kv: "kv = (k', v)" by (cases kv)
  have o: "\<exists>w. override x (Some v) = Some w" for x by (auto simp: override_def split: json.splits option.splits)
  have n: "map_of l k' = None" using Cons.prems kv by (simp add: map_of_eq_None_iff)
  show ?case
  proof (cases "k = k'")
    case True
    then show ?thesis using Cons n o[of "map_of out k'"] unfolding kv deep_merge_Cons
      by (auto simp: update_conv' override_def)
  next
    case False
    then show ?thesis using Cons unfolding kv deep_merge_Cons by (simp add: update_conv')
  qed
qed

theorem deep_merge_lookup_witness:
  "map_of (deep_merge [(''a'', JInt 1), (''b'', JObj [(''x'', JInt 2), (''y'', JInt 3)])] [(''b'', JObj [(''y'', JInt 4)])]) ''b''
    = Some (JObj [(''x'', JInt 2), (''y'', JInt 4)])"
  by (subst deep_merge_lookup) (simp_all add: override_def)


lemma default_params_parse: "ParseParams None None = Inr DefaultParams"
proof -
  have "Validate DefaultParams = None" by code_simp
  then show ?thesis by (simp add: ParseParams_def)
qed


section \<open>Keys of a different case\<close>

definition plain_params :: Params where
  "plain_params =
    \<lparr>p_Baseline = \<lparr>TopN = 15, K1 = Fin 1, K2 = Fin 1, K3 = Fin 1, MinLeaseRatio = Fin 0\<rparr>,
     Ctrl = \<lparr>FMin = Fin 1, FMax = Fin 2, StepUp = Fin 0, StepDown = Fin 0, StaleDays = 7\<rparr>,
     Guard = \<lparr>MinRent = Fin 1, MaxRent = Fin 16, MaxChangeRatio = Fin 0, NoiseRatio = Fin 0,
              CooldownMinutes = 30, DepositFloorRatio = Fin 0, DepositCapRatio = Fin 2\<rparr>,
     UUMaxDays = 7, ECOMaxDays = 30\<rparr>"

lemma global_key_any_case: "map_option (TopN \<circ> p_Baseline) (to_struct params_fields (JObj [(''baseline'', JObj [(''TopN'', JInt 5)])]) plain_params) = Some 5"
  by code_simp

lemma template_key_exact: "(case merged_params plain_params None (JObj [(''baseline'', JObj [(''topn'', JInt 5)])]) of Inr p \<Rightarrow> TopN (p_Baseline p) | Inl _ \<Rightarrow> 0) = 5"
  by code_simp

lemma template_key_shadowed: "(case merged_params plain_params None (JObj [(''baseline'', JObj [(''TopN'', JInt 5)])]) of Inr p \<Rightarrow> TopN (p_Baseline p) | Inl _ \<Rightarrow> 0) = 15"
  by code_simp

text \<open>A field of the global layer is found whatever the case of its key, but the same key in a template layer is shadowed
  by the typed parameters it is merged over: the override has no effect.\<close>

theorem template_key_case_ignored:
  "map_option (TopN \<circ> p_Baseline) (to_struct params_fields (JObj [(''baseline'', JObj [(''TopN'', JInt 5)])]) plain_params) = Some 5
    \<and> (case merged_params plain_params None (JObj [(''baseline'', JObj [(''topn'', JInt 5)])]) of Inr p \<Rightarrow> TopN (p_Baseline p) | Inl _ \<Rightarrow> 0) = 5
    \<and> (case merged_params plain_params None (JObj [(''baseline'', JObj [(''TopN'', JInt 5)])]) of Inr p \<Rightarrow> TopN (p_Baseline p) | Inl _ \<Rightarrow> 0) = 15"
  by (intro conjI global_key_any_case template_key_exact template_key_shadowed)

end
