(* ===== verification/Tables.thy ===== *)
theory Tables
  imports Money Domain
begin

text \<open>
  The database of the store (\<open>internal/store\<close>, \<open>migrations/\<close>): one record type per table, a nullable column
  as an option, a \<open>numeric\<close> column as the float64 the code writes and reads (money is rounded to cents before it
  is written, and the decimal of a cent value reads back as the same float). A table is the list of its
  rows in the order a scan without \<open>ORDER BY\<close> returns them, which nothing here relies on.

  A statement runs in a session: the tables, the database clock, and the faults Postgres will report, one entry
  per statement to come (\<open>None\<close>, or no entry, for success). A fault stands for a lost connection as well as for a
  violated constraint of the schema; the statement then changes nothing. A transaction restores the tables it
  began with on every error path, as the deferred \<open>Rollback\<close> does.
\<close>

section \<open>Rows\<close>

record template_row =
  T_hash_name :: string
  T_display_name :: string
  T_category :: string
  T_uu_template_id :: "int option"
  T_uu_mark_price :: "f64 option"
  T_eco_ref_price :: "f64 option"
  T_value_anchor :: "f64 option"
  T_anchor_updated_at :: "instant option"
  T_blacklisted :: bool

record inventory_row =
  I_id :: int
  I_channel :: channel
  I_asset_id :: string
  I_hash_name :: string
  I_market_hash_name :: string
  I_template_id :: "int option"
  I_mark_price :: "f64 option"
  I_tradable :: bool
  I_status :: string
  I_cost_basis :: "f64 option"
  I_cost_source :: string
  I_cost_updated_at :: "instant option"
  I_cost_modified_at :: "instant option"
  I_last_synced_at :: instant

record listing_row =
  L_id :: int
  L_channel :: channel
  L_asset_id :: string
  L_hash_name :: string
  L_goods_ref :: string
  L_desired_state :: string
  L_actual_state :: string
  L_rent_price :: "f64 option"
  L_long_rent_price :: "f64 option"
  L_max_days :: "int option"
  L_deposit :: "f64 option"
  L_listed_at :: "instant option"
  L_last_reprice_at :: "instant option"
  L_actual_synced_at :: "instant option"
  L_factor :: f64
  L_last_factor_event_at :: "instant option"
  L_sublet_applied :: bool
  L_mismatch_since :: "instant option"
  L_mismatch_reason :: "string option"
  L_retired_at :: "instant option"

record order_row =
  O_id :: int
  O_channel :: channel
  O_order_ref :: string
  O_asset_id :: string
  O_hash_name :: string
  O_order_type :: string
  O_status :: string
  O_rent_days :: int
  O_rent_price :: f64
  O_order_amount :: f64
  O_deposits :: f64
  O_started_at :: "instant option"
  O_due_at :: "instant option"
  O_finished_at :: "instant option"
  O_updated_at :: instant
  O_factor_applied :: bool
  O_factor_listing_id :: "int option"
  O_factor_observed_at :: instant
  O_income_recorded :: bool
  O_raw :: "(string \<times> json) list option"

record snapshot_row =
  M_hash_name :: string
  M_source :: string
  M_kind :: string
  M_rank :: int
  M_price :: f64
  M_captured_at :: instant

record strategy_row =
  S_id :: int
  S_name :: string
  S_enabled :: bool
  S_scope :: string
  S_hash_name :: "string option"
  S_channel_route :: string
  S_params :: json
  S_priority :: int
  S_real_execution_enabled :: bool
  S_updated_by :: string
  S_updated_at :: instant

record action_row =
  A_id :: int
  A_ts :: instant
  A_channel :: channel
  A_hash_name :: string
  A_asset_id :: string
  A_listing_id :: "int option"
  A_action :: string
  A_old_rent :: "f64 option"
  A_new_rent :: "f64 option"
  A_old_long :: "f64 option"
  A_new_long :: "f64 option"
  A_old_days :: "int option"
  A_new_days :: "int option"
  A_old_deposit :: "f64 option"
  A_new_deposit :: "f64 option"
  A_decision :: "json option"
  A_dry_run :: bool
  A_success :: bool
  A_error :: "string option"

record flow_row =
  F_channel :: channel
  F_flow_ref :: string
  F_amount :: f64
  F_type :: string
  F_occurred_at :: instant

record setting_row =
  G_key :: string
  G_value_enc :: "string option"
  G_value_plain :: "json option"
  G_updated_at :: instant

record audit_row =
  U_ts :: instant
  U_actor :: string
  U_channel :: "string option"
  U_action :: string
  U_target :: "string option"
  U_detail :: "json option"

text \<open>The \<open>numeric(14,2)\<close> columns the database itself adds up are whole cents; a date is its number of days.\<close>

record ledger_row =
  D_order_id :: int
  D_stat_date :: int
  D_channel :: channel
  D_category :: string
  D_amount :: f64

record stat_row =
  B_stat_date :: int
  B_channel :: channel
  B_category :: string
  B_income :: int
  B_order_count :: int

record tables =
  templates :: "template_row list"
  inventory_items :: "inventory_row list"
  listings :: "listing_row list"
  lease_orders :: "order_row list"
  market_snapshots :: "snapshot_row list"
  strategies :: "strategy_row list"
  price_actions :: "action_row list"
  fund_flows :: "flow_row list"
  app_settings :: "setting_row list"
  audit_log :: "audit_row list"
  order_income_ledger :: "ledger_row list"
  daily_stats :: "stat_row list"
  shelf_observations :: "channel \<Rightarrow> instant option"
  next_id :: int

text \<open>The sequences of all tables are one counter: only their freshness matters.\<close>

section \<open>Sessions and statements\<close>

record session =
  db :: tables
  db_now :: instant
  faults :: "goerr option list"

definition next_fault :: "session \<Rightarrow> goerr option" where
  "next_fault s = (case faults s of [] \<Rightarrow> None | f # _ \<Rightarrow> f)"

definition past :: "session \<Rightarrow> session" where
  "past s = s\<lparr>faults := tl (faults s)\<rparr>"

definition Query :: "(tables \<Rightarrow> 'a) \<Rightarrow> session \<Rightarrow> (goerr + 'a) \<times> session" where
  "Query f s = (case next_fault s of Some e \<Rightarrow> (Inl e, past s) | None \<Rightarrow> (Inr (f (db s)), past s))"

definition Exec :: "(tables \<Rightarrow> tables) \<Rightarrow> session \<Rightarrow> goerr option \<times> session" where
  "Exec f s = (case next_fault s of Some e \<Rightarrow> (Some e, past s) | None \<Rightarrow> (None, (past s)\<lparr>db := f (db s)\<rparr>))"

text \<open>A statement that fails on its own data (a scan into a value a NULL cannot go to, no row for \<open>QueryRow\<close>).\<close>

definition QueryE :: "(tables \<Rightarrow> goerr + 'a) \<Rightarrow> session \<Rightarrow> (goerr + 'a) \<times> session" where
  "QueryE f s = (case next_fault s of Some e \<Rightarrow> (Inl e, past s) | None \<Rightarrow> (f (db s), past s))"

definition ExecR :: "(tables \<Rightarrow> 'a \<times> tables) \<Rightarrow> session \<Rightarrow> (goerr + 'a) \<times> session" where
  "ExecR f s = (case next_fault s of Some e \<Rightarrow> (Inl e, past s)
     | None \<Rightarrow> case f (db s) of (r, t) \<Rightarrow> (Inr r, (past s)\<lparr>db := t\<rparr>))"

definition ExecE :: "(tables \<Rightarrow> goerr + 'a \<times> tables) \<Rightarrow> session \<Rightarrow> (goerr + 'a) \<times> session" where
  "ExecE f s = (case next_fault s of Some e \<Rightarrow> (Inl e, past s)
     | None \<Rightarrow> case f (db s) of Inl e \<Rightarrow> (Inl e, past s) | Inr (r, t) \<Rightarrow> (Inr r, (past s)\<lparr>db := t\<rparr>))"

definition no_rows :: goerr where
  "no_rows = \<lparr>Error = ''no rows in result set'', wrapped = [ErrNoRows]\<rparr>"

text \<open>\<open>Begin\<close>, the body, \<open>Commit\<close>; the body's value is returned with the error of \<open>Commit\<close>. \<open>wb\<close> wraps the error of
  \<open>Begin\<close>. The body answers \<open>Inl\<close> an error, or \<open>Inr (commit, value)\<close>: without commit it returns early, rolled back.\<close>

definition Tx :: "(goerr \<Rightarrow> goerr) \<Rightarrow> (session \<Rightarrow> (goerr + bool \<times> 'a) \<times> session) \<Rightarrow> session \<Rightarrow> (goerr + 'a) \<times> session" where
  "Tx wb body s =
    (case next_fault s of Some e \<Rightarrow> (Inl (wb e), past s)
     | None \<Rightarrow>
        case body (past s) of
          (Inl e, s') \<Rightarrow> (Inl e, s'\<lparr>db := db s\<rparr>)
        | (Inr (False, v), s') \<Rightarrow> (Inr v, s'\<lparr>db := db s\<rparr>)
        | (Inr (True, v), s') \<Rightarrow>
            (case next_fault s' of Some e \<Rightarrow> (Inl e, (past s')\<lparr>db := db s\<rparr>) | None \<Rightarrow> (Inr v, past s')))"

definition upd_where :: "('r \<Rightarrow> bool) \<Rightarrow> ('r \<Rightarrow> 'r) \<Rightarrow> 'r list \<Rightarrow> 'r list" where
  "upd_where p f rows = map (\<lambda>r. if p r then f r else r) rows"

definition COALESCE :: "'a option \<Rightarrow> 'a option \<Rightarrow> 'a option" where
  "COALESCE a b = (case a of None \<Rightarrow> b | Some x \<Rightarrow> Some x)"

definition NULLIF :: "'a \<Rightarrow> 'a \<Rightarrow> 'a option" where
  "NULLIF a b = (if a = b then None else Some a)"

text \<open>\<open>GREATEST\<close> ignores NULLs; comparing NULL with anything selects nothing.\<close>

definition greatest_null :: "instant option \<Rightarrow> instant option \<Rightarrow> instant option" where
  "greatest_null a b = (case a of None \<Rightarrow> b | Some x \<Rightarrow> (case b of None \<Rightarrow> a | Some y \<Rightarrow> Some (max x y)))"

definition le_null :: "instant option \<Rightarrow> instant \<Rightarrow> bool" where
  "le_null a t = (case a of None \<Rightarrow> False | Some x \<Rightarrow> x \<le> t)"

definition nullTime :: "instant \<Rightarrow> instant option" where
  "nullTime t = (if IsZero t then None else Some t)"

definition nullTimePtr :: "instant option \<Rightarrow> instant option" where
  "nullTimePtr t = (case t of None \<Rightarrow> None | Some x \<Rightarrow> nullTime x)"

definition nilIfZero :: "int \<Rightarrow> int option" where
  "nilIfZero v = (if v = 0 then None else Some v)"

definition nullIf :: "f64 \<Rightarrow> f64 option" where
  "nullIf v = (if v = Fin 0 then None else Some v)"

section \<open>Facts\<close>



lemma Exec_db: "db (snd (Exec f s)) = (if fst (Exec f s) = None then f (db s) else db s)"
  by (simp add: Exec_def past_def split: option.splits)

lemma Query_db [simp]: "db (snd (Query f s)) = db s" "db (snd (QueryE g s)) = db s"
  by (simp_all add: Query_def QueryE_def past_def split: option.splits)

lemma now_frame [simp]:
  "db_now (past s) = db_now s" "db_now (snd (Exec f s)) = db_now s" "db_now (snd (Query g s)) = db_now s"
  by (simp_all add: past_def Exec_def Query_def split: option.splits)

lemma past_db [simp]: "db (past s) = db s"
  by (simp add: past_def)

text \<open>Atomicity: a transaction that reports an error leaves the tables as it found them.\<close>

lemma Tx_error: "Tx wb body s = (Inl e, s') \<Longrightarrow> db s' = db s"
proof (cases "next_fault s")
  case None
  assume T: "Tx wb body s = (Inl e, s')"
  obtain r s1 where b: "body (past s) = (r, s1)" by (cases "body (past s)")
  show ?thesis
  proof (cases r)
    case (Inl e')
    then show ?thesis using T None b by (auto simp: Tx_def)
  next
    case (Inr cv)
    obtain c v where "cv = (c, v)" by (cases cv)
    then show ?thesis using T None b Inr by (cases c; cases "next_fault s1") (auto simp: Tx_def)
  qed
qed (auto simp: Tx_def)

lemma Tx_ok:
  assumes "Tx wb body s = (Inr v, s')"
  shows "\<exists>c s1. body (past s) = (Inr (c, v), s1) \<and> db s' = (if c then db s1 else db s)"
proof -
  obtain r s1 where b: "body (past s) = (r, s1)" by (cases "body (past s)")
  have nf: "next_fault s = None" using assms by (cases "next_fault s") (simp_all add: Tx_def)
  show ?thesis
  proof (cases r)
    case (Inl e)
    then show ?thesis using assms b nf by (simp add: Tx_def)
  next
    case (Inr cv)
    obtain c v' where cv: "cv = (c, v')" by (cases cv)
    show ?thesis
    proof (cases c)
      case False
      then have e: "v' = v" "s' = s1\<lparr>db := db s\<rparr>" using assms unfolding Tx_def nf b Inr cv by (simp_all add: False)
      show ?thesis unfolding b Inr cv e by (intro exI[of _ c] exI[of _ s1]) (simp add: False)
    next
      case True
      have n: "next_fault s1 = None" using assms b nf Inr cv True by (cases "next_fault s1") (simp_all add: Tx_def)
      have e: "v' = v" "s' = past s1" using assms unfolding Tx_def nf b Inr cv by (simp_all add: n True)
      show ?thesis unfolding b Inr cv e by (intro exI[of _ c] exI[of _ s1]) (simp add: True)
    qed
  qed
qed

lemma no_faults [simp]: "faults s = [] \<Longrightarrow> next_fault s = None" "faults s = [] \<Longrightarrow> past s = s"
  by (simp_all add: next_fault_def past_def)

text \<open>What a statement that has run did.\<close>

lemma Query_dbD: "Query f s = (r, s') \<Longrightarrow> db s' = db s" "QueryE g s = (q, s') \<Longrightarrow> db s' = db s"
  by (auto simp: Query_def QueryE_def split: option.splits)

lemma Query_InrD: "Query f s = (Inr x, s') \<Longrightarrow> x = f (db s) \<and> db s' = db s"
  by (auto simp: Query_def split: option.splits)

lemma Exec_NoneD: "Exec f s = (None, s') \<Longrightarrow> db s' = f (db s)"
  by (auto simp: Exec_def split: option.splits)

lemma Query_runs: "faults s = [] \<Longrightarrow> Query f s = (Inr (f (db s)), s)"
  by (simp add: Query_def)

lemma Exec_runs: "faults s = [] \<Longrightarrow> Exec f s = (None, s\<lparr>db := f (db s)\<rparr>)"
  by (simp add: Exec_def)

lemma upd_where_simps [simp]: "length (upd_where p f rows) = length rows" "upd_where p f [] = []"
  "upd_where p f (r # rs) = (if p r then f r else r) # upd_where p f rs"
  by (simp_all add: upd_where_def)

lemma set_upd_where: "set (upd_where p f rows) = (\<lambda>r. if p r then f r else r) ` set rows"
  by (simp add: upd_where_def)

lemma map_upd_where: "(\<And>r. r \<in> set rows \<Longrightarrow> p r \<Longrightarrow> g (f r) = g r) \<Longrightarrow> map g (upd_where p f rows) = map g rows"
  by (simp add: upd_where_def)

lemma COALESCE_simps [simp]: "COALESCE (Some x) b = Some x" "COALESCE None b = b"
  by (simp_all add: COALESCE_def)

end
