(* ===== verification/Platform.thy ===== *)
theory Platform
  imports Domain
begin

text \<open>
  The uniform face of a trade channel, \<open>internal/platform/adapter.go\<close>: capabilities, requests and
  results, and the adapter as a record of operations on the state of the outside world (and of
  whatever else the program shares with it), which every definition using it takes as a parameter.
\<close>

record Capabilities =
  DepositDirect :: bool
  LongLeaseThresholdDays :: int
  MaxBatchPublish :: int
  MaxBatchReprice :: int
  cap_RentMaxDayMin :: int
  cap_RentMaxDayMax :: int

record PublishLeaseRequest =
  pq_AssetRef :: string
  pq_RentPrice :: f64
  pq_LongRentPrice :: f64
  pq_MaxDays :: int
  pq_Deposit :: f64

record PublishLeaseResult =
  pr_AssetRef :: string
  pr_GoodsRef :: string
  pr_Success :: bool
  pr_Error :: string

record RepriceLeaseRequest =
  rq_GoodsRef :: string
  rq_AssetRef :: string
  rq_RentPrice :: f64
  rq_LongRentPrice :: f64
  rq_MaxDays :: int
  rq_Deposit :: f64

record RepriceLeaseResult =
  rr_GoodsRef :: string
  rr_Success :: bool
  rr_Error :: string

definition PartialError :: "string \<Rightarrow> string \<Rightarrow> goerr" where
  "PartialError ref msg = \<lparr>Error = ''platform: item '' @ ref @ '': '' @ msg, wrapped = [ErrPartialFailure]\<rparr>"

definition PartialIfAnyFailed :: "PublishLeaseResult list \<Rightarrow> goerr option" where
  "PartialIfAnyFailed results =
    (let failed = length (filter (\<lambda>r. \<not> pr_Success r) results)
     in if failed = 0 then None
        else Some \<lparr>Error = ''platform: partial failure: '' @ dec_int (int failed) @ ''/'' @ dec_int (int (length results))
                      @ '' items rejected'', wrapped = [ErrPartialFailure]\<rparr>)"

record 's Adapter =
  Caps :: Capabilities
  Healthy :: "'s \<Rightarrow> goerr option \<times> 's"
  Inventory :: "'s \<Rightarrow> (goerr + InventoryItem list) \<times> 's"
  LeaseShelf :: "'s \<Rightarrow> (goerr + ShelfListing list) \<times> 's"
  PublishLease :: "PublishLeaseRequest list \<Rightarrow> 's \<Rightarrow> (PublishLeaseResult list \<times> goerr option) \<times> 's"
  RepriceLease :: "RepriceLeaseRequest list \<Rightarrow> 's \<Rightarrow> (RepriceLeaseResult list \<times> goerr option) \<times> 's"
  Delist :: "string list \<Rightarrow> 's \<Rightarrow> goerr option \<times> 's"
  LeaseOrders :: "instant \<Rightarrow> 's \<Rightarrow> (goerr + LeaseOrder list) \<times> 's"
  Wallet :: "'s \<Rightarrow> (goerr + f64) \<times> 's"

lemma PartialIfAnyFailed_None: "PartialIfAnyFailed rs = None \<longleftrightarrow> (\<forall>r \<in> set rs. pr_Success r)"
  by (auto simp: PartialIfAnyFailed_def Let_def filter_empty_conv)

lemma PartialIfAnyFailed_Is: "\<not> (\<forall>r \<in> set rs. pr_Success r) \<longleftrightarrow> errors_Is (PartialIfAnyFailed rs) ErrPartialFailure"
  by (auto simp: PartialIfAnyFailed_def Let_def filter_empty_conv)

end
