(* ===== verification/Recon.thy ===== *)
theory Recon
  imports Pricing Platform
begin

text \<open>
  The reconciliation planner, \<open>internal/recon/recon.go\<close> (\<open>planFrom\<close> and its helpers), with the rows of
  \<open>internal/store/recon.go\<close> it reads. Go maps are functions (a missing key is the zero value) or, where
  the code tells nil from present, partial functions. The callback \<open>decide\<close> of the code is a parameter
  that may act on a state: the planner passes the one that reads the store and collects errors.
\<close>

section \<open>Data\<close>

record RoutableItem =
  ri_AssetID :: string
  ri_HashName :: string
  ri_V :: "f64 option"
  ri_Route :: string

record ActiveListing =
  al_ID :: int
  al_Channel :: channel
  al_HashName :: string
  al_GoodsRef :: string
  al_AssetID :: string
  al_State :: string
  al_SyncedAt :: instant
  al_MismatchSince :: "instant option"
  al_MismatchReason :: string

record Action =
  Kind :: string
  ac_Channel :: channel
  ac_AssetID :: string
  ac_GoodsRef :: string
  ac_ListingID :: int
  ac_HashName :: string
  ac_Reason :: string
  ac_State :: string
  ac_Decision :: "Decision option"

record Snapshot =
  Items :: "RoutableItem list"
  Listings :: "ActiveListing list"
  Health :: "string \<Rightarrow> string"

definition DefaultOrphanGrace :: duration where
  "DefaultOrphanGrace = 24 * Hour"

section \<open>Routing\<close>

definition desiredChannels :: "string \<Rightarrow> bool \<Rightarrow> channel list" where
  "desiredChannels route uuHealthy =
    (if route = ''uu_only'' then [ChannelUU]
     else if route = ''eco_only'' then [ChannelECO]
     else if route = ''uu_primary_eco_fallback'' then (if uuHealthy then [ChannelUU] else [ChannelECO])
     else [ChannelUU, ChannelECO])"

fun containsChannel :: "channel list \<Rightarrow> channel \<Rightarrow> bool" where
  "containsChannel [] c = False"
| "containsChannel (x # xs) c = (if x = c then True else containsChannel xs c)"

section \<open>What is wanted\<close>

definition leasedAssets :: "ActiveListing list \<Rightarrow> string \<Rightarrow> bool" where
  "leasedAssets ls = foldl (\<lambda>m l. if al_State l = ''leased'' \<and> al_AssetID l \<noteq> '''' then m(al_AssetID l := True) else m)
     (\<lambda>_. False) ls"

record wanted =
  wantCopies :: "string \<Rightarrow> channel \<Rightarrow> int"
  distinct_assets :: "string \<Rightarrow> channel \<Rightarrow> string \<Rightarrow> bool"
  desiredByHash :: "string \<Rightarrow> channel list option"
  routeByHash :: "string \<Rightarrow> string"

definition no_wants :: wanted where
  "no_wants = \<lparr>wantCopies = (\<lambda>_ _. 0), distinct_assets = (\<lambda>_ _ _. False), desiredByHash = (\<lambda>_. None), routeByHash = (\<lambda>_. '''')\<rparr>"

definition want_channel :: "RoutableItem \<Rightarrow> wanted \<Rightarrow> channel \<Rightarrow> wanted" where
  "want_channel it w ch =
    (let h = ri_HashName it; a = ri_AssetID it
     in if distinct_assets w h ch a then w
        else w\<lparr>distinct_assets := (distinct_assets w)(h := (distinct_assets w h)(ch := (distinct_assets w h ch)(a := True))),
               wantCopies := (wantCopies w)(h := (wantCopies w h)(ch := wantCopies w h ch + 1))\<rparr>)"

definition want_item :: "bool \<Rightarrow> (string \<Rightarrow> bool) \<Rightarrow> wanted \<Rightarrow> RoutableItem \<Rightarrow> wanted" where
  "want_item uuHealthy leased w it =
    (if leased (ri_AssetID it) then w
     else let chs = desiredChannels (ri_Route it) uuHealthy;
              w = w\<lparr>desiredByHash := (desiredByHash w)(ri_HashName it := Some chs),
                    routeByHash := (routeByHash w)(ri_HashName it := ri_Route it)\<rparr>
          in foldl (want_channel it) w chs)"

definition want_items :: "bool \<Rightarrow> (string \<Rightarrow> bool) \<Rightarrow> RoutableItem list \<Rightarrow> wanted" where
  "want_items uuHealthy leased its = foldl (want_item uuHealthy leased) no_wants its"

text \<open>Ranging over a nil channel list does nothing.\<close>

definition desired :: "wanted \<Rightarrow> string \<Rightarrow> channel list" where
  "desired w h = (case desiredByHash w h of None \<Rightarrow> [] | Some chs \<Rightarrow> chs)"

definition listedByHash :: "ActiveListing list \<Rightarrow> string \<times> channel \<Rightarrow> ActiveListing list" where
  "listedByHash ls k = filter (\<lambda>l. (al_HashName l, al_Channel l) = k) ls"

section \<open>Publish pass\<close>

definition publish_action :: "channel \<Rightarrow> RoutableItem \<Rightarrow> Decision \<Rightarrow> Action" where
  "publish_action ch it d =
    \<lparr>Kind = ''publish'', ac_Channel = ch, ac_AssetID = ri_AssetID it, ac_GoodsRef = '''', ac_ListingID = 0,
     ac_HashName = ri_HashName it, ac_Reason = ''route:'' @ ri_Route it, ac_State = '''', ac_Decision = Some d\<rparr>"

definition live_count :: "ActiveListing list \<Rightarrow> int" where
  "live_count existing = int (length (filter (\<lambda>l. al_State l \<noteq> ''leased'') existing))"

definition publish_blocked ::
    "ActiveListing list \<Rightarrow> wanted \<Rightarrow> (string \<times> channel \<Rightarrow> string list) \<Rightarrow> RoutableItem \<Rightarrow> channel \<Rightarrow> bool" where
  "publish_blocked ls w planned it ch \<longleftrightarrow>
    (let k = (ri_HashName it, ch); existing = listedByHash ls k
     in ri_AssetID it \<in> set (planned k)
        \<or> list_ex (\<lambda>l. al_AssetID l = ri_AssetID it) existing
        \<or> wantCopies w (ri_HashName it) ch \<le> live_count existing + int (length (planned k)))"

type_synonym 's pub_state = "(string \<times> channel \<Rightarrow> string list) \<times> Action list \<times> 's"

definition publish_on ::
    "(channel \<Rightarrow> RoutableItem \<Rightarrow> 's \<Rightarrow> Decision option \<times> 's) \<Rightarrow> ActiveListing list \<Rightarrow> wanted \<Rightarrow> RoutableItem
      \<Rightarrow> 's pub_state \<Rightarrow> channel \<Rightarrow> 's pub_state" where
  "publish_on decide ls w it st ch =
    (case st of (planned, plan, s) \<Rightarrow>
       if publish_blocked ls w planned it ch then (planned, plan, s)
       else case decide ch it s of
           (None, s) \<Rightarrow> (planned, plan, s)
         | (Some d, s) \<Rightarrow>
             if \<not> OK d then (planned, plan, s)
             else let k = (ri_HashName it, ch)
               in (planned(k := planned k @ [ri_AssetID it]), plan @ [publish_action ch it d], s))"

definition publish_item ::
    "(channel \<Rightarrow> RoutableItem \<Rightarrow> 's \<Rightarrow> Decision option \<times> 's) \<Rightarrow> ActiveListing list \<Rightarrow> (string \<Rightarrow> bool) \<Rightarrow> wanted
      \<Rightarrow> 's pub_state \<Rightarrow> RoutableItem \<Rightarrow> 's pub_state" where
  "publish_item decide ls leased w st it =
    (if ri_AssetID it = '''' \<or> leased (ri_AssetID it) then st
     else foldl (publish_on decide ls w it) st (desired w (ri_HashName it)))"

definition publish_pass ::
    "(channel \<Rightarrow> RoutableItem \<Rightarrow> 's \<Rightarrow> Decision option \<times> 's) \<Rightarrow> Snapshot \<Rightarrow> (string \<Rightarrow> bool) \<Rightarrow> wanted \<Rightarrow> 's \<Rightarrow> 's pub_state" where
  "publish_pass decide snap leased w s =
    foldl (publish_item decide (Listings snap) leased w) ((\<lambda>_. []), [], s) (Items snap)"

section \<open>Delist pass\<close>

text \<open>The reason of a listing to go, \<open>None\<close> where it is kept.\<close>

definition delist_reason :: "wanted \<Rightarrow> bool \<Rightarrow> (string \<times> channel \<Rightarrow> int) \<Rightarrow> ActiveListing \<Rightarrow> string option" where
  "delist_reason w uuHealthy kept l =
    (let chs = desired w (al_HashName l); routed = containsChannel chs (al_Channel l)
     in if \<not> routed \<and> desiredByHash w (al_HashName l) = None then Some ''orphan_not_routable''
        else if \<not> routed then
          Some (if al_Channel l = ChannelUU \<and> \<not> uuHealthy \<and> routeByHash w (al_HashName l) = ''uu_primary_eco_fallback''
                then ''uu_unhealthy_failover'' else ''not_routed'')
        else if wantCopies w (al_HashName l) (al_Channel l) \<le> kept (al_HashName l, al_Channel l) then Some ''surplus_copies''
        else None)"

definition needs_grace :: "string \<Rightarrow> bool" where
  "needs_grace reason \<longleftrightarrow> reason \<noteq> ''not_routed'' \<and> reason \<noteq> ''uu_unhealthy_failover''"

definition grace_over :: "instant \<Rightarrow> ActiveListing \<Rightarrow> string \<Rightarrow> bool" where
  "grace_over cutoff l reason \<longleftrightarrow> al_MismatchReason l = reason \<and>
     (case al_MismatchSince l of None \<Rightarrow> False | Some t \<Rightarrow> \<not> cutoff < t)"

definition delist_action :: "ActiveListing \<Rightarrow> string \<Rightarrow> Action" where
  "delist_action l reason =
    \<lparr>Kind = ''delist'', ac_Channel = al_Channel l, ac_AssetID = '''', ac_GoodsRef = al_GoodsRef l, ac_ListingID = al_ID l,
     ac_HashName = al_HashName l, ac_Reason = reason, ac_State = al_State l, ac_Decision = None\<rparr>"

type_synonym del_state = "(string \<times> channel \<Rightarrow> int) \<times> Action list \<times> (int \<rightharpoonup> string)"

definition delist_step :: "wanted \<Rightarrow> bool \<Rightarrow> instant \<Rightarrow> del_state \<Rightarrow> ActiveListing \<Rightarrow> del_state" where
  "delist_step w uuHealthy cutoff st l =
    (case st of (kept, plan, obs) \<Rightarrow>
       let obs = obs(al_ID l \<mapsto> '''') in
       if al_State l = ''leased'' then (kept, plan, obs)
       else case delist_reason w uuHealthy kept l of
           None \<Rightarrow> (kept((al_HashName l, al_Channel l) := kept (al_HashName l, al_Channel l) + 1), plan, obs)
         | Some reason \<Rightarrow>
             if needs_grace reason \<and> \<not> grace_over cutoff l reason
             then (kept, plan, obs(al_ID l \<mapsto> reason))
             else (kept, plan @ [delist_action l reason],
                   if needs_grace reason then obs(al_ID l \<mapsto> reason) else obs))"

definition delist_pass :: "wanted \<Rightarrow> bool \<Rightarrow> instant \<Rightarrow> ActiveListing list \<Rightarrow> Action list \<Rightarrow> del_state" where
  "delist_pass w uuHealthy cutoff ls plan = foldl (delist_step w uuHealthy cutoff) ((\<lambda>_. 0), plan, Map.empty) ls"

section \<open>The plan\<close>

definition planFrom ::
    "(channel \<Rightarrow> RoutableItem \<Rightarrow> 's \<Rightarrow> Decision option \<times> 's) \<Rightarrow> Snapshot \<Rightarrow> instant \<Rightarrow> duration \<Rightarrow> 's
      \<Rightarrow> Action list \<times> (int \<rightharpoonup> string) \<times> 's" where
  "planFrom decide snap now orphanGrace s =
    (let uuHealthy = (Health snap ''uu'' = ''ok'');
         leased = leasedAssets (Listings snap);
         w = want_items uuHealthy leased (Items snap);
         (planned, plan, s) = publish_pass decide snap leased w s;
         (kept, plan, obs) = delist_pass w uuHealthy (now - orphanGrace) (Listings snap) plan
     in (plan, obs, s))"

text \<open>\<open>PlanFrom\<close>, the variant without observations, keeps the plan.\<close>

definition PlanFrom ::
    "(channel \<Rightarrow> RoutableItem \<Rightarrow> 's \<Rightarrow> Decision option \<times> 's) \<Rightarrow> Snapshot \<Rightarrow> instant \<Rightarrow> duration \<Rightarrow> 's \<Rightarrow> Action list \<times> 's" where
  "PlanFrom decide snap now orphanGrace s = (case planFrom decide snap now orphanGrace s of (plan, obs, s) \<Rightarrow> (plan, s))"

definition rentDayMin :: "channel \<Rightarrow> int" where
  "rentDayMin ch = (if ch = ChannelECO then 8 else 1)"

definition rentDayMax :: "channel \<Rightarrow> int" where
  "rentDayMax ch = 90"

end
