(* ===== verification/ListingStore.thy ===== *)
theory ListingStore
  imports Tables Recon
begin

text \<open>
  The listings of the store: \<open>store/recon.go\<close>, the listing half of \<open>store/collect.go\<close>, \<open>store/shelf_snapshot.go\<close>,
  the listing updates of \<open>store/reprice.go\<close> and the templates of \<open>store/business.go\<close>. Every SQL statement is a
  function on the tables; the store functions run them in a session, with the wrapping of errors the
  code has.
\<close>

section \<open>Templates\<close>

definition prefer_text :: "string \<Rightarrow> string \<Rightarrow> string" where
  "prefer_text new old = (if new \<noteq> '''' then new else old)"

definition merge_template :: "template_row \<Rightarrow> template_row \<Rightarrow> template_row" where
  "merge_template x r = r\<lparr>T_display_name := prefer_text (T_display_name x) (T_display_name r),
     T_category := prefer_text (T_category x) (T_category r),
     T_uu_template_id := COALESCE (T_uu_template_id x) (T_uu_template_id r),
     T_uu_mark_price := COALESCE (T_uu_mark_price x) (T_uu_mark_price r),
     T_eco_ref_price := COALESCE (T_eco_ref_price x) (T_eco_ref_price r)\<rparr>"

definition sql_upsert_template :: "template_row \<Rightarrow> tables \<Rightarrow> tables" where
  "sql_upsert_template x t =
    (if list_ex (\<lambda>r. T_hash_name r = T_hash_name x) (templates t)
     then t\<lparr>templates := upd_where (\<lambda>r. T_hash_name r = T_hash_name x) (merge_template x) (templates t)\<rparr>
     else t\<lparr>templates := templates t @ [x\<lparr>T_value_anchor := None, T_anchor_updated_at := None, T_blacklisted := False\<rparr>]\<rparr>)"

definition upsertTemplate :: "template_row \<Rightarrow> session \<Rightarrow> goerr option \<times> session" where
  "upsertTemplate x s =
    (let x = x\<lparr>T_uu_mark_price := round2MoneyPtr (T_uu_mark_price x), T_eco_ref_price := round2MoneyPtr (T_eco_ref_price x)\<rparr>
     in case Exec (sql_upsert_template x) s of
         (Some e, s) \<Rightarrow> (Some (Wrap (''upsert template '' @ T_hash_name x @ '': '') e), s)
       | (None, s) \<Rightarrow> (None, s))"

section \<open>Reading\<close>

text \<open>\<open>ORDER BY ... LIMIT 1\<close>: the first row no other row precedes.\<close>

definition first_by :: "('r \<Rightarrow> 'r \<Rightarrow> bool) \<Rightarrow> 'r list \<Rightarrow> 'r option" where
  "first_by before rows = foldl (\<lambda>best r. case best of None \<Rightarrow> Some r | Some b \<Rightarrow> if before r b then Some r else best) None rows"

definition by_priority :: "strategy_row \<Rightarrow> strategy_row \<Rightarrow> bool" where
  "by_priority a b \<longleftrightarrow> S_priority b < S_priority a \<or> (S_priority a = S_priority b \<and> S_id a < S_id b)"

definition global_route :: "tables \<Rightarrow> string option" where
  "global_route t = map_option S_channel_route
     (first_by by_priority (filter (\<lambda>g. S_scope g = ''global'' \<and> S_enabled g) (strategies t)))"

definition template_routes :: "tables \<Rightarrow> string \<Rightarrow> string option list" where
  "template_routes t h =
    (let rs = filter (\<lambda>x. S_scope x = ''template'' \<and> S_hash_name x = Some h \<and> S_enabled x) (strategies t)
     in if rs = [] then [None] else map (Some \<circ> S_channel_route) rs)"

definition sql_routable :: "tables \<Rightarrow> RoutableItem list" where
  "sql_routable t = concat (map (\<lambda>i.
     concat (map (\<lambda>tm. map (\<lambda>route.
         \<lparr>ri_AssetID = I_asset_id i, ri_HashName = I_hash_name i, ri_V = T_value_anchor tm,
          ri_Route = the (COALESCE route (COALESCE (global_route t) (Some ''both'')))\<rparr>)
       (template_routes t (I_hash_name i)))
     (filter (\<lambda>tm. T_hash_name tm = I_hash_name i \<and> \<not> T_blacklisted tm) (templates t))))
   (filter (\<lambda>i. (I_status i = ''in_stock'' \<or> I_status i = ''listed'') \<and> I_tradable i
       \<and> \<not> list_ex (\<lambda>b. I_asset_id b = I_asset_id i \<and> (I_status b = ''leased'' \<or> I_status b = ''locked'' \<or> I_status b = ''sold''))
             (inventory_items t)
       \<and> \<not> list_ex (\<lambda>l. L_asset_id l = I_asset_id i \<and> L_actual_state l = ''leased'') (listings t))
     (inventory_items t)))"

definition RoutableInventory :: "session \<Rightarrow> (goerr + RoutableItem list) \<times> session" where
  "RoutableInventory s = (case Query sql_routable s of
      (Inl e, s) \<Rightarrow> (Inl (Wrap ''routable inventory: '' e), s) | (Inr r, s) \<Rightarrow> (Inr r, s))"

definition is_active :: "listing_row \<Rightarrow> bool" where
  "is_active l \<longleftrightarrow> L_actual_state l = ''active'' \<or> L_actual_state l = ''leased''"

definition active_listing :: "listing_row \<Rightarrow> ActiveListing" where
  "active_listing l =
    \<lparr>al_ID = L_id l, al_Channel = L_channel l, al_HashName = L_hash_name l, al_GoodsRef = L_goods_ref l,
     al_AssetID = L_asset_id l, al_State = L_actual_state l,
     al_SyncedAt = (case L_actual_synced_at l of None \<Rightarrow> 0 | Some t \<Rightarrow> t),
     al_MismatchSince = L_mismatch_since l,
     al_MismatchReason = (case L_mismatch_reason l of None \<Rightarrow> '''' | Some r \<Rightarrow> r)\<rparr>"

definition sql_active :: "tables \<Rightarrow> ActiveListing list" where
  "sql_active t = map active_listing (filter is_active (listings t))"

definition AllActiveListings :: "session \<Rightarrow> (goerr + ActiveListing list) \<times> session" where
  "AllActiveListings s = (case Query sql_active s of
      (Inl e, s) \<Rightarrow> (Inl (Wrap ''active listings: '' e), s) | (Inr r, s) \<Rightarrow> (Inr r, s))"

definition sql_count_active :: "channel \<Rightarrow> tables \<Rightarrow> int" where
  "sql_count_active ch t = int (length (filter (\<lambda>l. L_channel l = ch \<and> is_active l) (listings t)))"

definition CountActiveListings :: "channel \<Rightarrow> session \<Rightarrow> (goerr + int) \<times> session" where
  "CountActiveListings ch = Query (sql_count_active ch)"

section \<open>Reconciliation writes\<close>

definition observe_row :: "string \<Rightarrow> instant \<Rightarrow> listing_row \<Rightarrow> listing_row" where
  "observe_row reason now l =
    (if reason = '''' \<or> L_actual_state l \<noteq> ''active'' then l\<lparr>L_mismatch_since := None, L_mismatch_reason := None\<rparr>
     else l\<lparr>L_mismatch_since := (if L_mismatch_reason l = Some reason then COALESCE (L_mismatch_since l) (Some now) else Some now),
            L_mismatch_reason := Some reason\<rparr>)"

definition sql_observe :: "(int \<rightharpoonup> string) \<Rightarrow> instant \<Rightarrow> tables \<Rightarrow> tables" where
  "sql_observe obs now t =
    t\<lparr>listings := map (\<lambda>l. case obs (L_id l) of None \<Rightarrow> l | Some reason \<Rightarrow> observe_row reason now l) (listings t)\<rparr>"

definition ObserveReconMismatches :: "(int \<rightharpoonup> string) \<Rightarrow> instant \<Rightarrow> session \<Rightarrow> goerr option \<times> session" where
  "ObserveReconMismatches obs now = Exec (sql_observe obs now)"

definition is_ref :: "channel \<Rightarrow> string \<Rightarrow> listing_row \<Rightarrow> bool" where
  "is_ref ch ref l \<longleftrightarrow> L_channel l = ch \<and> L_goods_ref l = ref"

definition sql_record_published ::
    "channel \<Rightarrow> string \<Rightarrow> string \<Rightarrow> string \<Rightarrow> f64 \<Rightarrow> f64 \<Rightarrow> f64 \<Rightarrow> int \<Rightarrow> instant \<Rightarrow> tables \<Rightarrow> tables" where
  "sql_record_published ch asset hash ref rent long deposit days now t =
    (if list_ex (is_ref ch ref) (listings t)
     then t\<lparr>listings := upd_where (is_ref ch ref)
              (\<lambda>l. l\<lparr>L_desired_state := ''active'', L_actual_state := ''active'', L_rent_price := Some rent,
                    L_long_rent_price := nullIf long, L_max_days := Some days, L_deposit := Some deposit,
                    L_actual_synced_at := Some now, L_retired_at := None, L_mismatch_since := None,
                    L_mismatch_reason := None, L_sublet_applied := (ch = ''eco'')\<rparr>) (listings t),
            next_id := next_id t + 1\<rparr>
     else t\<lparr>listings := listings t @
              [\<lparr>L_id = next_id t, L_channel = ch, L_asset_id = asset, L_hash_name = hash, L_goods_ref = ref,
                L_desired_state = ''active'', L_actual_state = ''active'', L_rent_price = Some rent,
                L_long_rent_price = nullIf long, L_max_days = Some days, L_deposit = Some deposit,
                L_listed_at = Some now, L_last_reprice_at = None, L_actual_synced_at = Some now, L_factor = Fin 1,
                L_last_factor_event_at = None, L_sublet_applied = (ch = ''eco''), L_mismatch_since = None,
                L_mismatch_reason = None, L_retired_at = None\<rparr>],
            next_id := next_id t + 1\<rparr>)"

definition RecordPublishedListing ::
    "channel \<Rightarrow> string \<Rightarrow> string \<Rightarrow> string \<Rightarrow> f64 \<Rightarrow> f64 \<Rightarrow> f64 \<Rightarrow> int \<Rightarrow> session \<Rightarrow> goerr option \<times> session" where
  "RecordPublishedListing ch asset hash ref rent long deposit days s =
    Exec (sql_record_published ch asset hash ref (round2Money rent) (round2Money long) (round2Money deposit) days (db_now s)) s"

definition sql_mark_delisted :: "channel \<Rightarrow> string \<Rightarrow> instant \<Rightarrow> tables \<Rightarrow> tables" where
  "sql_mark_delisted ch ref now t =
    t\<lparr>listings := upd_where (is_ref ch ref)
        (\<lambda>l. l\<lparr>L_desired_state := ''delisted'', L_actual_state := ''none'', L_actual_synced_at := Some now,
              L_retired_at := Some now, L_mismatch_since := None, L_mismatch_reason := None\<rparr>) (listings t)\<rparr>"

definition MarkListingDelisted :: "channel \<Rightarrow> string \<Rightarrow> session \<Rightarrow> goerr option \<times> session" where
  "MarkListingDelisted ch ref s = Exec (sql_mark_delisted ch ref (db_now s)) s"

section \<open>Shelf snapshots\<close>

definition untouched_since :: "instant option \<Rightarrow> listing_row \<Rightarrow> bool" where
  "untouched_since observedAt l \<longleftrightarrow>
    (case observedAt of None \<Rightarrow> True
     | Some t \<Rightarrow> le_null (greatest_null (L_actual_synced_at l) (L_last_reprice_at l)) t
         \<or> (L_actual_synced_at l = None \<and> L_last_reprice_at l = None))"

definition shelf_state :: "ShelfListing \<Rightarrow> string" where
  "shelf_state x = (if sl_Leased x then ''leased'' else ''active'')"

definition shelf_merge :: "ShelfListing \<Rightarrow> instant \<Rightarrow> listing_row \<Rightarrow> listing_row" where
  "shelf_merge x ts l =
    (let same = (L_actual_state l = shelf_state x) in
     l\<lparr>L_asset_id := sl_AssetID x, L_hash_name := sl_HashName x, L_actual_state := shelf_state x,
       L_rent_price := Some (sl_RentPrice x), L_long_rent_price := Some (sl_LongRentPrice x),
       L_max_days := Some (sl_MaxDays x), L_deposit := Some (sl_Deposit x),
       L_listed_at := COALESCE (L_listed_at l) (nullTime (sl_ListedAt x)),
       L_mismatch_since := (if same then L_mismatch_since l else None),
       L_mismatch_reason := (if same then L_mismatch_reason l else None),
       L_retired_at := None, L_actual_synced_at := Some ts\<rparr>)"

definition shelf_insert :: "ShelfListing \<Rightarrow> instant \<Rightarrow> int \<Rightarrow> listing_row" where
  "shelf_insert x ts i =
    \<lparr>L_id = i, L_channel = sl_Channel x, L_asset_id = sl_AssetID x, L_hash_name = sl_HashName x,
     L_goods_ref = sl_GoodsRef x, L_desired_state = ''active'', L_actual_state = shelf_state x,
     L_rent_price = Some (sl_RentPrice x), L_long_rent_price = Some (sl_LongRentPrice x),
     L_max_days = Some (sl_MaxDays x), L_deposit = Some (sl_Deposit x),
     L_listed_at = nullTime (sl_ListedAt x), L_last_reprice_at = None, L_actual_synced_at = Some ts, L_factor = Fin 1,
     L_last_factor_event_at = None, L_sublet_applied = False, L_mismatch_since = None, L_mismatch_reason = None,
     L_retired_at = None\<rparr>"

definition sql_upsert_shelf :: "ShelfListing \<Rightarrow> instant option \<Rightarrow> instant \<Rightarrow> tables \<Rightarrow> tables" where
  "sql_upsert_shelf x observedAt now t =
    (let ts = (case observedAt of None \<Rightarrow> now | Some a \<Rightarrow> a);
         old = is_ref (sl_Channel x) (sl_GoodsRef x)
     in if list_ex old (listings t)
        then t\<lparr>listings := upd_where (\<lambda>l. old l \<and> untouched_since observedAt l) (shelf_merge x ts) (listings t),
               next_id := next_id t + 1\<rparr>
        else t\<lparr>listings := listings t @ [shelf_insert x ts (next_id t)], next_id := next_id t + 1\<rparr>)"

definition upsertListingFromShelf :: "ShelfListing \<Rightarrow> instant option \<Rightarrow> session \<Rightarrow> goerr option \<times> session" where
  "upsertListingFromShelf x observedAt s =
    (let x = x\<lparr>sl_RentPrice := round2Money (sl_RentPrice x), sl_LongRentPrice := round2Money (sl_LongRentPrice x),
               sl_Deposit := round2Money (sl_Deposit x)\<rparr>
     in case upsertTemplate \<lparr>T_hash_name = sl_HashName x, T_display_name = sl_DisplayName x, T_category = '''',
               T_uu_template_id = nilIfZero (sl_TemplateID x), T_uu_mark_price = None, T_eco_ref_price = None,
               T_value_anchor = None, T_anchor_updated_at = None, T_blacklisted = False\<rparr> s of
         (Some e, s) \<Rightarrow> (Some e, s)
       | (None, s) \<Rightarrow>
          (case Exec (sql_upsert_shelf x observedAt (db_now s)) s of
             (Some e, s) \<Rightarrow> (Some (Wrap (''upsert listing '' @ sl_Channel x @ ''/'' @ sl_GoodsRef x @ '': '') e), s)
           | (None, s) \<Rightarrow> (None, s)))"

definition is_missing :: "channel \<Rightarrow> string list \<Rightarrow> instant option \<Rightarrow> listing_row \<Rightarrow> bool" where
  "is_missing ch seen observedAt l \<longleftrightarrow>
     L_channel l = ch \<and> L_actual_state l = ''active'' \<and> L_goods_ref l \<notin> set seen \<and> untouched_since observedAt l"

definition sql_mark_missing :: "channel \<Rightarrow> string list \<Rightarrow> instant option \<Rightarrow> instant \<Rightarrow> tables \<Rightarrow> int \<times> tables" where
  "sql_mark_missing ch seen observedAt now t =
    (let ts = (case observedAt of None \<Rightarrow> now | Some a \<Rightarrow> a)
     in (int (length (filter (is_missing ch seen observedAt) (listings t))),
         t\<lparr>listings := upd_where (is_missing ch seen observedAt)
            (\<lambda>l. l\<lparr>L_actual_state := ''none'', L_mismatch_since := None, L_mismatch_reason := None,
                  L_retired_at := Some ts, L_actual_synced_at := Some ts\<rparr>) (listings t)\<rparr>))"

definition markMissingListings :: "channel \<Rightarrow> string list \<Rightarrow> instant option \<Rightarrow> session \<Rightarrow> (goerr + int) \<times> session" where
  "markMissingListings ch seen observedAt s =
    (case ExecR (sql_mark_missing ch seen observedAt (db_now s)) s of
       (Inl e, s) \<Rightarrow> (Inl (Wrap ''mark missing listings: '' e), s) | (Inr n, s) \<Rightarrow> (Inr n, s))"

fun valid_shelf :: "channel \<Rightarrow> string list \<Rightarrow> ShelfListing list \<Rightarrow> string list option" where
  "valid_shelf ch seen [] = Some seen"
| "valid_shelf ch seen (l # ls) =
    (if sl_Channel l \<noteq> ch \<or> sl_GoodsRef l = '''' \<or> sl_GoodsRef l \<in> set seen then None
     else valid_shelf ch (seen @ [sl_GoodsRef l]) ls)"

fun upsert_shelf_rows :: "ShelfListing list \<Rightarrow> instant \<Rightarrow> session \<Rightarrow> goerr option \<times> session" where
  "upsert_shelf_rows [] ts s = (None, s)"
| "upsert_shelf_rows (l # ls) ts s =
    (let l = (if sl_HashName l = '''' then l\<lparr>sl_HashName := sl_DisplayName l\<rparr> else l)
     in case upsertListingFromShelf l (Some ts) s of
         (Some e, s) \<Rightarrow> (Some e, s)
       | (None, s) \<Rightarrow> upsert_shelf_rows ls ts s)"

definition sql_set_observation :: "channel \<Rightarrow> instant \<Rightarrow> tables \<Rightarrow> tables" where
  "sql_set_observation ch ts t = t\<lparr>shelf_observations := (shelf_observations t)(ch := Some ts)\<rparr>"

text \<open>The pair is the number of missing rows and of the active rows behind the empty-shelf breaker.\<close>

definition shelf_write :: "channel \<Rightarrow> ShelfListing list \<Rightarrow> string list \<Rightarrow> instant \<Rightarrow> session \<Rightarrow> (goerr + bool \<times> int \<times> int) \<times> session" where
  "shelf_write ch shelf seen ts s =
    (case upsert_shelf_rows shelf ts s of
       (Some e, s) \<Rightarrow> (Inl e, s)
     | (None, s) \<Rightarrow>
        (case markMissingListings ch seen (Some ts) s of
           (Inl e, s) \<Rightarrow> (Inl e, s)
         | (Inr missing, s) \<Rightarrow>
            (case Exec (sql_set_observation ch ts) s of
               (Some e, s) \<Rightarrow> (Inl e, s)
             | (None, s) \<Rightarrow> (Inr (True, missing, 0), s))))"

definition shelf_body :: "channel \<Rightarrow> ShelfListing list \<Rightarrow> string list \<Rightarrow> instant \<Rightarrow> session \<Rightarrow> (goerr + bool \<times> int \<times> int) \<times> session" where
  "shelf_body ch shelf seen ts s =
    (case Exec id s of
       (Some e, s) \<Rightarrow> (Inl e, s)
     | (None, s) \<Rightarrow>
        (case Query (\<lambda>t. shelf_observations t ch) s of
           (Inl e, s) \<Rightarrow> (Inl e, s)
         | (Inr previous, s) \<Rightarrow>
            if (case previous of None \<Rightarrow> False | Some p \<Rightarrow> \<not> IsZero p \<and> \<not> p < ts) then (Inr (False, 0, 0), s)
            else if shelf = [] then
              (case Query (sql_count_active ch) s of
                 (Inl e, s) \<Rightarrow> (Inl e, s)
               | (Inr n, s) \<Rightarrow> if 0 < n then (Inr (False, 0, n), s) else shelf_write ch shelf seen ts s)
            else shelf_write ch shelf seen ts s))"

definition ApplyShelfSnapshot :: "channel \<Rightarrow> ShelfListing list \<Rightarrow> instant \<Rightarrow> session \<Rightarrow> (goerr + int \<times> int) \<times> session" where
  "ApplyShelfSnapshot ch shelf ts s =
    (if \<not> Valid ch \<or> IsZero ts then (Inl (Errorf ''invalid shelf observation''), s)
     else case valid_shelf ch [] shelf of
         None \<Rightarrow> (Inl (Errorf (''invalid or duplicate shelf row for '' @ ch)), s)
       | Some seen \<Rightarrow> Tx id (shelf_body ch shelf seen ts) s)"

section \<open>Updates by identifier\<close>

definition sql_update_decision :: "int \<Rightarrow> f64 \<Rightarrow> f64 \<Rightarrow> f64 \<Rightarrow> int \<Rightarrow> instant \<Rightarrow> tables \<Rightarrow> tables" where
  "sql_update_decision i rent long deposit days now t =
    t\<lparr>listings := upd_where (\<lambda>l. L_id l = i)
       (\<lambda>l. l\<lparr>L_rent_price := Some rent, L_long_rent_price := nullIf long, L_deposit := Some deposit,
             L_max_days := Some days, L_last_reprice_at := Some now\<rparr>) (listings t)\<rparr>"

definition UpdateListingDecision :: "int \<Rightarrow> f64 \<Rightarrow> f64 \<Rightarrow> f64 \<Rightarrow> int \<Rightarrow> session \<Rightarrow> goerr option \<times> session" where
  "UpdateListingDecision i rent long deposit days s =
    Exec (sql_update_decision i (round2Money rent) (round2Money long) (round2Money deposit) days (db_now s)) s"

definition MarkListingSubletApplied :: "int \<Rightarrow> session \<Rightarrow> goerr option \<times> session" where
  "MarkListingSubletApplied i =
    Exec (\<lambda>t. t\<lparr>listings := upd_where (\<lambda>l. L_id l = i) (\<lambda>l. l\<lparr>L_sublet_applied := True\<rparr>) (listings t)\<rparr>)"

definition sql_set_factor :: "int \<Rightarrow> f64 \<Rightarrow> instant \<Rightarrow> tables \<Rightarrow> tables" where
  "sql_set_factor i factor now t =
    t\<lparr>listings := upd_where (\<lambda>l. L_id l = i) (\<lambda>l. l\<lparr>L_factor := factor, L_last_factor_event_at := Some now\<rparr>) (listings t)\<rparr>"

definition SetListingFactor :: "int \<Rightarrow> f64 \<Rightarrow> session \<Rightarrow> goerr option \<times> session" where
  "SetListingFactor i factor s = Exec (sql_set_factor i factor (db_now s)) s"

end
