(* ===== verification/ReconProps.thy ===== *)
theory ReconProps
  imports Recon
begin

text \<open>
  What the planner guarantees: the wanted copies are exactly the distinct routable assets, publishes stay
  within them, leased listings are never delisted, delists only take surplus after the grace period, and a
  converged shelf is left alone. The two passes are loops with the invariants \<open>pub_inv\<close> and \<open>del_inv\<close>.
\<close>

section \<open>What is wanted\<close>

lemma containsChannel_iff [simp]: "containsChannel xs c \<longleftrightarrow> c \<in> set xs"
  by (induction xs) auto

lemma leasedAssets_iff: "leasedAssets ls a \<longleftrightarrow> a \<noteq> '''' \<and> (\<exists>l \<in> set ls. al_State l = ''leased'' \<and> al_AssetID l = a)"
proof -
  have "foldl (\<lambda>m l. if al_State l = ''leased'' \<and> al_AssetID l \<noteq> '''' then m(al_AssetID l := True) else m) m ls a
      \<longleftrightarrow> m a \<or> a \<noteq> '''' \<and> (\<exists>l \<in> set ls. al_State l = ''leased'' \<and> al_AssetID l = a)" for m
    by (induction ls arbitrary: m) auto
  then show ?thesis by (simp add: leasedAssets_def)
qed

lemma desiredChannels_distinct [simp]: "distinct (desiredChannels r u)" and desiredChannels_ne [simp]: "desiredChannels r u \<noteq> []"
  by (auto simp: desiredChannels_def)

definition routed_here :: "bool \<Rightarrow> (string \<Rightarrow> bool) \<Rightarrow> RoutableItem list \<Rightarrow> string \<Rightarrow> channel \<Rightarrow> string set" where
  "routed_here uuHealthy leased its h ch =
    {ri_AssetID it | it. it \<in> set its \<and> ri_HashName it = h \<and> \<not> leased (ri_AssetID it) \<and> ch \<in> set (desiredChannels (ri_Route it) uuHealthy)}"

definition want_inv :: "wanted \<Rightarrow> (string \<Rightarrow> channel \<Rightarrow> string set) \<Rightarrow> bool" where
  "want_inv w A \<longleftrightarrow> (\<forall>h ch. finite (A h ch) \<and> (\<forall>a. distinct_assets w h ch a \<longleftrightarrow> a \<in> A h ch) \<and> wantCopies w h ch = int (card (A h ch)))"

lemma want_channel_inv:
  assumes "want_inv w A"
  shows "want_inv (want_channel it w ch) (\<lambda>h c. if h = ri_HashName it \<and> c = ch then insert (ri_AssetID it) (A h c) else A h c)"
  using assms by (auto simp: want_inv_def want_channel_def Let_def insert_absorb card_insert_if)

lemma want_channels_inv:
  assumes "want_inv w A"
  shows "want_inv (foldl (want_channel it) w chs)
    (\<lambda>h c. if h = ri_HashName it \<and> c \<in> set chs then insert (ri_AssetID it) (A h c) else A h c)"
  using assms
proof (induction chs arbitrary: w A)
  case (Cons c chs)
  have e: "(\<lambda>h ca. if h = ri_HashName it \<and> ca \<in> set chs
      then insert (ri_AssetID it) (if h = ri_HashName it \<and> ca = c then insert (ri_AssetID it) (A h ca) else A h ca)
      else (if h = ri_HashName it \<and> ca = c then insert (ri_AssetID it) (A h ca) else A h ca))
    = (\<lambda>h ca. if h = ri_HashName it \<and> ca \<in> set (c # chs) then insert (ri_AssetID it) (A h ca) else A h ca)"
    by (auto simp: fun_eq_iff)
  show ?case using Cons.IH[OF want_channel_inv[OF Cons.prems, of it c]] by (simp only: e foldl_Cons)
qed simp

lemma want_channels_frame [simp]:
  "desiredByHash (foldl (want_channel it) w chs) = desiredByHash w"
  "routeByHash (foldl (want_channel it) w chs) = routeByHash w"
  by (induction chs arbitrary: w) (auto simp: want_channel_def Let_def)

lemma want_item_inv:
  assumes "want_inv w (routed_here u leased its)"
  shows "want_inv (want_item u leased w it) (routed_here u leased (its @ [it]))"
proof (cases "leased (ri_AssetID it)")
  case True
  then have "routed_here u leased (its @ [it]) = routed_here u leased its" by (auto simp: routed_here_def fun_eq_iff)
  then show ?thesis using True assms by (simp add: want_item_def)
next
  case False
  let ?w = "w\<lparr>desiredByHash := (desiredByHash w)(ri_HashName it := Some (desiredChannels (ri_Route it) u)),
              routeByHash := (routeByHash w)(ri_HashName it := ri_Route it)\<rparr>"
  have w: "want_inv ?w (routed_here u leased its)" using assms by (simp add: want_inv_def)
  have "routed_here u leased (its @ [it]) = (\<lambda>h c. if h = ri_HashName it \<and> c \<in> set (desiredChannels (ri_Route it) u)
      then insert (ri_AssetID it) (routed_here u leased its h c) else routed_here u leased its h c)"
    using False by (auto simp: routed_here_def fun_eq_iff)
  then show ?thesis using want_channels_inv[OF w, of it "desiredChannels (ri_Route it) u"] False
    by (simp add: want_item_def Let_def)
qed

lemma want_items_inv: "want_inv (want_items u leased its) (routed_here u leased its)"
proof (induction its rule: rev_induct)
  case Nil
  show ?case by (simp add: want_items_def want_inv_def no_wants_def routed_here_def)
next
  case (snoc it its)
  then show ?case using want_item_inv[OF snoc.IH] by (simp add: want_items_def)
qed

lemma wantCopies_card: "wantCopies (want_items u leased its) h ch = int (card (routed_here u leased its h ch))"
  using want_items_inv by (simp add: want_inv_def)

text \<open>The channels of a hash are those of the route of its last item that is not leased.\<close>

lemma desiredByHash_items:
  "desiredByHash (want_items u leased its) h =
    (case filter (\<lambda>it. ri_HashName it = h \<and> \<not> leased (ri_AssetID it)) its of
       [] \<Rightarrow> None | x # xs \<Rightarrow> Some (desiredChannels (ri_Route (last (x # xs))) u))"
  by (induction its rule: rev_induct)
    (auto simp: want_items_def no_wants_def want_item_def Let_def split: list.splits)

lemma routeByHash_items:
  "filter (\<lambda>it. ri_HashName it = h \<and> \<not> leased (ri_AssetID it)) its = x # xs
    \<Longrightarrow> routeByHash (want_items u leased its) h = ri_Route (last (x # xs))"
  by (induction its arbitrary: x xs rule: rev_induct)
    (auto simp: want_items_def no_wants_def want_item_def Let_def append_eq_Cons_conv split: if_splits list.splits)

section \<open>Publish pass\<close>

abbreviation is_publish :: "string \<Rightarrow> channel \<Rightarrow> Action \<Rightarrow> bool" where
  "is_publish h ch a \<equiv> Kind a = ''publish'' \<and> ac_HashName a = h \<and> ac_Channel a = ch"

abbreviation is_delist :: "string \<Rightarrow> channel \<Rightarrow> Action \<Rightarrow> bool" where
  "is_delist h ch a \<equiv> Kind a = ''delist'' \<and> ac_HashName a = h \<and> ac_Channel a = ch"

definition pub_ok :: "ActiveListing list \<Rightarrow> (string \<Rightarrow> bool) \<Rightarrow> wanted \<Rightarrow> Action \<Rightarrow> bool" where
  "pub_ok ls leased w a \<longleftrightarrow> Kind a = ''publish'' \<and> ac_AssetID a \<noteq> '''' \<and> \<not> leased (ac_AssetID a)
     \<and> (\<forall>l \<in> set ls. \<not> (al_HashName l = ac_HashName a \<and> al_Channel l = ac_Channel a \<and> al_AssetID l = ac_AssetID a))
     \<and> ac_Channel a \<in> set (desired w (ac_HashName a)) \<and> (\<exists>d. ac_Decision a = Some d \<and> OK d)"

definition pub_inv :: "ActiveListing list \<Rightarrow> (string \<Rightarrow> bool) \<Rightarrow> wanted \<Rightarrow> 's pub_state \<Rightarrow> bool" where
  "pub_inv ls leased w st \<longleftrightarrow> (case st of (planned, plan, s) \<Rightarrow>
     (\<forall>h ch. map ac_AssetID (filter (is_publish h ch) plan) = planned (h, ch) \<and> distinct (planned (h, ch))
        \<and> (planned (h, ch) \<noteq> [] \<longrightarrow> live_count (listedByHash ls (h, ch)) + int (length (planned (h, ch))) \<le> wantCopies w h ch))
     \<and> (\<forall>a \<in> set plan. pub_ok ls leased w a))"

lemma publish_on_inv:
  assumes "pub_inv ls leased w st" "ri_AssetID it \<noteq> ''''" "\<not> leased (ri_AssetID it)" "ch \<in> set (desired w (ri_HashName it))"
  shows "pub_inv ls leased w (publish_on decide ls w it st ch)"
proof -
  obtain planned plan s where st: "st = (planned, plan, s)" by (cases st)
  show ?thesis
  proof (cases "publish_blocked ls w planned it ch")
    case True
    then show ?thesis using assms st by (simp add: publish_on_def)
  next
    case False
    obtain d s' where d: "decide ch it s = (d, s')" by (cases "decide ch it s")
    show ?thesis
    proof (cases d)
      case None
      then show ?thesis using assms st False d by (simp add: publish_on_def pub_inv_def)
    next
      case (Some x)
      show ?thesis
      proof (cases "OK x")
        case True
        then have "pub_ok ls leased w (publish_action ch it x)"
          using assms(2-4) False by (auto simp: pub_ok_def publish_action_def publish_blocked_def Let_def list_ex_iff listedByHash_def)
        then show ?thesis using assms(1) st False d Some True
          by (auto simp: publish_on_def pub_inv_def publish_action_def publish_blocked_def Let_def)
      qed (use assms st False d Some in \<open>simp add: publish_on_def pub_inv_def\<close>)
    qed
  qed
qed

lemma publish_pass_inv:
  fixes s :: 's
  shows "pub_inv (Listings snap) leased w (publish_pass decide snap leased w s)"
  unfolding publish_pass_def
proof (rule foldl_inv)
  show "pub_inv (Listings snap) leased w ((\<lambda>_. []), [], s)" by (simp add: pub_inv_def)
next
  fix st :: "'s pub_state" and it assume "pub_inv (Listings snap) leased w st"
  then show "pub_inv (Listings snap) leased w (publish_item decide (Listings snap) leased w st it)"
    unfolding publish_item_def
    by (cases "ri_AssetID it = '''' \<or> leased (ri_AssetID it)")
      (simp_all add: foldl_inv[where P = "pub_inv (Listings snap) leased w"] publish_on_inv)
qed

section \<open>Delist pass\<close>

definition del_ok :: "wanted \<Rightarrow> instant \<Rightarrow> ActiveListing list \<Rightarrow> Action \<Rightarrow> bool" where
  "del_ok w cutoff ls a \<longleftrightarrow> (\<exists>l \<in> set ls. a = delist_action l (ac_Reason a) \<and> al_State l \<noteq> ''leased''
     \<and> (if needs_grace (ac_Reason a) then grace_over cutoff l (ac_Reason a)
        else al_Channel l \<notin> set (desired w (al_HashName l))))"

lemma delist_reason_routed:
  "delist_reason w u kept l = Some r \<Longrightarrow> \<not> needs_grace r \<Longrightarrow> al_Channel l \<notin> set (desired w (al_HashName l))"
  "ch = al_Channel l \<Longrightarrow> ch \<in> set (desired w (al_HashName l)) \<Longrightarrow>
     delist_reason w u kept l = (if wantCopies w (al_HashName l) ch \<le> kept (al_HashName l, ch) then Some ''surplus_copies'' else None)"
  by (auto simp: delist_reason_def needs_grace_def Let_def split: if_splits)

definition del_inv ::
    "wanted \<Rightarrow> instant \<Rightarrow> Action list \<Rightarrow> ActiveListing list \<Rightarrow> del_state \<Rightarrow> bool" where
  "del_inv w cutoff plan0 ls st \<longleftrightarrow> (case st of (kept, plan, obs) \<Rightarrow>
     (\<exists>ds. plan = plan0 @ ds \<and> (\<forall>a \<in> set ds. del_ok w cutoff ls a)
        \<and> (\<forall>h ch. ch \<in> set (desired w h) \<longrightarrow>
             kept (h, ch) = min (live_count (listedByHash ls (h, ch))) (wantCopies w h ch)
             \<and> kept (h, ch) + int (length (filter (is_delist h ch) ds)) \<le> live_count (listedByHash ls (h, ch))))
     \<and> dom obs = al_ID ` set ls)"

lemma live_count_snoc:
  "live_count (listedByHash (ls @ [l]) k) = live_count (listedByHash ls k) +
    (if (al_HashName l, al_Channel l) = k \<and> al_State l \<noteq> ''leased'' then 1 else 0)"
  by (auto simp: live_count_def listedByHash_def)

lemma del_ok_mono: "del_ok w cutoff ls a \<Longrightarrow> set ls \<subseteq> set ls' \<Longrightarrow> del_ok w cutoff ls' a"
  by (auto simp: del_ok_def)

lemma kind_delist_action [simp]:
  "Kind (delist_action l r) = ''delist''" "ac_HashName (delist_action l r) = al_HashName l"
  "ac_Channel (delist_action l r) = al_Channel l" "ac_Reason (delist_action l r) = r"
  by (simp_all add: delist_action_def)

lemma delist_step_inv:
  assumes "del_inv w cutoff plan0 ls st"
  shows "del_inv w cutoff plan0 (ls @ [l]) (delist_step w u cutoff st l)"
proof -
  obtain kept plan obs where st: "st = (kept, plan, obs)" by (cases st)
  obtain ds where ds: "plan = plan0 @ ds" "\<And>a. a \<in> set ds \<Longrightarrow> del_ok w cutoff (ls @ [l]) a"
    and cnt: "\<And>h ch. ch \<in> set (desired w h) \<Longrightarrow>
        kept (h, ch) = min (live_count (listedByHash ls (h, ch))) (wantCopies w h ch)
        \<and> kept (h, ch) + int (length (filter (is_delist h ch) ds)) \<le> live_count (listedByHash ls (h, ch))"
    and dom: "dom obs = al_ID ` set ls"
    using assms st del_ok_mono[of w cutoff ls _ "ls @ [l]"] unfolding del_inv_def by fastforce
  have d: "dom (obs(al_ID l \<mapsto> '''')) = al_ID ` set (ls @ [l])" using dom by auto
  show ?thesis
  proof (cases "al_State l = ''leased''")
    case True
    have c: "kept (h, ch) = min (live_count (listedByHash (ls @ [l]) (h, ch))) (wantCopies w h ch)
        \<and> kept (h, ch) + int (length (filter (is_delist h ch) ds)) \<le> live_count (listedByHash (ls @ [l]) (h, ch))"
      if "ch \<in> set (desired w h)" for h ch
      using cnt[OF that] True by (simp add: live_count_snoc)
    have e: "delist_step w u cutoff st l = (kept, plan0 @ ds, obs(al_ID l \<mapsto> ''''))"
      using True ds(1) by (simp add: st delist_step_def)
    show ?thesis unfolding e del_inv_def prod.case using c ds(2) d by blast
  next
    case False
    show ?thesis
    proof (cases "delist_reason w u kept l")
      case None
      have "wantCopies w (al_HashName l) (al_Channel l) > kept (al_HashName l, al_Channel l)"
        using None by (auto simp: delist_reason_def Let_def split: if_splits)
      then have c: "(kept((al_HashName l, al_Channel l) := kept (al_HashName l, al_Channel l) + 1)) (h, ch)
            = min (live_count (listedByHash (ls @ [l]) (h, ch))) (wantCopies w h ch)
          \<and> (kept((al_HashName l, al_Channel l) := kept (al_HashName l, al_Channel l) + 1)) (h, ch)
            + int (length (filter (is_delist h ch) ds)) \<le> live_count (listedByHash (ls @ [l]) (h, ch))"
        if "ch \<in> set (desired w h)" for h ch
        using cnt[OF that] False by (auto simp: live_count_snoc)
      have e: "delist_step w u cutoff st l
          = (kept((al_HashName l, al_Channel l) := kept (al_HashName l, al_Channel l) + 1), plan0 @ ds, obs(al_ID l \<mapsto> ''''))"
        using False None ds(1) by (simp add: st delist_step_def)
      show ?thesis unfolding e del_inv_def prod.case using c ds(2) d by blast
    next
      case (Some r)
      have full: "wantCopies w (al_HashName l) (al_Channel l) \<le> kept (al_HashName l, al_Channel l)"
        if "al_Channel l \<in> set (desired w (al_HashName l))"
        using Some delist_reason_routed(2)[OF refl that, of u kept] by (auto split: if_splits)
      have ok: "del_ok w cutoff (ls @ [l]) (delist_action l r)" if "\<not> (needs_grace r \<and> \<not> grace_over cutoff l r)"
        using False that delist_reason_routed(1)[OF Some] by (auto simp: del_ok_def)
      let ?ds = "if needs_grace r \<and> \<not> grace_over cutoff l r then ds else ds @ [delist_action l r]"
      have c: "kept (h, ch) = min (live_count (listedByHash (ls @ [l]) (h, ch))) (wantCopies w h ch)
        \<and> kept (h, ch) + int (length (filter (is_delist h ch) ?ds)) \<le> live_count (listedByHash (ls @ [l]) (h, ch))"
        if "ch \<in> set (desired w h)" for h ch
        using cnt[OF that] full that False by (auto simp: live_count_snoc)
      have o: "\<forall>a \<in> set ?ds. del_ok w cutoff (ls @ [l]) a" using ds(2) ok by auto
      let ?obs = "if needs_grace r then obs(al_ID l \<mapsto> '''', al_ID l \<mapsto> r) else obs(al_ID l \<mapsto> '''')"
      have e1: "delist_step w u cutoff st l = (kept, plan0 @ ?ds, ?obs)"
        using False Some ds(1) by (cases "needs_grace r"; cases "grace_over cutoff l r") (simp_all add: st delist_step_def)
      have e2: "dom ?obs = al_ID ` set (ls @ [l])" using dom by auto
      show ?thesis unfolding e1 del_inv_def prod.case using c o e2 by blast
    qed
  qed
qed

lemma delist_pass_inv:
  assumes "\<And>h ch. 0 \<le> wantCopies w h ch"
  shows "del_inv w cutoff plan0 ls (delist_pass w u cutoff ls plan0)"
  unfolding delist_pass_def
proof (rule foldl_prefix_inv)
  show "del_inv w cutoff plan0 [] ((\<lambda>_. 0), plan0, Map.empty)"
    using assms by (simp add: del_inv_def live_count_def listedByHash_def)
qed (rule delist_step_inv)

section \<open>The plan\<close>

text \<open>What planning with a snapshot wants, as the theorems name it.\<close>

abbreviation snap_leased :: "Snapshot \<Rightarrow> string \<Rightarrow> bool" where
  "snap_leased snap \<equiv> leasedAssets (Listings snap)"

abbreviation snap_wants :: "Snapshot \<Rightarrow> wanted" where
  "snap_wants snap \<equiv> want_items (Health snap ''uu'' = ''ok'') (snap_leased snap) (Items snap)"

definition routable_assets :: "Snapshot \<Rightarrow> string \<Rightarrow> channel \<Rightarrow> string set" where
  "routable_assets snap h ch = routed_here (Health snap ''uu'' = ''ok'') (snap_leased snap) (Items snap) h ch"

lemma pub_invD:
  assumes "pub_inv ls leased w (planned, pubs, s)"
  shows "\<And>a. a \<in> set pubs \<Longrightarrow> pub_ok ls leased w a"
    "distinct (map ac_AssetID (filter (is_publish h ch) pubs))"
    "filter (is_publish h ch) pubs \<noteq> [] \<Longrightarrow>
       live_count (listedByHash ls (h, ch)) + int (length (filter (is_publish h ch) pubs)) \<le> wantCopies w h ch"
proof -
  note P = assms[unfolded pub_inv_def prod.case]
  show "pub_ok ls leased w a" if "a \<in> set pubs" for a using P that by blast
  have m: "map ac_AssetID (filter (is_publish h ch) pubs) = planned (h, ch)" using P by blast
  show "distinct (map ac_AssetID (filter (is_publish h ch) pubs))" unfolding m using P by blast
  have b: "planned (h, ch) \<noteq> [] \<Longrightarrow> live_count (listedByHash ls (h, ch)) + int (length (planned (h, ch))) \<le> wantCopies w h ch"
    using P by blast
  show "live_count (listedByHash ls (h, ch)) + int (length (filter (is_publish h ch) pubs)) \<le> wantCopies w h ch"
    if "filter (is_publish h ch) pubs \<noteq> []"
    using b that unfolding m[symmetric] length_map map_is_Nil_conv by blast
qed

lemma del_invD:
  assumes "del_inv w cutoff pubs ls (kept, pubs @ dels, obs)"
  shows "\<And>a. a \<in> set dels \<Longrightarrow> del_ok w cutoff ls a"
    "ch \<in> set (desired w h) \<Longrightarrow> min (live_count (listedByHash ls (h, ch))) (wantCopies w h ch)
         + int (length (filter (is_delist h ch) dels)) \<le> live_count (listedByHash ls (h, ch))"
    "dom obs = al_ID ` set ls"
proof -
  note D = assms[unfolded del_inv_def prod.case]
  obtain ds where ds: "pubs @ dels = pubs @ ds" "\<forall>a \<in> set ds. del_ok w cutoff ls a"
    "\<forall>h ch. ch \<in> set (desired w h) \<longrightarrow> kept (h, ch) = min (live_count (listedByHash ls (h, ch))) (wantCopies w h ch)
       \<and> kept (h, ch) + int (length (filter (is_delist h ch) ds)) \<le> live_count (listedByHash ls (h, ch))"
    using D by blast
  then have [simp]: "ds = dels" by simp
  show "del_ok w cutoff ls a" if "a \<in> set dels" for a using ds(2) that by simp
  show "min (live_count (listedByHash ls (h, ch))) (wantCopies w h ch)
      + int (length (filter (is_delist h ch) dels)) \<le> live_count (listedByHash ls (h, ch))" if "ch \<in> set (desired w h)"
    using spec[OF spec[OF ds(3), of h], of ch] that by simp
  show "dom obs = al_ID ` set ls" using D by blast
qed

lemma planFrom_parts:
  fixes s :: 's
  assumes "planFrom decide snap now grace s = (plan, obs, s')"
  obtains planned pubs s1 kept dels where "plan = pubs @ dels"
    "pub_inv (Listings snap) (snap_leased snap) (snap_wants snap) (planned, pubs, s1 :: 's)"
    "del_inv (snap_wants snap) (now - grace) pubs (Listings snap) (kept, pubs @ dels, obs)"
proof -
  let ?w = "snap_wants snap" and ?ls = "Listings snap" and ?u = "Health snap ''uu'' = ''ok''"
  obtain planned pubs s1 where p: "publish_pass decide snap (snap_leased snap) ?w s = (planned, pubs, s1)"
    by (cases "publish_pass decide snap (snap_leased snap) ?w s")
  obtain kept plan1 obs1 where d: "delist_pass ?w ?u (now - grace) ?ls pubs = (kept, plan1, obs1)"
    by (cases "delist_pass ?w ?u (now - grace) ?ls pubs")
  have e: "plan = plan1" "obs = obs1"
    using assms unfolding planFrom_def Let_def p prod.case d by simp_all
  have P: "pub_inv ?ls (snap_leased snap) ?w (planned, pubs, s1)"
    using publish_pass_inv[of snap "snap_leased snap" ?w decide s] unfolding p .
  have "\<And>h ch. 0 \<le> wantCopies ?w h ch" by (simp add: wantCopies_card)
  then have D: "del_inv ?w (now - grace) pubs ?ls (kept, plan1, obs1)"
    using delist_pass_inv[of ?w "now - grace" pubs ?ls ?u] unfolding d by blast
  obtain dels where dels: "plan1 = pubs @ dels" using D unfolding del_inv_def prod.case by blast
  show thesis by (rule that[OF _ P]) (use dels D e in simp_all)
qed

lemma kind_pub_ok: "pub_ok ls leased w a \<Longrightarrow> Kind a = ''publish''"
  by (simp add: pub_ok_def)

lemma kind_del_ok: "del_ok w cutoff ls a \<Longrightarrow> Kind a = ''delist''"
  by (metis del_ok_def kind_delist_action(1))

lemma plan_kinds:
  assumes "pub_inv ls leased w (planned, pubs, s)" "del_inv w cutoff pubs ls (kept, pubs @ dels, obs)"
  shows "filter (is_publish h ch) (pubs @ dels) = filter (is_publish h ch) pubs"
    "filter (is_delist h ch) (pubs @ dels) = filter (is_delist h ch) dels"
    "a \<in> set (pubs @ dels) \<Longrightarrow> Kind a = ''delist'' \<Longrightarrow> del_ok w cutoff ls a"
    "a \<in> set (pubs @ dels) \<Longrightarrow> Kind a = ''publish'' \<Longrightarrow> pub_ok ls leased w a"
proof -
  have p: "Kind a = ''publish''" if "a \<in> set pubs" for a using kind_pub_ok[OF pub_invD(1)[OF assms(1) that]] .
  have d: "Kind a = ''delist''" if "a \<in> set dels" for a using kind_del_ok[OF del_invD(1)[OF assms(2) that]] .
  show "filter (is_publish h ch) (pubs @ dels) = filter (is_publish h ch) pubs"
    using d by (simp add: filter_empty_conv)
  show "filter (is_delist h ch) (pubs @ dels) = filter (is_delist h ch) dels"
    using p by (simp add: filter_empty_conv)
  show "del_ok w cutoff ls a" if "a \<in> set (pubs @ dels)" "Kind a = ''delist''"
    using that p del_invD(1)[OF assms(2)] by fastforce
  show "pub_ok ls leased w a" if "a \<in> set (pubs @ dels)" "Kind a = ''publish''"
    using that d pub_invD(1)[OF assms(1)] by fastforce
qed

text \<open>C3: A plan never delists a leased listing: every delist targets a listing of the snapshot that is not leased,
  by its identifier, channel and goods reference.\<close>

theorem plan_never_delists_leased:
  assumes "planFrom decide snap now grace s = (plan, obs, s')" "a \<in> set plan" "Kind a = ''delist''"
  shows "\<exists>l \<in> set (Listings snap). al_State l \<noteq> ''leased'' \<and> ac_ListingID a = al_ID l \<and> ac_GoodsRef a = al_GoodsRef l
    \<and> ac_Channel a = al_Channel l \<and> ac_HashName a = al_HashName l"
proof (rule planFrom_parts[OF assms(1)])
  fix planned pubs s1 kept dels
  assume "plan = pubs @ dels" "pub_inv (Listings snap) (snap_leased snap) (snap_wants snap) (planned, pubs, s1)"
    "del_inv (snap_wants snap) (now - grace) pubs (Listings snap) (kept, pubs @ dels, obs)"
  from this(1) plan_kinds(3)[OF this(2,3)] assms(2,3)
  have "del_ok (snap_wants snap) (now - grace) (Listings snap) a" by simp
  then obtain l r where "l \<in> set (Listings snap)" "a = delist_action l r" "al_State l \<noteq> ''leased''"
    unfolding del_ok_def by blast
  then show ?thesis by (auto simp: delist_action_def)
qed

text \<open>C4: The copies a plan publishes for one commodity on one channel, added to the copies already live there, never
  exceed the number of distinct routable assets of that commodity for that channel; the published assets are pairwise
  different.\<close>

theorem plan_publish_budget:
  assumes "planFrom decide snap now grace s = (plan, obs, s')" "filter (is_publish h ch) plan \<noteq> []"
  shows "live_count (listedByHash (Listings snap) (h, ch)) + int (length (filter (is_publish h ch) plan))
      \<le> int (card (routable_assets snap h ch))
    \<and> distinct (map ac_AssetID (filter (is_publish h ch) plan))"
proof (rule planFrom_parts[OF assms(1)])
  fix planned pubs s1 kept dels
  assume p: "plan = pubs @ dels" "pub_inv (Listings snap) (snap_leased snap) (snap_wants snap) (planned, pubs, s1)"
    "del_inv (snap_wants snap) (now - grace) pubs (Listings snap) (kept, pubs @ dels, obs)"
  have e: "filter (is_publish h ch) plan = filter (is_publish h ch) pubs"
    unfolding p(1) by (rule plan_kinds(1)[OF p(2,3)])
  show ?thesis using pub_invD(2,3)[OF p(2), of h ch] assms(2)
    unfolding e wantCopies_card routable_assets_def by blast
qed

text \<open>A plan publishes an asset only with an accepted decision, on a channel its commodity is routed to, and only
  when the asset has an identifier, is leased nowhere and has no listing (in any state) for that commodity there.\<close>

theorem plan_publish_only_unlisted:
  assumes "planFrom decide snap now grace s = (plan, obs, s')" "a \<in> set plan" "Kind a = ''publish''"
  shows "ac_AssetID a \<noteq> ''''
    \<and> (\<forall>l. l \<in> set (Listings snap) \<and> al_AssetID l = ac_AssetID a \<longrightarrow> al_State l \<noteq> ''leased''
         \<and> \<not> (al_HashName l = ac_HashName a \<and> al_Channel l = ac_Channel a))
    \<and> ac_Channel a \<in> set (desired (snap_wants snap) (ac_HashName a))
    \<and> (\<exists>d. ac_Decision a = Some d \<and> OK d)"
proof (rule planFrom_parts[OF assms(1)])
  fix planned pubs s1 kept dels
  assume "plan = pubs @ dels" "pub_inv (Listings snap) (snap_leased snap) (snap_wants snap) (planned, pubs, s1)"
    "del_inv (snap_wants snap) (now - grace) pubs (Listings snap) (kept, pubs @ dels, obs)"
  from this(1) plan_kinds(4)[OF this(2,3)] assms(2,3)
  have "pub_ok (Listings snap) (snap_leased snap) (snap_wants snap) a" by simp
  then show ?thesis unfolding pub_ok_def leasedAssets_iff by blast
qed

text \<open>A plan never takes a routed shelf below what is wanted: after the delists of a commodity on a channel it is
  routed to, at least the wanted number of copies (or all that were live, when fewer) stay.\<close>

theorem plan_delists_only_surplus:
  assumes "planFrom decide snap now grace s = (plan, obs, s')" "ch \<in> set (desired (snap_wants snap) h)"
  shows "live_count (listedByHash (Listings snap) (h, ch)) - int (length (filter (is_delist h ch) plan))
    \<ge> min (live_count (listedByHash (Listings snap) (h, ch))) (int (card (routable_assets snap h ch)))"
proof (rule planFrom_parts[OF assms(1)])
  fix planned pubs s1 kept dels
  assume p: "plan = pubs @ dels" "pub_inv (Listings snap) (snap_leased snap) (snap_wants snap) (planned, pubs, s1)"
    "del_inv (snap_wants snap) (now - grace) pubs (Listings snap) (kept, pubs @ dels, obs)"
  have e: "filter (is_delist h ch) plan = filter (is_delist h ch) dels"
    unfolding p(1) by (rule plan_kinds(2)[OF p(2,3)])
  show ?thesis using del_invD(2)[OF p(3) assms(2)] unfolding e wantCopies_card routable_assets_def by linarith
qed

lemma plan_delist_reason:
  assumes "planFrom decide snap now grace s = (plan, obs, s')" "a \<in> set plan" "Kind a = ''delist''"
  shows "if ac_Reason a = ''not_routed'' \<or> ac_Reason a = ''uu_unhealthy_failover''
    then ac_Channel a \<notin> set (desired (snap_wants snap) (ac_HashName a))
    else \<exists>l \<in> set (Listings snap). al_ID l = ac_ListingID a \<and> al_MismatchReason l = ac_Reason a
           \<and> (\<exists>t. al_MismatchSince l = Some t \<and> t \<le> now - grace)"
proof (rule planFrom_parts[OF assms(1)])
  fix planned pubs s1 kept dels
  assume "plan = pubs @ dels" "pub_inv (Listings snap) (snap_leased snap) (snap_wants snap) (planned, pubs, s1)"
    "del_inv (snap_wants snap) (now - grace) pubs (Listings snap) (kept, pubs @ dels, obs)"
  from this(1) plan_kinds(3)[OF this(2,3)] assms(2,3)
  have "del_ok (snap_wants snap) (now - grace) (Listings snap) a" by simp
  then obtain l where l: "l \<in> set (Listings snap)" "a = delist_action l (ac_Reason a)"
    "if needs_grace (ac_Reason a) then grace_over (now - grace) l (ac_Reason a)
        else al_Channel l \<notin> set (desired (snap_wants snap) (al_HashName l))"
    unfolding del_ok_def by blast
  have f: "ac_Channel a = al_Channel l" "ac_HashName a = al_HashName l" "ac_ListingID a = al_ID l"
    by (subst l(2), simp add: delist_action_def)+
  show ?thesis
  proof (cases "needs_grace (ac_Reason a)")
    case True
    then obtain t where "al_MismatchReason l = ac_Reason a" "al_MismatchSince l = Some t" "t \<le> now - grace"
      using l(3) by (auto simp: grace_over_def split: option.splits)
    moreover have "\<not> (ac_Reason a = ''not_routed'' \<or> ac_Reason a = ''uu_unhealthy_failover'')"
      using True by (simp add: needs_grace_def)
    ultimately show ?thesis using l(1) f(3) by (auto intro!: bexI[of _ l])
  next
    case False
    then have "ac_Reason a = ''not_routed'' \<or> ac_Reason a = ''uu_unhealthy_failover''" by (auto simp: needs_grace_def)
    then show ?thesis using l(3) False unfolding f by simp
  qed
qed

text \<open>A plan delists an orphan or surplus listing only when the same reason has been its recorded mismatch
  since at least the grace period; any other delist is of a listing whose channel its commodity is not routed to.\<close>

theorem plan_delist_grace:
  assumes "planFrom decide snap now grace s = (plan, obs, s')" "a \<in> set plan" "Kind a = ''delist''"
  shows "if ac_Reason a = ''not_routed'' \<or> ac_Reason a = ''uu_unhealthy_failover''
    then ac_Channel a \<notin> set (desired (snap_wants snap) (ac_HashName a))
    else \<exists>l \<in> set (Listings snap). al_ID l = ac_ListingID a \<and> al_MismatchReason l = ac_Reason a
           \<and> (\<exists>t. al_MismatchSince l = Some t \<and> t \<le> now - grace)"
  by (rule plan_delist_reason[OF assms])

section \<open>Convergence\<close>

text \<open>A shelf where every routable asset is listed on each channel it is routed to, every live listing is routed, and
  no channel holds more live copies than routable assets.\<close>

definition converged :: "Snapshot \<Rightarrow> bool" where
  "converged snap \<longleftrightarrow>
    (\<forall>it \<in> set (Items snap). \<forall>ch. ri_AssetID it \<noteq> '''' \<and> \<not> snap_leased snap (ri_AssetID it)
        \<and> ch \<in> set (desired (snap_wants snap) (ri_HashName it)) \<longrightarrow>
        (\<exists>l \<in> set (Listings snap). al_HashName l = ri_HashName it \<and> al_Channel l = ch \<and> al_AssetID l = ri_AssetID it))
    \<and> (\<forall>l \<in> set (Listings snap). al_State l \<noteq> ''leased'' \<longrightarrow> al_Channel l \<in> set (desired (snap_wants snap) (al_HashName l)))
    \<and> (\<forall>h ch. live_count (listedByHash (Listings snap) (h, ch)) \<le> int (card (routable_assets snap h ch)))"

lemma publish_pass_converged:
  fixes s :: 's
  assumes "converged snap"
  shows "publish_pass decide snap (snap_leased snap) (snap_wants snap) s = ((\<lambda>_. []), [], s)"
  unfolding publish_pass_def
proof (rule foldl_inv)
  fix st :: "'s pub_state" and it assume it: "it \<in> set (Items snap)" and st: "st = ((\<lambda>_. []), [], s)"
  show "publish_item decide (Listings snap) (snap_leased snap) (snap_wants snap) st it = ((\<lambda>_. []), [], s)"
  proof (cases "ri_AssetID it = '''' \<or> snap_leased snap (ri_AssetID it)")
    case True
    then show ?thesis by (simp add: publish_item_def st)
  next
    case False
    have "publish_on decide (Listings snap) (snap_wants snap) it ((\<lambda>_. []), [], s) ch = ((\<lambda>_. []), [], s)"
      if c: "ch \<in> set (desired (snap_wants snap) (ri_HashName it))" for ch
    proof -
      obtain l where "l \<in> set (Listings snap)" "al_HashName l = ri_HashName it" "al_Channel l = ch" "al_AssetID l = ri_AssetID it"
        using assms it c False unfolding converged_def by blast
      then have "publish_blocked (Listings snap) (snap_wants snap) (\<lambda>_. []) it ch"
        by (auto simp: publish_blocked_def Let_def list_ex_iff listedByHash_def)
      then show ?thesis by (simp add: publish_on_def)
    qed
    then have "foldl (publish_on decide (Listings snap) (snap_wants snap) it) ((\<lambda>_. []), [], s)
        (desired (snap_wants snap) (ri_HashName it)) = ((\<lambda>_. []), [], s)"
      by (intro foldl_inv[where P = "\<lambda>st. st = ((\<lambda>_. []), [], s)"]) auto
    then show ?thesis using False by (simp add: publish_item_def st)
  qed
qed simp

lemma live_count_prefix: "live_count (listedByHash xs k) \<le> live_count (listedByHash (xs @ ys) k)"
  by (simp add: live_count_def listedByHash_def)

lemma delist_pass_converged:
  assumes "converged snap"
  shows "fst (snd (delist_pass (snap_wants snap) u cutoff (Listings snap) [])) = []"
proof -
  let ?w = "snap_wants snap" and ?ls = "Listings snap"
  define Q where "Q ls st \<longleftrightarrow> (case st of (kept, plan, obs :: int \<rightharpoonup> string) \<Rightarrow>
     plan = ([] :: Action list) \<and> (\<forall>h ch. kept (h, ch) = live_count (listedByHash ls (h, ch))))"
    for ls and st :: del_state
  have "Q ?ls (foldl (delist_step ?w u cutoff) ((\<lambda>_. 0), [], Map.empty) ?ls)"
  proof (rule foldl_prefix_inv)
    show "Q [] ((\<lambda>_. 0), [], Map.empty)" by (simp add: Q_def live_count_def listedByHash_def)
  next
    fix xs1 l xs2 st assume ls: "?ls = xs1 @ l # xs2" and "Q xs1 st"
    then obtain kept obs where st: "st = (kept, [], obs)" and k: "\<And>h ch. kept (h, ch) = live_count (listedByHash xs1 (h, ch))"
      by (cases st) (auto simp: Q_def)
    show "Q (xs1 @ [l]) (delist_step ?w u cutoff st l)"
    proof (cases "al_State l = ''leased''")
      case True
      then show ?thesis using k by (simp add: st delist_step_def Q_def live_count_snoc)
    next
      case False
      have r: "al_Channel l \<in> set (desired ?w (al_HashName l))" using assms ls False unfolding converged_def by auto
      have "live_count (listedByHash (xs1 @ [l]) (al_HashName l, al_Channel l)) \<le> live_count (listedByHash ?ls (al_HashName l, al_Channel l))"
        using live_count_prefix[of "xs1 @ [l]" _ xs2] ls by simp
      also have "\<dots> \<le> wantCopies ?w (al_HashName l) (al_Channel l)"
        using assms unfolding converged_def wantCopies_card routable_assets_def by blast
      finally have "kept (al_HashName l, al_Channel l) < wantCopies ?w (al_HashName l) (al_Channel l)"
        using False k by (simp add: live_count_snoc)
      then have "delist_reason ?w u kept l = None" using delist_reason_routed(2)[OF refl r, of u kept] by simp
      then show ?thesis using False k by (simp add: st delist_step_def Q_def live_count_snoc)
    qed
  qed
  then show ?thesis by (auto simp: delist_pass_def Q_def)
qed

text \<open>C6: On a converged shelf the planner proposes nothing, whatever the pricing decides: replanning is a no-op.\<close>

theorem plan_converged_empty:
  assumes "converged snap"
  shows "fst (planFrom decide snap now grace s) = []"
  using delist_pass_converged[OF assms, of "Health snap ''uu'' = ''ok''" "now - grace"]
  by (auto simp: planFrom_def publish_pass_converged[OF assms] Let_def split: prod.splits)

end
