(* ===== verification/StoreProps.thy ===== *)
theory StoreProps
  imports ListingStore ReconProps
begin

text \<open>
  The listing store: its well-formedness invariant under every statement, the atomic shelf snapshot and what it
  establishes, and the continuity of the mismatch observations behind the planner's grace period.
\<close>

section \<open>Well-formed listings\<close>

abbreviation ref_key :: "listing_row \<Rightarrow> channel \<times> string" where
  "ref_key l \<equiv> (L_channel l, L_goods_ref l)"

definition row_ok :: "int \<Rightarrow> listing_row \<Rightarrow> bool" where
  "row_ok n l \<longleftrightarrow> L_id l < n \<and> (L_mismatch_since l = None \<longleftrightarrow> L_mismatch_reason l = None)
     \<and> (L_mismatch_since l \<noteq> None \<longrightarrow> L_actual_state l = ''active'')
     \<and> (L_desired_state l = ''active'' \<or> L_desired_state l = ''delisted'')
     \<and> (L_actual_state l = ''active'' \<or> L_actual_state l = ''leased'' \<longrightarrow> L_retired_at l = None)"

definition listings_wf :: "tables \<Rightarrow> bool" where
  "listings_wf t \<longleftrightarrow> distinct (map ref_key (listings t)) \<and> distinct (map L_id (listings t))
     \<and> (\<forall>l \<in> set (listings t). row_ok (next_id t) l)"

text \<open>Every statement of the listing store, as a step between tables.\<close>

inductive listing_step :: "tables \<Rightarrow> tables \<Rightarrow> bool" where
  published: "listing_step t (sql_record_published ch asset hash ref rent long deposit days now t)"
| delisted: "listing_step t (sql_mark_delisted ch ref now t)"
| observed: "listing_step t (sql_observe obs now t)"
| shelved: "listing_step t (sql_upsert_shelf x ts now t)"
| missed: "listing_step t (snd (sql_mark_missing ch seen ts now t))"
| decided: "listing_step t (sql_update_decision i rent long deposit days now t)"
| stepped: "listing_step t (sql_set_factor i factor now t)"
| templated: "listing_step t (sql_upsert_template x t)"

lemma wf_map:
  assumes "listings_wf t" "\<And>l. ref_key (g l) = ref_key l" "\<And>l. L_id (g l) = L_id l"
    "\<And>l. row_ok (next_id t) l \<Longrightarrow> row_ok n (g l)"
  shows "listings_wf (t\<lparr>listings := map g (listings t), next_id := n\<rparr>)"
proof -
  let ?t = "t\<lparr>listings := map g (listings t), next_id := n\<rparr>"
  have l: "listings ?t = map g (listings t)" "next_id ?t = n" by simp_all
  have k: "map ref_key (map g (listings t)) = map ref_key (listings t)" "map L_id (map g (listings t)) = map L_id (listings t)"
    using assms(2,3) by simp_all
  have r: "\<forall>x \<in> set (map g (listings t)). row_ok n x" using assms(1,4) by (auto simp: listings_wf_def)
  show ?thesis using assms(1) r unfolding listings_wf_def l k by blast
qed

lemma wf_upd:
  assumes "listings_wf t" "\<And>l. p l \<Longrightarrow> ref_key (g l) = ref_key l" "\<And>l. L_id (g l) = L_id l"
    "\<And>l. p l \<Longrightarrow> row_ok (next_id t) l \<Longrightarrow> row_ok n (g l)" "next_id t \<le> n"
  shows "listings_wf (t\<lparr>listings := upd_where p g (listings t), next_id := n\<rparr>)"
  unfolding upd_where_def
proof (rule wf_map[OF assms(1)])
  show "row_ok n (if p l then g l else l)" if "row_ok (next_id t) l" for l
    using assms(4)[OF _ that] that assms(5) by (auto simp: row_ok_def)
qed (use assms in simp_all)

lemma wf_upd_same:
  assumes "listings_wf t" "\<And>l. ref_key (g l) = ref_key l" "\<And>l. L_id (g l) = L_id l"
    "\<And>l. row_ok (next_id t) l \<Longrightarrow> row_ok (next_id t) (g l)"
  shows "listings_wf (t\<lparr>listings := upd_where p g (listings t)\<rparr>)"
proof -
  have "listings_wf (t\<lparr>listings := upd_where p g (listings t), next_id := next_id t\<rparr>)"
    by (rule wf_upd[OF assms(1)]) (use assms in simp_all)
  then show ?thesis by simp
qed

lemma wf_insert:
  assumes "listings_wf t" "\<not> list_ex (is_ref (L_channel r) (L_goods_ref r)) (listings t)" "L_id r = next_id t" "row_ok (next_id t + 1) r"
  shows "listings_wf (t\<lparr>listings := listings t @ [r], next_id := next_id t + 1\<rparr>)"
proof -
  have i: "L_id l < next_id t" if "l \<in> set (listings t)" for l
    using assms(1) that by (auto simp: listings_wf_def row_ok_def)
  have r: "row_ok (next_id t + 1) l" if "l \<in> set (listings t)" for l
    using assms(1) that by (auto simp: listings_wf_def row_ok_def)
  have k: "ref_key r \<notin> ref_key ` set (listings t)" using assms(2) by (auto simp: list_ex_iff is_ref_def)
  have n: "L_id r \<notin> L_id ` set (listings t)" using assms(3) i by fastforce
  show ?thesis using assms(1,4) r k n unfolding listings_wf_def by simp
qed

lemma listing_step_wf:
  assumes "listing_step t t'" "listings_wf t"
  shows "listings_wf t'"
  using assms(1)
proof cases
  case (published ch asset hash ref rent long deposit days now)
  then show ?thesis
    by (auto simp: sql_record_published_def row_ok_def is_ref_def intro!: wf_upd wf_insert assms(2))
next
  case (delisted ch ref now)
  then show ?thesis by (auto simp: sql_mark_delisted_def row_ok_def intro!: wf_upd_same assms(2))
next
  case (observed obs now)
  have "listings_wf (t\<lparr>listings := map (\<lambda>l. case obs (L_id l) of None \<Rightarrow> l | Some reason \<Rightarrow> observe_row reason now l) (listings t),
      next_id := next_id t\<rparr>)"
    by (rule wf_map[OF assms(2)]) (auto simp: observe_row_def row_ok_def COALESCE_def split: option.splits)
  then show ?thesis using observed by (simp add: sql_observe_def)
next
  case (shelved x ts now)
  show ?thesis unfolding shelved sql_upsert_shelf_def Let_def
    by (auto simp: row_ok_def shelf_merge_def shelf_insert_def Let_def shelf_state_def is_ref_def intro!: wf_upd wf_insert assms(2))
next
  case (missed ch seen ts now)
  then show ?thesis by (auto simp: sql_mark_missing_def Let_def row_ok_def intro!: wf_upd_same assms(2))
next
  case (decided i rent long deposit days now)
  then show ?thesis by (auto simp: sql_update_decision_def row_ok_def intro!: wf_upd_same assms(2))
next
  case (stepped i factor now)
  then show ?thesis by (auto simp: sql_set_factor_def row_ok_def intro!: wf_upd_same assms(2))
next
  case (templated x)
  then show ?thesis using assms(2) by (simp add: sql_upsert_template_def listings_wf_def)
qed


section \<open>Continuity of mismatch observations\<close>

definition observe_all :: "(instant \<times> string) list \<Rightarrow> listing_row \<Rightarrow> listing_row" where
  "observe_all obs l = foldl (\<lambda>l (now, reason). observe_row reason now l) l obs"

lemma observe_row_state [simp]: "L_actual_state (observe_row r now l) = L_actual_state l" "L_id (observe_row r now l) = L_id l"
  by (simp_all add: observe_row_def)

text \<open>Starting from a listing without a recorded mismatch, the recorded mismatch time is the time of the first of the
  latest unbroken series of observations with the recorded reason: any other observation in between, a
  clearing one included, restarts the clock.\<close>

lemma mismatch_since_continuous:
  assumes "L_mismatch_since l = None" "L_mismatch_reason l = None" "L_mismatch_since (observe_all obs l) = Some t"
    "L_mismatch_reason (observe_all obs l) = Some r"
  shows "\<exists>before after. obs = before @ (t, r) # after \<and> (\<forall>(t', r') \<in> set after. r' = r) \<and> r \<noteq> ''''"
  using assms(3,4)
proof (induction obs arbitrary: t r rule: rev_induct)
  case Nil
  then show ?case using assms(1) by (simp add: observe_all_def)
next
  case (snoc o1 obs)
  obtain now reason where o1: "o1 = (now, reason)" by (cases o1)
  let ?m = "observe_all obs l"
  have e: "observe_all (obs @ [o1]) l = observe_row reason now ?m" by (simp add: observe_all_def o1)
  have nz: "reason \<noteq> ''''" "reason = r" using snoc.prems unfolding e by (auto simp: observe_row_def split: if_splits)
  show ?case
  proof (cases "L_mismatch_reason ?m = Some r \<and> L_mismatch_since ?m = Some t")
    case True
    then obtain before after where "obs = before @ (t, r) # after" "\<forall>(t', r') \<in> set after. r' = r"
      using snoc.IH by blast
    then have "obs @ [o1] = before @ (t, r) # (after @ [o1])" "\<forall>(t', r') \<in> set (after @ [o1]). r' = r" using nz o1 by auto
    then show ?thesis using nz by blast
  next
    case False
    have "t = now"
      using snoc.prems False nz unfolding e
      by (auto simp: observe_row_def COALESCE_def split: if_splits option.splits)
    then have "obs @ [o1] = obs @ (t, r) # [] \<and> (\<forall>(t', r') \<in> set []. r' = r)" using nz o1 by simp
    then show ?thesis using nz by blast
  qed
qed

text \<open>C5: From rows without a recorded mismatch, a plan made on the rows' current observations delists an orphan or
  surplus listing only if that very reason was observed at least the grace period ago and at every cycle since.\<close>

theorem delist_needs_continuous_mismatch:
  assumes "planFrom decide snap now grace s = (plan, obs, s')" "a \<in> set plan" "Kind a = ''delist''"
    "ac_Reason a \<noteq> ''not_routed''" "ac_Reason a \<noteq> ''uu_unhealthy_failover''" "ac_Reason a \<noteq> ''''"
    "Listings snap = map (active_listing \<circ> (\<lambda>l. observe_all (hist (L_id l)) l)) rows"
    "\<And>l. l \<in> set rows \<Longrightarrow> L_mismatch_since l = None \<and> L_mismatch_reason l = None"
  shows "\<exists>before t after. hist (ac_ListingID a) = before @ (t, ac_Reason a) # after \<and> t \<le> now - grace
    \<and> (\<forall>(t', r') \<in> set after. r' = ac_Reason a)"
proof -
  obtain al t where al: "al \<in> set (Listings snap)" "al_ID al = ac_ListingID a" "al_MismatchReason al = ac_Reason a"
    "al_MismatchSince al = Some t" "t \<le> now - grace"
    using plan_delist_reason[OF assms(1-3)] assms(4,5) by auto
  then obtain l where l: "l \<in> set rows" "al = active_listing (observe_all (hist (L_id l)) l)" using assms(7) by auto
  have id: "L_id (observe_all os l) = L_id l" for os
    by (induction os rule: rev_induct) (auto simp: observe_all_def split: prod.splits)
  have m: "L_mismatch_since (observe_all (hist (L_id l)) l) = Some t" "L_mismatch_reason (observe_all (hist (L_id l)) l) = Some (ac_Reason a)"
    using al(3,4) assms(6) l(2) by (auto simp: active_listing_def split: option.splits)
  have n: "L_mismatch_since l = None" "L_mismatch_reason l = None" using assms(8)[OF l(1)] by simp_all
  obtain before after where h: "hist (L_id l) = before @ (t, ac_Reason a) # after" "\<forall>(t', r') \<in> set after. r' = ac_Reason a"
    using mismatch_since_continuous[OF n m] by (elim exE conjE)
  moreover have "L_id l = ac_ListingID a" using al(2) l(2) id by (simp add: active_listing_def)
  ultimately show ?thesis using al(5) by auto
qed

section \<open>Shelf snapshots\<close>

lemma upsertTemplate_listings:
  "listings (db (snd (upsertTemplate x s))) = listings (db s)" "next_id (db (snd (upsertTemplate x s))) = next_id (db s)"
  by (auto simp: upsertTemplate_def Let_def Exec_def sql_upsert_template_def past_def split: option.splits)

definition normal_row :: "ShelfListing \<Rightarrow> ShelfListing" where
  "normal_row x = (let x = (if sl_HashName x = '''' then x\<lparr>sl_HashName := sl_DisplayName x\<rparr> else x)
     in x\<lparr>sl_RentPrice := round2Money (sl_RentPrice x), sl_LongRentPrice := round2Money (sl_LongRentPrice x),
          sl_Deposit := round2Money (sl_Deposit x)\<rparr>)"

lemma normal_row_frame [simp]:
  "sl_Channel (normal_row x) = sl_Channel x" "sl_GoodsRef (normal_row x) = sl_GoodsRef x" "shelf_state (normal_row x) = shelf_state x"
  by (simp_all add: normal_row_def Let_def shelf_state_def)

definition shelf_rows :: "ShelfListing \<Rightarrow> instant \<Rightarrow> int \<times> listing_row list \<Rightarrow> int \<times> listing_row list" where
  "shelf_rows x ts nl = (case nl of (n, ls) \<Rightarrow>
     (n + 1, if list_ex (is_ref (sl_Channel x) (sl_GoodsRef x)) ls
             then upd_where (\<lambda>l. is_ref (sl_Channel x) (sl_GoodsRef x) l \<and> untouched_since (Some ts) l) (shelf_merge x ts) ls
             else ls @ [shelf_insert x ts n]))"

lemma sql_upsert_shelf_rows:
  "(next_id (sql_upsert_shelf x (Some ts) now t), listings (sql_upsert_shelf x (Some ts) now t)) = shelf_rows x ts (next_id t, listings t)"
  by (simp add: sql_upsert_shelf_def shelf_rows_def Let_def)

lemma upsert_shelf_rows_ok:
  "upsert_shelf_rows shelf ts s = (None, s') \<Longrightarrow>
    (next_id (db s'), listings (db s')) = foldl (\<lambda>nl x. shelf_rows (normal_row x) ts nl) (next_id (db s), listings (db s)) shelf"
proof (induction shelf arbitrary: s)
  case (Cons x shelf)
  let ?x = "if sl_HashName x = '''' then x\<lparr>sl_HashName := sl_DisplayName x\<rparr> else x"
  obtain s1 where s1: "upsertListingFromShelf ?x (Some ts) s = (None, s1)" "upsert_shelf_rows shelf ts s1 = (None, s')"
    using Cons.prems by (auto simp: Let_def split: prod.splits option.splits)
  obtain s0 where "Exec (sql_upsert_shelf (normal_row x) (Some ts) (db_now s0)) s0 = (None, s1)"
    "listings (db s0) = listings (db s)" "next_id (db s0) = next_id (db s)"
    using s1(1) upsertTemplate_listings
    by (auto simp: upsertListingFromShelf_def normal_row_def Let_def split: prod.splits option.splits if_splits) (metis snd_conv)+
  then have "(next_id (db s1), listings (db s1)) = shelf_rows (normal_row x) ts (next_id (db s), listings (db s))"
    using sql_upsert_shelf_rows[of "normal_row x" ts "db_now s0" "db s0"]
    by (auto simp: Exec_def past_def split: option.splits)
  then show ?case using Cons.IH[OF s1(2)] by simp
qed simp

lemma valid_shelf_Some:
  "valid_shelf ch seen shelf = Some r \<Longrightarrow> r = seen @ map sl_GoodsRef shelf \<and> (\<forall>x \<in> set shelf. sl_Channel x = ch)
    \<and> distinct (map sl_GoodsRef shelf) \<and> set seen \<inter> sl_GoodsRef ` set shelf = {}"
proof (induction shelf arbitrary: seen)
  case (Cons x shelf)
  then show ?case using Cons.IH[of "seen @ [sl_GoodsRef x]"] by (auto split: if_splits)
qed simp

definition fold_inv :: "channel \<Rightarrow> instant \<Rightarrow> listing_row list \<Rightarrow> ShelfListing list \<Rightarrow> int \<times> listing_row list \<Rightarrow> bool" where
  "fold_inv ch ts ls0 xs nl \<longleftrightarrow>
    (\<forall>l. (\<forall>x \<in> set xs. \<not> is_ref ch (sl_GoodsRef x) l) \<longrightarrow> (l \<in> set (snd nl) \<longleftrightarrow> l \<in> set ls0))
    \<and> (\<forall>x \<in> set xs. \<exists>l \<in> set (snd nl). is_ref ch (sl_GoodsRef x) l)
    \<and> (\<forall>x \<in> set xs. \<forall>l \<in> set (snd nl). is_ref ch (sl_GoodsRef x) l \<longrightarrow>
          L_actual_state l = shelf_state x \<or> \<not> untouched_since (Some ts) l)"

lemma is_ref_merge [simp]: "is_ref c g (shelf_merge x ts l) = is_ref c g l" "L_actual_state (shelf_merge x ts l) = shelf_state x"
  by (simp_all add: is_ref_def shelf_merge_def Let_def)

lemma is_ref_insert [simp]: "is_ref c g (shelf_insert x ts n) \<longleftrightarrow> sl_Channel x = c \<and> sl_GoodsRef x = g"
    "L_actual_state (shelf_insert x ts n) = shelf_state x"
  by (auto simp: is_ref_def shelf_insert_def)

lemma is_ref_unique: "is_ref c g l \<Longrightarrow> is_ref c g' l \<Longrightarrow> g = g'"
  by (simp add: is_ref_def)

lemma set_shelf_rows:
  "l \<in> set (snd (shelf_rows x ts (n, ls))) \<longleftrightarrow>
    (if \<exists>l0 \<in> set ls. is_ref (sl_Channel x) (sl_GoodsRef x) l0
     then (\<exists>l0 \<in> set ls. l = (if is_ref (sl_Channel x) (sl_GoodsRef x) l0 \<and> untouched_since (Some ts) l0 then shelf_merge x ts l0 else l0))
     else l \<in> set ls \<or> l = shelf_insert x ts n)"
  by (auto simp: shelf_rows_def list_ex_iff set_upd_where)

lemma shelf_rows_other:
  assumes "\<not> is_ref (sl_Channel x) (sl_GoodsRef x) l"
  shows "l \<in> set (snd (shelf_rows x ts (n, ls))) \<longleftrightarrow> l \<in> set ls"
  using assms unfolding set_shelf_rows by auto

lemma shelf_rows_same:
  assumes "l \<in> set (snd (shelf_rows x ts (n, ls)))" "is_ref (sl_Channel x) (sl_GoodsRef x) l"
  shows "L_actual_state l = shelf_state x \<or> \<not> untouched_since (Some ts) l"
  using assms unfolding set_shelf_rows by (auto split: if_splits) (metis is_ref_merge(2))

lemma shelf_rows_present: "\<exists>l \<in> set (snd (shelf_rows x ts (n, ls))). is_ref (sl_Channel x) (sl_GoodsRef x) l"
proof (cases "\<exists>l0 \<in> set ls. is_ref (sl_Channel x) (sl_GoodsRef x) l0")
  case True
  then obtain l0 where "l0 \<in> set ls" "is_ref (sl_Channel x) (sl_GoodsRef x) l0" by blast
  then show ?thesis unfolding set_shelf_rows Bex_def
    by (intro exI[of _ "if untouched_since (Some ts) l0 then shelf_merge x ts l0 else l0"]) auto
next
  case False
  then show ?thesis unfolding set_shelf_rows Bex_def by (intro exI[of _ "shelf_insert x ts n"]) auto
qed

lemma shelf_fold_inv:
  assumes "\<forall>x \<in> set shelf. sl_Channel x = ch" "distinct (map sl_GoodsRef shelf)"
  shows "fold_inv ch ts ls0 shelf (foldl (\<lambda>nl x. shelf_rows (normal_row x) ts nl) (n0, ls0) shelf)"
proof (rule foldl_prefix_inv)
  show "fold_inv ch ts ls0 [] (n0, ls0)" by (simp add: fold_inv_def)
next
  fix xs1 x xs2 nl
  assume sh: "shelf = xs1 @ x # xs2" and I: "fold_inv ch ts ls0 xs1 nl"
  obtain n ls where nl: "nl = (n, ls)" by (cases nl)
  have c: "sl_Channel x = ch" using assms(1) sh by auto
  have new: "sl_GoodsRef y \<noteq> sl_GoodsRef x" if "y \<in> set xs1" for y using assms(2) sh that by (auto simp: rev_image_eqI)
  have o: "l \<in> set (snd (shelf_rows (normal_row x) ts nl)) \<longleftrightarrow> l \<in> set ls" if "\<not> is_ref ch (sl_GoodsRef x) l" for l
    using shelf_rows_other[of "normal_row x" l ts n ls] that c nl by simp
  have old: "\<not> is_ref ch (sl_GoodsRef x) l" if "y \<in> set xs1" "is_ref ch (sl_GoodsRef y) l" for y l
    using new[OF that(1)] is_ref_unique that(2) by blast
  have I1: "\<And>l. (\<forall>x \<in> set xs1. \<not> is_ref ch (sl_GoodsRef x) l) \<Longrightarrow> (l \<in> set ls \<longleftrightarrow> l \<in> set ls0)"
    and I2: "\<And>x. x \<in> set xs1 \<Longrightarrow> \<exists>l \<in> set ls. is_ref ch (sl_GoodsRef x) l"
    and I3: "\<And>x l. x \<in> set xs1 \<Longrightarrow> l \<in> set ls \<Longrightarrow> is_ref ch (sl_GoodsRef x) l \<Longrightarrow>
          L_actual_state l = shelf_state x \<or> \<not> untouched_since (Some ts) l"
    using I unfolding fold_inv_def nl snd_conv by blast+
  show "fold_inv ch ts ls0 (xs1 @ [x]) (shelf_rows (normal_row x) ts nl)"
    unfolding fold_inv_def
  proof (intro conjI allI ballI impI)
    show "l \<in> set (snd (shelf_rows (normal_row x) ts nl)) \<longleftrightarrow> l \<in> set ls0"
      if "\<forall>x \<in> set (xs1 @ [x]). \<not> is_ref ch (sl_GoodsRef x) l" for l using that o I1 by simp
    show "\<exists>l \<in> set (snd (shelf_rows (normal_row x) ts nl)). is_ref ch (sl_GoodsRef y) l" if y: "y \<in> set (xs1 @ [x])" for y
    proof (cases "y = x")
      case True
      then show ?thesis using shelf_rows_present[of "normal_row x" ts n ls] c nl by simp
    next
      case False
      then obtain l where "l \<in> set ls" "is_ref ch (sl_GoodsRef y) l" using y I2[of y] by auto
      then show ?thesis using o old[of y l] y False by auto
    qed
    show "L_actual_state l = shelf_state y \<or> \<not> untouched_since (Some ts) l"
      if "y \<in> set (xs1 @ [x])" "l \<in> set (snd (shelf_rows (normal_row x) ts nl))" "is_ref ch (sl_GoodsRef y) l" for y l
    proof (cases "y = x")
      case True
      then show ?thesis using shelf_rows_same[of l "normal_row x" ts n ls] that c nl by simp
    next
      case False
      then have y: "y \<in> set xs1" using that by simp
      then show ?thesis using I3[OF y, of l] that o old[OF y that(3)] by simp
    qed
  qed
qed

text \<open>A committed snapshot: newer than the last one applied, and past the empty-shelf breaker.\<close>

lemma ApplyShelfSnapshot_commit:
  assumes "ApplyShelfSnapshot ch shelf ts s = (Inr (missing, 0), s')"
    "case shelf_observations (db s) ch of None \<Rightarrow> True | Some p \<Rightarrow> p < ts"
  shows "valid_shelf ch [] shelf = Some (map sl_GoodsRef shelf) \<and>
    (\<exists>s1 :: session. (next_id (db s1), listings (db s1)) = foldl (\<lambda>nl x. shelf_rows (normal_row x) ts nl) (next_id (db s), listings (db s)) shelf
       \<and> listings (db s') = listings (snd (sql_mark_missing ch (map sl_GoodsRef shelf) (Some ts) (db_now s1) (db s1))))"
proof -
  obtain seen where seen: "valid_shelf ch [] shelf = Some seen" "Tx id (shelf_body ch shelf seen ts) s = (Inr (missing, 0), s')"
    using assms(1) by (auto simp: ApplyShelfSnapshot_def split: if_splits option.splits)
  have sn: "seen = map sl_GoodsRef shelf" using valid_shelf_Some[OF seen(1)] by simp
  obtain c s2 where b: "shelf_body ch shelf seen ts (past s) = (Inr (c, missing, 0), s2)" "db s' = (if c then db s2 else db s)"
    using Tx_ok[OF seen(2)] by blast
  obtain sa where sa: "shelf_write ch shelf seen ts sa = (Inr (c, missing, 0), s2)" "db sa = db s"
    using b(1) assms(2)
    by (auto simp: shelf_body_def Exec_def Query_def past_def split: option.splits if_splits)
  obtain s1 where s1: "upsert_shelf_rows shelf ts sa = (None, s1)"
    using sa(1) by (auto simp: shelf_write_def split: prod.splits option.splits)
  obtain s3 where "markMissingListings ch seen (Some ts) s1 = (Inr missing, s3)" "Exec (sql_set_observation ch ts) s3 = (None, s2)" "c"
    using sa(1) s1 by (auto simp: shelf_write_def split: prod.splits option.splits sum.splits)
  then have "listings (db s2) = listings (snd (sql_mark_missing ch seen (Some ts) (db_now s1) (db s1)))"
    by (auto simp: markMissingListings_def ExecR_def Exec_def past_def sql_set_observation_def split: option.splits prod.splits sum.splits)
  then have "(next_id (db s1), listings (db s1)) = foldl (\<lambda>nl x. shelf_rows (normal_row x) ts nl) (next_id (db s), listings (db s)) shelf
      \<and> listings (db s') = listings (snd (sql_mark_missing ch (map sl_GoodsRef shelf) (Some ts) (db_now s1) (db s1)))"
    using upsert_shelf_rows_ok[OF s1] sa(2) b(2) \<open>c\<close> sn by simp
  with seen(1) show ?thesis unfolding sn by (intro conjI exI[of _ s1]) simp_all
qed

text \<open>A complete shelf observation newer than the last one, once committed, is what the store shows of that channel:
  each observed row is present with the observed state, no other row of the channel stays active, except rows the
  program itself wrote after the observation was taken; rows of other channels and leased rows not observed are
  untouched.\<close>

theorem shelf_snapshot_applied:
  assumes "ApplyShelfSnapshot ch shelf ts s = (Inr (missing, 0), s')"
    "case shelf_observations (db s) ch of None \<Rightarrow> True | Some p \<Rightarrow> p < ts"
  shows "(\<forall>x \<in> set shelf. \<exists>l \<in> set (listings (db s')). is_ref ch (sl_GoodsRef x) l
            \<and> (L_actual_state l = shelf_state x \<or> \<not> untouched_since (Some ts) l))
    \<and> (\<forall>l \<in> set (listings (db s')). L_channel l = ch \<and> L_actual_state l = ''active'' \<and> untouched_since (Some ts) l
         \<longrightarrow> (\<exists>x \<in> set shelf. sl_GoodsRef x = L_goods_ref l \<and> \<not> sl_Leased x))
    \<and> (\<forall>l \<in> set (listings (db s)). L_channel l \<noteq> ch \<or> L_actual_state l = ''leased'' \<and> L_goods_ref l \<notin> sl_GoodsRef ` set shelf
         \<longrightarrow> l \<in> set (listings (db s')))"
proof -
  obtain s1 :: session where v: "valid_shelf ch [] shelf = Some (map sl_GoodsRef shelf)"
    and n: "(next_id (db s1), listings (db s1)) = foldl (\<lambda>nl x. shelf_rows (normal_row x) ts nl) (next_id (db s), listings (db s)) shelf"
    and m: "listings (db s') = listings (snd (sql_mark_missing ch (map sl_GoodsRef shelf) (Some ts) (db_now s1) (db s1)))"
    using ApplyShelfSnapshot_commit[OF assms] by blast
  note w = valid_shelf_Some[OF v]
  have ch: "\<forall>x \<in> set shelf. sl_Channel x = ch" and d: "distinct (map sl_GoodsRef shelf)" using w by simp_all
  have I: "fold_inv ch ts (listings (db s)) shelf (next_id (db s1), listings (db s1))" unfolding n by (rule shelf_fold_inv[OF ch d])
  have I1: "\<And>l. (\<forall>x \<in> set shelf. \<not> is_ref ch (sl_GoodsRef x) l) \<Longrightarrow> (l \<in> set (listings (db s1)) \<longleftrightarrow> l \<in> set (listings (db s)))"
    and I2: "\<And>x. x \<in> set shelf \<Longrightarrow> \<exists>l \<in> set (listings (db s1)). is_ref ch (sl_GoodsRef x) l"
    and I3: "\<And>x l. x \<in> set shelf \<Longrightarrow> l \<in> set (listings (db s1)) \<Longrightarrow> is_ref ch (sl_GoodsRef x) l \<Longrightarrow>
          L_actual_state l = shelf_state x \<or> \<not> untouched_since (Some ts) l"
    using I unfolding fold_inv_def snd_conv by blast+
  define miss where "miss = is_missing ch (map sl_GoodsRef shelf) (Some ts)"
  define gone where "gone l = l\<lparr>L_actual_state := ''none'', L_mismatch_since := None, L_mismatch_reason := None,
                  L_retired_at := Some ts, L_actual_synced_at := Some ts\<rparr>" for l :: listing_row
  have s': "set (listings (db s')) = (\<lambda>l. if miss l then gone l else l) ` set (listings (db s1))"
    unfolding m miss_def gone_def[abs_def] by (simp add: sql_mark_missing_def set_upd_where)
  have keep: "l \<in> set (listings (db s'))" if "l \<in> set (listings (db s1))" "\<not> miss l" for l
    unfolding s' using that by (intro image_eqI[of _ _ l]) auto
  have listed: "\<not> miss l" if "x \<in> set shelf" "is_ref ch (sl_GoodsRef x) l" for x l
    using that by (auto simp: miss_def is_missing_def is_ref_def)
  show ?thesis
  proof (intro conjI ballI impI)
    show "\<exists>l \<in> set (listings (db s')). is_ref ch (sl_GoodsRef x) l \<and> (L_actual_state l = shelf_state x \<or> \<not> untouched_since (Some ts) l)"
      if x: "x \<in> set shelf" for x
    proof -
      obtain l where l: "l \<in> set (listings (db s1))" "is_ref ch (sl_GoodsRef x) l" using I2[OF x] by blast
      then show ?thesis using keep[OF l(1) listed[OF x l(2)]] I3[OF x l] by blast
    qed
  next
    fix l assume l: "l \<in> set (listings (db s'))" "L_channel l = ch \<and> L_actual_state l = ''active'' \<and> untouched_since (Some ts) l"
    obtain l1 where l1: "l1 \<in> set (listings (db s1))" "l = (if miss l1 then gone l1 else l1)" using l(1) s' by auto
    have nm: "\<not> miss l1" using l(2) l1(2) by (auto simp: gone_def)
    then have e: "l1 = l" using l1(2) by simp
    have "L_goods_ref l \<in> sl_GoodsRef ` set shelf" using nm l(2) e by (auto simp: miss_def is_missing_def)
    then obtain x where x: "x \<in> set shelf" "sl_GoodsRef x = L_goods_ref l" by auto
    have "is_ref ch (sl_GoodsRef x) l" using x(2) l(2) by (simp add: is_ref_def)
    then have "L_actual_state l = shelf_state x" using I3[OF x(1)] l1(1) e l(2) by blast
    then have "\<not> sl_Leased x" using l(2) by (auto simp: shelf_state_def)
    then show "\<exists>x \<in> set shelf. sl_GoodsRef x = L_goods_ref l \<and> \<not> sl_Leased x" using x by blast
  next
    fix l assume l: "l \<in> set (listings (db s))" "L_channel l \<noteq> ch \<or> L_actual_state l = ''leased'' \<and> L_goods_ref l \<notin> sl_GoodsRef ` set shelf"
    have "\<not> is_ref ch (sl_GoodsRef x) l" if "x \<in> set shelf" for x using l(2) that by (auto simp: is_ref_def)
    then have "l \<in> set (listings (db s1))" using I1 l(1) by blast
    moreover have "\<not> miss l" using l(2) by (auto simp: miss_def is_missing_def)
    ultimately show "l \<in> set (listings (db s'))" using keep by blast
  qed
qed

text \<open>A snapshot leaves the store alone when any statement fails, when it is not newer than the last applied one, and
  when it is empty although the store knows active rows: the three ways a bad observation could wipe a shelf.\<close>

theorem shelf_snapshot_refused:
  assumes "ApplyShelfSnapshot ch shelf ts s = (r, s')"
    "(\<exists>e. r = Inl e) \<or> (\<exists>p. shelf_observations (db s) ch = Some p \<and> p \<noteq> 0 \<and> ts \<le> p)
      \<or> (shelf = [] \<and> 0 < sql_count_active ch (db s))"
  shows "db s' = db s"
proof (cases "\<exists>e. r = Inl e")
  case True
  then show ?thesis using assms(1) Tx_error[of id _ s] by (auto simp: ApplyShelfSnapshot_def split: if_splits option.splits)
next
  case False
  then obtain v where r: "r = Inr v" by (cases r) auto
  then obtain seen where t: "valid_shelf ch [] shelf = Some seen" "Tx id (shelf_body ch shelf seen ts) s = (Inr v, s')"
    using assms(1) by (auto simp: ApplyShelfSnapshot_def split: if_splits option.splits)
  obtain c s2 where b: "shelf_body ch shelf seen ts (past s) = (Inr (c, v), s2)" "db s' = (if c then db s2 else db s)"
    using Tx_ok[OF t(2)] by blast
  have "\<not> c" using b(1) assms(2) False
    by (auto simp: shelf_body_def Exec_def Query_def past_def IsZero_def split: option.splits if_splits)
  then show ?thesis using b(2) by simp
qed

end
