(* ===== verification/Executor.thy ===== *)
theory Executor
  imports Recon
begin

text \<open>
  The plan executor, \<open>internal/recon/recon.go\<close> (\<open>Executor\<close>). The adapters, \<open>Penalize\<close>, \<open>ChannelReady\<close>, the context and
  the clock act on the outside world; the write-back interface acts on the store. Both state types are
  parameters. A run keeps the code's counters, the errors, the channels blocked in this run and the
  audit entries it emitted.
\<close>

definition isRiskSentinel :: "goerr option \<Rightarrow> bool" where
  "isRiskSentinel err \<longleftrightarrow> errors_Is err ErrRateLimited \<or> errors_Is err ErrPlatformBlocked
     \<or> errors_Is err ErrAuthExpired \<or> errors_Is err ErrUKExpired"

record 'd WriteBack =
  wb_RecordPublishedListing :: "channel \<Rightarrow> string \<Rightarrow> string \<Rightarrow> string \<Rightarrow> f64 \<Rightarrow> f64 \<Rightarrow> f64 \<Rightarrow> int \<Rightarrow> 'd \<Rightarrow> goerr option \<times> 'd"
  wb_MarkListingDelisted :: "channel \<Rightarrow> string \<Rightarrow> 'd \<Rightarrow> goerr option \<times> 'd"

record ('w, 'd) Executor =
  DryRun :: bool
  HasAudit :: bool
  Adapters :: "channel \<Rightarrow> 'w Adapter option"
  Store :: "'d WriteBack option"
  Penalize :: "(channel \<Rightarrow> goerr \<Rightarrow> 'w \<Rightarrow> 'w) option"
  ChannelReady :: "(channel \<Rightarrow> 'w \<Rightarrow> bool) option"
  ctx_Err :: "'w \<Rightarrow> goerr option"
  Clock :: "'w \<Rightarrow> instant"

record ('w, 'd) run =
  world :: 'w
  store :: 'd
  audited :: "AuditEntry list"
  applied :: nat
  failed :: nat
  errs :: "goerr list"
  blocked :: "channel list"

section \<open>Messages and audit\<close>

definition errText :: "goerr option \<Rightarrow> string" where
  "errText err = (case err of None \<Rightarrow> '''' | Some e \<Rightarrow> Error e)"

definition errString :: "goerr option \<Rightarrow> PublishLeaseResult list \<Rightarrow> string" where
  "errString err res =
    (if errors_Is err ErrPartialFailure \<and> res \<noteq> [] \<and> pr_Error (hd res) \<noteq> '''' then pr_Error (hd res)
     else case err of Some e \<Rightarrow> Error e
       | None \<Rightarrow> if res \<noteq> [] \<and> \<not> pr_Success (hd res) then pr_Error (hd res) else '''')"

definition decision_json :: "Decision \<Rightarrow> json" where
  "decision_json d = JObj ([(''ok'', JBool (OK d))] @ (if SkipReason d \<noteq> '''' then [(''skip_reason'', JStr (SkipReason d))] else [])
     @ [(''reasons'', if Reasons d = [] then JNull else JArr (map JStr (Reasons d))), (''rent'', JNum (d_Rent d)), (''long'', JNum (d_Long d)),
        (''max_days'', JInt (d_MaxDays d)), (''deposit'', JNum (d_Deposit d))])"

definition audit_entry :: "bool \<Rightarrow> instant \<Rightarrow> Action \<Rightarrow> bool \<Rightarrow> string \<Rightarrow> AuditEntry" where
  "audit_entry dry t a success msg =
    \<lparr>ae_Time = t, ae_Actor = ''system'', ae_Action = ''shelf.'' @ Kind a, ae_Channel = ac_Channel a, ae_Target = ac_HashName a,
     ae_Detail = Some ([(''kind'', JStr (Kind a)), (''channel'', JStr (ac_Channel a)), (''reason'', JStr (ac_Reason a)), (''success'', JBool success)]
       @ (if ac_AssetID a \<noteq> '''' then [(''asset_id'', JStr (ac_AssetID a))] else [])
       @ (if ac_GoodsRef a \<noteq> '''' then [(''goods_ref'', JStr (ac_GoodsRef a))] else [])
       @ (if ac_ListingID a \<noteq> 0 then [(''listing_id'', JInt (ac_ListingID a))] else [])
       @ (if msg \<noteq> '''' then [(''err'', JStr msg)] else [])
       @ (if dry then [(''dry_run'', JBool True)] else [])
       @ (case ac_Decision a of None \<Rightarrow> [] | Some d \<Rightarrow> [(''decision'', decision_json d)]))\<rparr>"

definition record_action :: "('w, 'd) Executor \<Rightarrow> Action \<Rightarrow> bool \<Rightarrow> string \<Rightarrow> ('w, 'd) run \<Rightarrow> ('w, 'd) run" where
  "record_action e a success msg st =
    (if HasAudit e then st\<lparr>audited := audited st @ [audit_entry (DryRun e) (Clock e (world st)) a success msg]\<rparr> else st)"

definition fail :: "goerr \<Rightarrow> ('w, 'd) run \<Rightarrow> ('w, 'd) run" where
  "fail err st = st\<lparr>failed := failed st + 1, errs := errs st @ [err]\<rparr>"

definition penalize :: "('w, 'd) Executor \<Rightarrow> channel \<Rightarrow> goerr \<Rightarrow> ('w, 'd) run \<Rightarrow> ('w, 'd) run" where
  "penalize e ch err st = (case Penalize e of None \<Rightarrow> st | Some p \<Rightarrow> st\<lparr>world := p ch err (world st)\<rparr>)"

definition risk_block :: "('w, 'd) Executor \<Rightarrow> channel \<Rightarrow> goerr \<Rightarrow> ('w, 'd) run \<Rightarrow> ('w, 'd) run" where
  "risk_block e ch err st = penalize e ch err (st\<lparr>blocked := ch # blocked st\<rparr>)"

section \<open>Write-back\<close>

definition writeBackPublish :: "('w, 'd) Executor \<Rightarrow> Action \<Rightarrow> PublishLeaseResult \<Rightarrow> 'd \<Rightarrow> goerr option \<times> 'd" where
  "writeBackPublish e a res d =
    (case (Store e, ac_Decision a) of
       (Some wb, Some dec) \<Rightarrow>
         if pr_GoodsRef res = '''' then (Some (Errorf (''publish '' @ ac_AssetID a @ '': no goods_ref for write-back'')), d)
         else (case wb_RecordPublishedListing wb (ac_Channel a) (ac_AssetID a) (ac_HashName a) (pr_GoodsRef res)
                      (d_Rent dec) (d_Long dec) (d_Deposit dec) (d_MaxDays dec) d of
                 (Some err, d) \<Rightarrow> (Some (Wrap (''publish write-back '' @ pr_GoodsRef res @ '': '') err), d)
               | (None, d) \<Rightarrow> (None, d))
     | _ \<Rightarrow> (None, d))"

definition writeBackDelist :: "('w, 'd) Executor \<Rightarrow> Action \<Rightarrow> 'd \<Rightarrow> goerr option \<times> 'd" where
  "writeBackDelist e a d =
    (case Store e of None \<Rightarrow> (None, d)
     | Some wb \<Rightarrow> (case wb_MarkListingDelisted wb (ac_Channel a) (ac_GoodsRef a) d of
         (Some err, d) \<Rightarrow> (Some (Wrap (''delist write-back '' @ ac_GoodsRef a @ '': '') err), d)
       | (None, d) \<Rightarrow> (None, d)))"

text \<open>A confirmed platform effect: counted as applied, then persisted; a failed write-back is also a failure.\<close>

definition confirm :: "('d \<Rightarrow> goerr option \<times> 'd) \<Rightarrow> ('w, 'd) run \<Rightarrow> ('w, 'd) run" where
  "confirm wb st =
    (case wb (store st) of (r, d) \<Rightarrow>
       let st = st\<lparr>applied := applied st + 1, store := d\<rparr>
       in case r of None \<Rightarrow> st | Some err \<Rightarrow> fail err st)"

section \<open>One action\<close>

definition publish_request :: "Action \<Rightarrow> Decision \<Rightarrow> PublishLeaseRequest" where
  "publish_request a d = \<lparr>pq_AssetRef = ac_AssetID a, pq_RentPrice = d_Rent d, pq_LongRentPrice = d_Long d,
     pq_MaxDays = d_MaxDays d, pq_Deposit = d_Deposit d\<rparr>"

definition exec_publish :: "('w, 'd) Executor \<Rightarrow> 'w Adapter \<Rightarrow> Action \<Rightarrow> ('w, 'd) run \<Rightarrow> ('w, 'd) run" where
  "exec_publish e ad a st =
    (case ac_Decision a of
       Some d \<Rightarrow> if OK d then
         (case PublishLease ad [publish_request a d] (world st) of ((res, err), w) \<Rightarrow>
            let st = st\<lparr>world := w\<rparr>;
                partial = errors_Is err ErrPartialFailure;
                ok2 = (length res = 1 \<and> pr_Success (hd res) \<and> (err = None \<or> partial));
                st = record_action e a ok2 (errString err res) st;
                st = (case err of Some x \<Rightarrow> if \<not> partial \<and> isRiskSentinel err then risk_block e (ac_Channel a) x st else st
                       | None \<Rightarrow> st)
            in if ok2 then confirm (writeBackPublish e a (hd res)) st
               else fail (case err of Some x \<Rightarrow> Wrap (''publish '' @ ac_AssetID a @ '': '') x
                   | None \<Rightarrow> Errorf (''publish '' @ ac_AssetID a @ '': missing or rejected item result: '' @ errString None res)) st)
         else fail (Errorf (''publish '' @ ac_AssetID a @ '': invalid decision'')) (record_action e a False ''invalid_decision'' st)
     | None \<Rightarrow> fail (Errorf (''publish '' @ ac_AssetID a @ '': invalid decision'')) (record_action e a False ''invalid_decision'' st))"

definition exec_delist :: "('w, 'd) Executor \<Rightarrow> 'w Adapter \<Rightarrow> Action \<Rightarrow> ('w, 'd) run \<Rightarrow> ('w, 'd) run" where
  "exec_delist e ad a st =
    (case Delist ad [ac_GoodsRef a] (world st) of (err, w) \<Rightarrow>
       let st = record_action e a (err = None) (errText err) (st\<lparr>world := w\<rparr>)
       in case err of
           Some x \<Rightarrow> fail (Wrap (''delist '' @ ac_GoodsRef a @ '': '') x)
             (if isRiskSentinel err then risk_block e (ac_Channel a) x st else st)
         | None \<Rightarrow> confirm (writeBackDelist e a) st)"

definition in_cooldown :: "('w, 'd) Executor \<Rightarrow> channel \<Rightarrow> ('w, 'd) run \<Rightarrow> bool" where
  "in_cooldown e ch st \<longleftrightarrow> ch \<in> set (blocked st)
     \<or> (case ChannelReady e of None \<Rightarrow> False | Some ready \<Rightarrow> \<not> ready ch (world st))"

text \<open>\<open>Inl\<close> is the return on a cancelled context.\<close>

definition exec_action :: "('w, 'd) Executor \<Rightarrow> Action \<Rightarrow> ('w, 'd) run \<Rightarrow> ('w, 'd) run + ('w, 'd) run" where
  "exec_action e a st =
    (case Adapters e (ac_Channel a) of
       None \<Rightarrow> Inr (fail (Errorf (Kind a @ '' '' @ ac_Channel a @ '': no adapter configured''))
                (record_action e a False ''no_adapter_configured'' st))
     | Some ad \<Rightarrow>
        if DryRun e then Inr ((record_action e a True '''' st)\<lparr>applied := applied st + 1\<rparr>)
        else if in_cooldown e (ac_Channel a) st then
          Inr (fail (Errorf (Kind a @ '' '' @ ac_Channel a @ '': channel in cooldown'')) (record_action e a False ''channel_in_cooldown'' st))
        else case ctx_Err e (world st) of
            Some x \<Rightarrow> Inl (st\<lparr>errs := errs st @ [x]\<rparr>)
          | None \<Rightarrow>
             if Kind a = ''publish'' then Inr (exec_publish e ad a st)
             else if Kind a = ''delist'' then Inr (exec_delist e ad a st)
             else Inr (fail (Errorf (''unknown action kind '' @ CHR 0x22 # Kind a @ [CHR 0x22])) (record_action e a False ''unknown_kind'' st)))"

fun exec_actions :: "('w, 'd) Executor \<Rightarrow> Action list \<Rightarrow> ('w, 'd) run \<Rightarrow> ('w, 'd) run" where
  "exec_actions e [] st = st"
| "exec_actions e (a # as) st = (case exec_action e a st of Inl st' \<Rightarrow> st' | Inr st' \<Rightarrow> exec_actions e as st')"

definition start_run :: "'w \<Rightarrow> 'd \<Rightarrow> ('w, 'd) run" where
  "start_run w d = \<lparr>world = w, store = d, audited = [], applied = 0, failed = 0, errs = [], blocked = []\<rparr>"

definition ExecuteWithError :: "('w, 'd) Executor \<Rightarrow> Action list \<Rightarrow> 'w \<Rightarrow> 'd \<Rightarrow> (nat \<times> nat \<times> goerr option) \<times> ('w, 'd) run" where
  "ExecuteWithError e plan w d =
    (let st = exec_actions e plan (start_run w d) in ((applied st, failed st, errors_Join (errs st)), st))"

definition Execute :: "('w, 'd) Executor \<Rightarrow> Action list \<Rightarrow> 'w \<Rightarrow> 'd \<Rightarrow> (nat \<times> nat) \<times> ('w, 'd) run" where
  "Execute e plan w d = (case ExecuteWithError e plan w d of ((ap, fl, err), st) \<Rightarrow> ((ap, fl), st))"

end
