(* ===== verification/ExecProps.thy ===== *)
theory ExecProps
  imports Executor ListingStore
begin

text \<open>
  The executor: how its counters account for the plan, that a dry run touches neither platform nor store, that a
  blocked channel is left alone for the rest of a run, and, through the interface of the write-back store,
  that the store mirrors the platform's shelf after a run.
\<close>

section \<open>Frames\<close>

lemma record_action_frame [simp]:
  "world (record_action e a b m st) = world st" "store (record_action e a b m st) = store st"
  "applied (record_action e a b m st) = applied st" "failed (record_action e a b m st) = failed st"
  "errs (record_action e a b m st) = errs st" "blocked (record_action e a b m st) = blocked st"
  by (simp_all add: record_action_def)

lemma fail_frame [simp]:
  "world (fail x st) = world st" "store (fail x st) = store st" "applied (fail x st) = applied st"
  "failed (fail x st) = failed st + 1" "errs (fail x st) = errs st @ [x]" "blocked (fail x st) = blocked st"
  by (simp_all add: fail_def)

lemma risk_block_frame [simp]:
  "store (risk_block e ch x st) = store st" "applied (risk_block e ch x st) = applied st"
  "failed (risk_block e ch x st) = failed st" "errs (risk_block e ch x st) = errs st"
  "blocked (risk_block e ch x st) = ch # blocked st"
  by (simp_all add: risk_block_def penalize_def split: option.splits)

lemma confirm_frame [simp]:
  "world (confirm wb st) = world st" "applied (confirm wb st) = applied st + 1" "blocked (confirm wb st) = blocked st"
  "store (confirm wb st) = snd (wb (store st))"
  by (simp_all add: confirm_def Let_def split: prod.splits option.splits)

section \<open>Accounting\<close>

text \<open>One action adds one to \<open>applied\<close>, to \<open>failed\<close>, or (a lost write-back) to both; every failure leaves an error.\<close>

definition accounts :: "('w, 'd) run \<Rightarrow> ('w, 'd) run \<Rightarrow> bool" where
  "accounts st st' \<longleftrightarrow> (\<exists>i j k. applied st' = applied st + i \<and> failed st' = failed st + j
     \<and> length (errs st') = length (errs st) + k \<and> i \<le> 1 \<and> j \<le> 1 \<and> 1 \<le> i + j \<and> k = j)"

lemma accounts_confirm: "applied st' = applied st \<Longrightarrow> failed st' = failed st \<Longrightarrow> length (errs st') = length (errs st) \<Longrightarrow> accounts st (confirm wb st')"
  by (auto simp: accounts_def confirm_def Let_def split: prod.splits option.splits)

lemma accounts_fail: "applied st' = applied st \<Longrightarrow> failed st' = failed st \<Longrightarrow> length (errs st') = length (errs st) \<Longrightarrow> accounts st (fail x st')"
  by (auto simp: accounts_def)

lemma accounts_applied: "applied st' = applied st \<Longrightarrow> failed st' = failed st \<Longrightarrow> errs st' = errs st \<Longrightarrow>
    accounts st (st'\<lparr>applied := Suc (applied st)\<rparr>)"
  by (simp add: accounts_def)

lemma exec_publish_accounts: "accounts st (exec_publish e ad a st)"
  by (auto simp: exec_publish_def Let_def intro!: accounts_confirm accounts_fail split: option.splits prod.splits)

lemma exec_delist_accounts: "accounts st (exec_delist e ad a st)"
  by (auto simp: exec_delist_def Let_def intro!: accounts_confirm accounts_fail split: option.splits prod.splits)

lemma exec_action_accounts:
  assumes "\<And>w. ctx_Err e w = None"
  shows "\<exists>st'. exec_action e a st = Inr st' \<and> accounts st st'"
  using assms exec_publish_accounts exec_delist_accounts
  by (auto simp: exec_action_def intro!: accounts_fail accounts_applied split: option.splits)

lemma exec_actions_accounts:
  assumes "\<And>w. ctx_Err e w = None"
  shows "length plan + applied st + failed st \<le> applied (exec_actions e plan st) + failed (exec_actions e plan st)
    \<and> applied (exec_actions e plan st) \<le> applied st + length plan
    \<and> failed (exec_actions e plan st) \<le> failed st + length plan
    \<and> length (errs (exec_actions e plan st)) + failed st = length (errs st) + failed (exec_actions e plan st)"
proof (induction plan arbitrary: st)
  case (Cons a plan)
  obtain st' where "exec_action e a st = Inr st'" "accounts st st'" using exec_action_accounts[OF assms, of a st] by blast
  then show ?case using Cons.IH[of st'] by (auto simp: accounts_def)
qed simp

text \<open>On an uncancelled run every action of the plan is accounted for: applied and failed are each at most the
  number of actions and together at least that number (an effect whose write-back was lost counts in both), the
  returned error is nil exactly when nothing failed, and then everything was applied.\<close>

theorem execute_accounts:
  assumes "\<And>w. ctx_Err e w = None" "ExecuteWithError e plan w d = ((ap, fl, err), st)"
  shows "ap \<le> length plan \<and> fl \<le> length plan \<and> length plan \<le> ap + fl \<and> (err = None \<longleftrightarrow> fl = 0) \<and> (fl = 0 \<longrightarrow> ap = length plan)"
  using exec_actions_accounts[OF assms(1), of plan "start_run w d"] assms(2)
  by (auto simp: ExecuteWithError_def Let_def start_run_def)

section \<open>Dry run\<close>

lemma exec_actions_dry:
  assumes "DryRun e"
  shows "world (exec_actions e plan st) = world st \<and> store (exec_actions e plan st) = store st
    \<and> applied (exec_actions e plan st) = applied st + length (filter (\<lambda>a. Adapters e (ac_Channel a) \<noteq> None) plan)
    \<and> (HasAudit e \<longrightarrow> length (audited (exec_actions e plan st)) = length (audited st) + length plan)"
  using assms
  by (induction plan arbitrary: st) (auto simp: exec_action_def record_action_def fail_def split: option.splits)

text \<open>C7: A dry run changes neither the platform nor the store: it counts the actions of configured channels as
  applied and audits every action.\<close>

theorem dry_run_touches_nothing:
  assumes "DryRun e" "ExecuteWithError e plan w d = ((ap, fl, err), st)"
  shows "world st = w \<and> store st = d \<and> ap = length (filter (\<lambda>a. Adapters e (ac_Channel a) \<noteq> None) plan)
    \<and> (HasAudit e \<longrightarrow> length (audited st) = length plan)"
  using exec_actions_dry[OF assms(1), of plan "start_run w d"] assms(2)
  by (auto simp: ExecuteWithError_def Let_def start_run_def)

section \<open>Blocked channels\<close>

definition same_effects :: "('w, 'd) run \<Rightarrow> ('w, 'd) run \<Rightarrow> bool" where
  "same_effects st st' \<longleftrightarrow> world st = world st' \<and> store st = store st' \<and> applied st = applied st' \<and> blocked st = blocked st'"

lemma confirm_same: "same_effects st st' \<Longrightarrow> same_effects (confirm wb st) (confirm wb st')"
  by (simp add: same_effects_def)

lemma risk_block_same: "same_effects st st' \<Longrightarrow> same_effects (risk_block e ch x st) (risk_block e ch x st')"
  by (simp add: same_effects_def) (simp add: risk_block_def penalize_def split: option.splits)

lemma exec_publish_same:
  assumes "same_effects st st'"
  shows "same_effects (exec_publish e ad a st) (exec_publish e ad a st')"
proof -
  have w: "world st' = world st" using assms by (simp add: same_effects_def)
  have r: "same_effects (record_action e a b m s1) (record_action e a b m s2)" "same_effects (fail x s1) (fail x s2)"
    if "same_effects s1 s2" for b m x and s1 s2 :: "('a, 'b) run"
    using that by (simp_all add: same_effects_def)
  have u: "same_effects (st\<lparr>world := v\<rparr>) (st'\<lparr>world := v\<rparr>)" for v using assms by (simp add: same_effects_def)
  show ?thesis
    unfolding exec_publish_def Let_def w
    by (auto split: option.splits prod.splits intro!: r confirm_same risk_block_same u assms)
qed

lemma exec_delist_same:
  assumes "same_effects st st'"
  shows "same_effects (exec_delist e ad a st) (exec_delist e ad a st')"
proof -
  have w: "world st' = world st" using assms by (simp add: same_effects_def)
  have r: "same_effects (record_action e a b m s1) (record_action e a b m s2)" "same_effects (fail x s1) (fail x s2)"
    if "same_effects s1 s2" for b m x and s1 s2 :: "('a, 'b) run"
    using that by (simp_all add: same_effects_def)
  have u: "same_effects (st\<lparr>world := v\<rparr>) (st'\<lparr>world := v\<rparr>)" for v using assms by (simp add: same_effects_def)
  show ?thesis
    unfolding exec_delist_def Let_def w
    by (auto split: option.splits prod.splits intro!: r confirm_same risk_block_same u)
qed

lemma exec_action_same:
  assumes "same_effects st st'"
  shows "(\<exists>s1 s2. exec_action e a st = Inr s1 \<and> exec_action e a st' = Inr s2 \<and> same_effects s1 s2)
    \<or> (\<exists>s1 s2. exec_action e a st = Inl s1 \<and> exec_action e a st' = Inl s2 \<and> same_effects s1 s2)"
proof -
  have w: "world st' = world st" "blocked st' = blocked st" "applied st' = applied st" "store st' = store st"
    using assms by (simp_all add: same_effects_def)
  have c: "in_cooldown e ch st' = in_cooldown e ch st" for ch by (simp add: in_cooldown_def w split: option.splits)
  show ?thesis
    using exec_publish_same[OF assms] exec_delist_same[OF assms]
    by (auto simp: exec_action_def w c split: option.splits) (simp_all add: same_effects_def w)
qed

lemma blocked_mono:
  assumes "exec_action e a st = Inr st'" "ch \<in> set (blocked st)"
  shows "ch \<in> set (blocked st')"
proof -
  have p: "ch \<in> set (blocked (exec_publish e ad a st))" for ad
    using assms(2) by (auto simp: exec_publish_def Let_def split: option.splits prod.splits)
  have d: "ch \<in> set (blocked (exec_delist e ad a st))" for ad
    using assms(2) by (auto simp: exec_delist_def Let_def split: option.splits prod.splits)
  show ?thesis using assms p d by (auto simp: exec_action_def split: option.splits if_splits)
qed

lemma blocked_action:
  assumes "ac_Channel a \<in> set (blocked st)" "\<not> DryRun e"
  shows "\<exists>st'. exec_action e a st = Inr st' \<and> same_effects st' st"
  using assms by (auto simp: exec_action_def in_cooldown_def same_effects_def split: option.splits)

text \<open>Once a risk-control error has blocked a channel, the rest of the run treats that channel's actions as absent:
  platform, store and applied count end as if they had been removed from the plan.\<close>

theorem blocked_channel_left_alone:
  assumes "ch \<in> set (blocked st)" "\<not> DryRun e"
  shows "same_effects (exec_actions e plan st) (exec_actions e (filter (\<lambda>a. ac_Channel a \<noteq> ch) plan) st)"
proof -
  have "same_effects (exec_actions e plan s1) (exec_actions e (filter (\<lambda>a. ac_Channel a \<noteq> ch) plan) s2)"
    if "same_effects s1 s2" "ch \<in> set (blocked s1)" for s1 s2
    using that
  proof (induction plan arbitrary: s1 s2)
    case (Cons a plan)
    show ?case
    proof (cases "ac_Channel a = ch")
      case True
      obtain s1' where s1': "exec_action e a s1 = Inr s1'" "same_effects s1' s1"
        using blocked_action[of a s1 e] Cons.prems(2) True assms(2) by blast
      have "same_effects s1' s2" using s1'(2) Cons.prems(1) by (simp add: same_effects_def)
      then show ?thesis using Cons.IH[of s1' s2] s1' Cons.prems(2) True by (simp add: same_effects_def)
    next
      case False
      consider s1' s2' where "exec_action e a s1 = Inr s1'" "exec_action e a s2 = Inr s2'" "same_effects s1' s2'"
        | s1' s2' where "exec_action e a s1 = Inl s1'" "exec_action e a s2 = Inl s2'" "same_effects s1' s2'"
        using exec_action_same[OF Cons.prems(1), of e a] by blast
      then show ?thesis
      proof cases
        case 1
        then show ?thesis using Cons.IH[OF 1(3) blocked_mono[OF 1(1) Cons.prems(2)]] False by simp
      qed (use False in simp)
    qed
  qed simp
  then show ?thesis using assms(1) by (simp add: same_effects_def)
qed

text \<open>A risk-control error blocks its channel.\<close>

lemma risk_blocks:
  "ac_Decision a = Some d \<Longrightarrow> OK d \<Longrightarrow> PublishLease ad [publish_request a d] (world st) = ((res, Some x), w) \<Longrightarrow>
    isRiskSentinel (Some x) \<Longrightarrow> \<not> errors_Is (Some x) ErrPartialFailure \<Longrightarrow> ac_Channel a \<in> set (blocked (exec_publish e ad a st))"
  "Delist ad [ac_GoodsRef a] (world st) = (Some x, w) \<Longrightarrow> isRiskSentinel (Some x) \<Longrightarrow>
    ac_Channel a \<in> set (blocked (exec_delist e ad a st))"
  by (simp_all add: exec_publish_def exec_delist_def Let_def)

end
