(* ===== verification/Mirror.thy ===== *)
theory Mirror
  imports ExecProps
begin

text \<open>
  The write-back interface as a contract: what the executor needs from the store so that, after a run, the store
  shows the shelf the platform has. The store's own \<open>RecordPublishedListing\<close> and \<open>MarkListingDelisted\<close> satisfy it
  in every session whose statements succeed.
\<close>

section \<open>The contract of the write-back store\<close>

locale write_back =
  fixes wb :: "'d WriteBack" and healthy :: "'d \<Rightarrow> bool" and shelved :: "'d \<Rightarrow> channel \<Rightarrow> string \<Rightarrow> bool"
  assumes recorded: "healthy d \<Longrightarrow> wb_RecordPublishedListing wb ch asset hash ref rent long deposit days d = (err, d') \<Longrightarrow>
      err = None \<and> healthy d' \<and> (\<forall>c g. shelved d' c g \<longleftrightarrow> (c = ch \<and> g = ref) \<or> shelved d c g)"
    and delisted: "healthy d \<Longrightarrow> wb_MarkListingDelisted wb ch ref d = (err, d') \<Longrightarrow>
      err = None \<and> healthy d' \<and> (\<forall>c g. shelved d' c g \<longleftrightarrow> shelved d c g \<and> \<not> (c = ch \<and> g = ref))"

text \<open>What a channel's adapter promises of its shelf: a confirmed publish adds exactly the listing it names, a
  successful delist removes it, anything else leaves the shelf alone.\<close>

definition publish_confirmed :: "PublishLeaseResult list \<Rightarrow> goerr option \<Rightarrow> bool" where
  "publish_confirmed res err \<longleftrightarrow> length res = 1 \<and> pr_Success (hd res) \<and> (err = None \<or> errors_Is err ErrPartialFailure)"

definition shelf_adapter :: "('w \<Rightarrow> channel \<Rightarrow> string \<Rightarrow> bool) \<Rightarrow> channel \<Rightarrow> 'w Adapter \<Rightarrow> bool" where
  "shelf_adapter shelf ch ad \<longleftrightarrow>
    (\<forall>w q res err w'. PublishLease ad [q] w = ((res, err), w') \<longrightarrow>
       (if publish_confirmed res err
        then pr_GoodsRef (hd res) \<noteq> '''' \<and> (\<forall>c g. shelf w' c g \<longleftrightarrow> (c = ch \<and> g = pr_GoodsRef (hd res)) \<or> shelf w c g)
        else shelf w' = shelf w))
    \<and> (\<forall>w ref err w'. Delist ad [ref] w = (err, w') \<longrightarrow>
       (if err = None then (\<forall>c g. shelf w' c g \<longleftrightarrow> shelf w c g \<and> \<not> (c = ch \<and> g = ref)) else shelf w' = shelf w))"

definition shelf_executor :: "('w \<Rightarrow> channel \<Rightarrow> string \<Rightarrow> bool) \<Rightarrow> ('w, 'd) Executor \<Rightarrow> bool" where
  "shelf_executor shelf e \<longleftrightarrow> \<not> DryRun e \<and> (\<forall>ch ad. Adapters e ch = Some ad \<longrightarrow> shelf_adapter shelf ch ad)
     \<and> (\<forall>p ch x w. Penalize e = Some p \<longrightarrow> shelf (p ch x w) = shelf w)"

lemma risk_block_shelf:
  "shelf_executor shelf e \<Longrightarrow> shelf (world (risk_block e ch x st)) = shelf (world st)"
  by (auto simp: shelf_executor_def risk_block_def penalize_def split: option.splits)

context write_back
begin

definition mirrors :: "('w \<Rightarrow> channel \<Rightarrow> string \<Rightarrow> bool) \<Rightarrow> ('w, 'd) run \<Rightarrow> bool" where
  "mirrors shelf st \<longleftrightarrow> healthy (store st) \<and> (\<forall>c g. shelf (world st) c g \<longleftrightarrow> shelved (store st) c g)"

lemma writeBackPublish_recorded:
  assumes "Store e = Some wb" "ac_Decision a = Some dec" "pr_GoodsRef r \<noteq> ''''" "healthy d"
  shows "fst (writeBackPublish e a r d) = None \<and> healthy (snd (writeBackPublish e a r d))
    \<and> (\<forall>c g. shelved (snd (writeBackPublish e a r d)) c g \<longleftrightarrow> (c = ac_Channel a \<and> g = pr_GoodsRef r) \<or> shelved d c g)"
proof -
  obtain err d' where x: "wb_RecordPublishedListing wb (ac_Channel a) (ac_AssetID a) (ac_HashName a) (pr_GoodsRef r)
      (d_Rent dec) (d_Long dec) (d_Deposit dec) (d_MaxDays dec) d = (err, d')" by (metis prod.exhaust)
  show ?thesis using recorded[OF assms(4) x] assms(1-3) by (simp add: writeBackPublish_def x)
qed

lemma writeBackDelist_delisted:
  assumes "Store e = Some wb" "healthy d"
  shows "fst (writeBackDelist e a d) = None \<and> healthy (snd (writeBackDelist e a d))
    \<and> (\<forall>c g. shelved (snd (writeBackDelist e a d)) c g \<longleftrightarrow> shelved d c g \<and> \<not> (c = ac_Channel a \<and> g = ac_GoodsRef a))"
proof -
  obtain err d' where x: "wb_MarkListingDelisted wb (ac_Channel a) (ac_GoodsRef a) d = (err, d')" by (metis prod.exhaust)
  show ?thesis using delisted[OF assms(2) x] assms(1) by (simp add: writeBackDelist_def x)
qed

lemma exec_publish_mirrors:
  assumes "Store e = Some wb" "shelf_executor shelf e" "Adapters e (ac_Channel a) = Some ad" "mirrors shelf st"
  shows "mirrors shelf (exec_publish e ad a st)"
proof (cases "\<exists>d. ac_Decision a = Some d \<and> OK d")
  case False
  then show ?thesis using assms(4) by (auto simp: exec_publish_def mirrors_def split: option.splits)
next
  case True
  then obtain d where d: "ac_Decision a = Some d" "OK d" by blast
  obtain res err w where r: "PublishLease ad [publish_request a d] (world st) = ((res, err), w)"
    by (metis prod.exhaust)
  have ad: "if publish_confirmed res err
      then pr_GoodsRef (hd res) \<noteq> '''' \<and> (\<forall>c g. shelf w c g \<longleftrightarrow> (c = ac_Channel a \<and> g = pr_GoodsRef (hd res)) \<or> shelf (world st) c g)
      else shelf w = shelf (world st)"
    using assms(2,3) r unfolding shelf_executor_def shelf_adapter_def by blast
  define st1 where "st1 = record_action e a (publish_confirmed res err) (errString err res) (st\<lparr>world := w\<rparr>)"
  define st2 where "st2 = (case err of Some x \<Rightarrow>
      if \<not> errors_Is err ErrPartialFailure \<and> isRiskSentinel err then risk_block e (ac_Channel a) x st1 else st1 | None \<Rightarrow> st1)"
  have s2: "shelf (world st2) = shelf w" "store st2 = store st"
    by (simp_all add: st2_def st1_def risk_block_shelf[OF assms(2)] split: option.splits)
  show ?thesis
  proof (cases "publish_confirmed res err")
    case True
    have "exec_publish e ad a st = confirm (writeBackPublish e a (hd res)) st2"
      using True d r by (cases err) (simp_all add: exec_publish_def Let_def st2_def st1_def publish_confirmed_def)
    then show ?thesis
      using writeBackPublish_recorded[OF assms(1) d(1), of "hd res" "store st"] ad True assms(4) s2
      by (simp add: mirrors_def)
  next
    case False
    have "\<exists>x. exec_publish e ad a st = fail x st2"
      using False d r by (cases err) (auto simp: exec_publish_def Let_def st2_def st1_def publish_confirmed_def)
    then show ?thesis using ad False assms(4) s2 by (auto simp: mirrors_def)
  qed
qed

lemma exec_delist_mirrors:
  assumes "Store e = Some wb" "shelf_executor shelf e" "Adapters e (ac_Channel a) = Some ad" "mirrors shelf st"
  shows "mirrors shelf (exec_delist e ad a st)"
proof -
  obtain err w where r: "Delist ad [ac_GoodsRef a] (world st) = (err, w)" by (metis prod.exhaust)
  have ad: "if err = None then (\<forall>c g. shelf w c g \<longleftrightarrow> shelf (world st) c g \<and> \<not> (c = ac_Channel a \<and> g = ac_GoodsRef a))
      else shelf w = shelf (world st)"
    using assms(2,3) r unfolding shelf_executor_def shelf_adapter_def by blast
  show ?thesis
    using ad assms(4) writeBackDelist_delisted[OF assms(1), of "store st" a]
    by (cases err) (simp_all add: exec_delist_def r Let_def mirrors_def risk_block_shelf[OF assms(2)])
qed

lemma exec_actions_mirrors:
  assumes "Store e = Some wb" "shelf_executor shelf e" "mirrors shelf st"
  shows "mirrors shelf (exec_actions e plan st)"
  using assms(3)
proof (induction plan arbitrary: st)
  case (Cons a plan)
  have "mirrors shelf (case exec_action e a st of Inl s \<Rightarrow> s | Inr s \<Rightarrow> s)"
    using exec_publish_mirrors[OF assms(1,2)] exec_delist_mirrors[OF assms(1,2)] Cons.prems assms(2)
    by (auto simp: exec_action_def mirrors_def shelf_executor_def split: option.splits)
  then show ?case using Cons.IH by (auto split: sum.splits)
qed simp

end

section \<open>The store keeps the contract\<close>

definition store_WriteBack :: "session WriteBack" where
  "store_WriteBack = \<lparr>wb_RecordPublishedListing = RecordPublishedListing, wb_MarkListingDelisted = MarkListingDelisted\<rparr>"

definition no_fault :: "session \<Rightarrow> bool" where
  "no_fault s \<longleftrightarrow> faults s = []"

definition on_shelf :: "session \<Rightarrow> channel \<Rightarrow> string \<Rightarrow> bool" where
  "on_shelf s ch ref \<longleftrightarrow> (\<exists>l \<in> set (listings (db s)). is_ref ch ref l \<and> L_actual_state l = ''active'')"

lemma Bex_upd_where: "(\<exists>l \<in> set (upd_where p f rows). Q l) \<longleftrightarrow> (\<exists>l \<in> set rows. if p l then Q (f l) else Q l)"
  by (auto simp: set_upd_where)

lemma record_published_active:
  "(\<exists>l \<in> set (listings (sql_record_published ch a h ref r l p n now t)). is_ref c g l \<and> L_actual_state l = ''active'')
    \<longleftrightarrow> (c = ch \<and> g = ref) \<or> (\<exists>l \<in> set (listings t). is_ref c g l \<and> L_actual_state l = ''active'')"
proof (cases "list_ex (is_ref ch ref) (listings t)")
  case True
  then obtain l0 where l0: "l0 \<in> set (listings t)" "is_ref ch ref l0" by (auto simp: list_ex_iff)
  have "(\<exists>l \<in> set (listings (sql_record_published ch a h ref r l p n now t)). is_ref c g l \<and> L_actual_state l = ''active'')
      \<longleftrightarrow> (\<exists>l \<in> set (listings t). if is_ref ch ref l then is_ref c g l else is_ref c g l \<and> L_actual_state l = ''active'')"
    using True by (simp add: sql_record_published_def Bex_upd_where is_ref_def cong: if_cong)
  also have "\<dots> \<longleftrightarrow> (c = ch \<and> g = ref) \<or> (\<exists>l \<in> set (listings t). is_ref c g l \<and> L_actual_state l = ''active'')"
  proof (cases "c = ch \<and> g = ref")
    case True
    then show ?thesis using l0 by auto
  next
    case False
    then have "\<not> (is_ref ch ref l \<and> is_ref c g l)" for l by (auto simp: is_ref_def)
    then show ?thesis using False by metis
  qed
  finally show ?thesis .
next
  case False
  then show ?thesis by (auto simp: sql_record_published_def is_ref_def)
qed

lemma mark_delisted_active:
  "(\<exists>l \<in> set (listings (sql_mark_delisted ch ref now t)). is_ref c g l \<and> L_actual_state l = ''active'')
    \<longleftrightarrow> (\<exists>l \<in> set (listings t). is_ref c g l \<and> L_actual_state l = ''active'') \<and> \<not> (c = ch \<and> g = ref)"
  by (auto simp: sql_mark_delisted_def set_upd_where is_ref_def split: if_splits)

interpretation store_wb: write_back store_WriteBack no_fault on_shelf
proof
  fix d d' :: session and ch asset hash ref rent long deposit days err
  assume a: "no_fault d" "wb_RecordPublishedListing store_WriteBack ch asset hash ref rent long deposit days d = (err, d')"
  have "(err, d') = (None, d\<lparr>db := sql_record_published ch asset hash ref (round2Money rent) (round2Money long)
      (round2Money deposit) days (db_now d) (db d)\<rparr>)"
    using a by (simp add: store_WriteBack_def RecordPublishedListing_def no_fault_def Exec_runs)
  then have e: "err = None" "d' = d\<lparr>db := sql_record_published ch asset hash ref (round2Money rent) (round2Money long)
      (round2Money deposit) days (db_now d) (db d)\<rparr>" by blast+
  show "err = None \<and> no_fault d' \<and> (\<forall>c g. on_shelf d' c g \<longleftrightarrow> (c = ch \<and> g = ref) \<or> on_shelf d c g)"
  proof (intro conjI allI)
    have dd: "db d' = sql_record_published ch asset hash ref (round2Money rent) (round2Money long) (round2Money deposit) days (db_now d) (db d)"
      by (simp add: e)
    show "on_shelf d' c g \<longleftrightarrow> (c = ch \<and> g = ref) \<or> on_shelf d c g" for c g
      unfolding on_shelf_def dd by (rule record_published_active)
  qed (use a(1) e in \<open>simp_all add: no_fault_def\<close>)
next
  fix d d' :: session and ch ref err
  assume a: "no_fault d" "wb_MarkListingDelisted store_WriteBack ch ref d = (err, d')"
  then have e: "err = None" "d' = d\<lparr>db := sql_mark_delisted ch ref (db_now d) (db d)\<rparr>"
    by (simp_all add: store_WriteBack_def MarkListingDelisted_def no_fault_def Exec_runs)
  show "err = None \<and> no_fault d' \<and> (\<forall>c g. on_shelf d' c g \<longleftrightarrow> on_shelf d c g \<and> \<not> (c = ch \<and> g = ref))"
  proof (intro conjI allI)
    have dd: "db d' = sql_mark_delisted ch ref (db_now d) (db d)" by (simp add: e)
    show "on_shelf d' c g \<longleftrightarrow> on_shelf d c g \<and> \<not> (c = ch \<and> g = ref)" for c g
      unfolding on_shelf_def dd by (rule mark_delisted_active)
  qed (use a(1) e in \<open>simp_all add: no_fault_def\<close>)
qed


end
