(* ===== verification/ReconWitnesses.thy ===== *)
theory ReconWitnesses
  imports StoreProps Mirror
begin

text \<open>
  Concrete instances of the planner, executor and listing-store theorems: a small shelf with a live, a leased and an
  orphaned listing, a platform that is a list of listings, and a database with two rows.
\<close>

section \<open>A plan\<close>

definition sample_decision :: Decision where
  "sample_decision = \<lparr>OK = True, SkipReason = '''', Reasons = [], d_Rent = Fin 2, d_Long = Fin 1, d_MaxDays = 30, d_Deposit = Fin 100\<rparr>"

definition sample_decide :: "channel \<Rightarrow> RoutableItem \<Rightarrow> unit \<Rightarrow> Decision option \<times> unit" where
  "sample_decide ch it s = (Some sample_decision, s)"

definition sample_listing :: "int \<Rightarrow> channel \<Rightarrow> string \<Rightarrow> string \<Rightarrow> string \<Rightarrow> ActiveListing" where
  "sample_listing i ch h a st = \<lparr>al_ID = i, al_Channel = ch, al_HashName = h, al_GoodsRef = ''g'' @ a, al_AssetID = a,
     al_State = st, al_SyncedAt = 0, al_MismatchSince = Some 5, al_MismatchReason = ''orphan_not_routable''\<rparr>"

definition sample_snap :: Snapshot where
  "sample_snap = \<lparr>Items = [\<lparr>ri_AssetID = ''a1'', ri_HashName = ''h'', ri_V = Some (Fin 100), ri_Route = ''both''\<rparr>,
                           \<lparr>ri_AssetID = ''a2'', ri_HashName = ''h'', ri_V = Some (Fin 100), ri_Route = ''both''\<rparr>],
     Listings = [sample_listing 1 ''uu'' ''h'' ''a1'' ''active'', sample_listing 2 ''eco'' ''h'' ''a9'' ''leased'',
                 sample_listing 3 ''uu'' ''gone'' ''a7'' ''active''],
     Health = (\<lambda>_. ''ok'')\<rparr>"

abbreviation "sample_out \<equiv> planFrom sample_decide sample_snap 100 10 ()"

lemma triple: "x = (fst x, fst (snd x), snd (snd x))"
  by simp

lemmas sample_split = triple[of sample_out]

lemma sample_plan:
  "map (\<lambda>a. (Kind a, ac_Channel a, ac_AssetID a, ac_HashName a, ac_ListingID a, ac_Reason a)) (fst sample_out) =
    [(''publish'', ''eco'', ''a1'', ''h'', 0, ''route:both''), (''publish'', ''uu'', ''a2'', ''h'', 0, ''route:both''),
     (''publish'', ''eco'', ''a2'', ''h'', 0, ''route:both''), (''delist'', ''uu'', '''', ''gone'', 3, ''orphan_not_routable'')]"
  by code_simp

lemma sample_acts:
  "fst sample_out ! 3 \<in> set (fst sample_out)" "Kind (fst sample_out ! 3) = ''delist''"
  "ac_Reason (fst sample_out ! 3) = ''orphan_not_routable''" "ac_ListingID (fst sample_out ! 3) = 3"
  "fst sample_out ! 1 \<in> set (fst sample_out)" "Kind (fst sample_out ! 1) = ''publish''"
  "ac_AssetID (fst sample_out ! 1) = ''a2''" "ac_Channel (fst sample_out ! 1) = ''uu''"
  "length (filter (is_publish ''h'' ''eco'') (fst sample_out)) = 2" "length (filter (is_delist ''h'' ''uu'') (fst sample_out)) = 0"
  by code_simp+

lemma sample_desired: "desired (snap_wants sample_snap) ''h'' = [''uu'', ''eco'']"
  by code_simp

lemma sample_live: "live_count (listedByHash (Listings sample_snap) (''h'', ''eco'')) = 0"
  "live_count (listedByHash (Listings sample_snap) (''h'', ''uu'')) = 1"
  by code_simp+

theorem plan_never_delists_leased_witness:
  "\<exists>l \<in> set (Listings sample_snap). al_State l \<noteq> ''leased'' \<and> ac_ListingID (fst sample_out ! 3) = al_ID l
    \<and> ac_GoodsRef (fst sample_out ! 3) = al_GoodsRef l \<and> ac_Channel (fst sample_out ! 3) = al_Channel l
    \<and> ac_HashName (fst sample_out ! 3) = al_HashName l"
  by (rule plan_never_delists_leased[OF sample_split sample_acts(1,2)])

theorem plan_publish_budget_witness:
  "2 \<le> int (card (routable_assets sample_snap ''h'' ''eco'')) \<and> distinct (map ac_AssetID (filter (is_publish ''h'' ''eco'') (fst sample_out)))"
proof -
  have "filter (is_publish ''h'' ''eco'') (fst sample_out) \<noteq> []" using sample_acts(9) by (metis list.size(3) zero_neq_numeral)
  from plan_publish_budget[OF sample_split this] show ?thesis unfolding sample_live(1) sample_acts(9) by simp
qed

theorem plan_publish_only_unlisted_witness:
  "ac_Channel (fst sample_out ! 1) \<in> set (desired (snap_wants sample_snap) (ac_HashName (fst sample_out ! 1)))
    \<and> (\<exists>d. ac_Decision (fst sample_out ! 1) = Some d \<and> OK d)"
  using plan_publish_only_unlisted[OF sample_split sample_acts(5,6)] by (elim conjE) (rule conjI)

theorem plan_delists_only_surplus_witness:
  "1 - int (length (filter (is_delist ''h'' ''uu'') (fst sample_out))) \<ge> min 1 (int (card (routable_assets sample_snap ''h'' ''uu'')))"
proof -
  have "''uu'' \<in> set (desired (snap_wants sample_snap) ''h'')" unfolding sample_desired by simp
  from plan_delists_only_surplus[OF sample_split this] show ?thesis unfolding sample_live(2) .
qed

theorem plan_delist_grace_witness:
  "\<exists>l \<in> set (Listings sample_snap). al_ID l = 3 \<and> al_MismatchReason l = ''orphan_not_routable'' \<and> (\<exists>t. al_MismatchSince l = Some t \<and> t \<le> 90)"
  using plan_delist_grace[OF sample_split sample_acts(1,2)] unfolding sample_acts(3,4) by simp

definition settled_snap :: Snapshot where
  "settled_snap = \<lparr>Items = [\<lparr>ri_AssetID = ''a1'', ri_HashName = ''h'', ri_V = Some (Fin 100), ri_Route = ''uu_only''\<rparr>],
     Listings = [sample_listing 1 ''uu'' ''h'' ''a1'' ''active''], Health = (\<lambda>_. ''ok'')\<rparr>"

lemma settled_leased: "leasedAssets (Listings settled_snap) a = False" "leasedAssets [sample_listing 1 ''uu'' ''h'' ''a1'' ''active''] a = False"
  by (simp_all add: leasedAssets_iff settled_snap_def) (simp_all add: sample_listing_def)

lemma settled_wants: "desired (snap_wants settled_snap) h = (if h = ''h'' then [''uu''] else [])"
  by (auto simp: desired_def desiredByHash_items settled_leased settled_snap_def desiredChannels_def)

lemma settled_converged: "converged settled_snap"
proof -
  have r: "routable_assets settled_snap ''h'' ''uu'' = {''a1''}"
    by (auto simp: routable_assets_def routed_here_def settled_leased settled_snap_def desiredChannels_def)
  have "live_count (listedByHash (Listings settled_snap) (h, ch)) \<le> int (card (routable_assets settled_snap h ch))" for h ch
  proof (cases "h = ''h'' \<and> ch = ''uu''")
    case True
    then have c: "card (routable_assets settled_snap h ch) = 1" using r by simp
    show ?thesis unfolding c by (simp add: live_count_def listedByHash_def settled_snap_def)
  qed (auto simp: live_count_def listedByHash_def settled_snap_def sample_listing_def)
  then show ?thesis
    by (simp add: converged_def settled_wants settled_leased) (simp add: settled_snap_def sample_listing_def)
qed

theorem plan_converged_empty_witness: "fst (planFrom sample_decide settled_snap 100 10 ()) = []"
  by (rule plan_converged_empty[OF settled_converged])

definition history_snap :: "(int \<Rightarrow> (instant \<times> string) list) \<Rightarrow> listing_row list \<Rightarrow> Snapshot" where
  "history_snap hist rows = \<lparr>Items = [], Listings = map (active_listing \<circ> (\<lambda>l. observe_all (hist (L_id l)) l)) rows, Health = (\<lambda>_. ''ok'')\<rparr>"

definition sample_row :: "int \<Rightarrow> string \<Rightarrow> listing_row" where
  "sample_row i st = \<lparr>L_id = i, L_channel = ''uu'', L_asset_id = ''a'', L_hash_name = ''h'', L_goods_ref = ''g'',
     L_desired_state = ''active'', L_actual_state = st, L_rent_price = Some (Fin 1), L_long_rent_price = None,
     L_max_days = Some 30, L_deposit = Some (Fin 10), L_listed_at = Some 1, L_last_reprice_at = None,
     L_actual_synced_at = Some 1, L_factor = Fin 1, L_last_factor_event_at = None, L_sublet_applied = False,
     L_mismatch_since = None, L_mismatch_reason = None, L_retired_at = None\<rparr>"

definition sample_hist :: "int \<Rightarrow> (instant \<times> string) list" where
  "sample_hist i = [(3, ''surplus_copies''), (5, ''orphan_not_routable''), (40, ''orphan_not_routable'')]"

abbreviation "history_out \<equiv> planFrom sample_decide (history_snap sample_hist [sample_row 7 ''active'']) 100 10 ()"

theorem delist_needs_continuous_mismatch_witness:
  "\<exists>before t after. sample_hist 7 = before @ (t, ''orphan_not_routable'') # after \<and> t \<le> 90
    \<and> (\<forall>(t', r') \<in> set after. r' = ''orphan_not_routable'')"
proof -
  have a: "fst history_out ! 0 \<in> set (fst history_out)" "Kind (fst history_out ! 0) = ''delist''"
    "ac_Reason (fst history_out ! 0) = ''orphan_not_routable''" "ac_ListingID (fst history_out ! 0) = 7"
    by code_simp+
  show ?thesis
    using delist_needs_continuous_mismatch[OF triple[of history_out] a(1,2), of sample_hist "[sample_row 7 ''active'']"]
    unfolding a(3,4) by (simp add: history_snap_def sample_row_def)
qed

section \<open>A run\<close>

text \<open>A platform whose shelf is a list of (channel, goods reference) pairs; it refuses to delist what it does not have.\<close>

definition toy_adapter :: "channel \<Rightarrow> (channel \<times> string) list Adapter" where
  "toy_adapter ch = \<lparr>Caps = \<lparr>DepositDirect = True, LongLeaseThresholdDays = 21, MaxBatchPublish = 1, MaxBatchReprice = 1,
       cap_RentMaxDayMin = 8, cap_RentMaxDayMax = 90\<rparr>,
     Healthy = (\<lambda>w. (None, w)), Inventory = (\<lambda>w. (Inr [], w)), LeaseShelf = (\<lambda>w. (Inr [], w)),
     PublishLease = (\<lambda>qs w. case qs of [q] \<Rightarrow>
         (([\<lparr>pr_AssetRef = pq_AssetRef q, pr_GoodsRef = ''g'' @ pq_AssetRef q, pr_Success = True, pr_Error = ''''\<rparr>], None),
          (ch, ''g'' @ pq_AssetRef q) # w) | _ \<Rightarrow> (([], None), w)),
     RepriceLease = (\<lambda>qs w. (([], None), w)),
     Delist = (\<lambda>rs w. case rs of [r] \<Rightarrow>
         if (ch, r) \<in> set w then (None, filter (\<lambda>x. x \<noteq> (ch, r)) w)
         else (Some \<lparr>Error = ''blocked'', wrapped = [ErrPlatformBlocked]\<rparr>, w) | _ \<Rightarrow> (None, w)),
     LeaseOrders = (\<lambda>_ w. (Inr [], w)), Wallet = (\<lambda>w. (Inr (Fin 0), w))\<rparr>"

definition toy_executor :: "bool \<Rightarrow> ((channel \<times> string) list, session) Executor" where
  "toy_executor dry = \<lparr>DryRun = dry, HasAudit = True, Adapters = (\<lambda>ch. Some (toy_adapter ch)), Store = Some store_WriteBack,
     Penalize = None, ChannelReady = None, ctx_Err = (\<lambda>_. None), Clock = (\<lambda>_. 9)\<rparr>"

definition toy_tables :: "listing_row list \<Rightarrow> tables" where
  "toy_tables rows = \<lparr>templates = [], inventory_items = [], listings = rows, lease_orders = [], market_snapshots = [],
     strategies = [], price_actions = [], fund_flows = [], app_settings = [], audit_log = [],
     order_income_ledger = [], daily_stats = [], shelf_observations = (\<lambda>_. None), next_id = 50\<rparr>"

definition toy_session :: "listing_row list \<Rightarrow> session" where
  "toy_session rows = \<lparr>db = toy_tables rows, db_now = 9, faults = []\<rparr>"

lemma toy_shelf: "shelf_executor (\<lambda>w c g. (c, g) \<in> set w) (toy_executor False)"
  by (auto simp: shelf_executor_def shelf_adapter_def toy_executor_def toy_adapter_def publish_confirmed_def fun_eq_iff)

abbreviation "toy_out dry \<equiv> ExecuteWithError (toy_executor dry) (fst sample_out) [(''uu'', ''ga1'')] (toy_session [])"

lemmas toy_split = surjective_pairing[of "toy_out dry" for dry]

lemma ext3: "x = ((fst (fst x), fst (snd (fst x)), snd (snd (fst x))), snd x)"
  by simp

theorem execute_accounts_witness:
  "fst (fst (toy_out False)) \<le> 4 \<and> 4 \<le> fst (fst (toy_out False)) + fst (snd (fst (toy_out False)))"
proof -
  have l: "length (fst sample_out) = 4" by code_simp
  have c: "\<And>w. ctx_Err (toy_executor False) w = None" by (simp add: toy_executor_def)
  from execute_accounts[OF c ext3[of "toy_out False"]] show ?thesis unfolding l by (elim conjE) (rule conjI)
qed

theorem dry_run_touches_nothing_witness:
  "world (snd (toy_out True)) = [(''uu'', ''ga1'')] \<and> store (snd (toy_out True)) = toy_session []"
proof -
  have d: "DryRun (toy_executor True)" by (simp add: toy_executor_def)
  from dry_run_touches_nothing[OF d ext3[of "toy_out True"]] show ?thesis by (elim conjE) (rule conjI)
qed

theorem blocked_channel_left_alone_witness:
  "same_effects (exec_actions (toy_executor False) (fst sample_out) ((start_run [] (toy_session []))\<lparr>blocked := [''uu'']\<rparr>))
    (exec_actions (toy_executor False) (filter (\<lambda>a. ac_Channel a \<noteq> ''uu'') (fst sample_out)) ((start_run [] (toy_session []))\<lparr>blocked := [''uu'']\<rparr>))"
  by (rule blocked_channel_left_alone) (simp_all add: toy_executor_def)


section \<open>A database\<close>


definition sample_shelf :: "ShelfListing list" where
  "sample_shelf = [\<lparr>sl_Channel = ''uu'', sl_GoodsRef = ''g2'', sl_AssetID = ''a2'', sl_HashName = ''h'', sl_DisplayName = ''d'',
     sl_TemplateID = 4, sl_RentPrice = Fin 1, sl_LongRentPrice = Fin 0, sl_MaxDays = 30, sl_Deposit = Fin 10, sl_MarkPrice = Fin 9,
     sl_Leased = False, sl_ListedAt = 2\<rparr>]"

abbreviation "shelf_out \<equiv> ApplyShelfSnapshot ''uu'' sample_shelf 6 (toy_session [sample_row 7 ''active''])"

lemma sample_shelf_committed: "fst shelf_out = Inr (1, 0)"
  by code_simp

theorem shelf_snapshot_applied_witness:
  "\<exists>l \<in> set (listings (db (snd shelf_out))). is_ref ''uu'' ''g2'' l"
proof -
  have e: "shelf_out = (Inr (1, 0), snd shelf_out)" using sample_shelf_committed by (metis prod.collapse)
  have o: "case shelf_observations (db (toy_session [sample_row 7 ''active''])) ''uu'' of None \<Rightarrow> True | Some p \<Rightarrow> p < 6"
    by (simp add: toy_session_def toy_tables_def)
  have x: "hd sample_shelf \<in> set sample_shelf" "sl_GoodsRef (hd sample_shelf) = ''g2''" by (simp_all add: sample_shelf_def)
  from shelf_snapshot_applied[OF e o] x show ?thesis by metis
qed

theorem shelf_snapshot_refused_witness:
  "db (snd (ApplyShelfSnapshot ''uu'' [] 6 (toy_session [sample_row 7 ''active'']))) = toy_tables [sample_row 7 ''active'']"
proof -
  have n: "0 < sql_count_active ''uu'' (db (toy_session [sample_row 7 ''active'']))" by code_simp
  from shelf_snapshot_refused[OF surjective_pairing[of "ApplyShelfSnapshot ''uu'' [] 6 (toy_session [sample_row 7 ''active''])"]] n
  show ?thesis by (simp add: toy_session_def)
qed

end
