(* ===== verification/JsonText.thy ===== *)
theory JsonText
  imports ParamsJson
begin

text \<open>
  What the program uses of \<open>encoding/json\<close> on texts: the printing of strings and the parser. Texts are bytes in
  valid UTF-8; bytes from 128 up pass through unchanged. A number literal without fraction and exponent is a
  \<open>JInt\<close>, any other the float nearest to it. The parser's fuel is its input's length, and every call consumes a byte.
\<close>

section \<open>Printing\<close>

definition hex_digit :: "int \<Rightarrow> char" where
  "hex_digit n = (if n < 10 then char_of (48 + n) else char_of (87 + n))"

definition esc :: "char \<Rightarrow> string" where
  "esc c = (let n = (of_char c :: int); b = CHR 0x5C in
    if n = 34 \<or> n = 92 then [b, c]
    else if n = 8 then [b, CHR ''b''] else if n = 12 then [b, CHR ''f''] else if n = 10 then [b, CHR ''n'']
    else if n = 13 then [b, CHR ''r''] else if n = 9 then [b, CHR ''t'']
    else if n < 32 \<or> n = 60 \<or> n = 62 \<or> n = 38 then [b, CHR ''u'', CHR ''0'', CHR ''0'', hex_digit (n div 16), hex_digit (n mod 16)]
    else [c])"

definition quoted :: "string \<Rightarrow> string" where
  "quoted s = CHR 0x22 # concat (map esc s) @ [CHR 0x22]"

section \<open>Parsing\<close>

definition hex_value :: "char \<Rightarrow> int option" where
  "hex_value c = (let n = (of_char c :: int) in
    if 48 \<le> n \<and> n \<le> 57 then Some (n - 48) else if 97 \<le> n \<and> n \<le> 102 then Some (n - 87)
    else if 65 \<le> n \<and> n \<le> 70 then Some (n - 55) else None)"

definition hex4 :: "char \<Rightarrow> char \<Rightarrow> char \<Rightarrow> char \<Rightarrow> int option" where
  "hex4 a b c d = (case (hex_value a, hex_value b, hex_value c, hex_value d) of
      (Some w, Some x, Some y, Some z) \<Rightarrow> Some (4096 * w + 256 * x + 16 * y + z) | _ \<Rightarrow> None)"

definition utf8 :: "int \<Rightarrow> string" where
  "utf8 n =
    (if n < 128 then [char_of n]
     else if n < 2048 then [char_of (192 + n div 64), char_of (128 + n mod 64)]
     else if n < 65536 then [char_of (224 + n div 4096), char_of (128 + n div 64 mod 64), char_of (128 + n mod 64)]
     else [char_of (240 + n div 262144), char_of (128 + n div 4096 mod 64), char_of (128 + n div 64 mod 64), char_of (128 + n mod 64)])"

definition simple_escape :: "char \<Rightarrow> char option" where
  "simple_escape c = map_of [(CHR 0x22, CHR 0x22), (CHR 0x5C, CHR 0x5C), (CHR ''/'', CHR ''/''), (CHR ''b'', CHR 0x08),
     (CHR ''f'', CHR 0x0C), (CHR ''n'', CHR 0x0A), (CHR ''r'', CHR 0x0D), (CHR ''t'', CHR 0x09)] c"

text \<open>The rest of a string literal after its opening quote: its value and what follows. A lone surrogate becomes U+FFFD.\<close>

fun unquote :: "string \<Rightarrow> (string \<times> string) option" where
  "unquote [] = None"
| "unquote (c # cs) =
    (if c = CHR 0x22 then Some ([], cs)
     else if (of_char c :: int) < 32 then None
     else if c = CHR 0x5C then
       (case cs of
          [] \<Rightarrow> None
        | e # ds \<Rightarrow>
          if e = CHR ''u'' then
            (case ds of h1 # h2 # h3 # h4 # r \<Rightarrow>
               (case hex4 h1 h2 h3 h4 of
                  None \<Rightarrow> None
                | Some n \<Rightarrow>
                   if 55296 \<le> n \<and> n < 56320 then
                     (case r of b # u # k1 # k2 # k3 # k4 # r2 \<Rightarrow>
                        (case (if b = CHR 0x5C \<and> u = CHR ''u'' then hex4 k1 k2 k3 k4 else None) of
                           Some m \<Rightarrow> if 56320 \<le> m \<and> m < 57344
                             then map_option (\<lambda>(s, t). (utf8 (65536 + (n - 55296) * 1024 + (m - 56320)) @ s, t)) (unquote r2)
                             else map_option (\<lambda>(s, t). (utf8 65533 @ s, t)) (unquote r)
                         | None \<Rightarrow> map_option (\<lambda>(s, t). (utf8 65533 @ s, t)) (unquote r))
                      | _ \<Rightarrow> map_option (\<lambda>(s, t). (utf8 65533 @ s, t)) (unquote r))
                   else map_option (\<lambda>(s, t). (utf8 (if 56320 \<le> n \<and> n < 57344 then 65533 else n) @ s, t)) (unquote r))
             | _ \<Rightarrow> None)
          else (case simple_escape e of None \<Rightarrow> None | Some x \<Rightarrow> map_option (\<lambda>(s, t). (x # s, t)) (unquote ds)))
     else map_option (\<lambda>(s, t). (c # s, t)) (unquote cs))"

definition skip_ws :: "string \<Rightarrow> string" where
  "skip_ws = dropWhile (\<lambda>c. c \<in> {CHR '' '', CHR 0x09, CHR 0x0A, CHR 0x0D})"

definition digits :: "string \<Rightarrow> string \<times> string" where
  "digits s = (takeWhile is_digit s, dropWhile is_digit s)"

definition rat10 :: "int \<Rightarrow> int \<Rightarrow> rat" where
  "rat10 n e = (if 0 \<le> e then of_int (n * 10 ^ nat e) else of_int n / of_int (10 ^ nat (- e)))"

definition parse_number :: "string \<Rightarrow> (json \<times> string) option" where
  "parse_number s =
    (let neg = (s \<noteq> [] \<and> hd s = CHR ''-''); s = (if neg then tl s else s); (ds, r) = digits s
     in if ds = [] \<or> (hd ds = CHR ''0'' \<and> 1 < length ds) then None
        else
          let (fs, r1) = (if r \<noteq> [] \<and> hd r = CHR ''.'' then digits (tl r) else ([], r));
              frac = (r \<noteq> [] \<and> hd r = CHR ''.'')
          in if frac \<and> fs = [] then None
             else if r1 \<noteq> [] \<and> (hd r1 = CHR ''e'' \<or> hd r1 = CHR ''E'') then
               let x = tl r1; en = (x \<noteq> [] \<and> hd x = CHR ''-''); x = (if x \<noteq> [] \<and> (hd x = CHR ''-'' \<or> hd x = CHR ''+'') then tl x else x);
                   (es, r2) = digits x; e = (if en then - digits_value es else digits_value es)
               in if es = [] then None
                  else Some (JNum (rnd ((if neg then - 1 else 1) * rat10 (digits_value (ds @ fs)) (e - int (length fs)))), r2)
             else if frac then Some (JNum (rnd ((if neg then - 1 else 1) * rat10 (digits_value (ds @ fs)) (- int (length fs)))), r1)
             else Some (JInt (if neg then - digits_value ds else digits_value ds), r1))"

fun strip_prefix :: "string \<Rightarrow> string \<Rightarrow> string option" where
  "strip_prefix [] s = Some s"
| "strip_prefix (c # cs) (d # ds) = (if c = d then strip_prefix cs ds else None)"
| "strip_prefix (c # cs) [] = None"

fun parse_value :: "nat \<Rightarrow> string \<Rightarrow> (json \<times> string) option"
  and parse_members :: "nat \<Rightarrow> string \<Rightarrow> ((string \<times> json) list \<times> string) option"
  and parse_elements :: "nat \<Rightarrow> string \<Rightarrow> (json list \<times> string) option" where
  "parse_value 0 s = None"
| "parse_value (Suc n) s =
    (case skip_ws s of
       [] \<Rightarrow> None
     | c # cs \<Rightarrow>
        if c = CHR ''{'' then
          (case skip_ws cs of d # ds \<Rightarrow> if d = CHR ''}'' then Some (JObj [], ds) else map_option (\<lambda>(m, r). (JObj m, r)) (parse_members n (d # ds))
           | [] \<Rightarrow> None)
        else if c = CHR ''['' then
          (case skip_ws cs of d # ds \<Rightarrow> if d = CHR '']'' then Some (JArr [], ds) else map_option (\<lambda>(m, r). (JArr m, r)) (parse_elements n (d # ds))
           | [] \<Rightarrow> None)
        else if c = CHR 0x22 then map_option (\<lambda>(t, r). (JStr t, r)) (unquote cs)
        else if c = CHR ''t'' then map_option (\<lambda>r. (JBool True, r)) (strip_prefix ''rue'' cs)
        else if c = CHR ''f'' then map_option (\<lambda>r. (JBool False, r)) (strip_prefix ''alse'' cs)
        else if c = CHR ''n'' then map_option (\<lambda>r. (JNull, r)) (strip_prefix ''ull'' cs)
        else parse_number (c # cs))"
| "parse_members 0 s = None"
| "parse_members (Suc n) s =
    (case skip_ws s of
       c # cs \<Rightarrow>
         (if c \<noteq> CHR 0x22 then None
          else case unquote cs of
              None \<Rightarrow> None
            | Some (k, r) \<Rightarrow>
               (case strip_prefix '':'' (skip_ws r) of
                  None \<Rightarrow> None
                | Some r \<Rightarrow>
                   (case parse_value n r of
                      None \<Rightarrow> None
                    | Some (v, r) \<Rightarrow>
                       (case skip_ws r of
                          d # ds \<Rightarrow> if d = CHR '','' then map_option (\<lambda>(m, r). ((k, v) # m, r)) (parse_members n ds)
                            else if d = CHR ''}'' then Some ([(k, v)], ds) else None
                        | [] \<Rightarrow> None))))
     | [] \<Rightarrow> None)"
| "parse_elements 0 s = None"
| "parse_elements (Suc n) s =
    (case parse_value n s of
       None \<Rightarrow> None
     | Some (v, r) \<Rightarrow>
        (case skip_ws r of
           d # ds \<Rightarrow> if d = CHR '','' then map_option (\<lambda>(m, r). (v # m, r)) (parse_elements n ds)
             else if d = CHR '']'' then Some ([v], ds) else None
         | [] \<Rightarrow> None))"

text \<open>\<open>json.Unmarshal\<close> wants nothing after the value; \<open>json.Decoder.Decode\<close> reads one value and leaves the rest.\<close>

definition json_Unmarshal :: "string \<Rightarrow> json option" where
  "json_Unmarshal s = (case parse_value (length s + 1) s of Some (j, r) \<Rightarrow> if skip_ws r = [] then Some j else None | None \<Rightarrow> None)"

definition json_Decode :: "string \<Rightarrow> json option" where
  "json_Decode s = map_option fst (parse_value (length s + 1) s)"

section \<open>Struct fields\<close>

definition string_field :: "string \<Rightarrow> (string \<Rightarrow> 'p \<Rightarrow> 'p) \<Rightarrow> 'p field" where
  "string_field tag put = (tag, \<lambda>j p. case j of JNull \<Rightarrow> Some p | JStr s \<Rightarrow> Some (put s p) | _ \<Rightarrow> None)"

definition bool_field :: "string \<Rightarrow> (bool \<Rightarrow> 'p \<Rightarrow> 'p) \<Rightarrow> 'p field" where
  "bool_field tag put = (tag, \<lambda>j p. case j of JNull \<Rightarrow> Some p | JBool b \<Rightarrow> Some (put b p) | _ \<Rightarrow> None)"

text \<open>A pointer field: null stores nil.\<close>

definition pointer_field :: "string \<Rightarrow> (json \<Rightarrow> 'v option) \<Rightarrow> ('v option \<Rightarrow> 'p \<Rightarrow> 'p) \<Rightarrow> 'p field" where
  "pointer_field tag read put = (tag, \<lambda>j p. case j of JNull \<Rightarrow> Some (put None p) | _ \<Rightarrow> map_option (\<lambda>v. put (Some v) p) (read j))"

definition read_string :: "json \<Rightarrow> string option" where
  "read_string j = (case j of JStr s \<Rightarrow> Some s | _ \<Rightarrow> None)"

definition read_bool :: "json \<Rightarrow> bool option" where
  "read_bool j = (case j of JBool b \<Rightarrow> Some b | _ \<Rightarrow> None)"

definition read_int :: "json \<Rightarrow> int option" where
  "read_int j = (case j of JInt n \<Rightarrow> to_int j 0 | _ \<Rightarrow> None)"

section \<open>Reading back what was printed\<close>

lemma hex_value_hex_digit: "0 \<le> n \<Longrightarrow> n < 16 \<Longrightarrow> hex_value (hex_digit n) = Some n"
  by (auto simp: hex_value_def hex_digit_def of_char_of Let_def)

lemma of_char_bounds: "0 \<le> (of_char c :: int)" "(of_char c :: int) < 256"
  using of_nat_of_char[where 'a = int, of c] nat_of_char_less_256[of c] by linarith+

lemma char_of_int_of_char: "char_of (of_char c :: int) = c"
  by simp

lemma of_char_eqs: "(of_char c :: int) = 8 \<Longrightarrow> c = CHR 0x08" "(of_char c :: int) = 9 \<Longrightarrow> c = CHR 0x09"
    "(of_char c :: int) = 10 \<Longrightarrow> c = CHR 0x0A" "(of_char c :: int) = 12 \<Longrightarrow> c = CHR 0x0C" "(of_char c :: int) = 13 \<Longrightarrow> c = CHR 0x0D"
  using of_char_eq_iff[where 'a = int, of c "CHR 0x08"] of_char_eq_iff[where 'a = int, of c "CHR 0x09"]
    of_char_eq_iff[where 'a = int, of c "CHR 0x0A"] of_char_eq_iff[where 'a = int, of c "CHR 0x0C"] of_char_eq_iff[where 'a = int, of c "CHR 0x0D"]
  by simp_all

lemma unquote_esc: "unquote (esc c @ s) = map_option (\<lambda>(t, r). (c # t, r)) (unquote s)"
proof -
  let ?n = "of_char c :: int"
  note b = of_char_bounds[of c]
  have q: "c = CHR 0x22 \<longleftrightarrow> ?n = 34" "c = CHR 0x5C \<longleftrightarrow> ?n = 92"
    using of_char_eq_iff[where 'a = int, of c "CHR 0x22"] of_char_eq_iff[where 'a = int, of c "CHR 0x5C"] by simp_all
  consider (sep) "?n = 34 \<or> ?n = 92" | (s) "?n = 8" | (s2) "?n = 12" | (s3) "?n = 10" | (s4) "?n = 13" | (s5) "?n = 9"
    | (u) "?n \<noteq> 34 \<and> ?n \<noteq> 92 \<and> ?n \<noteq> 8 \<and> ?n \<noteq> 12 \<and> ?n \<noteq> 10 \<and> ?n \<noteq> 13 \<and> ?n \<noteq> 9 \<and> (?n < 32 \<or> ?n = 60 \<or> ?n = 62 \<or> ?n = 38)"
    | (p) "32 \<le> ?n \<and> ?n \<noteq> 34 \<and> ?n \<noteq> 92 \<and> ?n \<noteq> 60 \<and> ?n \<noteq> 62 \<and> ?n \<noteq> 38"
    by linarith
  then show ?thesis
  proof cases
    case u
    have "hex4 (CHR ''0'') (CHR ''0'') (hex_digit (?n div 16)) (hex_digit (?n mod 16)) = Some ?n"
      using b hex_value_hex_digit[of "?n div 16"] hex_value_hex_digit[of "?n mod 16"] by (simp add: hex4_def) (simp add: hex_value_def)
    moreover have "?n < 128" using u by auto
    ultimately show ?thesis using u by (simp add: esc_def Let_def utf8_def)
  next
    case p
    then show ?thesis using q by (simp add: esc_def Let_def)
  next
    case sep
    then have "c = CHR 0x22 \<or> c = CHR 0x5C" using q by blast
    then show ?thesis by (elim disjE) (simp_all add: esc_def Let_def simple_escape_def)
  qed (use of_char_eqs[of c] in \<open>simp_all add: esc_def Let_def simple_escape_def\<close>)
qed

lemma unquote_escs: "unquote (concat (map esc t) @ CHR 0x22 # r) = Some (t, r)"
  by (induction t) (simp_all add: unquote_esc del: unquote.simps(2), simp)

lemma parse_quoted: "parse_value (Suc n) (quoted t @ r) = Some (JStr t, r)"
  by (simp add: quoted_def skip_ws_def unquote_escs)

end
