(* ===== verification/AuthStore.thy ===== *)
theory AuthStore
  imports Tables JsonText
begin

text \<open>
  The settings, the audit log and the session epoch: \<open>internal/store/store.go\<close> and \<open>internal/store/session.go\<close>. A
  column of type \<open>jsonb\<close> is the value it holds, a \<open>bytea\<close> column a string.
\<close>

section \<open>Settings\<close>

definition not_found :: goerr where
  "not_found = \<lparr>Error = ''store: not found'', wrapped = [ErrNotFound]\<rparr>"

definition setting_of :: "string \<Rightarrow> tables \<Rightarrow> setting_row option" where
  "setting_of k t = find (\<lambda>r. G_key r = k) (app_settings t)"

definition GetSetting :: "string \<Rightarrow> session \<Rightarrow> (goerr + setting_row) \<times> session" where
  "GetSetting k s =
    (case Query (setting_of k) s of
       (Inl e, s) \<Rightarrow> (Inl (Wrap (''get setting '' @ k @ '': '') e), s)
     | (Inr None, s) \<Rightarrow> (Inl not_found, s)
     | (Inr (Some r), s) \<Rightarrow> (Inr r, s))"

definition sql_upsert_plain :: "string \<Rightarrow> json \<Rightarrow> instant \<Rightarrow> tables \<Rightarrow> tables" where
  "sql_upsert_plain k v now t =
    (if setting_of k t = None
     then t\<lparr>app_settings := app_settings t @ [\<lparr>G_key = k, G_value_enc = None, G_value_plain = Some v, G_updated_at = now\<rparr>]\<rparr>
     else t\<lparr>app_settings := upd_where (\<lambda>r. G_key r = k) (\<lambda>r. r\<lparr>G_value_plain := Some v, G_updated_at := now\<rparr>) (app_settings t)\<rparr>)"

definition UpsertSettingPlain :: "string \<Rightarrow> json \<Rightarrow> session \<Rightarrow> goerr option \<times> session" where
  "UpsertSettingPlain k v s = (case Exec (sql_upsert_plain k v (db_now s)) s of
     (Some e, s) \<Rightarrow> (Some (Wrap (''upsert setting '' @ k @ '': '') e), s) | (None, s) \<Rightarrow> (None, s))"

definition sql_upsert_enc :: "string \<Rightarrow> string \<Rightarrow> instant \<Rightarrow> tables \<Rightarrow> tables" where
  "sql_upsert_enc k enc now t =
    (if setting_of k t = None
     then t\<lparr>app_settings := app_settings t @ [\<lparr>G_key = k, G_value_enc = Some enc, G_value_plain = None, G_updated_at = now\<rparr>]\<rparr>
     else t\<lparr>app_settings := upd_where (\<lambda>r. G_key r = k)
              (\<lambda>r. r\<lparr>G_value_enc := Some enc, G_value_plain := None, G_updated_at := now\<rparr>) (app_settings t)\<rparr>)"

definition UpsertSettingEnc :: "string \<Rightarrow> string \<Rightarrow> session \<Rightarrow> goerr option \<times> session" where
  "UpsertSettingEnc k enc s = (case Exec (sql_upsert_enc k enc (db_now s)) s of
     (Some e, s) \<Rightarrow> (Some (Wrap (''upsert setting '' @ k @ '': '') e), s) | (None, s) \<Rightarrow> (None, s))"

section \<open>The audit log\<close>

definition InsertAudit :: "AuditEntry \<Rightarrow> session \<Rightarrow> goerr option \<times> session" where
  "InsertAudit e s =
    (case Exec (\<lambda>t. t\<lparr>audit_log := audit_log t @ [\<lparr>U_ts = ae_Time e, U_actor = ae_Actor e, U_channel = NULLIF (ae_Channel e) '''',
         U_action = ae_Action e, U_target = NULLIF (ae_Target e) '''', U_detail = map_option JObj (ae_Detail e)\<rparr>]\<rparr>) s of
       (Some e, s) \<Rightarrow> (Some (Wrap ''insert audit: '' e), s) | (None, s) \<Rightarrow> (None, s))"

record AuditFilter =
  af_Action :: string
  af_Channel :: string
  af_Since :: instant
  af_Before :: instant
  af_Limit :: int
  af_Offset :: int

definition audit_limit :: "int \<Rightarrow> int" where
  "audit_limit n = (let limit = (if n \<le> 0 then 50 else n) in if 200 < limit then 200 else limit)"

definition audit_where :: "AuditFilter \<Rightarrow> audit_row \<Rightarrow> bool" where
  "audit_where f r \<longleftrightarrow>
    (af_Action f \<noteq> '''' \<longrightarrow> U_action r = af_Action f) \<and> (af_Channel f \<noteq> '''' \<longrightarrow> U_channel r = Some (af_Channel f))
    \<and> (\<not> IsZero (af_Since f) \<longrightarrow> af_Since f \<le> U_ts r) \<and> (\<not> IsZero (af_Before f) \<longrightarrow> U_ts r < af_Before f)"

definition page :: "int \<Rightarrow> int \<Rightarrow> 'a list \<Rightarrow> 'a list" where
  "page limit offset rows = take (nat limit) (drop (nat offset) rows)"

text \<open>The detail is decoded into a map; one with a number a float64 cannot hold, which nothing writes, is left out.\<close>

definition audit_entry_of :: "audit_row \<Rightarrow> AuditEntry" where
  "audit_entry_of r = \<lparr>ae_Time = U_ts r, ae_Actor = U_actor r, ae_Action = U_action r,
     ae_Channel = (case U_channel r of None \<Rightarrow> '''' | Some c \<Rightarrow> c), ae_Target = (case U_target r of None \<Rightarrow> '''' | Some x \<Rightarrow> x),
     ae_Detail = (case U_detail r of None \<Rightarrow> None | Some JNull \<Rightarrow> None | Some d \<Rightarrow> to_map d)\<rparr>"

definition ListAudit :: "AuditFilter \<Rightarrow> session \<Rightarrow> (goerr + AuditEntry list \<times> nat) \<times> session" where
  "ListAudit f s =
    (let limit = audit_limit (af_Limit f); offset = (if af_Offset f < 0 then 0 else af_Offset f) in
     case Query (\<lambda>t. length (filter (audit_where f) (audit_log t))) s of
       (Inl e, s) \<Rightarrow> (Inl e, s)
     | (Inr n, s) \<Rightarrow>
        (case Query (\<lambda>t. page limit offset (sort_key (\<lambda>r. - U_ts r) (filter (audit_where f) (audit_log t)))) s of
           (Inl e, s) \<Rightarrow> (Inl e, s) | (Inr rows, s) \<Rightarrow> (Inr (map audit_entry_of rows, n), s)))"

section \<open>The session epoch\<close>

definition sessionEpochKey :: string where
  "sessionEpochKey = ''jwt_session_epoch''"

definition SessionEpoch :: "session \<Rightarrow> (goerr + int) \<times> session" where
  "SessionEpoch s =
    (case GetSetting sessionEpochKey s of
       (Inl e, s) \<Rightarrow> (if ErrNotFound \<in> set (wrapped e) then Inr 0 else Inl e, s)
     | (Inr r, s) \<Rightarrow>
        (case G_value_plain r of
           None \<Rightarrow> (Inl (Errorf ''session epoch has no value''), s)
         | Some j \<Rightarrow> (case read_int j of
               Some n \<Rightarrow> if n < 0 then (Inl (Errorf ''session epoch is invalid''), s) else (Inr n, s)
             | None \<Rightarrow> (Inl (Errorf ''session epoch is invalid''), s))))"

text \<open>\<open>bumpEpochSQL\<close>: the row is inserted at 1, or incremented when it holds digits only; otherwise no row returns. The
  sum overflows \<open>bigint\<close> as an error.\<close>

definition sql_bump_epoch :: "instant \<Rightarrow> tables \<Rightarrow> goerr + int \<times> tables" where
  "sql_bump_epoch now t =
    (case setting_of sessionEpochKey t of
       None \<Rightarrow> Inr (1, t\<lparr>app_settings := app_settings t @
                  [\<lparr>G_key = sessionEpochKey, G_value_enc = None, G_value_plain = Some (JInt 1), G_updated_at = now\<rparr>]\<rparr>)
     | Some r \<Rightarrow>
        (case G_value_plain r of
           Some (JInt n) \<Rightarrow>
             if n < 0 then Inl no_rows
             else if 2 ^ 63 - 1 \<le> n then Inl (Errorf ''bigint out of range'')
             else Inr (n + 1, t\<lparr>app_settings := upd_where (\<lambda>r. G_key r = sessionEpochKey)
                    (\<lambda>r. r\<lparr>G_value_plain := Some (JInt (n + 1)), G_updated_at := now\<rparr>) (app_settings t)\<rparr>)
         | _ \<Rightarrow> Inl no_rows))"

definition bumpEpoch :: "session \<Rightarrow> (goerr + int) \<times> session" where
  "bumpEpoch s = (case ExecE (sql_bump_epoch (db_now s)) s of
     (Inl e, s) \<Rightarrow> (Inl (Wrap ''advance session epoch: '' e), s) | (Inr n, s) \<Rightarrow> (Inr n, s))"

definition BumpSessionEpoch :: "session \<Rightarrow> (goerr + int) \<times> session" where
  "BumpSessionEpoch = bumpEpoch"

definition AdminPasswordHash :: "session \<Rightarrow> (goerr + string) \<times> session" where
  "AdminPasswordHash s =
    (case GetSetting ''admin_password_hash'' s of
       (Inl e, s) \<Rightarrow> (Inl e, s)
     | (Inr r, s) \<Rightarrow> (case G_value_enc r of
           None \<Rightarrow> (Inl (Errorf ''admin password hash missing''), s)
         | Some h \<Rightarrow> if h = '''' then (Inl (Errorf ''admin password hash missing''), s) else (Inr h, s)))"

definition password_changed :: goerr where
  "password_changed = \<lparr>Error = ''admin password changed concurrently'', wrapped = [ErrPasswordChanged]\<rparr>"

definition is_password :: "string \<Rightarrow> setting_row \<Rightarrow> bool" where
  "is_password h r \<longleftrightarrow> G_key r = ''admin_password_hash'' \<and> G_value_enc r = Some h"

definition sql_set_password :: "string \<Rightarrow> string \<Rightarrow> instant \<Rightarrow> tables \<Rightarrow> nat \<times> tables" where
  "sql_set_password old new now t =
    (length (filter (is_password old) (app_settings t)),
     t\<lparr>app_settings := upd_where (is_password old) (\<lambda>r. r\<lparr>G_value_enc := Some new, G_value_plain := None, G_updated_at := now\<rparr>) (app_settings t)\<rparr>)"

definition change_password_body :: "string \<Rightarrow> string \<Rightarrow> session \<Rightarrow> (goerr + bool \<times> unit) \<times> session" where
  "change_password_body old new s =
    (case ExecR (sql_set_password old new (db_now s)) s of
       (Inl e, s) \<Rightarrow> (Inl e, s)
     | (Inr n, s) \<Rightarrow>
        if n \<noteq> 1 then (Inl password_changed, s)
        else (case bumpEpoch s of (Inl e, s) \<Rightarrow> (Inl e, s) | (Inr _, s) \<Rightarrow> (Inr (True, ()), s)))"

definition ChangeAdminPassword :: "string \<Rightarrow> string \<Rightarrow> session \<Rightarrow> (goerr + unit) \<times> session" where
  "ChangeAdminPassword old new = Tx id (change_password_body old new)"

section \<open>Facts\<close>

text \<open>The epoch the table holds, where it holds one.\<close>

definition epoch_of :: "tables \<Rightarrow> int option" where
  "epoch_of t = (case setting_of sessionEpochKey t of None \<Rightarrow> Some 0
     | Some r \<Rightarrow> (case G_value_plain r of Some (JInt n) \<Rightarrow> if 0 \<le> n \<and> n < 2 ^ 63 then Some n else None | _ \<Rightarrow> None))"

lemma setting_append: "setting_of k t = None \<Longrightarrow> setting_of j (t\<lparr>app_settings := app_settings t @ [r]\<rparr>)
    = (case setting_of j t of Some x \<Rightarrow> Some x | None \<Rightarrow> if G_key r = j then Some r else None)"
proof -
  have "find p (xs @ [x]) = (case find p xs of Some y \<Rightarrow> Some y | None \<Rightarrow> if p x then Some x else None)" for p xs and x :: setting_row
    by (induction xs) auto
  then show ?thesis by (simp add: setting_of_def)
qed

lemma find_upd: "(\<And>r. G_key (f r) = G_key r) \<Longrightarrow> find (\<lambda>r. G_key r = k) (upd_where p f rows)
    = map_option (\<lambda>r. if p r then f r else r) (find (\<lambda>r. G_key r = k) rows)"
  by (induction rows) auto

lemma setting_upd: "(\<And>r. G_key (f r) = G_key r) \<Longrightarrow> setting_of k (t\<lparr>app_settings := upd_where p f (app_settings t)\<rparr>)
    = map_option (\<lambda>r. if p r then f r else r) (setting_of k t)"
  by (simp add: setting_of_def find_upd)

lemma setting_of_key: "setting_of k t = Some r \<Longrightarrow> G_key r = k"
  by (auto simp: setting_of_def find_Some_iff)

lemma GetSetting_dbD: "GetSetting k s = (r, s') \<Longrightarrow> db s' = db s"
  by (auto simp: GetSetting_def dest: Query_dbD split: prod.splits sum.splits option.splits)

lemma SessionEpoch_dbD: "SessionEpoch s = (r, s') \<Longrightarrow> db s' = db s"
  by (auto simp: SessionEpoch_def dest: GetSetting_dbD split: prod.splits sum.splits option.splits if_splits)

lemma Query_ok: "Query f s = (Inr v, s') \<Longrightarrow> v = f (db s)"
  by (auto simp: Query_def split: option.splits)

lemma SessionEpoch_value: "fst (SessionEpoch s) = Inr n \<Longrightarrow> next_fault s = None \<Longrightarrow> epoch_of (db s) = Some n"
  by (auto simp: SessionEpoch_def GetSetting_def Query_def epoch_of_def not_found_def read_int_def to_int_def
      split: option.splits sum.splits json.splits if_splits)

lemma bump_value:
  assumes "sql_bump_epoch now t = Inr (n, t')"
  shows "epoch_of t = Some (n - 1) \<and> epoch_of t' = Some n \<and> 0 < n \<and> n < 2 ^ 63"
proof (cases "setting_of sessionEpochKey t")
  case None
  then show ?thesis using assms setting_append[OF None, of sessionEpochKey] by (auto simp: sql_bump_epoch_def epoch_of_def)
next
  case (Some r)
  then show ?thesis using assms setting_of_key[OF Some]
    by (auto simp: sql_bump_epoch_def epoch_of_def setting_upd split: option.splits json.splits if_splits)
qed

lemma bumpEpoch_ok:
  assumes "bumpEpoch s = (Inr n, s')"
  shows "epoch_of (db s) = Some (n - 1) \<and> epoch_of (db s') = Some n \<and> 0 < n"
proof -
  obtain t' where "sql_bump_epoch (db_now s) (db s) = Inr (n, t')" "db s' = t'"
    using assms by (auto simp: bumpEpoch_def ExecE_def past_def split: option.splits sum.splits prod.splits)
  with bump_value show ?thesis by blast
qed

lemma bumpEpoch_error: "bumpEpoch s = (Inl e, s') \<Longrightarrow> db s' = db s"
  by (auto simp: bumpEpoch_def ExecE_def past_def split: option.splits sum.splits prod.splits)

text \<open>Neither the epoch nor the password is touched by the other's statements.\<close>

lemma epoch_set_password: "epoch_of (snd (sql_set_password old new now t)) = epoch_of t"
  by (auto simp: sql_set_password_def epoch_of_def setting_upd is_password_def sessionEpochKey_def split: option.splits dest!: setting_of_key)

end
