(* ===== verification/StrategyStore.thy ===== *)
theory StrategyStore
  imports ListingStore AuthStore
begin

text \<open>
  Strategies: the store side (\<open>store/reprice.go\<close>, \<open>store/strategy_validation.go\<close>) and the validation the panel's
  handlers pass to it (\<open>api/handlers_admin.go\<close>). The \<open>params\<close> column is the JSON value it holds; the normal form
  jsonb gives to key order and number spelling is not modelled. The \<open>FOR UPDATE\<close> lock on the global row makes each
  checked update one step.
\<close>

record StrategyGlobalPatch =
  gp_Params :: "json option"
  gp_Route :: "string option"
  gp_RealEnabled :: "bool option"

record TemplateStrategy =
  ts_HashName :: string
  ts_Route :: string
  ts_Params :: json
  ts_RealEnabled :: "bool option"
  ts_Priority :: int

record EffectiveStrategy =
  es_ID :: int
  es_Params :: "json option"
  es_GlobalParams :: json
  es_RealEnabled :: bool
  es_GlobalRealEnabled :: bool
  es_Route :: string

section \<open>Reading the effective strategy\<close>

definition is_global :: "strategy_row \<Rightarrow> bool" where
  "is_global r \<longleftrightarrow> S_scope r = ''global''"

definition is_template :: "string \<Rightarrow> strategy_row \<Rightarrow> bool" where
  "is_template h r \<longleftrightarrow> S_scope r = ''template'' \<and> S_hash_name r = Some h"

definition sql_effective :: "string \<Rightarrow> tables \<Rightarrow> goerr + EffectiveStrategy" where
  "sql_effective h t =
    (case filter (\<lambda>g. is_global g \<and> S_enabled g) (strategies t) of
       [] \<Rightarrow> Inl \<lparr>Error = ''no rows in result set'', wrapped = [ErrNoRows]\<rparr>
     | g # _ \<Rightarrow>
        (let o' = first_by (\<lambda>a b. S_priority b < S_priority a) (filter (\<lambda>x. is_template h x \<and> S_enabled x) (strategies t))
         in Inr \<lparr>es_ID = S_id g, es_Params = map_option S_params o', es_GlobalParams = S_params g,
                 es_RealEnabled = (case o' of None \<Rightarrow> S_real_execution_enabled g | Some x \<Rightarrow> S_real_execution_enabled x),
                 es_GlobalRealEnabled = S_real_execution_enabled g,
                 es_Route = (case o' of None \<Rightarrow> S_channel_route g | Some x \<Rightarrow> S_channel_route x)\<rparr>))"

definition GetEffectiveStrategy :: "string \<Rightarrow> session \<Rightarrow> (goerr + EffectiveStrategy) \<times> session" where
  "GetEffectiveStrategy h s = (case QueryE (sql_effective h) s of
      (Inl e, s) \<Rightarrow> (Inl (Wrap ''effective strategy: '' e), s) | (Inr r, s) \<Rightarrow> (Inr r, s))"

section \<open>Writing strategies\<close>

definition sql_ensure_global :: "json \<Rightarrow> instant \<Rightarrow> tables \<Rightarrow> tables" where
  "sql_ensure_global params now t =
    (if list_ex is_global (strategies t) then t\<lparr>next_id := next_id t + 1\<rparr>
     else t\<lparr>strategies := strategies t @ [\<lparr>S_id = next_id t, S_name = ''default'', S_enabled = True, S_scope = ''global'',
              S_hash_name = None, S_channel_route = ''both'', S_params = params, S_priority = 0,
              S_real_execution_enabled = False, S_updated_by = ''system'', S_updated_at = now\<rparr>], next_id := next_id t + 1\<rparr>)"

definition EnsureGlobalStrategy :: "json \<Rightarrow> session \<Rightarrow> (goerr + int \<times> json) \<times> session" where
  "EnsureGlobalStrategy params s =
    (case Exec (sql_ensure_global params (db_now s)) s of
       (Some e, s) \<Rightarrow> (Inl e, s)
     | (None, s) \<Rightarrow> QueryE (\<lambda>t. case first_by by_priority (filter is_global (strategies t)) of
           None \<Rightarrow> Inl \<lparr>Error = ''no rows in result set'', wrapped = [ErrNoRows]\<rparr> | Some g \<Rightarrow> Inr (S_id g, S_params g)) s)"

definition lockGlobalStrategy :: "session \<Rightarrow> (goerr + int \<times> json) \<times> session" where
  "lockGlobalStrategy = QueryE (\<lambda>t. case filter is_global (strategies t) of
      [] \<Rightarrow> Inl \<lparr>Error = ''store: not found'', wrapped = [ErrNotFound]\<rparr> | g # _ \<Rightarrow> Inr (S_id g, S_params g))"

definition enabled_templates :: "tables \<Rightarrow> json list" where
  "enabled_templates t = map S_params (filter (\<lambda>x. S_scope x = ''template'' \<and> S_enabled x) (sort_key S_id (strategies t)))"

definition sql_patch_global :: "int \<Rightarrow> json \<Rightarrow> StrategyGlobalPatch \<Rightarrow> instant \<Rightarrow> tables \<Rightarrow> tables" where
  "sql_patch_global i params p now t =
    t\<lparr>strategies := upd_where (\<lambda>r. S_id r = i)
        (\<lambda>r. r\<lparr>S_params := params,
              S_channel_route := (case gp_Route p of None \<Rightarrow> S_channel_route r | Some x \<Rightarrow> x),
              S_real_execution_enabled := (case gp_RealEnabled p of None \<Rightarrow> S_real_execution_enabled r | Some b \<Rightarrow> b),
              S_updated_by := ''user'', S_updated_at := now\<rparr>) (strategies t)\<rparr>"

definition patch_body ::
    "int \<Rightarrow> StrategyGlobalPatch \<Rightarrow> (json \<Rightarrow> json list \<Rightarrow> goerr option) option \<Rightarrow> session \<Rightarrow> (goerr + bool \<times> unit) \<times> session" where
  "patch_body i p validate s =
    (case lockGlobalStrategy s of
       (Inl e, s) \<Rightarrow> (Inl e, s)
     | (Inr (locked, global), s) \<Rightarrow>
        if i \<noteq> locked then (Inl not_found, s)
        else let global = (case gp_Params p of None \<Rightarrow> global | Some j \<Rightarrow> j)
          in case (case validate of None \<Rightarrow> (None, s)
                   | Some v \<Rightarrow> (case Query enabled_templates s of (Inl e, s) \<Rightarrow> (Some e, s) | (Inr ts, s) \<Rightarrow> (v global ts, s))) of
              (Some e, s) \<Rightarrow> (Inl e, s)
            | (None, s) \<Rightarrow>
               (case Exec (sql_patch_global i global p (db_now s)) s of (Some e, s) \<Rightarrow> (Inl e, s) | (None, s) \<Rightarrow> (Inr (True, ()), s)))"

definition UpdateGlobalStrategyChecked ::
    "int \<Rightarrow> StrategyGlobalPatch \<Rightarrow> (json \<Rightarrow> json list \<Rightarrow> goerr option) option \<Rightarrow> session \<Rightarrow> (goerr + unit) \<times> session" where
  "UpdateGlobalStrategyChecked i p validate = Tx (Wrap ''begin strategy tx: '') (patch_body i p validate)"

definition UpdateGlobalStrategy :: "int \<Rightarrow> StrategyGlobalPatch \<Rightarrow> session \<Rightarrow> (goerr + unit) \<times> session" where
  "UpdateGlobalStrategy i p = UpdateGlobalStrategyChecked i p None"

definition sql_upsert_template_strategy :: "TemplateStrategy \<Rightarrow> instant \<Rightarrow> tables \<Rightarrow> int \<times> tables" where
  "sql_upsert_template_strategy x now t =
    (case filter (is_template (ts_HashName x)) (strategies t) of
       r # _ \<Rightarrow> (S_id r, t\<lparr>strategies := upd_where (is_template (ts_HashName x))
          (\<lambda>r. r\<lparr>S_channel_route := ts_Route x, S_params := ts_Params x, S_priority := ts_Priority x,
                S_real_execution_enabled := (case ts_RealEnabled x of None \<Rightarrow> S_real_execution_enabled r | Some b \<Rightarrow> b),
                S_enabled := True, S_updated_by := ''user'', S_updated_at := now\<rparr>) (strategies t), next_id := next_id t + 1\<rparr>)
     | [] \<Rightarrow> (next_id t, t\<lparr>strategies := strategies t @
          [\<lparr>S_id = next_id t, S_name = ''tpl:'' @ ts_HashName x, S_enabled = True, S_scope = ''template'',
            S_hash_name = Some (ts_HashName x), S_channel_route = ts_Route x, S_params = ts_Params x,
            S_priority = ts_Priority x, S_real_execution_enabled = (ts_RealEnabled x = Some True), S_updated_by = ''user'', S_updated_at = now\<rparr>],
          next_id := next_id t + 1\<rparr>))"

definition upsert_body ::
    "TemplateStrategy \<Rightarrow> (json \<Rightarrow> json \<Rightarrow> goerr option) option \<Rightarrow> session \<Rightarrow> (goerr + bool \<times> int) \<times> session" where
  "upsert_body x validate s =
    (case lockGlobalStrategy s of
       (Inl e, s) \<Rightarrow> (Inl e, s)
     | (Inr (locked, global), s) \<Rightarrow>
        (case (case validate of None \<Rightarrow> None | Some v \<Rightarrow> v global (ts_Params x)) of
           Some e \<Rightarrow> (Inl e, s)
         | None \<Rightarrow>
            (case ExecR (sql_upsert_template_strategy x (db_now s)) s of
               (Inl e, s) \<Rightarrow> (Inl (Wrap (''upsert template strategy '' @ ts_HashName x @ '': '') e), s)
             | (Inr i, s) \<Rightarrow> (Inr (True, i), s))))"

definition UpsertTemplateStrategyChecked ::
    "TemplateStrategy \<Rightarrow> (json \<Rightarrow> json \<Rightarrow> goerr option) option \<Rightarrow> session \<Rightarrow> (goerr + int) \<times> session" where
  "UpsertTemplateStrategyChecked x validate = Tx id (upsert_body x validate)"

definition UpsertTemplateStrategy :: "TemplateStrategy \<Rightarrow> session \<Rightarrow> (goerr + int) \<times> session" where
  "UpsertTemplateStrategy x = UpsertTemplateStrategyChecked x None"

definition is_template_id :: "int \<Rightarrow> strategy_row \<Rightarrow> bool" where
  "is_template_id i r \<longleftrightarrow> S_id r = i \<and> S_scope r = ''template''"

definition delete_body :: "int \<Rightarrow> session \<Rightarrow> (goerr + bool \<times> unit) \<times> session" where
  "delete_body i s =
    (case lockGlobalStrategy s of
       (Inl e, s) \<Rightarrow> (Inl e, s)
     | (Inr _, s) \<Rightarrow>
        (case ExecR (\<lambda>t. (length (filter (is_template_id i) (strategies t)),
                          t\<lparr>strategies := filter (\<lambda>r. \<not> is_template_id i r) (strategies t)\<rparr>)) s of
           (Inl e, s) \<Rightarrow> (Inl (Wrap (''delete template strategy '' @ dec_int i @ '': '') e), s)
         | (Inr n, s) \<Rightarrow> if n = 0 then (Inl not_found, s) else (Inr (True, ()), s)))"

definition DeleteTemplateStrategy :: "int \<Rightarrow> session \<Rightarrow> (goerr + unit) \<times> session" where
  "DeleteTemplateStrategy i = Tx id (delete_body i)"

end
