(* ===== verification/Scheduler.thy ===== *)
theory Scheduler
  imports Domain
begin

text \<open>
  The job scheduler, \<open>internal/scheduler/scheduler.go\<close>: registration, the next run of a job, and the concurrent
  machine of ticks, manual triggers, finishing jobs and the stop, each critical section of the mutex being
  one step. The random jitter, the clock and what a job returns are arguments of the steps; the local zone is
  one with a fixed offset from UTC.
\<close>

section \<open>Jobs\<close>

datatype JobKind = KindInterval | KindDaily

record Job =
  j_Name :: string
  j_Kind :: JobKind
  Every :: duration
  At :: string
  Jitter :: duration
  HasFn :: bool

record entry =
  e_job :: Job
  e_next :: instant
  e_last :: "instant option"
  lastOK :: bool
  lastErr :: string
  running :: bool
  failStreak :: nat

record Status =
  st_Name :: string
  NextRun :: instant
  LastRun :: "instant option"
  st_LastOK :: bool
  LastError :: string
  Running :: bool

section \<open>Scanning HH:MM\<close>

definition is_blank :: "char \<Rightarrow> bool" where
  "is_blank c \<longleftrightarrow> c = CHR '' '' \<or> (of_char c :: int) = 9 \<or> (of_char c :: int) = 13"

text \<open>\<open>%d\<close>: blanks, an optional sign, digits.\<close>

definition scan_d :: "string \<Rightarrow> (int \<times> string) option" where
  "scan_d s =
    (let s = dropWhile is_blank s;
         neg = (s \<noteq> [] \<and> hd s = CHR ''-'');
         s = (if s \<noteq> [] \<and> (hd s = CHR ''-'' \<or> hd s = CHR ''+'') then tl s else s);
         ds = takeWhile is_digit s; rest = dropWhile is_digit s
     in if ds = [] \<or> (rest \<noteq> [] \<and> hd rest = CHR ''_'') then None
        else Some (if neg then - digits_value ds else digits_value ds, rest))"

definition scan_hm :: "string \<Rightarrow> (int \<times> int) option" where
  "scan_hm s = (case scan_d s of None \<Rightarrow> None
     | Some (h, rest) \<Rightarrow> if rest = [] \<or> hd rest \<noteq> CHR '':'' then None
         else (case scan_d (tl rest) of None \<Rightarrow> None | Some (m, _) \<Rightarrow> Some (h, m)))"

definition Day :: duration where "Day = 24 * Hour"

text \<open>The next run: \<open>r\<close> is the random number below the jitter, \<open>off\<close> the offset of the local zone.\<close>

definition initialNext :: "duration \<Rightarrow> int \<Rightarrow> Job \<Rightarrow> instant \<Rightarrow> instant" where
  "initialNext off r j now =
    (if j_Kind j = KindInterval then now + Every j + (if 0 < Jitter j then r else 0)
     else let (h, m) = (case scan_hm (At j) of None \<Rightarrow> (0, 0) | Some hm \<Rightarrow> hm);
              n = (now + off) div Day * Day + h * Hour + m * Minute - off
          in if \<not> now < n then n + Day else n)"

definition register_error :: "Job \<Rightarrow> goerr option" where
  "register_error j =
    (if \<not> HasFn j \<or> j_Name j = '''' then Some (Errorf ''scheduler: job needs name and fn'')
     else if j_Kind j = KindDaily then
       if length (At j) \<noteq> 5 \<or> At j ! 2 \<noteq> CHR '':'' then Some (Errorf (''scheduler: daily job '' @ j_Name j @ '' needs At HH:MM''))
       else (case scan_hm (At j) of
           None \<Rightarrow> Some (Errorf (''scheduler: daily job '' @ j_Name j @ '' has invalid At '' @ CHR 0x22 # At j @ [CHR 0x22]))
         | Some (h, m) \<Rightarrow> if h < 0 \<or> 23 < h \<or> m < 0 \<or> 59 < m
             then Some (Errorf (''scheduler: daily job '' @ j_Name j @ '' has invalid At '' @ CHR 0x22 # At j @ [CHR 0x22])) else None)
     else None)"

section \<open>The scheduler's state\<close>

text \<open>
  An execution is a goroutine (or a panel request) between the critical sections of its run. A scheduled one is
  \<open>Calling\<close> its function until it records the outcome and frees the job, then \<open>Recorded\<close> until it leaves the wait group.
  A triggered one records first, then leaves the wait group (\<open>Counted\<close> down), and frees the job last.
\<close>

datatype phase = Calling | Recorded | Counted

datatype origin = Scheduled instant | Triggered

record execution =
  x_job :: string
  x_origin :: origin
  x_phase :: phase

record scheduler =
  jobs :: "string \<Rightarrow> entry option"
  order :: "string list"
  stopped :: bool
  inflight :: int
  executions :: "execution list"

definition New :: scheduler where
  "New = \<lparr>jobs = (\<lambda>_. None), order = [], stopped = False, inflight = 0, executions = []\<rparr>"

definition Register :: "duration \<Rightarrow> int \<Rightarrow> instant \<Rightarrow> Job \<Rightarrow> scheduler \<Rightarrow> goerr option \<times> scheduler" where
  "Register off r now j s =
    (case register_error j of
       Some e \<Rightarrow> (Some e, s)
     | None \<Rightarrow>
        if jobs s (j_Name j) \<noteq> None then (Some (Errorf (''scheduler: duplicate job '' @ j_Name j)), s)
        else (None, s\<lparr>jobs := (jobs s)(j_Name j \<mapsto>
               \<lparr>e_job = j, e_next = initialNext off r j now, e_last = None, lastOK = False, lastErr = '''', running = False, failStreak = 0\<rparr>),
                      order := order s @ [j_Name j]\<rparr>))"

section \<open>Running jobs\<close>

definition is_due :: "instant \<Rightarrow> entry \<Rightarrow> bool" where
  "is_due now e \<longleftrightarrow> \<not> running e \<and> \<not> now < e_next e"

definition start_job :: "origin \<Rightarrow> string \<Rightarrow> scheduler \<Rightarrow> scheduler" where
  "start_job o' n s = (case jobs s n of None \<Rightarrow> s
     | Some e \<Rightarrow> s\<lparr>jobs := (jobs s)(n \<mapsto> e\<lparr>running := True\<rparr>), inflight := inflight s + 1,
                   executions := executions s @ [\<lparr>x_job = n, x_origin = o', x_phase = Calling\<rparr>]\<rparr>)"

definition start_if_due :: "instant \<Rightarrow> scheduler \<Rightarrow> string \<Rightarrow> scheduler" where
  "start_if_due now s n = (case jobs s n of None \<Rightarrow> s | Some e \<Rightarrow> if is_due now e then start_job (Scheduled now) n s else s)"

text \<open>The critical section of \<open>runDue\<close>.\<close>

definition runDue :: "instant \<Rightarrow> scheduler \<Rightarrow> scheduler" where
  "runDue now s = (if stopped s then s else foldl (start_if_due now) s (order s))"

definition record_outcome :: "duration \<Rightarrow> int \<Rightarrow> instant \<Rightarrow> instant \<Rightarrow> goerr option \<Rightarrow> entry \<Rightarrow> entry" where
  "record_outcome off r last_at now err e =
    e\<lparr>e_last := Some last_at, lastOK := (err = None),
      lastErr := (case err of None \<Rightarrow> '''' | Some x \<Rightarrow> Error x),
      failStreak := (case err of None \<Rightarrow> 0 | Some _ \<Rightarrow> failStreak e + 1),
      e_next := initialNext off r (e_job e) now\<rparr>"

definition update_job :: "string \<Rightarrow> (entry \<Rightarrow> entry) \<Rightarrow> scheduler \<Rightarrow> scheduler" where
  "update_job n f s = (case jobs s n of None \<Rightarrow> s | Some e \<Rightarrow> s\<lparr>jobs := (jobs s)(n \<mapsto> f e)\<rparr>)"

definition set_phase :: "nat \<Rightarrow> phase \<Rightarrow> scheduler \<Rightarrow> scheduler" where
  "set_phase i p s = s\<lparr>executions := (executions s)[i := (executions s ! i)\<lparr>x_phase := p\<rparr>]\<rparr>"

definition drop_execution :: "nat \<Rightarrow> scheduler \<Rightarrow> scheduler" where
  "drop_execution i s = s\<lparr>executions := take i (executions s) @ drop (Suc i) (executions s)\<rparr>"

text \<open>A panic inside a job's function is one of its errors (\<open>safeCall\<close>).\<close>

datatype outcome = Returned "goerr option" | Panicked string

definition safeCall :: "outcome \<Rightarrow> goerr option" where
  "safeCall r = (case r of Returned err \<Rightarrow> err | Panicked msg \<Rightarrow> Some (Errorf (''panic: '' @ msg)))"

definition finish :: "duration \<Rightarrow> int \<Rightarrow> nat \<Rightarrow> instant \<Rightarrow> outcome \<Rightarrow> scheduler \<Rightarrow> scheduler" where
  "finish off r i now res s =
    (let x = executions s ! i; err = safeCall res in
     case x_origin x of
       Scheduled tick \<Rightarrow> set_phase i Recorded (update_job (x_job x) (\<lambda>e. (record_outcome off r tick now err e)\<lparr>running := False\<rparr>) s)
     | Triggered \<Rightarrow> set_phase i Recorded (update_job (x_job x) (record_outcome off r now now err) s))"

definition wait_group_done :: "nat \<Rightarrow> scheduler \<Rightarrow> scheduler" where
  "wait_group_done i s =
    (let s' = s\<lparr>inflight := inflight s - 1\<rparr>
     in case x_origin (executions s ! i) of Scheduled _ \<Rightarrow> drop_execution i s' | Triggered \<Rightarrow> set_phase i Counted s')"

definition free_job :: "nat \<Rightarrow> scheduler \<Rightarrow> scheduler" where
  "free_job i s = drop_execution i (update_job (x_job (executions s ! i)) (\<lambda>e. e\<lparr>running := False\<rparr>) s)"

definition Trigger :: "string \<Rightarrow> scheduler \<Rightarrow> goerr option \<times> scheduler" where
  "Trigger n s =
    (if stopped s then (Some (Errorf ''scheduler: stopped''), s)
     else case jobs s n of
         None \<Rightarrow> (Some (Errorf (''scheduler: unknown job '' @ CHR 0x22 # n @ [CHR 0x22])), s)
       | Some e \<Rightarrow> if running e then (Some (Errorf ''scheduler: job already running''), s) else (None, start_job Triggered n s))"

definition Stop :: "scheduler \<Rightarrow> scheduler" where
  "Stop s = s\<lparr>stopped := True\<rparr>"

definition StatusList :: "scheduler \<Rightarrow> Status list" where
  "StatusList s = map (\<lambda>n. case jobs s n of
      Some e \<Rightarrow> \<lparr>st_Name = n, NextRun = e_next e, LastRun = e_last e, st_LastOK = lastOK e, LastError = lastErr e, Running = running e\<rparr>
    | None \<Rightarrow> \<lparr>st_Name = n, NextRun = 0, LastRun = None, st_LastOK = False, LastError = '''', Running = False\<rparr>) (order s)"

text \<open>The machine: any critical section may come next.\<close>

inductive sched_step :: "duration \<Rightarrow> scheduler \<Rightarrow> scheduler \<Rightarrow> bool" for off where
  registers: "Register off r now j s = (err, s') \<Longrightarrow> sched_step off s s'"
| ticks: "sched_step off s (runDue now s)"
| triggers: "Trigger n s = (err, s') \<Longrightarrow> sched_step off s s'"
| finishes: "i < length (executions s) \<Longrightarrow> x_phase (executions s ! i) = Calling \<Longrightarrow> sched_step off s (finish off r i now res s)"
| leaves: "i < length (executions s) \<Longrightarrow> x_phase (executions s ! i) = Recorded \<Longrightarrow> sched_step off s (wait_group_done i s)"
| frees: "i < length (executions s) \<Longrightarrow> x_phase (executions s ! i) = Counted \<Longrightarrow> sched_step off s (free_job i s)"
| stops: "sched_step off s (Stop s)"

inductive_cases sched_stepE: "sched_step off s s'"

end
