(* ===== verification/SchedulerProps.thy ===== *)
theory SchedulerProps
  imports Scheduler
begin

text \<open>
  The scheduler machine: its invariant (the wait group counts the executions that have not left it, a job's running
  flag is set exactly while one execution owns the job), and what follows: no job runs twice at the same time, and
  nothing runs any more once a stop has seen the wait group empty. Then the bounds of the next run.
\<close>

section \<open>Counting executions\<close>

definition count :: "('a \<Rightarrow> bool) \<Rightarrow> 'a list \<Rightarrow> int" where
  "count P xs = int (length (filter P xs))"

lemma count_simps [simp]: "count P [] = 0" "count P (x # xs) = (if P x then 1 else 0) + count P xs"
  by (simp_all add: count_def)

lemma count_append: "count P (xs @ ys) = count P xs + count P ys"
  by (simp add: count_def)

lemma count_nonneg [simp]: "0 \<le> count P xs"
  by (simp add: count_def)

lemma count_split:
  assumes "i < length xs"
  shows "count P xs = count P (take i xs) + (if P (xs ! i) then 1 else 0) + count P (drop (Suc i) xs)"
  using arg_cong[OF id_take_nth_drop[OF assms], of "count P"] by (simp add: count_append)

lemma count_update:
  assumes "i < length xs"
  shows "count P (xs[i := y]) = count P xs - (if P (xs ! i) then 1 else 0) + (if P y then 1 else 0)"
  using count_split[OF assms, of P] by (simp add: upd_conv_take_nth_drop[OF assms] count_append)

lemma count_drop:
  assumes "i < length xs"
  shows "count P (take i xs @ drop (Suc i) xs) = count P xs - (if P (xs ! i) then 1 else 0)"
  using count_split[OF assms, of P] by (simp add: count_append)

lemma count_mono: "(\<And>x. P x \<Longrightarrow> Q x) \<Longrightarrow> count P xs \<le> count Q xs"
  by (induction xs) auto

lemma count_0: "count P xs = 0 \<longleftrightarrow> (\<forall>x \<in> set xs. \<not> P x)"
  by (auto simp: count_def filter_empty_conv)

section \<open>The invariant\<close>

definition waiting :: "execution \<Rightarrow> bool" where
  "waiting x \<longleftrightarrow> x_phase x \<noteq> Counted"

definition owns :: "string \<Rightarrow> execution \<Rightarrow> bool" where
  "owns n x \<longleftrightarrow> x_job x = n \<and> (x_phase x \<noteq> Recorded \<or> x_origin x = Triggered)"

definition calling :: "string \<Rightarrow> execution \<Rightarrow> bool" where
  "calling n x \<longleftrightarrow> x_job x = n \<and> x_phase x = Calling"

definition run_bit :: "(string \<Rightarrow> entry option) \<Rightarrow> string \<Rightarrow> int" where
  "run_bit m n = (case m n of None \<Rightarrow> 0 | Some e \<Rightarrow> if running e then 1 else 0)"

lemma run_bit_upd [simp]: "run_bit (m(k := Some e)) n = (if n = k then if running e then 1 else 0 else run_bit m n)"
  by (simp add: run_bit_def)

lemma run_bit_range: "run_bit m n = 0 \<or> run_bit m n = 1"
  by (simp add: run_bit_def split: option.splits)

definition sched_inv :: "scheduler \<Rightarrow> bool" where
  "sched_inv s \<longleftrightarrow> inflight s = count waiting (executions s)
     \<and> (\<forall>n. count (owns n) (executions s) = run_bit (jobs s) n)
     \<and> distinct (order s) \<and> (\<forall>n. n \<in> set (order s) \<longleftrightarrow> jobs s n \<noteq> None)"

lemma sched_inv_New: "sched_inv New"
  by (simp add: sched_inv_def New_def run_bit_def)

lemma run_bit_0: "m n = Some e \<Longrightarrow> \<not> running e \<Longrightarrow> run_bit m n = 0"
  by (simp add: run_bit_def)

lemma start_job_inv:
  assumes "sched_inv s" "jobs s n = Some e" "\<not> running e"
  shows "sched_inv (start_job o' n s)"
  using assms(1,2) run_bit_0[of "jobs s", OF assms(2,3)] by (auto simp: sched_inv_def start_job_def waiting_def owns_def count_append)

lemma start_if_due_inv: "sched_inv s \<Longrightarrow> sched_inv (start_if_due now s n)"
  by (auto simp: start_if_due_def is_due_def start_job_inv split: option.splits)

lemma runDue_inv: "sched_inv s \<Longrightarrow> sched_inv (runDue now s)"
  unfolding runDue_def by (cases "stopped s") (simp_all add: foldl_inv[where P = sched_inv] start_if_due_inv)

lemma owner_running:
  assumes "sched_inv s" "i < length (executions s)" "x_phase (executions s ! i) \<noteq> Recorded"
  shows "\<exists>e. jobs s (x_job (executions s ! i)) = Some e \<and> running e"
proof -
  let ?x = "executions s ! i"
  have "count (owns (x_job ?x)) (executions s) \<ge> 1"
    using count_split[OF assms(2), of "owns (x_job ?x)"] assms(3)
      count_nonneg[of "owns (x_job ?x)" "take i (executions s)"] count_nonneg[of "owns (x_job ?x)" "drop (Suc i) (executions s)"]
    by (simp add: owns_def)
  then show ?thesis using assms(1) unfolding sched_inv_def run_bit_def by (fastforce split: option.splits if_splits)
qed

lemma sched_step_inv:
  assumes "sched_step off s s'" "sched_inv s"
  shows "sched_inv s'"
  using assms(1)
proof (cases rule: sched_step.cases)
  case (registers r now j err)
  show ?thesis
  proof (cases "register_error j = None \<and> jobs s (j_Name j) = None")
    case True
    then have n: "run_bit (jobs s) (j_Name j) = 0" by (simp add: run_bit_def)
    show ?thesis using registers assms(2) True n by (auto simp: Register_def sched_inv_def split: if_splits)
  next
    case False
    then have "s' = s" using registers by (auto simp: Register_def split: option.splits)
    then show ?thesis using assms(2) by simp
  qed
next
  case (ticks now)
  then show ?thesis using runDue_inv assms(2) by simp
next
  case (triggers n err)
  then show ?thesis using start_job_inv[OF assms(2)] assms(2) by (auto simp: Trigger_def split: option.splits if_splits)
next
  case (finishes i r now res)
  let ?x = "executions s ! i"
  obtain e where e: "jobs s (x_job ?x) = Some e" "running e"
    using owner_running[OF assms(2) finishes(2)] finishes(3) by auto
  have rb: "run_bit (jobs s) (x_job ?x) = 1" using e by (simp add: run_bit_def)
  show ?thesis
  proof (cases "x_origin ?x")
    case (Scheduled tick)
    then show ?thesis using finishes(2,3) assms(2) e rb unfolding finishes(1)
      by (auto simp: finish_def Let_def set_phase_def update_job_def sched_inv_def count_update waiting_def owns_def record_outcome_def)
  next
    case Triggered
    then show ?thesis using finishes(2,3) assms(2) e rb unfolding finishes(1)
      by (auto simp: finish_def Let_def set_phase_def update_job_def sched_inv_def count_update waiting_def owns_def record_outcome_def)
  qed
next
  case (leaves i)
  then show ?thesis using assms(2) unfolding leaves(1)
    by (auto simp: wait_group_done_def Let_def set_phase_def drop_execution_def sched_inv_def count_update count_drop waiting_def owns_def
        split: origin.splits)
next
  case (frees i)
  let ?x = "executions s ! i"
  obtain e where e: "jobs s (x_job ?x) = Some e" "running e"
    using owner_running[OF assms(2) frees(2)] frees(3) by auto
  then have rb: "run_bit (jobs s) (x_job ?x) = 1" by (simp add: run_bit_def)
  show ?thesis using assms(2) frees(2,3) e rb unfolding frees(1)
    by (auto simp: free_job_def update_job_def drop_execution_def sched_inv_def count_drop waiting_def owns_def)
next
  case stops
  then show ?thesis using assms(2) by (simp add: Stop_def sched_inv_def)
qed

lemma reachable_inv: "(sched_step off)\<^sup>*\<^sup>* New s \<Longrightarrow> sched_inv s"
  by (induction rule: rtranclp_induct) (auto intro: sched_inv_New sched_step_inv)

text \<open>C10: In every reachable state of the scheduler, whatever the interleaving of ticks, panel triggers, finishing jobs and
  stops, at most one execution of a job is running its function, and while one is, a trigger of that job is refused.\<close>

theorem one_execution_per_job:
  assumes "(sched_step off)\<^sup>*\<^sup>* New s"
  shows "count (calling n) (executions s) \<le> 1
    \<and> (count (calling n) (executions s) = 1 \<longrightarrow> fst (Trigger n s) \<noteq> None \<and> snd (Trigger n s) = s)"
proof -
  have I: "sched_inv s" by (rule reachable_inv[OF assms])
  have le: "count (calling n) (executions s) \<le> count (owns n) (executions s)"
    by (rule count_mono) (simp add: calling_def owns_def)
  have o': "count (owns n) (executions s) = run_bit (jobs s) n" using I by (simp add: sched_inv_def)
  have "fst (Trigger n s) \<noteq> None \<and> snd (Trigger n s) = s" if "run_bit (jobs s) n = 1"
    using that by (auto simp: Trigger_def run_bit_def split: option.splits if_splits)
  then show ?thesis using le o' run_bit_range[of "jobs s" n] by auto
qed

section \<open>Stopping\<close>

definition quiet :: "scheduler \<Rightarrow> bool" where
  "quiet s \<longleftrightarrow> stopped s \<and> (\<forall>x \<in> set (executions s). x_phase x = Counted)"

lemma runDue_stopped: "stopped s \<Longrightarrow> runDue now s = s"
  by (simp add: runDue_def)

lemma quiet_step:
  assumes "sched_step off s s'" "quiet s"
  shows "quiet s'"
proof -
  have all: "x_phase (executions s ! i) = Counted" if "i < length (executions s)" for i
    using assms(2) that by (simp add: quiet_def)
  show ?thesis using assms(1)
  proof (cases rule: sched_step.cases)
    case (registers r now j err)
    then show ?thesis using assms(2) by (auto simp: Register_def quiet_def split: option.splits if_splits)
  next
    case (ticks now)
    then show ?thesis using assms(2) by (simp add: quiet_def runDue_stopped)
  next
    case (triggers n err)
    then show ?thesis using assms(2) by (auto simp: Trigger_def quiet_def)
  next
    case (finishes i r now res)
    then show ?thesis using all by simp
  next
    case (leaves i)
    then show ?thesis using all by simp
  next
    case (frees i)
    then show ?thesis using assms(2) unfolding frees(1)
      by (auto simp: quiet_def free_job_def drop_execution_def update_job_def dest: in_set_takeD in_set_dropD split: option.splits)
  next
    case stops
    then show ?thesis using assms(2) by (simp add: quiet_def Stop_def)
  qed
qed

text \<open>C11: Once the scheduler is stopped and its wait group is seen empty, no job function is running, and none ever runs
  again, whatever happens next: a platform write cut in the middle of a shutdown is impossible.\<close>

theorem stop_waits_for_jobs:
  assumes "(sched_step off)\<^sup>*\<^sup>* New s" "stopped s" "inflight s = 0" "(sched_step off)\<^sup>*\<^sup>* s s'"
  shows "count (calling n) (executions s') = 0 \<and> stopped s'"
proof -
  have "count waiting (executions s) = 0" using reachable_inv[OF assms(1)] assms(3) by (simp add: sched_inv_def)
  then have "quiet s" using assms(2) by (auto simp: quiet_def count_0 waiting_def)
  with assms(4) have "quiet s'" by (induction rule: rtranclp_induct) (auto intro: quiet_step)
  then show ?thesis by (auto simp: quiet_def count_0 calling_def)
qed

lemma start_if_due_other: "n \<noteq> m \<Longrightarrow> jobs (start_if_due now s m) n = jobs s n"
  by (auto simp: start_if_due_def start_job_def split: option.splits)

lemma start_all:
  "distinct ns \<Longrightarrow> jobs (foldl (start_if_due now) s ns) n =
    (if n \<in> set ns then (case jobs s n of None \<Rightarrow> None | Some e \<Rightarrow> Some (if is_due now e then e\<lparr>running := True\<rparr> else e)) else jobs s n)"
proof (induction ns arbitrary: s)
  case (Cons m ns)
  show ?case
  proof (cases "n = m")
    case True
    then show ?thesis using Cons by (auto simp: start_if_due_def start_job_def split: option.splits)
  next
    case False
    then show ?thesis using Cons start_if_due_other[OF False] by simp
  qed
qed simp

text \<open>A tick of a scheduler that is not stopped starts every registered job that is due and not running, and leaves the
  others as they are.\<close>

theorem tick_starts_due_jobs:
  assumes "(sched_step off)\<^sup>*\<^sup>* New s" "\<not> stopped s" "jobs s n = Some e"
  shows "jobs (runDue now s) n = Some (if \<not> running e \<and> e_next e \<le> now then e\<lparr>running := True\<rparr> else e)"
proof -
  have "sched_inv s" by (rule reachable_inv[OF assms(1)])
  then have "distinct (order s)" "n \<in> set (order s)" using assms(3) by (auto simp: sched_inv_def)
  then show ?thesis using assms(2,3) start_all[of "order s" now s n] by (simp add: runDue_def is_due_def not_less)
qed

section \<open>The next run\<close>

lemma Day_pos: "0 < Day" "Day = 86400000000000" "Hour = 3600000000000" "Minute = 60000000000"
  by (simp_all add: Day_def time_defs)

text \<open>The next run of an interval job lies between one interval and one interval plus its jitter ahead; that of a
  daily job is the first instant after now with the job's local time of day, at most a day ahead.\<close>

theorem next_run_bounds:
  assumes "register_error j = None" "0 \<le> r" "0 < Jitter j \<longrightarrow> r < Jitter j"
  shows "if j_Kind j = KindInterval
    then now + Every j \<le> initialNext off r j now \<and> initialNext off r j now \<le> now + Every j + max 0 (Jitter j)
    else now < initialNext off r j now \<and> initialNext off r j now \<le> now + Day
      \<and> (\<exists>h m. scan_hm (At j) = Some (h, m) \<and> (initialNext off r j now + off) mod Day = h * Hour + m * Minute)"
proof (cases "j_Kind j = KindInterval")
  case True
  then show ?thesis using assms(2,3) by (auto simp: initialNext_def)
next
  case False
  then have k: "j_Kind j = KindDaily" by (cases "j_Kind j") auto
  obtain h m where hm: "scan_hm (At j) = Some (h, m)" "0 \<le> h" "h \<le> 23" "0 \<le> m" "m \<le> 59"
    using assms(1) k by (auto simp: register_error_def split: if_splits option.splits)
  define q where "q = (now + off) div Day"
  define t where "t = h * Hour + m * Minute"
  have t: "0 \<le> t" "t < Day" using hm by (simp_all add: t_def Day_pos)
  have d: "q * Day \<le> now + off" "now + off < q * Day + Day"
    using pos_mod_sign[of Day "now + off"] pos_mod_bound[of Day "now + off"] Day_pos(1) div_mult_mod_eq[of "now + off" Day]
    unfolding q_def by linarith+
  have n: "initialNext off r j now = (if \<not> now < q * Day + t - off then q * Day + t - off + Day else q * Day + t - off)"
    using False by (simp add: initialNext_def hm(1) Let_def q_def t_def add.assoc)
  have "(initialNext off r j now + off) mod Day = t"
    unfolding n using t by (auto simp: mod_mult_self1 algebra_simps)
  moreover have "now < initialNext off r j now \<and> initialNext off r j now \<le> now + Day"
    unfolding n using t d by auto
  ultimately show ?thesis using False hm(1) t_def by simp
qed

section \<open>A scheduler with one job\<close>

definition poll_job :: Job where
  "poll_job = \<lparr>j_Name = ''poll'', j_Kind = KindInterval, Every = 10 * Minute, At = '''', Jitter = Minute, HasFn = True\<rparr>"

definition daily_job :: Job where
  "daily_job = \<lparr>j_Name = ''reprice'', j_Kind = KindDaily, Every = 0, At = ''09:30'', Jitter = 0, HasFn = True\<rparr>"

definition polled :: scheduler where
  "polled = snd (Register 0 5 0 poll_job New)"

lemmas toy_scheduler = polled_def Register_def register_error_def poll_job_def daily_job_def New_def initialNext_def time_defs

lemma polled_reachable: "(sched_step 0)\<^sup>*\<^sup>* New polled"
  unfolding polled_def by (rule r_into_rtranclp, rule sched_step.registers, rule prod.collapse[symmetric])

lemma poll_calls: "(sched_step 0)\<^sup>*\<^sup>* New (runDue (11 * Minute) polled)"
  by (rule rtranclp.rtrancl_into_rtrancl[OF polled_reachable]) (rule sched_step.ticks)

lemma polled_stopped: "(sched_step 0)\<^sup>*\<^sup>* New (Stop polled)"
  by (rule rtranclp.rtrancl_into_rtrancl[OF polled_reachable]) (rule sched_step.stops)

theorem one_execution_per_job_witness:
  "count (calling ''poll'') (executions (runDue (11 * Minute) polled)) = 1
    \<and> fst (Trigger ''poll'' (runDue (11 * Minute) polled)) \<noteq> None"
proof -
  have 1: "count (calling ''poll'') (executions (runDue (11 * Minute) polled)) = 1"
    by (simp add: toy_scheduler runDue_def start_if_due_def start_job_def is_due_def calling_def)
  with one_execution_per_job[OF poll_calls, of "''poll''"] show ?thesis by simp
qed

theorem stop_waits_for_jobs_witness:
  "count (calling ''poll'') (executions (runDue (11 * Minute) (Stop polled))) = 0"
proof -
  have "stopped (Stop polled)" "inflight (Stop polled) = 0" by (simp_all add: toy_scheduler Stop_def)
  then show ?thesis
    using stop_waits_for_jobs[OF polled_stopped, of "runDue (11 * Minute) (Stop polled)" "''poll''"]
    by (simp add: sched_step.ticks r_into_rtranclp)
qed

theorem tick_starts_due_jobs_witness:
  "(\<exists>e. jobs (runDue (11 * Minute) polled) ''poll'' = Some e \<and> running e)"
proof -
  obtain e :: entry where e: "jobs polled ''poll'' = Some e" "\<not> running e" "e_next e \<le> 11 * Minute"
    by (simp add: toy_scheduler)
  have "\<not> stopped polled" by (simp add: toy_scheduler)
  with tick_starts_due_jobs[OF polled_reachable _ e(1), of "11 * Minute"] e show ?thesis by simp
qed

theorem next_run_bounds_witness:
  "initialNext (8 * Hour) 0 daily_job 0 \<le> Day \<and> (initialNext (8 * Hour) 0 daily_job 0 + 8 * Hour) mod Day = 9 * Hour + 30 * Minute"
proof -
  have hm: "scan_hm (At daily_job) = Some (9, 30)"
    by (simp add: daily_job_def scan_hm_def scan_d_def is_digit_def is_blank_def digits_value_def)
  then have "register_error daily_job = None" by (simp add: register_error_def) (simp add: daily_job_def)
  with next_run_bounds[of daily_job 0 0 "8 * Hour"] hm show ?thesis by (simp add: daily_job_def)
qed

end
