(* ===== verification/Throttle.thy ===== *)
theory Throttle
  imports Domain "HOL-Library.AList"
begin

text \<open>
  The fixed-window throttles of \<open>internal/api/handlers_auth.go\<close>: the login limiter, the write buckets and the SMS
  throttle. A Go map of slots is an association list with one entry per key, so that its length is \<open>len\<close>; the
  mutex makes every operation one step, and \<open>now\<close> is the clock it reads.
\<close>

section \<open>Slots\<close>

record failSlot =
  fs_count :: int
  fs_start :: instant

type_synonym slots = "(string \<times> failSlot) list"

definition loginFailWindow :: duration where
  "loginFailWindow = 10 * Minute"

definition stale_slot :: "duration \<Rightarrow> instant \<Rightarrow> failSlot \<Rightarrow> bool" where
  "stale_slot W now s \<longleftrightarrow> W < time_Sub now (fs_start s)"

definition slot :: "duration \<Rightarrow> slots \<Rightarrow> string \<Rightarrow> instant \<Rightarrow> failSlot \<times> slots" where
  "slot W m k now =
    (case map_of m k of
       Some s \<Rightarrow> if stale_slot W now s then (\<lparr>fs_count = 0, fs_start = now\<rparr>, AList.update k \<lparr>fs_count = 0, fs_start = now\<rparr> m) else (s, m)
     | None \<Rightarrow> (\<lparr>fs_count = 0, fs_start = now\<rparr>, AList.update k \<lparr>fs_count = 0, fs_start = now\<rparr> m))"

definition bump_slot :: "duration \<Rightarrow> slots \<Rightarrow> string \<Rightarrow> instant \<Rightarrow> slots" where
  "bump_slot W m k now = (case slot W m k now of (s, m) \<Rightarrow> AList.update k (s\<lparr>fs_count := fs_count s + 1\<rparr>) m)"

definition sweep :: "nat \<Rightarrow> duration \<Rightarrow> instant \<Rightarrow> slots \<Rightarrow> slots" where
  "sweep n W now m = (if length m < n then m else filter (\<lambda>(k, s). \<not> stale_slot W now s) m)"

section \<open>The login limiter\<close>

record loginLimiter =
  fails :: slots
  ipFails :: slots

definition newLoginLimiter :: loginLimiter where
  "newLoginLimiter = \<lparr>fails = [], ipFails = []\<rparr>"

definition sweepLocked :: "instant \<Rightarrow> loginLimiter \<Rightarrow> loginLimiter" where
  "sweepLocked now l = \<lparr>fails = sweep 1024 loginFailWindow now (fails l), ipFails = sweep 1024 loginFailWindow now (ipFails l)\<rparr>"

text \<open>The slot of the address is created only when the first test passes.\<close>

definition login_allow :: "string \<Rightarrow> string \<Rightarrow> instant \<Rightarrow> loginLimiter \<Rightarrow> bool \<times> loginLimiter" where
  "login_allow key ip now l =
    (let l = sweepLocked now l; (s, m) = slot loginFailWindow (fails l) key now; l = l\<lparr>fails := m\<rparr>
     in if \<not> fs_count s < 5 then (False, l)
        else let (si, mi) = slot loginFailWindow (ipFails l) ip now in (fs_count si < 30, l\<lparr>ipFails := mi\<rparr>))"

definition login_fail :: "string \<Rightarrow> string \<Rightarrow> instant \<Rightarrow> loginLimiter \<Rightarrow> loginLimiter" where
  "login_fail key ip now l =
    \<lparr>fails = bump_slot loginFailWindow (fails l) key now, ipFails = bump_slot loginFailWindow (ipFails l) ip now\<rparr>"

definition login_reset :: "string \<Rightarrow> string \<Rightarrow> loginLimiter \<Rightarrow> loginLimiter" where
  "login_reset key ip l = \<lparr>fails = AList.delete key (fails l), ipFails = AList.delete ip (ipFails l)\<rparr>"

section \<open>Budgets\<close>

record writeBucket =
  wb_slots :: slots
  wb_max :: int
  wb_window :: duration

definition newWriteBucket :: "int \<Rightarrow> duration \<Rightarrow> writeBucket" where
  "newWriteBucket limit window = \<lparr>wb_slots = [], wb_max = limit, wb_window = window\<rparr>"

text \<open>Both throttles end alike: the slot of the address, refused when full, counted otherwise.\<close>

definition admit :: "int \<Rightarrow> duration \<Rightarrow> slots \<Rightarrow> string \<Rightarrow> instant \<Rightarrow> bool \<times> slots" where
  "admit limit W m ip now = (case slot W m ip now of (s, m) \<Rightarrow>
      if limit \<le> fs_count s then (False, m) else (True, AList.update ip (s\<lparr>fs_count := fs_count s + 1\<rparr>) m))"

definition bucket_allow :: "string \<Rightarrow> instant \<Rightarrow> writeBucket \<Rightarrow> bool \<times> writeBucket" where
  "bucket_allow ip now b =
    (let m = sweep 4096 (wb_window b) now (wb_slots b); (ok, m) = admit (wb_max b) (wb_window b) m ip now
     in (ok, b\<lparr>wb_slots := m\<rparr>))"

definition bucket_reset :: "writeBucket \<Rightarrow> writeBucket" where
  "bucket_reset b = b\<lparr>wb_slots := []\<rparr>"

definition jobRunBucket0 :: writeBucket where
  "jobRunBucket0 = newWriteBucket 30 (10 * Minute)"

definition channelWriteBucket0 :: writeBucket where
  "channelWriteBucket0 = newWriteBucket 30 (10 * Minute)"

definition smsAllow :: "string \<Rightarrow> instant \<Rightarrow> slots \<Rightarrow> bool \<times> slots" where
  "smsAllow ip now m = admit 10 loginFailWindow m ip now"

section \<open>Looking up slots\<close>

text \<open>What a map means at an instant: the slots that are not stale.\<close>

definition live :: "duration \<Rightarrow> instant \<Rightarrow> slots \<Rightarrow> string \<Rightarrow> failSlot option" where
  "live W now m k = (case map_of m k of None \<Rightarrow> None | Some s \<Rightarrow> if stale_slot W now s then None else Some s)"

definition current :: "duration \<Rightarrow> instant \<Rightarrow> slots \<Rightarrow> string \<Rightarrow> failSlot" where
  "current W now m k = (case live W now m k of None \<Rightarrow> \<lparr>fs_count = 0, fs_start = now\<rparr> | Some s \<Rightarrow> s)"

lemma slot_current: "fst (slot W m k now) = current W now m k"
  by (auto simp: slot_def current_def live_def split: option.splits)

lemma lookup_slot: "map_of (snd (slot W m k now)) j = (if j = k then Some (current W now m k) else map_of m j)"
  by (auto simp: slot_def current_def live_def update_conv' split: option.splits)

lemma lookup_bump: "map_of (bump_slot W m k now) j
    = (if j = k then Some ((current W now m k)\<lparr>fs_count := fs_count (current W now m k) + 1\<rparr>) else map_of m j)"
  using slot_current[of W m k now] lookup_slot[of W m k now j]
  by (auto simp: bump_slot_def update_conv' split: prod.splits)

lemma fst_admit: "fst (admit limit W m ip now) \<longleftrightarrow> fs_count (current W now m ip) < limit"
  using slot_current[of W m ip now] by (auto simp: admit_def split: prod.splits)

lemma lookup_admit: "map_of (snd (admit limit W m ip now)) j =
    (if j = ip then Some (let s = current W now m ip in if fs_count s < limit then s\<lparr>fs_count := fs_count s + 1\<rparr> else s) else map_of m j)"
  using slot_current[of W m ip now] lookup_slot[of W m ip now j]
  by (auto simp: admit_def update_conv' Let_def split: prod.splits)

lemma map_of_filter_value: "distinct (map fst m) \<Longrightarrow>
    map_of (filter (\<lambda>(k, s). P s) m) k = (case map_of m k of None \<Rightarrow> None | Some s \<Rightarrow> if P s then Some s else None)"
proof (induction m)
  case (Cons kv m)
  obtain k' s where kv: "kv = (k', s)" by (cases kv)
  have "map_of m k' = None" using Cons.prems kv by (simp add: map_of_eq_None_iff)
  then show ?case using Cons kv by (cases "k = k'") (auto split: option.splits)
qed simp

end
