(* ===== verification/ThrottleProps.thy ===== *)
theory ThrottleProps
  imports Throttle
begin

text \<open>
  What the throttles promise: a budget bounds the attempts it admits in any stretch of one window, and evicting stale
  slots from the limiter's maps never changes an answer.
\<close>

section \<open>Sweeping\<close>

lemma lookup_sweep: "distinct (map fst m) \<Longrightarrow>
    map_of (sweep n W now m) k = map_of m k \<or> (map_of (sweep n W now m) k = None \<and> (\<exists>s. map_of m k = Some s \<and> stale_slot W now s))"
  by (auto simp: sweep_def map_of_filter_value split: option.splits)

lemma distinct_sweep: "distinct (map fst m) \<Longrightarrow> distinct (map fst (sweep n W now m))"
  by (auto simp: sweep_def intro: distinct_map_filter)

lemma live_sweep: "distinct (map fst m) \<Longrightarrow> live W now (sweep n W now m) = live W now m"
  by (rule ext) (auto simp: live_def sweep_def map_of_filter_value split: option.splits)

lemma distinct_slot: "distinct (map fst m) \<Longrightarrow> distinct (map fst (snd (slot W m k now)))"
  by (auto simp: slot_def intro: distinct_update split: option.splits)

lemma distinct_bump: "distinct (map fst m) \<Longrightarrow> distinct (map fst (bump_slot W m k now))"
  using distinct_slot[of m W k now] by (auto simp: bump_slot_def intro: distinct_update split: prod.splits)

lemma distinct_admit: "distinct (map fst m) \<Longrightarrow> distinct (map fst (snd (admit limit W m k now)))"
  using distinct_slot[of m W k now] by (auto simp: admit_def intro: distinct_update split: prod.splits)

section \<open>Budgets\<close>

definition bucket_ok :: "writeBucket \<Rightarrow> bool" where
  "bucket_ok b \<longleftrightarrow> 0 \<le> wb_max b \<and> distinct (map fst (wb_slots b)) \<and>
     (\<forall>k s. map_of (wb_slots b) k = Some s \<longrightarrow> 0 \<le> fs_count s \<and> fs_count s \<le> wb_max b)"

lemma allow_frame [simp]: "wb_max (snd (bucket_allow i t b)) = wb_max b" "wb_window (snd (bucket_allow i t b)) = wb_window b"
  by (simp_all add: bucket_allow_def Let_def split: prod.splits)

lemma allow_slots: "wb_slots (snd (bucket_allow i t b))
    = snd (admit (wb_max b) (wb_window b) (sweep 4096 (wb_window b) t (wb_slots b)) i t)"
  by (simp add: bucket_allow_def Let_def split: prod.splits)

lemma current_sweep: "distinct (map fst m) \<Longrightarrow> current W t (sweep n W t m) k = current W t m k"
  by (simp add: current_def live_sweep)

lemma allow_answer: "bucket_ok b \<Longrightarrow> fst (bucket_allow i t b) \<longleftrightarrow> fs_count (current (wb_window b) t (wb_slots b) i) < wb_max b"
  using fst_admit[of "wb_max b" "wb_window b" "sweep 4096 (wb_window b) t (wb_slots b)" i t]
  by (simp add: bucket_allow_def Let_def current_sweep bucket_ok_def case_prod_beta)

lemma allow_lookup: "bucket_ok b \<Longrightarrow> map_of (wb_slots (snd (bucket_allow i t b))) j =
    (if j = i then Some (let s = current (wb_window b) t (wb_slots b) i in if fs_count s < wb_max b then s\<lparr>fs_count := fs_count s + 1\<rparr> else s)
     else map_of (sweep 4096 (wb_window b) t (wb_slots b)) j)"
  by (simp add: allow_slots lookup_admit current_sweep bucket_ok_def)

lemma current_range: "bucket_ok b \<Longrightarrow> 0 \<le> fs_count (current W t (wb_slots b) i) \<and> fs_count (current W t (wb_slots b) i) \<le> wb_max b"
  by (auto simp: current_def live_def bucket_ok_def split: option.splits)

lemma allow_ok: assumes "bucket_ok b" shows "bucket_ok (snd (bucket_allow i t b))"
proof -
  have d: "distinct (map fst (wb_slots b))" "0 \<le> wb_max b" using assms by (simp_all add: bucket_ok_def)
  have "0 \<le> fs_count s \<and> fs_count s \<le> wb_max b" if "map_of (wb_slots (snd (bucket_allow i t b))) k = Some s" for k s
  proof (cases "k = i")
    case True
    then show ?thesis using that current_range[OF assms, of "wb_window b" t i] allow_lookup[OF assms] by (auto simp: Let_def split: if_splits)
  next
    case False
    then show ?thesis using that lookup_sweep[OF d(1), of 4096 "wb_window b" t k] allow_lookup[OF assms] assms
      by (auto simp: bucket_ok_def)
  qed
  then show ?thesis using d by (simp add: bucket_ok_def allow_slots distinct_admit distinct_sweep)
qed

text \<open>The attempts of one address that are admitted while a list of attempts is served.\<close>

fun admitted :: "string \<Rightarrow> (string \<times> instant) list \<Rightarrow> writeBucket \<Rightarrow> int" where
  "admitted ip [] b = 0"
| "admitted ip ((i, t) # es) b = (if fst (bucket_allow i t b) \<and> i = ip then 1 else 0) + admitted ip es (snd (bucket_allow i t b))"

definition serve :: "(string \<times> instant) list \<Rightarrow> writeBucket \<Rightarrow> writeBucket" where
  "serve es b = foldl (\<lambda>b (i, t). snd (bucket_allow i t b)) b es"

lemma serve_ok: "bucket_ok b \<Longrightarrow> bucket_ok (serve es b)"
  unfolding serve_def by (rule foldl_inv[where P = bucket_ok]) (auto simp: allow_ok)

lemma serve_frame [simp]: "wb_max (serve es b) = wb_max b" "wb_window (serve es b) = wb_window b"
  unfolding serve_def by (rule foldl_inv[where P = "\<lambda>x. wb_max x = wb_max b"]; auto)
    (rule foldl_inv[where P = "\<lambda>x. wb_window x = wb_window b"]; auto)

lemma admitted_in_slot:
  assumes "bucket_ok b" "map_of (wb_slots b) ip = Some s" "\<forall>(i, t) \<in> set es. \<not> stale_slot (wb_window b) t s"
  shows "admitted ip es b \<le> wb_max b - fs_count s"
  using assms
proof (induction es arbitrary: b s)
  case Nil
  then show ?case by (auto simp: bucket_ok_def)
next
  case (Cons e es)
  obtain i t where e: "e = (i, t)" by (cases e)
  have n: "\<not> stale_slot (wb_window b) t s" using Cons.prems(3) e by simp
  have d: "distinct (map fst (wb_slots b))" using Cons.prems(1) by (simp add: bucket_ok_def)
  have c: "current (wb_window b) t (wb_slots b) ip = s" using n Cons.prems(2) by (simp add: current_def live_def)
  define s' where "s' = (if i = ip \<and> fs_count s < wb_max b then s\<lparr>fs_count := fs_count s + 1\<rparr> else s)"
  have "map_of (wb_slots (snd (bucket_allow i t b))) ip = Some s'"
    using allow_lookup[OF Cons.prems(1), of i t ip] c lookup_sweep[OF d, of 4096 "wb_window b" t ip] n Cons.prems(2)
    by (auto simp: s'_def Let_def)
  moreover have "\<forall>(i, u) \<in> set es. \<not> stale_slot (wb_window b) u s'"
    using Cons.prems(3) by (auto simp: s'_def stale_slot_def)
  ultimately have "admitted ip es (snd (bucket_allow i t b)) \<le> wb_max b - fs_count s'"
    using Cons.IH[OF allow_ok[OF Cons.prems(1)]] by simp
  then show ?case using allow_answer[OF Cons.prems(1), of i t] c by (auto simp: e s'_def split: if_splits)
qed

lemma admitted_in_window:
  assumes "bucket_ok b" "0 \<le> wb_window b" "wb_window b < 2 ^ 63 - 1" "\<forall>(i, u) \<in> set es. t \<le> u \<and> u \<le> t + wb_window b"
  shows "admitted ip es b \<le> wb_max b + (case map_of (wb_slots b) ip of None \<Rightarrow> 0 | Some s \<Rightarrow> wb_max b - fs_count s)"
  using assms
proof (induction es arbitrary: b)
  case Nil
  then show ?case by (auto simp: bucket_ok_def split: option.splits)
next
  case (Cons e es)
  obtain i u where e: "e = (i, u)" by (cases e)
  let ?b = "snd (bucket_allow i u b)"
  have ok: "bucket_ok ?b" by (rule allow_ok[OF Cons.prems(1)])
  have d: "distinct (map fst (wb_slots b))" using Cons.prems(1) by (simp add: bucket_ok_def)
  have tu: "t \<le> u" "u \<le> t + wb_window b" using Cons.prems(4) e by auto
  have r: "0 \<le> (case map_of (wb_slots b) ip of None \<Rightarrow> 0 | Some s \<Rightarrow> wb_max b - fs_count s)"
    using Cons.prems(1) by (auto simp: bucket_ok_def split: option.splits)
  have IH: "admitted ip es ?b \<le> wb_max b + (case map_of (wb_slots ?b) ip of None \<Rightarrow> 0 | Some s \<Rightarrow> wb_max b - fs_count s)"
    using Cons.IH[OF ok] Cons.prems(2-4) by (simp cong: option.case_cong)
  show ?case
  proof (cases "i = ip")
    case False
    then have "map_of (wb_slots ?b) ip = map_of (sweep 4096 (wb_window b) u (wb_slots b)) ip"
      using allow_lookup[OF Cons.prems(1), of i u ip] by simp
    then show ?thesis using IH lookup_sweep[OF d, of 4096 "wb_window b" u ip] False r by (auto simp: e)
  next
    case True
    show ?thesis
    proof (cases "live (wb_window b) u (wb_slots b) ip")
      case (Some s)
      then have m: "map_of (wb_slots b) ip = Some s" and c: "current (wb_window b) u (wb_slots b) ip = s"
        by (auto simp: live_def current_def split: option.splits if_splits)
      show ?thesis using IH allow_lookup[OF Cons.prems(1), of i u ip] allow_answer[OF Cons.prems(1), of i u] True m c
        by (auto simp: e Let_def split: if_splits)
    next
      case None
      then have c: "current (wb_window b) u (wb_slots b) ip = \<lparr>fs_count = 0, fs_start = u\<rparr>" by (simp add: current_def)
      define s' where "s' = \<lparr>fs_count = (if 0 < wb_max b then 1 else 0), fs_start = u\<rparr>"
      have m: "map_of (wb_slots ?b) ip = Some s'"
        using allow_lookup[OF Cons.prems(1), of i u ip] c True by (auto simp: s'_def Let_def)
      have "\<forall>(j, v) \<in> set es. \<not> stale_slot (wb_window b) v s'"
        using Cons.prems(2-4) tu by (auto simp: s'_def stale_slot_def e time_Sub_greater_iff)
      then have "admitted ip es ?b \<le> wb_max b - fs_count s'" using admitted_in_slot[OF ok m] by simp
      then show ?thesis using allow_answer[OF Cons.prems(1), of i u] True c r by (auto simp: e s'_def)
    qed
  qed
qed

lemma newWriteBucket_ok: "0 \<le> limit \<Longrightarrow> bucket_ok (newWriteBucket limit W)"
  by (simp add: bucket_ok_def newWriteBucket_def)

text \<open>C12: Whatever a budget has served before, it admits at most twice its limit from one address in any stretch of time as
  long as its window: the limit per fixed window, over the two windows such a stretch can touch.\<close>

theorem budget_bounds_any_window:
  assumes "0 \<le> limit" "0 \<le> W" "W < 2 ^ 63 - 1" "\<forall>(i, u) \<in> set es. t \<le> u \<and> u \<le> t + W"
  shows "admitted ip es (serve history (newWriteBucket limit W)) \<le> 2 * limit"
proof -
  let ?b = "serve history (newWriteBucket limit W)"
  have ok: "bucket_ok ?b" by (rule serve_ok[OF newWriteBucket_ok[OF assms(1)]])
  have f: "wb_max ?b = limit" "wb_window ?b = W" by (simp_all add: newWriteBucket_def)
  have "(case map_of (wb_slots ?b) ip of None \<Rightarrow> 0 | Some s \<Rightarrow> limit - fs_count s) \<le> limit"
    using ok assms(1) f by (auto simp: bucket_ok_def split: option.splits)
  then show ?thesis using admitted_in_window[OF ok, of es t ip] assms(2-4) f by (simp cong: option.case_cong)
qed

theorem budget_bounds_any_window_witness:
  "admitted ''a'' [(''a'', 3), (''a'', 4)] (serve [(''a'', 1)] (newWriteBucket 1 5)) \<le> 2"
  using budget_bounds_any_window[of 1 5 "[(''a'', 3), (''a'', 4)]" 3 "''a''" "[(''a'', 1)]"] by simp

section \<open>The limiter without eviction\<close>

datatype login_op = Allow string string | Fail string string | Reset string string

definition plain_allow :: "string \<Rightarrow> string \<Rightarrow> instant \<Rightarrow> loginLimiter \<Rightarrow> bool \<times> loginLimiter" where
  "plain_allow key ip now l =
    (let (s, m) = slot loginFailWindow (fails l) key now; l = l\<lparr>fails := m\<rparr>
     in if \<not> fs_count s < 5 then (False, l)
        else let (si, mi) = slot loginFailWindow (ipFails l) ip now in (fs_count si < 30, l\<lparr>ipFails := mi\<rparr>))"

fun limiter_step :: "(string \<Rightarrow> string \<Rightarrow> instant \<Rightarrow> loginLimiter \<Rightarrow> bool \<times> loginLimiter) \<Rightarrow> instant \<Rightarrow> login_op \<Rightarrow> loginLimiter \<Rightarrow> bool \<times> loginLimiter" where
  "limiter_step f now (Allow key ip) l = f key ip now l"
| "limiter_step f now (Fail key ip) l = (True, login_fail key ip now l)"
| "limiter_step f now (Reset key ip) l = (True, login_reset key ip l)"

fun answers :: "(string \<Rightarrow> string \<Rightarrow> instant \<Rightarrow> loginLimiter \<Rightarrow> bool \<times> loginLimiter) \<Rightarrow> (instant \<times> login_op) list \<Rightarrow> loginLimiter \<Rightarrow> bool list" where
  "answers f [] l = []"
| "answers f ((t, x) # xs) l = (case limiter_step f t x l of (b, l) \<Rightarrow> b # answers f xs l)"

definition same_live :: "instant \<Rightarrow> slots \<Rightarrow> slots \<Rightarrow> bool" where
  "same_live now m m' \<longleftrightarrow> distinct (map fst m) \<and> distinct (map fst m') \<and> live loginFailWindow now m = live loginFailWindow now m'"

lemma stale_later: "stale_slot W now s \<Longrightarrow> now \<le> t \<Longrightarrow> stale_slot W t s"
  by (auto simp: stale_slot_def time_Sub_def)

lemma same_live_later:
  assumes "same_live now m m'" "now \<le> t"
  shows "same_live t m m'"
proof -
  have l: "live W t m k = (case live W now m k of None \<Rightarrow> None | Some s \<Rightarrow> if stale_slot W t s then None else Some s)" for W m k
    using stale_later[OF _ assms(2)] by (auto simp: live_def split: option.splits)
  show ?thesis using assms(1) by (auto simp: same_live_def l[abs_def] fun_eq_iff)
qed

lemma same_current: "same_live now m m' \<Longrightarrow> current loginFailWindow now m k = current loginFailWindow now m' k"
  by (simp add: same_live_def current_def)

lemma same_live_slot: "same_live now m m' \<Longrightarrow>
    same_live now (snd (slot loginFailWindow m k now)) (snd (slot loginFailWindow m' k now))"
  using same_current[of now m m' k]
  by (auto simp: same_live_def distinct_slot live_def lookup_slot fun_eq_iff split: option.splits)

lemma same_live_bump: "same_live now m m' \<Longrightarrow>
    same_live now (bump_slot loginFailWindow m k now) (bump_slot loginFailWindow m' k now)"
  using same_current[of now m m' k]
  by (auto simp: same_live_def distinct_bump live_def lookup_bump fun_eq_iff split: option.splits)

lemma same_live_delete: "same_live now m m' \<Longrightarrow> same_live now (AList.delete k m) (AList.delete k m')"
  by (auto simp: same_live_def distinct_delete live_def delete_conv' fun_eq_iff)

lemma same_live_sweep: "same_live now m m' \<Longrightarrow> same_live now (sweep n loginFailWindow now m) m'"
  by (simp add: same_live_def distinct_sweep live_sweep)

definition same_limiter :: "instant \<Rightarrow> loginLimiter \<Rightarrow> loginLimiter \<Rightarrow> bool" where
  "same_limiter now l l' \<longleftrightarrow> same_live now (fails l) (fails l') \<and> same_live now (ipFails l) (ipFails l')"

lemma same_step:
  assumes "same_limiter now l l'"
  shows "fst (limiter_step login_allow now x l) = fst (limiter_step plain_allow now x l')
    \<and> same_limiter now (snd (limiter_step login_allow now x l)) (snd (limiter_step plain_allow now x l'))"
proof (cases x)
  case (Allow key ip)
  define m where "m = sweep 1024 loginFailWindow now (fails l)"
  define mi where "mi = sweep 1024 loginFailWindow now (ipFails l)"
  have s: "same_live now m (fails l')" "same_live now mi (ipFails l')"
    using assms by (simp_all add: same_limiter_def m_def mi_def same_live_sweep)
  show ?thesis using same_live_slot[OF s(1)] same_live_slot[OF s(2)] s same_current[OF s(1)] same_current[OF s(2)]
    by (auto simp: Allow login_allow_def plain_allow_def sweepLocked_def m_def[symmetric] mi_def[symmetric] Let_def
        case_prod_beta slot_current same_limiter_def)
next
  case (Fail key ip)
  then show ?thesis using assms by (simp add: same_limiter_def login_fail_def same_live_bump)
next
  case (Reset key ip)
  then show ?thesis using assms by (simp add: same_limiter_def login_reset_def same_live_delete)
qed

lemma same_answers:
  assumes "same_limiter now l l'" "sorted (now # map fst xs)"
  shows "answers login_allow xs l = answers plain_allow xs l'"
  using assms
proof (induction xs arbitrary: now l l')
  case (Cons e xs)
  obtain t x where e: "e = (t, x)" by (cases e)
  have "same_limiter t l l'" using Cons.prems e by (auto simp: same_limiter_def intro: same_live_later)
  from same_step[OF this, of x] Cons.IH[of t "snd (limiter_step login_allow t x l)" "snd (limiter_step plain_allow t x l')"]
  show ?case using Cons.prems(2) by (simp add: e case_prod_beta)
qed simp

text \<open>Evicting stale slots never shows: over any sequence of login checks, failures and resets at increasing times, the
  limiter answers exactly as one whose maps keep every slot for ever.\<close>

theorem limiter_eviction_invisible:
  assumes "sorted (map fst xs)"
  shows "answers login_allow xs newLoginLimiter = answers plain_allow xs newLoginLimiter"
proof (cases xs)
  case (Cons e ys)
  show ?thesis
    by (rule same_answers[of "fst e"]) (use assms Cons in \<open>simp_all add: same_limiter_def same_live_def newLoginLimiter_def\<close>)
qed simp

theorem limiter_eviction_invisible_witness:
  "answers login_allow [(1, Fail ''k'' ''i''), (2, Allow ''k'' ''i'')] newLoginLimiter
    = answers plain_allow [(1, Fail ''k'' ''i''), (2, Allow ''k'' ''i'')] newLoginLimiter"
  by (rule limiter_eviction_invisible) simp

end
