(* ===== verification/Sha256.thy ===== *)
theory Sha256
  imports Domain "HOL-Library.Word"
begin

text \<open>
  The hashes of Go's standard library the program calls: SHA-256 and HMAC-SHA-256 over byte strings
  (\<open>crypto/sha256\<close>, \<open>crypto/hmac\<close>), on 32-bit words, for the sessions (\<open>internal/auth/jwt.go\<close>) and the
  fingerprints of credentials.
\<close>

unbundle bit_operations_syntax

type_synonym w32 = "32 word"

definition sha_k :: "w32 list" where
  "sha_k = [1116352408, 1899447441, 3049323471, 3921009573, 961987163, 1508970993, 2453635748, 2870763221,
     3624381080, 310598401, 607225278, 1426881987, 1925078388, 2162078206, 2614888103, 3248222580,
     3835390401, 4022224774, 264347078, 604807628, 770255983, 1249150122, 1555081692, 1996064986,
     2554220882, 2821834349, 2952996808, 3210313671, 3336571891, 3584528711, 113926993, 338241895,
     666307205, 773529912, 1294757372, 1396182291, 1695183700, 1986661051, 2177026350, 2456956037,
     2730485921, 2820302411, 3259730800, 3345764771, 3516065817, 3600352804, 4094571909, 275423344,
     430227734, 506948616, 659060556, 883997877, 958139571, 1322822218, 1537002063, 1747873779,
     1955562222, 2024104815, 2227730452, 2361852424, 2428436474, 2756734187, 3204031479, 3329325298]"

definition sha_h0 :: "w32 list" where
  "sha_h0 = [1779033703, 3144134277, 1013904242, 2773480762, 1359893119, 2600822924, 528734635, 1541459225]"

definition ror :: "nat \<Rightarrow> w32 \<Rightarrow> w32" where
  "ror n x = drop_bit n x OR push_bit (32 - n) x"

definition small_sigma0 :: "w32 \<Rightarrow> w32" where
  "small_sigma0 x = ror 7 x XOR ror 18 x XOR drop_bit 3 x"

definition small_sigma1 :: "w32 \<Rightarrow> w32" where
  "small_sigma1 x = ror 17 x XOR ror 19 x XOR drop_bit 10 x"

definition big_sigma0 :: "w32 \<Rightarrow> w32" where
  "big_sigma0 x = ror 2 x XOR ror 13 x XOR ror 22 x"

definition big_sigma1 :: "w32 \<Rightarrow> w32" where
  "big_sigma1 x = ror 6 x XOR ror 11 x XOR ror 25 x"

text \<open>The message schedule, latest word first.\<close>

definition schedule_step :: "w32 list \<Rightarrow> w32 list" where
  "schedule_step ws = (small_sigma1 (ws ! 1) + ws ! 6 + small_sigma0 (ws ! 14) + ws ! 15) # ws"

definition schedule :: "w32 list \<Rightarrow> w32 list" where
  "schedule block = rev ((schedule_step ^^ 48) (rev block))"

definition sha_round :: "w32 list \<Rightarrow> w32 \<times> w32 \<Rightarrow> w32 list" where
  "sha_round v kw = (case v of [a, b, c, d, e, f, g, h] \<Rightarrow>
     (let t1 = h + big_sigma1 e + ((e AND f) XOR (NOT e AND g)) + fst kw + snd kw;
          t2 = big_sigma0 a + ((a AND b) XOR (a AND c) XOR (b AND c))
      in [t1 + t2, a, b, c, d + t1, e, f, g]) | _ \<Rightarrow> v)"

definition sha_compress :: "w32 list \<Rightarrow> w32 list \<Rightarrow> w32 list" where
  "sha_compress h block = map2 (+) h (foldl sha_round h (zip sha_k (schedule block)))"

definition be32 :: "string \<Rightarrow> w32" where
  "be32 cs = foldl (\<lambda>w c. push_bit 8 w + of_int (of_char c)) 0 cs"

definition be_bytes :: "nat \<Rightarrow> int \<Rightarrow> string" where
  "be_bytes k n = map (\<lambda>i. char_of (n div 256 ^ i mod 256)) (rev [0..<k])"

fun chunks :: "nat \<Rightarrow> 'a list \<Rightarrow> 'a list list" where
  "chunks k xs = (if k = 0 \<or> xs = [] then [] else take k xs # chunks k (drop k xs))"

declare chunks.simps [simp del]

definition sha_pad :: "string \<Rightarrow> string" where
  "sha_pad m = m @ CHR 0x80 # replicate ((119 - length m mod 64) mod 64) (CHR 0x00) @ be_bytes 8 (8 * int (length m))"

definition sha256 :: "string \<Rightarrow> string" where
  "sha256 m = concat (map (\<lambda>w. be_bytes 4 (uint w))
     (foldl (\<lambda>h b. sha_compress h (map be32 (chunks 4 b))) sha_h0 (chunks 64 (sha_pad m))))"

definition hmac_sha256 :: "string \<Rightarrow> string \<Rightarrow> string" where
  "hmac_sha256 key m =
    (let k = (if 64 < length key then sha256 key else key); k = k @ replicate (64 - length k) (CHR 0x00);
         pad = (\<lambda>n. map (\<lambda>c. char_of ((of_char c :: int) XOR n)) k)
     in sha256 (pad 92 @ sha256 (pad 54 @ m)))"

definition hex_string :: "string \<Rightarrow> string" where
  "hex_string s = concat (map (\<lambda>c. let n = (of_char c :: int); h = (\<lambda>d. if d < 10 then char_of (48 + d) else char_of (87 + d))
     in [h (n div 16), h (n mod 16)]) s)"

end
