(* ===== verification/Jwt.thy ===== *)
theory Jwt
  imports JsonText Sha256
begin

text \<open>
  Sessions, \<open>internal/auth/jwt.go\<close>: HS256 tokens signed and verified as the code does, down to the bytes: base64url
  without padding, the claims' JSON, the header check before the signature. \<open>now\<close> is the clock.
\<close>

section \<open>Base64\<close>

definition b64_alphabet :: string where
  "b64_alphabet = ''ABCDEFGHIJKLMNOPQRSTUVWXYZabcdefghijklmnopqrstuvwxyz0123456789-_''"

definition b64_char :: "int \<Rightarrow> char" where
  "b64_char n = b64_alphabet ! nat n"

definition b64_value :: "char \<Rightarrow> int option" where
  "b64_value c = map_of (zip b64_alphabet [0..63]) c"

fun b64_bits :: "int list \<Rightarrow> int list" where
  "b64_bits [] = []"
| "b64_bits [a] = [a div 4, a mod 4 * 16]"
| "b64_bits [a, b] = [a div 4, a mod 4 * 16 + b div 16, b mod 16 * 4]"
| "b64_bits (a # b # c # r) = (a div 4) # (a mod 4 * 16 + b div 16) # (b mod 16 * 4 + c div 64) # (c mod 64) # b64_bits r"

fun b64_bytes :: "int list \<Rightarrow> int list option" where
  "b64_bytes [] = Some []"
| "b64_bytes [w] = None"
| "b64_bytes [w, x] = Some [w * 4 + x div 16]"
| "b64_bytes [w, x, y] = Some [w * 4 + x div 16, x mod 16 * 16 + y div 4]"
| "b64_bytes (w # x # y # z # r) =
    map_option (\<lambda>bs. (w * 4 + x div 16) # (x mod 16 * 16 + y div 4) # (y mod 4 * 64 + z) # bs) (b64_bytes r)"

definition base64URL :: "string \<Rightarrow> string" where
  "base64URL s = map b64_char (b64_bits (map of_char s))"

fun values_of :: "string \<Rightarrow> int list option" where
  "values_of [] = Some []"
| "values_of (c # cs) = (case b64_value c of None \<Rightarrow> None | Some v \<Rightarrow> map_option ((#) v) (values_of cs))"

text \<open>The decoder skips line breaks and does not look at the bits left over at the end.\<close>

definition base64_DecodeString :: "string \<Rightarrow> string option" where
  "base64_DecodeString s =
    (case values_of (filter (\<lambda>c. c \<noteq> CHR 0x0A \<and> c \<noteq> CHR 0x0D) s) of
       None \<Rightarrow> None | Some vs \<Rightarrow> map_option (map char_of) (b64_bytes vs))"

section \<open>Tokens\<close>

record Claims =
  Sub :: string
  Ver :: int
  IssuedAt :: int
  ExpiresAt :: int

datatype token_error = ErrInvalidToken | ErrExpiredToken

definition Unix :: "instant \<Rightarrow> int" where
  "Unix t = t div Second - 62135596800"

definition jwt_header :: string where
  "jwt_header = CHR ''{'' # quoted ''alg'' @ '':'' @ quoted ''HS256'' @ '','' @ quoted ''typ'' @ '':'' @ quoted ''JWT'' @ ''}''"

definition claims_text :: "Claims \<Rightarrow> string" where
  "claims_text c = CHR ''{'' # quoted ''sub'' @ '':'' @ quoted (Sub c) @ '','' @ quoted ''ver'' @ '':'' @ dec_int (Ver c)
     @ '','' @ quoted ''iat'' @ '':'' @ dec_int (IssuedAt c) @ '','' @ quoted ''exp'' @ '':'' @ dec_int (ExpiresAt c) @ ''}''"

definition claims_fields :: "Claims field list" where
  "claims_fields = [string_field ''sub'' (\<lambda>v c. c\<lparr>Sub := v\<rparr>), int_field ''ver'' Ver (\<lambda>v c. c\<lparr>Ver := v\<rparr>),
     int_field ''iat'' IssuedAt (\<lambda>v c. c\<lparr>IssuedAt := v\<rparr>), int_field ''exp'' ExpiresAt (\<lambda>v c. c\<lparr>ExpiresAt := v\<rparr>)]"

definition Sign :: "string \<Rightarrow> string \<Rightarrow> int \<Rightarrow> duration \<Rightarrow> instant \<Rightarrow> string \<times> instant" where
  "Sign secret sub ver ttl now =
    (let exp = now + ttl;
         body = base64URL jwt_header @ ''.'' @ base64URL (claims_text \<lparr>Sub = sub, Ver = ver, IssuedAt = Unix now, ExpiresAt = Unix exp\<rparr>)
     in (body @ ''.'' @ base64URL (hmac_sha256 secret body), exp))"

fun split_from :: "string \<Rightarrow> string \<Rightarrow> string list" where
  "split_from part [] = [part]"
| "split_from part (c # cs) = (if c = CHR ''.'' then part # split_from [] cs else split_from (part @ [c]) cs)"

definition splitToken :: "string \<Rightarrow> string list" where
  "splitToken t = split_from [] t"

definition header_ok :: "string \<Rightarrow> bool" where
  "header_ok hb =
    (case base64_DecodeString hb of None \<Rightarrow> False
     | Some raw \<Rightarrow> (case json_Unmarshal raw of None \<Rightarrow> False
        | Some j \<Rightarrow> to_struct [string_field ''alg'' (\<lambda>v _. v)] j '''' = Some ''HS256''))"

definition Verify :: "string \<Rightarrow> instant \<Rightarrow> string \<Rightarrow> token_error + Claims" where
  "Verify secret now token =
    (case splitToken token of
       [hb, pb, sb] \<Rightarrow>
         (if \<not> header_ok hb then Inl ErrInvalidToken
          else if base64_DecodeString sb \<noteq> Some (hmac_sha256 secret (hb @ ''.'' @ pb)) then Inl ErrInvalidToken
          else case base64_DecodeString pb of
              None \<Rightarrow> Inl ErrInvalidToken
            | Some raw \<Rightarrow>
               (case (case json_Unmarshal raw of None \<Rightarrow> None
                      | Some j \<Rightarrow> to_struct claims_fields j \<lparr>Sub = '''', Ver = 0, IssuedAt = 0, ExpiresAt = 0\<rparr>) of
                  None \<Rightarrow> Inl ErrInvalidToken
                | Some c \<Rightarrow>
                   if Sub c = '''' \<or> Ver c < 0 then Inl ErrInvalidToken
                   else if Unix now + 60 < IssuedAt c then Inl ErrInvalidToken
                   else if ExpiresAt c \<le> Unix now then Inl ErrExpiredToken
                   else Inr c))
     | _ \<Rightarrow> Inl ErrInvalidToken)"

section \<open>Base64 reads back what it wrote\<close>

lemma alphabet_values: "list_all (\<lambda>n. b64_value (b64_char n) = Some n \<and> b64_char n \<noteq> CHR ''.'' \<and> b64_char n \<noteq> CHR 0x0A \<and> b64_char n \<noteq> CHR 0x0D) [0..63]"
  by code_simp

lemma b64_char_facts:
  assumes "0 \<le> n" "n < 64"
  shows "b64_value (b64_char n) = Some n" "b64_char n \<noteq> CHR ''.''" "b64_char n \<noteq> CHR 0x0A" "b64_char n \<noteq> CHR 0x0D"
proof -
  have "n \<in> set [0..63]" using assms by simp
  then show "b64_value (b64_char n) = Some n" "b64_char n \<noteq> CHR ''.''" "b64_char n \<noteq> CHR 0x0A" "b64_char n \<noteq> CHR 0x0D"
    using alphabet_values unfolding list_all_iff by blast+
qed

definition bytes_ok :: "int list \<Rightarrow> bool" where
  "bytes_ok bs \<longleftrightarrow> (\<forall>b \<in> set bs. 0 \<le> b \<and> b < 256)"

lemma b64_bits_range: "bytes_ok bs \<Longrightarrow> \<forall>n \<in> set (b64_bits bs). 0 \<le> n \<and> n < 64"
  by (induction bs rule: b64_bits.induct) (auto simp: bytes_ok_def)

lemma b64_bytes_bits: "bytes_ok bs \<Longrightarrow> b64_bytes (b64_bits bs) = Some bs"
proof (induction bs rule: b64_bits.induct)
  case (4 a b c r)
  have "bytes_ok r" using 4(2) by (simp add: bytes_ok_def)
  moreover have "b div 16 < 16" "c div 64 < 4" "0 \<le> b div 16" "0 \<le> c div 64" using 4(2) by (auto simp: bytes_ok_def)
  ultimately show ?case using 4 by (simp add: bytes_ok_def div_pos_pos_trivial mod_pos_pos_trivial)
qed (auto simp: bytes_ok_def)

lemma values_of_chars: "\<forall>n \<in> set ns. 0 \<le> n \<and> n < 64 \<Longrightarrow> values_of (map b64_char ns) = Some ns"
  by (induction ns) (simp_all add: b64_char_facts)

lemma bytes_ok_of_char: "bytes_ok (map of_char s)"
  by (auto simp: bytes_ok_def of_char_bounds)

lemma base64_chars: "c \<in> set (base64URL s) \<Longrightarrow> c \<noteq> CHR ''.'' \<and> c \<noteq> CHR 0x0A \<and> c \<noteq> CHR 0x0D"
  using b64_bits_range[OF bytes_ok_of_char, of s] b64_char_facts(2-4) by (auto simp: base64URL_def)

lemma base64_decode_encode: "base64_DecodeString (base64URL s) = Some s"
proof -
  have f: "filter (\<lambda>c. c \<noteq> CHR 0x0A \<and> c \<noteq> CHR 0x0D) (base64URL s) = base64URL s"
    by (rule filter_True) (use base64_chars in blast)
  have v: "values_of (base64URL s) = Some (b64_bits (map of_char s))"
    unfolding base64URL_def by (rule values_of_chars[OF b64_bits_range[OF bytes_ok_of_char]])
  show ?thesis unfolding base64_DecodeString_def f v by (simp add: b64_bytes_bits[OF bytes_ok_of_char] comp_def)
qed

lemma split_from_part: "CHR ''.'' \<notin> set a \<Longrightarrow> split_from p (a @ CHR ''.'' # r) = (p @ a) # split_from [] r"
  by (induction a arbitrary: p) auto

lemma split_from_last: "CHR ''.'' \<notin> set a \<Longrightarrow> split_from p a = [p @ a]"
  by (induction a arbitrary: p) auto

lemma splitToken_signed: "splitToken (base64URL x @ CHR ''.'' # base64URL y @ CHR ''.'' # base64URL z) = [base64URL x, base64URL y, base64URL z]"
proof -
  have "CHR ''.'' \<notin> set (base64URL w)" for w using base64_chars by blast
  then show ?thesis by (simp add: splitToken_def split_from_part split_from_last)
qed

section \<open>Claims read back as they were written\<close>

lemma dec_digits_hd: "0 \<le> n \<Longrightarrow> is_digit (hd (dec_digits n))"
  using dec_digits_are_digits[of n] by (cases "dec_digits n") auto

lemma hd_dec_digits_pos: "0 < n \<Longrightarrow> hd (dec_digits n) \<noteq> CHR ''0''"
proof (induction n rule: dec_digits.induct)
  case (1 n)
  show ?case
  proof (cases "n < 10")
    case True
    then have "(of_char (digit n) :: int) \<noteq> of_char (CHR ''0'')" using 1(2) by (simp add: of_char_digit)
    then have "digit n \<noteq> CHR ''0''" by metis
    then show ?thesis using True by (subst dec_digits.simps) simp
  next
    case False
    then show ?thesis using 1 by (subst dec_digits.simps) simp
  qed
qed

lemma dec_digits_0: "dec_digits 0 = ''0''"
proof -
  have "digit 0 = CHR ''0''" by code_simp
  then show ?thesis by (subst dec_digits.simps) simp
qed

lemma digits_append: "list_all is_digit ds \<Longrightarrow> \<not> is_digit d \<Longrightarrow> digits (ds @ d # r) = (ds, d # r)"
  by (induction ds) (simp_all add: digits_def)

lemma parse_dec:
  assumes "0 \<le> k" "d = CHR '','' \<or> d = CHR ''}''"
  shows "parse_value (Suc n) (dec_int k @ d # r) = Some (JInt k, d # r)"
proof -
  obtain c cs where ds: "dec_digits k = c # cs" by (cases "dec_digits k") auto
  have digit: "is_digit c" using dec_digits_hd[OF assms(1)] ds by simp
  have nd: "\<not> is_digit d" using assms(2) by (auto simp: is_digit_def)
  have z: "\<not> (c = CHR ''0'' \<and> cs \<noteq> [])"
  proof (cases "k = 0")
    case True
    then show ?thesis using ds dec_digits_0 by simp
  next
    case False
    then show ?thesis using hd_dec_digits_pos[of k] assms(1) ds by simp
  qed
  have dg: "digits ((c # cs) @ d # r) = (c # cs, d # r)"
    using dec_digits_are_digits[OF assms(1)] ds nd digits_append[of "c # cs" d r] by simp
  have ne: "c \<noteq> x" if "\<not> is_digit x" for x using digit that by auto
  have ne2: "c \<noteq> CHR ''-''" "c \<noteq> CHR ''{''" "c \<noteq> CHR ''[''" "c \<noteq> CHR 0x22" "c \<noteq> CHR ''t''" "c \<noteq> CHR ''f''" "c \<noteq> CHR ''n''"
      "c \<noteq> CHR '' ''" "c \<noteq> CHR 0x09" "c \<noteq> CHR 0x0A" "c \<noteq> CHR 0x0D"
    by (rule ne, simp add: is_digit_def)+
  have pn: "parse_number (c # cs @ d # r) = Some (JInt k, d # r)"
    using dg z ne2 assms digits_value_dec_digits[OF assms(1)] ds unfolding parse_number_def Let_def by auto
  show ?thesis using assms(1) pn ne2 by (simp add: dec_int_def ds skip_ws_def)
qed

lemma member_step:
  assumes "parse_value n (v @ CHR '','' # r) = Some (j, CHR '','' # r)"
  shows "parse_members (Suc n) (quoted k @ CHR '':'' # v @ CHR '','' # r) = map_option (\<lambda>(m, r). ((k, j) # m, r)) (parse_members n r)"
  using assms by (simp add: quoted_def skip_ws_def unquote_escs)

lemma member_last:
  assumes "parse_value n (v @ CHR ''}'' # r) = Some (j, CHR ''}'' # r)"
  shows "parse_members (Suc n) (quoted k @ CHR '':'' # v @ CHR ''}'' # r) = Some ([(k, j)], r)"
  using assms by (simp add: quoted_def skip_ws_def unquote_escs)

lemma parse_object: "parse_value (Suc n) (CHR ''{'' # quoted k @ r) = map_option (\<lambda>(m, r). (JObj m, r)) (parse_members n (quoted k @ r))"
  by (simp add: quoted_def skip_ws_def)

lemma claims_text_parses:
  assumes "0 \<le> Ver c" "0 \<le> IssuedAt c" "0 \<le> ExpiresAt c"
  shows "json_Unmarshal (claims_text c) = Some (JObj [(''sub'', JStr (Sub c)), (''ver'', JInt (Ver c)), (''iat'', JInt (IssuedAt c)), (''exp'', JInt (ExpiresAt c))])"
proof -
  have t: "claims_text c = CHR ''{'' # quoted ''sub'' @ CHR '':'' # quoted (Sub c) @ CHR '','' # quoted ''ver'' @ CHR '':'' # dec_int (Ver c)
     @ CHR '','' # quoted ''iat'' @ CHR '':'' # dec_int (IssuedAt c) @ CHR '','' # quoted ''exp'' @ CHR '':'' # dec_int (ExpiresAt c) @ CHR ''}'' # []"
    by (simp add: claims_text_def)
  obtain n where n: "length (claims_text c) + 1 = Suc (Suc (Suc (Suc (Suc (Suc n)))))"
    unfolding t by (simp add: quoted_def)
  have "parse_value (Suc (Suc (Suc (Suc (Suc (Suc n)))))) (claims_text c)
    = Some (JObj [(''sub'', JStr (Sub c)), (''ver'', JInt (Ver c)), (''iat'', JInt (IssuedAt c)), (''exp'', JInt (ExpiresAt c))], [])"
    unfolding t parse_object
    by (simp only: member_step[OF parse_quoted] member_step[OF parse_dec] member_last[OF parse_dec] assms simp_thms) simp
  then show ?thesis unfolding json_Unmarshal_def n by (simp add: skip_ws_def)
qed

lemma header_reads_back: "header_ok (base64URL jwt_header)"
proof -
  have "(case json_Unmarshal jwt_header of None \<Rightarrow> False | Some j \<Rightarrow> to_struct [string_field ''alg'' (\<lambda>v _. v)] j '''' = Some ''HS256'')"
    by code_simp
  then show ?thesis by (simp add: header_ok_def base64_decode_encode)
qed

lemma fields_read_back:
  assumes "0 \<le> v" "0 \<le> i" "0 \<le> x" "v < 2 ^ 63" "i < 2 ^ 63" "x < 2 ^ 63"
  shows "to_struct claims_fields (JObj [(''sub'', JStr s), (''ver'', JInt v), (''iat'', JInt i), (''exp'', JInt x)])
      \<lparr>Sub = '''', Ver = 0, IssuedAt = 0, ExpiresAt = 0\<rparr> = Some \<lparr>Sub = s, Ver = v, IssuedAt = i, ExpiresAt = x\<rparr>"
  using assms by (simp add: to_struct_def claims_fields_def store_field_def same_field_def lower_def string_field_def int_field_def to_int_def)

lemma Verify_signed:
  assumes "sub \<noteq> ''''" "0 \<le> ver" "ver < 2 ^ 63" "0 \<le> Unix now" "0 \<le> ttl" "Unix (now + ttl) < 2 ^ 63"
  shows "Verify secret t (fst (Sign secret sub ver ttl now)) =
    (if Unix t + 60 < Unix now then Inl ErrInvalidToken
     else if Unix (now + ttl) \<le> Unix t then Inl ErrExpiredToken
     else Inr \<lparr>Sub = sub, Ver = ver, IssuedAt = Unix now, ExpiresAt = Unix (now + ttl)\<rparr>)"
proof -
  have le: "Unix now \<le> Unix (now + ttl)" using assms(5) by (simp add: Unix_def Second_def zdiv_mono1)
  define c where "c = \<lparr>Sub = sub, Ver = ver, IssuedAt = Unix now, ExpiresAt = Unix (now + ttl)\<rparr>"
  have p: "json_Unmarshal (claims_text c) = Some (JObj [(''sub'', JStr sub), (''ver'', JInt ver), (''iat'', JInt (Unix now)), (''exp'', JInt (Unix (now + ttl)))])"
    using claims_text_parses[of c] assms le by (simp add: c_def)
  have f: "to_struct claims_fields (JObj [(''sub'', JStr sub), (''ver'', JInt ver), (''iat'', JInt (Unix now)), (''exp'', JInt (Unix (now + ttl)))])
      \<lparr>Sub = '''', Ver = 0, IssuedAt = 0, ExpiresAt = 0\<rparr> = Some c"
    unfolding c_def by (rule fields_read_back) (use assms le in auto)
  show ?thesis
    unfolding Sign_def Let_def c_def[symmetric] Verify_def
    using splitToken_signed[of jwt_header "claims_text c" "hmac_sha256 secret (base64URL jwt_header @ ''.'' @ base64URL (claims_text c))"] p f assms(1,2)
    by (simp add: header_reads_back base64_decode_encode) (simp add: c_def)
qed

text \<open>C13: A token reads back as the claims it was signed with, under the same secret, from its issue until it expires (and up to a
  minute before its issue, for a clock that lags); after that it is expired.\<close>

theorem sign_then_verify:
  assumes "sub \<noteq> ''''" "0 \<le> ver" "ver < 2 ^ 63" "0 \<le> Unix now" "0 \<le> ttl" "Unix (now + ttl) < 2 ^ 63"
  shows "Verify secret t (fst (Sign secret sub ver ttl now)) =
    (if Unix t + 60 < Unix now then Inl ErrInvalidToken
     else if Unix (now + ttl) \<le> Unix t then Inl ErrExpiredToken
     else Inr \<lparr>Sub = sub, Ver = ver, IssuedAt = Unix now, ExpiresAt = Unix (now + ttl)\<rparr>)"
  by (rule Verify_signed[OF assms])

definition year_2026 :: instant where
  "year_2026 = (62135596800 + 1767225600) * Second"

theorem sign_then_verify_witness:
  "Verify ''key'' (year_2026 + 5 * Second) (fst (Sign ''key'' ''admin'' 3 Hour year_2026))
    = Inr \<lparr>Sub = ''admin'', Ver = 3, IssuedAt = 1767225600, ExpiresAt = 1767229200\<rparr>"
  using sign_then_verify[of "''admin''" 3 year_2026 Hour "''key''" "year_2026 + 5 * Second"]
  by (simp add: year_2026_def Unix_def time_defs)

end
