(* ===== verification/Civil.thy ===== *)
theory Civil
  imports Prelude
begin

text \<open>
  The clock texts of Go's \<open>time\<close> package the program reads and writes: civil dates, RFC 3339, and the layout
  \<open>2006-01-02 15:04:05\<close> in a fixed zone.
\<close>

section \<open>Civil dates\<close>

text \<open>Days since 1 January of year 1 as a civil date, by eras of 400 years that begin in March.\<close>

definition civil :: "int \<Rightarrow> int \<times> int \<times> int" where
  "civil d =
    (let z = d + 306; era = z div 146097; doe = z mod 146097;
         yoe = (doe - doe div 1460 + doe div 36524 - doe div 146096) div 365;
         doy = doe - (365 * yoe + yoe div 4 - yoe div 100); mp = (5 * doy + 2) div 153;
         day = doy - (153 * mp + 2) div 5 + 1; m = (if mp < 10 then mp + 3 else mp - 9)
     in (yoe + era * 400 + (if m \<le> 2 then 1 else 0), m, day))"

definition civil_days :: "int \<Rightarrow> int \<Rightarrow> int \<Rightarrow> int" where
  "civil_days y m day =
    (let y = (if m \<le> 2 then y - 1 else y); era = y div 400; yoe = y mod 400;
         doy = (153 * (if 2 < m then m - 3 else m + 9) + 2) div 5 + day - 1;
         doe = yoe * 365 + yoe div 4 - yoe div 100 + doy
     in era * 146097 + doe - 306)"

definition padded :: "nat \<Rightarrow> int \<Rightarrow> string" where
  "padded k n = (let ds = dec_digits n in replicate (k - length ds) (CHR ''0'') @ ds)"

definition date_text :: "int \<Rightarrow> string" where
  "date_text d = (case civil d of (y, m, day) \<Rightarrow> padded 4 y @ ''-'' @ padded 2 m @ ''-'' @ padded 2 day)"

definition day_of :: "instant \<Rightarrow> int" where
  "day_of t = t div (24 * Hour)"

text \<open>\<open>timeRFC3339Milli\<close> of a UTC time.\<close>

definition rfc3339_milli :: "instant \<Rightarrow> string" where
  "rfc3339_milli t =
    (let s = t mod (24 * Hour) in date_text (day_of t) @ ''T'' @ padded 2 (s div Hour) @ '':'' @ padded 2 (s div Minute mod 60) @ '':''
       @ padded 2 (s div Second mod 60) @ ''.'' @ padded 3 (s div 1000000 mod 1000) @ ''Z'')"

definition two :: "char \<Rightarrow> char \<Rightarrow> int option" where
  "two a b = (if is_digit a \<and> is_digit b then Some (digits_value [a, b]) else None)"

definition days_in_month :: "int \<Rightarrow> int \<Rightarrow> int" where
  "days_in_month y m = (if m = 12 then 31 else civil_days y (m + 1) 1 - civil_days y m 1)"

definition zone_offset :: "string \<Rightarrow> duration option" where
  "zone_offset z = (case z of
      [u] \<Rightarrow> if u = CHR ''Z'' then Some 0 else None
    | [g, a, b, c, x, y] \<Rightarrow>
        (case (two a b, two x y) of
           (Some h, Some m) \<Rightarrow> if c = CHR '':'' \<and> h \<le> 24 \<and> m < 60 \<and> (g = CHR ''+'' \<or> g = CHR ''-'')
             then Some ((if g = CHR ''+'' then 1 else - 1) * (h * Hour + m * Minute)) else None
         | _ \<Rightarrow> None)
    | _ \<Rightarrow> None)"

text \<open>\<open>time.Parse(time.RFC3339, v)\<close>; a fraction of the seconds may follow, cut at nanoseconds.\<close>

definition parse_rfc3339 :: "string \<Rightarrow> instant option" where
  "parse_rfc3339 v = (case v of
      y1 # y2 # y3 # y4 # s1 # m1 # m2 # s2 # d1 # d2 # sep # h1 # h2 # c1 # n1 # n2 # c2 # x1 # x2 # rest \<Rightarrow>
        (case (two y1 y2, two y3 y4, two m1 m2, two d1 d2, two h1 h2, two n1 n2, two x1 x2) of
           (Some ya, Some yb, Some mo, Some d, Some h, Some mi, Some sec) \<Rightarrow>
             (let y = 100 * ya + yb; frac = (if rest \<noteq> [] \<and> (hd rest = CHR ''.'' \<or> hd rest = CHR '','') then takeWhile is_digit (tl rest) else []);
                  zone = (if frac = [] then rest else drop (length frac + 1) rest)
              in if s1 = CHR ''-'' \<and> s2 = CHR ''-'' \<and> sep = CHR ''T'' \<and> c1 = CHR '':'' \<and> c2 = CHR '':''
                   \<and> 1 \<le> mo \<and> mo \<le> 12 \<and> 1 \<le> d \<and> d \<le> days_in_month y mo \<and> h < 24 \<and> mi < 60 \<and> sec < 60
                 then map_option (\<lambda>off. civil_days y mo d * (24 * Hour) + h * Hour + mi * Minute + sec * Second
                        + digits_value (take 9 (frac @ replicate 9 (CHR ''0''))) - off) (zone_offset zone)
                 else None)
         | _ \<Rightarrow> None)
    | _ \<Rightarrow> None)"

section \<open>Dates and times in a fixed zone\<close>

text \<open>\<open>t.In(zone).Format(time.DateTime)\<close> and \<open>t.In(zone).Format("2006-01-02")\<close> for a zone \<open>off\<close> east of UTC.\<close>

definition datetime_text :: "duration \<Rightarrow> instant \<Rightarrow> string" where
  "datetime_text off t =
    (let u = t + off; s = u mod (24 * Hour) in date_text (day_of u) @ '' '' @ padded 2 (s div Hour) @ '':'' @ padded 2 (s div Minute mod 60) @ '':''
       @ padded 2 (s div Second mod 60))"

definition day_text :: "duration \<Rightarrow> instant \<Rightarrow> string" where
  "day_text off t = date_text (day_of (t + off))"

text \<open>\<open>time.ParseInLocation(time.DateTime, v, zone)\<close>: the hour may have one digit, and a fraction may follow the seconds.\<close>

definition hour_of :: "string \<Rightarrow> (int \<times> string) option" where
  "hour_of v = (case v of [] \<Rightarrow> None
    | a # r \<Rightarrow> if \<not> is_digit a then None
        else (case r of b # r' \<Rightarrow> if is_digit b then Some (digits_value [a, b], r') else Some (digits_value [a], r) | [] \<Rightarrow> Some (digits_value [a], [])))"

definition clock_of :: "string \<Rightarrow> duration option" where
  "clock_of v = (case hour_of v of None \<Rightarrow> None
    | Some (h, r) \<Rightarrow>
       (case r of
          c1 # n1 # n2 # c2 # x1 # x2 # rest \<Rightarrow>
            (case (two n1 n2, two x1 x2) of
               (Some mi, Some sec) \<Rightarrow>
                 (let frac = (case rest of p # f # _ \<Rightarrow> if (p = CHR ''.'' \<or> p = CHR '','') \<and> is_digit f then takeWhile is_digit (tl rest) else [] | _ \<Rightarrow> [])
                  in if c1 = CHR '':'' \<and> c2 = CHR '':'' \<and> h < 24 \<and> mi < 60 \<and> sec < 60 \<and> length rest = (if frac = [] then 0 else length frac + 1)
                     then Some (h * Hour + mi * Minute + sec * Second + digits_value (take 9 (frac @ replicate 9 (CHR ''0'')))) else None)
             | _ \<Rightarrow> None)
        | _ \<Rightarrow> None))"

definition parse_datetime :: "duration \<Rightarrow> string \<Rightarrow> instant option" where
  "parse_datetime off v = (case v of
      y1 # y2 # y3 # y4 # s1 # m1 # m2 # s2 # d1 # d2 # sep # rest \<Rightarrow>
        (case (two y1 y2, two y3 y4, two m1 m2, two d1 d2, clock_of rest) of
           (Some ya, Some yb, Some mo, Some d, Some c) \<Rightarrow>
             (let y = 100 * ya + yb in
              if s1 = CHR ''-'' \<and> s2 = CHR ''-'' \<and> sep = CHR '' '' \<and> 1 \<le> mo \<and> mo \<le> 12 \<and> 1 \<le> d \<and> d \<le> days_in_month y mo
              then Some (civil_days y mo d * (24 * Hour) + c - off) else None)
         | _ \<Rightarrow> None)
    | _ \<Rightarrow> None)"

end
