(* ===== verification/Http.thy ===== *)
theory Http
  imports AuthStore Jwt Throttle Civil
begin

text \<open>
  What the panel's handlers share (\<open>internal/api/server.go\<close>, \<open>handlers_auth.go\<close>): requests, responses, the server's
  state, and the audit helper. A request carries its
  body's first JSON value (\<open>None\<close> when it does not parse), its query and path values, the client identity
  \<open>clientIP\<close> computes, and the clock. Handlers act on the store's session and on \<open>'w\<close>, the jobs and channels
  outside; logging is left out. \<open>walletSeq\<close> is the counter of wallet snapshots (\<open>store/money.go\<close>).
\<close>

section \<open>Requests and responses\<close>

record request =
  rq_body :: "json option"
  rq_query :: "string \<Rightarrow> string"
  rq_path :: "string \<Rightarrow> string"
  rq_auth :: string
  rq_ip :: string
  rq_user :: string
  rq_now :: instant

record response =
  status :: int
  payload :: json

definition writeJSON :: "int \<Rightarrow> json \<Rightarrow> response" where
  "writeJSON st v = \<lparr>status = st, payload = v\<rparr>"

definition writeErr :: "int \<Rightarrow> string \<Rightarrow> string \<Rightarrow> response" where
  "writeErr st code msg = writeJSON st (JObj [(''code'', JStr code), (''message'', JStr msg)])"

definition internalError :: response where
  "internalError = writeErr 500 ''internal'' ''internal error''"

definition decode :: "'p field list \<Rightarrow> 'p \<Rightarrow> request \<Rightarrow> 'p option" where
  "decode fs zero r = (case rq_body r of None \<Rightarrow> None | Some j \<Rightarrow> to_struct fs j zero)"

section \<open>The server\<close>

record 'w server =
  ses :: session
  logins :: loginLimiter
  smsFails :: slots
  jobRuns :: writeBucket
  channelWrites :: writeBucket
  walletSeq :: int
  outside :: 'w

record 'w api =
  Secret :: string
  TTL :: duration
  AdminUser :: string
  Version :: string
  EnvironmentDryRun :: "bool option"
  PasswordHash :: "session \<Rightarrow> (goerr + string) \<times> session"
  PasswordChange :: "(string \<Rightarrow> string \<Rightarrow> session \<Rightarrow> (goerr + unit) \<times> session) option"
  CheckPassword :: "string \<Rightarrow> string \<Rightarrow> bool"
  HashPassword :: "string \<Rightarrow> goerr + string"
  dummyHash :: string

text \<open>\<open>NewServerWithTTL\<close>: the session length a server accepts.\<close>

definition server_ttl :: "duration \<Rightarrow> duration" where
  "server_ttl ttl = (if ttl \<le> 0 \<or> 24 * Hour < ttl then 24 * Hour else ttl)"

definition NewServer :: "session \<Rightarrow> 'w \<Rightarrow> 'w server" where
  "NewServer s w = \<lparr>ses = s, logins = newLoginLimiter, smsFails = [], jobRuns = jobRunBucket0, channelWrites = channelWriteBucket0,
     walletSeq = 0, outside = w\<rparr>"

definition auditEntry :: "request \<Rightarrow> string \<Rightarrow> (string \<times> json) list option \<Rightarrow> AuditEntry" where
  "auditEntry r action detail = \<lparr>ae_Time = rq_now r, ae_Actor = ''user:'' @ rq_user r, ae_Action = action, ae_Channel = '''',
     ae_Target = '''', ae_Detail = detail\<rparr>"

text \<open>Best effort: an entry that cannot be written is dropped.\<close>

definition audit :: "request \<Rightarrow> string \<Rightarrow> (string \<times> json) list option \<Rightarrow> 'w server \<Rightarrow> 'w server" where
  "audit r action detail sv = sv\<lparr>ses := snd (InsertAudit (auditEntry r action detail) (ses sv))\<rparr>"

type_synonym 'w handler = "request \<Rightarrow> 'w server \<Rightarrow> response \<times> 'w server"

end
