(* ===== verification/ApiAuth.thy ===== *)
theory ApiAuth
  imports Http
begin

text \<open>
  Sessions at the panel: login, logout, password change and the check in front of every protected endpoint
  (\<open>internal/api/handlers_auth.go\<close>, \<open>internal/api/server.go\<close>). bcrypt and the hash a wrong user name is checked
  against are parameters of the server.
\<close>

section \<open>Login\<close>

record loginRequest =
  lr_Username :: string
  lr_Password :: string

definition login_fields :: "loginRequest field list" where
  "login_fields = [string_field ''username'' (\<lambda>v q. q\<lparr>lr_Username := v\<rparr>), string_field ''password'' (\<lambda>v q. q\<lparr>lr_Password := v\<rparr>)]"

definition sessionEpoch :: "session \<Rightarrow> (goerr + int) \<times> session" where
  "sessionEpoch s = (case SessionEpoch s of
     (Inl e, s) \<Rightarrow> (Inl (Errorf (''auth: credential store unavailable: '' @ Error e)), s) | (Inr n, s) \<Rightarrow> (Inr n, s))"

definition username_detail :: "loginRequest \<Rightarrow> (string \<times> json) list" where
  "username_detail q = [(''username'', JStr (lr_Username q))]"

definition count_fail :: "string \<Rightarrow> request \<Rightarrow> 'w server \<Rightarrow> 'w server" where
  "count_fail key r sv = sv\<lparr>logins := login_fail key (rq_ip r) (rq_now r) (logins sv)\<rparr>"

definition clear_fails :: "string \<Rightarrow> request \<Rightarrow> 'w server \<Rightarrow> 'w server" where
  "clear_fails key r sv = sv\<lparr>logins := login_reset key (rq_ip r) (logins sv)\<rparr>"

text \<open>The part after the throttle let the attempt through: the epoch first, then the password snapshot.\<close>

definition check_login :: "'w api \<Rightarrow> loginRequest \<Rightarrow> string \<Rightarrow> 'w handler" where
  "check_login a q key r sv =
    (case sessionEpoch (ses sv) of
       (Inl e, s) \<Rightarrow> (internalError, sv\<lparr>ses := s\<rparr>)
     | (Inr epoch, s) \<Rightarrow>
        (case PasswordHash a s of
           (Inl e, s) \<Rightarrow>
             (internalError, audit r ''login.failed'' (Some (username_detail q @ [(''error'', JStr ''credential_load'')])) (count_fail key r (sv\<lparr>ses := s\<rparr>)))
         | (Inr hash, s) \<Rightarrow>
             (let sv = sv\<lparr>ses := s\<rparr>; userOK = (lr_Username q = AdminUser a);
                  pwOK = CheckPassword a (if userOK then hash else dummyHash a) (lr_Password q)
              in if \<not> userOK \<or> \<not> pwOK
                 then (writeErr 401 ''unauthorized'' ''bad credentials'', audit r ''login.failed'' (Some (username_detail q)) (count_fail key r sv))
                 else let (tok, exp) = Sign (Secret a) (lr_Username q) epoch (TTL a) (rq_now r)
                   in (writeJSON 200 (JObj [(''token'', JStr tok), (''expires_at'', JStr (rfc3339_milli exp))]),
                       audit r ''login.success'' (Some (username_detail q)) (clear_fails key r sv)))))"

definition handleLogin :: "'w api \<Rightarrow> 'w handler" where
  "handleLogin a r sv =
    (case decode login_fields \<lparr>lr_Username = '''', lr_Password = ''''\<rparr> r of
       None \<Rightarrow> (writeErr 400 ''bad_request'' ''invalid json'', sv)
     | Some q \<Rightarrow>
        (let key = rq_ip r @ ''|'' @ lr_Username q; (ok, l) = login_allow key (rq_ip r) (rq_now r) (logins sv); sv = sv\<lparr>logins := l\<rparr>
         in if \<not> ok
            then (writeErr 429 ''rate_limited'' ''too many attempts, retry later'', audit r ''login.rate_limited'' (Some (username_detail q)) sv)
            else check_login a q key r sv))"

definition handleHealth :: "'w api \<Rightarrow> 'w handler" where
  "handleHealth a r sv = (writeJSON 200 (JObj [(''status'', JStr ''ok''), (''version'', JStr (Version a))]), sv)"

definition handleMe :: "'w handler" where
  "handleMe r sv = (writeJSON 200 (JObj [(''username'', JStr (rq_user r))]), sv)"

section \<open>Logout and passwords\<close>

definition handleLogout :: "'w handler" where
  "handleLogout r sv =
    (case BumpSessionEpoch (ses sv) of
       (Inl e, s) \<Rightarrow> (internalError, sv\<lparr>ses := s\<rparr>)
     | (Inr ver, s) \<Rightarrow> (writeJSON 200 (JObj [(''ok'', JBool True)]), audit r ''auth.logout'' (Some [(''epoch'', JInt ver)]) (sv\<lparr>ses := s\<rparr>)))"

record passwordRequest =
  pw_Current :: string
  pw_New :: string

definition password_fields :: "passwordRequest field list" where
  "password_fields = [string_field ''current_password'' (\<lambda>v q. q\<lparr>pw_Current := v\<rparr>), string_field ''new_password'' (\<lambda>v q. q\<lparr>pw_New := v\<rparr>)]"

definition change_password ::
    "'w api \<Rightarrow> (string \<Rightarrow> string \<Rightarrow> session \<Rightarrow> (goerr + unit) \<times> session) \<Rightarrow> passwordRequest \<Rightarrow> string \<Rightarrow> 'w handler" where
  "change_password a change q key r sv =
    (case PasswordHash a (ses sv) of
       (Inl e, s) \<Rightarrow> (internalError, sv\<lparr>ses := s\<rparr>)
     | (Inr old, s) \<Rightarrow>
        (if \<not> CheckPassword a old (pw_Current q)
         then (writeErr 400 ''bad_credentials'' ''current password is incorrect'', audit r ''auth.password_failed'' None (count_fail key r (sv\<lparr>ses := s\<rparr>)))
         else case HashPassword a (pw_New q) of
             Inl e \<Rightarrow> (internalError, sv\<lparr>ses := s\<rparr>)
           | Inr new \<Rightarrow>
              (case change old new s of
                 (Inl e, s) \<Rightarrow>
                   (if ErrPasswordChanged \<in> set (wrapped e) then writeErr 409 ''password_changed'' ''password changed concurrently'' else internalError,
                    sv\<lparr>ses := s\<rparr>)
               | (Inr _, s) \<Rightarrow> (writeJSON 200 (JObj [(''ok'', JBool True)]), audit r ''auth.password_changed'' None (clear_fails key r (sv\<lparr>ses := s\<rparr>))))))"

definition handlePasswordChange :: "'w api \<Rightarrow> 'w handler" where
  "handlePasswordChange a r sv =
    (case PasswordChange a of
       None \<Rightarrow> (writeErr 409 ''password_managed_externally'' ''password is managed by deployment configuration'', sv)
     | Some change \<Rightarrow>
        (case decode password_fields \<lparr>pw_Current = '''', pw_New = ''''\<rparr> r of
           None \<Rightarrow> (writeErr 400 ''bad_request'' ''new password must contain 12 to 72 bytes'', sv)
         | Some q \<Rightarrow>
            if length (pw_New q) < 12 \<or> 72 < length (pw_New q) then (writeErr 400 ''bad_request'' ''new password must contain 12 to 72 bytes'', sv)
            else let key = rq_ip r @ ''|password:'' @ rq_user r; (ok, l) = login_allow key (rq_ip r) (rq_now r) (logins sv); sv = sv\<lparr>logins := l\<rparr>
              in if \<not> ok then (writeErr 429 ''rate_limited'' ''too many attempts, retry later'', sv) else change_password a change q key r sv))"

section \<open>The check in front of protected endpoints\<close>

definition bearer :: "string \<Rightarrow> string option" where
  "bearer h = (case strip_prefix ''Bearer '' h of None \<Rightarrow> None | Some t \<Rightarrow> if t = '''' then None else Some t)"

definition requireAuth :: "'w api \<Rightarrow> 'w handler \<Rightarrow> 'w handler" where
  "requireAuth a next r sv =
    (case bearer (rq_auth r) of
       None \<Rightarrow> (writeErr 401 ''unauthorized'' ''missing bearer token'', sv)
     | Some tok \<Rightarrow>
        (case Verify (Secret a) (rq_now r) tok of
           Inl _ \<Rightarrow> (writeErr 401 ''unauthorized'' ''invalid token'', sv)
         | Inr claims \<Rightarrow>
            (case sessionEpoch (ses sv) of
               (Inl e, s) \<Rightarrow> (writeErr 401 ''unauthorized'' ''session unavailable'', sv\<lparr>ses := s\<rparr>)
             | (Inr epoch, s) \<Rightarrow>
                if Ver claims \<noteq> epoch then (writeErr 401 ''unauthorized'' ''token revoked'', sv\<lparr>ses := s\<rparr>)
                else next (r\<lparr>rq_user := Sub claims\<rparr>) (sv\<lparr>ses := s\<rparr>))))"

end
