(* ===== verification/ApiAuthProps.thy ===== *)
theory ApiAuthProps
  imports ApiAuth
begin

text \<open>
  What sessions promise: only the password opens one, a logout or a password change closes all those before it for
  good, and a password change is all or nothing.
\<close>

section \<open>Settings are only written where they should be\<close>

text \<open>The server as \<open>cmd/server/main.go\<close> wires it: the password from the environment, or from the store.\<close>

definition wired :: "'w api \<Rightarrow> bool" where
  "wired a \<longleftrightarrow> (\<exists>h. PasswordHash a = (\<lambda>s. (Inr h, s)) \<and> PasswordChange a = None)
     \<or> (PasswordHash a = AdminPasswordHash \<and> PasswordChange a = Some ChangeAdminPassword)"

definition settings :: "'w server \<Rightarrow> setting_row list" where
  "settings sv = app_settings (db (ses sv))"

lemma InsertAudit_settings: "app_settings (db (snd (InsertAudit e s))) = app_settings (db s)"
  by (simp add: InsertAudit_def Exec_def past_def split: option.splits)

lemma settings_frame [simp]:
  "settings (audit r act d sv) = settings sv" "settings (count_fail key r sv) = settings sv" "settings (clear_fails key r sv) = settings sv"
  "settings (sv\<lparr>logins := l\<rparr>) = settings sv" "settings (sv\<lparr>ses := s\<rparr>) = app_settings (db s)"
  by (simp_all add: settings_def audit_def InsertAudit_settings count_fail_def clear_fails_def)

lemma AdminPasswordHash_dbD: "AdminPasswordHash s = (r, s') \<Longrightarrow> db s' = db s"
  by (auto simp: AdminPasswordHash_def dest: GetSetting_dbD split: prod.splits sum.splits option.splits if_splits)

lemma PasswordHash_dbD: "wired a \<Longrightarrow> PasswordHash a s = (r, s') \<Longrightarrow> db s' = db s"
  by (auto simp: wired_def dest: AdminPasswordHash_dbD)

lemma sessionEpoch_dbD: "sessionEpoch s = (r, s') \<Longrightarrow> db s' = db s"
  by (auto simp: sessionEpoch_def dest: SessionEpoch_dbD split: prod.splits sum.splits)

lemma login_settings:
  assumes "wired a"
  shows "settings (snd (handleLogin a r sv)) = settings sv"
  by (auto simp: handleLogin_def check_login_def Let_def settings_def[of sv] dest!: sessionEpoch_dbD PasswordHash_dbD[OF assms]
      split: option.splits prod.splits sum.splits)

section \<open>The epoch only grows\<close>

definition epoch_le :: "tables \<Rightarrow> tables \<Rightarrow> bool" where
  "epoch_le t t' \<longleftrightarrow> (\<forall>m. epoch_of t = Some m \<longrightarrow> (\<exists>n. epoch_of t' = Some n \<and> m \<le> n))"

lemma epoch_of_settings: "app_settings t = app_settings t' \<Longrightarrow> epoch_of t = epoch_of t'"
  by (simp add: epoch_of_def setting_of_def)

lemma epoch_le_settings: "app_settings t = app_settings t' \<Longrightarrow> epoch_le t t'"
  using epoch_of_settings[of t t'] by (simp add: epoch_le_def)

lemma epoch_le_trans: "epoch_le t u \<Longrightarrow> epoch_le u v \<Longrightarrow> epoch_le t v"
  unfolding epoch_le_def by (meson order_trans)

lemma change_ok:
  assumes "ChangeAdminPassword old new s = (Inr u, s')"
  shows "\<exists>n. epoch_of (db s) = Some (n - 1) \<and> epoch_of (db s') = Some n
    \<and> length (filter (is_password old) (app_settings (db s))) = 1
    \<and> (\<exists>(s1 :: session) (s2 :: session). db s1 = snd (sql_set_password old new (db_now s) (db s)) \<and> bumpEpoch s1 = (Inr n, s2) \<and> db s2 = db s')"
proof -
  obtain c and s1 :: session where b: "change_password_body old new (past s) = (Inr (c, u), s1)" "db s' = (if c then db s1 else db s)"
    using Tx_ok[OF assms[unfolded ChangeAdminPassword_def]] by auto
  obtain k and s2 :: session where x: "ExecR (sql_set_password old new (db_now s)) (past s) = (Inr k, s2)"
    using b(1) by (auto simp: change_password_body_def now_frame split: prod.splits sum.splits)
  have k: "k = length (filter (is_password old) (app_settings (db s)))" "db s2 = snd (sql_set_password old new (db_now s) (db s))"
    using x by (auto simp: ExecR_def sql_set_password_def past_db split: option.splits)
  obtain n and s3 :: session where y: "bumpEpoch s2 = (Inr n, s3)" "k = 1" "c" "s3 = s1"
    using b(1) x by (auto simp: change_password_body_def now_frame split: prod.splits sum.splits if_splits)
  have e: "epoch_of (db s) = Some (n - 1)" "epoch_of (db s3) = Some n"
    using bumpEpoch_ok[OF y(1)] epoch_set_password[of old new "db_now s" "db s"] k(2) by simp_all
  show ?thesis using e k y b(2) by (intro exI[of _ n]) auto
qed

lemma setting_upd_other:
  assumes "\<And>r. G_key (f r) = G_key r" "k \<noteq> j"
  shows "setting_of k (t\<lparr>app_settings := upd_where (\<lambda>r. G_key r = j) f (app_settings t)\<rparr>) = setting_of k t"
  using assms by (cases "setting_of k t") (auto simp: setting_upd dest: setting_of_key)

lemma bump_settings:
  assumes "sql_bump_epoch now t = Inr (n, t')" "k \<noteq> sessionEpochKey"
  shows "setting_of k t' = setting_of k t"
proof (cases "setting_of sessionEpochKey t")
  case None
  then show ?thesis using assms setting_append[OF None, of k] by (auto simp: sql_bump_epoch_def split: option.splits)
next
  case (Some r)
  obtain m where "t' = t\<lparr>app_settings := upd_where (\<lambda>r. G_key r = sessionEpochKey)
      (\<lambda>r. r\<lparr>G_value_plain := Some (JInt m), G_updated_at := now\<rparr>) (app_settings t)\<rparr>"
    using assms Some by (auto simp: sql_bump_epoch_def split: option.splits json.splits if_splits)
  then show ?thesis using assms(2) by (simp add: setting_upd_other)
qed

lemma bumpEpoch_settings:
  assumes "bumpEpoch s = (Inr n, s')" "k \<noteq> sessionEpochKey"
  shows "setting_of k (db s') = setting_of k (db s)"
proof -
  have "sql_bump_epoch (db_now s) (db s) = Inr (n, db s')"
    using assms(1) by (auto simp: bumpEpoch_def ExecE_def past_def split: option.splits sum.splits prod.splits)
  then show ?thesis by (rule bump_settings[OF _ assms(2)])
qed

lemma epoch_le_bump: "bumpEpoch s = (Inr n, s') \<Longrightarrow> epoch_le (db s) (db s')"
  by (drule bumpEpoch_ok) (auto simp: epoch_le_def)

lemma epoch_le_audit: "epoch_le t (db (ses sv)) \<Longrightarrow> epoch_le t (db (ses (audit r act d sv)))"
  by (rule epoch_le_trans, assumption) (rule epoch_le_settings, simp add: audit_def InsertAudit_settings)

lemma logout_cases:
  "(\<exists>e s. BumpSessionEpoch (ses sv) = (Inl e, s) \<and> handleLogout r sv = (internalError, sv\<lparr>ses := s\<rparr>))
   \<or> (\<exists>n s. BumpSessionEpoch (ses sv) = (Inr n, s) \<and> handleLogout r sv = (writeJSON 200 (JObj [(''ok'', JBool True)]),
        audit r ''auth.logout'' (Some [(''epoch'', JInt n)]) (sv\<lparr>ses := s\<rparr>)))"
  by (auto simp: handleLogout_def split: prod.splits sum.splits)

lemma logout_epoch: "epoch_le (db (ses sv)) (db (ses (snd (handleLogout r sv))))"
  using logout_cases[of sv r] unfolding BumpSessionEpoch_def
proof (elim disjE exE conjE)
  fix e s assume "bumpEpoch (ses sv) = (Inl e, s)" "handleLogout r sv = (internalError, sv\<lparr>ses := s\<rparr>)"
  then show ?thesis by (simp add: bumpEpoch_error epoch_le_settings)
next
  fix n s assume b: "bumpEpoch (ses sv) = (Inr n, s)" "handleLogout r sv = (writeJSON 200 (JObj [(''ok'', JBool True)]),
        audit r ''auth.logout'' (Some [(''epoch'', JInt n)]) (sv\<lparr>ses := s\<rparr>))"
  show ?thesis unfolding b(2) snd_conv by (rule epoch_le_audit) (simp add: epoch_le_bump[OF b(1)])
qed

section \<open>Password changes\<close>

definition stored_password :: "tables \<Rightarrow> string option" where
  "stored_password t = (case setting_of ''admin_password_hash'' t of None \<Rightarrow> None | Some r \<Rightarrow> G_value_enc r)"

lemma stored_password_settings: "app_settings t = app_settings t' \<Longrightarrow> stored_password t = stored_password t'"
  by (simp add: stored_password_def setting_of_def)

lemma changed_password:
  assumes "ChangeAdminPassword old new s = (Inr u, s')" "distinct (map G_key (app_settings (db s)))"
  shows "stored_password (db s) = Some old \<and> stored_password (db s') = Some new"
proof -
  obtain n and s1 :: session and s2 :: session where
    o: "length (filter (is_password old) (app_settings (db s))) = 1"
    and d: "db s1 = snd (sql_set_password old new (db_now s) (db s))" and b: "bumpEpoch s1 = (Inr n, s2)" "db s2 = db s'"
    using change_ok[OF assms(1)] by blast
  obtain x where x: "x \<in> set (app_settings (db s))" "is_password old x"
    using o by (metis filter_empty_conv length_0_conv zero_neq_one)
  have f: "setting_of ''admin_password_hash'' (db s) = Some x"
    using find_unique[OF assms(2) x(1)] x(2) by (simp add: setting_of_def is_password_def)
  have "stored_password (db s1) = Some new" using x(2) by (simp add: d sql_set_password_def stored_password_def setting_upd f is_password_def)
  then have "stored_password (db s') = Some new"
    using bumpEpoch_settings[OF b(1), of "''admin_password_hash''"] b(2) by (simp add: stored_password_def sessionEpochKey_def)
  then show ?thesis using f x(2) by (simp add: stored_password_def is_password_def)
qed

definition changed :: "'w api \<Rightarrow> request \<Rightarrow> 'w server \<Rightarrow> 'w server \<Rightarrow> string \<Rightarrow> string \<Rightarrow> bool" where
  "changed a r sv sv' old new \<longleftrightarrow>
    (\<exists>q (s :: session) (s' :: session). decode password_fields \<lparr>pw_Current = '''', pw_New = ''''\<rparr> r = Some q \<and> CheckPassword a old (pw_Current q)
      \<and> HashPassword a (pw_New q) = Inr new \<and> db s = db (ses sv) \<and> ChangeAdminPassword old new s = (Inr (), s')
      \<and> app_settings (db s') = settings sv')"

lemma status_simps [simp]: "status (writeErr n c m) = n" "status (writeJSON n v) = n" "status internalError = 500"
  by (simp_all add: writeErr_def writeJSON_def internalError_def)

lemma change_error: "ChangeAdminPassword old new s = (Inl e, s') \<Longrightarrow> db s' = db s"
  unfolding ChangeAdminPassword_def by (rule Tx_error)

lemma change_password_cases:
  assumes "change_password a ChangeAdminPassword q key r sv = (resp, sv')" "PasswordHash a = AdminPasswordHash"
    "decode password_fields \<lparr>pw_Current = '''', pw_New = ''''\<rparr> r = Some q"
  shows "(status resp \<noteq> 200 \<and> settings sv' = settings sv) \<or> (status resp = 200 \<and> (\<exists>old new. changed a r sv sv' old new))"
proof -
  obtain ph and s :: session where P: "AdminPasswordHash (ses sv) = (ph, s)" by (cases "AdminPasswordHash (ses sv)")
  have d: "db s = db (ses sv)" by (rule AdminPasswordHash_dbD[OF P])
  show ?thesis
  proof (cases ph)
    case (Inl e)
    then show ?thesis using assms(1) by (auto simp: change_password_def assms(2) P settings_def[of sv] d)
  next
    case (Inr old)
    show ?thesis
    proof (cases "CheckPassword a old (pw_Current q)")
      case False
      then show ?thesis using assms(1) Inr by (auto simp: change_password_def assms(2) P settings_def[of sv] d)
    next
      case True
      show ?thesis
      proof (cases "HashPassword a (pw_New q)")
        case h: (Inl e)
        then show ?thesis using assms(1) Inr True by (auto simp: change_password_def assms(2) P settings_def[of sv] d)
      next
        case h: (Inr new)
        obtain c and s' :: session where C: "ChangeAdminPassword old new s = (c, s')" by (cases "ChangeAdminPassword old new s")
        show ?thesis
        proof (cases c)
          case (Inl e)
          then show ?thesis using assms(1) \<open>ph = Inr old\<close> True h C change_error[OF C[unfolded Inl]]
            by (auto simp: change_password_def assms(2) P settings_def[of sv] d split: if_splits)
        next
          case c: (Inr u)
          then have "status resp = 200" "settings sv' = app_settings (db s')"
            using assms(1) Inr True h C by (auto simp: change_password_def assms(2) P)
          moreover have "changed a r sv sv' old new"
            unfolding changed_def using assms(3) True h d C c calculation(2) by (intro exI[of _ q] exI[of _ s] exI[of _ s']) simp
          ultimately show ?thesis by blast
        qed
      qed
    qed
  qed
qed

lemma password_cases:
  assumes "wired a" "handlePasswordChange a r sv = (resp, sv')"
  shows "(status resp \<noteq> 200 \<and> settings sv' = settings sv) \<or> (status resp = 200 \<and> (\<exists>old new. changed a r sv sv' old new))"
proof (cases "PasswordChange a")
  case None
  then show ?thesis using assms(2) by (auto simp: handlePasswordChange_def)
next
  case (Some f)
  then have f: "f = ChangeAdminPassword" "PasswordHash a = AdminPasswordHash" using assms(1) by (auto simp: wired_def)
  show ?thesis
  proof (cases "decode password_fields \<lparr>pw_Current = '''', pw_New = ''''\<rparr> r")
    case None
    then show ?thesis using assms(2) Some by (auto simp: handlePasswordChange_def)
  next
    case q: (Some q)
    obtain ok l where L: "login_allow (rq_ip r @ ''|password:'' @ rq_user r) (rq_ip r) (rq_now r) (logins sv) = (ok, l)"
      by (cases "login_allow (rq_ip r @ ''|password:'' @ rq_user r) (rq_ip r) (rq_now r) (logins sv)")
    show ?thesis
    proof (cases "length (pw_New q) < 12 \<or> 72 < length (pw_New q) \<or> \<not> ok")
      case True
      then show ?thesis using assms(2) Some q L by (auto simp: handlePasswordChange_def split: if_splits)
    next
      case False
      then have h: "change_password a ChangeAdminPassword q (rq_ip r @ ''|password:'' @ rq_user r) r (sv\<lparr>logins := l\<rparr>) = (resp, sv')"
        using assms(2) Some q L f by (simp add: handlePasswordChange_def)
      show ?thesis using change_password_cases[OF h f(2) q] by (auto simp: changed_def)
    qed
  qed
qed

text \<open>C14: A password change happens completely or not at all: either the answer is 200, the current password was right, the stored
  hash is replaced by one of the new password and the session epoch has moved on by one; or the answer is an error
  and every setting is as before.\<close>

theorem password_change_all_or_nothing:
  assumes "wired a" "handlePasswordChange a r sv = (resp, sv')" "distinct (map G_key (settings sv))"
  shows "(status resp \<noteq> 200 \<and> settings sv' = settings sv)
    \<or> (status resp = 200 \<and> (\<exists>q old new n. decode password_fields \<lparr>pw_Current = '''', pw_New = ''''\<rparr> r = Some q
        \<and> CheckPassword a old (pw_Current q) \<and> HashPassword a (pw_New q) = Inr new
        \<and> stored_password (db (ses sv)) = Some old \<and> stored_password (db (ses sv')) = Some new
        \<and> epoch_of (db (ses sv)) = Some n \<and> epoch_of (db (ses sv')) = Some (n + 1)))"
  using password_cases[OF assms(1,2)]
proof (elim disjE conjE exE)
  fix old new assume ok: "status resp = 200" and c: "changed a r sv sv' old new"
  obtain q and s :: session and s' :: session where q: "decode password_fields \<lparr>pw_Current = '''', pw_New = ''''\<rparr> r = Some q"
    "CheckPassword a old (pw_Current q)" "HashPassword a (pw_New q) = Inr new" "db s = db (ses sv)"
    "ChangeAdminPassword old new s = (Inr (), s')" "app_settings (db s') = settings sv'"
    using c unfolding changed_def by blast
  obtain n where n: "epoch_of (db s) = Some (n - 1)" "epoch_of (db s') = Some n" using change_ok[OF q(5)] by blast
  have p: "stored_password (db s) = Some old" "stored_password (db s') = Some new"
    using changed_password[OF q(5)] assms(3) q(4) by (simp_all add: settings_def)
  have e: "epoch_of (db (ses sv')) = Some n" "stored_password (db (ses sv')) = Some new"
    using epoch_of_settings[of "db s'" "db (ses sv')"] stored_password_settings[of "db s'" "db (ses sv')"] q(6) n p by (simp_all add: settings_def)
  show ?thesis using q(1-4) n(1) p(1) e ok
    by (intro disjI2 conjI exI[of _ q] exI[of _ old] exI[of _ new] exI[of _ "n - 1"]) simp_all
qed blast

section \<open>Revocation\<close>

text \<open>The program's steps as far as sessions go: the panel's three writes, and anything that leaves the epoch alone.\<close>

inductive auth_step :: "'w api \<Rightarrow> 'w server \<Rightarrow> 'w server \<Rightarrow> bool" for a where
  login: "handleLogin a r sv = (resp, sv') \<Longrightarrow> auth_step a sv sv'"
| logout: "handleLogout r sv = (resp, sv') \<Longrightarrow> auth_step a sv sv'"
| password: "handlePasswordChange a r sv = (resp, sv') \<Longrightarrow> auth_step a sv sv'"
| elsewhere: "epoch_of (db (ses sv')) = epoch_of (db (ses sv)) \<Longrightarrow> auth_step a sv sv'"

lemma auth_step_epoch:
  assumes "auth_step a sv sv'" "wired a"
  shows "epoch_le (db (ses sv)) (db (ses sv'))"
  using assms(1)
proof cases
  case (login r resp)
  then show ?thesis using login_settings[OF assms(2), of r sv] by (simp add: settings_def epoch_le_settings)
next
  case (logout r resp)
  then show ?thesis using logout_epoch[of sv r] by simp
next
  case (password r resp)
  then show ?thesis using password_cases[OF assms(2) password]
  proof (elim disjE conjE exE)
    fix old new assume "changed a r sv sv' old new"
    then obtain s :: session and s' :: session where q: "db s = db (ses sv)" "ChangeAdminPassword old new s = (Inr (), s')"
        "app_settings (db s') = settings sv'"
      unfolding changed_def by blast
    have "epoch_le (db (ses sv)) (db s')" using change_ok[OF q(2)] q(1) by (auto simp: epoch_le_def)
    then show ?thesis by (rule epoch_le_trans) (simp add: epoch_le_settings q(3) settings_def)
  qed (simp add: settings_def epoch_le_settings)
qed (simp add: epoch_le_def)

lemma auth_steps_epoch:
  assumes "(auth_step a)\<^sup>*\<^sup>* sv sv'" "wired a"
  shows "epoch_le (db (ses sv)) (db (ses sv'))"
  using assms(1)
proof (induction rule: rtranclp_induct)
  case base
  then show ?case by (simp add: epoch_le_def)
next
  case (step y z)
  then show ?case using auth_step_epoch[OF _ assms(2)] epoch_le_trans by blast
qed

text \<open>A closing: a logout or a password change that answered 200.\<close>

definition closes :: "'w api \<Rightarrow> 'w server \<Rightarrow> 'w server \<Rightarrow> bool" where
  "closes a sv sv' \<longleftrightarrow> (\<exists>r resp. status resp = 200 \<and> (handleLogout r sv = (resp, sv') \<or> handlePasswordChange a r sv = (resp, sv')))"

lemma closes_epoch:
  assumes "closes a sv sv'" "wired a"
  shows "\<exists>n. epoch_of (db (ses sv)) = Some n \<and> epoch_of (db (ses sv')) = Some (n + 1)"
proof -
  obtain r resp where ok: "status resp = 200" and h: "handleLogout r sv = (resp, sv') \<or> handlePasswordChange a r sv = (resp, sv')"
    using assms(1) unfolding closes_def by blast
  show ?thesis using h
  proof
    assume l: "handleLogout r sv = (resp, sv')"
    obtain n and s :: session where b: "bumpEpoch (ses sv) = (Inr n, s)" "sv' = audit r ''auth.logout'' (Some [(''epoch'', JInt n)]) (sv\<lparr>ses := s\<rparr>)"
      using logout_cases[of sv r] l ok by (auto simp: BumpSessionEpoch_def)
    have "epoch_of (db (ses sv')) = epoch_of (db s)" unfolding b(2) by (rule epoch_of_settings) (simp add: audit_def InsertAudit_settings)
    then show ?thesis using bumpEpoch_ok[OF b(1)] by (intro exI[of _ "n - 1"]) simp
  next
    assume p: "handlePasswordChange a r sv = (resp, sv')"
    obtain old new where "changed a r sv sv' old new" using password_cases[OF assms(2) p] ok by blast
    then obtain s :: session and s' :: session where q: "db s = db (ses sv)" "ChangeAdminPassword old new s = (Inr (), s')"
        "app_settings (db s') = settings sv'"
      unfolding changed_def by blast
    obtain n where n: "epoch_of (db s) = Some (n - 1)" "epoch_of (db s') = Some n" using change_ok[OF q(2)] by blast
    then show ?thesis using epoch_of_settings[of "db s'" "db (ses sv')"] q by (intro exI[of _ "n - 1"]) (simp add: settings_def)
  qed
qed

lemma SessionEpoch_bound:
  assumes "SessionEpoch s = (Inr n, s')" "epoch_of (db s) = Some m"
  shows "n \<le> m"
proof (cases "next_fault s")
  case None
  then show ?thesis using SessionEpoch_value[of s n] assms by simp
next
  case (Some e)
  have "0 \<le> m" using assms(2) by (auto simp: epoch_of_def split: option.splits json.splits if_splits)
  then show ?thesis using assms(1) Some by (auto simp: SessionEpoch_def GetSetting_def Query_def split: if_splits)
qed

lemma Verify_claims: "Verify secret t tok = Inr c \<Longrightarrow> Verify secret t' tok = Inr c' \<Longrightarrow> c' = c"
  by (auto simp: Verify_def split: list.splits option.splits if_splits)

text \<open>C15: A token that a server accepted is refused for ever once a logout or a password change has been answered with 200,
  whatever the program does before and after it: the protected handler behind the check does not run.\<close>

theorem revoked_for_good:
  fixes sv1 :: "'w server"
  assumes "wired a" "Verify (Secret a) t tok = Inr c" "fst (SessionEpoch (ses sv1)) = Inr (Ver c)" "next_fault (ses sv1) = None"
    "(auth_step a)\<^sup>*\<^sup>* sv1 sv2" "closes a sv2 sv3" "(auth_step a)\<^sup>*\<^sup>* sv3 sv4"
    "\<not> errors_Is (next_fault (ses sv4)) ErrNotFound" "rq_auth r = ''Bearer '' @ tok"
  shows "status (fst (requireAuth a next r sv4)) = 401 \<and> db (ses (snd (requireAuth a next r sv4))) = db (ses sv4)"
proof -
  have e1: "epoch_of (db (ses sv1)) = Some (Ver c)" by (rule SessionEpoch_value[OF assms(3,4)])
  obtain m where m: "epoch_of (db (ses sv2)) = Some m" "Ver c \<le> m" using auth_steps_epoch[OF assms(5,1)] e1 by (auto simp: epoch_le_def)
  then have "epoch_of (db (ses sv3)) = Some (m + 1)" using closes_epoch[OF assms(6,1)] by auto
  then obtain k where k: "epoch_of (db (ses sv4)) = Some k" "Ver c < k" using auth_steps_epoch[OF assms(7,1)] m(2) by (auto simp: epoch_le_def)
  obtain res and s :: session where E: "sessionEpoch (ses sv4) = (res, s)" by (cases "sessionEpoch (ses sv4)")
  have d: "db s = db (ses sv4)" by (rule sessionEpoch_dbD[OF E])
  have b: "bearer (rq_auth r) = Some tok \<or> bearer (rq_auth r) = None" by (simp add: assms(9) bearer_def)
  show ?thesis
  proof (cases "bearer (rq_auth r) = None \<or> (\<exists>x. Verify (Secret a) (rq_now r) tok = Inl x)")
    case True
    then show ?thesis using b by (auto simp: requireAuth_def)
  next
    case False
    then obtain c' where v: "Verify (Secret a) (rq_now r) tok = Inr c'" by (cases "Verify (Secret a) (rq_now r) tok") auto
    have c': "c' = c" by (rule Verify_claims[OF assms(2) v])
    have "n \<noteq> Ver c" if rn: "res = Inr n" for n
    proof -
      obtain s' where S: "SessionEpoch (ses sv4) = (Inr n, s')" using E rn by (auto simp: sessionEpoch_def split: prod.splits sum.splits)
      show ?thesis
      proof (cases "next_fault (ses sv4)")
        case None
        then show ?thesis using SessionEpoch_value[of "ses sv4" n] S k by simp
      next
        case (Some e)
        then show ?thesis using S assms(8) by (auto simp: SessionEpoch_def GetSetting_def Query_def split: if_splits)
      qed
    qed
    then show ?thesis using b False v c' d E by (cases res) (auto simp: requireAuth_def)
  qed
qed

section \<open>Opening a session\<close>

text \<open>A login that answers 200 came from the administrator's name and a password the stored hash accepts, past the throttle, and
  clears the failures of its key; its token is one signed for that name under the epoch read before the password was.\<close>

theorem login_needs_the_password:
  assumes "handleLogin a r sv = (resp, sv')" "status resp = 200"
  shows "\<exists>q epoch hash (s :: session) (s' :: session). decode login_fields \<lparr>lr_Username = '''', lr_Password = ''''\<rparr> r = Some q
    \<and> lr_Username q = AdminUser a
    \<and> fst (login_allow (rq_ip r @ ''|'' @ AdminUser a) (rq_ip r) (rq_now r) (logins sv))
    \<and> sessionEpoch (ses sv) = (Inr epoch, s) \<and> PasswordHash a s = (Inr hash, s') \<and> CheckPassword a hash (lr_Password q)
    \<and> payload resp = JObj [(''token'', JStr (fst (Sign (Secret a) (AdminUser a) epoch (TTL a) (rq_now r)))),
        (''expires_at'', JStr (rfc3339_milli (rq_now r + TTL a)))]
    \<and> map_of (fails (logins sv')) (rq_ip r @ ''|'' @ AdminUser a) = None"
proof (cases "decode login_fields \<lparr>lr_Username = '''', lr_Password = ''''\<rparr> r")
  case None
  then show ?thesis using assms by (auto simp: handleLogin_def)
next
  case (Some q)
  obtain ok l where L: "login_allow (rq_ip r @ ''|'' @ lr_Username q) (rq_ip r) (rq_now r) (logins sv) = (ok, l)"
    by (cases "login_allow (rq_ip r @ ''|'' @ lr_Username q) (rq_ip r) (rq_now r) (logins sv)")
  obtain er and s :: session where E: "sessionEpoch (ses sv) = (er, s)" by (cases "sessionEpoch (ses sv)")
  obtain hr and s' :: session where H: "PasswordHash a s = (hr, s')" by (cases "PasswordHash a s")
  have ok: "ok" using assms Some L by (auto simp: handleLogin_def Let_def split: if_splits)
  have c: "check_login a q (rq_ip r @ ''|'' @ lr_Username q) r (sv\<lparr>logins := l\<rparr>) = (resp, sv')"
    using assms(1) Some L ok by (simp add: handleLogin_def Let_def)
  obtain epoch where e: "er = Inr epoch" using c assms(2) E by (cases er) (auto simp: check_login_def)
  obtain hash where h: "hr = Inr hash" using c assms(2) E H e by (cases hr) (auto simp: check_login_def)
  have u: "lr_Username q = AdminUser a" and p: "CheckPassword a hash (lr_Password q)"
    using c assms(2) E H e h by (auto simp: check_login_def Let_def split: if_splits)
  have o: "resp = writeJSON 200 (JObj [(''token'', JStr (fst (Sign (Secret a) (AdminUser a) epoch (TTL a) (rq_now r)))),
        (''expires_at'', JStr (rfc3339_milli (rq_now r + TTL a)))])"
    "sv' = audit r ''login.success'' (Some (username_detail q)) (clear_fails (rq_ip r @ ''|'' @ AdminUser a) r (sv\<lparr>logins := l, ses := s'\<rparr>))"
    using c E H e h u p by (auto simp: check_login_def Let_def Sign_def)
  have "map_of (fails (logins sv')) (rq_ip r @ ''|'' @ AdminUser a) = None"
    unfolding o(2) by (simp add: audit_def clear_fails_def login_reset_def delete_conv')
  then show ?thesis using Some L ok E H e h u p o(1)
    by (intro exI[of _ q] exI[of _ epoch] exI[of _ hash] exI[of _ s] exI[of _ s']) (simp add: writeJSON_def)
qed

section \<open>A server\<close>

definition plain_api :: "unit api" where
  "plain_api = \<lparr>Secret = ''key'', TTL = Hour, AdminUser = ''admin'', Version = ''0.9.0'', EnvironmentDryRun = Some True,
     PasswordHash = AdminPasswordHash, PasswordChange = Some ChangeAdminPassword, CheckPassword = (\<lambda>h p. h = ''#'' @ p),
     HashPassword = (\<lambda>p. Inr (''#'' @ p)), dummyHash = ''x''\<rparr>"

definition auth_tables :: tables where
  "auth_tables = \<lparr>templates = [], inventory_items = [], listings = [], lease_orders = [], market_snapshots = [], strategies = [],
     price_actions = [], fund_flows = [], app_settings = [\<lparr>G_key = ''admin_password_hash'', G_value_enc = Some ''#longenough12'',
       G_value_plain = None, G_updated_at = 0\<rparr>], audit_log = [], order_income_ledger = [], daily_stats = [],
     shelf_observations = (\<lambda>_. None), next_id = 1\<rparr>"

definition auth_server :: "unit server" where
  "auth_server = NewServer \<lparr>db = auth_tables, db_now = 9, faults = []\<rparr> ()"

definition post :: "(string \<times> json) list \<Rightarrow> request" where
  "post kvs = \<lparr>rq_body = Some (JObj kvs), rq_query = (\<lambda>_. ''''), rq_path = (\<lambda>_. ''''), rq_auth = '''', rq_ip = ''10.0.0.1'',
     rq_user = ''admin'', rq_now = year_2026\<rparr>"

lemma plain_wired: "wired plain_api"
  by (simp add: wired_def plain_api_def)

definition change_request :: request where
  "change_request = post [(''current_password'', JStr ''longenough12''), (''new_password'', JStr ''betterone1234'')]"

lemma change_answer: "status (fst (handlePasswordChange plain_api change_request auth_server)) = 200"
  by code_simp

theorem password_change_all_or_nothing_witness:
  "stored_password (db (ses (snd (handlePasswordChange plain_api change_request auth_server)))) \<noteq> None"
proof -
  have d: "distinct (map G_key (settings auth_server))" by (simp add: settings_def auth_server_def NewServer_def auth_tables_def)
  show ?thesis
    using password_change_all_or_nothing[OF plain_wired surjective_pairing[of "handlePasswordChange plain_api change_request auth_server"] d]
      change_answer by auto
qed

definition login_request :: request where
  "login_request = post [(''username'', JStr ''admin''), (''password'', JStr ''longenough12'')]"

lemma login_check: "check_login plain_api \<lparr>lr_Username = ''admin'', lr_Password = ''longenough12''\<rparr> k r auth_server =
    (writeJSON 200 (JObj [(''token'', JStr (fst (Sign ''key'' ''admin'' 0 Hour (rq_now r)))), (''expires_at'', JStr (rfc3339_milli (rq_now r + Hour)))]),
     audit r ''login.success'' (Some [(''username'', JStr ''admin'')]) (clear_fails k r auth_server))"
  by (simp add: check_login_def sessionEpoch_def SessionEpoch_def GetSetting_def Query_def auth_server_def NewServer_def auth_tables_def
      setting_of_def sessionEpochKey_def not_found_def plain_api_def AdminPasswordHash_def Let_def Sign_def username_detail_def)

lemma login_answer: "status (fst (handleLogin plain_api login_request auth_server)) = 200"
proof -
  have d: "decode login_fields \<lparr>lr_Username = '''', lr_Password = ''''\<rparr> login_request = Some \<lparr>lr_Username = ''admin'', lr_Password = ''longenough12''\<rparr>"
    by code_simp
  have l: "login_allow (rq_ip login_request @ ''|'' @ ''admin'') (rq_ip login_request) (rq_now login_request) (logins auth_server) = (True, l)
      \<Longrightarrow> ?thesis" for l
    using d by (simp add: handleLogin_def check_login_def sessionEpoch_def SessionEpoch_def GetSetting_def Query_def auth_server_def NewServer_def
        auth_tables_def setting_of_def sessionEpochKey_def not_found_def plain_api_def AdminPasswordHash_def Let_def Sign_def)
  show ?thesis
    by (rule l) (simp add: login_allow_def sweepLocked_def sweep_def slot_def auth_server_def NewServer_def newLoginLimiter_def Let_def)
qed

theorem login_needs_the_password_witness:
  "CheckPassword plain_api ''#longenough12'' ''longenough12'' \<and> lr_Username (the (decode login_fields \<lparr>lr_Username = '''', lr_Password = ''''\<rparr> login_request)) = ''admin''"
  using login_needs_the_password[OF surjective_pairing[of "handleLogin plain_api login_request auth_server"] login_answer]
  by (elim exE conjE) (simp add: plain_api_def)

lemma logout_answer: "status (fst (handleLogout login_request auth_server)) = 200"
  by code_simp

theorem revoked_for_good_witness:
  "status (fst (requireAuth plain_api handleMe (login_request\<lparr>rq_auth := ''Bearer '' @ fst (Sign ''key'' ''admin'' 0 Hour year_2026)\<rparr>)
    (snd (handleLogout login_request auth_server)))) = 401"
proof -
  have v: "Verify (Secret plain_api) year_2026 (fst (Sign ''key'' ''admin'' 0 Hour year_2026))
      = Inr \<lparr>Sub = ''admin'', Ver = 0, IssuedAt = 1767225600, ExpiresAt = 1767229200\<rparr>"
    using Verify_signed[of "''admin''" 0 year_2026 Hour "''key''" year_2026] by (simp add: year_2026_def Unix_def time_defs plain_api_def)
  have e: "fst (SessionEpoch (ses auth_server)) = Inr 0" "next_fault (ses auth_server) = None"
    by code_simp+
  have c: "closes plain_api auth_server (snd (handleLogout login_request auth_server))"
    unfolding closes_def using logout_answer surjective_pairing[of "handleLogout login_request auth_server"] by blast
  have n: "next_fault (ses (snd (handleLogout login_request auth_server))) = None" by code_simp
  show ?thesis
    using revoked_for_good[OF plain_wired v _ e(2) rtranclp.rtrancl_refl c rtranclp.rtrancl_refl, of
        "login_request\<lparr>rq_auth := ''Bearer '' @ fst (Sign ''key'' ''admin'' 0 Hour year_2026)\<rparr>" handleMe] e(1) n
    by simp
qed

end
