(* ===== verification/BusinessStore.thy ===== *)
theory BusinessStore
  imports ListingStore AuthStore
begin

text \<open>
  The business writes of the store: inventory and costs, value anchors, lease orders, market snapshots, fund flows and
  price actions (\<open>store/business.go\<close>, \<open>store/inventory_snapshot.go\<close>, \<open>store/collect.go\<close>, \<open>store/reprice.go\<close>),
  with the reads the jobs base their decisions on. Text columns sort by bytes.
\<close>

section \<open>Inventory\<close>

definition affected_by :: "channel \<Rightarrow> string \<Rightarrow> tables \<Rightarrow> inventory_row \<Rightarrow> bool" where
  "affected_by ch asset t i \<longleftrightarrow>
    list_ex (\<lambda>x. I_channel x = ch \<and> I_asset_id x = asset \<and> (I_id x = I_id i \<or> (I_asset_id x \<noteq> '''' \<and> I_asset_id x = I_asset_id i)))
      (inventory_items t)"

definition min_null :: "int option list \<Rightarrow> int option" where
  "min_null xs = foldl (\<lambda>m x. case x of None \<Rightarrow> m | Some v \<Rightarrow> (case m of None \<Rightarrow> Some v | Some w \<Rightarrow> Some (min w v))) None xs"

definition sql_set_cost :: "channel \<Rightarrow> string \<Rightarrow> f64 \<Rightarrow> instant \<Rightarrow> tables \<Rightarrow> nat \<times> tables" where
  "sql_set_cost ch asset cost now t =
    (let hit = affected_by ch asset t;
         first = min_null (map I_cost_updated_at (filter (\<lambda>i. hit i \<and> I_cost_basis i \<noteq> None) (inventory_items t)))
     in (length (filter hit (inventory_items t)),
         t\<lparr>inventory_items := upd_where hit (\<lambda>i. i\<lparr>I_cost_basis := Some cost, I_cost_source := ''manual'', I_cost_modified_at := Some now,
             I_cost_updated_at := COALESCE first (COALESCE (I_cost_updated_at i) (Some now))\<rparr>) (inventory_items t)\<rparr>))"

definition SetCostBasis :: "channel \<Rightarrow> string \<Rightarrow> f64 \<Rightarrow> session \<Rightarrow> goerr option \<times> session" where
  "SetCostBasis ch asset cost s = (case ExecR (sql_set_cost ch asset (round2Money cost) (db_now s)) s of
      (Inl e, s) \<Rightarrow> (Some e, s) | (Inr n, s) \<Rightarrow> (if n = 0 then Some not_found else None, s))"

definition is_item :: "channel \<Rightarrow> string \<Rightarrow> inventory_row \<Rightarrow> bool" where
  "is_item ch asset i \<longleftrightarrow> I_channel i = ch \<and> I_asset_id i = asset"

definition item_terms :: "InventoryItem \<Rightarrow> instant \<Rightarrow> inventory_row \<Rightarrow> inventory_row" where
  "item_terms it now i = i\<lparr>I_hash_name := ii_HashName it, I_market_hash_name := ii_DisplayName it,
     I_template_id := nilIfZero (ii_TemplateID it), I_mark_price := Some (ii_MarkPrice it), I_tradable := ii_Tradable it,
     I_status := ii_Status it, I_last_synced_at := now\<rparr>"

definition new_item :: "InventoryItem \<Rightarrow> f64 option \<Rightarrow> int \<Rightarrow> instant \<Rightarrow> inventory_row" where
  "new_item it cost i now =
    \<lparr>I_id = i, I_channel = ii_Channel it, I_asset_id = ii_AssetID it, I_hash_name = ii_HashName it, I_market_hash_name = ii_DisplayName it,
     I_template_id = nilIfZero (ii_TemplateID it), I_mark_price = Some (ii_MarkPrice it), I_tradable = ii_Tradable it, I_status = ii_Status it,
     I_cost_basis = cost, I_cost_source = ''manual'', I_cost_updated_at = map_option (\<lambda>_. now) cost,
     I_cost_modified_at = map_option (\<lambda>_. now) cost, I_last_synced_at = now\<rparr>"

definition sql_upsert_item :: "InventoryItem \<Rightarrow> f64 option \<Rightarrow> instant \<Rightarrow> tables \<Rightarrow> tables" where
  "sql_upsert_item it cost now t =
    (let hit = is_item (ii_Channel it) (ii_AssetID it) in
     if list_ex hit (inventory_items t)
     then t\<lparr>inventory_items := upd_where hit
              (\<lambda>i. let i = item_terms it now i in
                   i\<lparr>I_cost_basis := COALESCE (I_cost_basis i) cost,
                     I_cost_updated_at := COALESCE (I_cost_updated_at i) (map_option (\<lambda>_. now) cost),
                     I_cost_modified_at := COALESCE (I_cost_modified_at i) (map_option (\<lambda>_. now) cost)\<rparr>) (inventory_items t),
            next_id := next_id t + 1\<rparr>
     else t\<lparr>inventory_items := inventory_items t @ [new_item it cost (next_id t) now], next_id := next_id t + 1\<rparr>)"

definition UpsertInventoryItem :: "InventoryItem \<Rightarrow> f64 option \<Rightarrow> session \<Rightarrow> goerr option \<times> session" where
  "UpsertInventoryItem it cost s =
    (case Exec (sql_upsert_item (it\<lparr>ii_MarkPrice := round2Money (ii_MarkPrice it)\<rparr>) (round2MoneyPtr cost) (db_now s)) s of
       (Some e, s) \<Rightarrow> (Some (Wrap (''upsert inventory '' @ ii_Channel it @ ''/'' @ ii_AssetID it @ '': '') e), s) | (None, s) \<Rightarrow> (None, s))"

section \<open>Inventory snapshots\<close>

fun valid_inventory :: "channel \<Rightarrow> string list \<Rightarrow> InventoryItem list \<Rightarrow> bool" where
  "valid_inventory ch seen [] = True"
| "valid_inventory ch seen (it # its) =
    (\<not> (ii_Channel it \<noteq> ch \<or> ii_HashName it = '''' \<or> ii_AssetID it = '''' \<or> ii_AssetID it \<in> set seen)
     \<and> valid_inventory ch (ii_AssetID it # seen) its)"

definition item_template :: "channel \<Rightarrow> InventoryItem \<Rightarrow> template_row" where
  "item_template ch it = (let mark = ii_MarkPrice it in
    \<lparr>T_hash_name = ii_HashName it, T_display_name = ii_DisplayName it, T_category = '''',
     T_uu_template_id = (if ch = ChannelUU then nilIfZero (ii_TemplateID it) else None),
     T_uu_mark_price = (if ch = ChannelUU \<and> Fin 0 < mark then Some mark else None),
     T_eco_ref_price = (if ch = ChannelECO \<and> Fin 0 < mark then Some mark else None),
     T_value_anchor = None, T_anchor_updated_at = None, T_blacklisted = False\<rparr>)"

definition sql_snapshot_item :: "InventoryItem \<Rightarrow> instant \<Rightarrow> tables \<Rightarrow> tables" where
  "sql_snapshot_item it now t =
    (let hit = is_item (ii_Channel it) (ii_AssetID it) in
     if list_ex hit (inventory_items t)
     then t\<lparr>inventory_items := upd_where hit (item_terms it now) (inventory_items t), next_id := next_id t + 1\<rparr>
     else t\<lparr>inventory_items := inventory_items t @ [new_item it None (next_id t) now], next_id := next_id t + 1\<rparr>)"

fun write_items :: "channel \<Rightarrow> InventoryItem list \<Rightarrow> session \<Rightarrow> goerr option \<times> session" where
  "write_items ch [] s = (None, s)"
| "write_items ch (it # its) s =
    (let it = it\<lparr>ii_MarkPrice := round2Money (ii_MarkPrice it)\<rparr> in
     case Exec (sql_upsert_template (item_template ch it)) s of
       (Some e, s) \<Rightarrow> (Some (Wrap ''inventory template: '' e), s)
     | (None, s) \<Rightarrow>
        (case Exec (sql_snapshot_item it (db_now s)) s of
           (Some e, s) \<Rightarrow> (Some (Wrap ''inventory row: '' e), s) | (None, s) \<Rightarrow> write_items ch its s))"

definition sql_inventory_missing :: "channel \<Rightarrow> string list \<Rightarrow> tables \<Rightarrow> tables" where
  "sql_inventory_missing ch refs t =
    t\<lparr>inventory_items := upd_where (\<lambda>i. I_channel i = ch \<and> I_status i \<noteq> ''sold'' \<and> I_asset_id i \<notin> set refs)
        (\<lambda>i. i\<lparr>I_status := ''missing'', I_tradable := False\<rparr>) (inventory_items t)\<rparr>"

definition inventory_body :: "channel \<Rightarrow> InventoryItem list \<Rightarrow> session \<Rightarrow> (goerr + bool \<times> unit) \<times> session" where
  "inventory_body ch items s =
    (case Query (\<lambda>_. ()) s of
       (Inl e, s) \<Rightarrow> (Inl e, s)
     | (Inr _, s) \<Rightarrow>
        (case write_items ch items s of
           (Some e, s) \<Rightarrow> (Inl e, s)
         | (None, s) \<Rightarrow>
            (case Exec (sql_inventory_missing ch (map ii_AssetID items)) s of
               (Some e, s) \<Rightarrow> (Inl (Wrap ''inventory missing: '' e), s) | (None, s) \<Rightarrow> (Inr (True, ()), s))))"

definition ApplyInventorySnapshot :: "channel \<Rightarrow> InventoryItem list \<Rightarrow> session \<Rightarrow> (goerr + unit) \<times> session" where
  "ApplyInventorySnapshot ch items s =
    (if \<not> Valid ch then (Inl (Errorf ''invalid inventory channel''), s)
     else if \<not> valid_inventory ch [] items then (Inl (Errorf (''invalid or duplicate inventory row for '' @ ch)), s)
     else Tx id (inventory_body ch items) s)"

section \<open>Templates\<close>

text \<open>The anchor is computed by the database in decimals: the mean of two cent values, half cents away from zero.\<close>

definition money_cents :: "f64 \<Rightarrow> int" where
  "money_cents v = (case v of Fin r \<Rightarrow> round_away (r * 100) | _ \<Rightarrow> 0)"

definition anchor :: "template_row \<Rightarrow> f64 option" where
  "anchor r = (case (T_uu_mark_price r, T_eco_ref_price r) of
      (Some a, Some b) \<Rightarrow> Some (cents (round_away (of_int (money_cents a + money_cents b) / 2)))
    | (Some a, None) \<Rightarrow> Some a | (None, b) \<Rightarrow> b)"

definition has_price :: "template_row \<Rightarrow> bool" where
  "has_price r \<longleftrightarrow> (T_uu_mark_price r \<noteq> None \<or> T_eco_ref_price r \<noteq> None) \<and> \<not> T_blacklisted r"

definition RecomputeAnchors :: "session \<Rightarrow> (goerr + nat) \<times> session" where
  "RecomputeAnchors s =
    (case ExecR (\<lambda>t. (length (filter has_price (templates t)),
        t\<lparr>templates := upd_where has_price (\<lambda>r. r\<lparr>T_value_anchor := anchor r, T_anchor_updated_at := Some (db_now s)\<rparr>) (templates t)\<rparr>)) s of
       (Inl e, s) \<Rightarrow> (Inl (Wrap ''recompute anchors: '' e), s) | (Inr n, s) \<Rightarrow> (Inr n, s))"

definition SetTemplateBlacklist :: "string \<Rightarrow> bool \<Rightarrow> session \<Rightarrow> goerr option \<times> session" where
  "SetTemplateBlacklist h b s =
    (case ExecR (\<lambda>t. (length (filter (\<lambda>r. T_hash_name r = h) (templates t)),
        t\<lparr>templates := upd_where (\<lambda>r. T_hash_name r = h) (\<lambda>r. r\<lparr>T_blacklisted := b\<rparr>) (templates t)\<rparr>)) s of
       (Inl e, s) \<Rightarrow> (Some (Wrap (''set blacklist '' @ h @ '': '') e), s) | (Inr n, s) \<Rightarrow> (if n = 0 then Some not_found else None, s))"

fun update_eco_prices :: "(string \<times> f64) list \<Rightarrow> nat \<Rightarrow> session \<Rightarrow> (nat \<times> goerr option) \<times> session" where
  "update_eco_prices [] n s = ((n, None), s)"
| "update_eco_prices ((h, p) # ps) n s =
    (let p = round2Money p; hit = (\<lambda>r. T_hash_name r = h \<and> T_eco_ref_price r \<noteq> Some p) in
     case ExecR (\<lambda>t. (length (filter hit (templates t)), t\<lparr>templates := upd_where hit (\<lambda>r. r\<lparr>T_eco_ref_price := Some p\<rparr>) (templates t)\<rparr>)) s of
       (Inl e, s) \<Rightarrow> ((n, Some e), s) | (Inr k, s) \<Rightarrow> update_eco_prices ps (n + k) s)"

definition UpdateEcoRefPrices :: "(string \<times> f64) list \<Rightarrow> session \<Rightarrow> (nat \<times> goerr option) \<times> session" where
  "UpdateEcoRefPrices prices = update_eco_prices prices 0"

definition TemplatesNeedingQuotes :: "session \<Rightarrow> (goerr + (string \<times> int \<times> f64) list) \<times> session" where
  "TemplatesNeedingQuotes = Query (\<lambda>t. concat (map (\<lambda>r. case T_uu_template_id r of
      Some i \<Rightarrow> if T_blacklisted r then [] else [(T_hash_name r, i, case T_uu_mark_price r of None \<Rightarrow> Fin 0 | Some p \<Rightarrow> p)] | None \<Rightarrow> [])
    (templates t)))"

end
