(* ===== verification/OrderStore.thy ===== *)
theory OrderStore
  imports BusinessStore
begin

text \<open>
  Lease orders: their upsert (\<open>store/business.go\<close>), the binding of an order to the one listing it can have been
  (\<open>store/factor.go\<close>), the controller's folds, and the projection of finished orders into income
  (\<open>store/analytics.go\<close>). The row locks and advisory locks of these transactions make each of them one step; the
  database adds amounts as decimals, which are whole cents here.
\<close>

section \<open>Binding orders to listings\<close>

record FactorOrder =
  fo_OrderID :: int
  fo_ListingID :: int
  fo_Status :: string
  fo_RentDays :: int
  fo_MaxDays :: int
  fo_HashName :: string
  fo_UpdatedAt :: instant

definition candidate :: "order_row \<Rightarrow> listing_row \<Rightarrow> bool" where
  "candidate o' l \<longleftrightarrow> L_channel l = O_channel o' \<and> O_asset_id o' \<noteq> '''' \<and> L_asset_id l = O_asset_id o'
     \<and> (O_hash_name o' = '''' \<or> L_hash_name l = O_hash_name o')
     \<and> (case L_listed_at l of None \<Rightarrow> True | Some t \<Rightarrow> t \<le> the (COALESCE (O_started_at o') (Some (O_factor_observed_at o'))))
     \<and> (case (O_started_at o', L_retired_at l) of (Some a, Some r) \<Rightarrow> a < r | _ \<Rightarrow> True)"

definition is_income :: "string \<Rightarrow> bool" where
  "is_income st \<longleftrightarrow> st = ''done'' \<or> st = ''bought_out''"

definition event_time :: "order_row \<Rightarrow> instant" where
  "event_time o' = the (COALESCE (O_finished_at o') (COALESCE (O_due_at o') (Some (O_updated_at o'))))"

definition bindable :: "int option \<Rightarrow> instant option \<Rightarrow> order_row \<Rightarrow> bool" where
  "bindable i since o' \<longleftrightarrow> \<not> O_factor_applied o' \<and> O_factor_listing_id o' = None \<and> (case i of None \<Rightarrow> True | Some n \<Rightarrow> O_id o' = n)
     \<and> (case since of None \<Rightarrow> True | Some t \<Rightarrow> is_income (O_status o') \<and> t \<le> event_time o')"

definition bind_order :: "int option \<Rightarrow> instant option \<Rightarrow> listing_row list \<Rightarrow> order_row \<Rightarrow> order_row" where
  "bind_order i since ls o' = (if bindable i since o' then (case filter (candidate o') ls of
      [l] \<Rightarrow> o'\<lparr>O_factor_listing_id := Some (L_id l)\<rparr> | _ \<Rightarrow> o') else o')"

definition sql_bind_factor_orders :: "int option \<Rightarrow> instant option \<Rightarrow> tables \<Rightarrow> tables" where
  "sql_bind_factor_orders i since t = t\<lparr>lease_orders := map (bind_order i since (listings t)) (lease_orders t)\<rparr>"

section \<open>Upserting an order\<close>

definition isTerminal :: "string \<Rightarrow> bool" where
  "isTerminal st \<longleftrightarrow> st = ''done'' \<or> st = ''bought_out'' \<or> st = ''cancelled'' \<or> st = ''breach''"

definition is_order :: "channel \<Rightarrow> string \<Rightarrow> order_row \<Rightarrow> bool" where
  "is_order ch ref o' \<longleftrightarrow> O_channel o' = ch \<and> O_order_ref o' = ref"

definition new_order :: "LeaseOrder \<Rightarrow> int \<Rightarrow> instant \<Rightarrow> order_row" where
  "new_order x i now =
    \<lparr>O_id = i, O_channel = lo_Channel x, O_order_ref = lo_OrderRef x, O_asset_id = lo_AssetID x, O_hash_name = lo_HashName x,
     O_order_type = lo_OrderType x, O_status = lo_Status x, O_rent_days = lo_RentDays x, O_rent_price = lo_RentPrice x,
     O_order_amount = lo_Amount x, O_deposits = lo_Deposits x, O_started_at = nullTime (lo_StartedAt x), O_due_at = nullTime (lo_DueAt x),
     O_finished_at = (if isTerminal (lo_Status x) then COALESCE (nullTimePtr (lo_FinishedAt x)) (Some now) else None),
     O_updated_at = now, O_factor_applied = False, O_factor_listing_id = None, O_factor_observed_at = now,
     O_income_recorded = False, O_raw = lo_Raw x\<rparr>"

definition merge_order :: "LeaseOrder \<Rightarrow> instant \<Rightarrow> order_row \<Rightarrow> order_row" where
  "merge_order x now r =
    (let asset = prefer_text (lo_AssetID x) (O_asset_id r); hash = prefer_text (lo_HashName x) (O_hash_name r);
         started = COALESCE (nullTime (lo_StartedAt x)) (O_started_at r) in
     r\<lparr>O_asset_id := asset, O_hash_name := hash, O_status := lo_Status x, O_order_type := lo_OrderType x, O_rent_days := lo_RentDays x,
       O_rent_price := lo_RentPrice x, O_order_amount := lo_Amount x, O_deposits := lo_Deposits x, O_started_at := started,
       O_due_at := COALESCE (nullTime (lo_DueAt x)) (O_due_at r),
       O_finished_at := (if isTerminal (lo_Status x)
          then COALESCE (nullTimePtr (lo_FinishedAt x)) (COALESCE (O_finished_at r) (Some now)) else None),
       O_factor_listing_id := (if \<not> O_factor_applied r \<and> (asset \<noteq> O_asset_id r \<or> hash \<noteq> O_hash_name r \<or> started \<noteq> O_started_at r)
          then None else O_factor_listing_id r),
       O_raw := COALESCE (lo_Raw x) (O_raw r), O_updated_at := now\<rparr>)"

definition sql_upsert_order :: "LeaseOrder \<Rightarrow> instant \<Rightarrow> tables \<Rightarrow> int \<times> tables" where
  "sql_upsert_order x now t =
    (let hit = is_order (lo_Channel x) (lo_OrderRef x) in
     case find hit (lease_orders t) of
       Some r \<Rightarrow> (O_id r, t\<lparr>lease_orders := upd_where hit (merge_order x now) (lease_orders t), next_id := next_id t + 1\<rparr>)
     | None \<Rightarrow> (next_id t, t\<lparr>lease_orders := lease_orders t @ [new_order x (next_id t) now], next_id := next_id t + 1\<rparr>))"

definition order_label :: "LeaseOrder \<Rightarrow> string" where
  "order_label x = lo_Channel x @ ''/'' @ lo_OrderRef x @ '': ''"

definition upsert_order_body :: "LeaseOrder \<Rightarrow> session \<Rightarrow> (goerr + bool \<times> unit) \<times> session" where
  "upsert_order_body x s =
    (case ExecR (sql_upsert_order x (db_now s)) s of
       (Inl e, s) \<Rightarrow> (Inl (Wrap (''upsert order '' @ order_label x) e), s)
     | (Inr i, s) \<Rightarrow>
        (case Exec (sql_bind_factor_orders (Some i) None) s of
           (Some e, s) \<Rightarrow> (Inl (Wrap (''bind order '' @ order_label x) e), s) | (None, s) \<Rightarrow> (Inr (True, ()), s)))"

definition UpsertLeaseOrder :: "LeaseOrder \<Rightarrow> session \<Rightarrow> (goerr + unit) \<times> session" where
  "UpsertLeaseOrder x =
    (let x = x\<lparr>lo_RentPrice := round2Money (lo_RentPrice x), lo_Amount := round2Money (lo_Amount x), lo_Deposits := round2Money (lo_Deposits x)\<rparr>
     in Tx id (upsert_order_body x))"

definition EarliestOpenOrderStart :: "session \<Rightarrow> (goerr + instant option) \<times> session" where
  "EarliestOpenOrderStart s = (case Query (\<lambda>t. min_null (map O_started_at (filter (\<lambda>o'. \<not> isTerminal (O_status o')) (lease_orders t)))) s of
     (Inl e, s) \<Rightarrow> (Inl (Wrap ''earliest open order start: '' e), s) | (Inr m, s) \<Rightarrow> (Inr m, s))"

definition EarliestLeasedListingStart :: "session \<Rightarrow> (goerr + instant option) \<times> session" where
  "EarliestLeasedListingStart s = (case Query (\<lambda>t. min_null (map L_listed_at (filter (\<lambda>l. L_actual_state l = ''leased'') (listings t)))) s of
     (Inl e, s) \<Rightarrow> (Inl (Wrap ''earliest leased listing start: '' e), s) | (Inr m, s) \<Rightarrow> (Inr m, s))"

section \<open>The controller's folds\<close>

definition order_listing :: "tables \<Rightarrow> order_row \<Rightarrow> listing_row option" where
  "order_listing t o' = find (\<lambda>l. O_factor_listing_id o' = Some (L_id l) \<and> L_channel l = O_channel o' \<and> L_asset_id l = O_asset_id o') (listings t)"

definition unhandled_row :: "tables \<Rightarrow> instant \<Rightarrow> order_row \<Rightarrow> FactorOrder list" where
  "unhandled_row t since o' = (case order_listing t o' of
      Some l \<Rightarrow> if is_income (O_status o') \<and> \<not> O_factor_applied o' \<and> since \<le> event_time o'
        then [\<lparr>fo_OrderID = O_id o', fo_ListingID = L_id l, fo_Status = O_status o', fo_RentDays = O_rent_days o',
               fo_MaxDays = (case L_max_days l of None \<Rightarrow> 0 | Some d \<Rightarrow> d), fo_HashName = O_hash_name o', fo_UpdatedAt = O_updated_at o'\<rparr>] else []
    | None \<Rightarrow> [])"

definition sql_unhandled :: "instant \<Rightarrow> int \<Rightarrow> tables \<Rightarrow> FactorOrder list" where
  "sql_unhandled since limit t = take (nat limit) (concat (map (unhandled_row t since) (sort_key O_id (lease_orders t))))"

definition UnhandledFactorOrders :: "instant \<Rightarrow> int \<Rightarrow> session \<Rightarrow> (goerr + FactorOrder list) \<times> session" where
  "UnhandledFactorOrders since limit s =
    (case Exec (sql_bind_factor_orders None (Some since)) s of
       (Some e, s) \<Rightarrow> (Inl (Wrap ''bind pending factor orders: '' e), s)
     | (None, s) \<Rightarrow> (case Query (sql_unhandled since limit) s of
           (Inl e, s) \<Rightarrow> (Inl (Wrap ''unhandled factor orders: '' e), s) | (Inr os, s) \<Rightarrow> (Inr os, s)))"

definition UnresolvedFactorOrders :: "instant \<Rightarrow> session \<Rightarrow> (goerr + nat) \<times> session" where
  "UnresolvedFactorOrders since = Query (\<lambda>t. length (filter (\<lambda>o'. is_income (O_status o') \<and> \<not> O_factor_applied o'
     \<and> O_factor_listing_id o' = None \<and> since \<le> event_time o') (lease_orders t)))"

definition MarkFactorApplied :: "int list \<Rightarrow> session \<Rightarrow> goerr option \<times> session" where
  "MarkFactorApplied ids s = (if ids = [] then (None, s)
     else Exec (\<lambda>t. t\<lparr>lease_orders := upd_where (\<lambda>o'. O_id o' \<in> set ids) (\<lambda>o'. o'\<lparr>O_factor_applied := True\<rparr>) (lease_orders t)\<rparr>) s)"

record FactorFold =
  ff_ListingID :: int
  ff_Factor :: f64

definition factor_orders_changed :: goerr where
  "factor_orders_changed = \<lparr>Error = ''factor order changed during planning; retry required'', wrapped = [ErrFactorOrdersChanged]\<rparr>"

definition fold_matches :: "FactorOrder \<Rightarrow> order_row \<Rightarrow> bool" where
  "fold_matches f o' \<longleftrightarrow> \<not> O_factor_applied o' \<and> O_factor_listing_id o' = Some (fo_ListingID f) \<and> O_updated_at o' = fo_UpdatedAt f"

fun check_orders :: "FactorOrder list \<Rightarrow> session \<Rightarrow> goerr option \<times> session" where
  "check_orders [] s = (None, s)"
| "check_orders (f # fs) s =
    (case QueryE (\<lambda>t. case find (\<lambda>o'. O_id o' = fo_OrderID f) (lease_orders t) of None \<Rightarrow> Inl no_rows | Some o' \<Rightarrow> Inr (fold_matches f o')) s of
       (Inl e, s) \<Rightarrow> (Some (Wrap ''check factor order: '' e), s)
     | (Inr m, s) \<Rightarrow> if \<not> m then (Some factor_orders_changed, s) else check_orders fs s)"

fun apply_folds :: "FactorFold list \<Rightarrow> session \<Rightarrow> goerr option \<times> session" where
  "apply_folds [] s = (None, s)"
| "apply_folds (f # fs) s =
    (case Exec (\<lambda>t. t\<lparr>listings := upd_where (\<lambda>l. L_id l = ff_ListingID f)
        (\<lambda>l. l\<lparr>L_factor := ff_Factor f, L_last_factor_event_at := Some (db_now s)\<rparr>) (listings t)\<rparr>) s of
       (Some e, s) \<Rightarrow> (Some (Wrap (''apply factor to listing '' @ dec_int (ff_ListingID f) @ '': '') e), s) | (None, s) \<Rightarrow> apply_folds fs s)"

definition folds_body :: "FactorFold list \<Rightarrow> FactorOrder list \<Rightarrow> session \<Rightarrow> (goerr + bool \<times> unit) \<times> session" where
  "folds_body folds orders s =
    (case check_orders (sort_key fo_OrderID orders) s of
       (Some e, s) \<Rightarrow> (Inl e, s)
     | (None, s) \<Rightarrow>
        (case apply_folds folds s of
           (Some e, s) \<Rightarrow> (Inl e, s)
         | (None, s) \<Rightarrow>
            (case MarkFactorApplied (map fo_OrderID (sort_key fo_OrderID orders)) s of
               (Some e, s) \<Rightarrow> (Inl (Wrap ''mark factor applied: '' e), s) | (None, s) \<Rightarrow> (Inr (True, ()), s))))"

definition ApplyFactorFolds :: "FactorFold list \<Rightarrow> FactorOrder list \<Rightarrow> session \<Rightarrow> (goerr + unit) \<times> session" where
  "ApplyFactorFolds folds orders s =
    (if folds = [] \<and> orders = [] then (Inr (), s) else Tx (Wrap ''begin factor tx: '') (folds_body folds orders) s)"

record StaleCandidate =
  sc_ListingID :: int
  sc_Channel :: channel
  sc_HashName :: string
  sc_Factor :: f64
  sc_AnchorAge :: duration

definition stale_anchor :: "listing_row \<Rightarrow> instant option" where
  "stale_anchor l = COALESCE (L_last_factor_event_at l) (COALESCE (L_last_reprice_at l) (L_listed_at l))"

text \<open>The interval is rendered in whole seconds.\<close>

definition FactorStaleCandidates :: "duration \<Rightarrow> session \<Rightarrow> (goerr + StaleCandidate list) \<times> session" where
  "FactorStaleCandidates minAge s =
    (case Query (\<lambda>t. concat (map (\<lambda>l. case stale_anchor l of
        Some a \<Rightarrow> if L_actual_state l = ''active'' \<and> a \<le> db_now s - rne (of_int minAge / of_int Second) * Second
          then [\<lparr>sc_ListingID = L_id l, sc_Channel = L_channel l, sc_HashName = L_hash_name l, sc_Factor = L_factor l, sc_AnchorAge = db_now s - a\<rparr>] else []
      | None \<Rightarrow> []) (listings t))) s of
       (Inl e, s) \<Rightarrow> (Inl (Wrap ''factor stale candidates: '' e), s) | (Inr cs, s) \<Rightarrow> (Inr cs, s))"

section \<open>Income\<close>

definition uncategorised :: string where
  "uncategorised = map char_of [0xE6::int, 0x9C, 0xAA, 0xE5, 0x88, 0x86, 0xE7, 0xB1, 0xBB]"

definition category_of :: "tables \<Rightarrow> string \<Rightarrow> string" where
  "category_of t h = (case find (\<lambda>r. T_hash_name r = h) (templates t) of
     None \<Rightarrow> uncategorised | Some r \<Rightarrow> if T_category r = '''' then uncategorised else T_category r)"

text \<open>The ledger row an order stands for: its day in UTC, channel, category and amount.\<close>

definition income_row :: "tables \<Rightarrow> order_row \<Rightarrow> ledger_row" where
  "income_row t o' = \<lparr>D_order_id = O_id o', D_stat_date = the (COALESCE (O_finished_at o') (Some (O_updated_at o'))) div (24 * Hour),
     D_channel = O_channel o', D_category = category_of t (O_hash_name o'), D_amount = O_order_amount o'\<rparr>"

definition ledger_of :: "int \<Rightarrow> tables \<Rightarrow> ledger_row option" where
  "ledger_of i t = find (\<lambda>r. D_order_id r = i) (order_income_ledger t)"

definition needs_projection :: "tables \<Rightarrow> order_row \<Rightarrow> bool" where
  "needs_projection t o' \<longleftrightarrow>
    (is_income (O_status o') \<and> (\<not> O_income_recorded o' \<or> ledger_of (O_id o') t \<noteq> Some (income_row t o')))
    \<or> (\<not> is_income (O_status o') \<and> (ledger_of (O_id o') t \<noteq> None \<or> O_income_recorded o'))"

text \<open>Of the fields of the rows only the ids are used by the rollup.\<close>

definition UnrecordedTerminalOrders :: "int \<Rightarrow> session \<Rightarrow> (goerr + int list) \<times> session" where
  "UnrecordedTerminalOrders limit s =
    (case Query (\<lambda>t. take (nat limit) (map O_id (filter (needs_projection t) (sort_key O_id (lease_orders t))))) s of
       (Inl e, s) \<Rightarrow> (Inl (Wrap ''unrecorded orders: '' e), s) | (Inr ids, s) \<Rightarrow> (Inr ids, s))"

definition is_bucket :: "ledger_row \<Rightarrow> stat_row \<Rightarrow> bool" where
  "is_bucket p b \<longleftrightarrow> B_stat_date b = D_stat_date p \<and> B_channel b = D_channel p \<and> B_category b = D_category p"

text \<open>\<open>round2Money(direction * amount)\<close> as the decimal the database receives.\<close>

definition delta_cents :: "int \<Rightarrow> ledger_row \<Rightarrow> int" where
  "delta_cents d p = money_cents (round2Money (i2f d * D_amount p))"

definition sql_income_delta :: "ledger_row \<Rightarrow> int \<Rightarrow> tables \<Rightarrow> tables" where
  "sql_income_delta p d t =
    (if list_ex (is_bucket p) (daily_stats t)
     then t\<lparr>daily_stats := upd_where (is_bucket p) (\<lambda>b. b\<lparr>B_income := B_income b + delta_cents d p, B_order_count := B_order_count b + d\<rparr>) (daily_stats t)\<rparr>
     else t\<lparr>daily_stats := daily_stats t @ [\<lparr>B_stat_date = D_stat_date p, B_channel = D_channel p, B_category = D_category p,
            B_income = delta_cents d p, B_order_count = d\<rparr>]\<rparr>)"

definition retract_income :: "int \<Rightarrow> ledger_row option \<Rightarrow> session \<Rightarrow> goerr option \<times> session" where
  "retract_income i old s = (case old of None \<Rightarrow> (None, s)
     | Some p \<Rightarrow> (case Exec (sql_income_delta p (- 1)) s of
          (Some e, s) \<Rightarrow> (Some e, s)
        | (None, s) \<Rightarrow> Exec (\<lambda>t. t\<lparr>order_income_ledger := filter (\<lambda>r. D_order_id r \<noteq> i) (order_income_ledger t)\<rparr>) s))"

definition add_income :: "ledger_row \<Rightarrow> session \<Rightarrow> goerr option \<times> session" where
  "add_income p s = (case Exec (sql_income_delta p 1) s of
      (Some e, s) \<Rightarrow> (Some e, s)
    | (None, s) \<Rightarrow> Exec (\<lambda>t. t\<lparr>order_income_ledger := order_income_ledger t @ [p\<lparr>D_amount := round2Money (D_amount p)\<rparr>]\<rparr>) s)"

definition projectOrderIncome :: "int \<Rightarrow> session \<Rightarrow> goerr option \<times> session" where
  "projectOrderIncome i s =
    (case Query (\<lambda>t. map_option (\<lambda>o'. (income_row t o', is_income (O_status o'))) (find (\<lambda>o'. O_id o' = i) (lease_orders t))) s of
       (Inl e, s) \<Rightarrow> (Some e, s)
     | (Inr None, s) \<Rightarrow> (None, s)
     | (Inr (Some (new, eligible)), s) \<Rightarrow>
        (case Query (ledger_of i) s of
           (Inl e, s) \<Rightarrow> (Some e, s)
         | (Inr old, s) \<Rightarrow>
            (case (if \<not> eligible \<or> old \<noteq> Some new then retract_income i old s else (None, s)) of
               (Some e, s) \<Rightarrow> (Some e, s)
             | (None, s) \<Rightarrow>
                (case (if eligible \<and> old \<noteq> Some new then add_income new s else (None, s)) of
                   (Some e, s) \<Rightarrow> (Some e, s)
                 | (None, s) \<Rightarrow> Exec (\<lambda>t. t\<lparr>lease_orders := upd_where (\<lambda>o'. O_id o' = i) (\<lambda>o'. o'\<lparr>O_income_recorded := eligible\<rparr>) (lease_orders t)\<rparr>) s))))"

fun project_all :: "int list \<Rightarrow> session \<Rightarrow> goerr option \<times> session" where
  "project_all [] s = (None, s)"
| "project_all (i # is) s = (case projectOrderIncome i s of
     (Some e, s) \<Rightarrow> (Some (Wrap (''project income order '' @ dec_int i @ '': '') e), s) | (None, s) \<Rightarrow> project_all is s)"

definition income_body :: "int list \<Rightarrow> session \<Rightarrow> (goerr + bool \<times> unit) \<times> session" where
  "income_body ids s =
    (case Query (\<lambda>_. ()) s of
       (Inl e, s) \<Rightarrow> (Inl e, s)
     | (Inr _, s) \<Rightarrow> (case project_all (remdups_adj (sort ids)) s of (Some e, s) \<Rightarrow> (Inl e, s) | (None, s) \<Rightarrow> (Inr (True, ()), s)))"

definition RecordIncomeBatch :: "int list \<Rightarrow> session \<Rightarrow> (goerr + unit) \<times> session" where
  "RecordIncomeBatch ids s = (if ids = [] then (Inr (), s) else Tx (Wrap ''begin income tx: '') (income_body ids) s)"

text \<open>\<open>analytics.RollupTerminalOrders\<close>: two hundred orders at a time.\<close>

definition RollupTerminalOrders :: "session \<Rightarrow> (goerr + int) \<times> session" where
  "RollupTerminalOrders s =
    (case UnrecordedTerminalOrders 200 s of
       (Inl e, s) \<Rightarrow> (Inl e, s)
     | (Inr ids, s) \<Rightarrow> (case RecordIncomeBatch ids s of (Inl e, s) \<Rightarrow> (Inl e, s) | (Inr _, s) \<Rightarrow> (Inr (int (length ids)), s)))"

end
