(* ===== verification/IncomeProps.thy ===== *)
theory IncomeProps
  imports OrderStore
begin

text \<open>
  The income ledger: the daily figures are at all times the sums of the ledger, and a rollup leaves every order it
  covers recorded exactly once, at its present amount, day, channel and category, or not at all.
\<close>

section \<open>Cents\<close>

lemma money_cents_cents: "\<bar>k\<bar> \<le> 2 ^ 40 \<Longrightarrow> money_cents (cents k) = k"
proof -
  assume "\<bar>k\<bar> \<le> 2 ^ 40"
  then obtain r where r: "cents k = Fin r" "r * 100 \<le> of_int k + 1/1000" "of_int k - 1/1000 \<le> r * 100"
    using cents_close by blast
  have "\<lfloor>r * 100 + 1/2\<rfloor> = k" "\<lfloor>- (r * 100) + 1/2\<rfloor> = - k" using r(2,3) by (auto simp: floor_eq_iff)
  then show ?thesis by (auto simp: money_cents_def r(1) round_away_def)
qed

lemma one_times_cents: "\<bar>k\<bar> \<le> 2 ^ 40 \<Longrightarrow> i2f 1 * cents k = cents k"
  using cents_Fin[of k] rnd_of_int[of 1] by (auto simp: i2f_def cents_def rnd_alt abs_less_iff split: if_splits)

lemma minus_one_times_cents: "\<bar>k\<bar> \<le> 2 ^ 40 \<Longrightarrow> i2f (- 1) * cents k = cents (- k)"
  using cents_Fin[of k] cents_Fin[of "- k"] rnd_of_int[of "- 1"]
  by (auto simp: i2f_def cents_def rnd_alt rnd_raw_minus abs_less_iff split: if_splits)


definition cent_amount :: "f64 \<Rightarrow> bool" where
  "cent_amount v \<longleftrightarrow> (\<exists>k. \<bar>k\<bar> \<le> 2 ^ 40 \<and> v = cents k)"

lemma cent_amount_round: "cent_amount v \<Longrightarrow> round2Money v = v"
  by (auto simp: cent_amount_def round2Money_eq Round2_cents)

lemma delta_cents_amount: "cent_amount (D_amount p) \<Longrightarrow> delta_cents 1 p = money_cents (D_amount p)
    \<and> delta_cents (- 1) p = - money_cents (D_amount p)"
  by (auto simp: cent_amount_def delta_cents_def one_times_cents minus_one_times_cents round2Money_eq Round2_cents money_cents_cents)

section \<open>The books\<close>

type_synonym bucket = "int \<times> channel \<times> string"

definition ledger_bucket :: "ledger_row \<Rightarrow> bucket" where
  "ledger_bucket r = (D_stat_date r, D_channel r, D_category r)"

definition stat_bucket :: "stat_row \<Rightarrow> bucket" where
  "stat_bucket b = (B_stat_date b, B_channel b, B_category b)"

text \<open>What the daily figures say of a bucket (income in cents, number of orders), and what the ledger adds up to.\<close>

definition reported :: "tables \<Rightarrow> bucket \<Rightarrow> int \<times> int" where
  "reported t k = (case find (\<lambda>b. stat_bucket b = k) (daily_stats t) of None \<Rightarrow> (0, 0) | Some b \<Rightarrow> (B_income b, B_order_count b))"

definition in_bucket :: "bucket \<Rightarrow> ledger_row list \<Rightarrow> ledger_row list" where
  "in_bucket k = filter (\<lambda>r. ledger_bucket r = k)"

definition booked :: "tables \<Rightarrow> bucket \<Rightarrow> int \<times> int" where
  "booked t k = (let rs = in_bucket k (order_income_ledger t) in (sum_list (map (\<lambda>r. money_cents (D_amount r)) rs), int (length rs)))"

definition books_balance :: "tables \<Rightarrow> bool" where
  "books_balance t \<longleftrightarrow> distinct (map D_order_id (order_income_ledger t)) \<and> (\<forall>k. reported t k = booked t k)"

text \<open>The types of the columns: amounts are cents of bounded size, order ids are a key.\<close>

definition sane_amounts :: "tables \<Rightarrow> bool" where
  "sane_amounts t \<longleftrightarrow> distinct (map O_id (lease_orders t)) \<and> (\<forall>o' \<in> set (lease_orders t). cent_amount (O_order_amount o'))
     \<and> (\<forall>r \<in> set (order_income_ledger t). cent_amount (D_amount r))"

lemma is_bucket_iff: "is_bucket p b \<longleftrightarrow> stat_bucket b = ledger_bucket p"
  by (auto simp: is_bucket_def stat_bucket_def ledger_bucket_def)

lemma find_upd_where: "(\<And>b. g (f b) = g b) \<Longrightarrow>
    find (\<lambda>b. g b = k) (upd_where (\<lambda>b. g b = h) f bs) = map_option (\<lambda>b. if k = h then f b else b) (find (\<lambda>b. g b = k) bs)"
  by (induction bs) auto

lemma find_append: "find P (xs @ ys) = (case find P xs of None \<Rightarrow> find P ys | Some x \<Rightarrow> Some x)"
  by (induction xs) auto

lemma reported_delta: "reported (sql_income_delta p d t) k
    = (if k = ledger_bucket p then (fst (reported t k) + delta_cents d p, snd (reported t k) + d) else reported t k)"
proof (cases "list_ex (is_bucket p) (daily_stats t)")
  case True
  then have "find (\<lambda>b. stat_bucket b = ledger_bucket p) (daily_stats t) \<noteq> None"
    by (auto simp: list_ex_iff find_None_iff is_bucket_iff)
  then show ?thesis using True
    by (auto simp: reported_def sql_income_delta_def is_bucket_iff[abs_def] stat_bucket_def find_upd_where[of stat_bucket, unfolded stat_bucket_def]
        split: option.splits)
next
  case False
  then have "find (\<lambda>b. stat_bucket b = ledger_bucket p) (daily_stats t) = None"
    by (auto simp: list_ex_iff find_None_iff is_bucket_iff)
  then show ?thesis using False
    by (auto simp: reported_def sql_income_delta_def find_append stat_bucket_def ledger_bucket_def split: option.splits)
qed

section \<open>One order\<close>

definition retracted :: "int \<Rightarrow> ledger_row option \<Rightarrow> tables \<Rightarrow> tables" where
  "retracted i old t = (case old of None \<Rightarrow> t | Some p \<Rightarrow>
     (sql_income_delta p (- 1) t)\<lparr>order_income_ledger := filter (\<lambda>r. D_order_id r \<noteq> i) (order_income_ledger t)\<rparr>)"

definition added :: "ledger_row \<Rightarrow> tables \<Rightarrow> tables" where
  "added p t = (sql_income_delta p 1 t)\<lparr>order_income_ledger := order_income_ledger t @ [p\<lparr>D_amount := round2Money (D_amount p)\<rparr>]\<rparr>"

definition projected :: "order_row \<Rightarrow> tables \<Rightarrow> tables" where
  "projected o' t =
    (let i = O_id o'; new = income_row t o'; eligible = is_income (O_status o'); old = ledger_of i t;
         t = (if \<not> eligible \<or> old \<noteq> Some new then retracted i old t else t); t = (if eligible \<and> old \<noteq> Some new then added new t else t)
     in t\<lparr>lease_orders := upd_where (\<lambda>o'. O_id o' = i) (\<lambda>o'. o'\<lparr>O_income_recorded := eligible\<rparr>) (lease_orders t)\<rparr>)"

lemma delta_frame [simp]: "order_income_ledger (sql_income_delta p d t) = order_income_ledger t" "lease_orders (sql_income_delta p d t) = lease_orders t"
  "templates (sql_income_delta p d t) = templates t"
  by (simp_all add: sql_income_delta_def)

lemma retract_ok: "retract_income i old s = (None, s') \<Longrightarrow> db s' = retracted i old (db s)"
  by (auto simp: retract_income_def retracted_def dest!: Exec_NoneD split: option.splits prod.splits)

lemma add_ok: "add_income p s = (None, s') \<Longrightarrow> db s' = added p (db s)"
  by (auto simp: add_income_def added_def dest!: Exec_NoneD split: option.splits prod.splits)

lemma find_order_id: "find (\<lambda>o'. O_id o' = i) os = Some o' \<Longrightarrow> O_id o' = i \<and> o' \<in> set os"
  by (auto simp: find_Some_iff)

lemma project_ok:
  assumes "projectOrderIncome i s = (None, s')"
  shows "db s' = (case find (\<lambda>o'. O_id o' = i) (lease_orders (db s)) of None \<Rightarrow> db s | Some o' \<Rightarrow> projected o' (db s))"
proof -
  obtain q s1 where Q: "Query (\<lambda>t. map_option (\<lambda>o'. (income_row t o', is_income (O_status o'))) (find (\<lambda>o'. O_id o' = i) (lease_orders t))) s = (Inr q, s1)"
    using assms unfolding projectOrderIncome_def by (auto split: prod.splits sum.splits)
  note q = Query_InrD[OF Q]
  show ?thesis
  proof (cases "find (\<lambda>o'. O_id o' = i) (lease_orders (db s))")
    case None
    then show ?thesis using assms q unfolding projectOrderIncome_def Q by auto
  next
    case (Some o')
    let ?new = "income_row (db s) o'" and ?el = "is_income (O_status o')"
    have id: "O_id o' = i" using find_order_id[OF Some] by simp
    have qs: "q = Some (?new, ?el)" using q Some by simp
    obtain old s2 where L: "Query (ledger_of i) s1 = (Inr old, s2)"
      using assms unfolding projectOrderIncome_def Q qs by (auto split: prod.splits sum.splits)
    note l = Query_InrD[OF L]
    obtain s3 where R: "(if \<not> ?el \<or> old \<noteq> Some ?new then retract_income i old s2 else (None, s2)) = (None, s3)"
      using assms unfolding projectOrderIncome_def Q qs by (simp add: L split: prod.splits option.splits)
    obtain s4 where A: "(if ?el \<and> old \<noteq> Some ?new then add_income ?new s3 else (None, s3)) = (None, s4)"
      using assms unfolding projectOrderIncome_def Q qs by (simp add: L R[simplified] split: prod.splits option.splits)
    have E: "Exec (\<lambda>t. t\<lparr>lease_orders := upd_where (\<lambda>o'. O_id o' = i) (\<lambda>o'. o'\<lparr>O_income_recorded := ?el\<rparr>) (lease_orders t)\<rparr>) s4 = (None, s')"
      using assms unfolding projectOrderIncome_def Q qs by (simp add: L R[simplified] A)
    have "db s3 = (if \<not> ?el \<or> old \<noteq> Some ?new then retracted i old (db s2) else db s2)"
      using R by (auto dest: retract_ok split: if_splits)
    moreover have "db s4 = (if ?el \<and> old \<noteq> Some ?new then added ?new (db s3) else db s3)"
      using A by (auto dest: add_ok split: if_splits)
    ultimately show ?thesis using Exec_NoneD[OF E] q l by (simp add: Some projected_def Let_def id)
  qed
qed

lemma find_remove_id: "find (\<lambda>r. D_order_id r = j) (filter (\<lambda>r. D_order_id r \<noteq> i) rs)
    = (if j = i then None else find (\<lambda>r. D_order_id r = j) rs)"
  by (induction rs) auto

lemma ledger_retracted: "ledger_of j (retracted i (ledger_of i t) t) = (if j = i then None else ledger_of j t)"
  by (auto simp: retracted_def ledger_of_def find_remove_id split: option.splits)

lemma ledger_added: "ledger_of (D_order_id p) t = None \<Longrightarrow> cent_amount (D_amount p) \<Longrightarrow>
    ledger_of j (added p t) = (if j = D_order_id p then Some p else ledger_of j t)"
  by (auto simp: added_def ledger_of_def find_append cent_amount_round split: option.splits)

lemma D_order_id_income_row [simp]: "D_order_id (income_row t o') = O_id o'" "D_amount (income_row t o') = O_order_amount o'"
  by (simp_all add: income_row_def)

text \<open>After an order is projected its ledger row is the one it stands for now, and no other row has changed.\<close>

lemma ledger_projected:
  assumes "cent_amount (O_order_amount o')"
  shows "ledger_of j (projected o' t) = (if j = O_id o' then (if is_income (O_status o') then Some (income_row t o') else None) else ledger_of j t)"
proof -
  have [simp]: "ledger_of k (t'\<lparr>lease_orders := os\<rparr>) = ledger_of k t'" for k t' os by (simp add: ledger_of_def)
  show ?thesis using assms by (simp add: projected_def Let_def ledger_retracted ledger_added)
qed

lemma ids_retracted: "distinct (map D_order_id (order_income_ledger t)) \<Longrightarrow> distinct (map D_order_id (order_income_ledger (retracted i old t)))"
  by (auto simp: retracted_def distinct_map inj_on_def split: option.splits)

lemma ids_added: "distinct (map D_order_id (order_income_ledger t)) \<Longrightarrow> ledger_of (D_order_id p) t = None \<Longrightarrow>
    distinct (map D_order_id (order_income_ledger (added p t)))"
  by (auto simp: added_def ledger_of_def find_None_iff)

lemma bucket_removed:
  assumes "distinct (map D_order_id rs)" "find (\<lambda>r. D_order_id r = i) rs = Some p"
  shows "sum_list (map f (in_bucket k (filter (\<lambda>r. D_order_id r \<noteq> i) rs)))
      = sum_list (map f (in_bucket k rs)) - (if k = ledger_bucket p then f p else (0::int))"
    "int (length (in_bucket k (filter (\<lambda>r. D_order_id r \<noteq> i) rs)))
      = int (length (in_bucket k rs)) - (if k = ledger_bucket p then 1 else 0)"
proof -
  have *: "sum_list (map f (in_bucket k (filter (\<lambda>r. D_order_id r \<noteq> i) rs)))
      = sum_list (map f (in_bucket k rs)) - (if k = ledger_bucket p then f p else (0::int))" for f :: "ledger_row \<Rightarrow> int"
    using assms
  proof (induction rs)
    case (Cons r rs)
    show ?case
    proof (cases "D_order_id r = i")
      case True
      then have "r = p" "filter (\<lambda>r. D_order_id r \<noteq> i) rs = rs" using Cons.prems by (auto simp: filter_id_conv image_iff)
      then show ?thesis using True by (auto simp: in_bucket_def)
    next
      case False
      then show ?thesis using Cons by (auto simp: in_bucket_def)
    qed
  qed simp
  show "sum_list (map f (in_bucket k (filter (\<lambda>r. D_order_id r \<noteq> i) rs)))
      = sum_list (map f (in_bucket k rs)) - (if k = ledger_bucket p then f p else (0::int))" by (rule *)
  show "int (length (in_bucket k (filter (\<lambda>r. D_order_id r \<noteq> i) rs)))
      = int (length (in_bucket k rs)) - (if k = ledger_bucket p then 1 else 0)" using *[of "\<lambda>_. 1"] by (simp add: sum_list_triv)
qed

lemma reported_frame [simp]: "reported (t\<lparr>order_income_ledger := rs\<rparr>) = reported t" "reported (t\<lparr>lease_orders := os\<rparr>) = reported t"
  "booked (t\<lparr>lease_orders := os\<rparr>) = booked t"
  by (simp_all add: reported_def booked_def fun_eq_iff)

lemma retracted_balance:
  assumes "books_balance t" "\<forall>r \<in> set (order_income_ledger t). cent_amount (D_amount r)"
  shows "books_balance (retracted i (ledger_of i t) t)"
proof (cases "ledger_of i t")
  case (Some p)
  have d: "distinct (map D_order_id (order_income_ledger t))" using assms(1) by (simp add: books_balance_def)
  have p: "cent_amount (D_amount p)" "find (\<lambda>r. D_order_id r = i) (order_income_ledger t) = Some p"
    using Some assms(2) by (auto simp: ledger_of_def find_Some_iff)
  have "reported (retracted i (Some p) t) k = booked (retracted i (Some p) t) k" for k
  proof -
    have "reported t k = booked t k" using assms(1) unfolding books_balance_def by blast
    then show ?thesis using bucket_removed(1)[OF d p(2), of "\<lambda>r. money_cents (D_amount r)" k] bucket_removed(2)[OF d p(2), of k]
        delta_cents_amount[OF p(1)] by (auto simp: retracted_def reported_delta booked_def Let_def)
  qed
  then show ?thesis using ids_retracted[OF d] Some by (simp add: books_balance_def)
qed (use assms in \<open>simp add: retracted_def\<close>)

lemma added_balance:
  assumes "books_balance t" "cent_amount (D_amount p)" "ledger_of (D_order_id p) t = None"
  shows "books_balance (added p t)"
proof -
  have "reported (added p t) k = booked (added p t) k" for k
  proof -
    have "reported t k = booked t k" using assms(1) unfolding books_balance_def by blast
    then show ?thesis using delta_cents_amount[OF assms(2)] cent_amount_round[OF assms(2)]
      by (auto simp: added_def reported_delta booked_def Let_def in_bucket_def)
  qed
  then show ?thesis using ids_added assms(1,3) by (simp add: books_balance_def)
qed

lemma projected_balance:
  assumes "books_balance t" "sane_amounts t" "o' \<in> set (lease_orders t)"
  shows "books_balance (projected o' t)"
proof -
  have a: "cent_amount (O_order_amount o')" "\<forall>r \<in> set (order_income_ledger t). cent_amount (D_amount r)"
    using assms(2,3) by (auto simp: sane_amounts_def)
  have f: "books_balance (t'\<lparr>lease_orders := os\<rparr>) = books_balance t'" for t' os by (simp add: books_balance_def)
  show ?thesis using retracted_balance[OF assms(1) a(2)] assms(1) a(1) ledger_retracted[of "O_id o'" "O_id o'" t]
    by (auto simp: projected_def Let_def f intro!: added_balance)
qed

lemma projected_frame: "templates (projected o' t) = templates t"
    "lease_orders (projected o' t) = upd_where (\<lambda>x. O_id x = O_id o') (\<lambda>x. x\<lparr>O_income_recorded := is_income (O_status o')\<rparr>) (lease_orders t)"
  by (auto simp: projected_def Let_def retracted_def added_def split: option.splits)

lemma projected_sane:
  assumes "sane_amounts t" "o' \<in> set (lease_orders t)"
  shows "sane_amounts (projected o' t)"
proof -
  have a: "cent_amount (O_order_amount o')" using assms by (auto simp: sane_amounts_def)
  have "\<forall>r \<in> set (order_income_ledger (projected o' t)). cent_amount (D_amount r)"
    using assms(1) a by (auto simp: projected_def Let_def retracted_def added_def sane_amounts_def cent_amount_round split: option.splits)
  then show ?thesis using assms(1)
    by (auto simp: sane_amounts_def projected_frame map_upd_where set_upd_where split: if_splits)
qed

section \<open>Batches\<close>

definition settled :: "tables \<Rightarrow> int \<Rightarrow> bool" where
  "settled t i \<longleftrightarrow> (\<forall>o' \<in> set (lease_orders t). O_id o' = i \<longrightarrow> \<not> needs_projection t o')"

lemma income_row_frame: "templates t' = templates t \<Longrightarrow> income_row t' (o'\<lparr>O_income_recorded := b\<rparr>) = income_row t o'"
  by (simp add: income_row_def category_of_def)

lemma projected_settles:
  assumes "sane_amounts t" "o' \<in> set (lease_orders t)"
  shows "settled (projected o' t) (O_id o')" "settled t j \<Longrightarrow> settled (projected o' t) j"
proof -
  have a: "cent_amount (O_order_amount o')" using assms by (auto simp: sane_amounts_def)
  have u: "x = o'" if "x \<in> set (lease_orders t)" "O_id x = O_id o'" for x
    using assms that by (auto simp: sane_amounts_def distinct_map inj_on_def)
  show 1: "settled (projected o' t) (O_id o')"
    by (auto simp: settled_def projected_frame set_upd_where needs_projection_def ledger_projected[OF a] income_row_frame dest!: u split: if_splits)
  show "settled (projected o' t) j" if st: "settled t j"
  proof (cases "j = O_id o'")
    case False
    have ir: "income_row (projected o' t) x = income_row t x" for x by (simp add: income_row_def category_of_def projected_frame)
    have "needs_projection (projected o' t) x = needs_projection t x" if "O_id x = j" for x
      using False that by (simp add: needs_projection_def ledger_projected[OF a] ir)
    then show ?thesis using st False unfolding settled_def projected_frame set_upd_where by (auto split: if_splits)
  qed (use 1 in simp)
qed

definition accounts_ok :: "tables \<Rightarrow> bool" where
  "accounts_ok t \<longleftrightarrow> sane_amounts t \<and> books_balance t"

lemma project_step:
  assumes "projectOrderIncome i s = (None, s')" "accounts_ok (db s)"
  shows "accounts_ok (db s') \<and> settled (db s') i \<and> (\<forall>j. settled (db s) j \<longrightarrow> settled (db s') j)
    \<and> map O_id (lease_orders (db s')) = map O_id (lease_orders (db s))"
proof (cases "find (\<lambda>o'. O_id o' = i) (lease_orders (db s))")
  case None
  then have e: "db s' = db s" using project_ok[OF assms(1)] by simp
  have "settled (db s) i" using None by (auto simp: settled_def find_None_iff)
  then show ?thesis using assms(2) by (simp add: e)
next
  case (Some o')
  note o' = find_order_id[OF Some]
  have e: "db s' = projected o' (db s)" using project_ok[OF assms(1)] Some by simp
  show ?thesis using assms(2) projected_balance[of "db s" o'] projected_sane[of "db s" o'] projected_settles[of "db s" o'] o'
    unfolding e accounts_ok_def by (auto simp: projected_frame map_upd_where)
qed

lemma project_all_ok: "project_all is s = (None, s') \<Longrightarrow> accounts_ok (db s) \<Longrightarrow>
    accounts_ok (db s') \<and> (\<forall>i \<in> set is. settled (db s') i) \<and> (\<forall>j. settled (db s) j \<longrightarrow> settled (db s') j)
    \<and> map O_id (lease_orders (db s')) = map O_id (lease_orders (db s))"
proof (induction "is" arbitrary: s)
  case (Cons i "is")
  obtain s1 where P: "projectOrderIncome i s = (None, s1)" "project_all is s1 = (None, s')"
    using Cons.prems(1) by (auto split: prod.splits option.splits)
  show ?case using project_step[OF P(1) Cons.prems(2)] Cons.IH[OF P(2)] by auto
qed simp

lemma batch_ok:
  assumes "RecordIncomeBatch ids s = (Inr (), s')" "accounts_ok (db s)"
  shows "accounts_ok (db s') \<and> (\<forall>i \<in> set ids. settled (db s') i) \<and> (\<forall>j. settled (db s) j \<longrightarrow> settled (db s') j)
    \<and> map O_id (lease_orders (db s')) = map O_id (lease_orders (db s))"
proof (cases "ids = []")
  case False
  then have T: "Tx (Wrap ''begin income tx: '') (income_body ids) s = (Inr (), s')" using assms(1) by (simp add: RecordIncomeBatch_def)
  obtain c s1 where b: "income_body ids (past s) = (Inr (c, ()), s1)" "db s' = (if c then db s1 else db s)" using Tx_ok[OF T] by auto
  obtain u s2 where q: "Query (\<lambda>_. ()) (past s) = (Inr u, s2)" using b(1) unfolding income_body_def by (auto split: prod.splits sum.splits)
  have p: "project_all (remdups_adj (sort ids)) s2 = (None, s1)" "c"
    using b(1) unfolding income_body_def q by (auto split: prod.splits option.splits)
  have "db s2 = db s" using Query_InrD[OF q] by simp
  then show ?thesis using project_all_ok[OF p(1)] assms(2) b(2) p(2) by simp
qed (use assms in \<open>auto simp: RecordIncomeBatch_def\<close>)

text \<open>C17: Whatever orders a batch names, twice or stale or not at all, and wherever it fails, the daily figures stay
  the sums and counts of the ledger rows of their day, channel and category, and the ledger keeps one row an order.\<close>

theorem income_books_balance:
  assumes "RecordIncomeBatch ids s = (r, s')" "sane_amounts (db s)" "books_balance (db s)"
  shows "books_balance (db s') \<and> sane_amounts (db s')"
proof (cases r)
  case (Inl e)
  then have "db s' = db s" using assms(1) by (auto simp: RecordIncomeBatch_def dest: Tx_error split: if_splits)
  then show ?thesis using assms by simp
next
  case (Inr u)
  then show ?thesis using batch_ok[of ids s s'] assms by (simp add: accounts_ok_def)
qed

text \<open>A rollup that records fewer orders than its batch size leaves every finished order in the ledger exactly as it
  stands, and no other order: the next rollup finds nothing to do.\<close>

theorem rollup_settles_every_order:
  assumes "RollupTerminalOrders s = (Inr n, s')" "n < 200" "sane_amounts (db s)" "books_balance (db s)" "o' \<in> set (lease_orders (db s'))"
  shows "ledger_of (O_id o') (db s') = (if is_income (O_status o') then Some (income_row (db s') o') else None)
    \<and> O_income_recorded o' = is_income (O_status o') \<and> \<not> needs_projection (db s') o'"
proof -
  obtain ids s1 where U: "UnrecordedTerminalOrders 200 s = (Inr ids, s1)" "RecordIncomeBatch ids s1 = (Inr (), s')" "n = int (length ids)"
    using assms(1) by (auto simp: RollupTerminalOrders_def split: prod.splits sum.splits)
  have d: "db s1 = db s" "ids = take 200 (map O_id (filter (needs_projection (db s)) (sort_key O_id (lease_orders (db s)))))"
    using U(1) by (auto simp: UnrecordedTerminalOrders_def dest: Query_InrD split: prod.splits sum.splits)
  have ids: "ids = map O_id (filter (needs_projection (db s)) (sort_key O_id (lease_orders (db s))))"
    using d(2) U(3) assms(2) by auto
  note B = batch_ok[OF U(2)]
  have "settled (db s') (O_id o')"
  proof (cases "O_id o' \<in> set ids")
    case False
    have "settled (db s1) (O_id o')" using False unfolding settled_def d(1) ids by (auto simp: image_iff)
    then show ?thesis using B assms(3,4) d(1) by (simp add: accounts_ok_def)
  qed (use B assms(3,4) d(1) in \<open>simp add: accounts_ok_def\<close>)
  then show ?thesis using assms(5) by (auto simp: settled_def needs_projection_def)
qed

section \<open>Nothing but the database stops a batch\<close>

lemma project_runs: "faults s = [] \<Longrightarrow> \<exists>s' :: session. projectOrderIncome i s = (None, s') \<and> faults s' = []"
  by (simp add: projectOrderIncome_def retract_income_def add_income_def Query_runs Exec_runs split: option.split)

lemma project_all_runs: "faults s = [] \<Longrightarrow> \<exists>s' :: session. project_all is s = (None, s') \<and> faults s' = []"
proof (induction "is" arbitrary: s)
  case (Cons i "is")
  then obtain s1 :: session where "projectOrderIncome i s = (None, s1)" "faults s1 = []" using project_runs by blast
  then show ?case using Cons.IH[of s1] by simp
qed simp

lemma batch_runs: "faults s = [] \<Longrightarrow> \<exists>s'. RecordIncomeBatch ids s = (Inr (), s')"
  using project_all_runs[of s "remdups_adj (sort ids)"] by (auto simp: RecordIncomeBatch_def Tx_def income_body_def Query_runs)

lemma rollup_runs:
  assumes "faults s = []"
  shows "\<exists>s' ids. RollupTerminalOrders s = (Inr (int (length ids)), s') \<and> RecordIncomeBatch ids s = (Inr (), s') \<and> length ids \<le> length (lease_orders (db s))"
proof -
  define ids where "ids = take 200 (map O_id (filter (needs_projection (db s)) (sort_key O_id (lease_orders (db s)))))"
  obtain s' where "RecordIncomeBatch ids s = (Inr (), s')" using batch_runs[OF assms] by blast
  moreover have "length ids \<le> length (lease_orders (db s))" unfolding ids_def
    by (metis length_filter_le length_map length_sort length_take min.coboundedI1 min.commute)
  ultimately show ?thesis using assms
    by (intro exI[of _ s'] exI[of _ ids]) (simp add: RollupTerminalOrders_def UnrecordedTerminalOrders_def Query_runs flip: ids_def)
qed

section \<open>A worked example\<close>

definition income_order :: "int \<Rightarrow> string \<Rightarrow> int \<Rightarrow> order_row" where
  "income_order i st amount =
    \<lparr>O_id = i, O_channel = ''uu'', O_order_ref = ''r'' @ dec_int i, O_asset_id = ''a'', O_hash_name = ''h'', O_order_type = ''short'',
     O_status = st, O_rent_days = 3, O_rent_price = cents 10, O_order_amount = cents amount, O_deposits = cents 0, O_started_at = None,
     O_due_at = None, O_finished_at = Some 0, O_updated_at = 0, O_factor_applied = False, O_factor_listing_id = None,
     O_factor_observed_at = 0, O_income_recorded = (i = 2), O_raw = None\<rparr>"

text \<open>Order 1 is new income, order 2 was recorded and has been cancelled since.\<close>

definition income_tables :: tables where
  "income_tables = \<lparr>templates = [], inventory_items = [], listings = [],
     lease_orders = [income_order 1 ''done'' 250, income_order 2 ''cancelled'' 100], market_snapshots = [], strategies = [], price_actions = [],
     fund_flows = [], app_settings = [], audit_log = [],
     order_income_ledger = [\<lparr>D_order_id = 2, D_stat_date = 0, D_channel = ''uu'', D_category = uncategorised, D_amount = cents 100\<rparr>],
     daily_stats = [\<lparr>B_stat_date = 0, B_channel = ''uu'', B_category = uncategorised, B_income = 100, B_order_count = 1\<rparr>],
     shelf_observations = (\<lambda>_. None), next_id = 9\<rparr>"

definition income_session :: session where
  "income_session = \<lparr>db = income_tables, db_now = 0, faults = []\<rparr>"

lemma income_tables_ok: "sane_amounts (db income_session)" "books_balance (db income_session)"
proof -
  have a: "cent_amount (cents 250)" "cent_amount (cents 100)" unfolding cent_amount_def by (rule exI[of _ 250], simp, rule exI[of _ 100], simp)
  show "sane_amounts (db income_session)" using a by (simp add: sane_amounts_def income_session_def income_tables_def income_order_def)
  show "books_balance (db income_session)"
    by (auto simp: books_balance_def income_session_def income_tables_def reported_def booked_def in_bucket_def Let_def stat_bucket_def
        ledger_bucket_def money_cents_cents)
qed

theorem income_books_balance_witness: "books_balance (db (snd (RecordIncomeBatch [2, 1, 2, 7] income_session)))"
proof -
  obtain s' where "RecordIncomeBatch [2, 1, 2, 7] income_session = (Inr (), s')" using batch_runs[of income_session] by (auto simp: income_session_def)
  then show ?thesis using income_books_balance[of "[2, 1, 2, 7]" income_session "Inr ()" s'] income_tables_ok by simp
qed

theorem rollup_settles_every_order_witness:
  "\<exists>o'. o' \<in> set (lease_orders (db (snd (RollupTerminalOrders income_session)))) \<and> O_id o' = 2
    \<and> \<not> needs_projection (db (snd (RollupTerminalOrders income_session))) o'"
proof -
  obtain s' ids where r: "RollupTerminalOrders income_session = (Inr (int (length ids)), s')" "RecordIncomeBatch ids income_session = (Inr (), s')"
      "length ids \<le> length (lease_orders (db income_session))"
    using rollup_runs[of income_session] by (auto simp: income_session_def)
  have m: "map O_id (lease_orders (db s')) = [1, 2]" using batch_ok[OF r(2)] income_tables_ok
    by (simp add: accounts_ok_def) (simp add: income_session_def income_tables_def income_order_def)
  have "2 \<in> set (map O_id (lease_orders (db s')))" unfolding m by simp
  then obtain o' where o': "2 = O_id o'" "o' \<in> set (lease_orders (db s'))" unfolding set_map by (rule imageE)
  have n: "int (length ids) < 200" using r(3) by (simp add: income_session_def income_tables_def)
  have "\<not> needs_projection (db s') o'" using rollup_settles_every_order[OF r(1) n income_tables_ok o'(2)] by blast
  then show ?thesis using o' unfolding r(1) by (intro exI[of _ o']) simp
qed

end
