(* ===== verification/RepriceStore.thy ===== *)
theory RepriceStore
  imports BusinessStore "HOL-Library.Char_ord" "HOL-Library.List_Lexorder" "HOL-Library.AList"
begin

text \<open>
  What the repricing and collecting jobs read and write besides listings: candidates, price actions and merged market
  quotes (\<open>store/reprice.go\<close>), market snapshots and fund flows (\<open>store/collect.go\<close>), wallet snapshots
  (\<open>store/analytics.go\<close>, \<open>store/money.go\<close>). Text sorts by bytes; an \<open>ORDER BY\<close> is a composition of stable sorts, the
  last key first.
\<close>

section \<open>Candidates\<close>

record RepriceCandidate =
  rc_ListingID :: int
  rc_Channel :: channel
  rc_HashName :: string
  rc_GoodsRef :: string
  rc_AssetID :: string
  rc_RentPrice :: f64
  rc_LongPrice :: f64
  rc_Deposit :: f64
  rc_MaxDays :: int
  rc_Factor :: f64
  rc_V :: "f64 option"
  rc_UUTemplateID :: "int option"
  rc_LastActionAt :: "instant option"
  rc_SubletApplied :: bool

definition scan_null :: goerr where
  "scan_null = Errorf ''cannot scan NULL into a Go value''"

text \<open>A row whose rent is NULL cannot be scanned into a float64, and the whole read fails.\<close>

fun scan_rows :: "('r \<Rightarrow> goerr + 'a) \<Rightarrow> 'r list \<Rightarrow> goerr + 'a list" where
  "scan_rows f [] = Inr []"
| "scan_rows f (r # rs) = (case f r of Inl e \<Rightarrow> Inl e | Inr x \<Rightarrow> (case scan_rows f rs of Inl e \<Rightarrow> Inl e | Inr xs \<Rightarrow> Inr (x # xs)))"

definition or0 :: "f64 option \<Rightarrow> f64" where
  "or0 v = (case v of None \<Rightarrow> Fin 0 | Some x \<Rightarrow> x)"

definition reprice_candidate :: "listing_row \<times> template_row \<Rightarrow> goerr + RepriceCandidate" where
  "reprice_candidate p = (case p of (l, tm) \<Rightarrow> case L_rent_price l of None \<Rightarrow> Inl scan_null
     | Some rent \<Rightarrow> Inr \<lparr>rc_ListingID = L_id l, rc_Channel = L_channel l, rc_HashName = L_hash_name l, rc_GoodsRef = L_goods_ref l,
         rc_AssetID = L_asset_id l, rc_RentPrice = rent, rc_LongPrice = or0 (L_long_rent_price l), rc_Deposit = or0 (L_deposit l),
         rc_MaxDays = (case L_max_days l of None \<Rightarrow> 0 | Some d \<Rightarrow> d), rc_Factor = L_factor l, rc_V = T_value_anchor tm,
         rc_UUTemplateID = T_uu_template_id tm, rc_LastActionAt = COALESCE (L_last_reprice_at l) (L_listed_at l),
         rc_SubletApplied = L_sublet_applied l\<rparr>)"

definition sql_candidates :: "channel \<Rightarrow> tables \<Rightarrow> (listing_row \<times> template_row) list" where
  "sql_candidates ch t = concat (map (\<lambda>l. map (Pair l) (filter (\<lambda>tm. T_hash_name tm = L_hash_name l \<and> \<not> T_blacklisted tm) (templates t)))
     (filter (\<lambda>l. L_channel l = ch \<and> L_actual_state l = ''active'') (listings t)))"

definition ListRepriceCandidates :: "channel \<Rightarrow> session \<Rightarrow> (goerr + RepriceCandidate list) \<times> session" where
  "ListRepriceCandidates ch s = (case Query (sql_candidates ch) s of
     (Inl e, s) \<Rightarrow> (Inl (Wrap ''list reprice candidates: '' e), s) | (Inr rows, s) \<Rightarrow> (scan_rows reprice_candidate rows, s))"

section \<open>Price actions\<close>

record PriceAction =
  pa_Channel :: channel
  pa_HashName :: string
  pa_AssetID :: string
  pa_ListingID :: int
  pa_Action :: string
  pa_OldRent :: "f64 option"
  pa_NewRent :: "f64 option"
  pa_OldLong :: "f64 option"
  pa_NewLong :: "f64 option"
  pa_OldDays :: "int option"
  pa_NewDays :: "int option"
  pa_OldDeposit :: "f64 option"
  pa_NewDeposit :: "f64 option"
  pa_Decision :: "json option"
  pa_DryRun :: bool
  pa_Success :: bool
  pa_Error :: string

definition new_action :: "PriceAction \<Rightarrow> int \<Rightarrow> instant \<Rightarrow> action_row" where
  "new_action p i now =
    \<lparr>A_id = i, A_ts = now, A_channel = pa_Channel p, A_hash_name = pa_HashName p, A_asset_id = pa_AssetID p, A_listing_id = NULLIF (pa_ListingID p) 0,
     A_action = pa_Action p, A_old_rent = round2MoneyPtr (pa_OldRent p), A_new_rent = round2MoneyPtr (pa_NewRent p),
     A_old_long = round2MoneyPtr (pa_OldLong p), A_new_long = round2MoneyPtr (pa_NewLong p), A_old_days = pa_OldDays p, A_new_days = pa_NewDays p,
     A_old_deposit = round2MoneyPtr (pa_OldDeposit p), A_new_deposit = round2MoneyPtr (pa_NewDeposit p), A_decision = pa_Decision p,
     A_dry_run = pa_DryRun p, A_success = pa_Success p, A_error = NULLIF (pa_Error p) ''''\<rparr>"

definition InsertPriceAction :: "PriceAction \<Rightarrow> session \<Rightarrow> (goerr + int) \<times> session" where
  "InsertPriceAction p s =
    (case ExecR (\<lambda>t. (next_id t, t\<lparr>price_actions := price_actions t @ [new_action p (next_id t) (db_now s)], next_id := next_id t + 1\<rparr>)) s of
       (Inl e, s) \<Rightarrow> (Inl (Wrap ''insert price action: '' e), s) | (Inr i, s) \<Rightarrow> (Inr i, s))"

section \<open>Market snapshots\<close>

record quote_snapshot =
  qs_HashName :: string
  qs_Source :: string
  qs_Kind :: string
  qs_Rank :: int
  qs_Price :: f64
  qs_CapturedAt :: instant

definition snapshot_insert :: "instant \<Rightarrow> quote_snapshot \<Rightarrow> snapshot_row" where
  "snapshot_insert now q = \<lparr>M_hash_name = qs_HashName q, M_source = qs_Source q, M_kind = qs_Kind q, M_rank = qs_Rank q,
     M_price = round2Money (qs_Price q), M_captured_at = (if IsZero (qs_CapturedAt q) then now else qs_CapturedAt q)\<rparr>"

text \<open>The batch of inserts is one implicit transaction.\<close>

definition InsertSnapshots :: "quote_snapshot list \<Rightarrow> instant \<Rightarrow> session \<Rightarrow> goerr option \<times> session" where
  "InsertSnapshots snaps now s = (if snaps = [] then (None, s)
     else case Exec (\<lambda>t. t\<lparr>market_snapshots := market_snapshots t @ map (snapshot_insert now) snaps\<rparr>) s of
         (Some e, s) \<Rightarrow> (Some (Wrap ''insert snapshots: '' e), s) | (None, s) \<Rightarrow> (None, s))"

record MergedQuote =
  mq_Rank :: int
  mq_Short :: f64
  mq_Long :: f64
  mq_Deposit :: f64

text \<open>\<open>DISTINCT ON\<close>: the first row of each key.\<close>

fun distinct_on :: "('r \<Rightarrow> 'k) \<Rightarrow> 'r list \<Rightarrow> 'r list" where
  "distinct_on g [] = []"
| "distinct_on g (r # rs) = r # distinct_on g (filter (\<lambda>x. g x \<noteq> g r) rs)"

definition sql_recent_quotes :: "string \<Rightarrow> instant \<Rightarrow> int \<Rightarrow> tables \<Rightarrow> goerr + snapshot_row list" where
  "sql_recent_quotes h since limit t =
    (if limit < 0 then Inl (Errorf ''LIMIT must not be negative'')
     else Inr (take (nat limit) (distinct_on (\<lambda>q. (M_rank q, M_kind q))
       (sort_key M_rank (sort_key M_kind (sort_key (\<lambda>q. - M_captured_at q)
         (filter (\<lambda>q. M_hash_name q = h \<and> M_source q = ''uu_market'' \<and> since \<le> M_captured_at q) (market_snapshots t))))))))"

definition merge_quote :: "(int \<times> MergedQuote) list \<Rightarrow> snapshot_row \<Rightarrow> (int \<times> MergedQuote) list" where
  "merge_quote acc q =
    (let m = (case map_of acc (M_rank q) of Some m \<Rightarrow> m | None \<Rightarrow> \<lparr>mq_Rank = M_rank q, mq_Short = Fin 0, mq_Long = Fin 0, mq_Deposit = Fin 0\<rparr>)
     in AList.update (M_rank q)
          (if M_kind q = ''lease_short'' then m\<lparr>mq_Short := M_price q\<rparr>
           else if M_kind q = ''lease_long'' then m\<lparr>mq_Long := M_price q\<rparr>
           else if M_kind q = ''deposit'' then m\<lparr>mq_Deposit := M_price q\<rparr> else m) acc)"

definition RecentMergedQuotes :: "string \<Rightarrow> instant \<Rightarrow> int \<Rightarrow> session \<Rightarrow> (goerr + MergedQuote list) \<times> session" where
  "RecentMergedQuotes h since limit s =
    (case QueryE (sql_recent_quotes h since limit) s of
       (Inl e, s) \<Rightarrow> (Inl (Wrap ''recent merged quotes: '' e), s) | (Inr rows, s) \<Rightarrow> (Inr (map snd (foldl merge_quote [] rows)), s))"

section \<open>Fund flows\<close>

definition sql_insert_flow :: "flow_row \<Rightarrow> tables \<Rightarrow> tables" where
  "sql_insert_flow f t =
    (if list_ex (\<lambda>r. F_channel r = F_channel f \<and> F_flow_ref r = F_flow_ref f) (fund_flows t) then t
     else t\<lparr>fund_flows := fund_flows t @ [f]\<rparr>)"

definition UpsertFundFlow :: "flow_row \<Rightarrow> session \<Rightarrow> goerr option \<times> session" where
  "UpsertFundFlow f = Exec (sql_insert_flow (f\<lparr>F_amount := round2Money (F_amount f)\<rparr>))"

definition WalletBalance :: "channel \<Rightarrow> session \<Rightarrow> (goerr + f64) \<times> session" where
  "WalletBalance ch = QueryE (\<lambda>t. case first_by (\<lambda>a b. F_occurred_at b < F_occurred_at a)
       (filter (\<lambda>f. F_channel f = ch \<and> F_type f = ''wallet_snapshot'') (fund_flows t)) of
     None \<Rightarrow> Inl not_found | Some f \<Rightarrow> Inr (F_amount f))"

end
