(* ===== verification/Reprice.thy ===== *)
theory Reprice
  imports RepriceStore StrategyStore
begin

text \<open>
  The repricing job (\<open>internal/scheduler/jobs_reprice.go\<close>): channel cooldowns, and one cycle over the active listings of a
  channel. The state of a job is the store's session, the cooldowns and the outside world the adapters act on; each
  \<open>time.Now()\<close> is the next reading of a clock that is an arbitrary sequence of instants. The map of parsed parameters
  (a cache of \<open>ParseParams\<close> keyed by its arguments) and the log are left out.
\<close>

section \<open>Jobs\<close>

record Deps =
  dd_DryRun :: bool
  dd_Clock :: "nat \<Rightarrow> instant"
  dd_Audit :: bool

record 'w job_state =
  js_ses :: session
  js_cooldowns :: "channel \<Rightarrow> instant option"
  js_reads :: nat
  js_world :: 'w

definition time_Now :: "Deps \<Rightarrow> 'w job_state \<Rightarrow> instant \<times> 'w job_state" where
  "time_Now d st = (dd_Clock d (js_reads st), st\<lparr>js_reads := js_reads st + 1\<rparr>)"

text \<open>A statement of the store, and a call of an adapter, inside a job.\<close>

definition on_store :: "(session \<Rightarrow> 'a \<times> session) \<Rightarrow> 'w job_state \<Rightarrow> 'a \<times> 'w job_state" where
  "on_store f st = (case f (js_ses st) of (r, s) \<Rightarrow> (r, st\<lparr>js_ses := s\<rparr>))"

definition on_world :: "('w \<Rightarrow> 'a \<times> 'w) \<Rightarrow> 'w job_state \<Rightarrow> 'a \<times> 'w job_state" where
  "on_world f st = (case f (js_world st) of (r, w) \<Rightarrow> (r, st\<lparr>js_world := w\<rparr>))"

section \<open>Cooldowns\<close>

definition channelReady :: "channel \<Rightarrow> instant \<Rightarrow> 'w job_state \<Rightarrow> bool" where
  "channelReady ch now st = (case js_cooldowns st ch of None \<Rightarrow> True | Some until \<Rightarrow> until < now)"

definition job_ChannelReady :: "Deps \<Rightarrow> channel \<Rightarrow> 'w job_state \<Rightarrow> bool \<times> 'w job_state" where
  "job_ChannelReady d ch st = (case time_Now d st of (now, st) \<Rightarrow> (channelReady ch now st, st))"

definition riskCooldown :: "goerr \<Rightarrow> duration" where
  "riskCooldown e =
    (if errors_Is (Some e) ErrRateLimited then 5 * Minute
     else if errors_Is (Some e) ErrPlatformBlocked then 15 * Minute
     else if errors_Is (Some e) ErrUKExpired then 2 * Minute
     else if errors_Is (Some e) ErrAuthExpired then 30 * Minute
     else 0)"

definition job_penalize :: "Deps \<Rightarrow> channel \<Rightarrow> goerr \<Rightarrow> 'w job_state \<Rightarrow> 'w job_state" where
  "job_penalize d ch e st =
    (if riskCooldown e = 0 then st
     else case time_Now d st of (now, st) \<Rightarrow>
       let until = now + riskCooldown e; prev = (case js_cooldowns st ch of None \<Rightarrow> 0 | Some t \<Rightarrow> t)
       in if prev < until then st\<lparr>js_cooldowns := (js_cooldowns st)(ch := Some until)\<rparr> else st)"

section \<open>One candidate\<close>

definition quoteWindow :: duration where
  "quoteWindow = 30 * Minute"

definition quote_of :: "MergedQuote \<Rightarrow> Quote" where
  "quote_of m = \<lparr>q_Name = '''', q_Short = mq_Short m, q_Long = mq_Long m, q_Deposit = mq_Deposit m\<rparr>"

definition loadQuotes :: "Deps \<Rightarrow> string \<Rightarrow> int \<Rightarrow> 'w job_state \<Rightarrow> Quote list \<times> 'w job_state" where
  "loadQuotes d h topn st =
    (case time_Now d st of (now, st) \<Rightarrow>
       case on_store (RecentMergedQuotes h (now - quoteWindow) (wrap64 (topn * 3))) st of
         (Inl e, st) \<Rightarrow> ([], st) | (Inr rows, st) \<Rightarrow> (map quote_of rows, st))"

definition base_of :: "Base option \<Rightarrow> Base" where
  "base_of b = (case b of None \<Rightarrow> \<lparr>b_Short = Fin 0, b_Long = Fin 0, b_Deposit = Fin 0\<rparr> | Some x \<Rightarrow> x)"

definition tsOrZero :: "instant option \<Rightarrow> instant" where
  "tsOrZero t = (case t of None \<Rightarrow> 0 | Some x \<Rightarrow> x)"

definition reprice_input :: "RepriceCandidate \<Rightarrow> Params \<Rightarrow> Quote list \<Rightarrow> Capabilities \<Rightarrow> instant \<Rightarrow> Input" where
  "reprice_input c p quotes caps now =
    (let base = Baseline quotes (p_Baseline p) (or0 (rc_V c))
     in \<lparr>in_Channel = rc_Channel c, HasV = (rc_V c \<noteq> None), in_V = or0 (rc_V c), in_Base = base_of base, HasBase = (base \<noteq> None),
         Factor = rc_Factor c,
         Cur = \<lparr>cur_RentPrice = rc_RentPrice c, cur_LastActionAt = tsOrZero (rc_LastActionAt c), cur_LongPrice = rc_LongPrice c,
                cur_Deposit = rc_Deposit c, cur_MaxDays = rc_MaxDays c, cur_TermsKnown = True\<rparr>,
         in_P = p, Now = now, RentMaxDayMin = cap_RentMaxDayMin caps, RentMaxDayMax = cap_RentMaxDayMax caps,
         IgnoreNoiseFloor = (rc_Channel c = ChannelECO \<and> \<not> rc_SubletApplied c)\<rparr>)"

definition strs :: "string list \<Rightarrow> json" where
  "strs xs = (if xs = [] then JNull else JArr (map JStr xs))"

definition old_terms :: "RepriceCandidate \<Rightarrow> bool \<Rightarrow> PriceAction" where
  "old_terms c dry =
    \<lparr>pa_Channel = rc_Channel c, pa_HashName = rc_HashName c, pa_AssetID = rc_AssetID c, pa_ListingID = rc_ListingID c, pa_Action = ''reprice'',
     pa_OldRent = Some (rc_RentPrice c), pa_NewRent = None, pa_OldLong = Some (rc_LongPrice c), pa_NewLong = None,
     pa_OldDays = Some (rc_MaxDays c), pa_NewDays = None, pa_OldDeposit = Some (rc_Deposit c), pa_NewDeposit = None,
     pa_Decision = None, pa_DryRun = dry, pa_Success = False, pa_Error = ''''\<rparr>"

definition skip_action :: "RepriceCandidate \<Rightarrow> bool \<Rightarrow> Decision \<Rightarrow> PriceAction" where
  "skip_action c dry dec = (old_terms c dry)\<lparr>pa_Action := ''skip'', pa_Success := True,
     pa_Decision := Some (JObj [(''skip'', JStr (SkipReason dec)), (''reasons'', strs (Reasons dec))])\<rparr>"

definition new_terms :: "RepriceCandidate \<Rightarrow> bool \<Rightarrow> Decision \<Rightarrow> PriceAction" where
  "new_terms c dry dec = (old_terms c dry)\<lparr>pa_NewRent := Some (d_Rent dec), pa_NewLong := Some (d_Long dec), pa_NewDays := Some (d_MaxDays dec),
     pa_NewDeposit := Some (d_Deposit dec),
     pa_Decision := Some (JObj [(''reasons'', strs (Reasons dec)), (''rent'', JNum (d_Rent dec)), (''long'', JNum (d_Long dec)),
       (''days'', JInt (d_MaxDays dec)), (''deposit'', JNum (d_Deposit dec)), (''factor'', JNum (rc_Factor c)), (''v'', JNum (or0 (rc_V c)))])\<rparr>"

definition action_ref :: "RepriceCandidate \<Rightarrow> string" where
  "action_ref c = rc_HashName c @ ''/'' @ dec_int (rc_ListingID c)"

text \<open>Every branch inserts its action; a failing insert is one more error of the cycle.\<close>

definition insert_action :: "string \<Rightarrow> PriceAction \<Rightarrow> RepriceCandidate \<Rightarrow> 'w job_state \<Rightarrow> goerr list \<times> 'w job_state" where
  "insert_action what p c st = (case on_store (InsertPriceAction p) st of
     (Inl e, st) \<Rightarrow> ([Wrap (''price_action '' @ what @ '' '' @ action_ref c @ '': '') e], st) | (Inr _, st) \<Rightarrow> ([], st))"

definition reprice_request :: "RepriceCandidate \<Rightarrow> Decision \<Rightarrow> RepriceLeaseRequest" where
  "reprice_request c dec = \<lparr>rq_GoodsRef = rc_GoodsRef c, rq_AssetRef = rc_AssetID c, rq_RentPrice = d_Rent dec, rq_LongRentPrice = d_Long dec,
     rq_MaxDays = d_MaxDays dec, rq_Deposit = d_Deposit dec\<rparr>"

definition reprice_error :: "RepriceLeaseResult list \<Rightarrow> goerr option \<Rightarrow> string" where
  "reprice_error res err = (case err of Some e \<Rightarrow> Error e
     | None \<Rightarrow> if length res \<noteq> 1 then ''missing or unexpected item result''
         else if \<not> rr_Success (hd res) then (if rr_Error (hd res) = '''' then ''platform marked item failed'' else rr_Error (hd res))
         else '''')"

text \<open>An accepted reprice is written to the listing, and the sublet policy marked where it was what forced the call.\<close>

definition keep_terms :: "RepriceCandidate \<Rightarrow> Input \<Rightarrow> Decision \<Rightarrow> 'w job_state \<Rightarrow> goerr list \<times> 'w job_state" where
  "keep_terms c inp dec st =
    (case on_store (UpdateListingDecision (rc_ListingID c) (d_Rent dec) (d_Long dec) (d_Deposit dec) (d_MaxDays dec)) st of (u, st) \<Rightarrow>
       let uerr = (case u of None \<Rightarrow> [] | Some e \<Rightarrow> [Wrap (''listing update '' @ dec_int (rc_ListingID c) @ '': '') e])
       in if IgnoreNoiseFloor inp
          then (case on_store (MarkListingSubletApplied (rc_ListingID c)) st of
                  (None, st) \<Rightarrow> (uerr, st)
                | (Some e, st) \<Rightarrow> (uerr @ [Wrap (''sublet flag '' @ dec_int (rc_ListingID c) @ '': '') e], st))
          else (uerr, st))"

definition submit :: "Deps \<Rightarrow> channel \<Rightarrow> 'w Adapter \<Rightarrow> RepriceCandidate \<Rightarrow> Input \<Rightarrow> Decision \<Rightarrow> 'w job_state \<Rightarrow> goerr list \<times> 'w job_state" where
  "submit d ch ad c inp dec st =
    (case on_world (RepriceLease ad [reprice_request c dec]) st of ((res, err), st) \<Rightarrow>
       let st = (case err of None \<Rightarrow> st | Some e \<Rightarrow> job_penalize d ch e st);
           ok = (err = None \<and> length res = 1 \<and> rr_Success (hd res));
           p = (new_terms c False dec)\<lparr>pa_Success := ok, pa_Error := reprice_error res err\<rparr>
       in case insert_action ''reprice'' p c st of (ierrs, st) \<Rightarrow>
            if ok then (case keep_terms c inp dec st of (uerrs, st) \<Rightarrow> (ierrs @ uerrs, st))
            else (ierrs @ [case err of Some e \<Rightarrow> Wrap (''reprice '' @ rc_GoodsRef c @ '': '') e
                    | None \<Rightarrow> Errorf (''reprice '' @ rc_GoodsRef c @ '': '' @ pa_Error p)], st))"

section \<open>A cycle\<close>

definition strategy_error :: "RepriceCandidate \<Rightarrow> goerr \<Rightarrow> goerr" where
  "strategy_error c e = Wrap (''strategy '' @ rc_HashName c @ '': '') e"

definition effective_dry :: "Deps \<Rightarrow> EffectiveStrategy \<Rightarrow> bool" where
  "effective_dry d es \<longleftrightarrow> dd_DryRun d \<or> \<not> es_GlobalRealEnabled es \<or> \<not> es_RealEnabled es"

text \<open>One candidate after its strategy is known: the errors of the operations, whether to go on, and the new state.\<close>

definition reprice_priced ::
    "Deps \<Rightarrow> channel \<Rightarrow> 'w Adapter \<Rightarrow> instant \<Rightarrow> RepriceCandidate \<Rightarrow> EffectiveStrategy \<Rightarrow> Params \<Rightarrow> 'w job_state \<Rightarrow> (goerr list \<times> bool) \<times> 'w job_state" where
  "reprice_priced d ch ad now c es p st =
    (case loadQuotes d (rc_HashName c) (TopN (p_Baseline p)) st of (quotes, st) \<Rightarrow>
       let inp = reprice_input c p quotes (Caps ad) now; dec = Decide inp; dry = effective_dry d es
       in if \<not> OK dec then (case insert_action ''skip'' (skip_action c dry dec) c st of (es, st) \<Rightarrow> ((es, True), st))
          else if dry then (case insert_action ''dryrun'' ((new_terms c dry dec)\<lparr>pa_Success := True\<rparr>) c st of (es, st) \<Rightarrow> ((es, True), st))
          else case job_ChannelReady d ch st of
              (False, st) \<Rightarrow> (([], False), st)
            | (True, st) \<Rightarrow> (case submit d ch ad c inp dec st of (es, st) \<Rightarrow> ((es, True), st)))"

fun reprice_loop ::
    "Deps \<Rightarrow> channel \<Rightarrow> 'w Adapter \<Rightarrow> instant \<Rightarrow> RepriceCandidate list \<Rightarrow> 'w job_state \<Rightarrow> (goerr list \<times> goerr list) \<times> 'w job_state" where
  "reprice_loop d ch ad now [] st = (([], []), st)"
| "reprice_loop d ch ad now (c # cs) st =
    (case job_ChannelReady d ch st of
       (False, st) \<Rightarrow> (([], []), st)
     | (True, st) \<Rightarrow>
        (case on_store (GetEffectiveStrategy (rc_HashName c)) st of
           (Inl e, st) \<Rightarrow> (case reprice_loop d ch ad now cs st of ((ss, os), st) \<Rightarrow> ((strategy_error c e # ss, os), st))
         | (Inr es, st) \<Rightarrow>
            (case ParseParams (Some (es_GlobalParams es)) (es_Params es) of
               Inl e \<Rightarrow> (case reprice_loop d ch ad now cs st of ((ss, os), st) \<Rightarrow> ((strategy_error c e # ss, os), st))
             | Inr p \<Rightarrow>
                (case reprice_priced d ch ad now c es p st of
                   ((errs, False), st) \<Rightarrow> (([], errs), st)
                 | ((errs, True), st) \<Rightarrow> (case reprice_loop d ch ad now cs st of ((ss, os), st) \<Rightarrow> ((ss, errs @ os), st))))))"

definition joinChannelErrs :: "goerr list \<Rightarrow> goerr list \<Rightarrow> goerr option" where
  "joinChannelErrs stratErrs opErrs = errors_Join (stratErrs @ opErrs)"

definition repriceChannel :: "Deps \<Rightarrow> channel \<Rightarrow> 'w Adapter \<Rightarrow> instant \<Rightarrow> 'w job_state \<Rightarrow> goerr option \<times> 'w job_state" where
  "repriceChannel d ch ad now st =
    (case on_store (ListRepriceCandidates ch) st of
       (Inl e, st) \<Rightarrow> (Some e, st)
     | (Inr cands, st) \<Rightarrow> (case reprice_loop d ch ad now cands st of ((ss, os), st) \<Rightarrow> (joinChannelErrs ss os, st)))"

fun reprice_channels :: "Deps \<Rightarrow> instant \<Rightarrow> (channel \<times> 'w Adapter) list \<Rightarrow> 'w job_state \<Rightarrow> goerr list \<times> 'w job_state" where
  "reprice_channels d now [] st = ([], st)"
| "reprice_channels d now ((ch, ad) # ads) st =
    (if \<not> channelReady ch now st then reprice_channels d now ads st
     else case repriceChannel d ch ad now st of
         (None, st) \<Rightarrow> reprice_channels d now ads st
       | (Some e, st) \<Rightarrow> (case reprice_channels d now ads (job_penalize d ch e st) of (es, st) \<Rightarrow> (Wrap (''reprice '' @ ch @ '': '') e # es, st)))"

definition RunReprice :: "Deps \<Rightarrow> (channel \<times> 'w Adapter) list \<Rightarrow> 'w job_state \<Rightarrow> goerr option \<times> 'w job_state" where
  "RunReprice d ads st =
    (case time_Now d st of (now, st) \<Rightarrow> case reprice_channels d now ads st of (es, st) \<Rightarrow> (errors_Join es, st))"

text \<open>\<open>ApplyFactorEvent\<close>, kept for callers outside the job.\<close>

definition ApplyFactorEvent :: "int \<Rightarrow> f64 \<Rightarrow> string \<Rightarrow> ControllerParams \<Rightarrow> session \<Rightarrow> goerr option \<times> session" where
  "ApplyFactorEvent i cur ev p = SetListingFactor i (fst (NextFactor cur ev p))"

end
