(* ===== verification/RepriceProps.thy ===== *)
theory RepriceProps
  imports Reprice
begin

text \<open>
  A repricing cycle: without permission it only writes its journal, and a cycle that reports no error has done, listing
  by listing, what its journal says.
\<close>

section \<open>The tables a job sees\<close>

abbreviation job_db :: "'w job_state \<Rightarrow> tables" where
  "job_db st \<equiv> db (js_ses st)"

definition journal_only :: "(action_row \<Rightarrow> bool) \<Rightarrow> 'w job_state \<Rightarrow> 'w job_state \<Rightarrow> bool" where
  "journal_only P st st' \<longleftrightarrow> js_world st' = js_world st \<and>
     (\<exists>as k. job_db st' = (job_db st)\<lparr>price_actions := price_actions (job_db st) @ as, next_id := k\<rparr> \<and> (\<forall>a \<in> set as. P a))"

lemma journal_only_same: "js_world st' = js_world st \<Longrightarrow> job_db st' = job_db st \<Longrightarrow> journal_only P st st'"
  unfolding journal_only_def by (intro conjI exI[of _ "[]"] exI[of _ "next_id (job_db st)"]) simp_all

lemma journal_only_trans: "journal_only P st st1 \<Longrightarrow> journal_only P st1 st2 \<Longrightarrow> journal_only P st st2"
proof -
  assume "journal_only P st st1" "journal_only P st1 st2"
  then obtain as k bs m where 1: "js_world st1 = js_world st" "js_world st2 = js_world st1"
      "job_db st1 = (job_db st)\<lparr>price_actions := price_actions (job_db st) @ as, next_id := k\<rparr>"
      "job_db st2 = (job_db st1)\<lparr>price_actions := price_actions (job_db st1) @ bs, next_id := m\<rparr>" "\<forall>a \<in> set as. P a" "\<forall>a \<in> set bs. P a"
    unfolding journal_only_def by blast
  show ?thesis unfolding journal_only_def using 1 by (intro conjI exI[of _ "as @ bs"] exI[of _ m]) auto
qed

lemma journal_only_strategies: "journal_only P st st' \<Longrightarrow> strategies (job_db st') = strategies (job_db st)"
  by (auto simp: journal_only_def)

lemma time_Now_frame: "time_Now d st = (now, st') \<Longrightarrow> js_ses st' = js_ses st \<and> js_world st' = js_world st \<and> js_cooldowns st' = js_cooldowns st"
  by (auto simp: time_Now_def)

lemma ready_frame: "job_ChannelReady d ch st = (b, st') \<Longrightarrow> js_ses st' = js_ses st \<and> js_world st' = js_world st \<and> js_cooldowns st' = js_cooldowns st"
  by (auto simp: job_ChannelReady_def dest: time_Now_frame split: prod.splits)

lemma penalize_frame: "js_ses (job_penalize d ch e st) = js_ses st" "js_world (job_penalize d ch e st) = js_world st"
  by (auto simp: job_penalize_def Let_def dest: time_Now_frame split: prod.splits)

lemma quotes_frame: "loadQuotes d h n st = (qs, st') \<Longrightarrow> job_db st' = job_db st \<and> js_world st' = js_world st \<and> js_cooldowns st' = js_cooldowns st"
  by (auto simp: loadQuotes_def on_store_def RecentMergedQuotes_def dest!: time_Now_frame Query_dbD split: prod.splits sum.splits)

lemma strategy_frame: "on_store (GetEffectiveStrategy h) st = (r, st') \<Longrightarrow> job_db st' = job_db st \<and> js_world st' = js_world st \<and> js_cooldowns st' = js_cooldowns st"
  by (auto simp: on_store_def GetEffectiveStrategy_def dest!: Query_dbD split: prod.splits sum.splits)

lemma candidates_frame: "on_store (ListRepriceCandidates ch) st = (r, st') \<Longrightarrow> job_db st' = job_db st \<and> js_world st' = js_world st \<and> js_cooldowns st' = js_cooldowns st"
  by (auto simp: on_store_def ListRepriceCandidates_def dest!: Query_dbD split: prod.splits sum.splits)

lemma insert_cases:
  assumes "insert_action w p c st = (es, st')"
  shows "js_world st' = js_world st \<and> js_cooldowns st' = js_cooldowns st
    \<and> ((es \<noteq> [] \<and> job_db st' = job_db st)
       \<or> (es = [] \<and> job_db st' = (job_db st)\<lparr>price_actions := price_actions (job_db st) @ [new_action p (next_id (job_db st)) (db_now (js_ses st))],
             next_id := next_id (job_db st) + 1\<rparr>))"
  using assms by (auto simp: insert_action_def on_store_def InsertPriceAction_def ExecR_def split: prod.splits sum.splits option.splits)

lemma insert_journal: "insert_action w p c st = (es, st') \<Longrightarrow> (\<And>i t. P (new_action p i t)) \<Longrightarrow> journal_only P st st'"
proof -
  assume a: "insert_action w p c st = (es, st')" and P: "\<And>i t. P (new_action p i t)"
  from insert_cases[OF a] show ?thesis
  proof (elim conjE disjE)
    assume w: "js_world st' = js_world st" and e: "job_db st' = (job_db st)\<lparr>price_actions := price_actions (job_db st)
        @ [new_action p (next_id (job_db st)) (db_now (js_ses st))], next_id := next_id (job_db st) + 1\<rparr>"
    show ?thesis unfolding journal_only_def
      by (intro conjI w exI[of _ "[new_action p (next_id (job_db st)) (db_now (js_ses st))]"] exI[of _ "next_id (job_db st) + 1"]) (simp_all add: e P)
  qed (auto intro: journal_only_same)
qed

section \<open>Dry cycles\<close>

definition no_real_execution :: "Deps \<Rightarrow> tables \<Rightarrow> bool" where
  "no_real_execution d t \<longleftrightarrow> dd_DryRun d \<or> (\<forall>r \<in> set (strategies t). is_global r \<and> S_enabled r \<longrightarrow> \<not> S_real_execution_enabled r)"

lemma effective_dry_if: "GetEffectiveStrategy h s = (Inr es, s') \<Longrightarrow> no_real_execution d (db s) \<Longrightarrow> effective_dry d es"
proof -
  assume g: "GetEffectiveStrategy h s = (Inr es, s')" and n: "no_real_execution d (db s)"
  have "sql_effective h (db s) = Inr es"
    using g by (auto simp: GetEffectiveStrategy_def QueryE_def split: prod.splits sum.splits option.splits)
  then obtain g gs where f: "filter (\<lambda>g. is_global g \<and> S_enabled g) (strategies (db s)) = g # gs" "es_GlobalRealEnabled es = S_real_execution_enabled g"
    unfolding sql_effective_def by (auto simp: Let_def split: list.splits)
  have "g \<in> set (filter (\<lambda>g. is_global g \<and> S_enabled g) (strategies (db s)))" unfolding f(1) by simp
  then show ?thesis using n f(2) by (auto simp: effective_dry_def no_real_execution_def)
qed

lemma priced_dry:
  assumes "reprice_priced d ch ad now c es p st = (r, st')" "effective_dry d es"
  shows "journal_only A_dry_run st st'"
proof -
  obtain qs st1 where q: "loadQuotes d (rc_HashName c) (TopN (p_Baseline p)) st = (qs, st1)" by (cases "loadQuotes d (rc_HashName c) (TopN (p_Baseline p)) st")
  define dec where "dec = Decide (reprice_input c p qs (Caps ad) now)"
  have j: "journal_only A_dry_run st st1" using quotes_frame[OF q] by (auto intro: journal_only_same)
  obtain w pa es' where i: "insert_action w pa c st1 = (es', st')" and d: "pa_DryRun pa"
    using assms unfolding reprice_priced_def q
    by (auto simp: Let_def skip_action_def new_terms_def old_terms_def simp flip: dec_def split: if_splits prod.splits)
  have "journal_only A_dry_run st1 st'" by (rule insert_journal[OF i]) (simp add: new_action_def d)
  then show ?thesis using j journal_only_trans by blast
qed

lemma loop_dry: "reprice_loop d ch ad now cs st = (r, st') \<Longrightarrow> no_real_execution d (job_db st) \<Longrightarrow> journal_only A_dry_run st st'"
proof (induction cs arbitrary: st r)
  case Nil
  then show ?case by (auto intro: journal_only_same)
next
  case (Cons c cs)
  obtain b st1 where R: "job_ChannelReady d ch st = (b, st1)" by (cases "job_ChannelReady d ch st")
  note r = ready_frame[OF R]
  have j1: "journal_only A_dry_run st st1" using r by (auto intro: journal_only_same)
  show ?case
  proof (cases b)
    case False
    then show ?thesis using Cons.prems(1) R j1 by simp
  next
    case True
    obtain g st2 where G: "on_store (GetEffectiveStrategy (rc_HashName c)) st1 = (g, st2)" by (cases "on_store (GetEffectiveStrategy (rc_HashName c)) st1")
    have j2: "journal_only A_dry_run st st2" using r strategy_frame[OF G] by (auto intro: journal_only_same)
    have n2: "no_real_execution d (job_db st2)" using Cons.prems(2) r strategy_frame[OF G] by simp
    have rest: "journal_only A_dry_run st st'" if "reprice_loop d ch ad now cs st3 = (q, st')" "journal_only A_dry_run st st3" for q st3
    proof -
      have "no_real_execution d (job_db st3)" using Cons.prems(2) journal_only_strategies[OF that(2)] by (simp add: no_real_execution_def)
      then show ?thesis using Cons.IH[OF that(1)] that(2) journal_only_trans by blast
    qed
    show ?thesis
    proof (cases g)
      case (Inl e)
      then show ?thesis using Cons.prems(1) R True G rest[OF _ j2] by (auto split: prod.splits)
    next
      case (Inr es)
      have dry: "effective_dry d es" using G Inr Cons.prems(2) r by (auto simp: on_store_def split: prod.splits intro: effective_dry_if)
      show ?thesis
      proof (cases "ParseParams (Some (es_GlobalParams es)) (es_Params es)")
        case (Inl e)
        then show ?thesis using Cons.prems(1) R True G Inr rest[OF _ j2] by (auto split: prod.splits)
      next
        fix p assume p: "ParseParams (Some (es_GlobalParams es)) (es_Params es) = Inr p"
        obtain errs go st3 where P: "reprice_priced d ch ad now c es p st2 = ((errs, go), st3)" by (metis prod.exhaust)
        have j3: "journal_only A_dry_run st st3" using priced_dry[OF P dry] j2 journal_only_trans by blast
        show ?thesis using Cons.prems(1) R True G Inr p P rest[OF _ j3] j3 by (cases go) (auto split: prod.splits)
      qed
    qed
  qed
qed

text \<open>With the program or the global strategy on dry run, a cycle over a channel leaves the outside world, the
  listings and every other table as they are: it appends journal entries, each marked as a dry run.\<close>

theorem dry_reprice_only_journals:
  assumes "repriceChannel d ch ad now st = (err, st')"
    "dd_DryRun d \<or> (\<forall>r \<in> set (strategies (db (js_ses st))). is_global r \<and> S_enabled r \<longrightarrow> \<not> S_real_execution_enabled r)"
  shows "js_world st' = js_world st \<and> (\<exists>as k. db (js_ses st')
      = (db (js_ses st))\<lparr>price_actions := price_actions (db (js_ses st)) @ as, next_id := k\<rparr> \<and> (\<forall>a \<in> set as. A_dry_run a))"
proof -
  obtain cs st1 where C: "on_store (ListRepriceCandidates ch) st = (cs, st1)" by (cases "on_store (ListRepriceCandidates ch) st")
  note c = candidates_frame[OF C]
  have "journal_only A_dry_run st st'"
  proof (cases cs)
    case (Inl e)
    then show ?thesis using assms(1) C c by (auto simp: repriceChannel_def intro: journal_only_same)
  next
    case (Inr cands)
    obtain q st2 where L: "reprice_loop d ch ad now cands st1 = (q, st2)" by (cases "reprice_loop d ch ad now cands st1")
    have "st2 = st'" using assms(1) C Inr L by (auto simp: repriceChannel_def split: prod.splits)
    then have "journal_only A_dry_run st1 st'" using loop_dry[OF L] assms(2) c by (simp add: no_real_execution_def)
    then show ?thesis using c by (auto simp: journal_only_def)
  qed
  then show ?thesis by (simp add: journal_only_def)
qed

section \<open>Cycles without errors\<close>

text \<open>What a journal entry of a candidate says is true of the shelf.\<close>

definition carried_out :: "tables \<Rightarrow> RepriceCandidate \<Rightarrow> action_row \<Rightarrow> bool" where
  "carried_out t c a \<longleftrightarrow> A_listing_id a = NULLIF (rc_ListingID c) 0 \<and> A_success a \<and> A_error a = None
     \<and> (A_action a = ''reprice'' \<and> \<not> A_dry_run a \<longrightarrow> (\<forall>l \<in> set (listings t). L_id l = rc_ListingID c \<longrightarrow>
           L_rent_price l = A_new_rent a \<and> L_deposit l = A_new_deposit a \<and> L_max_days l = A_new_days a))"

text \<open>One candidate handled without error: a truthful entry, and no other listing touched.\<close>

definition handled :: "RepriceCandidate \<Rightarrow> action_row \<Rightarrow> 'w job_state \<Rightarrow> 'w job_state \<Rightarrow> bool" where
  "handled c a st st' \<longleftrightarrow> price_actions (job_db st') = price_actions (job_db st) @ [a] \<and> carried_out (job_db st') c a
     \<and> (\<exists>f. listings (job_db st') = upd_where (\<lambda>l. L_id l = rc_ListingID c) f (listings (job_db st)) \<and> (\<forall>l. L_id (f l) = L_id l))"

lemma keep_ok:
  assumes "keep_terms c inp dec st = ([], st')"
  shows "price_actions (job_db st') = price_actions (job_db st)
    \<and> (\<exists>f. listings (job_db st') = upd_where (\<lambda>l. L_id l = rc_ListingID c) f (listings (job_db st)) \<and> (\<forall>l. L_id (f l) = L_id l
        \<and> L_rent_price (f l) = Some (round2Money (d_Rent dec)) \<and> L_deposit (f l) = Some (round2Money (d_Deposit dec)) \<and> L_max_days (f l) = Some (d_MaxDays dec)))"
proof -
  let ?u = "\<lambda>l. l\<lparr>L_rent_price := Some (round2Money (d_Rent dec)), L_long_rent_price := nullIf (round2Money (d_Long dec)),
      L_deposit := Some (round2Money (d_Deposit dec)), L_max_days := Some (d_MaxDays dec), L_last_reprice_at := Some (db_now (js_ses st))\<rparr>"
  obtain u st1 where U: "on_store (UpdateListingDecision (rc_ListingID c) (d_Rent dec) (d_Long dec) (d_Deposit dec) (d_MaxDays dec)) st = (u, st1)"
    by (cases "on_store (UpdateListingDecision (rc_ListingID c) (d_Rent dec) (d_Long dec) (d_Deposit dec) (d_MaxDays dec)) st")
  have u: "u = None" using assms U by (auto simp: keep_terms_def Let_def split: if_splits prod.splits option.splits)
  have d1: "job_db st1 = (job_db st)\<lparr>listings := upd_where (\<lambda>l. L_id l = rc_ListingID c) ?u (listings (job_db st))\<rparr>"
    using U u by (auto simp: on_store_def UpdateListingDecision_def sql_update_decision_def Exec_def split: prod.splits option.splits)
  show ?thesis
  proof (cases "IgnoreNoiseFloor inp")
    case True
    obtain st2 where M: "on_store (MarkListingSubletApplied (rc_ListingID c)) st1 = (None, st2)"
      using assms U u True by (auto simp: keep_terms_def Let_def split: prod.splits option.splits)
    have "st2 = st'" using assms U u True M by (auto simp: keep_terms_def)
    then have d2: "job_db st' = (job_db st1)\<lparr>listings := upd_where (\<lambda>l. L_id l = rc_ListingID c) (\<lambda>l. l\<lparr>L_sublet_applied := True\<rparr>) (listings (job_db st1))\<rparr>"
      using M by (auto simp: on_store_def MarkListingSubletApplied_def Exec_def split: prod.splits option.splits)
    show ?thesis using d1 d2 by (intro conjI exI[of _ "\<lambda>l. (?u l)\<lparr>L_sublet_applied := True\<rparr>"]) (auto simp: upd_where_def)
  next
    case False
    then have "st' = st1" using assms U u by (auto simp: keep_terms_def)
    then show ?thesis using d1 by (intro conjI exI[of _ ?u]) auto
  qed
qed

lemma handled_by_insert:
  assumes "insert_action w p c st = ([], st')" "pa_ListingID p = rc_ListingID c" "pa_Success p" "pa_Error p = ''''" "pa_Action p = ''skip'' \<or> pa_DryRun p"
  shows "\<exists>a. handled c a st st'"
proof -
  have e: "job_db st' = (job_db st)\<lparr>price_actions := price_actions (job_db st) @ [new_action p (next_id (job_db st)) (db_now (js_ses st))],
      next_id := next_id (job_db st) + 1\<rparr>" using insert_cases[OF assms(1)] by auto
  show ?thesis unfolding handled_def using assms(2-5)
    by (intro exI[of _ "new_action p (next_id (job_db st)) (db_now (js_ses st))"] conjI exI[of _ "\<lambda>l. l"])
      (auto simp: e carried_out_def new_action_def NULLIF_def upd_where_def)
qed

lemma submit_handled:
  assumes "submit d ch ad c inp dec st = ([], st')"
  shows "\<exists>a. handled c a st st'"
proof -
  obtain res err st1 where W: "on_world (RepriceLease ad [reprice_request c dec]) st = ((res, err), st1)" by (metis prod.exhaust)
  define st2 where "st2 = (case err of None \<Rightarrow> st1 | Some e \<Rightarrow> job_penalize d ch e st1)"
  define ok where "ok \<longleftrightarrow> err = None \<and> length res = 1 \<and> rr_Success (hd res)"
  define p where "p = (new_terms c False dec)\<lparr>pa_Success := ok, pa_Error := reprice_error res err\<rparr>"
  obtain ierrs st3 where I: "insert_action ''reprice'' p c st2 = (ierrs, st3)" by (cases "insert_action ''reprice'' p c st2")
  have s: "(if ok then (case keep_terms c inp dec st3 of (uerrs, st) \<Rightarrow> (ierrs @ uerrs, st))
      else (ierrs @ [case err of Some e \<Rightarrow> Wrap (''reprice '' @ rc_GoodsRef c @ '': '') e
              | None \<Rightarrow> Errorf (''reprice '' @ rc_GoodsRef c @ '': '' @ pa_Error p)], st3)) = ([], st')"
    using assms unfolding submit_def W Let_def prod.case p_def[symmetric] ok_def[symmetric] st2_def[symmetric] I by simp
  then have ok: ok by (auto split: if_splits)
  then have k: "ierrs = []" "keep_terms c inp dec st3 = ([], st')" using s by (auto split: prod.splits)
  have d2: "job_db st2 = job_db st" using W unfolding st2_def by (auto simp: on_world_def penalize_frame split: prod.splits option.splits)
  have p: "pa_ListingID p = rc_ListingID c" "pa_Success p" "pa_Error p = ''''" "pa_NewRent p = Some (d_Rent dec)"
      "pa_NewDeposit p = Some (d_Deposit dec)" "pa_NewDays p = Some (d_MaxDays dec)"
    using ok by (auto simp: p_def new_terms_def old_terms_def reprice_error_def ok_def)
  define a where "a = new_action p (next_id (job_db st2)) (db_now (js_ses st2))"
  have e: "job_db st3 = (job_db st2)\<lparr>price_actions := price_actions (job_db st2) @ [a], next_id := next_id (job_db st2) + 1\<rparr>"
    using insert_cases[OF I] k(1) unfolding a_def by auto
  obtain f where f: "price_actions (job_db st') = price_actions (job_db st) @ [a]"
      "listings (job_db st') = upd_where (\<lambda>l. L_id l = rc_ListingID c) f (listings (job_db st))"
      "\<And>l. L_id (f l) = L_id l" "\<And>l. L_rent_price (f l) = Some (round2Money (d_Rent dec))"
      "\<And>l. L_deposit (f l) = Some (round2Money (d_Deposit dec))" "\<And>l. L_max_days (f l) = Some (d_MaxDays dec)"
    using keep_ok[OF k(2)] e d2 by auto
  have a: "A_new_rent a = Some (round2Money (d_Rent dec))" "A_new_deposit a = Some (round2Money (d_Deposit dec))" "A_new_days a = Some (d_MaxDays dec)"
      "A_listing_id a = NULLIF (rc_ListingID c) 0" "A_success a" "A_error a = None"
    using p by (simp_all add: a_def new_action_def round2MoneyPtr_def NULLIF_def)
  have "carried_out (job_db st') c a" unfolding carried_out_def f(2) by (auto simp: a set_upd_where f(3-6) split: if_splits)
  then show ?thesis unfolding handled_def using f by (intro exI[of _ a] conjI exI[of _ f]) auto
qed

definition shelf_of :: "int \<Rightarrow> tables \<Rightarrow> listing_row list" where
  "shelf_of i t = filter (\<lambda>l. L_id l = i) (listings t)"

lemma carried_out_cong: "shelf_of (rc_ListingID c) t = shelf_of (rc_ListingID c) t' \<Longrightarrow> carried_out t c a = carried_out t' c a"
proof -
  assume e: "shelf_of (rc_ListingID c) t = shelf_of (rc_ListingID c) t'"
  have "(\<forall>l \<in> set (listings x). L_id l = rc_ListingID c \<longrightarrow> P l) = (\<forall>l \<in> set (shelf_of (rc_ListingID c) x). P l)" for x P
    by (auto simp: shelf_of_def)
  then show ?thesis by (simp add: carried_out_def e)
qed

lemma handled_shelf: "handled c a st st' \<Longrightarrow> i \<noteq> rc_ListingID c \<Longrightarrow> shelf_of i (job_db st') = shelf_of i (job_db st)"
proof -
  assume h: "handled c a st st'" and i: "i \<noteq> rc_ListingID c"
  obtain f where f: "listings (job_db st') = upd_where (\<lambda>l. L_id l = rc_ListingID c) f (listings (job_db st))" "\<And>l. L_id (f l) = L_id l"
    using h by (auto simp: handled_def)
  have "filter (\<lambda>l. L_id l = i) (upd_where (\<lambda>l. L_id l = rc_ListingID c) f ls) = filter (\<lambda>l. L_id l = i) ls" for ls
    using i f(2) by (induction ls) auto
  then show ?thesis by (simp add: shelf_of_def f(1))
qed

lemma priced_handled:
  assumes "reprice_priced d ch ad now c es p st = (([], go), st')"
  shows "(go \<and> (\<exists>a. handled c a st st')) \<or> (\<not> go \<and> job_db st' = job_db st \<and> js_cooldowns st' ch \<noteq> None)"
proof -
  obtain qs st1 where q: "loadQuotes d (rc_HashName c) (TopN (p_Baseline p)) st = (qs, st1)" by (cases "loadQuotes d (rc_HashName c) (TopN (p_Baseline p)) st")
  note q1 = quotes_frame[OF q]
  have h1: "handled c a st1 x \<Longrightarrow> handled c a st x" for a x using q1 by (simp add: handled_def)
  define inp where "inp = reprice_input c p qs (Caps ad) now"
  define dec where "dec = Decide inp"
  note u = assms[unfolded reprice_priced_def q Let_def prod.case inp_def[symmetric] dec_def[symmetric]]
  consider "\<not> OK dec" | "OK dec" "effective_dry d es" | "OK dec" "\<not> effective_dry d es" by blast
  then show ?thesis
  proof cases
    case 1
    then have i: "go" "insert_action ''skip'' (skip_action c (effective_dry d es) dec) c st1 = ([], st')" using u by (auto split: prod.splits)
    have "\<exists>a. handled c a st1 st'" by (rule handled_by_insert[OF i(2)]) (simp_all add: skip_action_def old_terms_def)
    then show ?thesis using h1 i(1) by blast
  next
    case 2
    then have i: "go" "insert_action ''dryrun'' ((new_terms c (effective_dry d es) dec)\<lparr>pa_Success := True\<rparr>) c st1 = ([], st')" using u by (auto split: prod.splits)
    have "\<exists>a. handled c a st1 st'" by (rule handled_by_insert[OF i(2)]) (simp_all add: new_terms_def old_terms_def 2)
    then show ?thesis using h1 i(1) by blast
  next
    case 3
    obtain b st2 where R: "job_ChannelReady d ch st1 = (b, st2)" by (cases "job_ChannelReady d ch st1")
    note r = ready_frame[OF R]
    show ?thesis
    proof (cases b)
      case False
      then have "\<not> go" "st' = st2" using u 3 R by auto
      moreover have "js_cooldowns st1 ch \<noteq> None" using R False
        by (auto simp: job_ChannelReady_def channelReady_def time_Now_def split: prod.splits option.splits)
      ultimately show ?thesis using r q1 by simp
    next
      case True
      then have s: "go" "submit d ch ad c inp dec st2 = ([], st')" using u 3 R by (auto split: prod.splits)
      obtain a where "handled c a st2 st'" using submit_handled[OF s(2)] by blast
      then have "handled c a st1 st'" using r by (simp add: handled_def)
      then show ?thesis using h1 s(1) by blast
    qed
  qed
qed

lemma loop_handled:
  assumes "reprice_loop d ch ad now cs st = (([], []), st')" "distinct (map rc_ListingID cs)"
  shows "\<exists>n as. n \<le> length cs \<and> price_actions (job_db st') = price_actions (job_db st) @ as
    \<and> list_all2 (carried_out (job_db st')) (take n cs) as \<and> (n < length cs \<longrightarrow> js_cooldowns st' ch \<noteq> None)
    \<and> (\<forall>i. i \<notin> rc_ListingID ` set cs \<longrightarrow> shelf_of i (job_db st') = shelf_of i (job_db st))"
  using assms
proof (induction cs arbitrary: st)
  case Nil
  then show ?case by (intro exI[of _ 0] exI[of _ "[]"]) simp
next
  case (Cons c cs)
  obtain b st1 where R: "job_ChannelReady d ch st = (b, st1)" by (cases "job_ChannelReady d ch st")
  note r = ready_frame[OF R]
  show ?case
  proof (cases b)
    case False
    have "js_cooldowns st ch \<noteq> None" using R False by (auto simp: job_ChannelReady_def channelReady_def time_Now_def split: prod.splits option.splits)
    then show ?thesis using Cons.prems(1) R False r by (intro exI[of _ 0] exI[of _ "[]"]) auto
  next
    case True
    obtain g st2 where G: "on_store (GetEffectiveStrategy (rc_HashName c)) st1 = (g, st2)" by (cases "on_store (GetEffectiveStrategy (rc_HashName c)) st1")
    obtain es where es: "g = Inr es" using Cons.prems(1) R True G by (cases g) (auto split: prod.splits)
    obtain p where p: "ParseParams (Some (es_GlobalParams es)) (es_Params es) = Inr p"
      using Cons.prems(1) R True G es by (cases "ParseParams (Some (es_GlobalParams es)) (es_Params es)") (auto split: prod.splits)
    obtain errs go st3 where P: "reprice_priced d ch ad now c es p st2 = ((errs, go), st3)" by (metis prod.exhaust)
    have e: "errs = []" using Cons.prems(1) R True G es p P by (cases go) (auto split: prod.splits)
    have db: "job_db st2 = job_db st" using strategy_frame[OF G] r by simp
    note ph = priced_handled[OF P[unfolded e]]
    show ?thesis
    proof (cases go)
      case False
      then have "st' = st3" using Cons.prems(1) R True G es p P by auto
      then show ?thesis using ph False db by (intro exI[of _ 0] exI[of _ "[]"]) auto
    next
      case True
      then obtain a where "handled c a st2 st3" using ph by blast
      then have h: "handled c a st st3" using db by (simp add: handled_def)
      have L: "reprice_loop d ch ad now cs st3 = (([], []), st')" using Cons.prems(1) R \<open>b\<close> G es p P e True by (auto split: prod.splits)
      obtain n as where n: "n \<le> length cs" "price_actions (job_db st') = price_actions (job_db st3) @ as"
          "list_all2 (carried_out (job_db st')) (take n cs) as" "n < length cs \<longrightarrow> js_cooldowns st' ch \<noteq> None"
          "\<forall>i. i \<notin> rc_ListingID ` set cs \<longrightarrow> shelf_of i (job_db st') = shelf_of i (job_db st3)"
        using Cons.IH[OF L] Cons.prems(2) by auto
      have "shelf_of (rc_ListingID c) (job_db st') = shelf_of (rc_ListingID c) (job_db st3)" using n(5) Cons.prems(2) by auto
      then have "carried_out (job_db st') c a" using h carried_out_cong unfolding handled_def by blast
      then show ?thesis using n h handled_shelf[OF h] by (intro exI[of _ "Suc n"] exI[of _ "a # as"]) (auto simp: handled_def)
    qed
  qed
qed


section \<open>A worked example\<close>

text \<open>A shelf of one listing whose commodity has no anchor yet, under a strategy that executes for real.\<close>

definition shelf_row :: listing_row where
  "shelf_row = \<lparr>L_id = 1, L_channel = ''uu'', L_asset_id = ''a'', L_hash_name = ''h'', L_goods_ref = ''g'', L_desired_state = ''active'',
     L_actual_state = ''active'', L_rent_price = Some (Fin 3), L_long_rent_price = None, L_max_days = None, L_deposit = None, L_listed_at = None,
     L_last_reprice_at = None, L_actual_synced_at = None, L_factor = Fin 1, L_last_factor_event_at = None, L_sublet_applied = False,
     L_mismatch_since = None, L_mismatch_reason = None, L_retired_at = None\<rparr>"

definition reprice_tables :: "bool \<Rightarrow> tables" where
  "reprice_tables exec = \<lparr>templates = [\<lparr>T_hash_name = ''h'', T_display_name = ''h'', T_category = '''', T_uu_template_id = None,
       T_uu_mark_price = None, T_eco_ref_price = None, T_value_anchor = None, T_anchor_updated_at = None, T_blacklisted = False\<rparr>],
     inventory_items = [], listings = [shelf_row], lease_orders = [], market_snapshots = [],
     strategies = [\<lparr>S_id = 1, S_name = ''default'', S_enabled = True, S_scope = ''global'', S_hash_name = None, S_channel_route = ''both'',
       S_params = JObj [], S_priority = 0, S_real_execution_enabled = exec, S_updated_by = ''user'', S_updated_at = 0\<rparr>],
     price_actions = [], fund_flows = [], app_settings = [], audit_log = [], order_income_ledger = [], daily_stats = [],
     shelf_observations = (\<lambda>_. None), next_id = 9\<rparr>"

definition reprice_job :: "bool \<Rightarrow> nat job_state" where
  "reprice_job exec = \<lparr>js_ses = \<lparr>db = reprice_tables exec, db_now = 0, faults = []\<rparr>, js_cooldowns = (\<lambda>_. None), js_reads = 0, js_world = 0\<rparr>"

text \<open>An adapter that counts the calls it gets.\<close>

definition counting_adapter :: "nat Adapter" where
  "counting_adapter = \<lparr>Caps = \<lparr>DepositDirect = True, LongLeaseThresholdDays = 8, MaxBatchPublish = 1, MaxBatchReprice = 1, cap_RentMaxDayMin = 0, cap_RentMaxDayMax = 0\<rparr>,
     Healthy = (\<lambda>w. (None, w)), Inventory = (\<lambda>w. (Inr [], w)), LeaseShelf = (\<lambda>w. (Inr [], w)), PublishLease = (\<lambda>_ w. (([], None), w + 1)),
     RepriceLease = (\<lambda>_ w. (([], None), w + 1)), Delist = (\<lambda>_ w. (None, w + 1)), LeaseOrders = (\<lambda>_ w. (Inr [], w)), Wallet = (\<lambda>w. (Inr (Fin 0), w))\<rparr>"

definition plain_deps :: Deps where
  "plain_deps = \<lparr>dd_DryRun = False, dd_Clock = int, dd_Audit = False\<rparr>"

definition plain_candidate :: RepriceCandidate where
  "plain_candidate = \<lparr>rc_ListingID = 1, rc_Channel = ''uu'', rc_HashName = ''h'', rc_GoodsRef = ''g'', rc_AssetID = ''a'', rc_RentPrice = Fin 3,
     rc_LongPrice = Fin 0, rc_Deposit = Fin 0, rc_MaxDays = 0, rc_Factor = Fin 1, rc_V = None, rc_UUTemplateID = None, rc_LastActionAt = None,
     rc_SubletApplied = False\<rparr>"

lemma reprice_runs: "fst (repriceChannel plain_deps ''uu'' counting_adapter 0 (reprice_job True)) = None"
  by code_simp

lemma reprice_candidates: "fst (ListRepriceCandidates ''uu'' (js_ses (reprice_job True))) = Inr [plain_candidate]"
  by (simp add: ListRepriceCandidates_def Query_def sql_candidates_def reprice_candidate_def reprice_job_def reprice_tables_def
      shelf_row_def plain_candidate_def or0_def)

theorem dry_reprice_only_journals_witness:
  "js_world (snd (repriceChannel plain_deps ''uu'' counting_adapter 0 (reprice_job False))) = 0"
  using dry_reprice_only_journals[of plain_deps "''uu''" counting_adapter 0 "reprice_job False",
      OF surjective_pairing]
  by (simp add: reprice_job_def reprice_tables_def)


end
