(* ===== verification/FactorJob.thy ===== *)
theory FactorJob
  imports Reprice OrderStore
begin

text \<open>
  The feedback controller's job (\<open>internal/scheduler/factor.go\<close>): finished orders fold into the factors of their listings,
  idle listings step down, and a listing stuck at the floor is reset and reported.
\<close>

section \<open>Events\<close>

record orderTerm =
  ot_orderType :: string
  ot_rentDays :: int
  ot_termDays :: int

definition classifyFactorEvent :: "string \<Rightarrow> orderTerm \<Rightarrow> int \<Rightarrow> string" where
  "classifyFactorEvent st t fallbackMaxDays =
    (if st = ''bought_out'' then EventBoughtOut
     else if st = ''done'' then
       (if ot_orderType t = ''long'' then
          (if 0 < ot_termDays t \<and> 0 < ot_rentDays t \<and> ot_rentDays t < ot_termDays t then EventRentSuccess else '''')
        else if 0 < ot_termDays t \<and> 0 < ot_rentDays t then (if ot_rentDays t < ot_termDays t then EventRentSuccess else '''')
        else if 0 < fallbackMaxDays \<and> 0 < ot_rentDays t then (if ot_rentDays t < fallbackMaxDays then EventRentSuccess else '''')
        else '''')
     else '''')"

text \<open>\<open>Duration.Hours\<close> of a duration that is not negative.\<close>

definition Hours :: "duration \<Rightarrow> f64" where
  "Hours x = i2f (x div Hour) + i2f (x mod Hour) / Fin (3600 * 10 ^ 9)"

definition term_days :: "instant \<Rightarrow> instant \<Rightarrow> int" where
  "term_days started due = (if \<not> IsZero started \<and> \<not> IsZero due \<and> started < due then f2i (Hours (time_Sub due started) / Fin 24) else 0)"

definition order_term :: "instant \<Rightarrow> order_row \<Rightarrow> orderTerm" where
  "order_term now o' = \<lparr>ot_orderType = O_order_type o', ot_rentDays = O_rent_days o',
     ot_termDays = term_days (the (COALESCE (O_started_at o') (Some now))) (the (COALESCE (O_due_at o') (Some now)))\<rparr>"

definition no_term :: orderTerm where
  "no_term = \<lparr>ot_orderType = '''', ot_rentDays = 0, ot_termDays = 0\<rparr>"

definition orderTerms :: "int list \<Rightarrow> session \<Rightarrow> (goerr + (int \<Rightarrow> orderTerm)) \<times> session" where
  "orderTerms ids s =
    (if ids = [] then (Inr (\<lambda>_. no_term), s)
     else Query (\<lambda>t i. if i \<in> set ids then (case find (\<lambda>o'. O_id o' = i) (lease_orders t) of None \<Rightarrow> no_term | Some o' \<Rightarrow> order_term (db_now s) o')
            else no_term) s)"

section \<open>Folding orders\<close>

text \<open>A listing that is gone starts from 1.\<close>

definition listingFactor :: "int \<Rightarrow> session \<Rightarrow> (goerr + f64) \<times> session" where
  "listingFactor i s =
    (case QueryE (\<lambda>t. case find (\<lambda>l. L_id l = i) (listings t) of None \<Rightarrow> Inl no_rows | Some l \<Rightarrow> Inr (L_factor l)) s of
       (Inl e, s) \<Rightarrow> (if ErrNoRows \<in> set (wrapped e) then (Inr (Fin 1), s) else (Inl e, s)) | (Inr f, s) \<Rightarrow> (Inr f, s))"

type_synonym params_cache = "string \<Rightarrow> Params option"

text \<open>The parameters of a commodity, looked up once; \<open>None\<close> where the lookup or the parse fails, which is only logged.\<close>

definition cached_params :: "string \<Rightarrow> params_cache \<Rightarrow> session \<Rightarrow> (Params option \<times> params_cache) \<times> session" where
  "cached_params h cache s =
    (case cache h of
       Some p \<Rightarrow> ((Some p, cache), s)
     | None \<Rightarrow>
        (case GetEffectiveStrategy h s of
           (Inl e, s) \<Rightarrow> ((None, cache), s)
         | (Inr es, s) \<Rightarrow> (case ParseParams (Some (es_GlobalParams es)) (es_Params es) of
               Inl e \<Rightarrow> ((None, cache), s) | Inr p \<Rightarrow> ((Some p, cache(h \<mapsto> p)), s))))"

definition fold_of :: "FactorFold list \<Rightarrow> int \<Rightarrow> f64 option" where
  "fold_of folds i = map_option ff_Factor (find (\<lambda>f. ff_ListingID f = i) folds)"

definition set_fold :: "FactorFold list \<Rightarrow> int \<Rightarrow> f64 \<Rightarrow> FactorFold list" where
  "set_fold folds i v = map (\<lambda>f. if ff_ListingID f = i then f\<lparr>ff_Factor := v\<rparr> else f) folds"

text \<open>The fold of a listing, begun at its stored factor when this is its first order.\<close>

definition open_fold :: "int \<Rightarrow> FactorFold list \<Rightarrow> session \<Rightarrow> (f64 \<times> FactorFold list) option \<times> session" where
  "open_fold i folds s =
    (case fold_of folds i of
       Some v \<Rightarrow> (Some (v, folds), s)
     | None \<Rightarrow> (case listingFactor i s of
          (Inl e, s) \<Rightarrow> (None, s) | (Inr base, s) \<Rightarrow> (Some (base, folds @ [\<lparr>ff_ListingID = i, ff_Factor = base\<rparr>]), s)))"

definition step_factor :: "f64 \<Rightarrow> string \<Rightarrow> ControllerParams \<Rightarrow> f64" where
  "step_factor cur ev p = (if ev \<noteq> '''' then fst (NextFactor cur ev p) else cur)"

type_synonym fold_state = "params_cache \<times> FactorFold list \<times> FactorOrder list"

definition fold_order :: "(int \<Rightarrow> orderTerm) \<Rightarrow> FactorOrder \<Rightarrow> fold_state \<Rightarrow> session \<Rightarrow> fold_state \<times> session" where
  "fold_order terms f st s =
    (case st of (cache, folds, handled) \<Rightarrow>
       case cached_params (fo_HashName f) cache s of
         ((None, cache), s) \<Rightarrow> ((cache, folds, handled), s)
       | ((Some p, cache), s) \<Rightarrow>
          (case open_fold (fo_ListingID f) folds s of
             (None, s) \<Rightarrow> ((cache, folds, handled), s)
           | (Some (cur, folds), s) \<Rightarrow>
               ((cache, set_fold folds (fo_ListingID f)
                   (step_factor cur (classifyFactorEvent (fo_Status f) (terms (fo_OrderID f)) (fo_MaxDays f)) (Ctrl p)), handled @ [f]), s)))"

fun fold_orders :: "(int \<Rightarrow> orderTerm) \<Rightarrow> FactorOrder list \<Rightarrow> fold_state \<Rightarrow> session \<Rightarrow> fold_state \<times> session" where
  "fold_orders terms [] st s = (st, s)"
| "fold_orders terms (f # fs) st s = (case fold_order terms f st s of (st, s) \<Rightarrow> fold_orders terms fs st s)"

definition factorOrderWindow :: duration where
  "factorOrderWindow = 100 * 24 * Hour"

definition foldOrderEvents :: "instant \<Rightarrow> session \<Rightarrow> goerr option \<times> session" where
  "foldOrderEvents now s =
    (let since = now - factorOrderWindow in
     case UnhandledFactorOrders since 500 s of
       (Inl e, s) \<Rightarrow> (Some e, s)
     | (Inr orders, s) \<Rightarrow>
        (case UnresolvedFactorOrders since s of
           (Inl e, s) \<Rightarrow> (Some e, s)
         | (Inr _, s) \<Rightarrow>
            (case orderTerms (map fo_OrderID orders) s of
               (Inl e, s) \<Rightarrow> (Some e, s)
             | (Inr terms, s) \<Rightarrow>
                (case fold_orders terms orders (\<lambda>_. None, [], []) s of
                   ((cache, folds, handled), s) \<Rightarrow>
                     (case ApplyFactorFolds folds handled s of (Inl e, s) \<Rightarrow> (Some e, s) | (Inr _, s) \<Rightarrow> (None, s))))))"

section \<open>Stale listings\<close>

definition isAtFactorMin :: "f64 \<Rightarrow> f64 \<Rightarrow> bool" where
  "isAtFactorMin factor lo \<longleftrightarrow> fabs (factor - lo) < rnd (1 / 10000)"

definition reset_note :: string where
  "reset_note = map char_of [0xE8::int, 0xBF, 0x9E, 0xE7, 0xBB, 0xAD, 0x20, 0x73, 0x74, 0x61, 0x6C, 0x65, 0x20, 0xE9, 0x99, 0x8D, 0xE4, 0xBB,
     0xB7, 0xE8, 0x87, 0xB3, 0xE4, 0xB8, 0x8B, 0xE9, 0x99, 0x90, 0xE4, 0xBB, 0x8D, 0xE6, 0x97, 0xA0, 0xE8, 0xBD, 0xAC, 0xE5, 0x8C, 0x96, 0xEF,
     0xBC, 0x8C, 0xE5, 0x9B, 0xA0, 0xE5, 0xAD, 0x90, 0xE5, 0xB7, 0xB2, 0xE5, 0x9B, 0x9E, 0xE5, 0xBD, 0x92, 0x20, 0x31, 0x2E, 0x30, 0x30, 0x20,
     0xE2, 0x80, 0x94, 0xE2, 0x80, 0x94, 0x20, 0xE5, 0xBB, 0xBA, 0xE8, 0xAE, 0xAE, 0xE4, 0xBA, 0xBA, 0xE5, 0xB7, 0xA5, 0xE6, 0xA3, 0x80, 0xE6,
     0x9F, 0xA5]"

definition reset_audit :: "instant \<Rightarrow> StaleCandidate \<Rightarrow> f64 \<Rightarrow> string \<Rightarrow> AuditEntry" where
  "reset_audit now c v reason =
    \<lparr>ae_Time = now, ae_Actor = ''system'', ae_Action = ''pricing.factor_reset'', ae_Channel = sc_Channel c, ae_Target = sc_HashName c,
     ae_Detail = Some [(''listing'', JInt (sc_ListingID c)), (''from'', JNum (sc_Factor c)), (''to'', JNum v), (''reason'', JStr reason),
       (''note'', JStr reset_note)]\<rparr>"

definition stale_window :: "Params \<Rightarrow> duration" where
  "stale_window p = wrap64 (wrap64 (StaleDays (Ctrl p) * 24) * Hour)"

definition stale_event :: "Params \<Rightarrow> StaleCandidate \<Rightarrow> string" where
  "stale_event p c = (if isAtFactorMin (sc_Factor c) (FMin (Ctrl p)) then EventReset else EventStaleDay)"

text \<open>A candidate whose parameters are known. The error of the audit hook is dropped by the hook itself.\<close>

definition step_stale :: "Deps \<Rightarrow> StaleCandidate \<Rightarrow> Params \<Rightarrow> 'w job_state \<Rightarrow> 'w job_state" where
  "step_stale d c p st =
    (if sc_AnchorAge c < stale_window p then st
     else case NextFactor (sc_Factor c) (stale_event p c) (Ctrl p) of (v, reason) \<Rightarrow>
       (case on_store (SetListingFactor (sc_ListingID c) v) st of
          (Some e, st) \<Rightarrow> st
        | (None, st) \<Rightarrow>
            if stale_event p c = EventReset \<and> dd_Audit d
            then (case time_Now d st of (now, st) \<Rightarrow> snd (on_store (InsertAudit (reset_audit now c v reason)) st))
            else st))"

fun stale_loop :: "Deps \<Rightarrow> StaleCandidate list \<Rightarrow> params_cache \<Rightarrow> 'w job_state \<Rightarrow> 'w job_state" where
  "stale_loop d [] cache st = st"
| "stale_loop d (c # cs) cache st =
    (case on_store (cached_params (sc_HashName c) cache) st of
       ((None, cache), st) \<Rightarrow> stale_loop d cs cache st
     | ((Some p, cache), st) \<Rightarrow> stale_loop d cs cache (step_stale d c p st))"

definition runStaleScan :: "Deps \<Rightarrow> 'w job_state \<Rightarrow> goerr option \<times> 'w job_state" where
  "runStaleScan d st = (case on_store (FactorStaleCandidates (24 * Hour)) st of
     (Inl e, st) \<Rightarrow> (Some e, st) | (Inr cands, st) \<Rightarrow> (None, stale_loop d cands (\<lambda>_. None) st))"

definition RunFactorEvents :: "Deps \<Rightarrow> 'w job_state \<Rightarrow> goerr option \<times> 'w job_state" where
  "RunFactorEvents d st =
    (case time_Now d st of (now, st) \<Rightarrow>
       case on_store (foldOrderEvents now) st of (Some e, st) \<Rightarrow> (Some e, st) | (None, st) \<Rightarrow> runStaleScan d st)"

end
