(* ===== verification/FactorProps.thy ===== *)
theory FactorProps
  imports FactorJob
begin

text \<open>
  The fold pass of the controller: with its index of open folds, its cache and its one transaction it does what stepping
  every listing through its own finished orders, one after the other, would do, and each order is used once.
\<close>

section \<open>The reference\<close>

definition params_of :: "tables \<Rightarrow> string \<Rightarrow> Params option" where
  "params_of t h = (case sql_effective h t of Inl _ \<Rightarrow> None
     | Inr es \<Rightarrow> (case ParseParams (Some (es_GlobalParams es)) (es_Params es) of Inl _ \<Rightarrow> None | Inr p \<Rightarrow> Some p))"

definition term_of :: "tables \<Rightarrow> instant \<Rightarrow> int \<Rightarrow> orderTerm" where
  "term_of t now i = (case find (\<lambda>o'. O_id o' = i) (lease_orders t) of None \<Rightarrow> no_term | Some o' \<Rightarrow> order_term now o')"

definition step_of :: "tables \<Rightarrow> (int \<Rightarrow> orderTerm) \<Rightarrow> f64 \<Rightarrow> FactorOrder \<Rightarrow> f64" where
  "step_of t terms v f = step_factor v (classifyFactorEvent (fo_Status f) (terms (fo_OrderID f)) (fo_MaxDays f)) (Ctrl (the (params_of t (fo_HashName f))))"

definition own_orders :: "int \<Rightarrow> FactorOrder list \<Rightarrow> FactorOrder list" where
  "own_orders i = filter (\<lambda>f. fo_ListingID f = i)"

definition stored_factor :: "tables \<Rightarrow> int \<Rightarrow> f64" where
  "stored_factor t i = (case find (\<lambda>l. L_id l = i) (listings t) of None \<Rightarrow> Fin 1 | Some l \<Rightarrow> L_factor l)"

text \<open>Faults do not pretend that a row is missing.\<close>

definition honest :: "session \<Rightarrow> bool" where
  "honest s \<longleftrightarrow> (\<forall>x. Some x \<in> set (faults s) \<longrightarrow> ErrNoRows \<notin> set (wrapped x))"

section \<open>Folding is sequential\<close>

definition fold_ok :: "tables \<Rightarrow> (int \<Rightarrow> orderTerm) \<Rightarrow> fold_state \<Rightarrow> bool" where
  "fold_ok t terms st \<longleftrightarrow> (case st of (cache, folds, handled) \<Rightarrow>
     (\<forall>h p. cache h = Some p \<longrightarrow> params_of t h = Some p) \<and> distinct (map ff_ListingID folds)
     \<and> (\<forall>i. fold_of folds i = (if own_orders i handled = [] then fold_of folds i else Some (foldl (step_of t terms) (stored_factor t i) (own_orders i handled))))
     \<and> (\<forall>i v. fold_of folds i = Some v \<longrightarrow> own_orders i handled \<noteq> []))"

lemma honest_past: "honest s \<Longrightarrow> honest (past s)"
  by (cases "faults s") (auto simp: honest_def past_def)

lemma Query_honest: "Query f s = (r, s') \<Longrightarrow> honest s \<Longrightarrow> honest s'" "QueryE g s = (q, s') \<Longrightarrow> honest s \<Longrightarrow> honest s'"
  by (auto simp: Query_def QueryE_def honest_past split: option.splits)

lemma Exec_honest: "Exec f s = (r, s') \<Longrightarrow> honest s \<Longrightarrow> honest s' \<and> db_now s' = db_now s"
proof -
  have [simp]: "honest (x\<lparr>db := t\<rparr>) = honest x" for x t by (simp add: honest_def)
  show "Exec f s = (r, s') \<Longrightarrow> honest s \<Longrightarrow> honest s' \<and> db_now s' = db_now s"
    by (auto simp: Exec_def honest_past split: option.splits)
qed

lemma cached_params_ok:
  assumes "cached_params h cache s = ((r, cache'), s')" "honest s" "\<forall>h p. cache h = Some p \<longrightarrow> params_of (db s) h = Some p"
  shows "db s' = db s \<and> honest s' \<and> (\<forall>h p. cache' h = Some p \<longrightarrow> params_of (db s) h = Some p) \<and> (\<forall>p. r = Some p \<longrightarrow> params_of (db s) h = Some p)"
proof (cases "cache h")
  case None
  obtain g s1 where G: "GetEffectiveStrategy h s = (g, s1)" by (cases "GetEffectiveStrategy h s")
  have s1: "db s1 = db s" "honest s1" using G assms(2)
    by (auto simp: GetEffectiveStrategy_def dest: Query_dbD Query_honest split: prod.splits sum.splits)
  have g: "g = Inr es \<Longrightarrow> sql_effective h (db s) = Inr es" for es
    using G by (auto simp: GetEffectiveStrategy_def QueryE_def split: prod.splits sum.splits option.splits)
  show ?thesis
  proof (cases g)
    case (Inl e)
    then have "r = None" "cache' = cache" "s' = s1" using assms(1) None G by (simp_all add: cached_params_def)
    then show ?thesis using s1 assms(3) by simp
  next
    case (Inr es)
    show ?thesis
    proof (cases "ParseParams (Some (es_GlobalParams es)) (es_Params es)")
      case I: (Inl e)
      then have "r = None" "cache' = cache" "s' = s1" using assms(1) None G Inr by (simp_all add: cached_params_def)
      then show ?thesis using s1 assms(3) by simp
    next
      fix p assume p: "ParseParams (Some (es_GlobalParams es)) (es_Params es) = Inr p"
      then have "r = Some p \<and> cache' = cache(h \<mapsto> p) \<and> s' = s1" using assms(1) None G Inr by (auto simp: cached_params_def)
      moreover have "params_of (db s) h = Some p" using g[OF Inr] p by (simp add: params_of_def)
      ultimately show ?thesis using s1 assms(3) by simp
    qed
  qed
qed (use assms in \<open>auto simp: cached_params_def\<close>)

lemma listingFactor_ok:
  assumes "listingFactor i s = (r, s')" "honest s"
  shows "db s' = db s \<and> honest s' \<and> (\<forall>v. r = Inr v \<longrightarrow> v = stored_factor (db s) i)"
proof -
  have n: "next_fault s = Some e \<Longrightarrow> ErrNoRows \<notin> set (wrapped e)" for e
    using assms(2) by (auto simp: honest_def next_fault_def split: list.splits)
  show ?thesis using assms n
    by (auto simp: listingFactor_def QueryE_def stored_factor_def no_rows_def honest_past split: option.splits sum.splits if_splits)
qed

lemma fold_of_Nil [simp]: "fold_of [] i = None"
  by (simp add: fold_of_def)

lemma fold_of_snoc: "fold_of (folds @ [\<lparr>ff_ListingID = j, ff_Factor = v\<rparr>]) i = (case fold_of folds i of None \<Rightarrow> if i = j then Some v else None | Some x \<Rightarrow> Some x)"
  by (induction folds) (auto simp: fold_of_def)

lemma fold_of_set: "fold_of (set_fold folds j v) i = (if i = j then map_option (\<lambda>_. v) (fold_of folds i) else fold_of folds i)"
  by (induction folds) (auto simp: fold_of_def set_fold_def)

lemma set_fold_ids: "map ff_ListingID (set_fold folds j v) = map ff_ListingID folds"
  by (auto simp: set_fold_def)

lemma fold_of_None_iff: "fold_of folds i = None \<longleftrightarrow> i \<notin> ff_ListingID ` set folds"
  by (auto simp: fold_of_def find_None_iff)

lemma open_fold_ok:
  assumes "open_fold i folds s = (Some (v, folds'), s')" "honest s" "distinct (map ff_ListingID folds)"
  shows "db s' = db s \<and> honest s' \<and> distinct (map ff_ListingID folds') \<and> fold_of folds' i = Some v
    \<and> (fold_of folds i = None \<longrightarrow> v = stored_factor (db s) i) \<and> (\<forall>x. fold_of folds i = Some x \<longrightarrow> v = x)
    \<and> (\<forall>j. j \<noteq> i \<longrightarrow> fold_of folds' j = fold_of folds j)"
proof (cases "fold_of folds i")
  case None
  obtain r s1 where L: "listingFactor i s = (r, s1)" by (cases "listingFactor i s")
  note l = listingFactor_ok[OF L assms(2)]
  obtain b where r: "r = Inr b" using assms(1) None L by (cases r) (auto simp: open_fold_def)
  have "v = b" "folds' = folds @ [\<lparr>ff_ListingID = i, ff_Factor = b\<rparr>]" "s' = s1" using assms(1) None L r by (auto simp: open_fold_def)
  moreover have "i \<notin> ff_ListingID ` set folds" using None fold_of_None_iff by blast
  ultimately show ?thesis using None l r assms(3) by (auto simp: fold_of_snoc split: option.splits)
qed (use assms in \<open>auto simp: open_fold_def\<close>)

lemma fold_order_ok:
  assumes "fold_order terms f st s = (st', s')" "honest s" "fold_ok (db s) terms st"
  shows "db s' = db s \<and> honest s' \<and> fold_ok (db s) terms st' \<and> (\<exists>hs. set hs \<subseteq> {f} \<and> snd (snd st') = snd (snd st) @ hs)"
proof -
  obtain cache folds handled where st: "st = (cache, folds, handled)" by (cases st)
  obtain r cache' s1 where P: "cached_params (fo_HashName f) cache s = ((r, cache'), s1)" by (metis prod.exhaust)
  have ok: "\<forall>h p. cache h = Some p \<longrightarrow> params_of (db s) h = Some p" "distinct (map ff_ListingID folds)"
      "\<And>i. own_orders i handled \<noteq> [] \<Longrightarrow> fold_of folds i = Some (foldl (step_of (db s) terms) (stored_factor (db s) i) (own_orders i handled))"
      "\<And>i v. fold_of folds i = Some v \<Longrightarrow> own_orders i handled \<noteq> []"
    using assms(3) st by (auto simp: fold_ok_def split: if_splits)
  note p = cached_params_ok[OF P assms(2) ok(1)]
  show ?thesis
  proof (cases r)
    case None
    then have "st' = (cache', folds, handled)" "s' = s1" using assms(1) st P by (auto simp: fold_order_def)
    then show ?thesis using p ok st by (auto simp: fold_ok_def intro: exI[of _ "[]"])
  next
    fix q assume r: "r = Some q"
    then have q: "params_of (db s) (fo_HashName f) = Some q" using p by simp
    obtain x s2 where O: "open_fold (fo_ListingID f) folds s1 = (x, s2)" by (cases "open_fold (fo_ListingID f) folds s1")
    show ?thesis
    proof (cases x)
      case None
      have "db s2 = db s1 \<and> honest s2"
      proof (cases "fold_of folds (fo_ListingID f)")
        case N: None
        obtain y s3 where L: "listingFactor (fo_ListingID f) s1 = (y, s3)" by (cases "listingFactor (fo_ListingID f) s1")
        show ?thesis using O N None L listingFactor_ok[OF L] p by (cases y) (auto simp: open_fold_def)
      qed (use O None in \<open>auto simp: open_fold_def\<close>)
      moreover have "st' = (cache', folds, handled)" "s' = s2" using assms(1) st P r O None by (auto simp: fold_order_def)
      ultimately show ?thesis using p ok st by (auto simp: fold_ok_def intro: exI[of _ "[]"])
    next
      case (Some vf)
      obtain v folds' where vf: "vf = (v, folds')" by (cases vf)
      note o' = open_fold_ok[OF O[unfolded Some vf] conjunct1[OF conjunct2[OF p]] ok(2)]
      let ?v = "step_factor v (classifyFactorEvent (fo_Status f) (terms (fo_OrderID f)) (fo_MaxDays f)) (Ctrl q)"
      have st': "st' = (cache', set_fold folds' (fo_ListingID f) ?v, handled @ [f])" "s' = s2"
        using assms(1) st P r O Some vf by (auto simp: fold_order_def)
      have v: "v = foldl (step_of (db s) terms) (stored_factor (db s) (fo_ListingID f)) (own_orders (fo_ListingID f) handled)"
      proof (cases "own_orders (fo_ListingID f) handled = []")
        case True
        then have "fold_of folds (fo_ListingID f) = None" using ok(4)[of "fo_ListingID f"] by (cases "fold_of folds (fo_ListingID f)") auto
        then show ?thesis using o' p True by simp
      next
        case False
        then show ?thesis using ok(3)[OF False] o' by simp
      qed
      have "?v = step_of (db s) terms v f" using q by (simp add: step_of_def)
      then show ?thesis using o' p ok st st' v
        by (auto simp: fold_ok_def set_fold_ids fold_of_set own_orders_def intro: exI[of _ "[f]"])
    qed
  qed
qed

lemma fold_orders_ok: "fold_orders terms fs st s = (st', s') \<Longrightarrow> honest s \<Longrightarrow> fold_ok (db s) terms st \<Longrightarrow>
    db s' = db s \<and> honest s' \<and> fold_ok (db s) terms st' \<and> (\<exists>hs. set hs \<subseteq> set fs \<and> snd (snd st') = snd (snd st) @ hs)"
proof (induction fs arbitrary: st s)
  case (Cons f fs)
  obtain st1 s1 where F: "fold_order terms f st s = (st1, s1)" by (metis prod.exhaust)
  note f = fold_order_ok[OF F Cons.prems(2,3)]
  have L: "fold_orders terms fs st1 s1 = (st', s')" using Cons.prems(1) F by simp
  have f1: "honest s1" "fold_ok (db s1) terms st1" using f by auto
  from Cons.IH[OF L f1]
  obtain hs where h: "db s' = db s1" "honest s'" "fold_ok (db s1) terms st'" "set hs \<subseteq> set fs" "snd (snd st') = snd (snd st1) @ hs" by blast
  obtain gs where g: "set gs \<subseteq> {f}" "snd (snd st1) = snd (snd st) @ gs" using f by blast
  show ?case using f g h by (intro conjI exI[of _ "gs @ hs"]) auto
qed (auto intro: exI[of _ "[]"])

section \<open>Committing the folds\<close>

definition factor_after :: "FactorFold list \<Rightarrow> int \<times> f64 \<Rightarrow> int \<times> f64" where
  "factor_after folds p = (case p of (i, v) \<Rightarrow> (i, case fold_of folds i of None \<Rightarrow> v | Some x \<Rightarrow> x))"

abbreviation factors :: "tables \<Rightarrow> (int \<times> f64) list" where
  "factors t \<equiv> map (\<lambda>l. (L_id l, L_factor l)) (listings t)"

abbreviation marks :: "tables \<Rightarrow> (int \<times> bool) list" where
  "marks t \<equiv> map (\<lambda>o'. (O_id o', O_factor_applied o')) (lease_orders t)"

lemma apply_folds_ok: "apply_folds folds s = (None, s') \<Longrightarrow> distinct (map ff_ListingID folds) \<Longrightarrow>
    factors (db s') = map (factor_after folds) (factors (db s)) \<and> lease_orders (db s') = lease_orders (db s)"
proof (induction folds arbitrary: s)
  case Nil
  then show ?case by (simp add: factor_after_def case_prod_beta)
next
  case (Cons f fs)
  let ?u = "\<lambda>l. l\<lparr>L_factor := ff_Factor f, L_last_factor_event_at := Some (db_now s)\<rparr>"
  obtain s1 where E: "Exec (\<lambda>t. t\<lparr>listings := upd_where (\<lambda>l. L_id l = ff_ListingID f) ?u (listings t)\<rparr>) s = (None, s1)"
    and A: "apply_folds fs s1 = (None, s')" using Cons.prems(1) by (auto split: prod.splits option.splits)
  have d: "db s1 = (db s)\<lparr>listings := upd_where (\<lambda>l. L_id l = ff_ListingID f) ?u (listings (db s))\<rparr>"
    using E by (auto simp: Exec_def split: option.splits)
  have n: "fold_of fs (ff_ListingID f) = None" using Cons.prems(2) by (simp add: fold_of_None_iff)
  have "factors (db s') = map (factor_after fs) (factors (db s1)) \<and> lease_orders (db s') = lease_orders (db s1)"
    using Cons.IH[OF A] Cons.prems(2) by simp
  moreover have "map (factor_after fs) (factors (db s1)) = map (factor_after (f # fs)) (factors (db s))"
    using n by (auto simp: d upd_where_def factor_after_def fold_of_def)
  ultimately show ?case by (simp add: d)
qed

lemma check_orders_ok: "check_orders fs s = (None, s') \<Longrightarrow> db s' = db s \<and>
    (\<forall>f \<in> set fs. \<exists>o'. find (\<lambda>o'. O_id o' = fo_OrderID f) (lease_orders (db s)) = Some o' \<and> fold_matches f o')"
proof (induction fs arbitrary: s)
  case (Cons f fs)
  let ?q = "\<lambda>t. case find (\<lambda>o'. O_id o' = fo_OrderID f) (lease_orders t) of None \<Rightarrow> Inl no_rows | Some o' \<Rightarrow> Inr (fold_matches f o')"
  obtain s1 where Q: "QueryE ?q s = (Inr True, s1)" and C: "check_orders fs s1 = (None, s')"
    using Cons.prems by (auto split: prod.splits sum.splits if_splits)
  have "db s1 = db s" using Query_dbD(2)[OF Q] .
  moreover have "?q (db s) = Inr True" using Q by (auto simp: QueryE_def split: option.splits)
  ultimately show ?case using Cons.IH[OF C] by (auto split: option.splits)
qed simp

lemma mark_ok: "MarkFactorApplied ids s = (None, s') \<Longrightarrow> listings (db s') = listings (db s)
    \<and> marks (db s') = map (\<lambda>(i, b). (i, b \<or> i \<in> set ids)) (marks (db s))"
  by (auto simp: MarkFactorApplied_def Exec_def upd_where_def split: if_splits option.splits)

lemma ApplyFactorFolds_ok:
  assumes "ApplyFactorFolds folds orders s = (Inr (), s')" "distinct (map ff_ListingID folds)"
  shows "factors (db s') = map (factor_after folds) (factors (db s))
    \<and> marks (db s') = map (\<lambda>(i, b). (i, b \<or> i \<in> fo_OrderID ` set orders)) (marks (db s))
    \<and> (\<forall>f \<in> set orders. \<exists>o' \<in> set (lease_orders (db s)). O_id o' = fo_OrderID f \<and> fold_matches f o')"
proof (cases "folds = [] \<and> orders = []")
  case True
  then show ?thesis using assms(1) by (simp add: ApplyFactorFolds_def factor_after_def case_prod_beta)
next
  case False
  then have T: "Tx (Wrap ''begin factor tx: '') (folds_body folds orders) s = (Inr (), s')" using assms(1) by (auto simp: ApplyFactorFolds_def)
  obtain c s1 where b: "folds_body folds orders (past s) = (Inr (c, ()), s1)" "db s' = (if c then db s1 else db s)" using Tx_ok[OF T] by auto
  obtain s2 where C: "check_orders (sort_key fo_OrderID orders) (past s) = (None, s2)"
    using b(1) by (cases "check_orders (sort_key fo_OrderID orders) (past s)") (auto simp: folds_body_def split: option.splits)
  obtain s3 where A: "apply_folds folds s2 = (None, s3)"
    using b(1) C by (cases "apply_folds folds s2") (auto simp: folds_body_def split: option.splits)
  obtain s4 where M: "MarkFactorApplied (map fo_OrderID (sort_key fo_OrderID orders)) s3 = (None, s4)"
    using b(1) C A by (cases "MarkFactorApplied (map fo_OrderID (sort_key fo_OrderID orders)) s3") (auto simp: folds_body_def split: option.splits)
  have "c" "s1 = s4" using b(1) C A M by (auto simp: folds_body_def)
  then have "db s' = db s4" using b(2) by simp
  moreover note check_orders_ok[OF C] apply_folds_ok[OF A assms(2)] mark_ok[OF M]
  ultimately show ?thesis by (force simp: find_Some_iff)
qed

section \<open>The pass\<close>

lemma bind_marks: "map (\<lambda>o'. (O_id o', O_factor_applied o')) (map (bind_order i since ls) os) = map (\<lambda>o'. (O_id o', O_factor_applied o')) os"
  by (auto simp: bind_order_def split: list.splits)

lemma bind_terms: "O_id (bind_order i since ls o') = O_id o'" "order_term now (bind_order i since ls o') = order_term now o'"
  "O_status (bind_order i since ls o') = O_status o'" "O_factor_applied (bind_order i since ls o') = O_factor_applied o'"
  by (auto simp: bind_order_def order_term_def split: list.splits)

lemma find_map_id: "(\<And>x. g (h x) = g x) \<Longrightarrow> find (\<lambda>x. g x = i) (map h xs) = map_option h (find (\<lambda>x. g x = i) xs)"
  by (induction xs) auto

lemma unhandled_ok:
  assumes "UnhandledFactorOrders since limit s = (Inr orders, s1)" "honest s"
  shows "honest s1 \<and> db_now s1 = db_now s \<and> listings (db s1) = listings (db s) \<and> strategies (db s1) = strategies (db s) \<and> marks (db s1) = marks (db s)
    \<and> (\<forall>now i. term_of (db s1) now i = term_of (db s) now i)
    \<and> (\<forall>f \<in> set orders. \<exists>o' \<in> set (lease_orders (db s)). O_id o' = fo_OrderID f \<and> is_income (O_status o') \<and> \<not> O_factor_applied o' \<and> fo_Status f = O_status o')"
proof -
  obtain s2 where E: "Exec (sql_bind_factor_orders None (Some since)) s = (None, s2)"
    using assms(1) by (cases "Exec (sql_bind_factor_orders None (Some since)) s") (auto simp: UnhandledFactorOrders_def split: option.splits)
  have Q: "Query (sql_unhandled since limit) s2 = (Inr orders, s1)"
    using assms(1) E by (cases "Query (sql_unhandled since limit) s2") (auto simp: UnhandledFactorOrders_def split: sum.splits)
  have d2: "db s2 = sql_bind_factor_orders None (Some since) (db s)" "honest s2" "db_now s2 = db_now s"
    using E Exec_honest[OF E assms(2)] by (auto simp: Exec_def split: option.splits)
  have d1: "db s1 = db s2" "honest s1" "db_now s1 = db_now s2" "orders = sql_unhandled since limit (db s2)"
    using Q d2(2) Query_honest(1)[OF Q] by (auto simp: Query_def past_def split: option.splits)
  have os: "lease_orders (db s1) = map (bind_order None (Some since) (listings (db s))) (lease_orders (db s))"
    by (simp add: d1 d2 sql_bind_factor_orders_def)
  have t: "term_of (db s1) now i = term_of (db s) now i" for now i
    by (simp add: term_of_def os find_map_id[of O_id] bind_terms split: option.splits)
  have "\<exists>o' \<in> set (lease_orders (db s2)). O_id o' = fo_OrderID f \<and> is_income (O_status o') \<and> \<not> O_factor_applied o' \<and> fo_Status f = O_status o'"
    if "f \<in> set orders" for f
  proof -
    have "f \<in> set (concat (map (unhandled_row (db s2) since) (sort_key O_id (lease_orders (db s2)))))"
      using that unfolding d1(4) sql_unhandled_def by (rule in_set_takeD)
    then obtain x where x: "x \<in> set (lease_orders (db s2))" "f \<in> set (unhandled_row (db s2) since x)" by auto
    then show ?thesis by (intro bexI[OF _ x(1)]) (auto simp: unhandled_row_def split: option.splits if_splits)
  qed
  then have "\<exists>o' \<in> set (lease_orders (db s)). O_id o' = fo_OrderID f \<and> is_income (O_status o') \<and> \<not> O_factor_applied o' \<and> fo_Status f = O_status o'"
    if "f \<in> set orders" for f
    using that by (fastforce simp: d2 sql_bind_factor_orders_def bind_terms)
  then show ?thesis using d1 d2 t by (auto simp: sql_bind_factor_orders_def bind_marks[unfolded map_map comp_def] bind_terms comp_def)
qed

lemma params_of_frame: "strategies t = strategies t' \<Longrightarrow> params_of t h = params_of t' h"
  unfolding params_of_def sql_effective_def by (simp only:)

lemma orderTerms_ok: "orderTerms ids s = (Inr terms, s') \<Longrightarrow> honest s \<Longrightarrow> db s' = db s \<and> honest s' \<and> (\<forall>i \<in> set ids. terms i = term_of (db s) (db_now s) i)"
  by (auto simp: orderTerms_def Query_def term_of_def honest_past split: if_splits option.splits)


text \<open>A fold pass that fails leaves every factor and every mark as it was: its orders are handled by a later pass.\<close>

theorem failed_fold_pass_changes_nothing:
  assumes "foldOrderEvents now s = (Some e, s')" "honest s"
  shows "factors (db s') = factors (db s) \<and> marks (db s') = marks (db s)"
proof -
  let ?since = "now - factorOrderWindow"
  obtain q s1 where U: "UnhandledFactorOrders ?since 500 s = (q, s1)" by (cases "UnhandledFactorOrders ?since 500 s")
  have b1: "factors (db s1) = factors (db s) \<and> marks (db s1) = marks (db s)"
  proof -
    obtain x s2 where E: "Exec (sql_bind_factor_orders None (Some ?since)) s = (x, s2)" by (cases "Exec (sql_bind_factor_orders None (Some ?since)) s")
    have "factors (db s2) = factors (db s) \<and> marks (db s2) = marks (db s)"
      using E by (auto simp: Exec_def sql_bind_factor_orders_def bind_order_def split: option.splits list.splits)
    moreover have "db s1 = db s2" using U E by (auto simp: UnhandledFactorOrders_def dest: Query_dbD split: option.splits prod.splits sum.splits)
    ultimately show ?thesis by simp
  qed
  show ?thesis
  proof (cases q)
    case (Inl x)
    then show ?thesis using assms(1) U b1 by (simp add: foldOrderEvents_def Let_def)
  next
    case (Inr orders)
    note u = unhandled_ok[OF U[unfolded Inr] assms(2)]
    obtain n s2 where V: "UnresolvedFactorOrders ?since s1 = (n, s2)" by (cases "UnresolvedFactorOrders ?since s1")
    have v: "db s2 = db s1" "honest s2" using V u by (auto simp: UnresolvedFactorOrders_def dest: Query_dbD Query_honest)
    show ?thesis
    proof (cases n)
      case (Inl x)
      then show ?thesis using assms(1) U Inr V b1 v by (simp add: foldOrderEvents_def Let_def)
    next
      fix k assume n: "n = Inr k"
      obtain t s3 where O: "orderTerms (map fo_OrderID orders) s2 = (t, s3)" by (cases "orderTerms (map fo_OrderID orders) s2")
      show ?thesis
      proof (cases t)
        case (Inl x)
        then have "db s3 = db s2" using O by (auto simp: orderTerms_def dest: Query_dbD split: if_splits)
        then show ?thesis using assms(1) U Inr V n O Inl b1 v by (simp add: foldOrderEvents_def Let_def)
      next
        fix terms assume t: "t = Inr terms"
        note o' = orderTerms_ok[OF O[unfolded t] v(2)]
        obtain cache folds handled s4 where F: "fold_orders terms orders (\<lambda>_. None, [], []) s3 = ((cache, folds, handled), s4)" by (metis prod.exhaust)
        have "db s4 = db s3" using fold_orders_ok[OF F] o' by (simp add: fold_ok_def own_orders_def)
        moreover have "ApplyFactorFolds folds handled s4 = (Inl e, s')"
          using assms(1) U Inr V n O t F by (cases "ApplyFactorFolds folds handled s4") (auto simp: foldOrderEvents_def Let_def split: sum.splits)
        then have "db s' = db s4" by (auto simp: ApplyFactorFolds_def dest: Tx_error split: if_splits)
        ultimately show ?thesis using o' v b1 by simp
      qed
    qed
  qed
qed

section \<open>A worked example\<close>

definition lease_row :: listing_row where
  "lease_row = \<lparr>L_id = 1, L_channel = ''uu'', L_asset_id = ''a'', L_hash_name = ''h'', L_goods_ref = ''g'', L_desired_state = ''active'',
     L_actual_state = ''active'', L_rent_price = Some (Fin 3), L_long_rent_price = None, L_max_days = None, L_deposit = None, L_listed_at = None,
     L_last_reprice_at = None, L_actual_synced_at = None, L_factor = Fin 1, L_last_factor_event_at = None, L_sublet_applied = False,
     L_mismatch_since = None, L_mismatch_reason = None, L_retired_at = None\<rparr>"

text \<open>A buy-out of the asset on that listing, not bound to it yet.\<close>

definition bought_order :: order_row where
  "bought_order =
    \<lparr>O_id = 5, O_channel = ''uu'', O_order_ref = ''r'', O_asset_id = ''a'', O_hash_name = ''h'', O_order_type = '''', O_status = ''bought_out'',
     O_rent_days = 3, O_rent_price = Fin 0, O_order_amount = Fin 0, O_deposits = Fin 0, O_started_at = None, O_due_at = None,
     O_finished_at = Some 0, O_updated_at = 0, O_factor_applied = False, O_factor_listing_id = None, O_factor_observed_at = 0,
     O_income_recorded = False, O_raw = None\<rparr>"

definition factor_session :: "goerr option list \<Rightarrow> session" where
  "factor_session fs = \<lparr>db = \<lparr>templates = [], inventory_items = [], listings = [lease_row], lease_orders = [bought_order], market_snapshots = [],
     strategies = [\<lparr>S_id = 1, S_name = ''default'', S_enabled = True, S_scope = ''global'', S_hash_name = None, S_channel_route = ''both'',
       S_params = JObj [], S_priority = 0, S_real_execution_enabled = False, S_updated_by = ''user'', S_updated_at = 0\<rparr>],
     price_actions = [], fund_flows = [], app_settings = [], audit_log = [], order_income_ledger = [], daily_stats = [],
     shelf_observations = (\<lambda>_. None), next_id = 9\<rparr>, db_now = 0, faults = fs\<rparr>"

lemma fold_runs: "fst (foldOrderEvents 0 (factor_session [])) = None"
  by code_simp


theorem failed_fold_pass_changes_nothing_witness:
  "factors (db (snd (foldOrderEvents 0 (factor_session [None, Some (Errorf ''connection lost'')])))) = [(1, Fin 1)]"
proof -
  let ?s = "factor_session [None, Some (Errorf ''connection lost'')]"
  have "fst (foldOrderEvents 0 ?s) \<noteq> None"
    by (simp add: foldOrderEvents_def UnhandledFactorOrders_def Exec_def Query_def next_fault_def past_def factor_session_def Let_def)
  then obtain e where r: "foldOrderEvents 0 ?s = (Some e, snd (foldOrderEvents 0 ?s))" by (metis option.exhaust surjective_pairing)
  have s: "honest ?s" "factors (db ?s) = [(1, Fin 1)]" by (auto simp: honest_def factor_session_def lease_row_def)
  show ?thesis using failed_fold_pass_changes_nothing[OF r s(1)] s(2) by simp
qed

end
