(* ===== verification/Jobs.thy ===== *)
theory Jobs
  imports FactorJob Scheduler
begin

text \<open>
  The collecting jobs (\<open>internal/bench/bench.go\<close>, \<open>internal/scheduler/jobs.go\<close>): what each pulls from the channels and
  writes to the store, and the table of all jobs with their periods. A job function maps a job state to its error
  and the new state.
\<close>

section \<open>Synchronisation of one channel\<close>

definition SyncInventory :: "channel \<Rightarrow> 'w Adapter \<Rightarrow> 'w job_state \<Rightarrow> goerr option \<times> 'w job_state" where
  "SyncInventory ch ad st =
    (case on_world (Inventory ad) st of
       (Inl e, st) \<Rightarrow> (Some e, st)
     | (Inr items, st) \<Rightarrow> (case on_store (ApplyInventorySnapshot ch items) st of (Inl e, st) \<Rightarrow> (Some e, st) | (Inr _, st) \<Rightarrow> (None, st)))"

definition ShelfObservationTime :: "session \<Rightarrow> (goerr + instant) \<times> session" where
  "ShelfObservationTime s = Query (\<lambda>_. db_now s) s"

definition breaker_audit :: "instant \<Rightarrow> channel \<Rightarrow> int \<Rightarrow> AuditEntry" where
  "breaker_audit now ch n = \<lparr>ae_Time = now, ae_Actor = ''system'', ae_Action = ''shelf.empty_breaker'', ae_Channel = ch, ae_Target = '''',
     ae_Detail = Some [(''channel'', JStr ch), (''active_listings'', JInt n)]\<rparr>"

definition job_audit :: "Deps \<Rightarrow> (instant \<Rightarrow> AuditEntry) \<Rightarrow> 'w job_state \<Rightarrow> 'w job_state" where
  "job_audit d entry st = (if dd_Audit d then (case time_Now d st of (now, st) \<Rightarrow> snd (on_store (InsertAudit (entry now)) st)) else st)"

definition SyncShelf :: "Deps \<Rightarrow> channel \<Rightarrow> 'w Adapter \<Rightarrow> 'w job_state \<Rightarrow> goerr option \<times> 'w job_state" where
  "SyncShelf d ch ad st =
    (case on_store ShelfObservationTime st of
       (Inl e, st) \<Rightarrow> (Some e, st)
     | (Inr at', st) \<Rightarrow>
        (case on_world (LeaseShelf ad) st of
           (Inl e, st) \<Rightarrow> (Some e, st)
         | (Inr shelf, st) \<Rightarrow>
            (case on_store (ApplyShelfSnapshot ch shelf at') st of
               (Inl e, st) \<Rightarrow> (Some e, st)
             | (Inr (missing, emptyActive), st) \<Rightarrow>
                if 0 < emptyActive then (None, job_audit d (\<lambda>now. breaker_audit now ch emptyActive) st) else (None, st))))"

definition bare_template :: "string \<Rightarrow> template_row" where
  "bare_template h = \<lparr>T_hash_name = h, T_display_name = '''', T_category = '''', T_uu_template_id = None, T_uu_mark_price = None,
     T_eco_ref_price = None, T_value_anchor = None, T_anchor_updated_at = None, T_blacklisted = False\<rparr>"

fun write_orders :: "LeaseOrder list \<Rightarrow> session \<Rightarrow> goerr option \<times> session" where
  "write_orders [] s = (None, s)"
| "write_orders (x # xs) s =
    (if lo_HashName x = '''' \<and> lo_AssetID x = '''' then write_orders xs s
     else case (if lo_HashName x \<noteq> '''' then upsertTemplate (bare_template (lo_HashName x)) s else (None, s)) of
         (Some e, s) \<Rightarrow> (Some e, s)
       | (None, s) \<Rightarrow> (case UpsertLeaseOrder x s of (Inl e, s) \<Rightarrow> (Some e, s) | (Inr _, s) \<Rightarrow> write_orders xs s))"

definition SyncOrders :: "instant \<Rightarrow> channel \<Rightarrow> 'w Adapter \<Rightarrow> 'w job_state \<Rightarrow> goerr option \<times> 'w job_state" where
  "SyncOrders since ch ad st =
    (case on_world (LeaseOrders ad since) st of (Inl e, st) \<Rightarrow> (Some e, st) | (Inr orders, st) \<Rightarrow> on_store (write_orders orders) st)"

text \<open>\<open>bench.Median\<close>, on floats that are not NaN.\<close>

definition insert_f :: "f64 \<Rightarrow> f64 list \<Rightarrow> f64 list" where
  "insert_f x xs = takeWhile (\<lambda>y. y < x) xs @ x # dropWhile (\<lambda>y. y < x) xs"

definition Median :: "f64 list \<Rightarrow> f64" where
  "Median vals =
    (if vals = [] then Fin 0
     else let s = foldr insert_f vals []; mid = length s div 2
       in if length s mod 2 = 1 then s ! mid else (s ! (mid - 1) + s ! mid) / Fin 2)"

section \<open>A job over the channels\<close>

text \<open>Every ready channel in turn; an error of one is kept, backs that channel off, and the others go on.\<close>

fun each_channel ::
    "Deps \<Rightarrow> string \<Rightarrow> (channel \<Rightarrow> 'w Adapter \<Rightarrow> 'w job_state \<Rightarrow> goerr option \<times> 'w job_state) \<Rightarrow> (channel \<times> 'w Adapter) list \<Rightarrow> 'w job_state
      \<Rightarrow> goerr list \<times> 'w job_state" where
  "each_channel d label f [] st = ([], st)"
| "each_channel d label f ((ch, ad) # ads) st =
    (case job_ChannelReady d ch st of
       (False, st) \<Rightarrow> each_channel d label f ads st
     | (True, st) \<Rightarrow>
        (case f ch ad st of
           (None, st) \<Rightarrow> each_channel d label f ads st
         | (Some e, st) \<Rightarrow>
            (case each_channel d label f ads (job_penalize d ch e st) of (es, st) \<Rightarrow> (Wrap (label @ '' '' @ ch @ '': '') e # es, st))))"

definition inventory_sync :: "Deps \<Rightarrow> (channel \<times> 'w Adapter) list \<Rightarrow> 'w job_state \<Rightarrow> goerr option \<times> 'w job_state" where
  "inventory_sync d ads st = (case each_channel d ''inventory'' SyncInventory ads st of (es, st) \<Rightarrow> (errors_Join es, st))"

definition shelf_sync :: "Deps \<Rightarrow> (channel \<times> 'w Adapter) list \<Rightarrow> 'w job_state \<Rightarrow> goerr option \<times> 'w job_state" where
  "shelf_sync d ads st = (case each_channel d ''shelf'' (SyncShelf d) ads st of (es, st) \<Rightarrow> (errors_Join es, st))"

section \<open>The window of the order sync\<close>

definition orderSyncFloor :: duration where "orderSyncFloor = 24 * Hour"
definition orderSyncMargin :: duration where "orderSyncMargin = 24 * Hour"
definition orderSyncMaxWindow :: duration where "orderSyncMaxWindow = 100 * 24 * Hour"

definition orderSyncWindow :: "instant \<Rightarrow> instant option \<Rightarrow> instant option \<Rightarrow> instant" where
  "orderSyncWindow now openStart leasedStart =
    (let since = foldl (\<lambda>since t. case t of None \<Rightarrow> since
           | Some t \<Rightarrow> if IsZero t then since else if t - orderSyncMargin < since then t - orderSyncMargin else since)
         (now - orderSyncFloor) [openStart, leasedStart];
       floor = now - orderSyncMaxWindow
     in if since < floor then floor else since)"

definition or_none :: "(goerr + instant option) \<times> 's \<Rightarrow> instant option \<times> 's" where
  "or_none r = (case r of (Inl _, s) \<Rightarrow> (None, s) | (Inr t, s) \<Rightarrow> (t, s))"

definition orderSyncSince :: "Deps \<Rightarrow> 'w job_state \<Rightarrow> instant \<times> 'w job_state" where
  "orderSyncSince d st =
    (case time_Now d st of (now, st) \<Rightarrow>
       case or_none (on_store EarliestOpenOrderStart st) of (earliest, st) \<Rightarrow>
         case or_none (on_store EarliestLeasedListingStart st) of (leased, st) \<Rightarrow> (orderSyncWindow now earliest leased, st))"

definition orders_sync :: "Deps \<Rightarrow> (channel \<times> 'w Adapter) list \<Rightarrow> 'w job_state \<Rightarrow> goerr option \<times> 'w job_state" where
  "orders_sync d ads st =
    (case orderSyncSince d st of (since, st) \<Rightarrow>
       case each_channel d ''orders'' (SyncOrders since) ads st of (es, st) \<Rightarrow>
         case on_store RollupTerminalOrders st of
           (Inl e, st) \<Rightarrow> (errors_Join (es @ [Wrap ''income rollup: '' e]), st) | (Inr _, st) \<Rightarrow> (errors_Join es, st))"

section \<open>Market snapshots\<close>

definition errChannelCooling :: goerr where
  "errChannelCooling = \<lparr>Error = ''channel in cooldown'', wrapped = [ErrChannelCooling]\<rparr>"

definition quote_points :: "string \<Rightarrow> instant \<Rightarrow> int \<Rightarrow> Quote \<Rightarrow> quote_snapshot list" where
  "quote_points h now rank q =
    map (\<lambda>(kind, price). \<lparr>qs_HashName = h, qs_Source = ''uu_market'', qs_Kind = kind, qs_Rank = rank, qs_Price = price, qs_CapturedAt = now\<rparr>)
      (filter (\<lambda>(kind, price). Fin 0 < price) [(''lease_short'', q_Short q), (''lease_long'', q_Long q), (''deposit'', q_Deposit q)])"

definition snapshot_points :: "string \<Rightarrow> instant \<Rightarrow> Quote list \<Rightarrow> quote_snapshot list" where
  "snapshot_points h now qs = concat (map (\<lambda>(i, q). quote_points h now (int i + 1) q) (enumerate 0 qs))"

definition price_band :: "f64 \<Rightarrow> f64 \<times> f64" where
  "price_band mark = (if mark \<le> Fin 0 then (Fin 0, Fin 20000) else (mark, mark * Fin 2))"

text \<open>\<open>fetch\<close> takes the template and its price band; an error that backs the channel off ends the loop.\<close>

fun snapshot_loop ::
    "Deps \<Rightarrow> (int \<Rightarrow> f64 \<Rightarrow> f64 \<Rightarrow> 'w job_state \<Rightarrow> (goerr + Quote list) \<times> 'w job_state) \<Rightarrow> (string \<times> int \<times> f64) list \<Rightarrow> 'w job_state
      \<Rightarrow> goerr list \<times> 'w job_state" where
  "snapshot_loop d fetch [] st = ([], st)"
| "snapshot_loop d fetch ((h, i, mark) # tps) st =
    (case price_band mark of (lo, hi) \<Rightarrow>
       case fetch i lo hi st of
         (Inl e, st) \<Rightarrow>
           (let err = Wrap (''quotes '' @ h @ '': '') e in
            if 0 < riskCooldown e \<or> errors_Is (Some e) ErrChannelCooling then ([err], st)
            else case snapshot_loop d fetch tps st of (es, st) \<Rightarrow> (err # es, st))
       | (Inr quotes, st) \<Rightarrow>
           (case time_Now d st of (now, st) \<Rightarrow>
              case on_store (InsertSnapshots (snapshot_points h now quotes) now) st of
                (Some e, st) \<Rightarrow> (case snapshot_loop d fetch tps st of (es, st) \<Rightarrow> (Wrap (''snapshot '' @ h @ '': '') e # es, st))
              | (None, st) \<Rightarrow> snapshot_loop d fetch tps st))"

definition runMarketSnapshot ::
    "Deps \<Rightarrow> (int \<Rightarrow> f64 \<Rightarrow> f64 \<Rightarrow> 'w job_state \<Rightarrow> (goerr + Quote list) \<times> 'w job_state) \<Rightarrow> 'w job_state \<Rightarrow> goerr option \<times> 'w job_state" where
  "runMarketSnapshot d fetch st =
    (case on_store TemplatesNeedingQuotes st of
       (Inl e, st) \<Rightarrow> (Some e, st) | (Inr tps, st) \<Rightarrow> (case snapshot_loop d fetch tps st of (es, st) \<Rightarrow> (errors_Join es, st)))"

definition guarded_fetch ::
    "Deps \<Rightarrow> (int \<Rightarrow> f64 \<Rightarrow> f64 \<Rightarrow> 'w \<Rightarrow> (goerr + Quote list) \<times> 'w) \<Rightarrow> int \<Rightarrow> f64 \<Rightarrow> f64 \<Rightarrow> 'w job_state \<Rightarrow> (goerr + Quote list) \<times> 'w job_state" where
  "guarded_fetch d uuQuotes i lo hi st =
    (case job_ChannelReady d ChannelUU st of
       (False, st) \<Rightarrow> (Inl errChannelCooling, st)
     | (True, st) \<Rightarrow> (case on_world (uuQuotes i lo hi) st of (Inl e, st) \<Rightarrow> (Inl e, job_penalize d ChannelUU e st) | (Inr qs, st) \<Rightarrow> (Inr qs, st)))"

definition market_snapshot :: "Deps \<Rightarrow> (int \<Rightarrow> f64 \<Rightarrow> f64 \<Rightarrow> 'w \<Rightarrow> (goerr + Quote list) \<times> 'w) \<Rightarrow> 'w job_state \<Rightarrow> goerr option \<times> 'w job_state" where
  "market_snapshot d uuQuotes st =
    (case job_ChannelReady d ChannelUU st of (False, st) \<Rightarrow> (None, st) | (True, st) \<Rightarrow> runMarketSnapshot d (guarded_fetch d uuQuotes) st)"

section \<open>Value anchors\<close>

text \<open>The price dump is a parameter (\<open>None\<close> for nil); its entries are written in some order.\<close>

definition refresh_prices :: "Deps \<Rightarrow> ('w \<Rightarrow> (goerr + (string \<times> f64) list) \<times> 'w) option \<Rightarrow> 'w job_state \<Rightarrow> goerr list \<times> 'w job_state" where
  "refresh_prices d ecoDump st =
    (case ecoDump of None \<Rightarrow> ([], st)
     | Some dump \<Rightarrow>
        (case job_ChannelReady d ChannelECO st of
           (False, st) \<Rightarrow> ([], st)
         | (True, st) \<Rightarrow>
            (case on_world dump st of
               (Inl e, st) \<Rightarrow> ([Wrap ''eco dump: '' e], job_penalize d ChannelECO e st)
             | (Inr prices, st) \<Rightarrow>
                if prices = [] then ([], st)
                else (case on_store (UpdateEcoRefPrices prices) st of
                        ((_, Some e), st) \<Rightarrow> ([Wrap ''eco ref persist: '' e], st) | ((_, None), st) \<Rightarrow> ([], st)))))"

definition value_anchor :: "Deps \<Rightarrow> ('w \<Rightarrow> (goerr + (string \<times> f64) list) \<times> 'w) option \<Rightarrow> 'w job_state \<Rightarrow> goerr option \<times> 'w job_state" where
  "value_anchor d ecoDump st =
    (case refresh_prices d ecoDump st of (es, st) \<Rightarrow>
       case on_store RecomputeAnchors st of (Inl e, st) \<Rightarrow> (errors_Join (es @ [e]), st) | (Inr _, st) \<Rightarrow> (errors_Join es, st))"

section \<open>The table of jobs\<close>

definition interval_job :: "string \<Rightarrow> duration \<Rightarrow> duration \<Rightarrow> Job" where
  "interval_job n every jitter = \<lparr>j_Name = n, j_Kind = KindInterval, Every = every, At = '''', Jitter = jitter, HasFn = True\<rparr>"

definition job_table :: "Job list" where
  "job_table =
    [interval_job ''reprice'' (31 * Minute) (90 * Second), interval_job ''factor_events'' (17 * Minute) (60 * Second),
     interval_job ''inventory_sync'' (30 * Minute) (60 * Second), interval_job ''shelf_sync'' (10 * Minute) (30 * Second),
     interval_job ''orders_sync'' (10 * Minute) (30 * Second), interval_job ''market_snapshot'' (20 * Minute) (120 * Second),
     interval_job ''value_anchor'' Hour (5 * Minute), interval_job ''reconcile'' (10 * Minute) (60 * Second),
     interval_job ''uu_delivery'' (5 * Minute) (45 * Second), interval_job ''steam_offers'' (5 * Minute) (45 * Second),
     interval_job ''eco_delivery'' (5 * Minute) (45 * Second),
     \<lparr>j_Name = ''zero_cd'', j_Kind = KindDaily, Every = 0, At = ''23:30'', Jitter = 0, HasFn = True\<rparr>]"

end
