(* ===== verification/ReconJob.thy ===== *)
theory ReconJob
  imports Reprice Mirror
begin

text \<open>
  The reconcile job (\<open>recon.Planner.Plan\<close>, \<open>decideFor\<close> and the job function \<open>cmd/server/main.go\<close> builds around them): read the
  shelf the store knows and the health of the channels, plan, keep the actions of ready channels, split them by the effective
  strategy of their commodity, and execute. The list of adapters is what \<open>registry.All\<close> answers.

  An execution works on the job state as its outside world and on the session as its store: the session inside that world is
  not read, and the audit rows of a run are inserted after it. They are the only rows of their table a run writes, so only the
  order in which the statements meet the pending faults differs from the code.
\<close>

section \<open>Health\<close>

definition NoteChannelError :: "Deps \<Rightarrow> channel \<Rightarrow> goerr option \<Rightarrow> 'w job_state \<Rightarrow> 'w job_state" where
  "NoteChannelError d ch err st = (case err of None \<Rightarrow> st | Some e \<Rightarrow> job_penalize d ch e st)"

definition not_configured :: "string \<Rightarrow> string" where
  "not_configured = (\<lambda>_. '''')(''uu'' := ''not_configured'', ''eco'' := ''not_configured'')"

fun probe_channels :: "Deps \<Rightarrow> (channel \<times> 'w Adapter) list \<Rightarrow> (string \<Rightarrow> string) \<Rightarrow> 'w job_state \<Rightarrow> (string \<Rightarrow> string) \<times> 'w job_state" where
  "probe_channels d [] health st = (health, st)"
| "probe_channels d ((ch, ad) # ads) health st =
    (case job_ChannelReady d ch st of
       (False, st) \<Rightarrow> probe_channels d ads (health(ch := ''cooldown'')) st
     | (True, st) \<Rightarrow>
        (case on_world (Healthy ad) st of (err, st) \<Rightarrow>
           probe_channels d ads (health(ch := (case err of None \<Rightarrow> ''ok'' | Some e \<Rightarrow> Error e))) (NoteChannelError d ch err st)))"

definition planner_health :: "Deps \<Rightarrow> (channel \<times> 'w Adapter) list \<Rightarrow> 'w job_state \<Rightarrow> (string \<Rightarrow> string) \<times> 'w job_state" where
  "planner_health d ads = probe_channels d ads not_configured"

section \<open>The decision for one copy\<close>

record 'w Planner =
  pl_Now :: instant
  pl_OrphanGrace :: duration
  pl_Caps :: "channel \<Rightarrow> Capabilities option"
  pl_Health :: "('w job_state \<Rightarrow> (string \<Rightarrow> string) \<times> 'w job_state) option"

definition no_cur :: Current where
  "no_cur = \<lparr>cur_RentPrice = Fin 0, cur_LastActionAt = 0, cur_LongPrice = Fin 0, cur_Deposit = Fin 0, cur_MaxDays = 0, cur_TermsKnown = False\<rparr>"

definition publish_input :: "'w Planner \<Rightarrow> instant \<Rightarrow> channel \<Rightarrow> f64 \<Rightarrow> Params \<Rightarrow> Quote list \<Rightarrow> Input" where
  "publish_input p now ch v params quotes =
    (let base = Baseline quotes (p_Baseline params) v
     in \<lparr>in_Channel = ch, HasV = True, in_V = v, in_Base = base_of base, HasBase = (base \<noteq> None), Factor = Fin 1, Cur = no_cur,
         in_P = params, Now = now,
         RentMaxDayMin = (case pl_Caps p ch of None \<Rightarrow> rentDayMin ch | Some c \<Rightarrow> cap_RentMaxDayMin c),
         RentMaxDayMax = (case pl_Caps p ch of None \<Rightarrow> rentDayMax ch | Some c \<Rightarrow> cap_RentMaxDayMax c),
         IgnoreNoiseFloor = False\<rparr>)"

definition no_anchor :: Decision where
  "no_anchor = \<lparr>OK = False, SkipReason = ''no_value_anchor'', Reasons = [], d_Rent = Fin 0, d_Long = Fin 0, d_MaxDays = 0, d_Deposit = Fin 0\<rparr>"

definition decideFor :: "'w Planner \<Rightarrow> instant \<Rightarrow> channel \<Rightarrow> RoutableItem \<Rightarrow> 'w job_state \<Rightarrow> (goerr + Decision) \<times> 'w job_state" where
  "decideFor p now ch it st =
    (if (case ri_V it of None \<Rightarrow> True | Some v \<Rightarrow> v \<le> Fin 0) then (Inr no_anchor, st)
     else case on_store (GetEffectiveStrategy (ri_HashName it)) st of
         (Inl e, st) \<Rightarrow> (Inl e, st)
       | (Inr es, st) \<Rightarrow>
          (case ParseParams (Some (es_GlobalParams es)) (es_Params es) of
             Inl e \<Rightarrow> (Inl e, st)
           | Inr params \<Rightarrow>
              (case on_store (RecentMergedQuotes (ri_HashName it) (now - quoteWindow) (wrap64 (TopN (p_Baseline params) * 3))) st of
                 (Inl e, st) \<Rightarrow> (Inl e, st)
               | (Inr rows, st) \<Rightarrow> (Inr (Decide (publish_input p now ch (or0 (ri_V it)) params (map quote_of rows))), st))))"

text \<open>The callback of the plan keeps the errors of the decisions.\<close>

definition decide_noting :: "'w Planner \<Rightarrow> instant \<Rightarrow> channel \<Rightarrow> RoutableItem \<Rightarrow> goerr list \<times> 'w job_state \<Rightarrow> Decision option \<times> goerr list \<times> 'w job_state" where
  "decide_noting p now ch it = (\<lambda>(es', st).
    case decideFor p now ch it st of
      (Inl e, st) \<Rightarrow> (None, es' @ [Wrap (''decide '' @ ch @ ''/'' @ ri_HashName it @ '': '') e], st) | (Inr dec, st) \<Rightarrow> (Some dec, es', st))"

section \<open>The plan\<close>

definition planner_now :: "Deps \<Rightarrow> 'w Planner \<Rightarrow> 'w job_state \<Rightarrow> instant \<times> 'w job_state" where
  "planner_now d p st = (if IsZero (pl_Now p) then time_Now d st else (pl_Now p, st))"

definition plan_health :: "'w Planner \<Rightarrow> 'w job_state \<Rightarrow> (string \<Rightarrow> string) \<times> 'w job_state" where
  "plan_health p st = (case pl_Health p of None \<Rightarrow> ((\<lambda>_. '''')(''uu'' := ''ok'', ''eco'' := ''ok''), st) | Some h \<Rightarrow> h st)"

definition plan_grace :: "'w Planner \<Rightarrow> duration" where
  "plan_grace p = (if pl_OrphanGrace p \<le> 0 then DefaultOrphanGrace else pl_OrphanGrace p)"

definition observed_plan :: "'w Planner \<Rightarrow> instant \<Rightarrow> Snapshot \<Rightarrow> 'w job_state \<Rightarrow> (goerr + Action list) \<times> 'w job_state" where
  "observed_plan p now snap st =
    (case planFrom (decide_noting p now) snap now (plan_grace p) ([], st) of (plan, obs, es', st) \<Rightarrow>
       (case errors_Join es' of
         Some e \<Rightarrow> (Inl e, st)
       | None \<Rightarrow> (case on_store (ObserveReconMismatches obs now) st of
           (Some e, st) \<Rightarrow> (Inl (Wrap ''persist recon observations: '' e), st) | (None, st) \<Rightarrow> (Inr plan, st))))"

definition Plan :: "Deps \<Rightarrow> 'w Planner \<Rightarrow> 'w job_state \<Rightarrow> (goerr + Action list) \<times> 'w job_state" where
  "Plan d p st =
    (case planner_now d p st of (now, st) \<Rightarrow>
       (case on_store RoutableInventory st of
         (Inl e, st) \<Rightarrow> (Inl e, st)
       | (Inr items, st) \<Rightarrow>
          (case on_store AllActiveListings st of
             (Inl e, st) \<Rightarrow> (Inl e, st)
           | (Inr ls, st) \<Rightarrow>
              (case plan_health p st of (health, st) \<Rightarrow> observed_plan p now \<lparr>Items = items, Listings = ls, Health = health\<rparr> st))))"

section \<open>Execution inside a job\<close>

text \<open>An adapter as the executor calls it: on the job state, and taking time.\<close>

definition timed :: "('w \<Rightarrow> 'a \<times> 'w) \<Rightarrow> 'w job_state \<Rightarrow> 'a \<times> 'w job_state" where
  "timed f st = on_world f (st\<lparr>js_reads := js_reads st + 1\<rparr>)"

definition in_job :: "'w Adapter \<Rightarrow> 'w job_state Adapter" where
  "in_job ad = \<lparr>Caps = Caps ad, Healthy = timed (Healthy ad), Inventory = timed (Inventory ad), LeaseShelf = timed (LeaseShelf ad),
     PublishLease = (\<lambda>qs. timed (PublishLease ad qs)), RepriceLease = (\<lambda>qs. timed (RepriceLease ad qs)), Delist = (\<lambda>gs. timed (Delist ad gs)),
     LeaseOrders = (\<lambda>since. timed (LeaseOrders ad since)), Wallet = timed (Wallet ad)\<rparr>"

definition job_executor :: "Deps \<Rightarrow> ('w \<Rightarrow> goerr option) \<Rightarrow> (channel \<times> 'w Adapter) list \<Rightarrow> bool \<Rightarrow> ('w job_state, session) Executor" where
  "job_executor d ctx ads dry =
    \<lparr>DryRun = dry, HasAudit = True, Adapters = (\<lambda>ch. map_option in_job (map_of ads ch)), Store = Some store_WriteBack,
     Penalize = Some (job_penalize d), ChannelReady = Some (\<lambda>ch st. channelReady ch (dd_Clock d (js_reads st)) st),
     ctx_Err = (\<lambda>st. ctx (js_world st)), Clock = (\<lambda>st. dd_Clock d (js_reads st))\<rparr>"

fun insert_audits :: "AuditEntry list \<Rightarrow> session \<Rightarrow> session" where
  "insert_audits [] s = s"
| "insert_audits (e # es) s = insert_audits es (snd (InsertAudit e s))"

definition execute_plan :: "Deps \<Rightarrow> ('w \<Rightarrow> goerr option) \<Rightarrow> (channel \<times> 'w Adapter) list \<Rightarrow> bool \<Rightarrow> Action list \<Rightarrow> 'w job_state \<Rightarrow> goerr option \<times> 'w job_state" where
  "execute_plan d ctx ads dry plan st =
    (case ExecuteWithError (job_executor d ctx ads dry) plan st (js_ses st) of
       ((ap, fl, err), r) \<Rightarrow> (err, (world r)\<lparr>js_ses := insert_audits (audited r) (store r)\<rparr>))"

section \<open>The reconcile job\<close>

definition globalRealEnabled :: "'w job_state \<Rightarrow> bool \<times> 'w job_state" where
  "globalRealEnabled st = (case on_store (GetEffectiveStrategy '''') st of (Inl e, st) \<Rightarrow> (False, st) | (Inr es, st) \<Rightarrow> (es_RealEnabled es, st))"

definition dry_gate :: "Deps \<Rightarrow> 'w job_state \<Rightarrow> bool \<times> 'w job_state" where
  "dry_gate d st = (if dd_DryRun d then (True, st) else case globalRealEnabled st of (enabled, st) \<Rightarrow> (\<not> enabled, st))"

fun keep_ready :: "Deps \<Rightarrow> Action list \<Rightarrow> 'w job_state \<Rightarrow> Action list \<times> 'w job_state" where
  "keep_ready d [] st = ([], st)"
| "keep_ready d (a # as) st =
    (case job_ChannelReady d (ac_Channel a) st of (ready, st) \<Rightarrow>
       case keep_ready d as st of (kept, st) \<Rightarrow> (if ready then a # kept else kept, st))"

text \<open>The actions that are recorded only, those that are carried out, and the errors of the lookups.\<close>

fun split_plan :: "Action list \<Rightarrow> 'w job_state \<Rightarrow> (Action list \<times> Action list \<times> goerr list) \<times> 'w job_state" where
  "split_plan [] st = (([], [], []), st)"
| "split_plan (a # as) st =
    (case on_store (GetEffectiveStrategy (ac_HashName a)) st of
       (Inl e, st) \<Rightarrow> (case split_plan as st of ((dry, live', es'), st) \<Rightarrow> ((dry, live', e # es'), st))
     | (Inr es, st) \<Rightarrow>
        (case split_plan as st of ((dry, live', es'), st) \<Rightarrow>
           if \<not> es_GlobalRealEnabled es \<or> \<not> es_RealEnabled es then ((a # dry, live', es'), st) else ((dry, a # live', es'), st)))"

definition opt_list :: "'a option \<Rightarrow> 'a list" where
  "opt_list x = (case x of None \<Rightarrow> [] | Some y \<Rightarrow> [y])"

definition execute_part :: "Deps \<Rightarrow> ('w \<Rightarrow> goerr option) \<Rightarrow> (channel \<times> 'w Adapter) list \<Rightarrow> bool \<Rightarrow> Action list \<Rightarrow> 'w job_state \<Rightarrow> goerr option \<times> 'w job_state" where
  "execute_part d ctx ads dry plan st = (if plan = [] then (None, st) else execute_plan d ctx ads dry plan st)"

definition job_planner :: "Deps \<Rightarrow> (channel \<times> 'w Adapter) list \<Rightarrow> 'w Planner" where
  "job_planner d ads = \<lparr>pl_Now = 0, pl_OrphanGrace = 0, pl_Caps = (\<lambda>ch. map_option Caps (map_of ads ch)), pl_Health = Some (planner_health d ads)\<rparr>"

definition reconcile :: "Deps \<Rightarrow> ('w \<Rightarrow> goerr option) \<Rightarrow> (channel \<times> 'w Adapter) list \<Rightarrow> 'w job_state \<Rightarrow> goerr option \<times> 'w job_state" where
  "reconcile d ctx ads st =
    (case dry_gate d st of (dry, st) \<Rightarrow>
       (case Plan d (job_planner d ads) st of
         (Inl e, st) \<Rightarrow> (Some e, st)
       | (Inr plan, st) \<Rightarrow>
          (case keep_ready d plan st of (kept, st) \<Rightarrow>
             if dry then execute_plan d ctx ads True kept st
             else case split_plan kept st of ((dryPlan, livePlan, es'), st) \<Rightarrow>
               case execute_part d ctx ads True dryPlan st of (e1, st) \<Rightarrow>
                 case execute_part d ctx ads False livePlan st of (e2, st) \<Rightarrow>
                   (errors_Join (es' @ opt_list e1 @ opt_list e2), st))))"

section \<open>The gates of the other jobs\<close>

definition skip_audit :: "string \<Rightarrow> instant \<Rightarrow> AuditEntry" where
  "skip_audit action now = \<lparr>ae_Time = now, ae_Actor = ''system'', ae_Action = action, ae_Channel = '''', ae_Target = '''',
     ae_Detail = Some [(''dry_run'', JBool True)]\<rparr>"

text \<open>A job that is only recorded when execution is off, with the job itself as an argument.\<close>

definition when_real :: "Deps \<Rightarrow> string \<Rightarrow> ('w job_state \<Rightarrow> goerr option \<times> 'w job_state) \<Rightarrow> 'w job_state \<Rightarrow> goerr option \<times> 'w job_state" where
  "when_real d action fn st =
    (case dry_gate d st of
       (True, st) \<Rightarrow> (case time_Now d st of (now, st) \<Rightarrow> (None, snd (on_store (InsertAudit (skip_audit action now)) st)))
     | (False, st) \<Rightarrow> fn st)"

definition rate_limited :: goerr where
  "rate_limited = \<lparr>Error = ''platform: rate limited'', wrapped = [ErrRateLimited]\<rparr>"

definition when_ready :: "Deps \<Rightarrow> channel \<Rightarrow> ('w job_state \<Rightarrow> goerr option \<times> 'w job_state) \<Rightarrow> 'w job_state \<Rightarrow> goerr option \<times> 'w job_state" where
  "when_ready d ch fn st = (case job_ChannelReady d ch st of (False, st) \<Rightarrow> (Some rate_limited, st) | (True, st) \<Rightarrow> fn st)"

definition noting :: "Deps \<Rightarrow> channel \<Rightarrow> ('w job_state \<Rightarrow> goerr option \<times> 'w job_state) \<Rightarrow> 'w job_state \<Rightarrow> goerr option \<times> 'w job_state" where
  "noting d ch fn st = (case fn st of (err, st) \<Rightarrow> (err, NoteChannelError d ch err st))"

definition uu_delivery :: "Deps \<Rightarrow> ('w job_state \<Rightarrow> goerr option \<times> 'w job_state) \<Rightarrow> 'w job_state \<Rightarrow> goerr option \<times> 'w job_state" where
  "uu_delivery d DeliverPendingRentals = when_real d ''uu_delivery.dry_run_skip'' (when_ready d ChannelUU (noting d ChannelUU DeliverPendingRentals))"

definition steam_offers :: "Deps \<Rightarrow> ('w job_state \<Rightarrow> goerr option \<times> 'w job_state) \<Rightarrow> 'w job_state \<Rightarrow> goerr option \<times> 'w job_state" where
  "steam_offers d AcceptZeroCostOffers = when_real d ''steam_offers.dry_run_skip'' AcceptZeroCostOffers"

definition eco_delivery ::
    "Deps \<Rightarrow> ('w job_state \<Rightarrow> goerr option \<times> 'w job_state) \<Rightarrow> ('w job_state \<Rightarrow> goerr option \<times> 'w job_state) \<Rightarrow> 'w job_state \<Rightarrow> goerr option \<times> 'w job_state" where
  "eco_delivery d RunECODelivery EcoOneClickResolve =
    when_real d ''eco_delivery.dry_run_skip'' (when_ready d ChannelECO (\<lambda>st.
      case RunECODelivery st of
        (Some e, st) \<Rightarrow> (Some e, st)
      | (None, st) \<Rightarrow> when_ready d ChannelECO (\<lambda>st.
          case EcoOneClickResolve st of
            (None, st) \<Rightarrow> (None, st)
          | (Some e, st) \<Rightarrow> if errors_Is (Some e) ErrUnsupported then (None, st) else (Some e, NoteChannelError d ChannelECO (Some e) st)) st))"

definition zero_cd :: "Deps \<Rightarrow> ('w job_state \<Rightarrow> goerr option \<times> 'w job_state) \<Rightarrow> 'w job_state \<Rightarrow> goerr option \<times> 'w job_state" where
  "zero_cd d ClearZeroCD = when_real d ''zero_cd.dry_run_skip'' (when_ready d ChannelUU (noting d ChannelUU ClearZeroCD))"

text \<open>Every job runs behind the process context and the advisory lock of the instance.\<close>

definition guardedJob :: "('w \<Rightarrow> goerr option) \<Rightarrow> ('w \<Rightarrow> goerr option \<times> 'w) \<Rightarrow> ('w job_state \<Rightarrow> goerr option \<times> 'w job_state) \<Rightarrow> 'w job_state \<Rightarrow> goerr option \<times> 'w job_state" where
  "guardedJob root_Err guard_Check fn st =
    (case root_Err (js_world st) of
       Some e \<Rightarrow> (Some e, st)
     | None \<Rightarrow> (case on_world guard_Check st of (Some e, st) \<Rightarrow> (Some e, st) | (None, st) \<Rightarrow> fn st))"

end
