(* ===== verification/ReconJobProps.thy ===== *)
theory ReconJobProps
  imports ReconJob ReconProps RepriceProps
begin

text \<open>
  The reconcile job touches a platform only for commodities whose effective strategy executes for real.
\<close>

section \<open>The executor and a property of the outside world\<close>

lemma exec_action_world:
  assumes pen: "\<And>p ch x w. Penalize e = Some p \<Longrightarrow> Q w \<Longrightarrow> Q (p ch x w)"
    and pub: "\<And>ad dec w. \<not> DryRun e \<Longrightarrow> Adapters e (ac_Channel a) = Some ad \<Longrightarrow> Kind a = ''publish'' \<Longrightarrow> ac_Decision a = Some dec \<Longrightarrow>
      Q w \<Longrightarrow> Q (snd (PublishLease ad [publish_request a dec] w))"
    and del: "\<And>ad w. \<not> DryRun e \<Longrightarrow> Adapters e (ac_Channel a) = Some ad \<Longrightarrow> Kind a = ''delist'' \<Longrightarrow> Q w \<Longrightarrow> Q (snd (Delist ad [ac_GoodsRef a] w))"
    and q: "Q (world st)" and run: "exec_action e a st = Inl st' \<or> exec_action e a st = Inr st'"
  shows "Q (world st')"
proof -
  have rec: "world (record_action e a b m st) = world st" "world (fail x st) = world st" "world (confirm wb st) = world st" for b m x wb st
    by (auto simp: record_action_def fail_def confirm_def Let_def split: prod.splits option.splits)
  have blk: "Q (world s) \<Longrightarrow> Q (world (risk_block e ch x s))" for ch x s
    using pen by (auto simp: risk_block_def penalize_def split: option.splits)
  have p: "Q (world (exec_publish e ad a st))" if "\<not> DryRun e" "Adapters e (ac_Channel a) = Some ad" "Kind a = ''publish''" for ad
  proof (cases "ac_Decision a")
    case (Some dec)
    obtain res err w where "PublishLease ad [publish_request a dec] (world st) = ((res, err), w)" by (metis surj_pair)
    moreover from this have "Q w" using pub[OF that Some q] by simp
    ultimately show ?thesis using Some q blk by (auto simp: exec_publish_def rec Let_def split: option.split)
  qed (simp add: exec_publish_def rec q)
  have l: "Q (world (exec_delist e ad a st))" if "\<not> DryRun e" "Adapters e (ac_Channel a) = Some ad" "Kind a = ''delist''" for ad
  proof -
    obtain err w where "Delist ad [ac_GoodsRef a] (world st) = (err, w)" by (metis surj_pair)
    moreover from this have "Q w" using del[OF that q] by simp
    ultimately show ?thesis using blk by (auto simp: exec_delist_def rec Let_def split: option.split)
  qed
  show ?thesis using run p l q by (auto simp: exec_action_def rec split: option.splits if_splits)
qed

lemma exec_actions_world:
  assumes pen: "\<And>p ch x w. Penalize e = Some p \<Longrightarrow> Q w \<Longrightarrow> Q (p ch x w)"
    and pub: "\<And>a ad dec w. a \<in> set plan \<Longrightarrow> \<not> DryRun e \<Longrightarrow> Adapters e (ac_Channel a) = Some ad \<Longrightarrow> Kind a = ''publish'' \<Longrightarrow>
      ac_Decision a = Some dec \<Longrightarrow> Q w \<Longrightarrow> Q (snd (PublishLease ad [publish_request a dec] w))"
    and del: "\<And>a ad w. a \<in> set plan \<Longrightarrow> \<not> DryRun e \<Longrightarrow> Adapters e (ac_Channel a) = Some ad \<Longrightarrow> Kind a = ''delist'' \<Longrightarrow>
      Q w \<Longrightarrow> Q (snd (Delist ad [ac_GoodsRef a] w))"
    and q: "Q (world st)"
  shows "Q (world (exec_actions e plan st))"
  using pub del q
proof (induction plan arbitrary: st)
  case (Cons a plan)
  obtain st' where st': "exec_action e a st = Inl st' \<or> exec_action e a st = Inr st'" by (cases "exec_action e a st") auto
  have "Q (world st')"
  proof (rule exec_action_world[where Q = Q and e = e and a = a and st = st])
    show "Q (p ch x w)" if "Penalize e = Some p" "Q w" for p ch x w by (rule pen[OF that])
  qed (use Cons.prems st' in auto)
  then show ?case using st' Cons.IH[of st'] Cons.prems by auto
qed simp

section \<open>What a plan is about\<close>

definition from_items :: "RoutableItem list \<Rightarrow> 's pub_state \<Rightarrow> bool" where
  "from_items its st \<longleftrightarrow> (\<forall>a \<in> set (fst (snd st)). \<exists>it \<in> set its. \<exists>dec. a = publish_action (ac_Channel a) it dec)"

lemma publish_on_items: "from_items its st \<Longrightarrow> it \<in> set its \<Longrightarrow> from_items its (publish_on decide ls w it st ch)"
proof -
  assume a: "from_items its st" "it \<in> set its"
  have "ac_Channel (publish_action ch it dec) = ch" for dec by (simp add: publish_action_def)
  then have "from_items its (p, plan @ [publish_action ch it dec], s)" if "from_items its (q, plan, r)" for p q plan dec and s r :: 'a
    using that a(2) by (auto simp: from_items_def)
  then show ?thesis using a(1) by (cases st) (auto simp: publish_on_def Let_def from_items_def split: prod.split option.split)
qed

lemma publish_pass_items: "from_items (Items snap) (publish_pass decide snap leased w s)"
  unfolding publish_pass_def
proof (rule foldl_inv[where P = "from_items (Items snap)"])
  fix st :: "'a pub_state" and it assume "it \<in> set (Items snap)" "from_items (Items snap) st"
  then show "from_items (Items snap) (publish_item decide (Listings snap) leased w st it)"
    by (simp add: publish_item_def publish_on_items foldl_inv[where P = "from_items (Items snap)"])
qed (simp add: from_items_def)

lemma publish_pass_state:
  assumes "\<And>ch it s. J s \<Longrightarrow> J (snd (decide ch it s))" "J s" "publish_pass decide snap leased w s = (planned, plan, s')"
  shows "J s'"
proof -
  let ?ok = "\<lambda>st :: 'a pub_state. J (snd (snd st))"
  have on: "?ok (publish_on decide ls w it st ch)" if "?ok st" for ls it st ch
    using that assms(1)[of "snd (snd st)" ch it] by (cases st) (auto simp: publish_on_def Let_def split: prod.split option.split)
  have "?ok (publish_item decide ls leased w st it)" if "?ok st" for ls st it
    using that by (auto simp: publish_item_def intro!: foldl_inv[where P = ?ok] on)
  then have "?ok (publish_pass decide snap leased w s)" unfolding publish_pass_def
    using assms(2) by (intro foldl_inv[where P = ?ok]) simp_all
  then show ?thesis using assms(3) by simp
qed

lemma planFrom_about:
  assumes "planFrom decide snap now grace s = (plan, obs, s')" "\<And>ch it s. J s \<Longrightarrow> J (snd (decide ch it s))" "J s"
  shows "J s'"
    "a \<in> set plan \<Longrightarrow> Kind a = ''publish'' \<Longrightarrow> \<exists>it \<in> set (Items snap). ac_AssetID a = ri_AssetID it \<and> ac_HashName a = ri_HashName it"
    "a \<in> set plan \<Longrightarrow> Kind a = ''delist'' \<Longrightarrow> \<exists>l \<in> set (Listings snap). ac_Channel a = al_Channel l \<and> ac_GoodsRef a = al_GoodsRef l \<and> ac_HashName a = al_HashName l"
proof -
  let ?u = "Health snap ''uu'' = ''ok''" and ?l = "leasedAssets (Listings snap)"
  let ?w = "want_items ?u ?l (Items snap)"
  obtain planned pubs s1 where p: "publish_pass decide snap ?l ?w s = (planned, pubs, s1)" by (metis surj_pair)
  obtain kept plan' obs' where d: "delist_pass ?w ?u (now - grace) (Listings snap) pubs = (kept, plan', obs')" by (metis surj_pair)
  have e: "plan = plan'" "s' = s1" using assms(1) p d by (auto simp: planFrom_def Let_def)
  show "J s'" using publish_pass_state[OF assms(2,3) p] e by simp
  have pubs: "\<exists>it \<in> set (Items snap). \<exists>dec. a = publish_action (ac_Channel a) it dec" if "a \<in> set pubs" for a
    using publish_pass_items[of snap decide ?l ?w s] that by (simp add: p from_items_def)
  have "0 \<le> wantCopies ?w h ch" for h ch using wantCopies_card[of ?u ?l "Items snap" h ch] by simp
  from delist_pass_inv[of ?w "now - grace" pubs "Listings snap" ?u, OF this]
  obtain ds where ds: "plan' = pubs @ ds" "\<forall>a \<in> set ds. del_ok ?w (now - grace) (Listings snap) a"
    unfolding d del_inv_def prod.case by blast
  have dels: "\<exists>l \<in> set (Listings snap). a = delist_action l (ac_Reason a)" if "a \<in> set ds" for a
    using ds(2) that by (auto simp: del_ok_def)
  have kp: "Kind a = ''publish''" if "a \<in> set pubs" for a using pubs[OF that] by (metis Action.select_convs(1) publish_action_def)
  have kd: "Kind a = ''delist''" if "a \<in> set ds" for a using dels[OF that] by (metis kind_delist_action(1))
  show "\<exists>it \<in> set (Items snap). ac_AssetID a = ri_AssetID it \<and> ac_HashName a = ri_HashName it" if "a \<in> set plan" "Kind a = ''publish''"
  proof -
    have "a \<in> set pubs" using that kd e ds by fastforce
    from pubs[OF this] show ?thesis by (metis Action.select_convs(3,6) publish_action_def)
  qed
  show "\<exists>l \<in> set (Listings snap). ac_Channel a = al_Channel l \<and> ac_GoodsRef a = al_GoodsRef l \<and> ac_HashName a = al_HashName l"
    if "a \<in> set plan" "Kind a = ''delist''"
  proof -
    have "a \<in> set ds" using that kp e ds by fastforce
    from dels[OF this] show ?thesis by (metis Action.select_convs(2,4,6) delist_action_def)
  qed
qed

section \<open>Planning leaves the strategies alone and only probes the platforms\<close>

text \<open>\<open>quiet_step P st st'\<close>: the strategies are the same and a property of the outside world is kept.\<close>

definition quiet_step :: "('w \<Rightarrow> bool) \<Rightarrow> 'w job_state \<Rightarrow> 'w job_state \<Rightarrow> bool" where
  "quiet_step P st st' \<longleftrightarrow> strategies (job_db st') = strategies (job_db st) \<and> (P (js_world st) \<longrightarrow> P (js_world st'))"

lemma quiet_refl: "js_world st' = js_world st \<Longrightarrow> job_db st' = job_db st \<Longrightarrow> quiet_step P st st'"
  by (simp add: quiet_step_def)

lemma quiet_trans: "quiet_step P st st1 \<Longrightarrow> quiet_step P st1 st2 \<Longrightarrow> quiet_step P st st2"
  by (simp add: quiet_step_def)

lemma note_frame: "js_ses (NoteChannelError d ch e st) = js_ses st" "js_world (NoteChannelError d ch e st) = js_world st"
  by (simp_all add: NoteChannelError_def penalize_frame split: option.split)

lemma decideFor_frame: "decideFor p now ch it st = (r, st') \<Longrightarrow> job_db st' = job_db st \<and> js_world st' = js_world st"
  by (auto simp: decideFor_def on_store_def RecentMergedQuotes_def GetEffectiveStrategy_def dest!: Query_dbD split: if_splits prod.splits sum.splits option.splits)

lemma probe_quiet:
  assumes "\<And>ch ad w. (ch, ad) \<in> set ads \<Longrightarrow> P w \<Longrightarrow> P (snd (Healthy ad w))" "probe_channels d ads health st = (h, st')"
  shows "job_db st' = job_db st \<and> (P (js_world st) \<longrightarrow> P (js_world st'))"
  using assms
proof (induction ads arbitrary: health st)
  case (Cons x ads)
  obtain ch ad where x: "x = (ch, ad)" by (cases x)
  obtain b st1 where b: "job_ChannelReady d ch st = (b, st1)" by (metis surj_pair)
  obtain err st2 where h: "on_world (Healthy ad) st1 = (err, st2)" by (metis surj_pair)
  have P: "\<And>ch ad w. (ch, ad) \<in> set ads \<Longrightarrow> P w \<Longrightarrow> P (snd (Healthy ad w))" using Cons.prems(1) by (metis list.set_intros(2))
  have w2: "job_db st2 = job_db st1" "P (js_world st1) \<longrightarrow> P (js_world st2)"
    using h Cons.prems(1)[of ch ad "js_world st1"] x by (auto simp: on_world_def split: prod.splits)
  have step: "?case" if "probe_channels d ads health' st3 = (h, st')" "job_db st3 = job_db st \<and> (P (js_world st) \<longrightarrow> P (js_world st3))" for health' st3
  proof -
    have "job_db st' = job_db st3 \<and> (P (js_world st3) \<longrightarrow> P (js_world st'))" by (rule Cons.IH[OF _ that(1)]) (use P in blast)
    then show ?thesis using that(2) by simp
  qed
  show ?case
  proof (cases b)
    case True
    have "probe_channels d ads (health(ch := case err of None \<Rightarrow> ''ok'' | Some e \<Rightarrow> Error e)) (NoteChannelError d ch err st2) = (h, st')"
      using Cons.prems(2) b h True by (simp add: x)
    then show ?thesis by (rule step) (use w2 ready_frame[OF b] in \<open>auto simp: note_frame\<close>)
  next
    case False
    then show ?thesis using Cons.prems(2) b ready_frame[OF b] by (intro step) (auto simp: x)
  qed
qed simp

lemma decide_noting_frame: "job_db (snd (snd (decide_noting p now ch it s))) = job_db (snd s) \<and> js_world (snd (snd (decide_noting p now ch it s))) = js_world (snd s)"
  by (cases s) (auto simp: decide_noting_def dest: decideFor_frame split: prod.split sum.split)

lemma observed_plan_about:
  assumes "observed_plan p now snap st = (r, st')"
  shows "quiet_step P st st'"
    "r = Inr plan \<Longrightarrow> a \<in> set plan \<Longrightarrow> Kind a = ''publish'' \<Longrightarrow> \<exists>it \<in> set (Items snap). ac_AssetID a = ri_AssetID it \<and> ac_HashName a = ri_HashName it"
    "r = Inr plan \<Longrightarrow> a \<in> set plan \<Longrightarrow> Kind a = ''delist'' \<Longrightarrow>
      \<exists>l \<in> set (Listings snap). ac_Channel a = al_Channel l \<and> ac_GoodsRef a = al_GoodsRef l \<and> ac_HashName a = al_HashName l"
proof -
  let ?J = "\<lambda>s. job_db (snd s) = job_db st \<and> js_world (snd s) = js_world st"
  obtain plan' obs es st1 where f: "planFrom (decide_noting p now) snap now (plan_grace p) ([], st) = (plan', obs, (es, st1))" by (metis surj_pair)
  have "?J (es, st1)" by (rule planFrom_about(1)[OF f]) (simp_all add: decide_noting_frame)
  then have J: "job_db st1 = job_db st" "js_world st1 = js_world st" by simp_all
  note ab = planFrom_about(2,3)[OF f, where J = "\<lambda>_. True", OF TrueI TrueI]
  have o: "quiet_step P st1 st2" if "on_store (ObserveReconMismatches obs now) st1 = (x, st2)" for x st2
    using that by (auto simp: quiet_step_def on_store_def ObserveReconMismatches_def Exec_def sql_observe_def split: option.splits)
  have q: "quiet_step P st st1" using J by (rule quiet_refl[rotated])
  have "quiet_step P st st' \<and> (r = Inr plan \<longrightarrow> plan = plan')"
  proof (cases "errors_Join es")
    case None
    obtain x st2 where x: "on_store (ObserveReconMismatches obs now) st1 = (x, st2)" by (metis surj_pair)
    from quiet_trans[OF q o[OF x]] show ?thesis using assms None x by (cases x) (auto simp: observed_plan_def f)
  next
    case (Some e)
    then show ?thesis using assms q by (auto simp: observed_plan_def f)
  qed
  then show "quiet_step P st st'"
    "r = Inr plan \<Longrightarrow> a \<in> set plan \<Longrightarrow> Kind a = ''publish'' \<Longrightarrow> \<exists>it \<in> set (Items snap). ac_AssetID a = ri_AssetID it \<and> ac_HashName a = ri_HashName it"
    "r = Inr plan \<Longrightarrow> a \<in> set plan \<Longrightarrow> Kind a = ''delist'' \<Longrightarrow>
      \<exists>l \<in> set (Listings snap). ac_Channel a = al_Channel l \<and> ac_GoodsRef a = al_GoodsRef l \<and> ac_HashName a = al_HashName l"
    using ab by blast+
qed

lemma read_frame: "on_store RoutableInventory st = (r, st') \<Longrightarrow> job_db st' = job_db st \<and> js_world st' = js_world st"
  "on_store AllActiveListings st = (q, st') \<Longrightarrow> job_db st' = job_db st \<and> js_world st' = js_world st"
  by (auto simp: on_store_def RoutableInventory_def AllActiveListings_def dest!: Query_dbD split: prod.splits sum.splits)

lemma read_value: "on_store RoutableInventory st = (Inr items, st') \<Longrightarrow> items = sql_routable (job_db st)"
  "on_store AllActiveListings st = (Inr ls, st') \<Longrightarrow> ls = sql_active (job_db st)"
  by (auto simp: on_store_def RoutableInventory_def AllActiveListings_def dest!: Query_InrD split: prod.splits sum.splits)

lemma Plan_about:
  assumes healthy: "\<And>ch ad w. (ch, ad) \<in> set ads \<Longrightarrow> P w \<Longrightarrow> P (snd (Healthy ad w))" and run: "Plan d (job_planner d ads) st = (r, st')"
  shows "quiet_step P st st'"
    "r = Inr plan \<Longrightarrow> a \<in> set plan \<Longrightarrow> Kind a = ''publish'' \<Longrightarrow>
      \<exists>it \<in> set (sql_routable (job_db st)). ac_AssetID a = ri_AssetID it \<and> ac_HashName a = ri_HashName it"
    "r = Inr plan \<Longrightarrow> a \<in> set plan \<Longrightarrow> Kind a = ''delist'' \<Longrightarrow>
      \<exists>l \<in> set (sql_active (job_db st)). ac_Channel a = al_Channel l \<and> ac_GoodsRef a = al_GoodsRef l \<and> ac_HashName a = al_HashName l"
proof -
  let ?p = "job_planner d ads"
  let ?goal = "quiet_step P st st' \<and> (\<forall>plan a. r = Inr plan \<longrightarrow> a \<in> set plan \<longrightarrow>
      (Kind a = ''publish'' \<longrightarrow> (\<exists>it \<in> set (sql_routable (job_db st)). ac_AssetID a = ri_AssetID it \<and> ac_HashName a = ri_HashName it))
    \<and> (Kind a = ''delist'' \<longrightarrow>
        (\<exists>l \<in> set (sql_active (job_db st)). ac_Channel a = al_Channel l \<and> ac_GoodsRef a = al_GoodsRef l \<and> ac_HashName a = al_HashName l)))"
  obtain now st1 where n: "planner_now d ?p st = (now, st1)" by (metis surj_pair)
  have f1: "js_ses st1 = js_ses st" "js_world st1 = js_world st"
    using n by (auto simp: planner_now_def dest: time_Now_frame split: if_splits)
  obtain items st2 where i: "on_store RoutableInventory st1 = (items, st2)" by (metis surj_pair)
  note f2 = read_frame(1)[OF i]
  have ?goal
  proof (cases items)
    case (Inl e)
    then show ?thesis using run f1 f2 by (auto simp: Plan_def n i intro: quiet_refl)
  next
    case (Inr its)
    have its: "its = sql_routable (job_db st)" using read_value(1)[OF i[unfolded Inr]] f1 by simp
    obtain lst st3 where l: "on_store AllActiveListings st2 = (lst, st3)" by (metis surj_pair)
    note f3 = read_frame(2)[OF l]
    show ?thesis
    proof (cases lst)
      case (Inl e)
      then show ?thesis using run f1 f2 f3 by (auto simp: Plan_def n i Inr l intro: quiet_refl)
    next
      case (Inr ls)
      have ls: "ls = sql_active (job_db st)" using read_value(2)[OF l[unfolded Inr]] f1 f2 by simp
      obtain h st4 where h: "plan_health ?p st3 = (h, st4)" by (metis surj_pair)
      have "probe_channels d ads not_configured st3 = (h, st4)" using h by (simp add: plan_health_def job_planner_def planner_health_def)
      from probe_quiet[where P = P, OF _ this] healthy have "job_db st4 = job_db st3" "P (js_world st3) \<longrightarrow> P (js_world st4)" by blast+
      then have q4: "quiet_step P st st4" using f1 f2 f3 by (simp add: quiet_step_def)
      have o: "observed_plan ?p now \<lparr>Items = its, Listings = ls, Health = h\<rparr> st4 = (r, st')"
        using run by (simp add: Plan_def n i l h \<open>items = Inr its\<close> Inr)
      show ?thesis using observed_plan_about[OF o] quiet_trans[OF q4 observed_plan_about(1)[OF o]] its ls by auto
    qed
  qed
  then show "quiet_step P st st'"
    "r = Inr plan \<Longrightarrow> a \<in> set plan \<Longrightarrow> Kind a = ''publish'' \<Longrightarrow>
      \<exists>it \<in> set (sql_routable (job_db st)). ac_AssetID a = ri_AssetID it \<and> ac_HashName a = ri_HashName it"
    "r = Inr plan \<Longrightarrow> a \<in> set plan \<Longrightarrow> Kind a = ''delist'' \<Longrightarrow>
      \<exists>l \<in> set (sql_active (job_db st)). ac_Channel a = al_Channel l \<and> ac_GoodsRef a = al_GoodsRef l \<and> ac_HashName a = al_HashName l"
    by blast+
qed

section \<open>Executing the plan\<close>

lemma keep_ready_about: "keep_ready d plan st = (kept, st') \<Longrightarrow> set kept \<subseteq> set plan \<and> job_db st' = job_db st \<and> js_world st' = js_world st"
proof (induction plan arbitrary: st st' kept)
  case (Cons a plan)
  obtain b st1 where b: "job_ChannelReady d (ac_Channel a) st = (b, st1)" by (metis surj_pair)
  obtain k st2 where k: "keep_ready d plan st1 = (k, st2)" by (metis surj_pair)
  show ?case using Cons.prems Cons.IH[OF k] ready_frame[OF b] by (auto simp: b k split: if_splits)
qed simp

lemma sql_effective_cong: "strategies t = strategies t' \<Longrightarrow> sql_effective h t = sql_effective h t'"
  by (simp add: sql_effective_def cong: list.case_cong)

definition may_act :: "tables \<Rightarrow> string \<Rightarrow> bool" where
  "may_act t h \<longleftrightarrow> (\<exists>es. sql_effective h t = Inr es \<and> es_GlobalRealEnabled es \<and> es_RealEnabled es)"

lemma strategy_value: "on_store (GetEffectiveStrategy h) st = (Inr es, st') \<Longrightarrow> sql_effective h (job_db st) = Inr es"
  by (auto simp: on_store_def GetEffectiveStrategy_def QueryE_def split: prod.splits sum.splits option.splits)

lemma split_plan_about:
  "split_plan plan st = ((dry, lv, xs), st') \<Longrightarrow>
    job_db st' = job_db st \<and> js_world st' = js_world st \<and> (\<forall>a \<in> set lv. a \<in> set plan \<and> may_act (job_db st) (ac_HashName a))"
proof (induction plan arbitrary: st st' dry lv xs)
  case (Cons a plan)
  obtain r st1 where g: "on_store (GetEffectiveStrategy (ac_HashName a)) st = (r, st1)" by (metis surj_pair)
  obtain dry1 lv1 xs1 st2 where s: "split_plan plan st1 = ((dry1, lv1, xs1), st2)" by (metis surj_pair)
  note f = strategy_frame[OF g]
  show ?case
  proof (cases r)
    case (Inl e)
    then show ?thesis using Cons.prems Cons.IH[OF s] f by (auto simp: g s)
  next
    case (Inr es)
    have "es_GlobalRealEnabled es \<Longrightarrow> es_RealEnabled es \<Longrightarrow> may_act (job_db st) (ac_HashName a)"
      using strategy_value[OF g[unfolded Inr]] by (auto simp: may_act_def)
    then show ?thesis using Cons.prems Cons.IH[OF s] f Inr by (auto simp: g s split: if_splits)
  qed
qed simp

definition may_publish :: "tables \<Rightarrow> PublishLeaseRequest \<Rightarrow> bool" where
  "may_publish t q \<longleftrightarrow> (\<exists>it \<in> set (sql_routable t). pq_AssetRef q = ri_AssetID it \<and> may_act t (ri_HashName it))"

definition may_delist :: "tables \<Rightarrow> channel \<Rightarrow> string \<Rightarrow> bool" where
  "may_delist t ch ref \<longleftrightarrow> (\<exists>l \<in> set (sql_active t). al_Channel l = ch \<and> al_GoodsRef l = ref \<and> may_act t (al_HashName l))"

definition executes_for_real :: "Deps \<Rightarrow> tables \<Rightarrow> bool" where
  "executes_for_real d t \<longleftrightarrow> \<not> dd_DryRun d \<and> (\<exists>es. sql_effective '''' t = Inr es \<and> es_RealEnabled es)"

lemma in_job_calls:
  "js_world (snd (PublishLease (in_job ad) qs st)) = snd (PublishLease ad qs (js_world st))"
  "js_world (snd (Delist (in_job ad) gs st)) = snd (Delist ad gs (js_world st))"
  by (simp_all add: in_job_def timed_def on_world_def split: prod.split)

lemma execute_plan_world:
  fixes P :: "'w \<Rightarrow> bool"
  assumes "\<And>a ad dec w. a \<in> set plan \<Longrightarrow> \<not> dry \<Longrightarrow> (ac_Channel a, ad) \<in> set ads \<Longrightarrow> Kind a = ''publish'' \<Longrightarrow> P w \<Longrightarrow>
      P (snd (PublishLease ad [publish_request a dec] w))"
    "\<And>a ad w. a \<in> set plan \<Longrightarrow> \<not> dry \<Longrightarrow> (ac_Channel a, ad) \<in> set ads \<Longrightarrow> Kind a = ''delist'' \<Longrightarrow> P w \<Longrightarrow> P (snd (Delist ad [ac_GoodsRef a] w))"
    "execute_plan d ctx ads dry plan st = (r, st')" "P (js_world st)"
  shows "P (js_world st')"
proof -
  let ?e = "job_executor d ctx ads dry" and ?Q = "\<lambda>w. P (js_world w)"
  have pen: "?Q w \<Longrightarrow> ?Q (p ch x w)" if "Penalize ?e = Some p" for p ch x w using that by (auto simp: job_executor_def penalize_frame)
  have ad: "\<exists>ad. (ch, ad) \<in> set ads \<and> ad' = in_job ad" if "Adapters ?e ch = Some ad'" for ch ad'
    using that by (auto simp: job_executor_def dest: map_of_SomeD)
  have "?Q (world (exec_actions ?e plan (start_run st (js_ses st))))"
  proof (rule exec_actions_world[where Q = ?Q and e = ?e])
    fix a ad' dec and w :: "'w job_state" assume a: "a \<in> set plan" "\<not> DryRun ?e" "Adapters ?e (ac_Channel a) = Some ad'" "Kind a = ''publish''" "?Q w"
    obtain ad where "(ac_Channel a, ad) \<in> set ads" "ad' = in_job ad" using ad[OF a(3)] by blast
    then show "?Q (snd (PublishLease ad' [publish_request a dec] w))"
      using assms(1)[of a ad "js_world w" dec] a(1,2,4,5) by (simp add: in_job_calls job_executor_def)
  next
    fix a ad' and w :: "'w job_state" assume a: "a \<in> set plan" "\<not> DryRun ?e" "Adapters ?e (ac_Channel a) = Some ad'" "Kind a = ''delist''" "?Q w"
    obtain ad where "(ac_Channel a, ad) \<in> set ads" "ad' = in_job ad" using ad[OF a(3)] by blast
    then show "?Q (snd (Delist ad' [ac_GoodsRef a] w))"
      using assms(2)[of a ad "js_world w"] a(1,2,4,5) by (simp add: in_job_calls job_executor_def)
  qed (use pen in \<open>auto simp: start_run_def assms(4)\<close>)
  then show ?thesis using assms(3) by (auto simp: execute_plan_def ExecuteWithError_def Let_def)
qed

lemma execute_part_world:
  assumes "\<And>a ad dec w. a \<in> set plan \<Longrightarrow> \<not> dry \<Longrightarrow> (ac_Channel a, ad) \<in> set ads \<Longrightarrow> Kind a = ''publish'' \<Longrightarrow> P w \<Longrightarrow>
      P (snd (PublishLease ad [publish_request a dec] w))"
    "\<And>a ad w. a \<in> set plan \<Longrightarrow> \<not> dry \<Longrightarrow> (ac_Channel a, ad) \<in> set ads \<Longrightarrow> Kind a = ''delist'' \<Longrightarrow> P w \<Longrightarrow> P (snd (Delist ad [ac_GoodsRef a] w))"
    "execute_part d ctx ads dry plan st = (r, st')" "P (js_world st)"
  shows "P (js_world st')"
  using assms execute_plan_world[of plan dry ads P d ctx st r st'] by (auto simp: execute_part_def split: if_splits)

lemma dry_gate_about:
  assumes "dry_gate d st = (dry, st')"
  shows "job_db st' = job_db st \<and> js_world st' = js_world st" "\<not> dry \<Longrightarrow> executes_for_real d (job_db st)"
proof -
  obtain r st1 where g: "on_store (GetEffectiveStrategy '''') st = (r, st1)" by (metis surj_pair)
  note f = strategy_frame[OF g]
  show "job_db st' = job_db st \<and> js_world st' = js_world st"
    using assms f by (auto simp: dry_gate_def globalRealEnabled_def g split: if_splits sum.splits)
  show "executes_for_real d (job_db st)" if "\<not> dry"
  proof (cases r)
    case (Inr es)
    then show ?thesis using assms that strategy_value[OF g[unfolded Inr]]
      by (auto simp: dry_gate_def globalRealEnabled_def executes_for_real_def g split: if_splits)
  qed (use assms that g in \<open>auto simp: dry_gate_def globalRealEnabled_def split: if_splits\<close>)
qed

text \<open>C20: Whatever the adapters do and whatever fails, the reconcile job calls a platform only to probe its health, to publish a
  routable copy or to delist a tracked listing, and the last two only when execution is on globally and the effective
  strategy of the copy's or listing's commodity executes for real: any property of the outside world kept by these calls
  is kept by the job.\<close>

theorem reconcile_touches_only_enabled:
  assumes healthy: "\<And>ch ad w. (ch, ad) \<in> set ads \<Longrightarrow> P w \<Longrightarrow> P (snd (Healthy ad w))"
    and publish: "\<And>ch ad q w. (ch, ad) \<in> set ads \<Longrightarrow> executes_for_real d (job_db st) \<Longrightarrow> may_publish (job_db st) q \<Longrightarrow> P w \<Longrightarrow>
      P (snd (PublishLease ad [q] w))"
    and delist: "\<And>ch ad ref w. (ch, ad) \<in> set ads \<Longrightarrow> executes_for_real d (job_db st) \<Longrightarrow> may_delist (job_db st) ch ref \<Longrightarrow> P w \<Longrightarrow>
      P (snd (Delist ad [ref] w))"
    and run: "reconcile d ctx ads st = (r, st')" and "P (js_world st)"
  shows "P (js_world st')"
proof -
  obtain dry st1 where g: "dry_gate d st = (dry, st1)" by (metis surj_pair)
  note g1 = dry_gate_about[OF g]
  obtain res st2 where p: "Plan d (job_planner d ads) st1 = (res, st2)" by (metis surj_pair)
  have ab: "quiet_step P st1 st2" by (rule Plan_about(1)[OF _ p]) (rule healthy)
  have w2: "P (js_world st2)" using ab g1(1) assms(5) by (simp add: quiet_step_def)
  show ?thesis
  proof (cases res)
    case (Inl e)
    then show ?thesis using run w2 by (simp add: reconcile_def g p)
  next
    case (Inr plan)
    have pubs: "\<exists>it \<in> set (sql_routable (job_db st)). ac_AssetID a = ri_AssetID it \<and> ac_HashName a = ri_HashName it"
      if "a \<in> set plan" "Kind a = ''publish''" for a
      using Plan_about(2)[where P = "\<lambda>_. True", OF _ p Inr that] g1(1) by simp
    have dels: "\<exists>l \<in> set (sql_active (job_db st)). ac_Channel a = al_Channel l \<and> ac_GoodsRef a = al_GoodsRef l \<and> ac_HashName a = al_HashName l"
      if "a \<in> set plan" "Kind a = ''delist''" for a
      using Plan_about(3)[where P = "\<lambda>_. True", OF _ p Inr that] g1(1) by simp
    obtain kept st3 where k: "keep_ready d plan st2 = (kept, st3)" by (metis surj_pair)
    have w3: "P (js_world st3)" and kept: "set kept \<subseteq> set plan" using keep_ready_about[OF k] w2 by simp_all
    show ?thesis
    proof (cases dry)
      case True
      then have x: "execute_plan d ctx ads True kept st3 = (r, st')" using run by (simp add: reconcile_def g p Inr k)
      show ?thesis by (rule execute_plan_world[where P = P, OF _ _ x w3]) blast+
    next
      case False
      obtain dryPlan livePlan xs st4 where s: "split_plan kept st3 = ((dryPlan, livePlan, xs), st4)" by (metis surj_pair)
      obtain e1 st5 where x1: "execute_part d ctx ads True dryPlan st4 = (e1, st5)" by (metis surj_pair)
      obtain e2 st6 where x2: "execute_part d ctx ads False livePlan st5 = (e2, st6)" by (metis surj_pair)
      have e: "st' = st6" using run False by (simp add: reconcile_def g p Inr k s x1 x2)
      have w4: "P (js_world st4)" using split_plan_about[OF s] w3 by simp
      have w5: "P (js_world st5)" by (rule execute_part_world[where P = P, OF _ _ x1 w4]) blast+
      have "strategies (job_db st3) = strategies (job_db st)"
        using ab g1(1) keep_ready_about[OF k] by (simp add: quiet_step_def)
      then have "may_act (job_db st3) h = may_act (job_db st) h" for h using sql_effective_cong[of "job_db st3" "job_db st" h] by (simp add: may_act_def)
      then have lv: "a \<in> set plan \<and> may_act (job_db st) (ac_HashName a)" if "a \<in> set livePlan" for a
        using split_plan_about[OF s] kept that by auto
      show ?thesis unfolding e
      proof (rule execute_part_world[where P = P, OF _ _ x2 w5])
        fix a ad dec w assume a: "a \<in> set livePlan" "(ac_Channel a, ad) \<in> set ads" "Kind a = ''publish''" "P w"
        have "may_publish (job_db st) (publish_request a dec)"
          using pubs[OF _ a(3)] lv[OF a(1)] by (auto simp: may_publish_def publish_request_def)
        then show "P (snd (PublishLease ad [publish_request a dec] w))" by (rule publish[OF a(2) g1(2)[OF False] _ a(4)])
      next
        fix a ad w assume a: "a \<in> set livePlan" "(ac_Channel a, ad) \<in> set ads" "Kind a = ''delist''" "P w"
        have "may_delist (job_db st) (ac_Channel a) (ac_GoodsRef a)"
          using dels[OF _ a(3)] lv[OF a(1)] by (fastforce simp: may_delist_def)
        then show "P (snd (Delist ad [ac_GoodsRef a] w))" by (rule delist[OF a(2) g1(2)[OF False] _ a(4)])
      qed
    qed
  qed
qed

text \<open>An adapter that logs what it publishes and delists.\<close>

definition logging_adapter :: "string list Adapter" where
  "logging_adapter = \<lparr>Caps = Caps counting_adapter, Healthy = (\<lambda>w. (None, w)), Inventory = (\<lambda>w. (Inr [], w)), LeaseShelf = (\<lambda>w. (Inr [], w)),
     PublishLease = (\<lambda>qs w. (([], None), w @ map pq_AssetRef qs)), RepriceLease = (\<lambda>_ w. (([], None), w)), Delist = (\<lambda>refs w. (None, w @ refs)),
     LeaseOrders = (\<lambda>_ w. (Inr [], w)), Wallet = (\<lambda>w. (Inr (Fin 0), w))\<rparr>"

definition logging_job :: "string list job_state" where
  "logging_job = \<lparr>js_ses = \<lparr>db = reprice_tables True, db_now = 0, faults = []\<rparr>, js_cooldowns = (\<lambda>_. None), js_reads = 0, js_world = []\<rparr>"

lemma logging_tables: "sql_routable (job_db logging_job) = []" "sql_active (job_db logging_job) = [active_listing shelf_row]"
  by (simp_all add: logging_job_def reprice_tables_def sql_routable_def sql_active_def is_active_def shelf_row_def)

theorem reconcile_touches_only_enabled_witness:
  "set (js_world (snd (reconcile plain_deps (\<lambda>_. None) [(''uu'', logging_adapter)] logging_job))) \<subseteq> {''g''}"
proof (rule reconcile_touches_only_enabled[where P = "\<lambda>w. set w \<subseteq> {''g''}" and ads = "[(''uu'', logging_adapter)]", OF _ _ _ surjective_pairing])
  show "set (snd (Delist ad [ref] w)) \<subseteq> {''g''}"
    if "(ch, ad) \<in> set [(''uu'', logging_adapter)]" "may_delist (job_db logging_job) ch ref" "set w \<subseteq> {''g''}" for ch ad ref w
    using that by (auto simp: may_delist_def logging_tables active_listing_def shelf_row_def logging_adapter_def)
  show "set (snd (PublishLease ad [q] w)) \<subseteq> {''g''}" if "may_publish (job_db logging_job) q" for ch ad q and w :: "string list"
    using that by (simp add: may_publish_def logging_tables)
qed (auto simp: logging_adapter_def logging_job_def)

end
