(* ===== verification/EcoSign.thy ===== *)
theory EcoSign
  imports JsonText "HOL-Library.Product_Lexorder" "HOL-Library.Multiset"
begin

text \<open>
  The signature of an ECO call (\<open>internal/platform/eco/sign.go\<close>): the canonical string of the parameters, and what it prints
  of JSON. A Go \<open>any\<close> is the JSON value it holds; a struct keeps its fields in order. The RSA step is a parameter of the client.
\<close>

section \<open>Numbers\<close>

text \<open>The shortest decimal that reads back as the float, closest to it among those: digits and exponent.\<close>

fun places :: "nat \<Rightarrow> rat \<Rightarrow> int" where
  "places 0 r = 0"
| "places (Suc n) r = (if 1 \<le> r then 0 else 1 + places n (r * 10))"

definition dec_exp :: "rat \<Rightarrow> int" where
  "dec_exp r = (if 1 \<le> r then int (length (dec_digits \<lfloor>r\<rfloor>)) else 1 - places 400 r)"

definition candidates :: "rat \<Rightarrow> int \<Rightarrow> int list" where
  "candidates r p = (let x = r * rat10 1 (- p); lo = \<lfloor>x\<rfloor> in if x - of_int lo \<le> 1 / 2 then [lo, lo + 1] else [lo + 1, lo])"

fun shortest_from :: "nat \<Rightarrow> rat \<Rightarrow> int \<Rightarrow> int \<times> int" where
  "shortest_from 0 r p = (\<lfloor>r * rat10 1 (- p)\<rfloor>, p)"
| "shortest_from (Suc n) r p =
    (case filter (\<lambda>d. rnd (rat10 d p) = Fin r) (candidates r p) of d # _ \<Rightarrow> (d, p) | [] \<Rightarrow> shortest_from n r (p - 1))"

definition shortest :: "rat \<Rightarrow> int \<times> int" where
  "shortest r = shortest_from 17 r (dec_exp r - 1)"

definition plain_decimal :: "int \<times> int \<Rightarrow> string" where
  "plain_decimal dp = (case dp of (d, p) \<Rightarrow>
     if 0 \<le> p then dec_digits d @ replicate (nat p) (CHR ''0'')
     else let ds = dec_digits d; k = nat (- p)
       in if k < length ds then take (length ds - k) ds @ ''.'' @ drop (length ds - k) ds else ''0.'' @ replicate (k - length ds) (CHR ''0'') @ ds)"

definition exp_decimal :: "int \<times> int \<Rightarrow> string" where
  "exp_decimal dp = (case dp of (d, p) \<Rightarrow>
     let ds = dec_digits d; x = p + int (length ds) - 1
     in take 1 ds @ (if length ds = 1 then '''' else ''.'' @ tl ds) @ (if x < 0 then ''e-'' @ dec_digits (- x) else ''e+'' @ dec_digits x))"

text \<open>\<open>strconv.FormatFloat(v, 'f', -1, 64)\<close>.\<close>

fun format_float :: "f64 \<Rightarrow> string" where
  "format_float NaN = ''NaN''"
| "format_float PInf = ''+Inf''"
| "format_float NInf = ''-Inf''"
| "format_float (Fin r) = (if r = 0 then ''0'' else (if r < 0 then ''-'' else '''') @ plain_decimal (shortest \<bar>r\<bar>))"

text \<open>A float as \<open>encoding/json\<close> prints it; it refuses the values that are not finite.\<close>

definition json_float :: "f64 \<Rightarrow> string option" where
  "json_float f = (case f of
      Fin r \<Rightarrow> Some (if r \<noteq> 0 \<and> (\<bar>r\<bar> < rat10 1 (- 6) \<or> rat10 1 21 \<le> \<bar>r\<bar>)
        then (if r < 0 then ''-'' else '''') @ exp_decimal (shortest \<bar>r\<bar>) else format_float f)
    | _ \<Rightarrow> None)"

section \<open>Compact JSON\<close>

text \<open>Without HTML escaping: only the characters a JSON string cannot hold are escaped.\<close>

definition esc_raw :: "char \<Rightarrow> string" where
  "esc_raw c = (if c = CHR ''<'' \<or> c = CHR ''>'' \<or> c = CHR ''&'' then [c] else esc c)"

definition quoted_raw :: "string \<Rightarrow> string" where
  "quoted_raw s = CHR 0x22 # concat (map esc_raw s) @ [CHR 0x22]"

fun join_with :: "string \<Rightarrow> string list \<Rightarrow> string" where
  "join_with sep [] = ''''"
| "join_with sep [x] = x"
| "join_with sep (x # y # ys) = x @ sep @ join_with sep (y # ys)"

fun json_text :: "(string \<Rightarrow> string) \<Rightarrow> json \<Rightarrow> string option" and json_texts :: "(string \<Rightarrow> string) \<Rightarrow> json list \<Rightarrow> string list option"
    and json_members :: "(string \<Rightarrow> string) \<Rightarrow> (string \<times> json) list \<Rightarrow> string list option" where
  "json_text q JNull = Some ''null''"
| "json_text q (JBool b) = Some (if b then ''true'' else ''false'')"
| "json_text q (JInt n) = Some (dec_int n)"
| "json_text q (JNum f) = json_float f"
| "json_text q (JStr s) = Some (q s)"
| "json_text q (JArr js) = map_option (\<lambda>ts. ''['' @ join_with '','' ts @ '']'') (json_texts q js)"
| "json_text q (JObj kvs) = map_option (\<lambda>ts. ''{'' @ join_with '','' ts @ ''}'') (json_members q kvs)"
| "json_texts q [] = Some []"
| "json_texts q (j # js) = (case json_text q j of None \<Rightarrow> None | Some t \<Rightarrow> map_option ((#) t) (json_texts q js))"
| "json_members q [] = Some []"
| "json_members q ((k, j) # kvs) =
    (case json_text q j of None \<Rightarrow> None | Some t \<Rightarrow> map_option ((#) (q k @ '':'' @ t)) (json_members q kvs))"

definition CompactJSON :: "json \<Rightarrow> string" where
  "CompactJSON j = (case json_text quoted_raw j of None \<Rightarrow> '''' | Some t \<Rightarrow> t)"

text \<open>\<open>json.Marshal\<close>, with HTML escaping; a Go map is printed with its keys sorted.\<close>

definition Marshal :: "json \<Rightarrow> string option" where
  "Marshal = json_text quoted"

definition go_map :: "(string \<times> json) list \<Rightarrow> json" where
  "go_map kvs = JObj (sort_key fst kvs)"

section \<open>The canonical string\<close>

definition canonicalValue :: "json \<Rightarrow> string" where
  "canonicalValue j = (case j of JStr s \<Rightarrow> s | JBool b \<Rightarrow> (if b then ''true'' else ''false'') | JInt n \<Rightarrow> dec_int n | JNum f \<Rightarrow> format_float f
     | _ \<Rightarrow> CompactJSON j)"

definition signed_param :: "json \<Rightarrow> bool" where
  "signed_param j \<longleftrightarrow> j \<noteq> JNull \<and> j \<noteq> JStr ''''"

definition by_name :: "string \<Rightarrow> string \<times> string" where
  "by_name k = (map lower k, k)"

text \<open>\<open>params\<close> lists a Go map in any order; its keys are distinct.\<close>

definition SignString :: "(string \<times> json) list \<Rightarrow> string" where
  "SignString params =
    (let ps = filter (\<lambda>(k, v). signed_param v) params
     in join_with ''&'' (map (\<lambda>k. k @ ''='' @ canonicalValue (the (map_of ps k))) (sort_key by_name (map fst ps))))"

text \<open>\<open>marshalBody\<close>: strings with HTML escaping, everything else compact; the members in the order the map is walked.\<close>

definition body_member :: "string \<times> json \<Rightarrow> string" where
  "body_member kv = (case kv of (k, v) \<Rightarrow> quoted k @ '':'' @ (case v of JStr s \<Rightarrow> quoted s | _ \<Rightarrow> CompactJSON v))"

definition marshalBody :: "(string \<times> json) list \<Rightarrow> string" where
  "marshalBody params = ''{'' @ join_with '','' (map body_member params) @ ''}''"

section \<open>The signature does not depend on the order of the map\<close>

lemma by_name_inj: "inj by_name"
  by (rule injI) (simp add: by_name_def)

lemma map_of_mset: "distinct (map fst ps) \<Longrightarrow> mset ps = mset qs \<Longrightarrow> map_of ps = map_of qs"
proof -
  assume d: "distinct (map fst ps)" and m: "mset ps = mset qs"
  have "mset (map fst ps) = mset (map fst qs)" using m by (metis mset_map)
  then have "distinct (map fst qs)" using d by (metis mset_eq_imp_distinct_iff)
  then show ?thesis using d m by (metis map_of_inject_set mset_eq_setD)
qed

text \<open>Two requests with the same parameters have the same string to sign, in whatever order Go walks the maps.\<close>

theorem sign_string_order_free:
  assumes "distinct (map fst ps)" "mset ps = mset qs"
  shows "SignString ps = SignString qs"
proof -
  let ?f = "filter (\<lambda>(k, v). signed_param v)"
  have m: "mset (?f ps) = mset (?f qs)" using assms(2) by (simp add: mset_filter)
  have d: "distinct (map fst (?f ps))" using assms(1) by (simp add: distinct_map_filter)
  have "sort_key by_name (map fst (?f ps)) = sort_key by_name (map fst (?f qs))"
  proof (rule sort_key_inj_key_eq)
    show "mset (map fst (?f ps)) = mset (sort_key by_name (map fst (?f qs)))" using m by (metis mset_map mset_sort)
  qed (auto intro: inj_on_subset[OF by_name_inj])
  then show ?thesis unfolding SignString_def Let_def using map_of_mset[OF d m] by simp
qed

theorem sign_string_order_free_witness:
  "SignString [(''PartnerId'', JStr ''p''), (''OrderNum'', JStr ''7''), (''GameId'', JStr ''730'')]
    = SignString [(''GameId'', JStr ''730''), (''OrderNum'', JStr ''7''), (''PartnerId'', JStr ''p'')]"
  by (rule sign_string_order_free) simp_all

end
