(* ===== verification/EcoClient.thy ===== *)
theory EcoClient
  imports EcoSign Platform Civil
begin

text \<open>
  The ECO client: one signed call and its retries (\<open>platform/eco/client.go\<close>), and the endpoints (\<open>endpoints.go\<close>,
  \<open>delivery.go\<close>, \<open>seller_orders.go\<close>). The limiter, the clock, the RSA signature, the HTTP transport, the jitter and the
  wait between attempts are parameters: operations of the client record on the outside world. A \<open>json.RawMessage\<close> is the
  value it holds.
\<close>

section \<open>The client\<close>

record 'w eco_client =
  ec_PartnerID :: string
  ec_Limiter :: "'w \<Rightarrow> goerr option \<times> 'w"
  ec_Now :: "'w \<Rightarrow> instant \<times> 'w"
  ec_Sign :: "string \<Rightarrow> goerr + string"
  ec_Do :: "string \<Rightarrow> string \<Rightarrow> 'w \<Rightarrow> (goerr + int \<times> string) \<times> 'w"
  ec_Jitter :: "duration \<Rightarrow> 'w \<Rightarrow> duration \<times> 'w"
  ec_Sleep :: "duration \<Rightarrow> 'w \<Rightarrow> goerr option \<times> 'w"

definition eco_NewClient :: "(string \<Rightarrow> goerr option) \<Rightarrow> string \<Rightarrow> string \<Rightarrow> 'c \<Rightarrow> goerr + 'c" where
  "eco_NewClient ParsePrivateKey partnerID pem c =
    (if partnerID = '''' then Inl (Errorf ''eco: partner id required'')
     else case ParsePrivateKey pem of Some e \<Rightarrow> Inl e | None \<Rightarrow> Inr c)"

section \<open>The envelope\<close>

record envelope =
  ev_Code :: int
  ev_Msg :: string
  ev_Data :: "json option"

definition Atoi :: "string \<Rightarrow> int option" where
  "Atoi s =
    (let signed = (s \<noteq> [] \<and> (hd s = CHR ''-'' \<or> hd s = CHR ''+'')); ds = (if signed then tl s else s);
         n = (if s \<noteq> [] \<and> hd s = CHR ''-'' then - digits_value ds else digits_value ds)
     in if ds = [] \<or> \<not> list_all is_digit ds \<or> n < - (2 ^ 63) \<or> 2 ^ 63 \<le> n then None else Some n)"

definition result_code :: "json \<Rightarrow> int option" where
  "result_code v = (case v of JStr s \<Rightarrow> Atoi s | JNull \<Rightarrow> Atoi '''' | _ \<Rightarrow> to_int v 0)"

text \<open>The last of several members with one name counts.\<close>

definition member :: "(string \<times> json) list \<Rightarrow> string \<Rightarrow> json option" where
  "member kvs k = map_of (rev kvs) k"

definition decodeEnvelope :: "string \<Rightarrow> goerr + envelope" where
  "decodeEnvelope body =
    (case json_Unmarshal body of
       Some j \<Rightarrow>
         (let m = (case j of JObj kvs \<Rightarrow> Some kvs | JNull \<Rightarrow> Some [] | _ \<Rightarrow> None)
          in case m of None \<Rightarrow> Inl (Errorf ''eco: decode envelope: not an object'')
             | Some kvs \<Rightarrow>
                (case member kvs ''ResultCode'' of
                   None \<Rightarrow> Inl (Errorf ''eco: decode envelope: missing ResultCode'')
                 | Some v \<Rightarrow>
                    (case result_code v of
                       None \<Rightarrow> Inl (Errorf ''eco: decode envelope: invalid ResultCode'')
                     | Some n \<Rightarrow> Inr \<lparr>ev_Code = n, ev_Msg = (case member kvs ''ResultMsg'' of Some (JStr s) \<Rightarrow> s | _ \<Rightarrow> ''''),
                                     ev_Data = member kvs ''ResultData''\<rparr>)))
     | None \<Rightarrow> Inl (Errorf ''eco: decode envelope: invalid JSON''))"

definition code_text :: "string \<Rightarrow> envelope \<Rightarrow> string" where
  "code_text path e = path @ '' code='' @ dec_int (ev_Code e) @ '' msg='' @ ev_Msg e"

definition checkEnv :: "envelope \<Rightarrow> string \<Rightarrow> goerr option" where
  "checkEnv e path =
    (if ev_Code e = 0 then None
     else if ev_Code e = 6001 then Some \<lparr>Error = ''platform: rate limited at '' @ path, wrapped = [ErrRateLimited]\<rparr>
     else if ev_Code e \<in> {4004, 5005, 5003} then Some \<lparr>Error = ''platform: auth expired at '' @ code_text path e, wrapped = [ErrAuthExpired]\<rparr>
     else if ev_Code e = 7002 then Some \<lparr>Error = ''platform: rate limited at '' @ code_text path e, wrapped = [ErrRateLimited]\<rparr>
     else Some (Errorf (''eco: '' @ code_text path e)))"

section \<open>One call\<close>

definition signed_params :: "'w eco_client \<Rightarrow> (string \<times> json) list \<Rightarrow> instant \<Rightarrow> goerr + (string \<times> json) list" where
  "signed_params c biz now =
    (let params = AList.update ''Timestamp'' (JStr (dec_int (now div Second - 62135596800))) (AList.update ''PartnerId'' (JStr (ec_PartnerID c)) biz)
     in case ec_Sign c (SignString params) of Inl e \<Rightarrow> Inl e | Inr sig \<Rightarrow> Inr (AList.update ''Sign'' (JStr sig) params))"

definition answer :: "string \<Rightarrow> int \<times> string \<Rightarrow> goerr + json option" where
  "answer path resp = (case resp of (code, body) \<Rightarrow>
     if code \<noteq> 200 then Inl (Errorf (''eco: '' @ path @ '' http status '' @ dec_int code))
     else case decodeEnvelope body of
         Inl e \<Rightarrow> Inl e
       | Inr env \<Rightarrow> (case checkEnv env path of Some e \<Rightarrow> Inl e | None \<Rightarrow> Inr (ev_Data env)))"

definition postOnce :: "'w eco_client \<Rightarrow> string \<Rightarrow> (string \<times> json) list \<Rightarrow> 'w \<Rightarrow> (goerr + json option) \<times> 'w" where
  "postOnce c path biz w =
    (case ec_Limiter c w of
       (Some e, w) \<Rightarrow> (Inl (Wrap ''eco: limiter: '' e), w)
     | (None, w) \<Rightarrow>
        (case ec_Now c w of (now, w) \<Rightarrow>
          (case signed_params c biz now of
             Inl e \<Rightarrow> (Inl e, w)
           | Inr params \<Rightarrow>
              (case ec_Do c path (marshalBody params) w of
                 (Inl e, w) \<Rightarrow> (Inl (Wrap (''eco: '' @ path @ '': '') e), w)
               | (Inr resp, w) \<Rightarrow> (answer path resp, w)))))"

definition rateRetryBase :: duration where
  "rateRetryBase = 500 * 1000000"

text \<open>\<open>left\<close> attempts may follow this one; \<open>k\<close> have gone before.\<close>

fun post_attempt :: "'w eco_client \<Rightarrow> string \<Rightarrow> (string \<times> json) list \<Rightarrow> nat \<Rightarrow> nat \<Rightarrow> 'w \<Rightarrow> (goerr + json option) \<times> 'w" where
  "post_attempt c path biz k 0 w = postOnce c path biz w"
| "post_attempt c path biz k (Suc left) w =
    (case postOnce c path biz w of
       (Inr d, w) \<Rightarrow> (Inr d, w)
     | (Inl e, w) \<Rightarrow>
        if errors_Is (Some e) ErrRateLimited
        then (case ec_Jitter c rateRetryBase w of (j, w) \<Rightarrow>
               (case ec_Sleep c (rateRetryBase * 2 ^ k + j) w of
                  (Some x, w) \<Rightarrow> (Inl x, w) | (None, w) \<Rightarrow> post_attempt c path biz (k + 1) left w))
        else (Inl e, w))"

definition postData :: "'w eco_client \<Rightarrow> string \<Rightarrow> (string \<times> json) list \<Rightarrow> 'w \<Rightarrow> (goerr + json option) \<times> 'w" where
  "postData c path biz = post_attempt c path biz 0 2"

text \<open>The payload decoded into a variable that starts as \<open>zero\<close>.\<close>

definition payload_of :: "string \<Rightarrow> (json \<Rightarrow> 'a option) \<Rightarrow> 'a \<Rightarrow> json option \<Rightarrow> goerr + 'a" where
  "payload_of path read zero d = (case d of None \<Rightarrow> Inr zero
     | Some j \<Rightarrow> (case read j of None \<Rightarrow> Inl (Errorf (''eco: '' @ path @ '' payload: cannot unmarshal'')) | Some v \<Rightarrow> Inr v))"

definition eco_post :: "'w eco_client \<Rightarrow> string \<Rightarrow> (string \<times> json) list \<Rightarrow> (json \<Rightarrow> 'a option) \<Rightarrow> 'a \<Rightarrow> 'w \<Rightarrow> (goerr + 'a) \<times> 'w" where
  "eco_post c path biz read zero w =
    (case postData c path biz w of (Inl e, w) \<Rightarrow> (Inl e, w) | (Inr d, w) \<Rightarrow> (payload_of path read zero d, w))"

definition postRaw :: "'w eco_client \<Rightarrow> string \<Rightarrow> (string \<times> json) list \<Rightarrow> 'w \<Rightarrow> (goerr + json option) \<times> 'w" where
  "postRaw c path biz = postData c path biz"

section \<open>Reading payloads\<close>

definition read_struct :: "'p field list \<Rightarrow> 'p \<Rightarrow> json \<Rightarrow> 'p option" where
  "read_struct fs zero j = to_struct fs j zero"

fun read_all :: "(json \<Rightarrow> 'a option) \<Rightarrow> json list \<Rightarrow> 'a list option" where
  "read_all r [] = Some []"
| "read_all r (j # js) = (case r j of None \<Rightarrow> None | Some v \<Rightarrow> map_option ((#) v) (read_all r js))"

definition read_list :: "(json \<Rightarrow> 'a option) \<Rightarrow> json \<Rightarrow> 'a list option" where
  "read_list r j = (case j of JNull \<Rightarrow> Some [] | JArr js \<Rightarrow> read_all r js | _ \<Rightarrow> None)"

definition list_field :: "string \<Rightarrow> (json \<Rightarrow> 'a option) \<Rightarrow> ('a list \<Rightarrow> 'p \<Rightarrow> 'p) \<Rightarrow> 'p field" where
  "list_field tag r put = (tag, \<lambda>j p. map_option (\<lambda>v. put v p) (read_list r j))"

definition raw_field :: "string \<Rightarrow> (json option \<Rightarrow> 'p \<Rightarrow> 'p) \<Rightarrow> 'p field" where
  "raw_field tag put = (tag, \<lambda>j p. Some (put (Some j) p))"

section \<open>Delivery of orders\<close>

record SendOfferResult =
  so_OrderNum :: string
  so_OfferID :: string
  so_NeedsMobile :: bool
  so_NeedsEmail :: bool
  so_Error :: string
  so_ErrorCode :: int

definition no_send :: SendOfferResult where
  "no_send = \<lparr>so_OrderNum = '''', so_OfferID = '''', so_NeedsMobile = False, so_NeedsEmail = False, so_Error = '''', so_ErrorCode = 0\<rparr>"

definition send_fields :: "SendOfferResult field list" where
  "send_fields = [string_field ''OrderNum'' (\<lambda>v p. p\<lparr>so_OrderNum := v\<rparr>), string_field ''OfferId'' (\<lambda>v p. p\<lparr>so_OfferID := v\<rparr>),
     bool_field ''NeedsMobileConfirmation'' (\<lambda>v p. p\<lparr>so_NeedsMobile := v\<rparr>), bool_field ''NeedsEmailConfirmation'' (\<lambda>v p. p\<lparr>so_NeedsEmail := v\<rparr>),
     string_field ''Error'' (\<lambda>v p. p\<lparr>so_Error := v\<rparr>), int_field ''ErrorCode'' so_ErrorCode (\<lambda>v p. p\<lparr>so_ErrorCode := v\<rparr>)]"

definition send_Failed :: "SendOfferResult \<Rightarrow> bool" where
  "send_Failed r \<longleftrightarrow> (if so_ErrorCode r \<noteq> 0 then so_ErrorCode r \<noteq> 1 else so_Error r \<noteq> '''')"

record AcceptOfferResult =
  aq_OrderNum :: string
  aq_OfferID :: string
  aq_NeedMobile :: bool
  aq_NeedEmail :: bool
  aq_Error :: string
  aq_ErrorCode :: int

definition no_accept :: AcceptOfferResult where
  "no_accept = \<lparr>aq_OrderNum = '''', aq_OfferID = '''', aq_NeedMobile = False, aq_NeedEmail = False, aq_Error = '''', aq_ErrorCode = 0\<rparr>"

definition accept_fields :: "AcceptOfferResult field list" where
  "accept_fields = [string_field ''OrderNum'' (\<lambda>v p. p\<lparr>aq_OrderNum := v\<rparr>), string_field ''OfferId'' (\<lambda>v p. p\<lparr>aq_OfferID := v\<rparr>),
     bool_field ''NeedMobileConfirmation'' (\<lambda>v p. p\<lparr>aq_NeedMobile := v\<rparr>), bool_field ''NeedEmailConfirmation'' (\<lambda>v p. p\<lparr>aq_NeedEmail := v\<rparr>),
     string_field ''Error'' (\<lambda>v p. p\<lparr>aq_Error := v\<rparr>), int_field ''ErrorCode'' aq_ErrorCode (\<lambda>v p. p\<lparr>aq_ErrorCode := v\<rparr>)]"

definition accept_Failed :: "AcceptOfferResult \<Rightarrow> bool" where
  "accept_Failed r \<longleftrightarrow> aq_ErrorCode r \<noteq> 1 \<or> aq_Error r \<noteq> ''''"

record ResolveOfferResult =
  ro_SendOffers :: "SendOfferResult list"
  ro_AcceptOffers :: "AcceptOfferResult list"

definition resolve_fields :: "ResolveOfferResult field list" where
  "resolve_fields = [list_field ''sendOfferResults'' (read_struct send_fields no_send) (\<lambda>v p. p\<lparr>ro_SendOffers := v\<rparr>),
     list_field ''acceptOfferResults'' (read_struct accept_fields no_accept) (\<lambda>v p. p\<lparr>ro_AcceptOffers := v\<rparr>)]"

definition FailedSends :: "ResolveOfferResult \<Rightarrow> string list" where
  "FailedSends r = map so_OrderNum (filter send_Failed (ro_SendOffers r))"

definition FailedAccepts :: "ResolveOfferResult \<Rightarrow> string list" where
  "FailedAccepts r = map aq_OrderNum (filter accept_Failed (ro_AcceptOffers r))"

definition OneClickResolveOffer :: "'w eco_client \<Rightarrow> 'w \<Rightarrow> (goerr + ResolveOfferResult) \<times> 'w" where
  "OneClickResolveOffer c = (let zero = \<lparr>ro_SendOffers = [], ro_AcceptOffers = []\<rparr>
     in eco_post c ''/Api/open/order/OneClickResolveOffer'' [] (read_struct resolve_fields zero) zero)"

definition SellerSendOffer :: "'w eco_client \<Rightarrow> string \<Rightarrow> 'w \<Rightarrow> (goerr + SendOfferResult) \<times> 'w" where
  "SellerSendOffer c orderNum w =
    (if orderNum = '''' then (Inl (Errorf ''eco: order num required''), w)
     else case eco_post c ''/Api/open/order/SellerSendOffer'' [(''OrderNum'', JStr orderNum), (''GameId'', JStr ''730'')]
            (read_struct send_fields no_send) no_send w of
         (Inl e, w) \<Rightarrow> (Inl e, w)
       | (Inr out, w) \<Rightarrow>
          (if send_Failed out
           then Inl (Errorf (''eco: send offer '' @ orderNum @ '' failed (code='' @ dec_int (so_ErrorCode out) @ ''): '' @ so_Error out)) else Inr out, w))"

section \<open>Seller orders\<close>

definition maxListPages :: nat where
  "maxListPages = 500"

definition ecoCST :: duration where
  "ecoCST = 8 * Hour"

record SellerOrder =
  se_OrderNum :: string
  se_OrderStateCode :: int
  se_GoodsName :: string
  se_OrderAmount :: f64

definition no_seller_order :: SellerOrder where
  "no_seller_order = \<lparr>se_OrderNum = '''', se_OrderStateCode = 0, se_GoodsName = '''', se_OrderAmount = Fin 0\<rparr>"

definition seller_order_fields :: "SellerOrder field list" where
  "seller_order_fields = [string_field ''OrderNum'' (\<lambda>v p. p\<lparr>se_OrderNum := v\<rparr>), int_field ''OrderStateCode'' se_OrderStateCode (\<lambda>v p. p\<lparr>se_OrderStateCode := v\<rparr>),
     string_field ''GoodsName'' (\<lambda>v p. p\<lparr>se_GoodsName := v\<rparr>), float_field ''OrderAmount'' se_OrderAmount (\<lambda>v p. p\<lparr>se_OrderAmount := v\<rparr>)]"

definition orders_page_fields :: "(SellerOrder list \<times> int) field list" where
  "orders_page_fields = [list_field ''PageResult'' (read_struct seller_order_fields no_seller_order) (\<lambda>v p. (v, snd p)),
     int_field ''TotalRecord'' snd (\<lambda>v p. (fst p, v))]"

fun seller_order_pages ::
    "'w eco_client \<Rightarrow> instant \<Rightarrow> instant \<Rightarrow> int option \<Rightarrow> string \<Rightarrow> nat \<Rightarrow> int \<Rightarrow> SellerOrder list \<Rightarrow> 'w \<Rightarrow> (goerr + SellerOrder list) \<times> 'w" where
  "seller_order_pages c start end' detailsState steamID 0 pageIndex out w = (Inr out, w)"
| "seller_order_pages c start end' detailsState steamID (Suc pages) pageIndex out w =
    (case eco_post c ''/Api/open/order/SellerOrderList''
            ([(''StartTime'', JStr (day_text ecoCST start)), (''EndTime'', JStr (day_text ecoCST end')), (''PageIndex'', JInt pageIndex),
              (''PageSize'', JInt 100), (''SteamId'', JStr steamID)] @ (case detailsState of None \<Rightarrow> [] | Some n \<Rightarrow> [(''DetailsState'', JInt n)]))
            (read_struct orders_page_fields ([], 0)) ([], 0) w of
       (Inl e, w) \<Rightarrow> (Inl e, w)
     | (Inr (rows, tot), w) \<Rightarrow>
        if length rows < 100 then (Inr (out @ rows), w)
        else seller_order_pages c start end' detailsState steamID pages (pageIndex + 1) (out @ rows) w)"

definition SellerOrderList :: "'w eco_client \<Rightarrow> instant \<Rightarrow> instant \<Rightarrow> int option \<Rightarrow> string \<Rightarrow> 'w \<Rightarrow> (goerr + SellerOrder list) \<times> 'w" where
  "SellerOrderList c start end' detailsState steamID = seller_order_pages c start end' detailsState steamID maxListPages 1 []"

record SellerOrderDetail =
  sd_TradeOfferID :: string
  sd_GoodsName :: string
  sd_TotalMoney :: f64
  sd_BuyerNickname :: string

definition no_detail :: SellerOrderDetail where
  "no_detail = \<lparr>sd_TradeOfferID = '''', sd_GoodsName = '''', sd_TotalMoney = Fin 0, sd_BuyerNickname = ''''\<rparr>"

definition detail_fields :: "SellerOrderDetail field list" where
  "detail_fields = [string_field ''TradeOfferId'' (\<lambda>v p. p\<lparr>sd_TradeOfferID := v\<rparr>), string_field ''GoodsName'' (\<lambda>v p. p\<lparr>sd_GoodsName := v\<rparr>),
     float_field ''TotalMoney'' sd_TotalMoney (\<lambda>v p. p\<lparr>sd_TotalMoney := v\<rparr>), string_field ''BuyerNickname'' (\<lambda>v p. p\<lparr>sd_BuyerNickname := v\<rparr>)]"

definition GetSellerOrderDetail :: "'w eco_client \<Rightarrow> string \<Rightarrow> 'w \<Rightarrow> (goerr + SellerOrderDetail) \<times> 'w" where
  "GetSellerOrderDetail c orderNum w =
    (case postRaw c ''/Api/open/order/SellerOrderDetail'' [(''OrderNum'', JStr orderNum)] w of
       (Inl e, w) \<Rightarrow> (Inl e, w)
     | (Inr raw, w) \<Rightarrow>
        (case raw of
           None \<Rightarrow> (Inl (Errorf (''eco: empty detail for '' @ orderNum)), w)
         | Some j \<Rightarrow>
            if j = JNull then (Inl (Errorf (''eco: empty detail for '' @ orderNum)), w)
            else (case to_struct detail_fields j no_detail of None \<Rightarrow> (Inl (Errorf ''eco: detail decode: cannot unmarshal''), w) | Some d \<Rightarrow> (Inr d, w))))"

definition SendOffer :: "'w eco_client \<Rightarrow> string \<Rightarrow> 'w \<Rightarrow> (goerr + SendOfferResult) \<times> 'w" where
  "SendOffer c = SellerSendOffer c"

definition Detail :: "'w eco_client \<Rightarrow> string \<Rightarrow> 'w \<Rightarrow> (goerr + SellerOrderDetail) \<times> 'w" where
  "Detail c = GetSellerOrderDetail c"

end
