(* ===== verification/EcoAdapter.thy ===== *)
theory EcoAdapter
  imports EcoClient Money
begin

text \<open>
  The lease endpoints of ECO (\<open>platform/eco/endpoints.go\<close>) and its adapter (\<open>adapter.go\<close>). Adding a day to a time is adding
  24 hours: the process runs in a zone without summer time.
\<close>

section \<open>Publishing and repricing\<close>

record RentPublishItem =
  rp_AssetID :: string
  rp_RentPrice :: f64
  rp_LongRentPrice :: "f64 option"
  rp_RentMaxDay :: int
  rp_RentDeposits :: f64
  rp_SupportSublet :: int
  rp_SubletPricingMethod :: int

definition applySubletPolicy :: "RentPublishItem \<Rightarrow> RentPublishItem" where
  "applySubletPolicy p = p\<lparr>rp_SupportSublet := 1, rp_SubletPricingMethod := 2\<rparr>"

text \<open>The adapter sets no stock reference and no description; \<open>SteamGameId\<close> and \<open>TradeTypes\<close> are constants.\<close>

definition rent_item_json :: "RentPublishItem \<Rightarrow> json" where
  "rent_item_json p = JObj ((if rp_AssetID p = '''' then [] else [(''AssetId'', JStr (rp_AssetID p))])
     @ [(''SteamGameId'', JStr ''730''), (''TradeTypes'', JArr [JInt 2]), (''RentPrice'', JNum (rp_RentPrice p))]
     @ (case rp_LongRentPrice p of None \<Rightarrow> [] | Some v \<Rightarrow> [(''LongRentPrice'', JNum v)])
     @ [(''RentMaxDay'', JInt (rp_RentMaxDay p)), (''RentDeposits'', JNum (rp_RentDeposits p)), (''SupportSublet'', JInt (rp_SupportSublet p)),
        (''SubletPricingMethod'', JInt (rp_SubletPricingMethod p))])"

record publishItemResult =
  pi_AssetID :: string
  pi_StockID :: string
  pi_IsSuccess :: bool
  pi_ErrorMsg :: string
  pi_GoodNum :: string

definition no_publish_result :: publishItemResult where
  "no_publish_result = \<lparr>pi_AssetID = '''', pi_StockID = '''', pi_IsSuccess = False, pi_ErrorMsg = '''', pi_GoodNum = ''''\<rparr>"

definition publish_result_fields :: "publishItemResult field list" where
  "publish_result_fields = [string_field ''AssetId'' (\<lambda>v p. p\<lparr>pi_AssetID := v\<rparr>), string_field ''StockId'' (\<lambda>v p. p\<lparr>pi_StockID := v\<rparr>),
     bool_field ''IsSuccess'' (\<lambda>v p. p\<lparr>pi_IsSuccess := v\<rparr>), string_field ''ErrorMsg'' (\<lambda>v p. p\<lparr>pi_ErrorMsg := v\<rparr>),
     string_field ''GoodNum'' (\<lambda>v p. p\<lparr>pi_GoodNum := v\<rparr>)]"

definition PublishRentAndSale :: "'w eco_client \<Rightarrow> string \<Rightarrow> int \<Rightarrow> RentPublishItem list \<Rightarrow> 'w \<Rightarrow> (goerr + publishItemResult list) \<times> 'w" where
  "PublishRentAndSale c steamID publishType items =
    eco_post c ''/Api/Rent/PublishRentAndSaleGoods''
      [(''SteamId'', JStr steamID), (''PublishType'', JInt publishType), (''Assets'', JArr (map rent_item_json items))]
      (read_list (read_struct publish_result_fields no_publish_result)) []"

section \<open>The shelf\<close>

record RentGoods =
  rg_GoodsNum :: string
  rg_MarkPrice :: f64
  rg_Status :: int
  rg_RentMaxDay :: int
  rg_Price :: f64
  rg_Deposits :: f64
  rg_LongRentPrice :: f64
  rg_AssetID :: string
  rg_HashName :: string
  rg_GoodsName :: string
  rg_CreateTime :: string

definition no_goods :: RentGoods where
  "no_goods = \<lparr>rg_GoodsNum = '''', rg_MarkPrice = Fin 0, rg_Status = 0, rg_RentMaxDay = 0, rg_Price = Fin 0, rg_Deposits = Fin 0,
     rg_LongRentPrice = Fin 0, rg_AssetID = '''', rg_HashName = '''', rg_GoodsName = '''', rg_CreateTime = ''''\<rparr>"

text \<open>A field the code decodes and never reads.\<close>

definition ignored_string :: "string \<Rightarrow> 'p field" where
  "ignored_string tag = string_field tag (\<lambda>v p. p)"

definition ignored_int :: "string \<Rightarrow> 'p field" where
  "ignored_int tag = (tag, \<lambda>j p. map_option (\<lambda>_. p) (to_int j 0))"

definition goods_fields :: "RentGoods field list" where
  "goods_fields = [string_field ''GoodsNum'' (\<lambda>v p. p\<lparr>rg_GoodsNum := v\<rparr>), ignored_string ''GoodsId'', ignored_string ''StockId'',
     float_field ''MarkPrice'' rg_MarkPrice (\<lambda>v p. p\<lparr>rg_MarkPrice := v\<rparr>), int_field ''Status'' rg_Status (\<lambda>v p. p\<lparr>rg_Status := v\<rparr>),
     int_field ''RentMaxDay'' rg_RentMaxDay (\<lambda>v p. p\<lparr>rg_RentMaxDay := v\<rparr>), float_field ''Price'' rg_Price (\<lambda>v p. p\<lparr>rg_Price := v\<rparr>),
     float_field ''Deposits'' rg_Deposits (\<lambda>v p. p\<lparr>rg_Deposits := v\<rparr>), ignored_int ''LongRentDay'',
     float_field ''LongRentPrice'' rg_LongRentPrice (\<lambda>v p. p\<lparr>rg_LongRentPrice := v\<rparr>), string_field ''AssetId'' (\<lambda>v p. p\<lparr>rg_AssetID := v\<rparr>),
     string_field ''HashName'' (\<lambda>v p. p\<lparr>rg_HashName := v\<rparr>), string_field ''GoodsName'' (\<lambda>v p. p\<lparr>rg_GoodsName := v\<rparr>),
     string_field ''CreateTime'' (\<lambda>v p. p\<lparr>rg_CreateTime := v\<rparr>), ignored_string ''RentExpire'']"

record eco_page =
  pg_TotalRecord :: int
  pg_PageResult :: "json option"

definition page_fields :: "eco_page field list" where
  "page_fields = [ignored_int ''PageIndex'', ignored_int ''PageSize'', int_field ''TotalRecord'' pg_TotalRecord (\<lambda>v p. p\<lparr>pg_TotalRecord := v\<rparr>),
     raw_field ''PageResult'' (\<lambda>v p. p\<lparr>pg_PageResult := v\<rparr>)]"

definition no_page :: eco_page where
  "no_page = \<lparr>pg_TotalRecord = 0, pg_PageResult = None\<rparr>"

definition page_items :: "(json \<Rightarrow> 'a option) \<Rightarrow> eco_page \<Rightarrow> goerr + 'a list" where
  "page_items r p = (case pg_PageResult p of None \<Rightarrow> Inr []
     | Some j \<Rightarrow> if j = JNull then Inr [] else case read_list r j of None \<Rightarrow> Inl (Errorf ''json: cannot unmarshal page'') | Some xs \<Rightarrow> Inr xs)"

text \<open>The paging loop of the rent endpoints: it ends on the advertised total, on an empty page, or at the page limit.\<close>

fun rent_pages ::
    "'w eco_client \<Rightarrow> string \<Rightarrow> (int \<Rightarrow> (string \<times> json) list) \<Rightarrow> (json \<Rightarrow> 'a option) \<Rightarrow> nat \<Rightarrow> int \<Rightarrow> 'a list \<Rightarrow> 'w \<Rightarrow> (goerr + 'a list) \<times> 'w" where
  "rent_pages c path biz r 0 pageIndex out w = (Inr out, w)"
| "rent_pages c path biz r (Suc pages) pageIndex out w =
    (case eco_post c path (biz pageIndex) (read_struct page_fields no_page) no_page w of
       (Inl e, w) \<Rightarrow> (Inl e, w)
     | (Inr p, w) \<Rightarrow>
        (case page_items r p of
           Inl e \<Rightarrow> (Inl e, w)
         | Inr items \<Rightarrow>
            if pg_TotalRecord p \<le> pageIndex * 100 \<or> items = [] then (Inr (out @ items), w)
            else rent_pages c path biz r pages (pageIndex + 1) (out @ items) w))"

definition QuerySelfRentGoods :: "'w eco_client \<Rightarrow> int option \<Rightarrow> 'w \<Rightarrow> (goerr + RentGoods list) \<times> 'w" where
  "QuerySelfRentGoods c state =
    rent_pages c ''/Api/Rent/QuerySelfRentGoods''
      (\<lambda>i. [(''SteamGameId'', JStr ''730''), (''PageIndex'', JInt i), (''PageSize'', JInt 100)] @ (case state of None \<Rightarrow> [] | Some s \<Rightarrow> [(''State'', JInt s)]))
      (read_struct goods_fields no_goods) maxListPages 1 []"

text \<open>\<open>completePage\<close>: whether the snapshot is complete after this page, with the rows seen so far.\<close>

definition completePage :: "int option \<Rightarrow> int \<Rightarrow> int \<Rightarrow> goerr + bool" where
  "completePage tot rows seen =
    (if 100 < rows \<or> (case tot of None \<Rightarrow> False | Some t \<Rightarrow> t < seen) then Inl (Errorf ''inconsistent page count'')
     else case tot of
         None \<Rightarrow> Inr (rows < 100)
       | Some t \<Rightarrow> if seen = t then Inr True
           else if rows < 100 then Inl (Errorf (''incomplete snapshot: received '' @ dec_int seen @ '' of '' @ dec_int t @ '' rows''))
           else Inr (rows < 100))"

section \<open>Delisting\<close>

record delistResult =
  dr_GoodsNum :: string
  dr_AssetID :: string
  dr_IsSuccess :: bool
  dr_ErrorMsg :: string

definition no_delist_result :: delistResult where
  "no_delist_result = \<lparr>dr_GoodsNum = '''', dr_AssetID = '''', dr_IsSuccess = False, dr_ErrorMsg = ''''\<rparr>"

definition delist_result_fields :: "delistResult field list" where
  "delist_result_fields = [string_field ''GoodsNum'' (\<lambda>v p. p\<lparr>dr_GoodsNum := v\<rparr>), string_field ''AssetId'' (\<lambda>v p. p\<lparr>dr_AssetID := v\<rparr>),
     bool_field ''IsSuccess'' (\<lambda>v p. p\<lparr>dr_IsSuccess := v\<rparr>), string_field ''ErrorMsg'' (\<lambda>v p. p\<lparr>dr_ErrorMsg := v\<rparr>)]"

definition delist_item_json :: "string \<Rightarrow> json" where
  "delist_item_json g = JObj ((if g = '''' then [] else [(''GoodsNum'', JStr g)]) @ [(''SteamGameId'', JStr ''730'')])"

definition OffshelfRentGoods :: "'w eco_client \<Rightarrow> string list \<Rightarrow> 'w \<Rightarrow> (goerr + delistResult list) \<times> 'w" where
  "OffshelfRentGoods c goodsNums =
    eco_post c ''/Api/Rent/OffshelfRentGoods'' [(''goodsNumList'', JArr (map delist_item_json goodsNums))]
      (read_list (read_struct delist_result_fields no_delist_result)) []"

section \<open>Rent orders\<close>

record SellerRentOrder =
  rt_OrderNum :: string
  rt_RentType :: int
  rt_Status :: int
  rt_CreateTime :: string
  rt_RentExpire :: string
  rt_Price :: f64
  rt_OrderAmount :: f64
  rt_RentDay :: int
  rt_Deposits :: f64
  rt_HashName :: string
  rt_AssetID :: string

definition no_rent_order :: SellerRentOrder where
  "no_rent_order = \<lparr>rt_OrderNum = '''', rt_RentType = 0, rt_Status = 0, rt_CreateTime = '''', rt_RentExpire = '''', rt_Price = Fin 0,
     rt_OrderAmount = Fin 0, rt_RentDay = 0, rt_Deposits = Fin 0, rt_HashName = '''', rt_AssetID = ''''\<rparr>"

definition rent_order_fields :: "SellerRentOrder field list" where
  "rent_order_fields = [string_field ''OrderNum'' (\<lambda>v p. p\<lparr>rt_OrderNum := v\<rparr>), int_field ''RentType'' rt_RentType (\<lambda>v p. p\<lparr>rt_RentType := v\<rparr>),
     int_field ''Status'' rt_Status (\<lambda>v p. p\<lparr>rt_Status := v\<rparr>), string_field ''CreateTime'' (\<lambda>v p. p\<lparr>rt_CreateTime := v\<rparr>),
     string_field ''RentExpire'' (\<lambda>v p. p\<lparr>rt_RentExpire := v\<rparr>), ignored_string ''RevertExpire'', float_field ''Price'' rt_Price (\<lambda>v p. p\<lparr>rt_Price := v\<rparr>),
     float_field ''OrderAmount'' rt_OrderAmount (\<lambda>v p. p\<lparr>rt_OrderAmount := v\<rparr>), int_field ''RentDay'' rt_RentDay (\<lambda>v p. p\<lparr>rt_RentDay := v\<rparr>),
     ignored_int ''MaxRentDay'', float_field ''Deposits'' rt_Deposits (\<lambda>v p. p\<lparr>rt_Deposits := v\<rparr>), ignored_string ''CancelReason'',
     string_field ''HashName'' (\<lambda>v p. p\<lparr>rt_HashName := v\<rparr>), string_field ''AssetId'' (\<lambda>v p. p\<lparr>rt_AssetID := v\<rparr>)]"

definition order_chunk :: duration where
  "order_chunk = 30 * 24 * Hour"

text \<open>The windows the query is cut into.\<close>

function order_windows :: "instant \<Rightarrow> instant \<Rightarrow> (instant \<times> instant) list" where
  "order_windows cursor end' =
    (if end' < cursor then []
     else (cursor, if cursor + order_chunk < end' then cursor + order_chunk else end') # order_windows (cursor + order_chunk + Second) end')"
  by pat_completeness auto
termination
  by (relation "measure (\<lambda>(cursor, end'). nat (end' - cursor + 1))") (auto simp: order_chunk_def Hour_def Minute_def Second_def)

declare order_windows.simps [simp del]

definition rent_order_page :: "'w eco_client \<Rightarrow> instant \<Rightarrow> instant \<Rightarrow> int list \<Rightarrow> 'w \<Rightarrow> (goerr + SellerRentOrder list) \<times> 'w" where
  "rent_order_page c start end' codes =
    rent_pages c ''/Api/Rent/SellerRentOrderList''
      (\<lambda>i. [(''StartTime'', JStr (datetime_text ecoCST start)), (''EndTime'', JStr (datetime_text ecoCST end')), (''PageIndex'', JInt i),
            (''PageSize'', JInt 100)] @ (if codes = [] then [] else [(''Status'', JArr (map JInt codes))]))
      (read_struct rent_order_fields no_rent_order) maxListPages 1 []"

fun rent_order_windows :: "'w eco_client \<Rightarrow> int list \<Rightarrow> (instant \<times> instant) list \<Rightarrow> SellerRentOrder list \<Rightarrow> 'w \<Rightarrow> (goerr + SellerRentOrder list) \<times> 'w" where
  "rent_order_windows c codes [] out w = (Inr out, w)"
| "rent_order_windows c codes ((s, e) # ws) out w =
    (case rent_order_page c s e codes w of (Inl x, w) \<Rightarrow> (Inl x, w) | (Inr orders, w) \<Rightarrow> rent_order_windows c codes ws (out @ orders) w)"

definition order_start :: "instant \<Rightarrow> instant \<Rightarrow> instant" where
  "order_start start end' = (if start < end' - 365 * 24 * Hour then end' - 365 * 24 * Hour else start)"

definition SellerRentOrderList :: "'w eco_client \<Rightarrow> instant \<Rightarrow> instant \<Rightarrow> int list \<Rightarrow> 'w \<Rightarrow> (goerr + SellerRentOrder list) \<times> 'w" where
  "SellerRentOrderList c start end' codes = rent_order_windows c codes (order_windows (order_start start end') end') []"

record SellerRentOrderDetailResult =
  rd_OrderNum :: string
  rd_HashName :: string
  rd_OfferID :: string
  rd_SendOfferRole :: int

definition no_rent_detail :: SellerRentOrderDetailResult where
  "no_rent_detail = \<lparr>rd_OrderNum = '''', rd_HashName = '''', rd_OfferID = '''', rd_SendOfferRole = 0\<rparr>"

definition ignored_float :: "string \<Rightarrow> 'p field" where
  "ignored_float tag = (tag, \<lambda>j p. map_option (\<lambda>_. p) (to_float j (Fin 0)))"

definition rent_detail_fields :: "SellerRentOrderDetailResult field list" where
  "rent_detail_fields = [string_field ''OrderNum'' (\<lambda>v p. p\<lparr>rd_OrderNum := v\<rparr>), ignored_int ''RentType'', ignored_int ''Status'', ignored_int ''ProgressStatus'',
     ignored_string ''CreateTime'', ignored_string ''RentExpire'', ignored_string ''RevertExpire'', ignored_float ''Price'', ignored_float ''OrderAmount'',
     ignored_int ''RentDay'', ignored_int ''MaxRentDay'', ignored_float ''Deposits'', string_field ''HashName'' (\<lambda>v p. p\<lparr>rd_HashName := v\<rparr>),
     string_field ''OfferId'' (\<lambda>v p. p\<lparr>rd_OfferID := v\<rparr>), int_field ''SendOfferRole'' rd_SendOfferRole (\<lambda>v p. p\<lparr>rd_SendOfferRole := v\<rparr>)]"

definition SellerRentOrderDetail :: "'w eco_client \<Rightarrow> string \<Rightarrow> 'w \<Rightarrow> (goerr + SellerRentOrderDetailResult) \<times> 'w" where
  "SellerRentOrderDetail c orderNum w =
    (if orderNum = '''' then (Inl (Errorf ''eco: order num required''), w)
     else eco_post c ''/Api/Rent/SellerRentOrderDetail'' [(''OrderNum'', JStr orderNum)] (read_struct rent_detail_fields no_rent_detail) no_rent_detail w)"

section \<open>Wallet and market\<close>

definition GetWalletBalance :: "'w eco_client \<Rightarrow> 'w \<Rightarrow> (goerr + f64) \<times> 'w" where
  "GetWalletBalance c = eco_post c ''/Api/Merchant/GetTotalMoney'' [] (read_struct [float_field ''Money'' id (\<lambda>v _. v)] (Fin 0)) (Fin 0)"

record MarketPriceEntry =
  me_MarketHashName :: string
  me_SteamPriceCNY :: f64

definition market_fields :: "MarketPriceEntry field list" where
  "market_fields = [ignored_string ''market_name'', string_field ''market_hash_name'' (\<lambda>v p. p\<lparr>me_MarketHashName := v\<rparr>), ignored_int ''goods_id'',
     float_field ''steam_price_cny'' me_SteamPriceCNY (\<lambda>v p. p\<lparr>me_SteamPriceCNY := v\<rparr>)]"

definition read_market :: "json \<Rightarrow> MarketPriceEntry list option" where
  "read_market = read_list (read_struct market_fields \<lparr>me_MarketHashName = '''', me_SteamPriceCNY = Fin 0\<rparr>)"

text \<open>Both shapes of the answer, the wrapped and the bare list.\<close>

definition GetMarketPriceDump :: "'w eco_client \<Rightarrow> 'w \<Rightarrow> (goerr + MarketPriceEntry list) \<times> 'w" where
  "GetMarketPriceDump c w =
    (let path = ''/Api/Market/GetHashNameAndPriceList'' in
     case postRaw c path [] w of
       (Inl e, w) \<Rightarrow> (Inl e, w)
     | (Inr None, w) \<Rightarrow> (Inr [], w)
     | (Inr (Some JNull), w) \<Rightarrow> (Inr [], w)
     | (Inr (Some (JObj kvs)), w) \<Rightarrow> (payload_of path (read_struct [(''List'', \<lambda>j _. read_market j)] []) [] (Some (JObj kvs)), w)
     | (Inr (Some j), w) \<Rightarrow> (payload_of path read_market [] (Some j), w))"

section \<open>The adapter\<close>

definition eco_Caps :: Capabilities where
  "eco_Caps = \<lparr>DepositDirect = False, LongLeaseThresholdDays = 21, MaxBatchPublish = 100, MaxBatchReprice = 100, cap_RentMaxDayMin = 8,
     cap_RentMaxDayMax = 90\<rparr>"

definition eco_Healthy :: "'w eco_client \<Rightarrow> 'w \<Rightarrow> goerr option \<times> 'w" where
  "eco_Healthy c w = (case GetWalletBalance c w of (Inl e, w) \<Rightarrow> (Some e, w) | (Inr _, w) \<Rightarrow> (None, w))"

record stock_item =
  si_StockID :: string
  si_AssetID :: string
  si_HashName :: string
  si_GoodsName :: string
  si_SteamPrice :: f64
  si_Price :: f64
  si_Tradable :: bool
  si_Status :: int

definition no_stock :: stock_item where
  "no_stock = \<lparr>si_StockID = '''', si_AssetID = '''', si_HashName = '''', si_GoodsName = '''', si_SteamPrice = Fin 0, si_Price = Fin 0,
     si_Tradable = False, si_Status = 0\<rparr>"

definition stock_fields :: "stock_item field list" where
  "stock_fields = [string_field ''StockId'' (\<lambda>v p. p\<lparr>si_StockID := v\<rparr>), string_field ''AssetId'' (\<lambda>v p. p\<lparr>si_AssetID := v\<rparr>),
     string_field ''HashName'' (\<lambda>v p. p\<lparr>si_HashName := v\<rparr>), string_field ''GoodsName'' (\<lambda>v p. p\<lparr>si_GoodsName := v\<rparr>),
     float_field ''SteamPrice'' si_SteamPrice (\<lambda>v p. p\<lparr>si_SteamPrice := v\<rparr>), float_field ''Price'' si_Price (\<lambda>v p. p\<lparr>si_Price := v\<rparr>),
     bool_field ''Tradable'' (\<lambda>v p. p\<lparr>si_Tradable := v\<rparr>), int_field ''Status'' si_Status (\<lambda>v p. p\<lparr>si_Status := v\<rparr>)]"

text \<open>A page of the stock: nil slices and nil totals are told from empty ones.\<close>

record stock_page =
  sp_PageResult :: "stock_item list option"
  sp_TotalRecord :: "int option"

definition stock_page_fields :: "stock_page field list" where
  "stock_page_fields =
    [pointer_field ''PageResult'' (read_list (read_struct stock_fields no_stock)) (\<lambda>v p. p\<lparr>sp_PageResult := v\<rparr>),
     pointer_field ''TotalRecord'' read_int (\<lambda>v p. p\<lparr>sp_TotalRecord := v\<rparr>)]"

definition no_stock_page :: stock_page where
  "no_stock_page = \<lparr>sp_PageResult = None, sp_TotalRecord = None\<rparr>"

definition stock_status :: "bool \<Rightarrow> int \<Rightarrow> string" where
  "stock_status tradable code =
    (if \<not> tradable then ''locked'' else if code = 1 then ''in_stock'' else if code \<in> {4, 6, 8, 10} then ''listed'' else ''locked'')"

definition inventory_of :: "stock_item \<Rightarrow> InventoryItem" where
  "inventory_of it = \<lparr>ii_Channel = ChannelECO, ii_AssetID = (if si_AssetID it = '''' then si_StockID it else si_AssetID it),
     ii_HashName = si_HashName it, ii_DisplayName = si_GoodsName it, ii_TemplateID = 0,
     ii_MarkPrice = (if si_Price it \<le> Fin 0 then si_SteamPrice it else si_Price it), ii_Tradable = si_Tradable it,
     ii_Status = stock_status (si_Tradable it) (si_Status it), ii_Abrade = Fin 0\<rparr>"

definition stock_path :: string where "stock_path = ''/Api/Selling/QueryStock''"

definition stock_request :: "int \<Rightarrow> (string \<times> json) list" where
  "stock_request i = [(''GameId'', JStr ''730''), (''PageIndex'', JInt i), (''PageSize'', JInt 100)]"

fun inventory_pages :: "'w eco_client \<Rightarrow> nat \<Rightarrow> int \<Rightarrow> InventoryItem list \<Rightarrow> 'w \<Rightarrow> (goerr + InventoryItem list) \<times> 'w" where
  "inventory_pages c 0 pageIndex out w = (Inl (Errorf ''eco: inventory exceeds page limit 500''), w)"
| "inventory_pages c (Suc pages) pageIndex out w =
    (case eco_post c stock_path (stock_request pageIndex) (read_struct stock_page_fields no_stock_page) no_stock_page w of
       (Inl e, w) \<Rightarrow> (Inl e, w)
     | (Inr p, w) \<Rightarrow>
        if sp_PageResult p = None \<and> sp_TotalRecord p = None then (Inl (Errorf ''eco: inventory missing page result''), w)
        else let rows = (case sp_PageResult p of None \<Rightarrow> [] | Some xs \<Rightarrow> xs); out = out @ map inventory_of rows
          in (case completePage (sp_TotalRecord p) (int (length rows)) (int (length out)) of
                Inl e \<Rightarrow> (Inl (Wrap ''eco: inventory: '' e), w)
              | Inr True \<Rightarrow> (Inr out, w)
              | Inr False \<Rightarrow> inventory_pages c pages (pageIndex + 1) out w))"

definition eco_Inventory :: "'w eco_client \<Rightarrow> 'w \<Rightarrow> (goerr + InventoryItem list) \<times> 'w" where
  "eco_Inventory c = inventory_pages c maxListPages 1 []"

definition parseEcoTime :: "string \<Rightarrow> instant" where
  "parseEcoTime s = (case parse_datetime ecoCST s of None \<Rightarrow> 0 | Some t \<Rightarrow> t)"

definition shelf_of_goods :: "RentGoods \<Rightarrow> ShelfListing" where
  "shelf_of_goods g = \<lparr>sl_Channel = ChannelECO, sl_GoodsRef = rg_GoodsNum g, sl_AssetID = rg_AssetID g, sl_HashName = rg_HashName g,
     sl_DisplayName = rg_GoodsName g, sl_TemplateID = 0, sl_RentPrice = rg_Price g, sl_LongRentPrice = rg_LongRentPrice g,
     sl_MaxDays = rg_RentMaxDay g, sl_Deposit = rg_Deposits g, sl_MarkPrice = rg_MarkPrice g, sl_Leased = (rg_Status g = 2),
     sl_ListedAt = parseEcoTime (rg_CreateTime g)\<rparr>"

definition eco_LeaseShelf :: "'w eco_client \<Rightarrow> 'w \<Rightarrow> (goerr + ShelfListing list) \<times> 'w" where
  "eco_LeaseShelf c w = (case QuerySelfRentGoods c None w of (Inl e, w) \<Rightarrow> (Inl e, w) | (Inr goods, w) \<Rightarrow> (Inr (map shelf_of_goods goods), w))"

definition derivedDeposit :: "PublishLeaseRequest \<Rightarrow> f64" where
  "derivedDeposit it =
    (let dep = pq_Deposit it; v = pq_RentPrice it * i2f (pq_MaxDays it); dep = (if dep < v then v else dep);
         l = pq_LongRentPrice it * i2f (pq_MaxDays it); dep = (if Fin 0 < pq_LongRentPrice it \<and> dep < l then l else dep)
     in Round2 dep)"

definition long_price :: "f64 \<Rightarrow> f64 option" where
  "long_price v = (if Fin 0 < v then Some v else None)"

definition publish_item_of :: "PublishLeaseRequest \<Rightarrow> RentPublishItem" where
  "publish_item_of it = applySubletPolicy \<lparr>rp_AssetID = pq_AssetRef it, rp_RentPrice = pq_RentPrice it, rp_LongRentPrice = long_price (pq_LongRentPrice it),
     rp_RentMaxDay = pq_MaxDays it, rp_RentDeposits = derivedDeposit it, rp_SupportSublet = 0, rp_SubletPricingMethod = 0\<rparr>"

text \<open>One result per requested item, by position; an item without an answer is a failure.\<close>

definition publish_results :: "PublishLeaseRequest list \<Rightarrow> publishItemResult list \<Rightarrow> PublishLeaseResult list" where
  "publish_results items results = map (\<lambda>(i, it).
     if i < length results
     then \<lparr>pr_AssetRef = pq_AssetRef it, pr_GoodsRef = pi_GoodNum (results ! i), pr_Success = pi_IsSuccess (results ! i), pr_Error = pi_ErrorMsg (results ! i)\<rparr>
     else \<lparr>pr_AssetRef = pq_AssetRef it, pr_GoodsRef = '''', pr_Success = False, pr_Error = ''''\<rparr>) (enumerate 0 items)"

definition eco_PublishLease :: "'w eco_client \<Rightarrow> string \<Rightarrow> PublishLeaseRequest list \<Rightarrow> 'w \<Rightarrow> (PublishLeaseResult list \<times> goerr option) \<times> 'w" where
  "eco_PublishLease c steamID items w =
    (case PublishRentAndSale c steamID 1 (map publish_item_of items) w of
       (Inl e, w) \<Rightarrow> ((publish_results items [], Some e), w)
     | (Inr results, w) \<Rightarrow> (let out = publish_results items results in ((out, PartialIfAnyFailed out), w)))"

definition reprice_item_of :: "RepriceLeaseRequest \<Rightarrow> RentPublishItem" where
  "reprice_item_of it = applySubletPolicy \<lparr>rp_AssetID = rq_AssetRef it, rp_RentPrice = rq_RentPrice it, rp_LongRentPrice = long_price (rq_LongRentPrice it),
     rp_RentMaxDay = rq_MaxDays it, rp_RentDeposits = rq_Deposit it, rp_SupportSublet = 0, rp_SubletPricingMethod = 0\<rparr>"

definition reprice_results :: "RepriceLeaseRequest list \<Rightarrow> publishItemResult list \<Rightarrow> RepriceLeaseResult list" where
  "reprice_results items results = map (\<lambda>(i, it).
     if i < length results then \<lparr>rr_GoodsRef = rq_GoodsRef it, rr_Success = pi_IsSuccess (results ! i), rr_Error = pi_ErrorMsg (results ! i)\<rparr>
     else \<lparr>rr_GoodsRef = rq_GoodsRef it, rr_Success = False,
           rr_Error = (if length results \<noteq> length items then ''eco: missing per-item reprice result'' else '''')\<rparr>) (enumerate 0 items)"

definition partial_failure :: "string \<Rightarrow> goerr" where
  "partial_failure msg = \<lparr>Error = ''platform: partial failure: '' @ msg, wrapped = [ErrPartialFailure]\<rparr>"

text \<open>The error of the call is looked at after the number of results; a failed call has none.\<close>

definition eco_RepriceLease :: "'w eco_client \<Rightarrow> string \<Rightarrow> RepriceLeaseRequest list \<Rightarrow> 'w \<Rightarrow> (RepriceLeaseResult list \<times> goerr option) \<times> 'w" where
  "eco_RepriceLease c steamID items w =
    (case PublishRentAndSale c steamID 2 (map reprice_item_of items) w of (r, w) \<Rightarrow>
       let results = (case r of Inl _ \<Rightarrow> [] | Inr xs \<Rightarrow> xs); err = (case r of Inl e \<Rightarrow> Some e | Inr _ \<Rightarrow> None); out = reprice_results items results
       in if length results \<noteq> length items
          then ((out, Some (partial_failure (dec_int (int (length results)) @ ''/'' @ dec_int (int (length items)) @ '' reprice results returned''))), w)
          else ((out, err), w))"

fun check_delists :: "string set \<Rightarrow> string set \<Rightarrow> delistResult list \<Rightarrow> goerr option" where
  "check_delists expected seen [] = None"
| "check_delists expected seen (r # rs) =
    (if dr_GoodsNum r \<notin> expected \<or> dr_GoodsNum r \<in> seen then Some (partial_failure ''unexpected or duplicate delist result'')
     else if \<not> dr_IsSuccess r
       then Some (PartialError (if dr_GoodsNum r \<noteq> '''' then dr_GoodsNum r else dr_AssetID r) (dr_ErrorMsg r))
     else check_delists expected (insert (dr_GoodsNum r) seen) rs)"

definition eco_Delist :: "'w eco_client \<Rightarrow> string list \<Rightarrow> 'w \<Rightarrow> goerr option \<times> 'w" where
  "eco_Delist c refs w =
    (if refs = [] then (None, w)
     else case OffshelfRentGoods c refs w of
         (Inl e, w) \<Rightarrow> (Some e, w)
       | (Inr results, w) \<Rightarrow>
          (if length results \<noteq> card (set refs) then Some (partial_failure ''incomplete delist results'') else check_delists (set refs) {} results, w))"

definition mapECOOrderStatus :: "int \<Rightarrow> string" where
  "mapECOOrderStatus code =
    (if code = 1 then ''pending_payment'' else if code = 2 then ''delivering'' else if code = 3 then ''leasing'' else if code = 4 then ''returning''
     else if code = 5 then ''breach'' else if code = 6 then ''arbitrating'' else if code = 7 \<or> code = 12 then ''done'' else if code = 8 then ''bought_out''
     else if code = 9 then ''cancelled'' else if code = 10 \<or> code = 11 then ''breach'' else ''unknown'')"

definition lease_order_of :: "instant \<Rightarrow> SellerRentOrder \<Rightarrow> LeaseOrder" where
  "lease_order_of now r = \<lparr>lo_Channel = ChannelECO, lo_OrderRef = rt_OrderNum r, lo_AssetID = rt_AssetID r, lo_HashName = rt_HashName r,
     lo_OrderType = (if rt_RentType r = 2 then ''long'' else ''short''), lo_Status = mapECOOrderStatus (rt_Status r), lo_RentDays = rt_RentDay r,
     lo_RentPrice = rt_Price r, lo_Amount = rt_OrderAmount r, lo_Deposits = rt_Deposits r, lo_StartedAt = parseEcoTime (rt_CreateTime r),
     lo_DueAt = parseEcoTime (rt_RentExpire r), lo_FinishedAt = None, lo_UpdatedAt = now, lo_Raw = None\<rparr>"

fun lease_orders_of :: "'w eco_client \<Rightarrow> SellerRentOrder list \<Rightarrow> 'w \<Rightarrow> LeaseOrder list \<times> 'w" where
  "lease_orders_of c [] w = ([], w)"
| "lease_orders_of c (r # rs) w = (case ec_Now c w of (now, w) \<Rightarrow> case lease_orders_of c rs w of (os, w) \<Rightarrow> (lease_order_of now r # os, w))"

definition eco_LeaseOrders :: "'w eco_client \<Rightarrow> instant \<Rightarrow> 'w \<Rightarrow> (goerr + LeaseOrder list) \<times> 'w" where
  "eco_LeaseOrders c since w =
    (case ec_Now c w of (end', w) \<Rightarrow>
       case SellerRentOrderList c (since - 24 * Hour) end' [] w of
         (Inl e, w) \<Rightarrow> (Inl e, w) | (Inr orders, w) \<Rightarrow> (case lease_orders_of c orders w of (os, w) \<Rightarrow> (Inr os, w)))"

definition eco_NewAdapter :: "'w eco_client \<Rightarrow> string \<Rightarrow> 'w Adapter" where
  "eco_NewAdapter c steamID =
    \<lparr>Caps = eco_Caps, Healthy = eco_Healthy c, Inventory = eco_Inventory c, LeaseShelf = eco_LeaseShelf c, PublishLease = eco_PublishLease c steamID,
     RepriceLease = eco_RepriceLease c steamID, Delist = eco_Delist c, LeaseOrders = eco_LeaseOrders c, Wallet = GetWalletBalance c\<rparr>"

end
