(* ===== verification/EcoProps.thy ===== *)
theory EcoProps
  imports EcoAdapter Reprice
begin

text \<open>
  The ECO adapter fails closed: what it reports as done the platform has confirmed, and what it reports as a snapshot is
  complete.
\<close>

section \<open>A call\<close>

definition confirmed_answer :: "'w eco_client \<Rightarrow> string \<Rightarrow> (string \<times> json) list \<Rightarrow> json option \<Rightarrow> bool" where
  "confirmed_answer c path biz d \<longleftrightarrow> (\<exists>now params w body w' env. signed_params c biz now = Inr params
     \<and> ec_Do c path (marshalBody params) w = (Inr (200, body), w') \<and> decodeEnvelope body = Inr env \<and> ev_Code env = 0 \<and> ev_Data env = d)"

lemma postOnce_confirmed: "postOnce c path biz w = (Inr d, w') \<Longrightarrow> confirmed_answer c path biz d"
proof -
  assume p: "postOnce c path biz w = (Inr d, w')"
  obtain l w1 where l: "ec_Limiter c w = (l, w1)" by (metis surj_pair)
  obtain now w2 where n: "ec_Now c w1 = (now, w2)" by (metis surj_pair)
  from p l have l0: "l = None" by (cases l) (simp_all add: postOnce_def)
  from p l l0 n obtain params where s: "signed_params c biz now = Inr params" by (cases "signed_params c biz now") (simp_all add: postOnce_def)
  obtain r w3 where d: "ec_Do c path (marshalBody params) w2 = (r, w3)" by (metis surj_pair)
  from p l l0 n s d obtain resp where r: "r = Inr resp" and a: "answer path resp = Inr d" by (cases r) (simp_all add: postOnce_def)
  obtain code body where resp: "resp = (code, body)" by (cases resp)
  from a have c200: "code = 200" by (simp add: answer_def resp split: if_splits)
  from a c200 obtain env where env: "decodeEnvelope body = Inr env" by (cases "decodeEnvelope body") (simp_all add: answer_def resp)
  from a c200 env have "ev_Code env = 0" "ev_Data env = d" by (auto simp: answer_def resp checkEnv_def split: option.splits if_splits)
  then show ?thesis using s d r resp c200 env unfolding confirmed_answer_def by blast
qed

lemma post_confirmed: "post_attempt c path biz k left w = (Inr d, w') \<Longrightarrow> confirmed_answer c path biz d"
proof (induction c path biz k left w rule: post_attempt.induct)
  case (1 c path biz k w)
  then show ?case by (simp add: postOnce_confirmed)
next
  case (2 c path biz k left w)
  obtain r w1 where p: "postOnce c path biz w = (r, w1)" by (metis surj_pair)
  show ?case
  proof (cases r)
    case (Inr x)
    then show ?thesis using 2(2) p postOnce_confirmed by fastforce
  next
    case (Inl e)
    obtain j w2 where j: "ec_Jitter c rateRetryBase w1 = (j, w2)" by (metis surj_pair)
    obtain s w3 where s: "ec_Sleep c (rateRetryBase * 2 ^ k + j) w2 = (s, w3)" by (metis surj_pair)
    have lim: "errors_Is (Some e) ErrRateLimited" using 2(2) p Inl by (simp split: if_splits)
    have "post_attempt c path biz (k + 1) left w3 = (Inr d, w')" "s = None"
      using 2(2) p Inl lim j s by (cases s; simp)+
    then show ?thesis using 2(1)[OF p[symmetric] Inl lim j[symmetric] s[symmetric]] by simp
  qed
qed

text \<open>C21: A call counts as successful only when the platform answered it with HTTP 200 and result code 0, and its value is
  that answer's payload: error statuses, envelopes without a code, and rate-limited attempts never pass for success.\<close>

theorem eco_post_fails_closed:
  assumes "eco_post c path biz read zero w = (Inr v, w')"
  shows "\<exists>d. confirmed_answer c path biz d \<and> payload_of path read zero d = Inr v"
proof -
  obtain r w1 where p: "postData c path biz w = (r, w1)" by (metis surj_pair)
  obtain d where r: "r = Inr d" using assms p by (cases r) (simp_all add: eco_post_def)
  have "confirmed_answer c path biz d" using p post_confirmed r unfolding postData_def by metis
  then show ?thesis using assms p r by (auto simp: eco_post_def)
qed

section \<open>The inventory\<close>

text \<open>The pages a run of calls reads, from page \<open>i\<close> on.\<close>

fun read_pages :: "'w eco_client \<Rightarrow> int \<Rightarrow> nat \<Rightarrow> 'w \<Rightarrow> (goerr + stock_page list) \<times> 'w" where
  "read_pages c i 0 w = (Inr [], w)"
| "read_pages c i (Suc n) w =
    (case eco_post c stock_path (stock_request i) (read_struct stock_page_fields no_stock_page) no_stock_page w of
       (Inl e, w) \<Rightarrow> (Inl e, w)
     | (Inr p, w) \<Rightarrow> (case read_pages c (i + 1) n w of (Inl e, w) \<Rightarrow> (Inl e, w) | (Inr ps, w) \<Rightarrow> (Inr (p # ps), w)))"

definition page_rows :: "stock_page \<Rightarrow> stock_item list" where
  "page_rows p = (case sp_PageResult p of None \<Rightarrow> [] | Some xs \<Rightarrow> xs)"

definition page_closes :: "stock_page \<Rightarrow> nat \<Rightarrow> bool" where
  "page_closes p n \<longleftrightarrow> (case sp_TotalRecord p of Some t \<Rightarrow> t = int n | None \<Rightarrow> length (page_rows p) < 100)"

lemma completePage_True: "completePage tot rows seen = Inr True \<Longrightarrow> (case tot of Some t \<Rightarrow> t = seen | None \<Rightarrow> rows < 100)"
  by (auto simp: completePage_def split: if_splits option.splits)

lemma completePage_False: "completePage tot rows seen = Inr False \<Longrightarrow> rows = 100"
  by (auto simp: completePage_def split: if_splits option.splits)

lemma inventory_pages_complete:
  "inventory_pages c n i out w = (Inr items, w') \<Longrightarrow>
    \<exists>ps. ps \<noteq> [] \<and> length ps \<le> n \<and> read_pages c i (length ps) w = (Inr ps, w') \<and> items = out @ map inventory_of (concat (map page_rows ps))
      \<and> (\<forall>p \<in> set (butlast ps). length (page_rows p) = 100) \<and> page_closes (last ps) (length items)"
proof (induction c n i out w rule: inventory_pages.induct)
  case (2 c n i out w)
  obtain r w1 where p: "eco_post c stock_path (stock_request i) (read_struct stock_page_fields no_stock_page) no_stock_page w = (r, w1)" by (metis surj_pair)
  obtain p0 where r: "r = Inr p0" using 2(2) p by (cases r) simp_all
  let ?rows = "page_rows p0" and ?out = "out @ map inventory_of (page_rows p0)"
  have rows: "(case sp_PageResult p0 of None \<Rightarrow> [] | Some xs \<Rightarrow> xs) = ?rows" by (simp add: page_rows_def)
  have ne: "\<not> (sp_PageResult p0 = None \<and> sp_TotalRecord p0 = None)" using 2(2) p r by (auto split: if_splits)
  obtain b where b: "completePage (sp_TotalRecord p0) (int (length ?rows)) (int (length ?out)) = Inr b"
    using 2(2) p r ne by (cases "completePage (sp_TotalRecord p0) (int (length ?rows)) (int (length ?out))") (simp_all add: Let_def rows)
  show ?case
  proof (cases b)
    case True
    then have i: "items = ?out" "w' = w1" using 2(2) p r ne b by (simp_all add: Let_def rows)
    have "page_closes p0 (length items)" using completePage_True[of "sp_TotalRecord p0"] b True i by (fastforce simp: page_closes_def split: option.splits)
    then show ?thesis using p r i by (intro exI[of _ "[p0]"]) simp
  next
    case False
    then have rest: "inventory_pages c n (i + 1) ?out w1 = (Inr items, w')" using 2(2) p r ne b by (simp add: Let_def rows)
    have bF: "completePage (sp_TotalRecord p0) (int (length ?rows)) (int (length ?out)) = Inr False" using b False by simp
    have l: "length ?rows = 100" using completePage_False b False by fastforce
    from 2(1)[OF p[symmetric] r ne, unfolded rows, OF refl refl bF refl rest]
    obtain ps where ps: "ps \<noteq> []" "length ps \<le> n" "read_pages c (i + 1) (length ps) w1 = (Inr ps, w')"
      "items = ?out @ map inventory_of (concat (map page_rows ps))" "\<forall>p \<in> set (butlast ps). length (page_rows p) = 100"
      "page_closes (last ps) (length items)" by blast
    then show ?thesis using p r l by (intro exI[of _ "p0 # ps"]) auto
  qed
qed simp

text \<open>C22: An inventory that is returned is whole: it is the rows of consecutive pages from the first on, all of them full
  except possibly the last, and it has as many rows as the last page advertises. A snapshot cut short is an error.\<close>

theorem eco_inventory_whole:
  assumes "eco_Inventory c w = (Inr items, w')"
  shows "\<exists>ps. ps \<noteq> [] \<and> length ps \<le> 500 \<and> read_pages c 1 (length ps) w = (Inr ps, w') \<and> items = map inventory_of (concat (map page_rows ps))
    \<and> (\<forall>p \<in> set (butlast ps). length (page_rows p) = 100) \<and> page_closes (last ps) (length items)"
  using inventory_pages_complete[of c maxListPages 1 "[]" w items w'] assms by (simp add: eco_Inventory_def maxListPages_def)

section \<open>Delisting\<close>

lemma check_delists_ok:
  "check_delists expected seen rs = None \<Longrightarrow> seen \<subseteq> expected \<Longrightarrow>
    (\<forall>r \<in> set rs. dr_IsSuccess r \<and> dr_GoodsNum r \<in> expected - seen) \<and> distinct (map dr_GoodsNum rs)"
  by (induction expected seen rs rule: check_delists.induct) (fastforce split: if_splits)+

text \<open>C23: A delist without error is confirmed for every listing it names: the platform answered with exactly one result for
  each, all of them successful.\<close>

theorem eco_delist_confirmed:
  assumes "eco_Delist c refs w = (None, w')" "refs \<noteq> []"
  shows "\<exists>results. OffshelfRentGoods c refs w = (Inr results, w') \<and> (\<forall>r \<in> set results. dr_IsSuccess r)
    \<and> distinct (map dr_GoodsNum results) \<and> set (map dr_GoodsNum results) = set refs"
proof -
  obtain r w1 where o: "OffshelfRentGoods c refs w = (r, w1)" by (metis surj_pair)
  obtain rs where r: "r = Inr rs" and k: "length rs = card (set refs)" "check_delists (set refs) {} rs = None" "w' = w1"
    using assms o by (cases r) (auto simp: eco_Delist_def split: if_splits)
  have ok: "\<forall>x \<in> set rs. dr_IsSuccess x \<and> dr_GoodsNum x \<in> set refs" "distinct (map dr_GoodsNum rs)"
    using check_delists_ok[OF k(2)] by auto
  have "set (map dr_GoodsNum rs) \<subseteq> set refs" using ok(1) by auto
  then have "set (map dr_GoodsNum rs) = set refs"
    using k(1) distinct_card[OF ok(2)] by (intro card_subset_eq) simp_all
  then show ?thesis using o r k(3) ok by blast
qed

section \<open>The windows of the order query\<close>

lemma order_windows_facts:
  assumes "(s, e) \<in> set (order_windows cursor end')"
  shows "cursor \<le> s \<and> s \<le> e \<and> e \<le> end' \<and> e - s \<le> order_chunk"
  using assms
proof (induction cursor end' rule: order_windows.induct)
  case (1 cursor end')
  then show ?case by (subst (asm) (2) order_windows.simps) (auto simp: order_chunk_def Hour_def Minute_def Second_def split: if_splits)
qed

lemma order_windows_cover:
  assumes "start + int k * Second \<le> end'"
  shows "\<exists>(s, e) \<in> set (order_windows start end'). s \<le> start + int k * Second \<and> start + int k * Second \<le> e"
  using assms
proof (induction start end' arbitrary: k rule: order_windows.induct)
  case (1 start end')
  have ne: "\<not> end' < start" using 1(2) by (simp add: Second_def)
  show ?case
  proof (cases "start + int k * Second \<le> start + order_chunk")
    case True
    then show ?thesis using 1(2) ne by (subst order_windows.simps) (auto simp: Second_def)
  next
    case False
    then have k: "30 * 24 * 3600 < k" by (simp add: order_chunk_def Hour_def Minute_def Second_def)
    let ?k = "k - (30 * 24 * 3600 + 1)"
    have e: "start + order_chunk + Second + int ?k * Second = start + int k * Second"
      using k by (simp add: order_chunk_def Hour_def Minute_def Second_def of_nat_diff algebra_simps)
    from 1(1)[OF ne, of ?k, unfolded e, OF 1(2)]
    have "\<exists>(s, e) \<in> set (order_windows (start + order_chunk + Second) end'). s \<le> start + int k * Second \<and> start + int k * Second \<le> e" .
    then show ?thesis using ne by (subst order_windows.simps) auto
  qed
qed

lemma order_windows_number: "int (length (order_windows cursor end')) * (order_chunk + Second) \<le> max 0 (end' - cursor + order_chunk + Second)"
proof (induction cursor end' rule: order_windows.induct)
  case (1 cursor end')
  then show ?case by (subst order_windows.simps) (auto simp: order_chunk_def Hour_def Minute_def Second_def algebra_simps)
qed

text \<open>C24: Whatever range is asked for, the order query is cut into at most thirteen windows of at most thirty days, none outside
  the last year, that together cover every second of the range since its (clipped) start.\<close>

theorem order_query_covers_range:
  assumes "ws = order_windows (order_start start end') end'"
  shows "length ws \<le> 13
    \<and> (\<forall>(s, e) \<in> set ws. start \<le> s \<and> end' - 365 * 24 * Hour \<le> s \<and> s \<le> e \<and> e \<le> end' \<and> e - s \<le> 30 * 24 * Hour)
    \<and> (\<forall>k. order_start start end' + int k * Second \<le> end' \<longrightarrow>
          (\<exists>(s, e) \<in> set ws. s \<le> order_start start end' + int k * Second \<and> order_start start end' + int k * Second \<le> e))"
proof (intro conjI)
  have st: "start \<le> order_start start end'" "end' - 365 * 24 * Hour \<le> order_start start end'" by (simp_all add: order_start_def)
  show "length ws \<le> 13"
    using order_windows_number[of "order_start start end'" end'] st(2) by (simp add: assms order_chunk_def Hour_def Minute_def Second_def)
  show "\<forall>(s, e) \<in> set ws. start \<le> s \<and> end' - 365 * 24 * Hour \<le> s \<and> s \<le> e \<and> e \<le> end' \<and> e - s \<le> 30 * 24 * Hour"
    using order_windows_facts[of _ _ "order_start start end'" end'] st by (fastforce simp: assms order_chunk_def)
  show "\<forall>k. order_start start end' + int k * Second \<le> end' \<longrightarrow>
      (\<exists>(s, e) \<in> set ws. s \<le> order_start start end' + int k * Second \<and> order_start start end' + int k * Second \<le> e)"
    using order_windows_cover unfolding assms by blast
qed

section \<open>Repricing\<close>

text \<open>When the platform refuses a reprice call (a rate limit, a block, expired credentials), the adapter reports a partial
  failure instead, and that error backs the channel off for no time at all: the signal the scheduler waits for is lost.\<close>

theorem eco_reprice_loses_risk_signals:
  assumes "PublishRentAndSale c steamID 2 (map reprice_item_of items) w = (Inl e, w')" "items \<noteq> []"
  shows "\<exists>out x. eco_RepriceLease c steamID items w = ((out, Some x), w') \<and> errors_Is (Some x) ErrPartialFailure \<and> riskCooldown x = 0"
  using assms by (simp add: eco_RepriceLease_def Let_def partial_failure_def riskCooldown_def errors_Is_def)

section \<open>A platform that answers every call alike\<close>

definition fixed_platform :: "string \<Rightarrow> nat eco_client" where
  "fixed_platform body = \<lparr>ec_PartnerID = ''p'', ec_Limiter = (\<lambda>w. (None, w)), ec_Now = (\<lambda>w. (0, w)), ec_Sign = (\<lambda>_. Inr ''s''),
     ec_Do = (\<lambda>_ _ w. (Inr (200, body), w + 1)), ec_Jitter = (\<lambda>_ w. (0, w)), ec_Sleep = (\<lambda>_ w. (None, w))\<rparr>"

definition wallet_body :: string where
  \<open>wallet_body = ''{"ResultCode":"0","ResultData":{"Money":7}}''\<close>

definition stock_body :: string where
  \<open>stock_body = ''{"ResultCode":0,"ResultData":{"PageResult":[{"AssetId":"a","HashName":"h","Tradable":true,"Status":1}],"TotalRecord":1}}''\<close>

definition delist_body :: string where
  \<open>delist_body = ''{"ResultCode":0,"ResultData":[{"GoodsNum":"g","IsSuccess":true}]}''\<close>

definition limited_body :: string where
  \<open>limited_body = ''{"ResultCode":"6001"}''\<close>

theorem eco_post_fails_closed_witness:
  "\<exists>d. confirmed_answer (fixed_platform wallet_body) ''/w'' [] d \<and> payload_of ''/w'' Some JNull d = Inr (JObj [(''Money'', JInt 7)])"
proof -
  have "fst (eco_post (fixed_platform wallet_body) ''/w'' [] Some JNull 0) = Inr (JObj [(''Money'', JInt 7)])" by code_simp
  then obtain w' where "eco_post (fixed_platform wallet_body) ''/w'' [] Some JNull 0 = (Inr (JObj [(''Money'', JInt 7)]), w')" by (metis fst_conv surj_pair)
  then show ?thesis by (rule eco_post_fails_closed)
qed

theorem eco_inventory_whole_witness:
  "\<exists>items ps. length items = 1 \<and> items = map inventory_of (concat (map page_rows ps)) \<and> page_closes (last ps) (length items)"
proof -
  have l: "map_sum (\<lambda>_. ()) length (fst (eco_Inventory (fixed_platform stock_body) 0)) = Inr 1" by code_simp
  obtain r w' where e: "eco_Inventory (fixed_platform stock_body) 0 = (r, w')" by (metis surj_pair)
  with l obtain items where i: "r = Inr items" "length items = 1" by (cases r) simp_all
  show ?thesis using eco_inventory_whole[OF e[unfolded i(1)]] i(2) by blast
qed

theorem eco_delist_confirmed_witness:
  "\<exists>results w'. OffshelfRentGoods (fixed_platform delist_body) [''g''] 0 = (Inr results, w') \<and> set (map dr_GoodsNum results) = {''g''}"
proof -
  have "fst (eco_Delist (fixed_platform delist_body) [''g''] 0) = None" by code_simp
  then have "eco_Delist (fixed_platform delist_body) [''g''] 0 = (None, snd (eco_Delist (fixed_platform delist_body) [''g''] 0))"
    by (metis surjective_pairing)
  from eco_delist_confirmed[OF this] show ?thesis by auto
qed

theorem order_query_covers_range_witness: "length (order_windows (order_start 0 (100 * 24 * Hour)) (100 * 24 * Hour)) \<le> 13"
  using order_query_covers_range[OF refl, of 0 "100 * 24 * Hour"] by blast

theorem eco_reprice_loses_risk_signals_witness:
  "\<exists>out x w'. eco_RepriceLease (fixed_platform limited_body) ''s''
      [\<lparr>rq_GoodsRef = ''g'', rq_AssetRef = ''a'', rq_RentPrice = Fin 1, rq_LongRentPrice = Fin 0, rq_MaxDays = 8, rq_Deposit = Fin 9\<rparr>] 0 = ((out, Some x), w')
    \<and> riskCooldown x = 0"
proof -
  let ?q = "\<lparr>rq_GoodsRef = ''g'', rq_AssetRef = ''a'', rq_RentPrice = Fin 1, rq_LongRentPrice = Fin 0, rq_MaxDays = 8, rq_Deposit = Fin 9\<rparr>"
  let ?call = "PublishRentAndSale (fixed_platform limited_body) ''s'' 2 (map reprice_item_of [?q]) 0"
  have "isl (fst ?call)" by code_simp
  then obtain e w' where "?call = (Inl e, w')" by (metis isl_def prod.collapse)
  from eco_reprice_loses_risk_signals[OF this] show ?thesis by auto
qed

end
