(* ===== verification/EcoDelivery.thy ===== *)
theory EcoDelivery
  imports ReconJob EcoProps RepriceProps
begin

text \<open>
  The ECO delivery job (\<open>internal/scheduler/eco_delivery.go\<close>) over the client \<open>cmd/server/main.go\<close> gives it, which looks up
  the configured ECO client at each call, refuses while the channel cools down and notes every error. The Steam side is a
  parameter. The state of a run is the job's and the offers it remembers as accepted.
\<close>

section \<open>The live client\<close>

definition ErrUnsupported_err :: goerr where
  "ErrUnsupported_err = \<lparr>Error = ''platform: operation unsupported by channel'', wrapped = [ErrUnsupported]\<rparr>"

definition error_of :: "goerr + 'a \<Rightarrow> goerr option" where
  "error_of r = (case r of Inl e \<Rightarrow> Some e | Inr _ \<Rightarrow> None)"

definition live_call :: "Deps \<Rightarrow> 'w eco_client option \<Rightarrow> ('w eco_client \<Rightarrow> 'w \<Rightarrow> (goerr + 'a) \<times> 'w) \<Rightarrow> 'w job_state \<Rightarrow> (goerr + 'a) \<times> 'w job_state" where
  "live_call d client f st =
    (case job_ChannelReady d ChannelECO st of
       (False, st) \<Rightarrow> (Inl rate_limited, st)
     | (True, st) \<Rightarrow>
        (case client of
           None \<Rightarrow> (Inl ErrUnsupported_err, st)
         | Some c \<Rightarrow> (case on_world (f c) st of (r, st) \<Rightarrow> (r, NoteChannelError d ChannelECO (error_of r) st))))"

section \<open>A run\<close>

record 'w delivery =
  dl_job :: "'w job_state"
  dl_accepted :: "string set"

text \<open>What a run works with: the clock and cooldowns, the client, and Steam.\<close>

record 'w EcoDeliveryDeps =
  ed_Deps :: Deps
  ed_Eco :: "'w eco_client option"
  ed_Accept :: "string \<Rightarrow> 'w \<Rightarrow> (goerr + bool) \<times> 'w"

definition in_run :: "('w job_state \<Rightarrow> 'a \<times> 'w job_state) \<Rightarrow> 'w delivery \<Rightarrow> 'a \<times> 'w delivery" where
  "in_run f dl = (case f (dl_job dl) of (r, st) \<Rightarrow> (r, dl\<lparr>dl_job := st\<rparr>))"

definition delivery_audit :: "'w EcoDeliveryDeps \<Rightarrow> string \<Rightarrow> string \<Rightarrow> (string \<times> json) list \<Rightarrow> 'w delivery \<Rightarrow> 'w delivery" where
  "delivery_audit d action target detail dl =
    (case in_run (time_Now (ed_Deps d)) dl of (now, dl) \<Rightarrow>
       snd (in_run (on_store (InsertAudit \<lparr>ae_Time = now, ae_Actor = ''system'', ae_Action = action, ae_Channel = ''eco'', ae_Target = target,
         ae_Detail = Some detail\<rparr>)) dl))"

definition delivery_warn :: "'w EcoDeliveryDeps \<Rightarrow> string \<Rightarrow> string \<Rightarrow> goerr \<Rightarrow> 'w delivery \<Rightarrow> 'w delivery" where
  "delivery_warn d action target e = delivery_audit d action target [(''error'', JStr (Error e))]"

definition acceptedSetMax :: nat where
  "acceptedSetMax = 10000"

definition remember :: "string \<Rightarrow> string set \<Rightarrow> string set" where
  "remember offerID A = (let A = insert offerID A in if acceptedSetMax < card A then {offerID} else A)"

definition markAccepted :: "'w EcoDeliveryDeps \<Rightarrow> string \<Rightarrow> string \<Rightarrow> string \<Rightarrow> 'w delivery \<Rightarrow> 'w delivery" where
  "markAccepted d offerID goodsName orderNum dl =
    delivery_audit d ''order.delivered'' goodsName [(''order'', JStr orderNum), (''offer'', JStr offerID)]
      (dl\<lparr>dl_accepted := remember offerID (dl_accepted dl)\<rparr>)"

text \<open>One order's errors, and whether the pass goes on: a risk signal ends it.\<close>

type_synonym outcome = "goerr list \<times> bool"

definition failed_call :: "'w EcoDeliveryDeps \<Rightarrow> string \<Rightarrow> string \<Rightarrow> string \<Rightarrow> goerr \<Rightarrow> 'w delivery \<Rightarrow> outcome \<times> 'w delivery" where
  "failed_call d action what orderNum e dl = (([Wrap (what @ orderNum @ '': '') e], riskCooldown e = 0), delivery_warn d action orderNum e dl)"

definition accept_offer :: "'w EcoDeliveryDeps \<Rightarrow> string \<Rightarrow> string \<Rightarrow> string \<Rightarrow> string \<Rightarrow> string \<Rightarrow> 'w delivery \<Rightarrow> outcome \<times> 'w delivery" where
  "accept_offer d action what offerID goodsName orderNum dl =
    (if offerID \<in> dl_accepted dl then (([], True), dl)
     else case in_run (on_world (ed_Accept d offerID)) dl of
         (Inl e, dl) \<Rightarrow> (([Wrap (what @ offerID @ '': '') e], True), delivery_warn d action offerID e dl)
       | (Inr ok, dl) \<Rightarrow> (([], True), if ok then markAccepted d offerID goodsName orderNum dl else dl))"

definition eco_call :: "'w EcoDeliveryDeps \<Rightarrow> ('w eco_client \<Rightarrow> 'w \<Rightarrow> (goerr + 'a) \<times> 'w) \<Rightarrow> 'w delivery \<Rightarrow> (goerr + 'a) \<times> 'w delivery" where
  "eco_call d f = in_run (live_call (ed_Deps d) (ed_Eco d) f)"

section \<open>Sale orders\<close>

definition deliver_detail :: "'w EcoDeliveryDeps \<Rightarrow> SellerOrder \<Rightarrow> 'w delivery \<Rightarrow> outcome \<times> 'w delivery" where
  "deliver_detail d x dl =
    (case eco_call d (\<lambda>c. Detail c (se_OrderNum x)) dl of
       (Inl e, dl) \<Rightarrow> failed_call d ''order.detail_failed'' ''eco order detail '' (se_OrderNum x) e dl
     | (Inr detail, dl) \<Rightarrow>
        if sd_TradeOfferID detail = '''' then (([], True), dl)
        else accept_offer d ''order.accept_offer_failed'' ''steam accept '' (sd_TradeOfferID detail) (se_GoodsName x) (se_OrderNum x) dl)"

definition deliver_order :: "'w EcoDeliveryDeps \<Rightarrow> SellerOrder \<Rightarrow> 'w delivery \<Rightarrow> outcome \<times> 'w delivery" where
  "deliver_order d x dl =
    (if se_OrderStateCode x = 1
     then case eco_call d (\<lambda>c. SendOffer c (se_OrderNum x)) dl of
         (Inl e, dl) \<Rightarrow> failed_call d ''order.send_offer_failed'' ''eco send offer '' (se_OrderNum x) e dl
       | (Inr _, dl) \<Rightarrow> deliver_detail d x dl
     else deliver_detail d x dl)"

section \<open>Rent orders\<close>

definition deliver_rent :: "'w EcoDeliveryDeps \<Rightarrow> SellerRentOrder \<Rightarrow> 'w delivery \<Rightarrow> outcome \<times> 'w delivery" where
  "deliver_rent d x dl =
    (case eco_call d (\<lambda>c. SellerRentOrderDetail c (rt_OrderNum x)) dl of
       (Inl e, dl) \<Rightarrow> failed_call d ''rent.detail_failed'' ''eco rent detail '' (rt_OrderNum x) e dl
     | (Inr detail, dl) \<Rightarrow>
        if rd_OfferID detail = ''''
        then (if rd_SendOfferRole detail = 2
              then case eco_call d (\<lambda>c. SendOffer c (rt_OrderNum x)) dl of
                  (Inl e, dl) \<Rightarrow> failed_call d ''rent.send_offer_failed'' ''eco rent send offer '' (rt_OrderNum x) e dl
                | (Inr _, dl) \<Rightarrow> (([], True), dl)
              else (([], True), dl))
        else accept_offer d ''rent.accept_offer_failed'' ''steam accept rent '' (rd_OfferID detail) (rd_HashName detail) (rt_OrderNum x) dl)"

text \<open>A pass over orders: the errors so far, and whether it ran to its end.\<close>

fun deliver_all :: "('x \<Rightarrow> 'w delivery \<Rightarrow> outcome \<times> 'w delivery) \<Rightarrow> 'x list \<Rightarrow> 'w delivery \<Rightarrow> outcome \<times> 'w delivery" where
  "deliver_all f [] dl = (([], True), dl)"
| "deliver_all f (x # xs) dl =
    (case f x dl of
       ((es, False), dl) \<Rightarrow> ((es, False), dl)
     | ((es, True), dl) \<Rightarrow> (case deliver_all f xs dl of ((fs, go), dl) \<Rightarrow> ((es @ fs, go), dl)))"

definition runRentDelivery :: "'w EcoDeliveryDeps \<Rightarrow> instant \<Rightarrow> instant \<Rightarrow> 'w delivery \<Rightarrow> goerr option \<times> 'w delivery" where
  "runRentDelivery d start end' dl =
    (case eco_call d (\<lambda>c. SellerRentOrderList c start end' [2]) dl of
       (Inl e, dl) \<Rightarrow> (if errors_Is (Some e) ErrUnsupported then None else Some (Wrap ''eco: rent order list: '' e), dl)
     | (Inr orders, dl) \<Rightarrow> (case deliver_all (deliver_rent d) orders dl of ((es, go), dl) \<Rightarrow> (errors_Join es, dl)))"

definition RunECODelivery :: "'w EcoDeliveryDeps \<Rightarrow> 'w delivery \<Rightarrow> goerr option \<times> 'w delivery" where
  "RunECODelivery d dl =
    (case in_run (time_Now (ed_Deps d)) dl of (now, dl) \<Rightarrow>
       let end' = now + 24 * Hour; start = end' - 31 * 24 * Hour
       in (case eco_call d (\<lambda>c. SellerOrderList c start end' (Some 8) '''') dl of
             (Inl e, dl) \<Rightarrow> (if errors_Is (Some e) ErrUnsupported then None else Some (Wrap ''eco: order list: '' e), dl)
           | (Inr orders, dl) \<Rightarrow>
              (case deliver_all (deliver_order d) orders dl of
                 ((es, False), dl) \<Rightarrow> (errors_Join es, dl)
               | ((es, True), dl) \<Rightarrow> (case runRentDelivery d start end' dl of (err, dl) \<Rightarrow> (errors_Join (es @ opt_list err), dl)))))"

section \<open>What a run remembers\<close>

definition memory_ok :: "string \<Rightarrow> 'w delivery \<Rightarrow> bool" where
  "memory_ok x dl \<longleftrightarrow> finite (dl_accepted dl) \<and> card (dl_accepted dl) \<le> acceptedSetMax \<and> x \<notin> dl_accepted dl"

lemma in_run_accepted: "in_run f dl = (r, dl') \<Longrightarrow> dl_accepted dl' = dl_accepted dl"
  by (auto simp: in_run_def split: prod.splits)

lemma eco_call_accepted: "eco_call d f dl = (r, dl') \<Longrightarrow> dl_accepted dl' = dl_accepted dl"
  by (auto simp: eco_call_def dest: in_run_accepted)

lemma audit_accepted [simp]: "dl_accepted (delivery_audit d action target detail dl) = dl_accepted dl"
  "dl_accepted (delivery_warn d action target e dl) = dl_accepted dl"
  by (auto simp: delivery_audit_def delivery_warn_def in_run_def split: prod.split)

lemma failed_call_accepted: "failed_call d action what n e dl = (r, dl') \<Longrightarrow> dl_accepted dl' = dl_accepted dl"
  by (auto simp: failed_call_def)

lemma remember_ok: "finite A \<Longrightarrow> card A \<le> acceptedSetMax \<Longrightarrow> x \<notin> A \<Longrightarrow> x \<noteq> y \<Longrightarrow>
    finite (remember y A) \<and> card (remember y A) \<le> acceptedSetMax \<and> x \<notin> remember y A"
  by (simp add: remember_def Let_def acceptedSetMax_def)

lemma markAccepted_accepted: "dl_accepted (markAccepted d y g n dl) = remember y (dl_accepted dl)"
  by (simp add: markAccepted_def)

lemma accept_offer_memory:
  assumes "\<And>w. fst (ed_Accept d x w) \<noteq> Inr True" "memory_ok x dl" "accept_offer d action what offer g n dl = (r, dl')"
  shows "memory_ok x dl'"
proof (cases "offer \<in> dl_accepted dl")
  case False
  obtain a dl1 where a: "in_run (on_world (ed_Accept d offer)) dl = (a, dl1)" by (metis surj_pair)
  note k = in_run_accepted[OF a]
  show ?thesis
  proof (cases a)
    case (Inl e)
    then have "dl' = delivery_warn d action offer e dl1" using assms(3) False a by (simp add: accept_offer_def)
    then show ?thesis using assms(2) k by (simp add: memory_ok_def)
  next
    case (Inr ok)
    show ?thesis
    proof (cases ok)
      case True
      have "x \<noteq> offer"
      proof
        assume "x = offer"
        then have "fst (ed_Accept d x (js_world (dl_job dl))) = Inr True" using a Inr True by (simp add: in_run_def on_world_def split: prod.splits)
        then show False using assms(1) by blast
      qed
      moreover have "dl_accepted dl' = remember offer (dl_accepted dl)"
        using assms(3) False a k Inr True markAccepted_accepted[of d offer g n dl1] by (simp add: accept_offer_def) 
      ultimately show ?thesis using assms(2) remember_ok[of "dl_accepted dl" x offer] by (simp add: memory_ok_def)
    next
      case nok: False
      then have "dl' = dl1" using assms(3) False a Inr by (simp add: accept_offer_def)
      then show ?thesis using assms(2) k by (simp add: memory_ok_def)
    qed
  qed
qed (use assms in \<open>simp add: accept_offer_def\<close>)

lemma deliver_all_memory:
  assumes "\<And>y dl r dl'. memory_ok x dl \<Longrightarrow> f y dl = (r, dl') \<Longrightarrow> memory_ok x dl'" "memory_ok x dl" "deliver_all f ys dl = (r, dl')"
  shows "memory_ok x dl'"
  using assms(2,3)
proof (induction ys arbitrary: dl r dl')
  case (Cons y ys)
  obtain es b dl1 where y: "f y dl = ((es, b), dl1)" by (metis surj_pair)
  obtain fs go dl2 where t: "deliver_all f ys dl1 = ((fs, go), dl2)" by (metis surj_pair)
  have m: "memory_ok x dl1" using assms(1)[OF Cons.prems(1) y] .
  show ?case using Cons.prems(2) m Cons.IH[OF m t] by (cases b) (auto simp: y t)
qed simp

lemma memory_frame: "dl_accepted dl' = dl_accepted dl \<Longrightarrow> memory_ok x dl \<Longrightarrow> memory_ok x dl'"
  by (simp add: memory_ok_def)

lemma order_memory:
  assumes "\<And>w. fst (ed_Accept d x w) \<noteq> Inr True" "memory_ok x dl"
  shows "deliver_detail d y dl = (r, dl') \<Longrightarrow> memory_ok x dl'" "deliver_order d y dl = (r, dl') \<Longrightarrow> memory_ok x dl'"
    "deliver_rent d z dl = (r, dl') \<Longrightarrow> memory_ok x dl'"
proof -
  note keep = memory_frame[OF eco_call_accepted] memory_frame[OF failed_call_accepted]
  have det: "memory_ok x dl'" if "deliver_detail d y dl = (r, dl')" "memory_ok x dl" for dl :: "'a delivery" and r dl'
  proof -
    obtain a dl1 where a: "eco_call d (\<lambda>c. Detail c (se_OrderNum y)) dl = (a, dl1)" by (metis surj_pair)
    have m: "memory_ok x dl1" using keep(1)[OF a that(2)] .
    show ?thesis using that(1) m accept_offer_memory[OF assms(1) m] keep(2)[OF _ m] by (cases a) (auto simp: deliver_detail_def a split: if_splits)
  qed
  show "deliver_detail d y dl = (r, dl') \<Longrightarrow> memory_ok x dl'" using det assms(2) by blast
  show "memory_ok x dl'" if "deliver_order d y dl = (r, dl')"
  proof -
    obtain a dl1 where a: "eco_call d (\<lambda>c. SendOffer c (se_OrderNum y)) dl = (a, dl1)" by (metis surj_pair)
    have m: "memory_ok x dl1" using keep(1)[OF a assms(2)] .
    show ?thesis using that det[OF _ m] det[OF _ assms(2)] keep(2)[OF _ m] by (cases a) (auto simp: deliver_order_def a split: if_splits)
  qed
  show "memory_ok x dl'" if "deliver_rent d z dl = (r, dl')"
  proof -
    obtain a dl1 where a: "eco_call d (\<lambda>c. SellerRentOrderDetail c (rt_OrderNum z)) dl = (a, dl1)" by (metis surj_pair)
    obtain b dl2 where b: "eco_call d (\<lambda>c. SendOffer c (rt_OrderNum z)) dl1 = (b, dl2)" by (metis surj_pair)
    have m: "memory_ok x dl1" "memory_ok x dl2" using keep(1)[OF a assms(2)] keep(1)[OF b] by blast+
    show ?thesis using that m(2) accept_offer_memory[OF assms(1) m(1)] keep(2)[OF _ m(1)] keep(2)[OF _ m(2)] m(1)
      by (cases a; cases b) (auto simp: deliver_rent_def a b split: if_splits)
  qed
qed

lemma rent_pass_memory:
  assumes "\<And>w. fst (ed_Accept d x w) \<noteq> Inr True" "memory_ok x dl" "runRentDelivery d s e dl = (r, dl')"
  shows "memory_ok x dl'"
proof -
  obtain a dl1 where a: "eco_call d (\<lambda>c. SellerRentOrderList c s e [2]) dl = (a, dl1)" by (metis surj_pair)
  have m: "memory_ok x dl1" using memory_frame[OF eco_call_accepted[OF a] assms(2)] .
  show ?thesis
  proof (cases a)
    case (Inr orders)
    obtain es go dl2 where o: "deliver_all (deliver_rent d) orders dl1 = ((es, go), dl2)" by (metis surj_pair)
    have "memory_ok x dl2" by (rule deliver_all_memory[OF _ m o]) (rule order_memory(3)[OF assms(1)])
    then show ?thesis using assms(3) by (simp add: runRentDelivery_def a Inr o)
  qed (use assms(3) m in \<open>simp add: runRentDelivery_def a\<close>)
qed

text \<open>A delivery run never takes an offer for handled that Steam has not accepted (it is tried again in the next run), and it
  never remembers more than ten thousand offers.\<close>

theorem delivery_remembers_only_accepted:
  assumes "\<And>w. fst (ed_Accept d x w) \<noteq> Inr True" "x \<notin> dl_accepted dl" "finite (dl_accepted dl)" "card (dl_accepted dl) \<le> 10000"
    "RunECODelivery d dl = (r, dl')"
  shows "x \<notin> dl_accepted dl' \<and> finite (dl_accepted dl') \<and> card (dl_accepted dl') \<le> 10000"
proof -
  have m0: "memory_ok x dl" using assms(2-4) by (simp add: memory_ok_def acceptedSetMax_def)
  obtain now dl1 where n: "in_run (time_Now (ed_Deps d)) dl = (now, dl1)" by (metis surj_pair)
  define e where "e = now + 24 * Hour"
  define s where "s = e - 31 * 24 * Hour"
  obtain a dl2 where a: "eco_call d (\<lambda>c. SellerOrderList c s e (Some 8) '''') dl1 = (a, dl2)" by (metis surj_pair)
  have m2: "memory_ok x dl2" using memory_frame[OF eco_call_accepted[OF a] memory_frame[OF in_run_accepted[OF n] m0]] .
  note run = RunECODelivery_def[of d dl, unfolded n Let_def prod.case e_def[symmetric], unfolded s_def[symmetric] a prod.case]
  have "memory_ok x dl'"
  proof (cases a)
    case (Inl e)
    then show ?thesis using assms(5) m2 by (simp add: run)
  next
    case (Inr orders)
    obtain es go dl3 where o: "deliver_all (deliver_order d) orders dl2 = ((es, go), dl3)" by (metis surj_pair)
    have m3: "memory_ok x dl3" by (rule deliver_all_memory[OF _ m2 o]) (rule order_memory(2)[OF assms(1)])
    obtain err dl4 where q: "runRentDelivery d s e dl3 = (err, dl4)" by (metis surj_pair)
    have m4: "memory_ok x dl4" by (rule rent_pass_memory[OF assms(1) m3 q])
    show ?thesis using assms(5) m3 m4 by (cases go) (simp_all add: run Inr o q)
  qed
  then show ?thesis by (simp add: memory_ok_def acceptedSetMax_def)
qed

section \<open>A run over one order of each kind\<close>

definition orders_body :: string where
  \<open>orders_body = ''{"ResultCode":"0","ResultData":{"PageResult":[{"OrderNum":"n","OrderStateCode":8}],"TradeOfferId":"a"}}''\<close>

definition one_offer :: "nat EcoDeliveryDeps" where
  "one_offer = \<lparr>ed_Deps = \<lparr>dd_DryRun = False, dd_Clock = (\<lambda>_. 0), dd_Audit = True\<rparr>, ed_Eco = Some (fixed_platform orders_body),
     ed_Accept = (\<lambda>offer w. (Inr (offer = ''a''), w))\<rparr>"

definition fresh_delivery :: "nat delivery" where
  "fresh_delivery = \<lparr>dl_job = reprice_job True, dl_accepted = {}\<rparr>"

theorem delivery_remembers_only_accepted_witness:
  "\<exists>r dl'. RunECODelivery one_offer fresh_delivery = (r, dl') \<and> ''b'' \<notin> dl_accepted dl' \<and> card (dl_accepted dl') \<le> 10000"
  using delivery_remembers_only_accepted[of one_offer "''b''" fresh_delivery, OF _ _ _ _ prod.collapse[symmetric]]
  by (intro exI[of _ "fst (RunECODelivery one_offer fresh_delivery)"] exI[of _ "snd (RunECODelivery one_offer fresh_delivery)"])
    (simp add: one_offer_def fresh_delivery_def)

end
