(* ===== verification/UuText.thy ===== *)
theory UuText
  imports EcoClient "HOL-Library.Sublist"
begin

text \<open>
  Texts of the UU client (\<open>internal/platform/uu\<close>): the numbers it reads out of strings with \<open>strconv\<close>, white space, request
  headers (\<open>generateHeaders\<close>, \<open>headers\<close>, \<open>loginHeaders\<close> in \<open>client.go\<close>) and padding (\<open>crypto.go\<close>).
\<close>

section \<open>Integers\<close>

text \<open>\<open>strconv.ParseInt(s, 10, 64)\<close> accepts what \<open>strconv.Atoi\<close> accepts on a machine of 64 bits.\<close>

definition ParseInt :: "string \<Rightarrow> int option" where
  "ParseInt = Atoi"

section \<open>Floats\<close>

text \<open>The mantissa of a literal: digits (hexadecimal ones after a prefix), underscores and one point; and what follows.\<close>

fun scan_mantissa :: "bool \<Rightarrow> bool \<Rightarrow> string \<Rightarrow> string \<times> string" where
  "scan_mantissa hex dot [] = ([], [])"
| "scan_mantissa hex dot (c # cs) =
    (if c = CHR ''_'' \<or> is_digit c \<or> (hex \<and> hex_value c \<noteq> None) then (case scan_mantissa hex dot cs of (m, r) \<Rightarrow> (c # m, r))
     else if c = CHR ''.'' \<and> \<not> dot then (case scan_mantissa hex True cs of (m, r) \<Rightarrow> (c # m, r))
     else ([], c # cs))"

definition without_underscores :: "string \<Rightarrow> string" where
  "without_underscores s = filter (\<lambda>c. c \<noteq> CHR ''_'') s"

definition hex_number :: "string \<Rightarrow> int" where
  "hex_number s = foldl (\<lambda>n c. 16 * n + (case hex_value c of None \<Rightarrow> 0 | Some d \<Rightarrow> d)) 0 s"

text \<open>An exponent stops growing at five digits.\<close>

definition exponent_value :: "string \<Rightarrow> int" where
  "exponent_value s = foldl (\<lambda>e c. if e < 10000 then 10 * e + digits_value [c] else e) 0 s"

definition split_sign :: "string \<Rightarrow> bool \<times> string" where
  "split_sign s = (case s of [] \<Rightarrow> (False, []) | c # r \<Rightarrow> if c = CHR ''-'' then (True, r) else if c = CHR ''+'' then (False, r) else (False, s))"

text \<open>What follows the exponent character: the exponent, if it is well formed to the end of the text.\<close>

definition scan_exponent :: "string \<Rightarrow> int option" where
  "scan_exponent s = (case split_sign s of (neg, r) \<Rightarrow>
     (case r of
        [] \<Rightarrow> None
      | c # _ \<Rightarrow> if is_digit c \<and> list_all (\<lambda>d. is_digit d \<or> d = CHR ''_'') r
          then Some ((if neg then -1 else 1) * exponent_value (without_underscores r)) else None))"

text \<open>Every underscore stands between digits, or between a base prefix and a digit; \<open>saw\<close> is the kind of the last character.\<close>

fun underscores_after :: "bool \<Rightarrow> char \<Rightarrow> string \<Rightarrow> bool" where
  "underscores_after hex saw [] \<longleftrightarrow> saw \<noteq> CHR ''_''"
| "underscores_after hex saw (c # cs) \<longleftrightarrow>
    (if is_digit c \<or> (hex \<and> hex_value c \<noteq> None) then underscores_after hex (CHR ''0'') cs
     else if c = CHR ''_'' then saw = CHR ''0'' \<and> underscores_after hex (CHR ''_'') cs
     else saw \<noteq> CHR ''_'' \<and> underscores_after hex (CHR ''!'') cs)"

definition base_prefix :: "string \<Rightarrow> char option" where
  "base_prefix s = (case s of z # x # _ \<Rightarrow> if z = CHR ''0'' \<and> lower x \<in> {CHR ''b'', CHR ''o'', CHR ''x''} then Some (lower x) else None | _ \<Rightarrow> None)"

definition underscoreOK :: "string \<Rightarrow> bool" where
  "underscoreOK s = (case base_prefix s of
      None \<Rightarrow> underscores_after False (CHR 0x5E) s
    | Some b \<Rightarrow> underscores_after (b = CHR ''x'') (CHR ''0'') (drop 2 s))"

text \<open>A literal without its sign, as an exact number.\<close>

definition float_literal :: "string \<Rightarrow> rat option" where
  "float_literal s =
    (let hex = (2 < length s \<and> base_prefix s = Some (CHR ''x''));
         (m, r) = scan_mantissa hex False (if hex then drop 2 s else s);
         ds = without_underscores m; whole = takeWhile (\<lambda>c. c \<noteq> CHR ''.'') ds; frac = drop (length whole + 1) ds;
         expo = (if r = [] then (if hex then None else Some 0)
                 else if lower (hd r) = (if hex then CHR ''p'' else CHR ''e'') then scan_exponent (tl r) else None)
     in if whole = [] \<and> frac = [] \<or> (CHR ''_'' \<in> set s \<and> \<not> underscoreOK s) then None
        else case expo of
            None \<Rightarrow> None
          | Some e \<Rightarrow> Some (if hex then of_int (hex_number (whole @ frac)) * (if 4 * int (length frac) \<le> e then 2 ^ nat (e - 4 * int (length frac))
                                                                               else 1 / 2 ^ nat (4 * int (length frac) - e))
                            else rat10 (digits_value (whole @ frac)) (e - int (length frac))))"

text \<open>\<open>strconv.ParseFloat(s, 64)\<close>: \<open>None\<close> for a syntax error; a number out of range is an infinity (and an error the callers drop).\<close>

definition ParseFloat :: "string \<Rightarrow> f64 option" where
  "ParseFloat s =
    (case split_sign s of (neg, t) \<Rightarrow>
       if map lower t = ''inf'' \<or> map lower t = ''infinity'' then Some (if neg then NInf else PInf)
       else if map lower s = ''nan'' then Some NaN
       else map_option (\<lambda>r. rnd (if neg then - r else r)) (float_literal t))"

text \<open>\<open>strF\<close> in \<open>endpoints.go\<close>.\<close>

definition strF :: "string \<Rightarrow> f64" where
  "strF s = (case ParseFloat s of None \<Rightarrow> Fin 0 | Some v \<Rightarrow> v)"

definition strFDeref :: "string option \<Rightarrow> f64" where
  "strFDeref s = (case s of None \<Rightarrow> Fin 0 | Some v \<Rightarrow> strF v)"

section \<open>White space\<close>

text \<open>The bytes of the white space a text starts with (\<open>unicode.IsSpace\<close> in UTF-8).\<close>

definition unicode_spaces :: "string list" where
  "unicode_spaces = map utf8 ([9, 10, 11, 12, 13, 32, 0x85, 0xA0, 0x1680] @ map (\<lambda>i. 0x2000 + i) [0, 1, 2, 3, 4, 5, 6, 7, 8, 9, 10]
     @ [0x2028, 0x2029, 0x202F, 0x205F, 0x3000])"

fun trim_from :: "string list \<Rightarrow> nat \<Rightarrow> string \<Rightarrow> string" where
  "trim_from sps 0 s = s"
| "trim_from sps (Suc n) s = (case find (\<lambda>sp. prefix sp s) sps of None \<Rightarrow> s | Some sp \<Rightarrow> trim_from sps n (drop (length sp) s))"

definition TrimLeftSpace :: "string \<Rightarrow> string" where
  "TrimLeftSpace s = trim_from unicode_spaces (length s) s"

definition TrimSpace :: "string \<Rightarrow> string" where
  "TrimSpace s = rev (trim_from (map rev unicode_spaces) (length s) (rev (TrimLeftSpace s)))"

definition isJSON :: "string \<Rightarrow> bool" where
  "isJSON b = (case TrimSpace b of [] \<Rightarrow> False | c # _ \<Rightarrow> c = CHR ''{'' \<or> c = CHR ''['')"

section \<open>Headers\<close>

type_synonym header = "(string \<times> string) list"

definition upper :: "char \<Rightarrow> char" where
  "upper c = (if (of_char c :: int) \<ge> 97 \<and> (of_char c :: int) \<le> 122 then char_of (of_char c - 32 :: int) else c)"

text \<open>A header name as \<open>http.Header\<close> keeps it: a capital at the start and after each hyphen.\<close>

fun canonical_from :: "bool \<Rightarrow> string \<Rightarrow> string" where
  "canonical_from up [] = []"
| "canonical_from up (c # cs) = (if up then upper c else lower c) # canonical_from (c = CHR ''-'') cs"

definition h_Set :: "string \<Rightarrow> string \<Rightarrow> header \<Rightarrow> header" where
  "h_Set k v h = AList.update (canonical_from True k) v h"

definition device_info :: "string \<Rightarrow> string \<Rightarrow> string" where
  "device_info device tag = (case Marshal (go_map [(''deviceId'', JStr device), (''deviceType'', JStr device), (''hasSteamApp'', JInt 1),
      (''requestTag'', JStr (map upper tag)), (''systemName '', JStr ''Android''), (''systemVersion'', JStr ''15'')]) of
     None \<Rightarrow> '''' | Some t \<Rightarrow> t)"

text \<open>\<open>tag\<close> is the random request tag.\<close>

definition generateHeaders :: "string \<Rightarrow> string \<Rightarrow> header" where
  "generateHeaders device tag =
    h_Set ''Device-Info'' (device_info device tag) (h_Set ''Gameid'' ''730'' (h_Set ''platform'' ''android'' (h_Set ''DeviceId'' device
      (h_Set ''DeviceToken'' device (h_Set ''package-type'' ''uuyp'' (h_Set ''deviceType'' ''1'' (h_Set ''AppType'' ''4''
        (h_Set ''App-Version'' ''5.28.3'' (h_Set ''user-agent'' ''okhttp/3.14.9'' (h_Set ''content-type'' ''application/json; charset=utf-8'' []))))))))))"

definition uu_headers :: "string \<Rightarrow> string \<Rightarrow> string \<Rightarrow> string \<Rightarrow> header" where
  "uu_headers token device uk tag = h_Set ''authorization'' (''Bearer '' @ token) (h_Set ''uk'' uk (generateHeaders device tag))"

definition loginHeaders :: "string \<Rightarrow> string \<Rightarrow> string \<Rightarrow> header" where
  "loginHeaders device uk tag = h_Set ''uk'' uk (generateHeaders device tag)"

end
