(* ===== verification/UuClient.thy ===== *)
theory UuClient
  imports UuText Money
begin

text \<open>
  The UU client: requests and envelopes (\<open>platform/uu/client.go\<close>) and its endpoints (\<open>endpoints.go\<close>). The HTTP exchange, the
  limiter, the clock and random strings are operations of the client record on the outside world; the user the client found
  for its token is part of the state. A payload of the client is a JSON value; Go maps are printed with their keys sorted.
\<close>

section \<open>The client\<close>

record 'w uu_client =
  uc_token :: string
  uc_device :: string
  uc_Limiter :: "'w \<Rightarrow> goerr option \<times> 'w"
  uc_Random :: "nat \<Rightarrow> 'w \<Rightarrow> string \<times> 'w"
  uc_Now :: "'w \<Rightarrow> instant \<times> 'w"
  uc_Do :: "string \<Rightarrow> string \<Rightarrow> header \<Rightarrow> string option \<Rightarrow> 'w \<Rightarrow> (goerr + int \<times> string) \<times> 'w"

record 'w uu_state =
  us_userID :: int
  us_nick :: string
  us_world :: 'w

definition in_world :: "('w \<Rightarrow> 'a \<times> 'w) \<Rightarrow> 'w uu_state \<Rightarrow> 'a \<times> 'w uu_state" where
  "in_world f st = (case f (us_world st) of (r, w) \<Rightarrow> (r, st\<lparr>us_world := w\<rparr>))"

definition ErrUKExpired_err :: goerr where
  "ErrUKExpired_err = \<lparr>Error = ''uu: uk token expired'', wrapped = [ErrUKExpired]\<rparr>"

text \<open>The body of an answer, by its status.\<close>

definition uu_answer :: "string \<Rightarrow> int \<times> string \<Rightarrow> goerr + string" where
  "uu_answer what resp = (case resp of (code, body) \<Rightarrow>
     if code = 405 then Inl ErrUKExpired_err
     else if code \<noteq> 200 \<or> \<not> isJSON body then Inl (Errorf (''uu: '' @ what @ '': http '' @ dec_int code @ '' non-json response''))
     else Inr body)"

definition request_body :: "string \<Rightarrow> json option \<Rightarrow> goerr + string option" where
  "request_body method p = (case p of
      None \<Rightarrow> Inr None
    | Some j \<Rightarrow> if method = ''GET'' then Inr None
        else (case Marshal j of None \<Rightarrow> Inl (Errorf ''uu: marshal: json: unsupported value'') | Some t \<Rightarrow> Inr (Some t)))"

definition uu_do :: "'w uu_client \<Rightarrow> string \<Rightarrow> string \<Rightarrow> json option \<Rightarrow> 'w uu_state \<Rightarrow> (goerr + string) \<times> 'w uu_state" where
  "uu_do c method path p st =
    (case in_world (uc_Limiter c) st of
       (Some e, st) \<Rightarrow> (Inl (Wrap ''uu: limiter: '' e), st)
     | (None, st) \<Rightarrow>
        (case request_body method p of
           Inl e \<Rightarrow> (Inl e, st)
         | Inr body \<Rightarrow>
            (case in_world (uc_Random c 65) st of (uk, st) \<Rightarrow>
              case in_world (uc_Random c 32) st of (tag, st) \<Rightarrow>
                (case in_world (uc_Do c method path (uu_headers (uc_token c) (uc_device c) uk tag) body) st of
                   (Inl e, st) \<Rightarrow> (Inl (Wrap (''uu: '' @ method @ '' '' @ path @ '': '') e), st)
                 | (Inr resp, st) \<Rightarrow> (uu_answer (method @ '' '' @ path) resp, st)))))"

section \<open>The envelope\<close>

record uu_envelope =
  ue_Code :: int
  ue_Msg :: string
  ue_Data :: "json option"

text \<open>The first key whose value is an integer; null ends the search.\<close>

fun rawInt :: "(string \<times> json) list \<Rightarrow> string list \<Rightarrow> int option" where
  "rawInt kvs [] = None"
| "rawInt kvs (k # ks) = (case member kvs k of
      None \<Rightarrow> rawInt kvs ks
    | Some v \<Rightarrow> if v = JNull then None else (case to_int v 0 of Some i \<Rightarrow> Some i | None \<Rightarrow> rawInt kvs ks))"

fun rawString :: "(string \<times> json) list \<Rightarrow> string list \<Rightarrow> string" where
  "rawString kvs [] = ''''"
| "rawString kvs (k # ks) = (case member kvs k of Some (JStr s) \<Rightarrow> s | Some JNull \<Rightarrow> '''' | _ \<Rightarrow> rawString kvs ks)"

definition json_object :: "string \<Rightarrow> (string \<times> json) list option" where
  "json_object body = (case json_Unmarshal body of Some (JObj kvs) \<Rightarrow> Some kvs | Some JNull \<Rightarrow> Some [] | _ \<Rightarrow> None)"

definition uu_decodeEnvelope :: "string \<Rightarrow> goerr + uu_envelope" where
  "uu_decodeEnvelope body =
    (case json_object body of
       None \<Rightarrow> Inl (Errorf ''uu: decode envelope: invalid JSON'')
     | Some kvs \<Rightarrow>
        (case rawInt kvs [''Code'', ''code''] of
           None \<Rightarrow> Inl (Errorf ''uu: decode envelope: missing Code/code'')
         | Some n \<Rightarrow> Inr \<lparr>ue_Code = n, ue_Msg = rawString kvs [''Msg'', ''msg''],
                         ue_Data = (case member kvs ''Data'' of Some d \<Rightarrow> Some d | None \<Rightarrow> member kvs ''data'')\<rparr>))"

definition uu_checkEnv :: "uu_envelope \<Rightarrow> string \<Rightarrow> goerr option" where
  "uu_checkEnv e path =
    (let msg = path @ '' msg='' @ ue_Msg e in
     if ue_Code e = 0 then None
     else if ue_Code e = 84101 then Some \<lparr>Error = ''platform: auth expired'', wrapped = [ErrAuthExpired]\<rparr>
     else if ue_Code e = 84104 then Some \<lparr>Error = ''platform: blocked by platform risk control at '' @ path, wrapped = [ErrPlatformBlocked]\<rparr>
     else if ue_Code e = 5050 then Some \<lparr>Error = ''platform: client version blocked by platform at '' @ msg, wrapped = [ErrVersionBlocked]\<rparr>
     else if ue_Code e = 1110205 then Some \<lparr>Error = ''platform: captcha challenge required at '' @ msg, wrapped = [ErrCaptchaRequired]\<rparr>
     else Some (Errorf (''uu: '' @ path @ '' code='' @ dec_int (ue_Code e) @ '' msg='' @ ue_Msg e)))"

text \<open>A call up to its envelope, and up to the payload of a successful one.\<close>

definition uu_envelope_of :: "'w uu_client \<Rightarrow> string \<Rightarrow> string \<Rightarrow> json option \<Rightarrow> 'w uu_state \<Rightarrow> (goerr + uu_envelope) \<times> 'w uu_state" where
  "uu_envelope_of c method path p st =
    (case uu_do c method path p st of (Inl e, st) \<Rightarrow> (Inl e, st) | (Inr body, st) \<Rightarrow> (uu_decodeEnvelope body, st))"

definition uu_call :: "'w uu_client \<Rightarrow> string \<Rightarrow> string \<Rightarrow> json option \<Rightarrow> string \<Rightarrow> 'w uu_state \<Rightarrow> (goerr + json option) \<times> 'w uu_state" where
  "uu_call c method path p what st =
    (case uu_envelope_of c method path p st of
       (Inl e, st) \<Rightarrow> (Inl e, st)
     | (Inr env, st) \<Rightarrow> (case uu_checkEnv env what of Some e \<Rightarrow> (Inl e, st) | None \<Rightarrow> (Inr (ue_Data env), st)))"

text \<open>The payload decoded; a missing one is no JSON.\<close>

definition uu_payload :: "string \<Rightarrow> (json \<Rightarrow> 'a option) \<Rightarrow> json option \<Rightarrow> goerr + 'a" where
  "uu_payload what read d = (case d of
      None \<Rightarrow> Inl (Errorf (''uu: '' @ what @ '' payload: unexpected end of JSON input''))
    | Some j \<Rightarrow> (case read j of None \<Rightarrow> Inl (Errorf (''uu: '' @ what @ '' payload: json: cannot unmarshal'')) | Some v \<Rightarrow> Inr v))"

definition uu_fetch :: "'w uu_client \<Rightarrow> string \<Rightarrow> string \<Rightarrow> json option \<Rightarrow> string \<Rightarrow> (json \<Rightarrow> 'a option) \<Rightarrow> 'w uu_state \<Rightarrow> (goerr + 'a) \<times> 'w uu_state" where
  "uu_fetch c method path p what read st =
    (case uu_call c method path p what st of (Inl e, st) \<Rightarrow> (Inl e, st) | (Inr d, st) \<Rightarrow> (uu_payload what read d, st))"

definition uu_act :: "'w uu_client \<Rightarrow> string \<Rightarrow> string \<Rightarrow> json option \<Rightarrow> string \<Rightarrow> 'w uu_state \<Rightarrow> goerr option \<times> 'w uu_state" where
  "uu_act c method path p what st = (case uu_call c method path p what st of (Inl e, st) \<Rightarrow> (Some e, st) | (Inr _, st) \<Rightarrow> (None, st))"

section \<open>The user\<close>

definition user_fields :: "(string \<times> int) field list" where
  "user_fields = [string_field ''NickName'' (\<lambda>v p. (v, snd p)), int_field ''UserId'' snd (\<lambda>v p. (fst p, v))]"

text \<open>\<open>fetchUserInfo\<close> in \<open>login.go\<close>.\<close>

definition fetchUserInfo :: "'w uu_client \<Rightarrow> 'w uu_state \<Rightarrow> goerr option \<times> 'w uu_state" where
  "fetchUserInfo c st =
    (let path = ''/api/user/Account/getUserInfo'' in
     case uu_call c ''GET'' path None path st of
       (Inl e, st) \<Rightarrow> (Some e, st)
     | (Inr d, st) \<Rightarrow>
        (case uu_payload ''getuserinfo'' (read_struct user_fields ('''', 0)) d of
           Inl e \<Rightarrow> (Some e, st)
         | Inr (nick, uid) \<Rightarrow>
            if uid = 0 then (Some \<lparr>Error = ''platform: auth expired'', wrapped = [ErrAuthExpired]\<rparr>, st)
            else (None, st\<lparr>us_userID := uid, us_nick := nick\<rparr>)))"

text \<open>\<open>c\<close> has the transport, limiter and clock of the options; a client is built only for a token the platform knows.\<close>

definition uu_NewClient :: "'w uu_client \<Rightarrow> string \<Rightarrow> 'w \<Rightarrow> (goerr + 'w uu_client \<times> int \<times> string) \<times> 'w" where
  "uu_NewClient c token w =
    (case uc_Random c 16 w of (device, w) \<Rightarrow>
      let c = c\<lparr>uc_token := token, uc_device := device\<rparr> in
      case fetchUserInfo c \<lparr>us_userID = 0, us_nick = '''', us_world = w\<rparr> of
        (Some e, st) \<Rightarrow> (Inl e, us_world st)
      | (None, st) \<Rightarrow> (Inr (c, us_userID st, us_nick st), us_world st))"

section \<open>The inventory\<close>

record uu_item =
  ui_SteamAssetID :: string
  ui_AssetStatus :: int
  ui_Tradable :: bool
  ui_ShotName :: string
  ui_Template :: "int \<times> f64"
  ui_MarketHashName :: string

definition no_uu_item :: uu_item where
  "no_uu_item = \<lparr>ui_SteamAssetID = '''', ui_AssetStatus = 0, ui_Tradable = False, ui_ShotName = '''', ui_Template = (0, Fin 0), ui_MarketHashName = ''''\<rparr>"

definition template_fields :: "(int \<times> f64) field list" where
  "template_fields = [int_field ''Id'' fst (\<lambda>v p. (v, snd p)), float_field ''MarkPrice'' snd (\<lambda>v p. (fst p, v))]"

definition uu_item_fields :: "uu_item field list" where
  "uu_item_fields = [string_field ''SteamAssetId'' (\<lambda>v p. p\<lparr>ui_SteamAssetID := v\<rparr>), int_field ''AssetStatus'' ui_AssetStatus (\<lambda>v p. p\<lparr>ui_AssetStatus := v\<rparr>),
     bool_field ''Tradable'' (\<lambda>v p. p\<lparr>ui_Tradable := v\<rparr>), string_field ''ShotName'' (\<lambda>v p. p\<lparr>ui_ShotName := v\<rparr>),
     struct_field ''TemplateInfo'' template_fields ui_Template (\<lambda>v p. p\<lparr>ui_Template := v\<rparr>),
     string_field ''MarketHashName'' (\<lambda>v p. p\<lparr>ui_MarketHashName := v\<rparr>)]"

definition items_of_page :: "json \<Rightarrow> uu_item list option option" where
  "items_of_page = read_struct [pointer_field ''ItemsInfos'' (read_list (read_struct uu_item_fields no_uu_item)) (\<lambda>v p. v)] None"

definition inventory_request :: "string \<Rightarrow> bool \<Rightarrow> int \<Rightarrow> json" where
  "inventory_request device refresh i =
    go_map ([(''pageIndex'', JInt i), (''pageSize'', JInt 1000), (''AppType'', JInt 4), (''IsMerge'', JInt 0), (''Sessionid'', JStr device)]
      @ (if refresh \<and> i = 1 then [(''IsRefresh'', JBool True), (''RefreshType'', JInt 2)] else []))"

fun uu_inventory_pages :: "'w uu_client \<Rightarrow> bool \<Rightarrow> nat \<Rightarrow> int \<Rightarrow> uu_item list \<Rightarrow> 'w uu_state \<Rightarrow> (goerr + uu_item list) \<times> 'w uu_state" where
  "uu_inventory_pages c refresh 0 i out st = (Inl (Errorf ''uu: inventory exceeds page limit 500''), st)"
| "uu_inventory_pages c refresh (Suc pages) i out st =
    (case uu_fetch c ''POST'' ''/api/commodity/Inventory/GetUserInventoryDataListV3'' (Some (inventory_request (uc_device c) refresh i)) ''inventory'' items_of_page st of
       (Inl e, st) \<Rightarrow> (Inl e, st)
     | (Inr None, st) \<Rightarrow> (Inl (Errorf ''uu: inventory missing ItemsInfos''), st)
     | (Inr (Some rows), st) \<Rightarrow>
        if length rows < 1000 then (Inr (out @ rows), st) else uu_inventory_pages c refresh pages (i + 1) (out @ rows) st)"

definition GetInventory :: "'w uu_client \<Rightarrow> bool \<Rightarrow> 'w uu_state \<Rightarrow> (goerr + uu_item list) \<times> 'w uu_state" where
  "GetInventory c refresh = uu_inventory_pages c refresh maxListPages 1 []"

section \<open>The shelf\<close>

record LeaseShelfItem =
  ls_ID :: int
  ls_SteamAssetID :: string
  ls_TemplateID :: int
  ls_Name :: string
  ls_DepositAmount :: string
  ls_ShortLeaseAmount :: string
  ls_LongLeaseAmount :: string
  ls_LeaseMaxDays :: int
  ls_CanSell :: bool
  ls_CanLease :: bool

definition no_shelf_item :: LeaseShelfItem where
  "no_shelf_item = \<lparr>ls_ID = 0, ls_SteamAssetID = '''', ls_TemplateID = 0, ls_Name = '''', ls_DepositAmount = '''', ls_ShortLeaseAmount = '''',
     ls_LongLeaseAmount = '''', ls_LeaseMaxDays = 0, ls_CanSell = False, ls_CanLease = False\<rparr>"

definition shelf_fields :: "LeaseShelfItem field list" where
  "shelf_fields = [int_field ''id'' ls_ID (\<lambda>v p. p\<lparr>ls_ID := v\<rparr>), string_field ''steamAssetId'' (\<lambda>v p. p\<lparr>ls_SteamAssetID := v\<rparr>),
     int_field ''templateId'' ls_TemplateID (\<lambda>v p. p\<lparr>ls_TemplateID := v\<rparr>), string_field ''name'' (\<lambda>v p. p\<lparr>ls_Name := v\<rparr>),
     string_field ''depositAmount'' (\<lambda>v p. p\<lparr>ls_DepositAmount := v\<rparr>), string_field ''shortLeaseAmount'' (\<lambda>v p. p\<lparr>ls_ShortLeaseAmount := v\<rparr>),
     string_field ''longLeaseAmount'' (\<lambda>v p. p\<lparr>ls_LongLeaseAmount := v\<rparr>), int_field ''leaseMaxDays'' ls_LeaseMaxDays (\<lambda>v p. p\<lparr>ls_LeaseMaxDays := v\<rparr>),
     bool_field ''commodityCanSell'' (\<lambda>v p. p\<lparr>ls_CanSell := v\<rparr>), bool_field ''commodityCanLease'' (\<lambda>v p. p\<lparr>ls_CanLease := v\<rparr>)]"

definition LongRent :: "LeaseShelfItem \<Rightarrow> f64" where
  "LongRent i = (if ls_LongLeaseAmount i = '''' then Fin 0 else strF (ls_LongLeaseAmount i))"

definition shelf_of_page :: "json \<Rightarrow> LeaseShelfItem list option" where
  "shelf_of_page = read_struct [list_field ''commodityInfoList'' (read_struct shelf_fields no_shelf_item) (\<lambda>v p. v)] []"

text \<open>The pages of one path; a shelf the platform calls empty ends them.\<close>

fun uu_shelf_pages :: "'w uu_client \<Rightarrow> string \<Rightarrow> nat \<Rightarrow> int \<Rightarrow> LeaseShelfItem list \<Rightarrow> 'w uu_state \<Rightarrow> (goerr + LeaseShelfItem list) \<times> 'w uu_state" where
  "uu_shelf_pages c p 0 i out st = (Inr out, st)"
| "uu_shelf_pages c p (Suc pages) i out st =
    (case uu_envelope_of c ''POST'' p (Some (go_map [(''pageIndex'', JInt i), (''pageSize'', JInt 100), (''whetherMerge'', JInt 0), (''Sessionid'', JStr (uc_device c))])) st of
       (Inl e, st) \<Rightarrow> (Inl e, st)
     | (Inr env, st) \<Rightarrow>
        if ue_Code env = 9004001 then (Inr out, st)
        else case uu_checkEnv env p of
            Some e \<Rightarrow> (Inl e, st)
          | None \<Rightarrow>
             (case uu_payload p shelf_of_page (ue_Data env) of
                Inl e \<Rightarrow> (Inl e, st)
              | Inr rows \<Rightarrow> if length rows < 100 then (Inr (out @ rows), st) else uu_shelf_pages c p pages (i + 1) (out @ rows) st))"

definition shelf_path :: string where
  "shelf_path = ''/api/youpin/bff/new/commodity/v1/commodity/list/lease''"

definition zero_cd_path :: string where
  "zero_cd_path = ''/api/youpin/bff/new/commodity/v1/commodity/list/zeroCDLease''"

fun uu_shelf_paths :: "'w uu_client \<Rightarrow> string list \<Rightarrow> LeaseShelfItem list \<Rightarrow> 'w uu_state \<Rightarrow> (goerr + LeaseShelfItem list) \<times> 'w uu_state" where
  "uu_shelf_paths c [] out st = (Inr out, st)"
| "uu_shelf_paths c (p # ps) out st =
    (case uu_shelf_pages c p maxListPages 1 out st of (Inl e, st) \<Rightarrow> (Inl e, st) | (Inr out, st) \<Rightarrow> uu_shelf_paths c ps out st)"

definition ListLeaseShelf :: "'w uu_client \<Rightarrow> bool \<Rightarrow> 'w uu_state \<Rightarrow> (goerr + LeaseShelfItem list) \<times> 'w uu_state" where
  "ListLeaseShelf c includeZeroCD = uu_shelf_paths c (shelf_path # (if includeZeroCD then [zero_cd_path] else [])) []"

end
