(* ===== verification/UuEndpoints.thy ===== *)
theory UuEndpoints
  imports UuClient
begin

text \<open>
  The rest of the UU client: publishing, repricing, quotes, orders and sublets (\<open>platform/uu/endpoints.go\<close>) and the delivery of
  rentals (\<open>delivery.go\<close>).
\<close>

section \<open>Publishing\<close>

record OnLeaseItem =
  ol_AssetID :: int
  ol_LeaseDeposit :: string
  ol_LeaseMaxDays :: int
  ol_LeaseUnitPrice :: f64
  ol_LongLeaseUnitPrice :: "f64 option"

text \<open>\<open>IsCanLease\<close> and \<open>IsCanSold\<close> are constants of the adapter; the compensation type is stamped on before the call.\<close>

definition on_lease_json :: "int \<Rightarrow> OnLeaseItem \<Rightarrow> json" where
  "on_lease_json ct it = JObj ([(''AssetId'', JInt (ol_AssetID it)), (''IsCanLease'', JBool True), (''IsCanSold'', JBool False),
      (''LeaseDeposit'', JStr (ol_LeaseDeposit it)), (''LeaseMaxDays'', JInt (ol_LeaseMaxDays it)), (''LeaseUnitPrice'', JNum (ol_LeaseUnitPrice it))]
     @ (case ol_LongLeaseUnitPrice it of None \<Rightarrow> [] | Some v \<Rightarrow> [(''LongLeaseUnitPrice'', JNum v)]) @ [(''CompensationType'', JInt ct)])"

record PublishResultRaw =
  pw_AssetID :: int
  pw_Status :: int
  pw_Remark :: string
  pw_CommodityID :: int

definition no_raw_result :: PublishResultRaw where
  "no_raw_result = \<lparr>pw_AssetID = 0, pw_Status = 0, pw_Remark = '''', pw_CommodityID = 0\<rparr>"

definition raw_result_fields :: "PublishResultRaw field list" where
  "raw_result_fields = [int_field ''AssetId'' pw_AssetID (\<lambda>v p. p\<lparr>pw_AssetID := v\<rparr>), int_field ''Status'' pw_Status (\<lambda>v p. p\<lparr>pw_Status := v\<rparr>),
     string_field ''Remark'' (\<lambda>v p. p\<lparr>pw_Remark := v\<rparr>), int_field ''CommodityId'' pw_CommodityID (\<lambda>v p. p\<lparr>pw_CommodityID := v\<rparr>)]"

definition PutItemsOnLeaseShelf :: "'w uu_client \<Rightarrow> OnLeaseItem list \<Rightarrow> int \<Rightarrow> 'w uu_state \<Rightarrow> (goerr + PublishResultRaw list) \<times> 'w uu_state" where
  "PutItemsOnLeaseShelf c items ct =
    uu_fetch c ''POST'' ''/api/commodity/Inventory/SellInventoryWithLeaseV2''
      (Some (go_map [(''GameId'', JInt 730), (''ItemInfos'', JArr (map (on_lease_json ct) items)), (''Sessionid'', JStr (uc_device c))]))
      ''publish'' (read_list (read_struct raw_result_fields no_raw_result))"

section \<open>Repricing\<close>

record ChangeLeaseItem =
  cl_CommodityID :: int
  cl_LeaseDeposit :: string
  cl_LeaseMaxDays :: int
  cl_LeaseUnitPrice :: f64
  cl_LongLeaseUnitPrice :: "f64 option"

definition change_json :: "int \<Rightarrow> ChangeLeaseItem \<Rightarrow> json" where
  "change_json ct it = JObj ([(''CommodityId'', JInt (cl_CommodityID it)), (''IsCanLease'', JBool True), (''IsCanSold'', JBool False),
      (''LeaseDeposit'', JStr (cl_LeaseDeposit it)), (''LeaseMaxDays'', JInt (cl_LeaseMaxDays it)), (''LeaseUnitPrice'', JNum (cl_LeaseUnitPrice it))]
     @ (case cl_LongLeaseUnitPrice it of None \<Rightarrow> [] | Some v \<Rightarrow> [(''LongLeaseUnitPrice'', JNum v)]) @ [(''CompensationType'', JInt ct)])"

record changeFailInfo =
  cf_CommodityID :: int
  cf_IsSuccess :: int
  cf_Message :: string

definition no_change_info :: changeFailInfo where
  "no_change_info = \<lparr>cf_CommodityID = 0, cf_IsSuccess = 0, cf_Message = ''''\<rparr>"

definition change_info_fields :: "changeFailInfo field list" where
  "change_info_fields = [int_field ''CommodityId'' cf_CommodityID (\<lambda>v p. p\<lparr>cf_CommodityID := v\<rparr>),
     int_field ''IsSuccess'' cf_IsSuccess (\<lambda>v p. p\<lparr>cf_IsSuccess := v\<rparr>), string_field ''Message'' (\<lambda>v p. p\<lparr>cf_Message := v\<rparr>)]"

text \<open>The count of successes, the (unused) count of failures and the items.\<close>

definition change_fields :: "(int \<times> int \<times> changeFailInfo list) field list" where
  "change_fields = [int_field ''SuccessCount'' fst (\<lambda>v p. (v, snd p)), int_field ''FailCount'' (\<lambda>p. fst (snd p)) (\<lambda>v p. (fst p, v, snd (snd p))),
     list_field ''Commoditys'' (read_struct change_info_fields no_change_info) (\<lambda>v p. (fst p, fst (snd p), v))]"

text \<open>The initial call must succeed before any price is changed.\<close>

definition ChangeLeasePrices :: "'w uu_client \<Rightarrow> ChangeLeaseItem list \<Rightarrow> int \<Rightarrow> 'w uu_state \<Rightarrow> (goerr + int \<times> changeFailInfo list) \<times> 'w uu_state" where
  "ChangeLeasePrices c items ct st =
    (if items = [] then (Inr (0, []), st)
     else case uu_act c ''POST'' ''/api/youpin/bff/new/commodity/commodity/change/price/v3/init/info''
            (Some (go_map [(''changePriceChannel'', JInt 0), (''commodityIdList'', JArr (map (\<lambda>it. JStr (dec_int (cl_CommodityID it))) items)),
               (''gameId'', JStr ''730''), (''Sessionid'', JStr (uc_device c))])) ''prechange init'' st of
         (Some e, st) \<Rightarrow> (Inl (Wrap ''uu: prechange init: '' e), st)
       | (None, st) \<Rightarrow>
          (case uu_fetch c ''PUT'' ''/api/commodity/Commodity/PriceChangeWithLeaseV2''
              (Some (go_map [(''Commoditys'', JArr (map (change_json ct) items)), (''Sessionid'', JStr (uc_device c))])) ''reprice''
              (read_struct change_fields (0, 0, [])) st of
             (Inl e, st) \<Rightarrow> (Inl e, st)
           | (Inr (ok, _, infos), st) \<Rightarrow> (Inr (ok, infos), st)))"

section \<open>Delisting\<close>

definition OffShelf :: "'w uu_client \<Rightarrow> string list \<Rightarrow> 'w uu_state \<Rightarrow> goerr option \<times> 'w uu_state" where
  "OffShelf c ids =
    uu_act c ''PUT'' ''/api/commodity/Commodity/OffShelf''
      (Some (go_map [(''Ids'', JStr (join_with '','' ids)), (''IsDeleteCommodityCache'', JInt 1), (''IsForceOffline'', JBool True)])) ''offshelf''"

section \<open>Quotes\<close>

record MarketLeaseItem =
  ml_CommodityName :: string
  ml_LeaseUnitPrice :: "string option"
  ml_LongLeaseUnitPrice :: "string option"
  ml_LeaseDeposit :: "string option"

definition no_market_item :: MarketLeaseItem where
  "no_market_item = \<lparr>ml_CommodityName = '''', ml_LeaseUnitPrice = None, ml_LongLeaseUnitPrice = None, ml_LeaseDeposit = None\<rparr>"

definition market_item_fields :: "MarketLeaseItem field list" where
  "market_item_fields = [string_field ''CommodityName'' (\<lambda>v p. p\<lparr>ml_CommodityName := v\<rparr>),
     pointer_field ''LeaseUnitPrice'' read_string (\<lambda>v p. p\<lparr>ml_LeaseUnitPrice := v\<rparr>),
     pointer_field ''LongLeaseUnitPrice'' read_string (\<lambda>v p. p\<lparr>ml_LongLeaseUnitPrice := v\<rparr>),
     pointer_field ''LeaseDeposit'' read_string (\<lambda>v p. p\<lparr>ml_LeaseDeposit := v\<rparr>)]"

definition UnitPrice :: "MarketLeaseItem \<Rightarrow> f64" where
  "UnitPrice q = strFDeref (ml_LeaseUnitPrice q)"

definition LongUnitPrice :: "MarketLeaseItem \<Rightarrow> f64" where
  "LongUnitPrice q = strFDeref (ml_LongLeaseUnitPrice q)"

definition market_Deposit :: "MarketLeaseItem \<Rightarrow> f64" where
  "market_Deposit q = (case ml_LeaseDeposit q of None \<Rightarrow> Fin 0 | Some s \<Rightarrow> strF s)"

definition in_band :: "f64 \<Rightarrow> f64 \<Rightarrow> MarketLeaseItem \<Rightarrow> bool" where
  "in_band minPrice maxPrice q \<longleftrightarrow> ml_LeaseDeposit q \<noteq> None \<and> minPrice < market_Deposit q \<and> market_Deposit q < maxPrice"

definition GetMarketLeasePrice :: "'w uu_client \<Rightarrow> int \<Rightarrow> f64 \<Rightarrow> f64 \<Rightarrow> nat \<Rightarrow> 'w uu_state \<Rightarrow> (goerr + MarketLeaseItem list) \<times> 'w uu_state" where
  "GetMarketLeasePrice c templateID minPrice maxPrice cnt st =
    (case uu_fetch c ''POST'' ''/api/homepage/v3/detail/commodity/list/lease''
        (Some (go_map [(''hasLease'', JStr ''true''), (''haveBuZhangType'', JInt 0), (''listSortType'', JStr ''2''), (''listType'', JInt 30),
           (''mergeFlag'', JInt 0), (''pageIndex'', JInt 1), (''pageSize'', JInt 50), (''sortType'', JStr ''1''), (''sortTypeKey'', JStr ''LEASE_DEFAULT''),
           (''status'', JStr ''20''), (''stickerAbrade'', JInt 0), (''stickersIsSort'', JBool False), (''templateId'', JStr (dec_int templateID)),
           (''ultraLongLeaseMoreZones'', JInt 0), (''userId'', JInt (us_userID st)), (''Sessionid'', JStr (uc_device c))]))
        ''market-lease'' (read_struct [list_field ''CommodityList'' (read_struct market_item_fields no_market_item) (\<lambda>v p. v)] []) st of
       (Inl e, st) \<Rightarrow> (Inl e, st) | (Inr rows, st) \<Rightarrow> (Inr (take cnt (filter (in_band minPrice maxPrice) rows)), st))"

section \<open>Orders\<close>

record LeasedOutOrder =
  le_OrderID :: string
  le_AssetID :: string
  le_Name :: string
  le_SteamAssetID :: string
  le_GoodsID :: int
  le_OrderStatus :: int
  le_LeaseDays :: int
  le_RentPrice :: string
  le_Deposit :: string
  le_StartTime :: string
  le_EndTime :: string

definition no_leased_out :: LeasedOutOrder where
  "no_leased_out = \<lparr>le_OrderID = '''', le_AssetID = '''', le_Name = '''', le_SteamAssetID = '''', le_GoodsID = 0, le_OrderStatus = 0, le_LeaseDays = 0,
     le_RentPrice = '''', le_Deposit = '''', le_StartTime = '''', le_EndTime = ''''\<rparr>"

text \<open>The struct \<open>CommodityInfo\<close> inside an order is spread over three of its fields.\<close>

definition commodity_fields :: "LeasedOutOrder field list" where
  "commodity_fields = [string_field ''name'' (\<lambda>v p. p\<lparr>le_Name := v\<rparr>), string_field ''steamAssetId'' (\<lambda>v p. p\<lparr>le_SteamAssetID := v\<rparr>),
     int_field ''goodsId'' le_GoodsID (\<lambda>v p. p\<lparr>le_GoodsID := v\<rparr>)]"

definition leased_out_fields :: "LeasedOutOrder field list" where
  "leased_out_fields = [string_field ''orderId'' (\<lambda>v p. p\<lparr>le_OrderID := v\<rparr>), string_field ''assetId'' (\<lambda>v p. p\<lparr>le_AssetID := v\<rparr>),
     (''commodityInfo'', to_struct commodity_fields), int_field ''orderStatus'' le_OrderStatus (\<lambda>v p. p\<lparr>le_OrderStatus := v\<rparr>),
     int_field ''leaseDays'' le_LeaseDays (\<lambda>v p. p\<lparr>le_LeaseDays := v\<rparr>), string_field ''rentPrice'' (\<lambda>v p. p\<lparr>le_RentPrice := v\<rparr>),
     string_field ''deposit'' (\<lambda>v p. p\<lparr>le_Deposit := v\<rparr>), string_field ''startTime'' (\<lambda>v p. p\<lparr>le_StartTime := v\<rparr>),
     string_field ''endTime'' (\<lambda>v p. p\<lparr>le_EndTime := v\<rparr>)]"

definition AssetRef :: "LeasedOutOrder \<Rightarrow> string" where
  "AssetRef r = (if le_AssetID r \<noteq> '''' then le_AssetID r else le_SteamAssetID r)"

fun leased_out_pages :: "'w uu_client \<Rightarrow> nat \<Rightarrow> int \<Rightarrow> LeasedOutOrder list \<Rightarrow> 'w uu_state \<Rightarrow> (goerr + LeasedOutOrder list) \<times> 'w uu_state" where
  "leased_out_pages c 0 i out st = (Inr out, st)"
| "leased_out_pages c (Suc pages) i out st =
    (case uu_fetch c ''POST'' ''/api/youpin/bff/trade/v1/order/lease/out/list''
        (Some (go_map [(''gameId'', JInt 730), (''pageIndex'', JInt i), (''pageSize'', JInt 50), (''sortType'', JInt 0), (''keywords'', JStr '''')]))
        ''leased-out'' (read_struct [list_field ''orderDataList'' (read_struct leased_out_fields no_leased_out) (\<lambda>v p. v)] []) st of
       (Inl e, st) \<Rightarrow> (Inl e, st)
     | (Inr rows, st) \<Rightarrow> if length rows < 50 then (Inr (out @ rows), st) else leased_out_pages c pages (i + 1) (out @ rows) st)"

definition GetLeasedOutOrders :: "'w uu_client \<Rightarrow> 'w uu_state \<Rightarrow> (goerr + LeasedOutOrder list) \<times> 'w uu_state" where
  "GetLeasedOutOrders c = leased_out_pages c maxListPages 1 []"

section \<open>Sublets without cooldown\<close>

record ZeroCDOrder =
  zc_OrderID :: int
  zc_Name :: string

definition no_zero_cd :: ZeroCDOrder where
  "no_zero_cd = \<lparr>zc_OrderID = 0, zc_Name = ''''\<rparr>"

definition zero_cd_fields :: "ZeroCDOrder field list" where
  "zero_cd_fields = [int_field ''orderId'' zc_OrderID (\<lambda>v p. p\<lparr>zc_OrderID := v\<rparr>),
     (''commodityInfo'', to_struct [string_field ''name'' (\<lambda>v p. p\<lparr>zc_Name := v\<rparr>)])]"

definition GetZeroCDList :: "'w uu_client \<Rightarrow> 'w uu_state \<Rightarrow> (goerr + ZeroCDOrder list) \<times> 'w uu_state" where
  "GetZeroCDList c =
    uu_fetch c ''POST'' ''/api/youpin/bff/trade/v1/order/lease/sublet/canEnable/list'' (Some (go_map [(''pageIndex'', JInt 1), (''pageSize'', JInt 20)]))
      ''zerocd-list'' (read_list (read_struct zero_cd_fields no_zero_cd))"

definition EnableZeroCD :: "'w uu_client \<Rightarrow> int list \<Rightarrow> 'w uu_state \<Rightarrow> goerr option \<times> 'w uu_state" where
  "EnableZeroCD c ids = uu_act c ''POST'' ''/api/youpin/bff/order/sublet/open'' (Some (go_map [(''orderIds'', JArr (map JInt ids))])) ''zerocd-open''"

section \<open>Delivery\<close>

record TodoOrder =
  to_OrderNo :: string
  to_CommodityName :: string
  to_Message :: string

definition no_todo :: TodoOrder where
  "no_todo = \<lparr>to_OrderNo = '''', to_CommodityName = '''', to_Message = ''''\<rparr>"

definition todo_fields :: "TodoOrder field list" where
  "todo_fields = [string_field ''orderNo'' (\<lambda>v p. p\<lparr>to_OrderNo := v\<rparr>), string_field ''commodityName'' (\<lambda>v p. p\<lparr>to_CommodityName := v\<rparr>),
     string_field ''message'' (\<lambda>v p. p\<lparr>to_Message := v\<rparr>)]"

definition todo_rows :: "json option \<Rightarrow> goerr + TodoOrder list" where
  "todo_rows d = (if d = None \<or> d = Some JNull then Inr [] else uu_payload ''orderTodo'' (read_list (read_struct todo_fields no_todo)) d)"

fun todo_pages :: "'w uu_client \<Rightarrow> nat \<Rightarrow> int \<Rightarrow> TodoOrder list \<Rightarrow> 'w uu_state \<Rightarrow> (goerr + TodoOrder list) \<times> 'w uu_state" where
  "todo_pages c 0 i out st = (Inr out, st)"
| "todo_pages c (Suc pages) i out st =
    (case uu_call c ''POST'' ''/api/youpin/bff/trade/todo/v1/orderTodo/list''
        (Some (go_map [(''userId'', JInt (us_userID st)), (''pageIndex'', JInt i), (''pageSize'', JInt 20), (''Sessionid'', JStr (uc_device c))])) ''orderTodo/list'' st of
       (Inl e, st) \<Rightarrow> (Inl e, st)
     | (Inr d, st) \<Rightarrow>
        (case todo_rows d of
           Inl e \<Rightarrow> (Inl e, st)
         | Inr rows \<Rightarrow> if length rows < 20 then (Inr (out @ rows), st) else todo_pages c pages (i + 1) (out @ rows) st))"

definition GetWaitDeliverList :: "'w uu_client \<Rightarrow> 'w uu_state \<Rightarrow> (goerr + TodoOrder list) \<times> 'w uu_state" where
  "GetWaitDeliverList c = todo_pages c maxListPages 1 []"

text \<open>\<open>"\<close>the buyer has ordered, please send the offer\<open>"\<close> and \<open>"\<close>gift\<open>"\<close>, in UTF-8.\<close>

definition msgWaitSendOffer :: string where
  "msgWaitSendOffer = map char_of [0xE6, 0x9C, 0x89, 0xE4, 0xB9, 0xB0, 0xE5, 0xAE, 0xB6, 0xE4, 0xB8, 0x8B, 0xE5, 0x8D, 0x95, 0xEF, 0xBC, 0x8C, 0xE5, 0xBE, 0x85,
     0xE6, 0x82, 0xA8, 0xE5, 0x8F, 0x91, 0xE9, 0x80, 0x81, 0xE6, 0x8A, 0xA5, 0xE4, 0xBB, 0xB7 :: int]"

definition msgGift :: string where
  "msgGift = map char_of [0xE8, 0xB5, 0xA0, 0xE9, 0x80, 0x81 :: int]"

definition SendDeliveryOffer :: "'w uu_client \<Rightarrow> string \<Rightarrow> 'w uu_state \<Rightarrow> goerr option \<times> 'w uu_state" where
  "SendDeliveryOffer c orderNo =
    uu_act c ''PUT'' ''/api/youpin/bff/trade/v1/order/sell/delivery/send-offer'' (Some (go_map [(''orderNo'', JStr orderNo), (''Sessionid'', JStr (uc_device c))]))
      ''send-offer''"

definition GetDeliveryOfferStatus :: "'w uu_client \<Rightarrow> string \<Rightarrow> 'w uu_state \<Rightarrow> (goerr + int) \<times> 'w uu_state" where
  "GetDeliveryOfferStatus c orderNo st =
    (case uu_call c ''POST'' ''/api/youpin/bff/trade/v1/order/sell/delivery/get-offer-status''
        (Some (go_map [(''orderNo'', JStr orderNo), (''Sessionid'', JStr (uc_device c))])) ''get-offer-status'' st of
       (Inl e, st) \<Rightarrow> (Inl e, st) | (Inr d, st) \<Rightarrow> (uu_payload ''offer status'' (read_struct [int_field ''status'' id (\<lambda>v p. v)] 0) d, st))"

definition stops_polling :: "goerr \<Rightarrow> bool" where
  "stops_polling e \<longleftrightarrow> (\<exists>s \<in> {ErrAuthExpired, ErrRateLimited, ErrPlatformBlocked, ErrUKExpired, ErrCaptchaRequired, ErrVersionBlocked}. errors_Is (Some e) s)"

text \<open>Waits and asks until the offer is sent, at most \<open>left\<close> times; \<open>wait\<close> gives the error of a run that was called off.\<close>

fun poll_offer :: "'w uu_client \<Rightarrow> ('w \<Rightarrow> goerr option \<times> 'w) \<Rightarrow> string \<Rightarrow> nat \<Rightarrow> nat \<Rightarrow> 'w uu_state \<Rightarrow> (goerr option \<times> bool) \<times> 'w uu_state" where
  "poll_offer c wait orderNo attempts 0 st = ((None, False), st)"
| "poll_offer c wait orderNo attempts (Suc left) st =
    (case in_world wait st of
       (Some e, st) \<Rightarrow> ((Some e, False), st)
     | (None, st) \<Rightarrow>
        (case GetDeliveryOfferStatus c orderNo st of
           (Inr s, st) \<Rightarrow>
             if s = 3 then ((None, True), st)
             else if left = 0 then ((Some (Errorf (''uu: offer '' @ orderNo @ '' not confirmed after '' @ dec_int (int attempts) @ '' polls (last='' @ dec_int s @ '')'')), False), st)
             else poll_offer c wait orderNo attempts left st
         | (Inl e, st) \<Rightarrow>
             if stops_polling e then ((Some (Wrap (''uu: offer '' @ orderNo @ '' polling stopped: '') e), False), st)
             else if left = 0 then ((Some (Wrap (''uu: offer '' @ orderNo @ '' not confirmed after '' @ dec_int (int attempts) @ '' polls: '') e), False), st)
             else poll_offer c wait orderNo attempts left st))"

fun deliver_todos :: "'w uu_client \<Rightarrow> nat \<Rightarrow> ('w \<Rightarrow> goerr option \<times> 'w) \<Rightarrow> TodoOrder list \<Rightarrow> string list \<Rightarrow> nat \<Rightarrow> 'w uu_state
    \<Rightarrow> (string list \<times> nat \<times> goerr option) \<times> 'w uu_state" where
  "deliver_todos c attempts wait [] sent gifts st = ((sent, gifts, None), st)"
| "deliver_todos c attempts wait (t # ts) sent gifts st =
    (if sublist msgGift (to_Message t) then deliver_todos c attempts wait ts sent (gifts + 1) st
     else if to_Message t \<noteq> msgWaitSendOffer then deliver_todos c attempts wait ts sent gifts st
     else case SendDeliveryOffer c (to_OrderNo t) st of
         (Some e, st) \<Rightarrow> ((sent, gifts, Some (Wrap (''uu: send offer '' @ to_OrderNo t @ '': '') e)), st)
       | (None, st) \<Rightarrow>
          (case poll_offer c wait (to_OrderNo t) attempts attempts st of
             ((Some e, _), st) \<Rightarrow> ((sent, gifts, Some e), st)
           | ((None, ok), st) \<Rightarrow> deliver_todos c attempts wait ts (if ok then sent @ [to_OrderNo t] else sent) gifts st))"

definition DeliverPendingRentals :: "'w uu_client \<Rightarrow> nat \<Rightarrow> ('w \<Rightarrow> goerr option \<times> 'w) \<Rightarrow> 'w uu_state \<Rightarrow> (string list \<times> nat \<times> goerr option) \<times> 'w uu_state" where
  "DeliverPendingRentals c attempts wait st =
    (case GetWaitDeliverList c st of (Inl e, st) \<Rightarrow> (([], 0, Some e), st) | (Inr todos, st) \<Rightarrow> deliver_todos c attempts wait todos [] 0 st)"

end
