(* ===== verification/UuAdapter.thy ===== *)
theory UuAdapter
  imports UuEndpoints EcoAdapter
begin

text \<open>
  The UU adapter (\<open>platform/uu/adapter.go\<close>) and the SMS login (\<open>login.go\<close>).
\<close>

section \<open>Reading the platform\<close>

definition uu_Caps :: Capabilities where
  "uu_Caps = \<lparr>DepositDirect = True, LongLeaseThresholdDays = 8, MaxBatchPublish = 50, MaxBatchReprice = 50, cap_RentMaxDayMin = 1,
     cap_RentMaxDayMax = 90\<rparr>"

definition uu_inventory_item :: "uu_item \<Rightarrow> InventoryItem" where
  "uu_inventory_item it = \<lparr>ii_Channel = ChannelUU, ii_AssetID = ui_SteamAssetID it, ii_HashName = ui_MarketHashName it, ii_DisplayName = ui_ShotName it,
     ii_TemplateID = fst (ui_Template it), ii_MarkPrice = snd (ui_Template it), ii_Tradable = (ui_Tradable it \<and> ui_AssetStatus it = 0),
     ii_Status = (if ui_AssetStatus it \<noteq> 0 \<or> \<not> ui_Tradable it then ''locked'' else ''in_stock''), ii_Abrade = Fin 0\<rparr>"

definition uu_Inventory :: "'w uu_client \<Rightarrow> 'w uu_state \<Rightarrow> (goerr + InventoryItem list) \<times> 'w uu_state" where
  "uu_Inventory c st = (case GetInventory c False st of (Inl e, st) \<Rightarrow> (Inl e, st) | (Inr rows, st) \<Rightarrow> (Inr (map uu_inventory_item rows), st))"

definition uu_shelf_listing :: "LeaseShelfItem \<Rightarrow> ShelfListing" where
  "uu_shelf_listing it = \<lparr>sl_Channel = ChannelUU, sl_GoodsRef = dec_int (ls_ID it), sl_AssetID = ls_SteamAssetID it, sl_HashName = '''',
     sl_DisplayName = ls_Name it, sl_TemplateID = ls_TemplateID it, sl_RentPrice = strF (ls_ShortLeaseAmount it), sl_LongRentPrice = LongRent it,
     sl_MaxDays = ls_LeaseMaxDays it, sl_Deposit = strF (ls_DepositAmount it), sl_MarkPrice = Fin 0, sl_Leased = False, sl_ListedAt = 0\<rparr>"

definition uu_LeaseShelf :: "'w uu_client \<Rightarrow> 'w uu_state \<Rightarrow> (goerr + ShelfListing list) \<times> 'w uu_state" where
  "uu_LeaseShelf c st = (case ListLeaseShelf c True st of (Inl e, st) \<Rightarrow> (Inl e, st) | (Inr rows, st) \<Rightarrow> (Inr (map uu_shelf_listing rows), st))"

section \<open>References\<close>

text \<open>A text as \<open>%q\<close> prints it; bytes from 128 up stand for themselves.\<close>

definition go_esc :: "char \<Rightarrow> string" where
  "go_esc c = (let n = (of_char c :: int); b = CHR 0x5C in
    if n = 34 \<or> n = 92 then [b, c]
    else if n = 7 then [b, CHR ''a''] else if n = 8 then [b, CHR ''b''] else if n = 12 then [b, CHR ''f''] else if n = 10 then [b, CHR ''n'']
    else if n = 13 then [b, CHR ''r''] else if n = 9 then [b, CHR ''t''] else if n = 11 then [b, CHR ''v'']
    else if n < 32 \<or> n = 127 then [b, CHR ''x'', hex_digit (n div 16), hex_digit (n mod 16)]
    else [c])"

definition go_quote :: "string \<Rightarrow> string" where
  "go_quote s = CHR 0x22 # concat (map go_esc s) @ [CHR 0x22]"

definition unsigned_part :: "string \<Rightarrow> string" where
  "unsigned_part s = snd (split_sign s)"

definition ParseInt_err :: "string \<Rightarrow> goerr" where
  "ParseInt_err s = Errorf (''strconv.ParseInt: parsing '' @ go_quote s @ '': ''
     @ (if unsigned_part s \<noteq> [] \<and> list_all is_digit (unsigned_part s) then ''value out of range'' else ''invalid syntax''))"

definition parse_ref :: "string \<Rightarrow> string \<Rightarrow> goerr + int" where
  "parse_ref what s = (case ParseInt s of None \<Rightarrow> Inl (Wrap (''uu: '' @ what @ '' ref '' @ go_quote s @ '': '') (ParseInt_err s)) | Some n \<Rightarrow> Inr n)"

text \<open>The requests of a batch; the first bad reference refuses it.\<close>

fun all_of :: "('a \<Rightarrow> goerr + 'b) \<Rightarrow> 'a list \<Rightarrow> goerr + 'b list" where
  "all_of f [] = Inr []"
| "all_of f (x # xs) = (case f x of Inl e \<Rightarrow> Inl e | Inr y \<Rightarrow> (case all_of f xs of Inl e \<Rightarrow> Inl e | Inr ys \<Rightarrow> Inr (y # ys)))"

section \<open>Publishing\<close>

definition on_lease_item :: "PublishLeaseRequest \<Rightarrow> goerr + OnLeaseItem" where
  "on_lease_item it = (case parse_ref ''asset'' (pq_AssetRef it) of
      Inl e \<Rightarrow> Inl e
    | Inr n \<Rightarrow> Inr \<lparr>ol_AssetID = n, ol_LeaseDeposit = format_float (pq_Deposit it), ol_LeaseMaxDays = pq_MaxDays it, ol_LeaseUnitPrice = pq_RentPrice it,
        ol_LongLeaseUnitPrice = long_price (pq_LongRentPrice it)\<rparr>)"

definition defaultCompensationType :: int where
  "defaultCompensationType = 7"

definition uu_publish_results :: "PublishLeaseRequest list \<Rightarrow> PublishResultRaw list \<Rightarrow> PublishLeaseResult list" where
  "uu_publish_results items raws = map (\<lambda>(i, it).
     if i < length raws
     then \<lparr>pr_AssetRef = pq_AssetRef it, pr_GoodsRef = dec_int (pw_CommodityID (raws ! i)), pr_Success = (pw_Status (raws ! i) = 1), pr_Error = pw_Remark (raws ! i)\<rparr>
     else \<lparr>pr_AssetRef = pq_AssetRef it, pr_GoodsRef = '''', pr_Success = False, pr_Error = ''''\<rparr>) (enumerate 0 items)"

definition uu_PublishLease :: "'w uu_client \<Rightarrow> PublishLeaseRequest list \<Rightarrow> 'w uu_state \<Rightarrow> (PublishLeaseResult list \<times> goerr option) \<times> 'w uu_state" where
  "uu_PublishLease c items st =
    (case all_of on_lease_item items of
       Inl e \<Rightarrow> (([], Some e), st)
     | Inr ps \<Rightarrow>
        (case PutItemsOnLeaseShelf c ps defaultCompensationType st of
           (Inl e, st) \<Rightarrow> ((uu_publish_results items [], Some e), st)
         | (Inr raws, st) \<Rightarrow> (let out = uu_publish_results items raws in ((out, PartialIfAnyFailed out), st))))"

section \<open>Repricing\<close>

definition change_item :: "RepriceLeaseRequest \<Rightarrow> goerr + ChangeLeaseItem" where
  "change_item it = (case parse_ref ''goods'' (rq_GoodsRef it) of
      Inl e \<Rightarrow> Inl e
    | Inr n \<Rightarrow> Inr \<lparr>cl_CommodityID = n, cl_LeaseDeposit = format_float (rq_Deposit it), cl_LeaseMaxDays = rq_MaxDays it, cl_LeaseUnitPrice = rq_RentPrice it,
        cl_LongLeaseUnitPrice = long_price (rq_LongRentPrice it)\<rparr>)"

definition goods_id :: "RepriceLeaseRequest \<Rightarrow> int" where
  "goods_id it = (case ParseInt (rq_GoodsRef it) of None \<Rightarrow> 0 | Some n \<Rightarrow> n)"

text \<open>The message of the last failure the answer names for an id, and whether it names a success.\<close>

definition fail_message :: "changeFailInfo list \<Rightarrow> int \<Rightarrow> string option" where
  "fail_message infos n = map_of (rev (map (\<lambda>f. (cf_CommodityID f, cf_Message f)) (filter (\<lambda>f. cf_IsSuccess f \<noteq> 1) infos))) n"

definition named_ok :: "changeFailInfo list \<Rightarrow> int \<Rightarrow> bool" where
  "named_ok infos n \<longleftrightarrow> (\<exists>f \<in> set infos. cf_IsSuccess f = 1 \<and> cf_CommodityID f = n)"

definition uu_reprice_result :: "bool \<Rightarrow> changeFailInfo list \<Rightarrow> RepriceLeaseRequest \<Rightarrow> RepriceLeaseResult" where
  "uu_reprice_result whole infos it =
    (case fail_message infos (goods_id it) of
       Some m \<Rightarrow> \<lparr>rr_GoodsRef = rq_GoodsRef it, rr_Success = False, rr_Error = m\<rparr>
     | None \<Rightarrow>
        if \<not> whole \<and> \<not> named_ok infos (goods_id it)
        then \<lparr>rr_GoodsRef = rq_GoodsRef it, rr_Success = False, rr_Error = ''uu: missing per-item reprice result''\<rparr>
        else \<lparr>rr_GoodsRef = rq_GoodsRef it, rr_Success = True, rr_Error = ''''\<rparr>)"

text \<open>The error of the call is looked at after the number of items in the answer; a failed call has none.\<close>

definition uu_RepriceLease :: "'w uu_client \<Rightarrow> RepriceLeaseRequest list \<Rightarrow> 'w uu_state \<Rightarrow> (RepriceLeaseResult list \<times> goerr option) \<times> 'w uu_state" where
  "uu_RepriceLease c items st =
    (case all_of change_item items of
       Inl e \<Rightarrow> (([], Some e), st)
     | Inr ps \<Rightarrow>
        (case ChangeLeasePrices c ps defaultCompensationType st of (r, st) \<Rightarrow>
          let (ok, infos) = (case r of Inl _ \<Rightarrow> (0, []) | Inr x \<Rightarrow> x); err = (case r of Inl e \<Rightarrow> Some e | Inr _ \<Rightarrow> None); n = length items
          in if length infos \<noteq> n
             then ((map (uu_reprice_result False infos) items,
                    Some (partial_failure (dec_int (int (length infos)) @ ''/'' @ dec_int (int n) @ '' reprice results returned''))), st)
             else ((map (uu_reprice_result True infos) items,
                    if ok < int n \<and> err = None then Some (partial_failure (dec_int ok @ ''/'' @ dec_int (int n) @ '' succeeded'')) else err), st)))"

section \<open>Orders\<close>

definition uuWallClock :: duration where
  "uuWallClock = 8 * Hour"

text \<open>\<open>time.ParseInLocation(time.DateOnly, v, zone)\<close>.\<close>

definition parse_day :: "duration \<Rightarrow> string \<Rightarrow> instant option" where
  "parse_day off v = (if length v = 10 then parse_datetime off (v @ '' 00:00:00'') else None)"

definition parseUUTime :: "string \<Rightarrow> instant" where
  "parseUUTime s = (if s = '''' then 0
     else case parse_datetime uuWallClock s of Some t \<Rightarrow> t
        | None \<Rightarrow> (case parse_day uuWallClock s of Some t \<Rightarrow> t
           | None \<Rightarrow> (case parse_rfc3339 s of Some t \<Rightarrow> t | None \<Rightarrow> 0)))"

definition mapUUOrderStatus :: "int \<Rightarrow> string" where
  "mapUUOrderStatus code =
    (if code = 0 then ''leasing'' else if code = 2 then ''done'' else if code = 3 then ''bought_out'' else ''unknown'')"

definition uu_lease_order :: "instant \<Rightarrow> LeasedOutOrder \<Rightarrow> LeaseOrder" where
  "uu_lease_order now r = \<lparr>lo_Channel = ChannelUU, lo_OrderRef = le_OrderID r, lo_AssetID = AssetRef r, lo_HashName = le_Name r, lo_OrderType = '''',
     lo_Status = mapUUOrderStatus (le_OrderStatus r), lo_RentDays = le_LeaseDays r, lo_RentPrice = strF (le_RentPrice r), lo_Amount = Fin 0,
     lo_Deposits = strF (le_Deposit r), lo_StartedAt = parseUUTime (le_StartTime r), lo_DueAt = parseUUTime (le_EndTime r), lo_FinishedAt = None,
     lo_UpdatedAt = now, lo_Raw = None\<rparr>"

fun uu_orders_since :: "'w uu_client \<Rightarrow> instant \<Rightarrow> LeasedOutOrder list \<Rightarrow> 'w uu_state \<Rightarrow> LeaseOrder list \<times> 'w uu_state" where
  "uu_orders_since c since [] st = ([], st)"
| "uu_orders_since c since (r # rs) st =
    (case in_world (uc_Now c) st of (now, st) \<Rightarrow>
      case uu_orders_since c since rs st of (os, st) \<Rightarrow>
        let lo = uu_lease_order now r
        in (if lo_StartedAt lo < since - 30 * 24 * Hour \<and> since \<noteq> 0 then os else lo # os, st))"

definition uu_LeaseOrders :: "'w uu_client \<Rightarrow> instant \<Rightarrow> 'w uu_state \<Rightarrow> (goerr + LeaseOrder list) \<times> 'w uu_state" where
  "uu_LeaseOrders c since st =
    (case GetLeasedOutOrders c st of (Inl e, st) \<Rightarrow> (Inl e, st) | (Inr rows, st) \<Rightarrow> (case uu_orders_since c since rows st of (os, st) \<Rightarrow> (Inr os, st)))"

definition uu_Wallet :: "'w uu_state \<Rightarrow> (goerr + f64) \<times> 'w uu_state" where
  "uu_Wallet st = (Inl \<lparr>Error = ''platform: operation unsupported by channel'', wrapped = [ErrUnsupported]\<rparr>, st)"

definition uu_NewAdapter :: "'w uu_client \<Rightarrow> 'w uu_state Adapter" where
  "uu_NewAdapter c =
    \<lparr>Caps = uu_Caps, Healthy = fetchUserInfo c, Inventory = uu_Inventory c, LeaseShelf = uu_LeaseShelf c, PublishLease = uu_PublishLease c,
     RepriceLease = uu_RepriceLease c, Delist = OffShelf c, LeaseOrders = uu_LeaseOrders c, Wallet = uu_Wallet\<rparr>"

end
