(* ===== verification/UuLogin.thy ===== *)
theory UuLogin
  imports UuClient
begin

text \<open>
  The SMS login of UU (\<open>platform/uu/login.go\<close>, \<open>http.go\<close>), which runs before a client exists. A Go map is walked in an order
  \<open>walk\<close> picks: a rearrangement of its members.
\<close>

record 'w web =
  web_Random :: "nat \<Rightarrow> 'w \<Rightarrow> string \<times> 'w"
  web_Do :: "string \<Rightarrow> string \<Rightarrow> header \<Rightarrow> string option \<Rightarrow> 'w \<Rightarrow> (goerr + int \<times> string) \<times> 'w"
  web_walk :: "(string \<times> json) list \<Rightarrow> (string \<times> json) list"

definition random_login_headers :: "'w web \<Rightarrow> string \<Rightarrow> 'w \<Rightarrow> header \<times> 'w" where
  "random_login_headers h device w = (case web_Random h 32 w of (tag, w) \<Rightarrow> case web_Random h 65 w of (uk, w) \<Rightarrow> (loginHeaders device uk tag, w))"

definition json_header :: header where
  "json_header = h_Set ''content-type'' ''application/json; charset=utf-8'' []"

text \<open>\<open>postJSON\<close> does not look at the status.\<close>

definition postJSON :: "'w web \<Rightarrow> string \<Rightarrow> json \<Rightarrow> header \<Rightarrow> 'w \<Rightarrow> (goerr + string) \<times> 'w" where
  "postJSON h url p hs w =
    (case Marshal p of
       None \<Rightarrow> (Inl (Errorf ''uu: marshal: json: unsupported value''), w)
     | Some body \<Rightarrow>
        (case web_Do h ''POST'' url (json_header @ hs) (Some body) w of
           (Inl e, w) \<Rightarrow> (Inl (Wrap (''uu: post '' @ url @ '': '') e), w) | (Inr (_, text), w) \<Rightarrow> (Inr text, w)))"

definition getJSON :: "'w web \<Rightarrow> string \<Rightarrow> header \<Rightarrow> 'w \<Rightarrow> (goerr + string) \<times> 'w" where
  "getJSON h url hs w =
    (case web_Do h ''GET'' url hs None w of
       (Inl e, w) \<Rightarrow> (Inl (Wrap (''uu: get '' @ url @ '': '') e), w) | (Inr resp, w) \<Rightarrow> (uu_answer (''get '' @ url) resp, w))"

section \<open>Asking for a code\<close>

datatype sms_mode = SmsModeDownlink | SmsModeUplink | SmsModeCaptcha

record SmsCodeResult =
  sr_Mode :: sms_mode
  sr_Msg :: string
  sr_ReqTicket :: string
  sr_Secs :: int
  sr_LoginReqTicket :: string
  sr_VerifyRaw :: "json option"

record CaptchaResult =
  cr_Ticket :: string
  cr_Randstr :: string
  cr_ReqTicket :: string

text \<open>The keys in lower case; of keys that become one the member walked last stays.\<close>

definition lower_keys :: "(string \<times> json) list \<Rightarrow> (string \<times> json) list" where
  "lower_keys kvs = foldl (\<lambda>m (k, v). AList.update (map lower k) v m) [] kvs"

definition flat_key :: "string \<Rightarrow> string" where
  "flat_key k = filter (\<lambda>c. c \<noteq> CHR ''_'' \<and> c \<noteq> CHR ''-'') k"

definition any_ticket :: "(string \<times> json) list \<Rightarrow> string" where
  "any_ticket kvs = (case filter (\<lambda>(k, v). sublist ''reqticket'' (flat_key k) \<and> (case v of JStr s \<Rightarrow> s \<noteq> '''' | _ \<Rightarrow> False)) kvs of
     (_, JStr s) # _ \<Rightarrow> s | _ \<Rightarrow> '''')"

definition parseVerifyData :: "((string \<times> json) list \<Rightarrow> (string \<times> json) list) \<Rightarrow> json option \<Rightarrow> string \<times> int" where
  "parseVerifyData walk d =
    (case (case d of Some (JObj kvs) \<Rightarrow> Some (AList.clearjunk (rev kvs)) | Some JNull \<Rightarrow> Some [] | _ \<Rightarrow> None) of
       None \<Rightarrow> ('''', 0)
     | Some kvs \<Rightarrow>
        let m = lower_keys (walk kvs); t = rawString m [''behaviorverifyreqticket'', ''loginreqticket'', ''reqticket'']
        in (if t = '''' then any_ticket (walk m) else t, (case rawInt m [''secs''] of None \<Rightarrow> 0 | Some n \<Rightarrow> n)))"

text \<open>\<open>"\<close>success\<open>"\<close>, \<open>"\<close>graphic verification\<open>"\<close> and \<open>"\<close>slider\<open>"\<close>, in UTF-8.\<close>

definition msg_success :: string where
  "msg_success = map char_of [0xE6, 0x88, 0x90, 0xE5, 0x8A, 0x9F :: int]"

definition msg_graphic :: string where
  "msg_graphic = map char_of [0xE5, 0x9B, 0xBE, 0xE5, 0xBD, 0xA2, 0xE6, 0xA0, 0xA1, 0xE9, 0xAA, 0x8C :: int]"

definition msg_slider :: string where
  "msg_slider = map char_of [0xE6, 0xBB, 0x91, 0xE5, 0x9D, 0x97 :: int]"

definition apiBase :: string where
  "apiBase = ''https://api.youpin898.com''"

definition sms_payload :: "string \<Rightarrow> string \<Rightarrow> CaptchaResult option \<Rightarrow> json" where
  "sms_payload phone sessionID captcha =
    go_map ([(''Area'', JInt 86), (''Mobile'', JStr phone), (''Sessionid'', JStr sessionID), (''Code'', JStr '''')]
      @ (case captcha of None \<Rightarrow> []
         | Some x \<Rightarrow> [(''behaviorVerifyResult'', go_map [(''randstr'', JStr (cr_Randstr x)), (''ticket'', JStr (cr_Ticket x)), (''reqTicket'', JStr (cr_ReqTicket x))])]))"

text \<open>The error comes with the result so far.\<close>

definition sms_result :: "((string \<times> json) list \<Rightarrow> (string \<times> json) list) \<Rightarrow> uu_envelope \<Rightarrow> SmsCodeResult \<times> goerr option" where
  "sms_result walk env =
    (let msg = ue_Msg env; sent = sublist msg_success msg; verify = parseVerifyData walk (ue_Data env);
         r = \<lparr>sr_Mode = (if sent then SmsModeDownlink else SmsModeUplink), sr_Msg = msg, sr_ReqTicket = '''', sr_Secs = 0, sr_LoginReqTicket = '''',
              sr_VerifyRaw = None\<rparr>
     in if \<not> sent \<and> (sublist msg_graphic msg \<or> sublist msg_slider msg)
        then (r\<lparr>sr_Mode := SmsModeCaptcha, sr_ReqTicket := fst verify, sr_Secs := snd verify, sr_VerifyRaw := ue_Data env\<rparr>, None)
        else if ue_Code env \<noteq> 0 then (r, uu_checkEnv env ''/api/user/Auth/SendSignInSmsCode'')
        else if sent then (r\<lparr>sr_LoginReqTicket := fst verify, sr_Secs := snd verify\<rparr>, None)
        else (r, None))"

definition no_sms :: SmsCodeResult where
  "no_sms = \<lparr>sr_Mode = SmsModeUplink, sr_Msg = '''', sr_ReqTicket = '''', sr_Secs = 0, sr_LoginReqTicket = '''', sr_VerifyRaw = None\<rparr>"

definition SendLoginSmsCode :: "'w web \<Rightarrow> string \<Rightarrow> string \<Rightarrow> CaptchaResult option \<Rightarrow> 'w \<Rightarrow> (goerr + SmsCodeResult \<times> goerr option) \<times> 'w" where
  "SendLoginSmsCode h phone sessionID captcha w =
    (case random_login_headers h sessionID w of (hs, w) \<Rightarrow>
      case postJSON h (apiBase @ ''/api/user/Auth/SendSignInSmsCode'') (sms_payload phone sessionID captcha) hs w of
        (Inl e, w) \<Rightarrow> (Inl e, w)
      | (Inr body, w) \<Rightarrow> (case uu_decodeEnvelope body of Inl e \<Rightarrow> (Inl e, w) | Inr env \<Rightarrow> (Inr (sms_result (web_walk h) env), w)))"

section \<open>Signing in\<close>

definition GetSmsUpSignInConfig :: "'w web \<Rightarrow> 'w \<Rightarrow> (goerr + string \<times> string) \<times> 'w" where
  "GetSmsUpSignInConfig h w =
    (case web_Random h 16 w of (device, w) \<Rightarrow>
      case random_login_headers h device w of (hs, w) \<Rightarrow>
        (case getJSON h (apiBase @ ''/api/user/Auth/GetSmsUpSignInConfig'') hs w of
           (Inl e, w) \<Rightarrow> (Inl e, w)
         | (Inr body, w) \<Rightarrow>
            (case uu_decodeEnvelope body of
               Inl e \<Rightarrow> (Inl e, w)
             | Inr env \<Rightarrow>
                (case uu_checkEnv env ''/api/user/Auth/GetSmsUpSignInConfig'' of
                   Some e \<Rightarrow> (Inl e, w)
                 | None \<Rightarrow>
                    (if ue_Data env = None then Inr ('''', '''')
                     else uu_payload ''smsup config'' (read_struct [string_field ''SmsUpContent'' (\<lambda>v p. (v, snd p)), string_field ''SmsUpNumber'' (\<lambda>v p. (fst p, v))] ('''', '''')) (ue_Data env), w)))))"

definition sign_in_payload :: "string \<Rightarrow> string \<Rightarrow> string \<Rightarrow> string \<Rightarrow> json" where
  "sign_in_payload phone code sessionID ticket =
    go_map ([(''Area'', JInt 86), (''Code'', JStr code), (''DeviceName'', JStr sessionID), (''Sessionid'', JStr sessionID), (''Mobile'', JStr phone)]
      @ (if ticket \<noteq> '''' then [(''loginReqTicket'', JStr ticket)] else []))"

definition token_of :: "uu_envelope \<Rightarrow> goerr + string" where
  "token_of env =
    (case (if ue_Data env = None then Inr '''' else uu_payload ''sms signin'' (read_struct [string_field ''Token'' (\<lambda>v p. v)] '''') (ue_Data env)) of
       Inl e \<Rightarrow> Inl e
     | Inr t \<Rightarrow> if t = '''' then Inl (Errorf (''uu: sms signin: empty token (msg='' @ ue_Msg env @ '')'')) else Inr t)"

definition SmsSignIn :: "'w web \<Rightarrow> string \<Rightarrow> string \<Rightarrow> string \<Rightarrow> string \<Rightarrow> 'w \<Rightarrow> (goerr + string) \<times> 'w" where
  "SmsSignIn h phone code sessionID ticket w =
    (let url = (if code = '''' then ''https://api.youpin898.com/api/user/Auth/SmsUpSignIn'' else ''https://api.youpin898.com/api/user/Auth/SmsSignIn'') in
     case random_login_headers h sessionID w of (hs, w) \<Rightarrow>
       (case postJSON h url (sign_in_payload phone code sessionID ticket) hs w of
          (Inl e, w) \<Rightarrow> (Inl e, w)
        | (Inr body, w) \<Rightarrow>
           (case uu_decodeEnvelope body of
              Inl e \<Rightarrow> (Inl e, w)
            | Inr env \<Rightarrow> (case uu_checkEnv env ''SmsSignIn'' of Some e \<Rightarrow> (Inl e, w) | None \<Rightarrow> (token_of env, w)))))"

end
