(* ===== verification/UuProps.thy ===== *)
theory UuProps
  imports UuAdapter UuLogin Reprice
begin

text \<open>
  What the UU client and adapter report: calls fail closed, repriced items are counted, deliveries are confirmed.
\<close>

section \<open>A call\<close>

definition uu_confirmed :: "'w uu_client \<Rightarrow> string \<Rightarrow> string \<Rightarrow> json option \<Rightarrow> bool" where
  "uu_confirmed c method path d \<longleftrightarrow> (\<exists>hs body w answer w' kvs. uc_Do c method path hs body w = (Inr (200, answer), w')
     \<and> json_object answer = Some kvs \<and> rawInt kvs [''Code'', ''code''] = Some 0
     \<and> d = (case member kvs ''Data'' of Some x \<Rightarrow> Some x | None \<Rightarrow> member kvs ''data''))"

lemma uu_do_answered:
  assumes "uu_do c method path p st = (Inr body, st')"
  shows "\<exists>hs b w w'. uc_Do c method path hs b w = (Inr (200, body), w')"
proof -
  obtain l st1 where l: "in_world (uc_Limiter c) st = (l, st1)" by (metis surj_pair)
  from assms l have l0: "l = None" by (cases l) (simp_all add: uu_do_def)
  from assms l l0 obtain b where b: "request_body method p = Inr b" by (cases "request_body method p") (simp_all add: uu_do_def)
  obtain uk st2 where k: "in_world (uc_Random c 65) st1 = (uk, st2)" by (metis surj_pair)
  obtain tag st3 where t: "in_world (uc_Random c 32) st2 = (tag, st3)" by (metis surj_pair)
  obtain r w' where d: "uc_Do c method path (uu_headers (uc_token c) (uc_device c) uk tag) b (us_world st3) = (r, w')" by (metis surj_pair)
  from assms l l0 b k t d obtain resp where r: "r = Inr resp" and a: "uu_answer (method @ '' '' @ path) resp = Inr body"
    by (cases r) (simp_all add: uu_do_def in_world_def)
  obtain code b' where "resp = (code, b')" by (cases resp)
  with a have "resp = (200, body)" by (simp add: uu_answer_def split: if_splits)
  then show ?thesis using d r by blast
qed

text \<open>C25: A UU call succeeds only on an answer with HTTP status 200 that is a JSON object with an integer code, and that code 0;
  its value is that answer's payload. Error pages, missing codes and business errors never pass for success.\<close>

theorem uu_call_fails_closed:
  assumes "uu_call c method path p what st = (Inr d, st')"
  shows "uu_confirmed c method path d"
proof -
  obtain r st1 where d: "uu_do c method path p st = (r, st1)" by (metis surj_pair)
  obtain body where r: "r = Inr body" using assms d by (cases r) (simp_all add: uu_call_def uu_envelope_of_def)
  obtain env where e: "uu_decodeEnvelope body = Inr env" using assms d r by (cases "uu_decodeEnvelope body") (simp_all add: uu_call_def uu_envelope_of_def)
  have c: "ue_Code env = 0" "ue_Data env = d"
    using assms d r e by (auto simp: uu_call_def uu_envelope_of_def uu_checkEnv_def Let_def split: option.splits if_splits)
  obtain kvs where k: "json_object body = Some kvs" "rawInt kvs [''Code'', ''code''] = Some (ue_Code env)"
    "ue_Data env = (case member kvs ''Data'' of Some x \<Rightarrow> Some x | None \<Rightarrow> member kvs ''data'')"
    using e by (auto simp: uu_decodeEnvelope_def split: option.splits)
  then show ?thesis using uu_do_answered[OF d[unfolded r]] c unfolding uu_confirmed_def by metis
qed

section \<open>The inventory\<close>

fun uu_read_pages :: "'w uu_client \<Rightarrow> int \<Rightarrow> nat \<Rightarrow> 'w uu_state \<Rightarrow> uu_item list list \<Rightarrow> 'w uu_state \<Rightarrow> bool" where
  "uu_read_pages c i 0 st ps st' \<longleftrightarrow> ps = [] \<and> st' = st"
| "uu_read_pages c i (Suc n) st ps st' \<longleftrightarrow> (\<exists>rows qs st1. ps = rows # qs \<and> uu_read_pages c (i + 1) n st1 qs st'
     \<and> uu_fetch c ''POST'' ''/api/commodity/Inventory/GetUserInventoryDataListV3'' (Some (inventory_request (uc_device c) False i)) ''inventory'' items_of_page st
         = (Inr (Some rows), st1))"

lemma uu_inventory_pages_whole:
  assumes "uu_inventory_pages c False n i out st = (Inr items, st')"
  shows "\<exists>ps k. uu_read_pages c i k st ps st' \<and> items = out @ concat ps \<and> ps \<noteq> [] \<and> length (last ps) < 1000 \<and> (\<forall>q \<in> set (butlast ps). 1000 \<le> length q)"
  using assms
proof (induction n arbitrary: i out st)
  case (Suc n)
  let ?call = "uu_fetch c ''POST'' ''/api/commodity/Inventory/GetUserInventoryDataListV3'' (Some (inventory_request (uc_device c) False i)) ''inventory'' items_of_page st"
  obtain r st1 where f: "?call = (r, st1)" by (metis surj_pair)
  obtain rows where r: "r = Inr (Some rows)" using Suc.prems f by (auto split: sum.splits option.splits)
  show ?case
  proof (cases "length rows < 1000")
    case True
    then have "items = out @ rows" "st' = st1" using Suc.prems f r by simp_all
    then show ?thesis using f r True by (intro exI[of _ "[rows]"] exI[of _ 1]) simp
  next
    case False
    then have "uu_inventory_pages c False n (i + 1) (out @ rows) st1 = (Inr items, st')" using Suc.prems f r by simp
    from Suc.IH[OF this] obtain ps k where p: "uu_read_pages c (i + 1) k st1 ps st'" "items = (out @ rows) @ concat ps" "ps \<noteq> []"
      "length (last ps) < 1000" "\<forall>q \<in> set (butlast ps). 1000 \<le> length q" by blast
    then show ?thesis using f r False by (intro exI[of _ "rows # ps"] exI[of _ "Suc k"]) auto
  qed
qed simp

text \<open>An inventory the UU adapter returns is complete: it concatenates the pages from the first on, every page but the last
  full and the last one short.\<close>

theorem uu_inventory_whole:
  assumes "uu_Inventory c st = (Inr items, st')"
  shows "\<exists>ps k. uu_read_pages c 1 k st ps st' \<and> items = map uu_inventory_item (concat ps) \<and> ps \<noteq> [] \<and> length (last ps) < 1000
    \<and> (\<forall>q \<in> set (butlast ps). 1000 \<le> length q)"
proof -
  obtain r st1 where g: "GetInventory c False st = (r, st1)" by (metis surj_pair)
  obtain rows where r: "r = Inr rows" "items = map uu_inventory_item rows" "st1 = st'" using assms g by (cases r) (auto simp: uu_Inventory_def)
  show ?thesis using uu_inventory_pages_whole[of c maxListPages 1 "[]" st rows st'] g r unfolding GetInventory_def by fastforce
qed

section \<open>Repricing\<close>

lemma all_of_length: "all_of f xs = Inr ys \<Longrightarrow> length ys = length xs"
  by (induction xs arbitrary: ys) (auto split: sum.splits)

text \<open>Repricing on UU reports no error only when the platform accepted the call, named as many items as were asked for and
  counted at least as many successes; and of these exactly the items it named as failed are reported as failed.\<close>

theorem uu_reprice_success_counted:
  assumes "uu_RepriceLease c items st = ((out, None), st')"
  shows "\<exists>ps ok infos. ChangeLeasePrices c ps 7 st = (Inr (ok, infos), st') \<and> length infos = length items \<and> int (length items) \<le> ok
    \<and> map rr_GoodsRef out = map rq_GoodsRef items \<and> map rr_Success out = map (\<lambda>it. fail_message infos (goods_id it) = None) items"
proof -
  obtain ps where p: "all_of change_item items = Inr ps" using assms by (cases "all_of change_item items") (simp_all add: uu_RepriceLease_def)
  obtain r st1 where c: "ChangeLeasePrices c ps 7 st = (r, st1)" by (metis surj_pair)
  obtain ok infos where r: "r = Inr (ok, infos)"
    using assms p c by (cases r) (auto simp: uu_RepriceLease_def Let_def defaultCompensationType_def split: if_splits)
  have n: "length infos = length items" "int (length items) \<le> ok" "st1 = st'" and o: "out = map (uu_reprice_result True infos) items"
    using assms p c r by (auto simp: uu_RepriceLease_def Let_def defaultCompensationType_def split: if_splits)
  have "map rr_GoodsRef out = map rq_GoodsRef items" "map rr_Success out = map (\<lambda>it. fail_message infos (goods_id it) = None) items"
    by (auto simp: o uu_reprice_result_def split: option.split)
  then show ?thesis using c r n by blast
qed

text \<open>When the number of answers matches, UU repricing also reports success for an item the answer does not name at all.\<close>

theorem uu_reprice_trusts_the_count:
  assumes "all_of change_item items = Inr ps" "ChangeLeasePrices c ps 7 st = (Inr (ok, infos), st')" "length infos = length items"
    "it \<in> set items" "goods_id it \<notin> cf_CommodityID ` set infos"
  shows "\<exists>out err r. uu_RepriceLease c items st = ((out, err), st') \<and> r \<in> set out \<and> rr_GoodsRef r = rq_GoodsRef it \<and> rr_Success r"
proof -
  have "fail_message infos (goods_id it) = None" using assms(5) by (auto simp: fail_message_def map_of_eq_None_iff)
  then have r: "uu_reprice_result True infos it = \<lparr>rr_GoodsRef = rq_GoodsRef it, rr_Success = True, rr_Error = ''''\<rparr>" by (simp add: uu_reprice_result_def)
  have "uu_reprice_result True infos it \<in> set (map (uu_reprice_result True infos) items)" using assms(4) by simp
  then show ?thesis
    by (intro exI[of _ "map (uu_reprice_result True infos) items"] exI[of _ "snd (fst (uu_RepriceLease c items st))"] exI[of _ "uu_reprice_result True infos it"])
      (use assms(1-3) r in \<open>simp add: uu_RepriceLease_def defaultCompensationType_def Let_def\<close>)
qed

text \<open>When the platform refuses a UU reprice call (expired login, risk control), the adapter reports a partial failure
  instead, and that error backs the channel off for no time at all.\<close>

theorem uu_reprice_loses_risk_signals:
  assumes "all_of change_item items = Inr ps" "ChangeLeasePrices c ps 7 st = (Inl e, st')" "items \<noteq> []"
  shows "\<exists>out x. uu_RepriceLease c items st = ((out, Some x), st') \<and> errors_Is (Some x) ErrPartialFailure \<and> riskCooldown x = 0"
  using assms by (simp add: uu_RepriceLease_def defaultCompensationType_def Let_def partial_failure_def riskCooldown_def errors_Is_def)

section \<open>Delivery\<close>

lemma poll_offer_confirmed: "poll_offer c wait y attempts left st = ((None, True), st') \<Longrightarrow> \<exists>s s'. GetDeliveryOfferStatus c y s = (Inr 3, s')"
proof (induction c wait y attempts left st rule: poll_offer.induct)
  case (2 c wait y attempts left st)
  obtain a st1 where a: "in_world wait st = (a, st1)" by (metis surj_pair)
  obtain r st2 where r: "GetDeliveryOfferStatus c y st1 = (r, st2)" by (metis surj_pair)
  have a0: "a = None" using "2.prems" a by (cases a) simp_all
  show ?case
  proof (cases r)
    case (Inr s)
    show ?thesis
    proof (cases "s = 3")
      case False
      then have "poll_offer c wait y attempts left st2 = ((None, True), st')" using "2.prems" a a0 r Inr by (simp split: if_splits)
      then show ?thesis using "2.IH"(2)[OF a[symmetric] a0 r[symmetric] Inr] False "2.prems" a a0 r Inr by (simp split: if_splits)
    qed (use r Inr in blast)
  next
    case (Inl e)
    then show ?thesis using "2.IH"(1)[OF a[symmetric] a0 r[symmetric] Inl] "2.prems" a a0 r by (simp split: if_splits)
  qed
qed simp

definition delivered :: "'w uu_client \<Rightarrow> TodoOrder list \<Rightarrow> string \<Rightarrow> bool" where
  "delivered c todos y \<longleftrightarrow> (\<exists>t \<in> set todos. to_OrderNo t = y \<and> to_Message t = msgWaitSendOffer \<and> \<not> sublist msgGift (to_Message t))
     \<and> (\<exists>s s'. SendDeliveryOffer c y s = (None, s')) \<and> (\<exists>s s'. GetDeliveryOfferStatus c y s = (Inr 3, s'))"

lemma deliver_todos_confirmed:
  assumes "deliver_todos c n wait ts sent gifts st = ((sent', gifts', err), st')" "set ts \<subseteq> set todos" "\<forall>y \<in> set sent. delivered c todos y"
  shows "\<forall>y \<in> set sent'. delivered c todos y"
  using assms
proof (induction ts arbitrary: sent gifts st)
  case (Cons t ts)
  have ts: "set ts \<subseteq> set todos" "t \<in> set todos" using Cons.prems(2) by auto
  show ?case
  proof (cases "sublist msgGift (to_Message t) \<or> to_Message t \<noteq> msgWaitSendOffer")
    case True
    then show ?thesis using Cons.IH[OF _ ts(1) Cons.prems(3)] Cons.prems(1) by (auto split: if_splits)
  next
    case False
    obtain e st1 where e: "SendDeliveryOffer c (to_OrderNo t) st = (e, st1)" by (metis surj_pair)
    obtain x ok st2 where x: "poll_offer c wait (to_OrderNo t) n n st1 = ((x, ok), st2)" by (metis surj_pair)
    show ?thesis
    proof (cases "e = None \<and> x = None")
      case True
      have s: "\<forall>y \<in> set (if ok then sent @ [to_OrderNo t] else sent). delivered c todos y"
      proof (cases ok)
        case ok: True
        have "\<exists>s s'. GetDeliveryOfferStatus c (to_OrderNo t) s = (Inr 3, s')"
          by (rule poll_offer_confirmed[of c wait "to_OrderNo t" n n st1 st2]) (use x True ok in simp)
        moreover have "\<exists>s s'. SendDeliveryOffer c (to_OrderNo t) s = (None, s')" using e True by auto
        ultimately have "delivered c todos (to_OrderNo t)" using False ts(2) unfolding delivered_def by auto
        then show ?thesis using Cons.prems(3) ok by simp
      qed (use Cons.prems(3) in simp)
      have nf: "\<not> sublist msgGift msgWaitSendOffer" "to_Message t = msgWaitSendOffer" using False by auto
      have "deliver_todos c n wait ts (if ok then sent @ [to_OrderNo t] else sent) gifts st2 = ((sent', gifts', err), st')"
        using Cons.prems(1) nf e x True by simp
      then show ?thesis by (rule Cons.IH[OF _ ts(1) s])
    next
      case no: False
      then have "sent' = sent" using Cons.prems(1) False e x by (cases e; cases x) auto
      then show ?thesis using Cons.prems(3) by simp
    qed
  qed
qed simp

text \<open>C26: Every order UU delivery reports as sent was on the list of open tasks with exactly the message that asks for an offer
  (never a gift), its offer was accepted for sending, and the platform confirmed that it was sent.\<close>

theorem uu_delivery_confirmed:
  assumes "DeliverPendingRentals c n wait st = ((sent, gifts, err), st')" "y \<in> set sent"
  shows "\<exists>todos st1. GetWaitDeliverList c st = (Inr todos, st1) \<and> delivered c todos y"
proof -
  obtain r st1 where g: "GetWaitDeliverList c st = (r, st1)" by (metis surj_pair)
  obtain todos where r: "r = Inr todos" using assms g by (cases r) (simp_all add: DeliverPendingRentals_def)
  have "deliver_todos c n wait todos [] 0 st1 = ((sent, gifts, err), st')" using assms(1) g r by (simp add: DeliverPendingRentals_def)
  from deliver_todos_confirmed[OF this, of todos] show ?thesis using assms(2) g r by auto
qed

section \<open>A platform that answers by path\<close>

definition uu_fixed :: "(string \<Rightarrow> string) \<Rightarrow> nat uu_client" where
  "uu_fixed body = \<lparr>uc_token = ''t'', uc_device = ''d'', uc_Limiter = (\<lambda>w. (None, w)), uc_Random = (\<lambda>n w. (''r'', w)), uc_Now = (\<lambda>w. (0, w)),
     uc_Do = (\<lambda>method path hs b w. (Inr (200, body path), w + 1))\<rparr>"

definition uu_fresh :: "nat uu_state" where
  "uu_fresh = \<lparr>us_userID = 1, us_nick = ''n'', us_world = 0\<rparr>"

definition number_body :: string where
  \<open>number_body = ''{"code":0,"data":7}''\<close>

definition item_body :: string where
  \<open>item_body = ''{"Code":0,"Data":{"ItemsInfos":[{"SteamAssetId":"a","Tradable":true}]}}''\<close>

definition repriced_body :: string where
  \<open>repriced_body = ''{"Code":0,"Data":{"SuccessCount":2,"Commoditys":[{"CommodityId":7,"IsSuccess":1},{"CommodityId":7,"IsSuccess":1}]}}''\<close>

definition expired_body :: string where
  \<open>expired_body = ''{"Code":84101}''\<close>

definition status_body :: string where
  \<open>status_body = ''{"Code":0,"Data":{"status":3}}''\<close>

definition todo_body :: string where
  \<open>todo_body = ''{"Code":0,"Data":[{"orderNo":"y","message":"'' @ msgWaitSendOffer @ ''"}]}''\<close>

definition request_for :: "string \<Rightarrow> RepriceLeaseRequest" where
  "request_for ref = \<lparr>rq_GoodsRef = ref, rq_AssetRef = ''a'', rq_RentPrice = Fin 1, rq_LongRentPrice = Fin 0, rq_MaxDays = 8, rq_Deposit = Fin 9\<rparr>"

theorem uu_call_fails_closed_witness: "uu_confirmed (uu_fixed (\<lambda>_. number_body)) ''GET'' ''/x'' (Some (JInt 7))"
proof -
  have "fst (uu_call (uu_fixed (\<lambda>_. number_body)) ''GET'' ''/x'' None ''x'' uu_fresh) = Inr (Some (JInt 7))" by code_simp
  then show ?thesis by (metis uu_call_fails_closed prod.collapse)
qed

theorem uu_inventory_whole_witness:
  "\<exists>items ps k st'. uu_read_pages (uu_fixed (\<lambda>_. item_body)) 1 k uu_fresh ps st' \<and> items = map uu_inventory_item (concat ps) \<and> length items = 1"
proof -
  have l: "map_sum (\<lambda>_. ()) length (fst (uu_Inventory (uu_fixed (\<lambda>_. item_body)) uu_fresh)) = Inr 1" by code_simp
  obtain r st' where e: "uu_Inventory (uu_fixed (\<lambda>_. item_body)) uu_fresh = (r, st')" by (metis surj_pair)
  with l obtain items where i: "r = Inr items" "length items = 1" by (cases r) simp_all
  show ?thesis using uu_inventory_whole[OF e[unfolded i(1)]] i(2) by blast
qed

theorem uu_reprice_success_counted_witness:
  "\<exists>ps ok infos st'. ChangeLeasePrices (uu_fixed (\<lambda>_. repriced_body)) ps 7 uu_fresh = (Inr (ok, infos), st') \<and> length infos = 2 \<and> 2 \<le> ok"
proof -
  let ?run = "uu_RepriceLease (uu_fixed (\<lambda>_. repriced_body)) [request_for ''7'', request_for ''7''] uu_fresh"
  have "snd (fst ?run) = None" by code_simp
  then have "?run = ((fst (fst ?run), None), snd ?run)" by (metis prod.collapse)
  from uu_reprice_success_counted[OF this] obtain ps ok infos where r: "ChangeLeasePrices (uu_fixed (\<lambda>_. repriced_body)) ps 7 uu_fresh = (Inr (ok, infos), snd ?run)"
    "length infos = length [request_for ''7'', request_for ''7'']" "int (length [request_for ''7'', request_for ''7'']) \<le> ok" by blast
  show ?thesis by (rule exI[of _ ps], rule exI[of _ ok], rule exI[of _ infos], rule exI[of _ "snd ?run"]) (use r in simp)
qed

theorem uu_reprice_trusts_the_count_witness:
  "\<exists>out err st' r. uu_RepriceLease (uu_fixed (\<lambda>_. repriced_body)) [request_for ''7'', request_for ''8''] uu_fresh = ((out, err), st') \<and> r \<in> set out
    \<and> rr_GoodsRef r = ''8'' \<and> rr_Success r"
proof -
  let ?items = "[request_for ''7'', request_for ''8'']"
  let ?infos = "[\<lparr>cf_CommodityID = 7, cf_IsSuccess = 1, cf_Message = ''''\<rparr>, \<lparr>cf_CommodityID = 7, cf_IsSuccess = 1, cf_Message = ''''\<rparr>]"
  obtain ps where p: "all_of change_item ?items = Inr ps" and "map cl_CommodityID ps = [7, 8]"
    by (cases "all_of change_item ?items") (simp_all add: change_item_def parse_ref_def request_for_def ParseInt_def Atoi_def digits_value_def is_digit_def)
  have g: "goods_id (request_for ''8'') = 8" by code_simp
  have "map_sum (\<lambda>_. ()) snd (fst (case all_of change_item ?items of Inl e \<Rightarrow> (Inl e, uu_fresh) | Inr ps \<Rightarrow> ChangeLeasePrices (uu_fixed (\<lambda>_. repriced_body)) ps 7 uu_fresh)) = Inr ?infos"
    by code_simp
  then obtain ok st' where "ChangeLeasePrices (uu_fixed (\<lambda>_. repriced_body)) ps 7 uu_fresh = (Inr (ok, ?infos), st')"
    using p by (cases "ChangeLeasePrices (uu_fixed (\<lambda>_. repriced_body)) ps 7 uu_fresh"; cases "fst (ChangeLeasePrices (uu_fixed (\<lambda>_. repriced_body)) ps 7 uu_fresh)") auto
  from uu_reprice_trusts_the_count[OF p this, of "request_for ''8''"] g show ?thesis by (auto simp: request_for_def)
qed

theorem uu_reprice_loses_risk_signals_witness:
  "\<exists>out x st'. uu_RepriceLease (uu_fixed (\<lambda>_. expired_body)) [request_for ''7''] uu_fresh = ((out, Some x), st') \<and> riskCooldown x = 0"
proof -
  obtain ps where p: "all_of change_item [request_for ''7''] = Inr ps"
    by (cases "all_of change_item [request_for ''7'']") (simp_all add: change_item_def parse_ref_def request_for_def ParseInt_def Atoi_def digits_value_def is_digit_def)
  have "isl (fst (case all_of change_item [request_for ''7''] of Inl e \<Rightarrow> (Inr (0, []), uu_fresh) | Inr ps \<Rightarrow> ChangeLeasePrices (uu_fixed (\<lambda>_. expired_body)) ps 7 uu_fresh))"
    by code_simp
  then obtain e st' where "ChangeLeasePrices (uu_fixed (\<lambda>_. expired_body)) ps 7 uu_fresh = (Inl e, st')" using p by (auto simp: isl_def) (metis prod.collapse)
  from uu_reprice_loses_risk_signals[OF p this] show ?thesis by auto
qed

theorem uu_delivery_confirmed_witness:
  "\<exists>todos st1. GetWaitDeliverList (uu_fixed (\<lambda>p. if sublist ''orderTodo'' p then todo_body else status_body)) uu_fresh = (Inr todos, st1)
    \<and> delivered (uu_fixed (\<lambda>p. if sublist ''orderTodo'' p then todo_body else status_body)) todos ''y''"
proof -
  let ?c = "uu_fixed (\<lambda>p. if sublist ''orderTodo'' p then todo_body else status_body)"
  let ?run = "DeliverPendingRentals ?c 5 (\<lambda>w. (None, w)) uu_fresh"
  have "fst (fst ?run) = [''y'']" by code_simp
  moreover obtain sent gifts err st' where e: "?run = ((sent, gifts, err), st')" by (metis surj_pair)
  ultimately have "''y'' \<in> set sent" by simp
  from uu_delivery_confirmed[OF e this] show ?thesis .
qed

end
