(* ===== verification/Aes.thy ===== *)
theory Aes
  imports Sha256 JsonText
begin

text \<open>
  What the program uses of Go's cryptographic library besides SHA-256: AES in Galois/counter mode with nonces of 12 bytes
  (\<open>crypto/aes\<close>, \<open>crypto/cipher\<close>; FIPS 197, NIST SP 800-38D), SHA-1 and HMAC-SHA-1 (\<open>crypto/sha1\<close>; FIPS 180-4), and padded
  base64 (\<open>encoding/base64\<close>). Texts are byte strings.
\<close>

unbundle bit_operations_syntax

section \<open>AES\<close>

type_synonym w8 = "8 word"

definition xtime :: "w8 \<Rightarrow> w8" where
  "xtime x = (if bit x 7 then push_bit 1 x XOR 0x1B else push_bit 1 x)"

fun gf_mul :: "nat \<Rightarrow> w8 \<Rightarrow> w8 \<Rightarrow> w8" where
  "gf_mul 0 x y = 0"
| "gf_mul (Suc n) x y = (if bit y 0 then x else 0) XOR gf_mul n (xtime x) (drop_bit 1 y)"

definition gf_inv :: "w8 \<Rightarrow> w8" where
  "gf_inv x = (let m = gf_mul 8; x2 = m x x; x3 = m x2 x; x6 = m x3 x3; x12 = m x6 x6; x15 = m x12 x3; x30 = m x15 x15; x60 = m x30 x30;
       x120 = m x60 x60; x126 = m x120 x6; x127 = m x126 x in m x127 x127)"

definition rotl8 :: "nat \<Rightarrow> w8 \<Rightarrow> w8" where
  "rotl8 n x = push_bit n x OR drop_bit (8 - n) x"

definition sub_byte :: "w8 \<Rightarrow> w8" where
  "sub_byte x = (let b = gf_inv x in b XOR rotl8 1 b XOR rotl8 2 b XOR rotl8 3 b XOR rotl8 4 b XOR 0x63)"

text \<open>The key schedule: words of four bytes, the first \<open>nk\<close> being the key.\<close>

fun round_constants :: "nat \<Rightarrow> w8 \<Rightarrow> w8 list" where
  "round_constants 0 x = []"
| "round_constants (Suc n) x = x # round_constants n (xtime x)"

definition next_key_word :: "nat \<Rightarrow> w8 list list \<Rightarrow> w8 list" where
  "next_key_word nk ws =
    (let i = length ws; t = last ws; old = ws ! (i - nk);
         t = (if i mod nk = 0 then (case map sub_byte (rotate1 t) of [] \<Rightarrow> [] | b # bs \<Rightarrow> (b XOR round_constants 11 1 ! (i div nk - 1)) # bs)
              else if 6 < nk \<and> i mod nk = 4 then map sub_byte t else t)
     in map2 (XOR) old t)"

fun grow_keys :: "nat \<Rightarrow> nat \<Rightarrow> w8 list list \<Rightarrow> w8 list list" where
  "grow_keys 0 nk ws = ws"
| "grow_keys (Suc n) nk ws = grow_keys n nk (ws @ [next_key_word nk ws])"

definition bytes_of :: "string \<Rightarrow> w8 list" where
  "bytes_of s = map (\<lambda>c. word_of_int (of_char c)) s"

definition text_of :: "w8 list \<Rightarrow> string" where
  "text_of bs = map (\<lambda>b. char_of (uint b)) bs"

text \<open>The round keys of a key of 16, 24 or 32 bytes, each 16 bytes long.\<close>

definition round_keys :: "w8 list \<Rightarrow> w8 list list" where
  "round_keys key = (let nk = length key div 4; ws = grow_keys (4 * (nk + 7) - nk) nk (chunks 4 key) in map concat (chunks 4 ws))"

text \<open>A state is its 16 bytes, column by column.\<close>

definition shift_rows :: "w8 list \<Rightarrow> w8 list" where
  "shift_rows s = map (\<lambda>i. s ! ((i + 4 * (i mod 4)) mod 16)) [0..<16]"

definition mix_column :: "w8 list \<Rightarrow> w8 list" where
  "mix_column col = (case col of
      [a, b, c, d] \<Rightarrow> (let t3 = (\<lambda>x. xtime x XOR x) in
        [xtime a XOR t3 b XOR c XOR d, a XOR xtime b XOR t3 c XOR d, a XOR b XOR xtime c XOR t3 d, t3 a XOR b XOR c XOR xtime d])
    | _ \<Rightarrow> col)"

definition mix_columns :: "w8 list \<Rightarrow> w8 list" where
  "mix_columns s = concat (map mix_column (chunks 4 s))"

definition add_key :: "w8 list \<Rightarrow> w8 list \<Rightarrow> w8 list" where
  "add_key k s = map2 (XOR) k s"

definition aes_encrypt :: "w8 list list \<Rightarrow> w8 list \<Rightarrow> w8 list" where
  "aes_encrypt ks s = (case ks of
      [] \<Rightarrow> s
    | k # ks \<Rightarrow> add_key (last ks) (shift_rows (map sub_byte
        (foldl (\<lambda>s k. add_key k (mix_columns (shift_rows (map sub_byte s)))) (add_key k s) (butlast ks)))))"

section \<open>Galois/counter mode\<close>

type_synonym w128 = "128 word"

definition block_word :: "w8 list \<Rightarrow> w128" where
  "block_word bs = foldl (\<lambda>w b. push_bit 8 w OR ucast b) 0 bs"

definition word_block :: "w128 \<Rightarrow> w8 list" where
  "word_block w = map (\<lambda>i. ucast (drop_bit (8 * i) w)) (rev [0..<16])"

fun ghash_mul :: "nat \<Rightarrow> w128 \<Rightarrow> w128 \<Rightarrow> w128 \<Rightarrow> w128" where
  "ghash_mul 0 z v x = z"
| "ghash_mul (Suc n) z v x =
    ghash_mul n (if bit x n then z XOR v else z) (if bit v 0 then drop_bit 1 v XOR push_bit 120 0xE1 else drop_bit 1 v) x"

definition ghash :: "w128 \<Rightarrow> w8 list list \<Rightarrow> w128" where
  "ghash h blocks = foldl (\<lambda>y b. ghash_mul 128 0 h (y XOR block_word b)) 0 blocks"

definition be_word :: "nat \<Rightarrow> int \<Rightarrow> w8 list" where
  "be_word k n = map (\<lambda>i. word_of_int (n div 256 ^ i)) (rev [0..<k])"

definition counter_block :: "w8 list \<Rightarrow> nat \<Rightarrow> w8 list" where
  "counter_block nonce i = nonce @ be_word 4 ((int i + 1) mod 2 ^ 32)"

definition key_stream :: "w8 list list \<Rightarrow> w8 list \<Rightarrow> nat \<Rightarrow> w8 list" where
  "key_stream ks nonce n = take n (concat (map (\<lambda>i. aes_encrypt ks (counter_block nonce (i + 1))) [0..<(n + 15) div 16]))"

definition gcm_xor :: "w8 list list \<Rightarrow> w8 list \<Rightarrow> w8 list \<Rightarrow> w8 list" where
  "gcm_xor ks nonce bs = map2 (XOR) bs (key_stream ks nonce (length bs))"

text \<open>Without additional data.\<close>

definition gcm_tag :: "w8 list list \<Rightarrow> w8 list \<Rightarrow> w8 list \<Rightarrow> w8 list" where
  "gcm_tag ks nonce cipher =
    (let h = block_word (aes_encrypt ks (replicate 16 0));
         padded = cipher @ replicate ((16 - length cipher mod 16) mod 16) 0
     in map2 (XOR) (aes_encrypt ks (counter_block nonce 0))
          (word_block (ghash h (chunks 16 padded @ [be_word 8 0 @ be_word 8 (8 * int (length cipher))]))))"

definition gcm_Seal :: "w8 list list \<Rightarrow> w8 list \<Rightarrow> w8 list \<Rightarrow> w8 list" where
  "gcm_Seal ks nonce plain = (let c = gcm_xor ks nonce plain in c @ gcm_tag ks nonce c)"

definition gcm_Open :: "w8 list list \<Rightarrow> w8 list \<Rightarrow> w8 list \<Rightarrow> w8 list option" where
  "gcm_Open ks nonce sealed =
    (if length sealed < 16 then None
     else let c = take (length sealed - 16) sealed; tag = drop (length sealed - 16) sealed
       in if tag = gcm_tag ks nonce c then Some (gcm_xor ks nonce c) else None)"

section \<open>SHA-1\<close>

definition rotl32 :: "nat \<Rightarrow> w32 \<Rightarrow> w32" where
  "rotl32 n x = push_bit n x OR drop_bit (32 - n) x"

text \<open>The message schedule, latest word first.\<close>

definition sha1_step :: "w32 list \<Rightarrow> w32 list" where
  "sha1_step ws = rotl32 1 (ws ! 2 XOR ws ! 7 XOR ws ! 13 XOR ws ! 15) # ws"

definition sha1_schedule :: "w32 list \<Rightarrow> w32 list" where
  "sha1_schedule block = rev ((sha1_step ^^ 64) (rev block))"

definition sha1_round :: "w32 list \<Rightarrow> nat \<times> w32 \<Rightarrow> w32 list" where
  "sha1_round v tw = (case (v, tw) of
      ([a, b, c, d, e], (t, w)) \<Rightarrow>
        (let (f, k) = (if t < 20 then ((b AND c) OR (NOT b AND d), 0x5A827999) else if t < 40 then (b XOR c XOR d, 0x6ED9EBA1)
             else if t < 60 then ((b AND c) OR (b AND d) OR (c AND d), 0x8F1BBCDC) else (b XOR c XOR d, 0xCA62C1D6))
         in [rotl32 5 a + f + e + k + w, a, rotl32 30 b, c, d])
    | _ \<Rightarrow> v)"

definition sha1_compress :: "w32 list \<Rightarrow> w32 list \<Rightarrow> w32 list" where
  "sha1_compress h block = map2 (+) h (foldl sha1_round h (enumerate 0 (sha1_schedule block)))"

definition sha1 :: "string \<Rightarrow> string" where
  "sha1 m = concat (map (\<lambda>w. be_bytes 4 (uint w))
     (foldl (\<lambda>h b. sha1_compress h (map be32 (chunks 4 b))) [0x67452301, 0xEFCDAB89, 0x98BADCFE, 0x10325476, 0xC3D2E1F0] (chunks 64 (sha_pad m))))"

definition hmac_sha1 :: "string \<Rightarrow> string \<Rightarrow> string" where
  "hmac_sha1 key m =
    (let k = (if 64 < length key then sha1 key else key); k = k @ replicate (64 - length k) (CHR 0x00);
         pad = (\<lambda>n. map (\<lambda>c. char_of ((of_char c :: int) XOR n)) k)
     in sha1 (pad 92 @ sha1 (pad 54 @ m)))"

section \<open>Facts\<close>

lemma char_byte: "char_of (uint (word_of_int (of_char c) :: w8)) = c"
proof -
  have "(of_char c :: int) mod 256 = of_char c" using of_char_bounds[of c] by simp
  then show ?thesis by (simp add: uint_word_of_int)
qed

lemma byte_char: "word_of_int (of_char (char_of (uint b))) = (b :: w8)"
proof -
  have "uint b < 256" "0 \<le> uint b" using uint_lt2p[of b] by simp_all
  then show ?thesis by simp
qed

lemma text_bytes: "text_of (bytes_of s) = s"
  by (simp add: text_of_def bytes_of_def comp_def char_byte)

lemma bytes_text: "bytes_of (text_of bs) = bs"
  unfolding text_of_def bytes_of_def list.map_comp comp_def byte_char by simp

lemma length_gcm_xor: "length (gcm_xor ks nonce bs) \<le> length bs"
  by (simp add: gcm_xor_def)

end
