(* ===== verification/Secrets.thy ===== *)
theory Secrets
  imports Aes Jwt UuText
begin

text \<open>
  Encoded and sealed texts: padded base64 (\<open>base64.StdEncoding\<close>), the box that seals credentials at rest
  (\<open>internal/secrets/secrets.go\<close>), and the padding of the UU handshake (\<open>platform/uu/crypto.go\<close>). Random bytes are arguments.
\<close>

section \<open>Padded base64\<close>

definition std_of :: "char \<Rightarrow> char" where
  "std_of c = (if c = CHR ''-'' then CHR ''+'' else if c = CHR ''_'' then CHR ''/'' else c)"

definition url_of :: "char \<Rightarrow> char" where
  "url_of c = (if c = CHR ''+'' then CHR ''-'' else if c = CHR ''/'' then CHR ''_'' else if c = CHR ''-'' \<or> c = CHR ''_'' then CHR ''.'' else c)"

definition std_Encode :: "string \<Rightarrow> string" where
  "std_Encode s = (let e = map std_of (base64URL s) in e @ replicate ((4 - length e mod 4) mod 4) (CHR ''=''))"

text \<open>Line breaks are skipped; the padding must fill the last group and end the text.\<close>

definition std_Decode :: "string \<Rightarrow> string option" where
  "std_Decode s =
    (let t = filter (\<lambda>c. c \<noteq> CHR 0x0A \<and> c \<noteq> CHR 0x0D) s; body = takeWhile (\<lambda>c. c \<noteq> CHR ''='') t; pad = drop (length body) t
     in if length t mod 4 = 0 \<and> (pad = '''' \<or> pad = ''='' \<or> pad = ''=='') then base64_DecodeString (map url_of body) else None)"

section \<open>The box\<close>

record Box =
  bx_keys :: "w8 list list"

definition NewBox :: "string \<Rightarrow> goerr + Box" where
  "NewBox masterKey =
    (if masterKey = '''' then Inl \<lparr>Error = ''secrets: master key not configured'', wrapped = [ErrNoMasterKey]\<rparr>
     else if length masterKey \<notin> {16, 24, 32} then Inl (Errorf (''secrets: crypto/aes: invalid key size '' @ dec_int (int (length masterKey))))
     else Inr \<lparr>bx_keys = round_keys (bytes_of masterKey)\<rparr>)"

text \<open>\<open>nonce\<close> is what the random source gave: twelve bytes, or its error.\<close>

definition box_Seal :: "Box \<Rightarrow> goerr + string \<Rightarrow> string \<Rightarrow> goerr + string" where
  "box_Seal b nonce plain = (case nonce of
      Inl e \<Rightarrow> Inl (Wrap ''seals: '' e)
    | Inr n \<Rightarrow> Inr (std_Encode (n @ text_of (gcm_Seal (bx_keys b) (bytes_of n) (bytes_of plain)))))"

definition box_Open :: "Box \<Rightarrow> string \<Rightarrow> goerr + string" where
  "box_Open b enc = (case std_Decode enc of
      None \<Rightarrow> Inl (Errorf ''open: illegal base64 data'')
    | Some raw \<Rightarrow>
        if length raw < 13 then Inl (Errorf ''open: ciphertext too short'')
        else (case gcm_Open (bx_keys b) (bytes_of (take 12 raw)) (bytes_of (drop 12 raw)) of
            None \<Rightarrow> Inl (Errorf ''open: cipher: message authentication failed'') | Some p \<Rightarrow> Inr (text_of p)))"

section \<open>Padding\<close>

definition pkcs7Pad :: "string \<Rightarrow> nat \<Rightarrow> string" where
  "pkcs7Pad s n = (let pad = n - length s mod n in s @ replicate pad (char_of pad))"

definition errCrypt :: "string \<Rightarrow> goerr" where
  "errCrypt msg = Errorf (''uu: crypto error: '' @ msg)"

definition pkcs7Unpad :: "string \<Rightarrow> nat \<Rightarrow> goerr + string" where
  "pkcs7Unpad s n =
    (if s = [] \<or> length s mod n \<noteq> 0 then Inl (errCrypt ''invalid padding size'')
     else let pad = (of_char (last s) :: nat)
       in if pad = 0 \<or> n < pad \<or> length s < pad then Inl (errCrypt ''invalid padding byte'')
          else if \<not> list_all (\<lambda>c. (of_char c :: nat) = pad) (drop (length s - pad) s) then Inl (errCrypt ''inconsistent padding'')
          else Inr (take (length s - pad) s))"

section \<open>What was written reads back\<close>

lemma url_std: "c \<in> set (base64URL s) \<Longrightarrow> url_of (std_of c) = c \<and> std_of c \<notin> {CHR ''='', CHR 0x0A, CHR 0x0D}"
proof -
  have all: "list_all (\<lambda>n. url_of (std_of (b64_char n)) = b64_char n \<and> std_of (b64_char n) \<notin> {CHR ''='', CHR 0x0A, CHR 0x0D}) [0..63]" by code_simp
  assume "c \<in> set (base64URL s)"
  then obtain n where n: "n \<in> set (b64_bits (map of_char s))" "c = b64_char n" by (auto simp: base64URL_def)
  have "n \<in> set [0..63]" using b64_bits_range[OF bytes_ok_of_char, of s] n(1) by auto
  then show ?thesis using all n(2) unfolding list_all_iff by blast
qed

lemma pad_to_four: "(n + (4 - n mod 4) mod 4) mod (4::nat) = 0" "n mod 4 \<noteq> 1 \<Longrightarrow> (4 - n mod 4) mod 4 \<le> (2::nat)"
proof -
  have "n mod 4 < 4" by simp
  then consider "n mod 4 = 0" | "n mod 4 = 1" | "n mod 4 = 2" | "n mod 4 = 3" by linarith
  then have "(n mod 4 + (4 - n mod 4) mod 4) mod 4 = 0" by cases simp_all
  then show "(n + (4 - n mod 4) mod 4) mod (4::nat) = 0" by (simp only: mod_add_left_eq)
  from \<open>n mod 4 < 4\<close> consider "n mod 4 = 0" | "n mod 4 = 1" | "n mod 4 = 2" | "n mod 4 = 3" by linarith
  then show "(4 - n mod 4) mod 4 \<le> (2::nat)" if "n mod 4 \<noteq> 1" using that by cases simp_all
qed

lemma short_padding: "k \<le> 2 \<Longrightarrow> replicate k (CHR ''='') = '''' \<or> replicate k (CHR ''='') = ''='' \<or> replicate k (CHR ''='') = ''==''"
  by (cases k; cases "k - 1") (auto simp: numeral_2_eq_2)

lemma std_Decode_Encode: "std_Decode (std_Encode s) = Some s"
proof -
  let ?e = "map std_of (base64URL s)" and ?p = "replicate ((4 - length (base64URL s) mod 4) mod 4) (CHR ''='')"
  have e: "\<forall>c \<in> set ?e. c \<noteq> CHR ''='' \<and> c \<noteq> CHR 0x0A \<and> c \<noteq> CHR 0x0D" using url_std by auto
  have f: "filter (\<lambda>c. c \<noteq> CHR 0x0A \<and> c \<noteq> CHR 0x0D) (?e @ ?p) = ?e @ ?p" by (rule filter_True) (use e in auto)
  have t: "takeWhile (\<lambda>c. c \<noteq> CHR ''='') (?e @ ?p) = ?e" using e by (auto simp: takeWhile_append takeWhile_replicate)
  have u: "map url_of ?e = base64URL s" using url_std by (simp add: map_idI comp_def)
  have m4: "length (?e @ ?p) mod 4 = 0" using pad_to_four(1) by simp
  have n1: "length (b64_bits bs) mod 4 \<noteq> 1" for bs by (induction bs rule: b64_bits.induct) simp_all
  have p: "?p = '''' \<or> ?p = ''='' \<or> ?p = ''==''"
    by (rule short_padding, rule pad_to_four(2)) (use n1[of "map of_char s"] in \<open>simp add: base64URL_def\<close>)
  have "std_Encode s = ?e @ ?p" by (simp add: std_Encode_def Let_def)
  moreover have "std_Decode (?e @ ?p) = (if length (?e @ ?p) mod 4 = 0 \<and> (?p = '''' \<or> ?p = ''='' \<or> ?p = ''=='') then base64_DecodeString (map url_of ?e) else None)"
    unfolding std_Decode_def Let_def f t by simp
  ultimately show ?thesis using m4 p by (simp only: u base64_decode_encode simp_thms if_True)
qed

lemma chunks_Nil [simp]: "chunks k [] = []"
  by (subst chunks.simps) simp

lemma chunks_uniform: "0 < k \<Longrightarrow> length xs mod k = 0 \<Longrightarrow> (\<forall>c \<in> set (chunks k xs). length c = k) \<and> length (chunks k xs) = length xs div k
    \<and> concat (chunks k xs) = xs"
proof (induction "length xs" arbitrary: xs rule: less_induct)
  case less
  show ?case
  proof (cases "xs = []")
    case True
    then show ?thesis by simp
  next
    case False
    then have k: "k \<le> length xs" using less.prems by (metis length_0_conv mod_less not_le_imp_less)
    have e: "chunks k xs = take k xs # chunks k (drop k xs)" using False less.prems(1) by (subst chunks.simps) simp
    have "length (drop k xs) < length xs" using k less.prems False by simp
    have "length (drop k xs) mod k = 0" using less.prems(2) le_mod_geq[OF k] by simp
    note i = less.hyps[OF \<open>length (drop k xs) < length xs\<close> less.prems(1) this, unfolded length_drop]
    note d = le_div_geq[OF less.prems(1) k]
    have 1: "\<forall>c \<in> set (chunks k xs). length c = k"
    proof
      fix c assume "c \<in> set (chunks k xs)"
      then have "c = take k xs \<or> c \<in> set (chunks k (drop k xs))" unfolding e by (simp only: list.set insert_iff)
      then show "length c = k"
      proof
        assume "c = take k xs"
        then show ?thesis using k by simp
      qed (rule i[THEN conjunct1, rule_format])
    qed
    have 2: "length (chunks k xs) = length xs div k" unfolding d using i[THEN conjunct2, THEN conjunct1] by (simp only: e list.size)
    have 3: "concat (chunks k xs) = xs" unfolding e concat.simps i[THEN conjunct2, THEN conjunct2] by (rule append_take_drop_id)
    show ?thesis using 1 2 3 by blast
  qed
qed

lemma next_key_word_length: "\<lbrakk>0 < nk; nk \<le> length ws; \<forall>w \<in> set ws. length w = 4\<rbrakk> \<Longrightarrow> length (next_key_word nk ws) = 4"
proof -
  assume a: "0 < nk" "nk \<le> length ws" "\<forall>w \<in> set ws. length w = 4"
  have "ws \<noteq> []" using a(1,2) by auto
  then have l: "length (last ws) = 4" "length (ws ! (length ws - nk)) = 4" using a by (auto simp: Suc_leI)
  have r: "length zs = 3" if "rotate1 (last ws) = z # zs" for z zs using arg_cong[OF that, of length] l(1) by simp
  show ?thesis using l r by (auto simp: next_key_word_def Let_def split: list.split)
qed

lemma grow_keys_words: "\<lbrakk>0 < nk; nk \<le> length ws; \<forall>w \<in> set ws. length w = 4\<rbrakk>
    \<Longrightarrow> (\<forall>w \<in> set (grow_keys n nk ws). length w = 4) \<and> length (grow_keys n nk ws) = length ws + n"
proof (induction n arbitrary: ws)
  case (Suc n)
  have "\<forall>w \<in> set (ws @ [next_key_word nk ws]). length w = 4" using next_key_word_length[OF Suc.prems] Suc.prems(3) by simp
  from Suc.IH[OF Suc.prems(1) _ this] Suc.prems(2) show ?case by simp
qed simp

lemma concat_uniform: "\<forall>c \<in> set cs. length c = n \<Longrightarrow> length (concat cs) = n * length cs"
  by (induction cs) simp_all

lemma round_keys_shape:
  assumes "length key \<in> {16, 24, 32}"
  shows "2 \<le> length (round_keys key) \<and> (\<forall>k \<in> set (round_keys key). length k = 16)"
proof -
  define nk where "nk = length key div 4"
  define ws where "ws = grow_keys (4 * (nk + 7) - nk) nk (chunks 4 key)"
  have nk: "nk \<in> {4, 6, 8}" using assms by (auto simp: nk_def)
  have "length key mod 4 = 0" using assms by auto
  note ck = chunks_uniform[OF zero_less_numeral this]
  have c: "(\<forall>c \<in> set (chunks 4 key). length c = 4)" "length (chunks 4 key) = nk"
    unfolding nk_def by (rule ck[THEN conjunct1], rule ck[THEN conjunct2, THEN conjunct1])
  have w: "(\<forall>w \<in> set ws. length w = 4) \<and> length ws = 4 * (nk + 7)"
  proof -
    have "0 < nk" "nk \<le> length (chunks 4 key)" unfolding c(2) using nk by auto
    note g = grow_keys_words[OF this c(1), of "4 * (nk + 7) - nk", folded ws_def, unfolded c(2)]
    moreover have "nk + (4 * (nk + 7) - nk) = 4 * (nk + 7)" using nk by auto
    ultimately show ?thesis by simp
  qed
  have "length ws mod 4 = 0" using w by simp
  note cw = chunks_uniform[OF zero_less_numeral this]
  have u: "\<forall>c \<in> set (chunks 4 ws). length c = 4" "length (chunks 4 ws) = nk + 7" "concat (chunks 4 ws) = ws"
    using cw[THEN conjunct1] cw[THEN conjunct2, THEN conjunct1] cw[THEN conjunct2, THEN conjunct2] w by simp_all
  have "length (concat c) = 16" if "c \<in> set (chunks 4 ws)" for c
  proof -
    have "set c \<subseteq> set (concat (chunks 4 ws))" using that by auto
    then have "\<forall>x \<in> set c. length x = 4" unfolding u(3) using w by blast
    then show ?thesis using concat_uniform[of c 4] u(1) that by simp
  qed
  moreover have "round_keys key = map concat (chunks 4 ws)" by (simp only: round_keys_def Let_def nk_def ws_def)
  ultimately show ?thesis using u(2) by simp
qed

lemma aes_encrypt_length: "2 \<le> length ks \<Longrightarrow> \<forall>k \<in> set ks. length k = 16 \<Longrightarrow> length (aes_encrypt ks s) = 16"
proof -
  assume "2 \<le> length ks" and k: "\<forall>k \<in> set ks. length k = 16"
  then obtain a b cs where ks: "ks = a # b # cs" by (cases ks; cases "tl ks") auto
  then have "last (b # cs) \<in> set ks" using last_in_set[of "b # cs"] by simp
  then have "length (last (b # cs)) = 16" using k by blast
  then show ?thesis by (simp add: aes_encrypt_def ks add_key_def shift_rows_def)
qed

lemma gcm_xor_twice:
  assumes "2 \<le> length ks" "\<forall>k \<in> set ks. length k = 16"
  shows "gcm_xor ks nonce (gcm_xor ks nonce bs) = bs" "length (gcm_xor ks nonce bs) = length bs"
proof -
  have b: "\<forall>c \<in> set (map (\<lambda>i. aes_encrypt ks (counter_block nonce (i + 1))) [0..<(length bs + 15) div 16]). length c = 16"
    using aes_encrypt_length[OF assms] by simp
  have k: "length (key_stream ks nonce (length bs)) = length bs" using concat_uniform[OF b] by (simp add: key_stream_def)
  then show l: "length (gcm_xor ks nonce bs) = length bs" by (simp add: gcm_xor_def)
  show "gcm_xor ks nonce (gcm_xor ks nonce bs) = bs"
  proof (rule nth_equalityI)
    show "length (gcm_xor ks nonce (gcm_xor ks nonce bs)) = length bs" using l k by (simp add: gcm_xor_def)
    fix i assume "i < length (gcm_xor ks nonce (gcm_xor ks nonce bs))"
    then show "gcm_xor ks nonce (gcm_xor ks nonce bs) ! i = bs ! i" using l k by (simp add: gcm_xor_def xor.assoc)
  qed
qed

lemma word_block_length: "length (word_block w) = 16"
  by (simp add: word_block_def)

lemma gcm_Open_Seal:
  assumes "2 \<le> length ks" "\<forall>k \<in> set ks. length k = 16"
  shows "gcm_Open ks nonce (gcm_Seal ks nonce plain) = Some plain"
proof -
  have "length (gcm_tag ks nonce c) = 16" for c by (simp add: gcm_tag_def Let_def aes_encrypt_length[OF assms] word_block_length)
  then show ?thesis by (simp add: gcm_Open_def gcm_Seal_def Let_def gcm_xor_twice[OF assms])
qed

lemma box_reopens:
  assumes "NewBox key = Inr b" "length nonce = 12" "box_Seal b (Inr nonce) plain = Inr enc"
  shows "box_Open b enc = Inr plain"
proof -
  have "length (bytes_of key) \<in> {16, 24, 32}" and b: "bx_keys b = round_keys (bytes_of key)"
    using assms(1) by (auto simp: NewBox_def bytes_of_def split: if_splits)
  note sh = round_keys_shape[OF this(1), folded b]
  have k: "2 \<le> length (bx_keys b)" "\<forall>k \<in> set (bx_keys b). length k = 16" using sh by blast+
  define sealed where "sealed = gcm_Seal (bx_keys b) (bytes_of nonce) (bytes_of plain)"
  have enc: "enc = std_Encode (nonce @ text_of sealed)" using assms(3) by (simp add: box_Seal_def sealed_def)
  have l: "1 \<le> length sealed"
    by (simp add: sealed_def gcm_Seal_def Let_def gcm_tag_def aes_encrypt_length[OF k] word_block_length)
  have "gcm_Open (bx_keys b) (bytes_of nonce) sealed = Some (bytes_of plain)" unfolding sealed_def by (rule gcm_Open_Seal[OF k])
  moreover have "\<not> length (nonce @ text_of sealed) < 13" using assms(2) l by (auto simp: text_of_def)
  ultimately show ?thesis using assms(2) by (simp add: box_Open_def enc std_Decode_Encode bytes_text text_bytes)
qed

text \<open>C27: What the box seals it opens again: for every master key it accepts, every text and every nonce of twelve bytes.\<close>

theorem box_opens_what_it_seals:
  assumes "NewBox key = Inr b" "length nonce = 12" "box_Seal b (Inr nonce) plain = Inr enc"
  shows "box_Open b enc = Inr plain"
  by (rule box_reopens[OF assms])

text \<open>Padding is removed again, for blocks of at most 255 bytes.\<close>

theorem unpad_pad:
  assumes "0 < n" "n < 256"
  shows "pkcs7Unpad (pkcs7Pad s n) n = Inr s"
proof -
  define pad where "pad = n - length s mod n"
  have p: "0 < pad" "pad \<le> n" using assms(1) by (simp_all add: pad_def)
  have "length s + pad = n * (length s div n) + n"
    unfolding pad_def using mult_div_mod_eq[of n "length s"] mod_less_divisor[OF assms(1), of "length s"] by linarith
  then have m: "(length s + pad) mod n = 0" by simp
  have c: "(of_char (char_of pad :: char) :: nat) = pad" using p(2) assms(2) by simp
  show ?thesis using p m c by (simp add: pkcs7Pad_def pkcs7Unpad_def pad_def[symmetric] Let_def list_all_iff)
qed

theorem box_opens_what_it_seals_witness:
  "\<exists>b enc. NewBox ''0123456789abcdef'' = Inr b \<and> box_Seal b (Inr ''nonce-of-12b'') ''secret'' = Inr enc \<and> box_Open b enc = Inr ''secret''"
proof -
  obtain b where b: "NewBox ''0123456789abcdef'' = Inr b" by (simp add: NewBox_def)
  obtain enc where e: "box_Seal b (Inr ''nonce-of-12b'') ''secret'' = Inr enc" by (simp add: box_Seal_def)
  show ?thesis using box_opens_what_it_seals[OF b _ e] b e by simp
qed

end
