(* ===== verification/SteamProto.thy ===== *)
theory SteamProto
  imports Secrets
begin

text \<open>
  The Steam wire format: protocol buffers (\<open>platform/steam/proto.go\<close>), result codes (\<open>eresult.go\<close>) and Steam Guard codes
  (\<open>guard.go\<close>). A number on the wire is a 64-bit word, a field number a 32-bit word; texts are bytes.
\<close>

unbundle bit_operations_syntax

type_synonym w64 = "64 word"

section \<open>Variable-length numbers\<close>

text \<open>\<open>binary.PutUvarint\<close> and \<open>binary.Uvarint\<close>.\<close>

fun put_nat :: "nat \<Rightarrow> string" where
  "put_nat n = (if n < 128 then [char_of n] else char_of (n mod 128 + 128) # put_nat (n div 128))"

declare put_nat.simps [simp del]

definition PutUvarint :: "w64 \<Rightarrow> string" where
  "PutUvarint v = put_nat (unat v)"

fun uvarint_from :: "nat \<Rightarrow> w64 \<Rightarrow> string \<Rightarrow> (w64 \<times> string) option" where
  "uvarint_from i x [] = None"
| "uvarint_from i x (c # cs) =
    (if i = 10 then None
     else let b = (of_char c :: nat) in
       if b < 128 then (if i = 9 \<and> 1 < b then None else Some (x OR push_bit (7 * i) (of_nat b), cs))
       else uvarint_from (i + 1) (x OR push_bit (7 * i) (of_nat (b mod 128))) cs)"

definition Uvarint :: "string \<Rightarrow> (w64 \<times> string) option" where
  "Uvarint s = uvarint_from 0 0 s"

definition le_bytes :: "nat \<Rightarrow> nat \<Rightarrow> string" where
  "le_bytes k n = map (\<lambda>i. char_of (n div 256 ^ i mod 256)) [0..<k]"

definition le_value :: "string \<Rightarrow> nat" where
  "le_value s = foldr (\<lambda>c n. of_char c + 256 * n) s 0"

section \<open>Writing\<close>

definition pb_tag :: "w32 \<Rightarrow> w32 \<Rightarrow> string" where
  "pb_tag field wire = PutUvarint (ucast (push_bit 3 field OR wire))"

definition pb_u64 :: "w32 \<Rightarrow> w64 \<Rightarrow> string" where
  "pb_u64 field v = pb_tag field 0 @ PutUvarint v"

definition pb_b32 :: "w32 \<Rightarrow> bool \<Rightarrow> string" where
  "pb_b32 field v = (if v then pb_u64 field 1 else '''')"

text \<open>\<open>f32\<close> takes the bits of its float.\<close>

definition pb_f32 :: "w32 \<Rightarrow> w32 \<Rightarrow> string" where
  "pb_f32 field v = pb_tag field 5 @ le_bytes 4 (unat v)"

definition pb_f64 :: "w32 \<Rightarrow> w64 \<Rightarrow> string" where
  "pb_f64 field v = pb_tag field 1 @ le_bytes 8 (unat v)"

definition pb_bytes :: "w32 \<Rightarrow> string \<Rightarrow> string" where
  "pb_bytes field b = pb_tag field 2 @ PutUvarint (of_nat (length b)) @ b"

section \<open>Reading\<close>

datatype pb_item = pb_Done | pb_Bad string | pb_Field w32 w32 string w64 string

text \<open>The next field: its number, its wire type, its bytes or its number, and the rest.\<close>

definition pb_next :: "string \<Rightarrow> pb_item" where
  "pb_next buf =
    (if buf = [] then pb_Done
     else case Uvarint buf of
         None \<Rightarrow> pb_Bad ''key''
       | Some (key, r) \<Rightarrow>
          (let field = ucast (drop_bit 3 key) :: w32; wire = ucast (key AND 7) :: w32 in
           if wire = 0 then (case Uvarint r of None \<Rightarrow> pb_Bad ''varint'' | Some (v, r) \<Rightarrow> pb_Field field wire '''' v r)
           else if wire = 1 then (if length r < 8 then pb_Bad ''fixed64'' else pb_Field field wire '''' (of_nat (le_value (take 8 r))) (drop 8 r))
           else if wire = 2 then
             (case Uvarint r of
                None \<Rightarrow> pb_Bad ''length''
              | Some (l, r) \<Rightarrow> if of_nat (length r) < l then pb_Bad ''length'' else pb_Field field wire (take (unat l) r) 0 (drop (unat l) r))
           else if wire = 5 then (if length r < 4 then pb_Bad ''fixed32'' else pb_Field field wire '''' (of_nat (le_value (take 4 r))) (drop 4 r))
           else pb_Bad (''wire type '' @ dec_int (uint wire))))"

definition errProto :: "string \<Rightarrow> goerr" where
  "errProto msg = Errorf (''steam: bad protobuf: '' @ msg)"

text \<open>All fields of a message; every field takes at least one byte.\<close>

fun pb_fold :: "nat \<Rightarrow> ('s \<Rightarrow> w32 \<Rightarrow> w32 \<Rightarrow> string \<Rightarrow> w64 \<Rightarrow> goerr + 's) \<Rightarrow> string \<Rightarrow> 's \<Rightarrow> goerr + 's" where
  "pb_fold 0 f buf s = Inr s"
| "pb_fold (Suc n) f buf s =
    (case pb_next buf of
       pb_Done \<Rightarrow> Inr s
     | pb_Bad m \<Rightarrow> Inl (errProto m)
     | pb_Field field wire b v r \<Rightarrow> (case f s field wire b v of Inl e \<Rightarrow> Inl e | Inr s \<Rightarrow> pb_fold n f r s))"

definition pb_read :: "('s \<Rightarrow> w32 \<Rightarrow> w32 \<Rightarrow> string \<Rightarrow> w64 \<Rightarrow> goerr + 's) \<Rightarrow> string \<Rightarrow> 's \<Rightarrow> goerr + 's" where
  "pb_read f buf = pb_fold (length buf + 1) f buf"

section \<open>Steam Guard\<close>

definition go_div :: "int \<Rightarrow> int \<Rightarrow> int" where
  "go_div a b = sgn a * sgn b * (\<bar>a\<bar> div \<bar>b\<bar>)"

definition guard_alphabet :: string where
  "guard_alphabet = ''23456789BCDFGHJKMNPQRTVWXY''"

fun guard_digits :: "nat \<Rightarrow> nat \<Rightarrow> string" where
  "guard_digits 0 full = ''''"
| "guard_digits (Suc n) full = guard_alphabet ! (full mod length guard_alphabet) # guard_digits n (full div length guard_alphabet)"

definition GenerateOneTimeCode :: "string \<Rightarrow> int \<Rightarrow> goerr + string" where
  "GenerateOneTimeCode sharedSecret ts =
    (case std_Decode sharedSecret of
       None \<Rightarrow> Inl (Errorf ''steam: shared secret: illegal base64 data'')
     | Some key \<Rightarrow>
        (let digest = hmac_sha1 key (be_bytes 8 (go_div ts 30)); begin' = (of_char (digest ! 19) :: nat) mod 16;
             full = unat (be32 (take 4 (drop begin' digest)) AND 0x7FFFFFFF)
         in Inr (guard_digits 5 full)))"

definition GenerateConfirmationKey :: "string \<Rightarrow> string \<Rightarrow> int \<Rightarrow> goerr + string" where
  "GenerateConfirmationKey identitySecret tag ts =
    (case std_Decode identitySecret of
       None \<Rightarrow> Inl (Errorf ''steam: identity secret: illegal base64 data'')
     | Some key \<Rightarrow> Inr (std_Encode (hmac_sha1 key (be_bytes 8 ts @ tag))))"

definition GenerateDeviceID :: "string \<Rightarrow> string" where
  "GenerateDeviceID steamID =
    (let h = hex_string (sha1 steamID); part = (\<lambda>a b. take (b - a) (drop a h))
     in ''android:'' @ part 0 8 @ ''-'' @ part 8 12 @ ''-'' @ part 12 16 @ ''-'' @ part 16 20 @ ''-'' @ part 20 32)"

section \<open>Result codes\<close>

definition eresultNames :: "(int \<times> string) list" where
  "eresultNames = zip [1..119] [''OK'', ''Fail'', ''NoConnection'', ''NoConnectionRetry'', ''InvalidPassword'', ''LoggedInElsewhere'', ''InvalidProtocolVer'',
     ''InvalidParam'', ''FileNotFound'', ''Busy'', ''InvalidState'', ''InvalidName'', ''InvalidEmail'', ''DuplicateName'', ''AccessDenied'', ''Timeout'',
     ''Banned'', ''AccountNotFound'', ''InvalidSteamID'', ''ServiceUnavailable'', ''NotLoggedOn'', ''Pending'', ''EncryptionFailure'', ''InsufficientPrivilege'',
     ''LimitExceeded'', ''Revoked'', ''Expired'', ''AlreadyRedeemed'', ''DuplicateRequest'', ''AlreadyOwned'', ''IPNotFound'', ''PersistFailed'', ''LockingFailed'',
     ''LogonSessionReplaced'', ''ConnectFailed'', ''HandshakeFailed'', ''IOFailure'', ''RemoteDisconnect'', ''ShoppingCartNotFound'', ''Blocked'', ''Ignored'',
     ''NoMatch'', ''AccountDisabled'', ''ServiceReadOnly'', ''AccountNotFeatured'', ''AdministratorOK'', ''ContentVersion'', ''TryAnotherCM'',
     ''PasswordRequiredToKickSession'', ''AlreadyLoggedInElsewhere'', ''Suspended'', ''Cancelled'', ''DataCorruption'', ''DiskFull'', ''RemoteCallFailed'',
     ''PasswordUnset'', ''ExternalAccountUnlinked'', ''PSNTicketInvalid'', ''ExternalAccountAlreadyLinked'', ''RemoteFileConflict'', ''IllegalPassword'',
     ''SameAsPreviousValue'', ''AccountLogonDenied'', ''CannotUseOldPassword'', ''InvalidLoginAuthCode'', ''AccountLogonDeniedNoMail'', ''HardwareNotCapableOfIPT'',
     ''IPTInitError'', ''ParentalControlRestricted'', ''FacebookQueryError'', ''ExpiredLoginAuthCode'', ''IPLoginRestrictionFailed'', ''AccountLockedDown'',
     ''AccountLogonDeniedVerifiedEmailRequired'', ''NoMatchingURL'', ''BadResponse'', ''RequirePasswordReEntry'', ''ValueOutOfRange'', ''UnexpectedError'',
     ''Disabled'', ''InvalidCEGSubmission'', ''RestrictedDevice'', ''RegionLocked'', ''RateLimitExceeded'', ''AccountLoginDeniedNeedTwoFactor'', ''ItemDeleted'',
     ''AccountLoginDeniedThrottle'', ''TwoFactorCodeMismatch'', ''TwoFactorActivationCodeMismatch'', ''AccountAssociatedToMultiplePartners'', ''NotModified'',
     ''NoMobileDevice'', ''TimeNotSynced'', ''SmsCodeFailed'', ''AccountLimitExceeded'', ''AccountActivityLimitExceeded'', ''PhoneActivityLimitExceeded'',
     ''RefundToWallet'', ''EmailSendFailure'', ''NotSettled'', ''NeedCaptcha'', ''GSLTDenied'', ''GSOwnerDenied'', ''InvalidItemType'', ''IPBanned'', ''GSLTExpired'',
     ''InsufficientFunds'', ''TooManyPending'', ''NoSiteLicensesFound'', ''WGNetworkSendExceeded'', ''AccountNotFriends'', ''LimitedUserAccount'', ''CantRemoveItem'',
     ''AccountDeleted'', ''ExistingUserCancelledLicense'', ''CommunityCooldown'', ''NoLauncherSpecified'', ''MustAgreeToSSA'', ''LauncherMigrated'']"

definition eresultAuthExpired :: "int list" where
  "eresultAuthExpired = [5, 25, 84, 85, 87, 88]"

definition eresultRateLimited :: "int list" where
  "eresultRateLimited = [10, 95, 96, 97, 108, 110, 116]"

definition checkEresult :: "string \<Rightarrow> int \<Rightarrow> int list \<Rightarrow> goerr option" where
  "checkEresult method eresult ignore =
    (if eresult < 0 \<or> eresult = 1 \<or> eresult = 22 \<or> eresult \<in> set ignore then None
     else let name = (case map_of eresultNames eresult of None \<Rightarrow> dec_int eresult | Some s \<Rightarrow> s);
              base = ''steam: '' @ method @ '' failed (eresult='' @ dec_int eresult @ '' '' @ name @ '')''
       in Some (if eresult \<in> set eresultAuthExpired then \<lparr>Error = ''platform: auth expired: '' @ base, wrapped = [ErrAuthExpired]\<rparr>
          else if eresult \<in> set eresultRateLimited then \<lparr>Error = ''platform: rate limited: '' @ base, wrapped = [ErrRateLimited]\<rparr>
          else Errorf base))"

end
