(* ===== verification/SteamSession.thy ===== *)
theory SteamSession
  imports SteamProto
begin

text \<open>
  A Steam web session: requests, the login state machine and token refresh (\<open>platform/steam/login.go\<close>). The HTTP client with its
  cookie jar, the clock, the RSA step and the reading of URLs are operations on the outside world; a response carries what the
  code looks at, its body perhaps an error of the read. The session's tokens and its id are the state.
\<close>

section \<open>Requests\<close>

record request =
  sq_Method :: string
  sq_URL :: string
  sq_Headers :: header
  sq_Body :: "string option"

record response =
  sp_Status :: int
  sp_Location :: string
  sp_Eresult :: string
  sp_Path :: string
  sp_Body :: "goerr + string"

record 'w steam_net =
  sn_ParseURL :: "string \<Rightarrow> goerr option"
  sn_Do :: "request \<Rightarrow> 'w \<Rightarrow> (goerr + response) \<times> 'w"
  sn_Cookies :: "'w \<Rightarrow> (string \<times> string) list"
  sn_SetCookie :: "string \<Rightarrow> string \<Rightarrow> string \<Rightarrow> 'w \<Rightarrow> 'w"
  sn_Now :: "'w \<Rightarrow> int \<times> 'w"
  sn_Encrypt :: "int \<Rightarrow> int \<Rightarrow> string \<Rightarrow> 'w \<Rightarrow> (goerr + string) \<times> 'w"
  sn_Sleep :: "'w \<Rightarrow> 'w"

record Credentials =
  Username :: string
  Password :: string
  SharedSecret :: string
  IdentitySecret :: string

record SessionTokens =
  tk_SteamID :: string
  tk_RefreshToken :: string
  tk_AccessToken :: string
  tk_AccessExp :: int

record 'w steam_state =
  ss_tokens :: SessionTokens
  ss_sessionid :: string
  ss_world :: 'w

definition steam_world :: "('w \<Rightarrow> 'a \<times> 'w) \<Rightarrow> 'w steam_state \<Rightarrow> 'a \<times> 'w steam_state" where
  "steam_world f st = (case f (ss_world st) of (r, w) \<Rightarrow> (r, st\<lparr>ss_world := w\<rparr>))"

text \<open>\<open>url.QueryEscape\<close> and \<open>url.Values.Encode\<close> for values with one entry per key.\<close>

definition unreserved :: "char \<Rightarrow> bool" where
  "unreserved c \<longleftrightarrow> is_digit c \<or> (let n = (of_char c :: int) in (65 \<le> n \<and> n \<le> 90) \<or> (97 \<le> n \<and> n \<le> 122)) \<or> c \<in> {CHR ''-'', CHR ''_'', CHR ''.'', CHR ''~''}"

definition escape_char :: "char \<Rightarrow> string" where
  "escape_char c = (if unreserved c then [c] else if c = CHR '' '' then ''+''
     else (let n = (of_char c :: int) in CHR ''%'' # map upper [hex_digit (n div 16), hex_digit (n mod 16)]))"

definition QueryEscape :: "string \<Rightarrow> string" where
  "QueryEscape s = concat (map escape_char s)"

definition form_Encode :: "(string \<times> string) list \<Rightarrow> string" where
  "form_Encode kvs = join_with ''&'' (map (\<lambda>(k, v). QueryEscape k @ ''='' @ QueryEscape v) (sort_key fst kvs))"

definition storeURL :: string where "storeURL = ''https://api.steampowered.com''"

definition communityURL :: string where "communityURL = ''https://steamcommunity.com''"

definition loginURL :: string where "loginURL = ''https://login.steampowered.com''"

definition uaMobile :: string where
  "uaMobile = ''Mozilla/5.0 (X11; Linux x86_64; rv:1.9.5.20) Gecko/2812-12-10 04:56:28 Firefox/3.8''"

definition form_header :: header where
  "form_header = h_Set ''Content-Type'' ''application/x-www-form-urlencoded'' []"

definition NewRequest :: "'w steam_net \<Rightarrow> string \<Rightarrow> string \<Rightarrow> header \<Rightarrow> string option \<Rightarrow> goerr + request" where
  "NewRequest n method url hs body = (case sn_ParseURL n url of Some e \<Rightarrow> Inl e
     | None \<Rightarrow> Inr \<lparr>sq_Method = method, sq_URL = url, sq_Headers = hs, sq_Body = body\<rparr>)"

definition host_of :: "string \<Rightarrow> string" where
  "host_of url = takeWhile (\<lambda>c. c \<noteq> CHR ''/'') (drop 2 (dropWhile (\<lambda>c. c \<noteq> CHR ''/'') url))"

definition eresult_of :: "response \<Rightarrow> int" where
  "eresult_of r = (if sp_Eresult r = '''' then -1 else case Atoi (sp_Eresult r) of None \<Rightarrow> -1 | Some n \<Rightarrow> n)"

definition maxRedirectHops :: nat where
  "maxRedirectHops = 8"

text \<open>\<open>hops\<close> redirects may still be followed.\<close>

fun doRawDepth :: "'w steam_net \<Rightarrow> nat \<Rightarrow> request \<Rightarrow> 'w steam_state \<Rightarrow> (goerr + string \<times> int \<times> int) \<times> 'w steam_state" where
  "doRawDepth n hops rq st =
    (case steam_world (sn_Do n rq) st of
       (Inl e, st) \<Rightarrow> (Inl \<lparr>Error = ''steam: '' @ sq_Method rq @ '' '' @ host_of (sq_URL rq) @ '': request failed'', wrapped = wrapped e\<rparr>, st)
     | (Inr r, st) \<Rightarrow>
        (case sp_Body r of
           Inl e \<Rightarrow> (Inl e, st)
         | Inr body \<Rightarrow>
            if sp_Status r \<in> {301, 302} \<and> sp_Location r \<noteq> ''''
            then (case hops of
                    0 \<Rightarrow> (Inl (Errorf (''steam: '' @ sq_Method rq @ '' '' @ host_of (sq_URL rq) @ '': too many redirects (cap 8)'')), st)
                  | Suc k \<Rightarrow>
                      (case NewRequest n (sq_Method rq) (sp_Location r) [] None of Inl e \<Rightarrow> (Inl e, st) | Inr next \<Rightarrow> doRawDepth n k next st))
            else (Inr (body, sp_Status r, eresult_of r), st)))"

text \<open>\<open>doRawFull\<close>: the body, the status and the Steam result.\<close>

definition doRawFull :: "'w steam_net \<Rightarrow> request \<Rightarrow> 'w steam_state \<Rightarrow> (goerr + string \<times> int \<times> int) \<times> 'w steam_state" where
  "doRawFull n = doRawDepth n maxRedirectHops"

text \<open>A request built and sent; \<open>doRaw\<close> gives the body alone.\<close>

definition send_raw :: "'w steam_net \<Rightarrow> goerr + request \<Rightarrow> 'w steam_state \<Rightarrow> (goerr + string \<times> int \<times> int) \<times> 'w steam_state" where
  "send_raw n rq st = (case rq of Inl e \<Rightarrow> (Inl e, st) | Inr q \<Rightarrow> doRawFull n q st)"

definition doRaw :: "'w steam_net \<Rightarrow> goerr + request \<Rightarrow> 'w steam_state \<Rightarrow> (goerr + string) \<times> 'w steam_state" where
  "doRaw n rq st = (case send_raw n rq st of (Inl e, st) \<Rightarrow> (Inl e, st) | (Inr (body, _, _), st) \<Rightarrow> (Inr body, st))"

definition checked_body :: "string \<Rightarrow> int list \<Rightarrow> (goerr + string \<times> int \<times> int) \<times> 'w steam_state \<Rightarrow> (goerr + string) \<times> 'w steam_state" where
  "checked_body method ignore rst = (case rst of
      (Inl e, st) \<Rightarrow> (Inl e, st)
    | (Inr (body, _, er), st) \<Rightarrow> (case checkEresult method er ignore of Some e \<Rightarrow> (Inl e, st) | None \<Rightarrow> (Inr body, st)))"

definition api_url :: "string \<Rightarrow> string" where
  "api_url method = storeURL @ ''/IAuthenticationService/'' @ method @ ''/v1/''"

definition authAPIPOST :: "'w steam_net \<Rightarrow> string \<Rightarrow> string \<Rightarrow> int list \<Rightarrow> 'w steam_state \<Rightarrow> (goerr + string) \<times> 'w steam_state" where
  "authAPIPOST n method msg ignore st =
    checked_body method ignore (send_raw n (NewRequest n ''POST'' (api_url method) (h_Set ''User-Agent'' uaMobile form_header)
      (Some (form_Encode [(''input_protobuf_encoded'', std_Encode msg)]))) st)"

definition authAPIGET :: "'w steam_net \<Rightarrow> string \<Rightarrow> string \<Rightarrow> int list \<Rightarrow> 'w steam_state \<Rightarrow> (goerr + string) \<times> 'w steam_state" where
  "authAPIGET n method msg ignore st =
    checked_body method ignore (send_raw n (NewRequest n ''GET'' (api_url method @ ''?'' @ form_Encode [(''input_protobuf_encoded'', std_Encode msg)])
      (h_Set ''User-Agent'' uaMobile []) None) st)"

section \<open>Cookies\<close>

text \<open>The last cookie named \<open>sessionid\<close> counts.\<close>

definition captureSessionID :: "'w steam_net \<Rightarrow> 'w steam_state \<Rightarrow> 'w steam_state" where
  "captureSessionID n st = (case map_of (rev (sn_Cookies n (ss_world st))) ''sessionid'' of None \<Rightarrow> st | Some v \<Rightarrow> st\<lparr>ss_sessionid := v\<rparr>)"

definition setLoginSecure :: "'w steam_net \<Rightarrow> 'w steam_state \<Rightarrow> 'w steam_state" where
  "setLoginSecure n st =
    (let t = ss_tokens st; val = QueryEscape (tk_SteamID t @ ''||'' @ tk_AccessToken t);
         w = sn_SetCookie n ''store.steampowered.com'' ''steamLoginSecure'' val (sn_SetCookie n ''steamcommunity.com'' ''steamLoginSecure'' val (ss_world st))
     in st\<lparr>ss_world := (if tk_RefreshToken t = '''' then w
          else sn_SetCookie n ''steamcommunity.com'' ''steamRefresh_steam'' (QueryEscape (tk_SteamID t @ ''||'' @ tk_RefreshToken t)) w)\<rparr>)"

text \<open>A visit whose outcome only matters for the cookies it leaves.\<close>

definition visit :: "'w steam_net \<Rightarrow> goerr + request \<Rightarrow> 'w steam_state \<Rightarrow> bool \<times> 'w steam_state" where
  "visit n rq st = (case rq of Inl _ \<Rightarrow> (False, st)
     | Inr q \<Rightarrow> (case steam_world (sn_Do n q) st of (Inl _, st) \<Rightarrow> (False, st) | (Inr _, st) \<Rightarrow> (True, st)))"

definition warmup :: "'w steam_net \<Rightarrow> 'w steam_state \<Rightarrow> 'w steam_state" where
  "warmup n st = (case visit n (NewRequest n ''GET'' (communityURL @ ''/my'') [] None) st of (True, st) \<Rightarrow> captureSessionID n st | (False, st) \<Rightarrow> st)"

definition AttachTokens :: "'w steam_net \<Rightarrow> SessionTokens \<Rightarrow> 'w steam_state \<Rightarrow> 'w steam_state" where
  "AttachTokens n t st = warmup n (setLoginSecure n (st\<lparr>ss_tokens := t\<rparr>))"

section \<open>Messages of the login\<close>

record beginResponse =
  br_ClientID :: w64
  br_RequestID :: string
  br_SteamID :: w64
  br_AllowedConfirmations :: "int list"

definition encodeBeginAuth :: "string \<Rightarrow> string \<Rightarrow> w64 \<Rightarrow> string" where
  "encodeBeginAuth user encPassword ts =
    pb_bytes 1 uaMobile @ pb_bytes 2 user @ pb_bytes 3 encPassword @ pb_u64 4 ts @ pb_b32 5 True @ pb_u64 6 3 @ pb_u64 7 1 @ pb_bytes 8 ''Community''"

definition guard_type :: "int list \<Rightarrow> w32 \<Rightarrow> w32 \<Rightarrow> string \<Rightarrow> w64 \<Rightarrow> goerr + int list" where
  "guard_type gs field wire b v = Inr (if field = 1 then gs @ [sint (ucast v :: w32)] else gs)"

definition begin_field :: "beginResponse \<Rightarrow> w32 \<Rightarrow> w32 \<Rightarrow> string \<Rightarrow> w64 \<Rightarrow> goerr + beginResponse" where
  "begin_field p field wire b v =
    (if field = 1 then Inr (p\<lparr>br_ClientID := v\<rparr>) else if field = 2 then Inr (p\<lparr>br_RequestID := b\<rparr>) else if field = 5 then Inr (p\<lparr>br_SteamID := v\<rparr>)
     else if field = 4 \<and> wire = 2 \<and> b \<noteq> '''' then map_sum id (\<lambda>gs. p\<lparr>br_AllowedConfirmations := gs\<rparr>) (pb_read guard_type b (br_AllowedConfirmations p))
     else Inr p)"

definition decodeBeginResponse :: "string \<Rightarrow> goerr + beginResponse" where
  "decodeBeginResponse b = pb_read begin_field b \<lparr>br_ClientID = 0, br_RequestID = '''', br_SteamID = 0, br_AllowedConfirmations = []\<rparr>"

definition encodePoll :: "w64 \<Rightarrow> string \<Rightarrow> string" where
  "encodePoll clientID requestID = pb_u64 1 clientID @ pb_bytes 2 requestID"

definition encodeUpdateGuard :: "w64 \<Rightarrow> w64 \<Rightarrow> string \<Rightarrow> w64 \<Rightarrow> string" where
  "encodeUpdateGuard clientID steamID code codeType = pb_u64 1 clientID @ pb_f64 2 steamID @ pb_bytes 3 code @ pb_u64 4 codeType"

definition rsa_field :: "string \<times> string \<times> w64 \<Rightarrow> w32 \<Rightarrow> w32 \<Rightarrow> string \<Rightarrow> w64 \<Rightarrow> goerr + string \<times> string \<times> w64" where
  "rsa_field p field wire b v = (case p of (md, ex, ts) \<Rightarrow>
     Inr (if field = 1 then (b, ex, ts) else if field = 2 then (md, b, ts) else if field = 3 \<and> wire = 0 then (md, ex, v) else p))"

definition decodeRSAKey :: "string \<Rightarrow> goerr + string \<times> string \<times> w64" where
  "decodeRSAKey body = (case pb_read rsa_field body ('''', '''', 0) of
      Inl e \<Rightarrow> Inl e
    | Inr (md, ex, ts) \<Rightarrow> if md = '''' \<or> ex = '''' \<or> ts = 0 then Inl (Errorf ''steam: incomplete RSA params'') else Inr (md, ex, ts))"

text \<open>\<open>big.Int.SetString(s, 16)\<close>.\<close>

definition hex_int :: "string \<Rightarrow> int option" where
  "hex_int s = (case split_sign s of (neg, ds) \<Rightarrow>
     if ds = '''' \<or> \<not> list_all (\<lambda>c. hex_value c \<noteq> None) ds then None else Some (if neg then - hex_number ds else hex_number ds))"

definition encryptPassword :: "'w steam_net \<Rightarrow> string \<Rightarrow> string \<Rightarrow> string \<Rightarrow> 'w steam_state \<Rightarrow> (goerr + string) \<times> 'w steam_state" where
  "encryptPassword n password modHex expHex st =
    (case hex_int modHex of
       Some md \<Rightarrow>
         if md \<le> 0 then (Inl (Errorf ''steam: bad rsa modulus''), st)
         else (case hex_int expHex of
             Some ex \<Rightarrow>
               if ex \<le> 0 \<or> 2 ^ 63 \<le> ex then (Inl (Errorf ''steam: bad rsa exponent''), st)
               else (case steam_world (sn_Encrypt n md ex password) st of
                   (Inl e, st) \<Rightarrow> (Inl (Wrap ''steam: rsa encrypt: '' e), st) | (Inr enc, st) \<Rightarrow> (Inr (std_Encode enc), st))
           | None \<Rightarrow> (Inl (Errorf ''steam: bad rsa exponent''), st))
     | None \<Rightarrow> (Inl (Errorf ''steam: bad rsa modulus''), st))"

definition poll_field :: "string \<times> string \<Rightarrow> w32 \<Rightarrow> w32 \<Rightarrow> string \<Rightarrow> w64 \<Rightarrow> goerr + string \<times> string" where
  "poll_field p field wire b v = Inr (if wire = 2 \<and> field = 3 then (b, snd p) else if wire = 2 \<and> field = 4 then (fst p, b) else p)"

definition decodePoll :: "string \<Rightarrow> goerr + string \<times> string" where
  "decodePoll body = pb_read poll_field body ('''', '''')"

text \<open>The \<open>exp\<close> claim, read without checking the signature; 0 when it is not readable.\<close>

definition jwtExp :: "string \<Rightarrow> int" where
  "jwtExp token = (case splitToken token of
      _ # p # _ \<Rightarrow>
        (case base64_DecodeString p of
           None \<Rightarrow> 0
         | Some raw \<Rightarrow> (case json_Unmarshal raw of None \<Rightarrow> 0
            | Some j \<Rightarrow> (case to_struct [int_field ''exp'' id (\<lambda>v _. v)] j 0 of None \<Rightarrow> 0 | Some n \<Rightarrow> n)))
    | _ \<Rightarrow> 0)"

section \<open>The end of a login\<close>

record transfer =
  tr_URL :: string
  tr_Nonce :: string
  tr_Auth :: string

definition no_transfer :: transfer where
  "no_transfer = \<lparr>tr_URL = '''', tr_Nonce = '''', tr_Auth = ''''\<rparr>"

definition transfer_fields :: "transfer field list" where
  "transfer_fields = [string_field ''url'' (\<lambda>v p. p\<lparr>tr_URL := v\<rparr>),
     (''params'', to_struct [string_field ''nonce'' (\<lambda>v p. p\<lparr>tr_Nonce := v\<rparr>), string_field ''auth'' (\<lambda>v p. p\<lparr>tr_Auth := v\<rparr>)])]"

definition read_transfers :: "json \<Rightarrow> transfer list option" where
  "read_transfers = read_struct [list_field ''transfer_info'' (read_struct transfer_fields no_transfer) (\<lambda>v p. v)] []"

definition unmarshal :: "string \<Rightarrow> (json \<Rightarrow> 'a option) \<Rightarrow> string \<Rightarrow> goerr + 'a" where
  "unmarshal what read body = (case json_Unmarshal body of
      None \<Rightarrow> Inl (Errorf (''steam: '' @ what @ '': invalid JSON''))
    | Some j \<Rightarrow> (case read j of None \<Rightarrow> Inl (Errorf (''steam: '' @ what @ '': json: cannot unmarshal'')) | Some v \<Rightarrow> Inr v))"

fun send_transfers :: "'w steam_net \<Rightarrow> transfer list \<Rightarrow> 'w steam_state \<Rightarrow> goerr option \<times> 'w steam_state" where
  "send_transfers n [] st = (None, st)"
| "send_transfers n (t # ts) st =
    (case doRaw n (NewRequest n ''POST'' (tr_URL t) form_header
        (Some (form_Encode [(''steamID'', tk_SteamID (ss_tokens st)), (''auth'', tr_Auth t), (''nonce'', tr_Nonce t)]))) st of
       (Inl e, st) \<Rightarrow> (Some e, st) | (Inr _, st) \<Rightarrow> send_transfers n ts st)"

definition finalize_login :: "'w steam_net \<Rightarrow> 'w steam_state \<Rightarrow> goerr option \<times> 'w steam_state" where
  "finalize_login n st =
    (case doRaw n (NewRequest n ''POST'' (loginURL @ ''/jwt/finalizelogin'') (h_Set ''Origin'' communityURL (h_Set ''Referer'' (communityURL @ ''/'') form_header))
        (Some (form_Encode [(''nonce'', tk_RefreshToken (ss_tokens st)), (''sessionid'', ss_sessionid st), (''redir'', communityURL @ ''/login/home/?goto='')]))) st of
       (Inl e, st) \<Rightarrow> (Some e, st)
     | (Inr body, st) \<Rightarrow>
        (case unmarshal ''finalizelogin decode'' read_transfers body of
           Inl e \<Rightarrow> (Some e, st)
         | Inr ts \<Rightarrow>
            (case send_transfers n ts st of
               (Some e, st) \<Rightarrow> (Some e, st)
             | (None, st) \<Rightarrow>
                (let st = warmup n (setLoginSecure n st);
                     ack = NewRequest n ''POST'' (communityURL @ ''/trade/new/acknowledge'')
                       (h_Set ''Referer'' (communityURL @ ''/trade/new'') (h_Set ''Content-Type'' ''application/x-www-form-urlencoded; charset=UTF-8'' []))
                       (Some (form_Encode [(''sessionid'', ss_sessionid st), (''message'', ''1'')]))
                 in (None, snd (visit n ack st))))))"

section \<open>Login\<close>

definition ErrEmailCodeRequired_err :: goerr where
  "ErrEmailCodeRequired_err = \<lparr>Error = ''steam: email-code guard not supported (use shared_secret)'', wrapped = [ErrEmailCodeRequired]\<rparr>"

definition satisfy_guard :: "'w steam_net \<Rightarrow> Credentials \<Rightarrow> beginResponse \<Rightarrow> int \<Rightarrow> 'w steam_state \<Rightarrow> goerr option \<times> 'w steam_state" where
  "satisfy_guard n creds b guardType st =
    (let update = (\<lambda>code codeType st. case authAPIPOST n ''UpdateAuthSessionWithSteamGuardCode'' (encodeUpdateGuard (br_ClientID b) (br_SteamID b) code codeType) [29] st of
           (Inl e, st) \<Rightarrow> (Some e, st) | (Inr _, st) \<Rightarrow> (None, st))
     in if guardType = 3
        then (case steam_world (sn_Now n) st of (now, st) \<Rightarrow>
               (case GenerateOneTimeCode (SharedSecret creds) now of Inl e \<Rightarrow> (Some e, st) | Inr code \<Rightarrow> update code 3 st))
        else if guardType = 4 then update ''ok'' 4 st
        else (Some ErrEmailCodeRequired_err, st))"

definition poll_tokens :: "'w steam_net \<Rightarrow> beginResponse \<Rightarrow> 'w steam_state \<Rightarrow> goerr option \<times> 'w steam_state" where
  "poll_tokens n b st =
    (case authAPIPOST n ''PollAuthSessionStatus'' (encodePoll (br_ClientID b) (br_RequestID b)) [] st of
       (Inl e, st) \<Rightarrow> (Some e, st)
     | (Inr body, st) \<Rightarrow>
        (case decodePoll body of
           Inl e \<Rightarrow> (Some e, st)
         | Inr (refresh, access) \<Rightarrow>
            if refresh = '''' then (Some (Errorf ''steam: empty refresh token after poll''), st)
            else finalize_login n (st\<lparr>ss_tokens := \<lparr>tk_SteamID = dec_int (uint (br_SteamID b)), tk_RefreshToken = refresh, tk_AccessToken = access,
                    tk_AccessExp = jwtExp access\<rparr>\<rparr>)))"

definition begin_session :: "'w steam_net \<Rightarrow> Credentials \<Rightarrow> 'w steam_state \<Rightarrow> (goerr + beginResponse \<times> int) \<times> 'w steam_state" where
  "begin_session n creds st =
    (case authAPIGET n ''GetPasswordRSAPublicKey'' (pb_bytes 1 (Username creds)) [] st of
       (Inl e, st) \<Rightarrow> (Inl e, st)
     | (Inr body, st) \<Rightarrow>
        (case decodeRSAKey body of
           Inl e \<Rightarrow> (Inl e, st)
         | Inr (md, ex, ts) \<Rightarrow>
            (case encryptPassword n (Password creds) md ex st of
               (Inl e, st) \<Rightarrow> (Inl e, st)
             | (Inr enc, st) \<Rightarrow>
                (case authAPIPOST n ''BeginAuthSessionViaCredentials'' (encodeBeginAuth (Username creds) enc ts) [] st of
                   (Inl e, st) \<Rightarrow> (Inl e, st)
                 | (Inr body, st) \<Rightarrow>
                    (case decodeBeginResponse body of
                       Inl e \<Rightarrow> (Inl e, st)
                     | Inr b \<Rightarrow> (case br_AllowedConfirmations b of [] \<Rightarrow> (Inl (Errorf ''steam: no allowed confirmations returned''), st)
                        | g # _ \<Rightarrow> (Inr (b, g), st)))))))"

definition Login :: "'w steam_net \<Rightarrow> Credentials \<Rightarrow> 'w steam_state \<Rightarrow> goerr option \<times> 'w steam_state" where
  "Login n creds st =
    (case NewRequest n ''GET'' communityURL [] None of
       Inl e \<Rightarrow> (Some e, st)
     | Inr warm \<Rightarrow>
        (let st = (case visit n (Inr warm) st of (True, st) \<Rightarrow> captureSessionID n st | (False, st) \<Rightarrow> st)
         in case begin_session n creds st of
              (Inl e, st) \<Rightarrow> (Some e, st)
            | (Inr (b, g), st) \<Rightarrow> (case satisfy_guard n creds b g st of (Some e, st) \<Rightarrow> (Some e, st) | (None, st) \<Rightarrow> poll_tokens n b st)))"

section \<open>Refresh\<close>

definition read_access :: "json \<Rightarrow> string option" where
  "read_access = read_struct [(''response'', to_struct [string_field ''access_token'' (\<lambda>v _. v)])] ''''"

definition RefreshAccessToken :: "'w steam_net \<Rightarrow> 'w steam_state \<Rightarrow> goerr option \<times> 'w steam_state" where
  "RefreshAccessToken n st =
    (let t = ss_tokens st in
     if tk_RefreshToken t = '''' \<or> tk_SteamID t = '''' then (Some (Errorf ''steam: no refresh token''), st)
     else case send_raw n (NewRequest n ''POST'' (api_url ''GenerateAccessTokenForApp'') form_header
            (Some (form_Encode [(''steamid'', tk_SteamID t), (''refresh_token'', tk_RefreshToken t)]))) st of
         (Inl e, st) \<Rightarrow> (Some e, st)
       | (Inr (body, status, er), st) \<Rightarrow>
          if status \<noteq> 200 then (Some (Errorf (''steam: refresh access token: http '' @ dec_int status)), st)
          else (case checkEresult ''GenerateAccessTokenForApp'' er [] of
              Some e \<Rightarrow> (Some e, st)
            | None \<Rightarrow>
               (case unmarshal ''refresh decode'' read_access body of
                  Inl e \<Rightarrow> (Some e, st)
                | Inr a \<Rightarrow>
                   if a = '''' then (Some (Errorf ''steam: refresh returned empty access token''), st)
                   else (None, setLoginSecure n (st\<lparr>ss_tokens := (ss_tokens st)\<lparr>tk_AccessToken := a, tk_AccessExp := jwtExp a\<rparr>\<rparr>)))))"

definition IsAlive :: "'w steam_net \<Rightarrow> 'w steam_state \<Rightarrow> bool \<times> 'w steam_state" where
  "IsAlive n st =
    (case steam_world (sn_Do n \<lparr>sq_Method = ''GET'', sq_URL = communityURL @ ''/my'', sq_Headers = [], sq_Body = None\<rparr>) st of
       (Inl _, st) \<Rightarrow> (False, st)
     | (Inr r, st) \<Rightarrow>
        (sp_Status r = 200 \<and> (sp_Path r = ''/my'' \<or> prefix ''/profiles/'' (sp_Path r) \<or> prefix ''/id/'' (sp_Path r)), captureSessionID n st))"

end
