(* ===== verification/SteamOffers.thy ===== *)
theory SteamOffers
  imports SteamSession
begin

text \<open>
  Trade offers and mobile confirmations of Steam (\<open>platform/steam/offers.go\<close>).
\<close>

section \<open>Offers\<close>

record rawOffer =
  of_TradeOfferID :: string
  of_TradeOfferState :: int
  of_ItemsToGive :: "json list"
  of_ItemsToReceive :: "json list"

definition no_offer :: rawOffer where
  "no_offer = \<lparr>of_TradeOfferID = '''', of_TradeOfferState = 0, of_ItemsToGive = [], of_ItemsToReceive = []\<rparr>"

definition offer_fields :: "rawOffer field list" where
  "offer_fields = [string_field ''tradeofferid'' (\<lambda>v p. p\<lparr>of_TradeOfferID := v\<rparr>), int_field ''trade_offer_state'' of_TradeOfferState (\<lambda>v p. p\<lparr>of_TradeOfferState := v\<rparr>),
     list_field ''items_to_give'' to_any (\<lambda>v p. p\<lparr>of_ItemsToGive := v\<rparr>), list_field ''items_to_receive'' to_any (\<lambda>v p. p\<lparr>of_ItemsToReceive := v\<rparr>)]"

definition IsZeroCost :: "rawOffer \<Rightarrow> bool" where
  "IsZeroCost offer \<longleftrightarrow> of_ItemsToGive offer = []"

text \<open>The body of an answer with status 200 and a good result.\<close>

definition good_answer :: "string \<Rightarrow> string \<Rightarrow> (goerr + string \<times> int \<times> int) \<times> 'w steam_state \<Rightarrow> (goerr + string) \<times> 'w steam_state" where
  "good_answer what method rst = (case rst of
      (Inl e, st) \<Rightarrow> (Inl e, st)
    | (Inr (body, status, er), st) \<Rightarrow>
       if status \<noteq> 200 then (Inl (Errorf (''steam: '' @ what @ '': http '' @ dec_int status)), st)
       else (case checkEresult method er [] of Some e \<Rightarrow> (Inl e, st) | None \<Rightarrow> (Inr body, st)))"

definition read_offer :: "json \<Rightarrow> rawOffer option option" where
  "read_offer = read_struct [(''response'', to_struct [pointer_field ''offer'' (read_struct offer_fields no_offer) (\<lambda>v _. v)])] None"

text \<open>The offer Steam knows under an id.\<close>

definition GetTradeOffer :: "'w steam_net \<Rightarrow> string \<Rightarrow> 'w steam_state \<Rightarrow> (goerr + rawOffer) \<times> 'w steam_state" where
  "GetTradeOffer n offerID st =
    (case good_answer ''trade offer'' ''GetTradeOffer'' (send_raw n (NewRequest n ''GET'' (storeURL @ ''/IEconService/GetTradeOffer/v1/?''
        @ form_Encode [(''access_token'', tk_AccessToken (ss_tokens st)), (''tradeofferid'', offerID), (''get_descriptions'', ''0'')]) [] None) st) of
       (Inl e, st) \<Rightarrow> (Inl e, st)
     | (Inr body, st) \<Rightarrow>
        (case unmarshal ''trade offer decode'' read_offer body of
           Inl e \<Rightarrow> (Inl e, st)
         | Inr None \<Rightarrow> (Inl (Errorf ''steam: missing or mismatched trade offer''), st)
         | Inr (Some offer) \<Rightarrow>
            if of_TradeOfferID offer \<noteq> offerID \<or> offerID = '''' then (Inl (Errorf ''steam: missing or mismatched trade offer''), st)
            else (Inr offer, st)))"

definition read_offers :: "json \<Rightarrow> rawOffer list option" where
  "read_offers = read_struct [(''response'', to_struct [list_field ''trade_offers_received'' (read_struct offer_fields no_offer) (\<lambda>v _. v)])] []"

definition GetReceivedActiveOffers :: "'w steam_net \<Rightarrow> 'w steam_state \<Rightarrow> (goerr + rawOffer list) \<times> 'w steam_state" where
  "GetReceivedActiveOffers n st =
    (case good_answer ''trade offers'' ''GetTradeOffers'' (send_raw n (NewRequest n ''GET'' (storeURL @ ''/IEconService/GetTradeOffers/v1/?''
        @ form_Encode [(''access_token'', tk_AccessToken (ss_tokens st)), (''get_sent_offers'', ''1''), (''get_received_offers'', ''1''), (''get_descriptions'', ''0''),
            (''language'', ''english''), (''active_only'', ''1''), (''historical_only'', ''0'')]) [] None) st) of
       (Inl e, st) \<Rightarrow> (Inl e, st) | (Inr body, st) \<Rightarrow> (unmarshal ''trade offers decode'' read_offers body, st))"

section \<open>The partner\<close>

text \<open>The pattern \<open>g_ulTradePartnerSteamID\s*=\s*'(\d+)'\<close> at the start of a text, and the leftmost place where it matches.\<close>

definition regex_space :: "char \<Rightarrow> bool" where
  "regex_space c \<longleftrightarrow> c \<in> {CHR '' '', CHR 0x09, CHR 0x0A, CHR 0x0C, CHR 0x0D}"

definition partner_at :: "string \<Rightarrow> string option" where
  "partner_at s =
    (case strip_prefix ''g_ulTradePartnerSteamID'' s of
       None \<Rightarrow> None
     | Some r \<Rightarrow>
        (case dropWhile regex_space r of
           [] \<Rightarrow> None
         | e # r \<Rightarrow>
            (case dropWhile regex_space r of
               [] \<Rightarrow> None
             | q # r \<Rightarrow>
                (case digits r of (ds, r) \<Rightarrow>
                   if e = CHR ''='' \<and> q = CHR 0x27 \<and> ds \<noteq> [] \<and> r \<noteq> [] \<and> hd r = CHR 0x27 then Some ds else None))))"

fun find_partner :: "string \<Rightarrow> string option" where
  "find_partner [] = None"
| "find_partner (c # cs) = (case partner_at (c # cs) of Some p \<Rightarrow> Some p | None \<Rightarrow> find_partner cs)"

definition steam_get :: "'w steam_net \<Rightarrow> string \<Rightarrow> 'w steam_state \<Rightarrow> (goerr + string) \<times> 'w steam_state" where
  "steam_get n url = doRaw n (NewRequest n ''GET'' url (h_Set ''X-Requested-With'' ''com.valvesoftware.android.steam.community'' []) None)"

definition ErrSevenDayHold_err :: goerr where
  "ErrSevenDayHold_err = \<lparr>Error = ''steam: 7-day trade hold (new device)'', wrapped = [ErrSevenDayHold]\<rparr>"

definition resolvePartnerID :: "'w steam_net \<Rightarrow> string \<Rightarrow> 'w steam_state \<Rightarrow> (goerr + string) \<times> 'w steam_state" where
  "resolvePartnerID n offerID st =
    (case steam_get n (communityURL @ ''/tradeoffer/'' @ offerID @ ''/'') st of
       (Inl e, st) \<Rightarrow> (Inl e, st)
     | (Inr body, st) \<Rightarrow>
        if sublist ''You have logged in from a new device'' body then (Inl ErrSevenDayHold_err, st)
        else (case find_partner body of None \<Rightarrow> (Inl (Errorf (''steam: partner id not found on offer page '' @ offerID)), st) | Some p \<Rightarrow> (Inr p, st)))"

section \<open>Confirmations\<close>

record confirmation =
  cn_ID :: string
  cn_Nonce :: string
  cn_CreatorID :: string

definition no_confirmation :: confirmation where
  "no_confirmation = \<lparr>cn_ID = '''', cn_Nonce = '''', cn_CreatorID = ''''\<rparr>"

definition confirmation_fields :: "confirmation field list" where
  "confirmation_fields = [string_field ''id'' (\<lambda>v p. p\<lparr>cn_ID := v\<rparr>), string_field ''nonce'' (\<lambda>v p. p\<lparr>cn_Nonce := v\<rparr>),
     string_field ''creator_id'' (\<lambda>v p. p\<lparr>cn_CreatorID := v\<rparr>)]"

definition read_confirmations :: "json \<Rightarrow> confirmation list option" where
  "read_confirmations j = map_option snd (read_struct [bool_field ''success'' (\<lambda>v p. (v, snd p)),
     list_field ''conf'' (read_struct confirmation_fields no_confirmation) (\<lambda>v p. (fst p, v))] (False, []) j)"

definition confParams :: "'w steam_net \<Rightarrow> Credentials \<Rightarrow> string \<Rightarrow> 'w steam_state \<Rightarrow> (goerr + (string \<times> string) list) \<times> 'w steam_state" where
  "confParams n creds tag st =
    (case steam_world (sn_Now n) st of (ts, st) \<Rightarrow>
      case GenerateConfirmationKey (IdentitySecret creds) tag ts of
        Inl e \<Rightarrow> (Inl e, st)
      | Inr key \<Rightarrow>
         (let steamID = tk_SteamID (ss_tokens st)
          in (Inr [(''p'', GenerateDeviceID steamID), (''a'', steamID), (''k'', key), (''t'', dec_int ts), (''m'', ''android''), (''tag'', tag)], st)))"

definition allowConfirmation :: "'w steam_net \<Rightarrow> Credentials \<Rightarrow> string \<Rightarrow> string \<Rightarrow> 'w steam_state \<Rightarrow> goerr option \<times> 'w steam_state" where
  "allowConfirmation n creds confID nonce st =
    (case confParams n creds ''allow'' st of
       (Inl e, st) \<Rightarrow> (Some e, st)
     | (Inr ps, st) \<Rightarrow>
        (case doRaw n (NewRequest n ''GET'' (communityURL @ ''/mobileconf/ajaxop?'' @ form_Encode (ps @ [(''op'', ''allow''), (''cid'', confID), (''ck'', nonce)])) [] None) st of
           (Inl e, st) \<Rightarrow> (Some e, st)
         | (Inr body, st) \<Rightarrow>
            (case unmarshal ''ajaxop decode'' (read_struct [bool_field ''success'' (\<lambda>v _. v)] False) body of
               Inl e \<Rightarrow> (Some e, st) | Inr ok \<Rightarrow> (if ok then None else Some (Errorf ''steam: ajaxop allow failed''), st))))"

text \<open>The list of open confirmations is read at most \<open>left\<close> times; only a confirmation created by exactly this offer is allowed.\<close>

fun confirm_attempts :: "'w steam_net \<Rightarrow> Credentials \<Rightarrow> string \<Rightarrow> nat \<Rightarrow> 'w steam_state \<Rightarrow> goerr option \<times> 'w steam_state" where
  "confirm_attempts n creds offerID 0 st = (Some (Errorf ''steam: confirmation not found after retries''), st)"
| "confirm_attempts n creds offerID (Suc left) st =
    (case confParams n creds ''conf'' st of
       (Inl e, st) \<Rightarrow> (Some e, st)
     | (Inr ps, st) \<Rightarrow>
        (case steam_get n (communityURL @ ''/mobileconf/getlist?'' @ form_Encode ps) st of
           (Inl e, st) \<Rightarrow> (Some e, st)
         | (Inr body, st) \<Rightarrow>
            if sublist ''Incorrect Steam Guard codes'' body then (Some (Errorf ''steam: identity_secret invalid''), st)
            else (case unmarshal ''confirmlist decode'' read_confirmations body of
                Inl e \<Rightarrow> (Some e, st)
              | Inr cs \<Rightarrow>
                 (case find (\<lambda>x. cn_CreatorID x = offerID) cs of
                    Some x \<Rightarrow> allowConfirmation n creds (cn_ID x) (cn_Nonce x) st
                  | None \<Rightarrow> confirm_attempts n creds offerID left (st\<lparr>ss_world := sn_Sleep n (ss_world st)\<rparr>)))))"

definition confirmTradeOffer :: "'w steam_net \<Rightarrow> Credentials \<Rightarrow> string \<Rightarrow> 'w steam_state \<Rightarrow> goerr option \<times> 'w steam_state" where
  "confirmTradeOffer n creds offerID = confirm_attempts n creds offerID 3"

section \<open>Accepting\<close>

record accept_answer =
  an_Mobile :: bool
  an_Email :: bool
  an_TradeID :: string
  an_State :: string

definition no_answer :: accept_answer where
  "no_answer = \<lparr>an_Mobile = False, an_Email = False, an_TradeID = '''', an_State = ''''\<rparr>"

definition answer_fields :: "accept_answer field list" where
  "answer_fields = [bool_field ''needs_mobile_confirmation'' (\<lambda>v p. p\<lparr>an_Mobile := v\<rparr>), bool_field ''needs_email_confirmation'' (\<lambda>v p. p\<lparr>an_Email := v\<rparr>),
     string_field ''tradeid'' (\<lambda>v p. p\<lparr>an_TradeID := v\<rparr>), string_field ''trade_offer_state'' (\<lambda>v p. p\<lparr>an_State := v\<rparr>)]"

definition confirmed :: "'w steam_net \<Rightarrow> Credentials \<Rightarrow> string \<Rightarrow> 'w steam_state \<Rightarrow> (goerr + bool) \<times> 'w steam_state" where
  "confirmed n creds offerID st = (case confirmTradeOffer n creds offerID st of (Some e, st) \<Rightarrow> (Inl e, st) | (None, st) \<Rightarrow> (Inr True, st))"

definition acceptOfferWithPartner :: "'w steam_net \<Rightarrow> Credentials \<Rightarrow> string \<Rightarrow> string \<Rightarrow> 'w steam_state \<Rightarrow> (goerr + bool) \<times> 'w steam_state" where
  "acceptOfferWithPartner n creds offerID partnerID st =
    (case send_raw n (NewRequest n ''POST'' (communityURL @ ''/tradeoffer/'' @ offerID @ ''/accept'')
        (h_Set ''Referer'' (communityURL @ ''/tradeoffer/'' @ offerID @ ''/'') form_header)
        (Some (form_Encode [(''sessionid'', ss_sessionid st), (''tradeofferid'', offerID), (''serverid'', ''1''), (''partner'', partnerID), (''captcha'', '''')]))) st of
       (Inl e, st) \<Rightarrow> (Inl e, st)
     | (Inr (body, status, _), st) \<Rightarrow>
        if status < 200 \<or> 299 < status then (Inl (Errorf (''steam: accept '' @ offerID @ '': http '' @ dec_int status)), st)
        else (case unmarshal ''accept'' (read_struct answer_fields no_answer) body of
            Inl _ \<Rightarrow> (Inl (Errorf (''steam: accept '' @ offerID @ '': non-json response (http '' @ dec_int status @ '')'')), st)
          | Inr a \<Rightarrow>
             if an_Mobile a then confirmed n creds offerID st
             else if an_Email a then (Inl (Errorf ''steam: offer requires email confirmation''), st)
             else if an_TradeID a \<noteq> '''' \<or> map lower (an_State a) = ''accepted'' then (Inr True, st)
             else (Inl (Errorf (''steam: accept '' @ offerID @ '' not accepted (state='' @ quoted_raw (an_State a) @ '')'')), st)))"

definition acceptTradeOffer :: "'w steam_net \<Rightarrow> Credentials \<Rightarrow> string \<Rightarrow> bool \<Rightarrow> 'w steam_state \<Rightarrow> (goerr + bool) \<times> 'w steam_state" where
  "acceptTradeOffer n creds offerID zeroCostOnly st =
    (case GetTradeOffer n offerID st of
       (Inl e, st) \<Rightarrow> (Inl e, st)
     | (Inr offer, st) \<Rightarrow>
        if zeroCostOnly \<and> \<not> IsZeroCost offer then (Inl (Errorf ''steam: offer requires outgoing assets''), st)
        else if of_TradeOfferState offer = 3 then (Inr True, st)
        else if of_TradeOfferState offer = 9 then confirmed n creds offerID st
        else if of_TradeOfferState offer = 2
          then (case resolvePartnerID n offerID st of (Inl e, st) \<Rightarrow> (Inl e, st) | (Inr p, st) \<Rightarrow> acceptOfferWithPartner n creds offerID p st)
        else (Inl (Errorf (''steam: offer '' @ offerID @ '' cannot be accepted (state='' @ dec_int (of_TradeOfferState offer) @ '')'')), st))"

definition AcceptTradeOffer :: "'w steam_net \<Rightarrow> Credentials \<Rightarrow> string \<Rightarrow> 'w steam_state \<Rightarrow> (goerr + bool) \<times> 'w steam_state" where
  "AcceptTradeOffer n creds offerID = acceptTradeOffer n creds offerID False"

definition AcceptZeroCostTradeOffer :: "'w steam_net \<Rightarrow> Credentials \<Rightarrow> string \<Rightarrow> 'w steam_state \<Rightarrow> (goerr + bool) \<times> 'w steam_state" where
  "AcceptZeroCostTradeOffer n creds offerID = acceptTradeOffer n creds offerID True"

end
