(* ===== verification/SteamProtoProps.thy ===== *)
theory SteamProtoProps
  imports SteamProto
begin

text \<open>
  The wire format reads back what it writes, and Steam Guard codes are well formed.
\<close>

unbundle bit_operations_syntax

section \<open>Numbers\<close>

lemma split_word: "(of_nat (n mod 128) :: w64) OR push_bit 7 (of_nat (n div 128)) = of_nat n"
proof -
  have d: "\<not> bit (of_nat (n mod 128) :: w64) k \<or> \<not> bit (push_bit 7 (of_nat (n div 128)) :: w64) k" for k
  proof (cases "k < 7")
    case False
    have "n mod 128 = take_bit 7 n" by (simp add: take_bit_eq_mod)
    then have "\<not> bit (of_nat (n mod 128) :: w64) k" using False by (simp add: bit_of_nat_iff bit_take_bit_iff)
    then show ?thesis ..
  qed (simp add: bit_push_bit_iff)
  have "(of_nat (n mod 128) :: w64) + push_bit 7 (of_nat (n div 128)) = of_nat (n mod 128 + 128 * (n div 128))"
    unfolding of_nat_add of_nat_mult by (simp add: push_bit_eq_mult mult.commute del: of_nat_mod)
  then show ?thesis using disjunctive_add[of "of_nat (n mod 128) :: w64" "push_bit 7 (of_nat (n div 128))"] d by simp
qed

lemma uvarint_put_nat: "i \<le> 9 \<Longrightarrow> n < 2 ^ (64 - 7 * i) \<Longrightarrow> uvarint_from i x (put_nat n @ r) = Some (x OR push_bit (7 * i) (of_nat n), r)"
proof (induction n arbitrary: i x rule: put_nat.induct)
  case (1 n)
  show ?case
  proof (cases "n < 128")
    case True
    have "\<not> (i = 9 \<and> 1 < n)" using 1(3) by auto
    then show ?thesis using True 1(2) by (subst put_nat.simps) (simp add: Let_def)
  next
    case False
    have i: "i \<noteq> 9" using False 1(3) by auto
    then have i9: "i + 1 \<le> 9" using 1(2) by simp
    define m where "m = 64 - 7 * (i + 1)"
    have "64 - 7 * i = m + 7" using i9 unfolding m_def by simp
    then have "n < 2 ^ m * 128" using 1(3) by (simp only: power_add) simp
    then have s: "n div 128 < 2 ^ (64 - 7 * (i + 1))" unfolding m_def[symmetric] by (simp add: div_less_iff_less_mult)
    have b: "(of_char (char_of (n mod 128 + 128) :: char) :: nat) = n mod 128 + 128" by simp
    have m128: "(n mod 128 + 128) mod 128 = n mod 128" by simp
    have "put_nat n = char_of (n mod 128 + 128) # put_nat (n div 128)" using False by (subst put_nat.simps) simp
    then have "uvarint_from i x (put_nat n @ r) = uvarint_from i x (char_of (n mod 128 + 128) # (put_nat (n div 128) @ r))" by simp
    also have "\<dots> = uvarint_from (i + 1) (x OR push_bit (7 * i) (of_nat (n mod 128))) (put_nat (n div 128) @ r)"
      using 1(2) unfolding uvarint_from.simps Let_def b m128 by simp
    also have "\<dots> = Some ((x OR push_bit (7 * i) (of_nat (n mod 128))) OR push_bit (7 * (i + 1)) (of_nat (n div 128)), r)"
      by (rule 1(1)[OF False i9 s])
    also have "(x OR push_bit (7 * i) (of_nat (n mod 128))) OR push_bit (7 * (i + 1)) (of_nat (n div 128)) = x OR push_bit (7 * i) (of_nat n :: w64)"
    proof -
      have "push_bit (7 * (i + 1)) (of_nat (n div 128) :: w64) = push_bit (7 * i) (push_bit 7 (of_nat (n div 128)))" by (simp add: push_bit_push_bit add.commute)
      then show ?thesis by (simp only: or.assoc push_bit_or[symmetric] split_word)
    qed
    finally show ?thesis .
  qed
qed

lemma Uvarint_Put [simp]: "Uvarint (PutUvarint v @ r) = Some (v, r)"
  using uvarint_put_nat[of 0 "unat v" 0 r] unsigned_less[of v, where 'a = nat] by (simp add: Uvarint_def PutUvarint_def)

lemma le_value_bytes: "n < 256 ^ k \<Longrightarrow> le_value (le_bytes k n) = n"
proof (induction k arbitrary: n)
  case (Suc k)
  have "le_bytes (Suc k) n = char_of (n mod 256) # le_bytes k (n div 256)"
    unfolding le_bytes_def by (subst upt_conv_Cons) (simp_all add: map_Suc_upt[symmetric] comp_def div_mult2_eq del: upt_Suc)
  moreover have "n div 256 < 256 ^ k" using Suc.prems by (simp add: div_less_iff_less_mult mult.commute)
  ultimately show ?case using Suc.IH[of "n div 256"] by (simp add: le_value_def)
qed (simp add: le_value_def le_bytes_def)

lemma le_bytes_length [simp]: "length (le_bytes k n) = k"
  by (simp add: le_bytes_def)

section \<open>Fields\<close>

datatype wire_field = WVar w32 w64 | WFix64 w32 w64 | WFix32 w32 w32 | WBytes w32 string

fun put_wire :: "wire_field \<Rightarrow> string" where
  "put_wire (WVar f v) = pb_u64 f v"
| "put_wire (WFix64 f v) = pb_f64 f v"
| "put_wire (WFix32 f v) = pb_f32 f v"
| "put_wire (WBytes f b) = pb_bytes f b"

fun field_ok :: "wire_field \<Rightarrow> bool" where
  "field_ok (WVar f v) = (f < 2 ^ 29)"
| "field_ok (WFix64 f v) = (f < 2 ^ 29)"
| "field_ok (WFix32 f v) = (f < 2 ^ 29)"
| "field_ok (WBytes f b) = (f < 2 ^ 29 \<and> length b < 2 ^ 64)"

fun read_wire :: "wire_field \<Rightarrow> w32 \<times> w32 \<times> string \<times> w64" where
  "read_wire (WVar f v) = (f, 0, '''', v)"
| "read_wire (WFix64 f v) = (f, 1, '''', v)"
| "read_wire (WFix32 f v) = (f, 5, '''', ucast v)"
| "read_wire (WBytes f b) = (f, 2, b, 0)"

lemma key_parts:
  assumes "f < (2 ^ 29 :: w32)" "w \<in> {0, 1, 2, 5 :: w32}"
  shows "ucast (drop_bit 3 (ucast (push_bit 3 f OR w) :: w64)) = f" "ucast ((ucast (push_bit 3 f OR w) :: w64) AND 7) = w"
proof -
  have "uint f < 2 ^ 29" using assms(1) by (simp add: word_less_def)
  then have t: "take_bit 29 (uint f) = uint f" by (simp add: take_bit_int_eq_self)
  have hi: "\<not> bit f k" if "29 \<le> k" for k
  proof
    assume b: "bit f k"
    then have "bit (uint f) k" using bit_imp_le_length[OF b] by (simp add: bit_uint_iff)
    then have "bit (take_bit 29 (uint f)) k" using t by simp
    then show False using that by (simp add: bit_take_bit_iff)
  qed
  have w7: "w = w AND 7" using assms(2) by auto
  have lo: "\<not> bit w k" if "3 \<le> k" for k
  proof -
    have "(7 :: w32) = mask 3" by (simp add: mask_eq_exp_minus_1)
    then have "bit (w AND 7) k \<Longrightarrow> k < 3" by (simp add: bit_and_iff bit_mask_iff)
    then show ?thesis using that w7 by (metis not_le)
  qed
  have hi': "bit f k \<Longrightarrow> k < 29" and lo': "bit w k \<Longrightarrow> k < 3" for k using hi lo not_le by blast+
  show "ucast (drop_bit 3 (ucast (push_bit 3 f OR w) :: w64)) = f"
    by (rule bit_word_eqI) (auto simp: bit_simps dest: hi' lo')
  have m: "(7 :: w64) = mask 3" by (simp add: mask_eq_exp_minus_1)
  show "ucast ((ucast (push_bit 3 f OR w) :: w64) AND 7) = w"
    unfolding m by (rule bit_word_eqI) (auto simp: bit_simps dest: hi' lo')
qed

lemma Uvarint_tag: "Uvarint (pb_tag f w @ r) = Some (ucast (push_bit 3 f OR w), r)"
  by (simp add: pb_tag_def)

lemma put_nat_ne: "put_nat n \<noteq> []"
  by (subst put_nat.simps) simp

lemma pb_tag_ne: "pb_tag f w \<noteq> []"
  by (simp add: pb_tag_def PutUvarint_def put_nat_ne)

lemma pb_next_put:
  assumes "field_ok x" "length (put_wire x @ r) < 2 ^ 64"
  shows "pb_next (put_wire x @ r) = (case read_wire x of (f, w, b, v) \<Rightarrow> pb_Field f w b v r)"
proof (cases x)
  case (WVar f v)
  then show ?thesis using assms(1) key_parts[of f 0] by (simp add: pb_next_def pb_u64_def pb_tag_ne Uvarint_tag Let_def)
next
  case (WFix64 f v)
  have "unat v < 256 ^ 8" using unsigned_less[of v, where 'a = nat] by simp
  then show ?thesis using WFix64 assms(1) key_parts[of f 1] by (simp add: pb_next_def pb_f64_def pb_tag_ne Uvarint_tag Let_def le_value_bytes)
next
  case (WFix32 f v)
  have "unat v < 256 ^ 4" using unsigned_less[of v, where 'a = nat] by simp
  then show ?thesis using WFix32 assms(1) key_parts[of f 5]
    by (simp add: pb_next_def pb_f32_def pb_tag_ne Uvarint_tag Let_def le_value_bytes)
next
  case (WBytes f b)
  have t: "length b + length r < 2 ^ 64" using assms(2) WBytes by (simp add: pb_bytes_def)
  then have l: "unat (of_nat (length b) :: w64) = length b" "unat (of_nat (length b + length r) :: w64) = length b + length r"
    by (simp_all add: unat_of_nat del: of_nat_add)
  have "\<not> of_nat (length (b @ r)) < (of_nat (length b) :: w64)" using l by (simp add: word_less_nat_alt del: of_nat_add)
  then show ?thesis using WBytes assms(1) key_parts[of f 2] l(1) by (simp add: pb_next_def pb_bytes_def pb_tag_ne Uvarint_tag Let_def)
qed

lemma put_nat_length: "0 < k \<Longrightarrow> n < 2 ^ (7 * k) \<Longrightarrow> length (put_nat n) \<le> k"
proof (induction n arbitrary: k rule: put_nat.induct)
  case (1 n)
  show ?case
  proof (cases "n < 128")
    case False
    then obtain j where k: "k = Suc j" "0 < j" using 1(2,3) by (cases k; cases "k - 1") auto
    have "(2::nat) ^ (7 * k) = 2 ^ (7 * j) * 128" unfolding k(1) by (simp add: power_add)
    then have "n div 128 < 2 ^ (7 * j)" using 1(3) by (simp add: div_less_iff_less_mult)
    then show ?thesis using 1(1)[OF False k(2)] False k(1) by (subst put_nat.simps) simp
  qed (use 1(2) in \<open>subst put_nat.simps, simp\<close>)
qed

lemma PutUvarint_length: "length (PutUvarint v) \<le> 10"
proof -
  have "unat v < 2 ^ 64" using unsigned_less[of v, where 'a = nat] by simp
  then have "unat v < 2 ^ (7 * 10)" by simp
  then show ?thesis unfolding PutUvarint_def by (intro put_nat_length) simp_all
qed

lemma put_wire_ne: "put_wire x \<noteq> []"
  by (cases x) (simp_all add: pb_u64_def pb_f64_def pb_f32_def pb_bytes_def pb_tag_ne)

lemma pb_fold_put:
  assumes "\<forall>x \<in> set xs. field_ok x" "length (concat (map put_wire xs)) < 2 ^ 64" "length xs < n"
  shows "pb_fold n (\<lambda>s f w b v. Inr (s @ [(f, w, b, v)])) (concat (map put_wire xs)) s = Inr (s @ map read_wire xs)"
  using assms
proof (induction xs arbitrary: n s)
  case Nil
  then show ?case by (cases n) (simp_all add: pb_next_def)
next
  case (Cons x xs)
  obtain k where n: "n = Suc k" using Cons.prems(3) by (cases n) simp_all
  obtain f w b v where r: "read_wire x = (f, w, b, v)" by (metis surj_pair)
  have "pb_next (put_wire x @ concat (map put_wire xs)) = pb_Field f w b v (concat (map put_wire xs))"
    using pb_next_put[of x "concat (map put_wire xs)"] Cons.prems(1,2) r by simp
  then show ?case using Cons.IH[of k "s @ [(f, w, b, v)]"] Cons.prems n r by simp
qed

lemma fields_take_bytes: "length xs \<le> length (concat (map put_wire xs))"
proof (induction xs)
  case (Cons x xs)
  have "1 \<le> length (put_wire x)" using put_wire_ne[of x] by (cases "put_wire x") simp_all
  then show ?case using Cons by simp
qed simp

text \<open>A message reads back as it was written: whatever numbers, fixed words and byte strings are put into it, under field
  numbers below 2^29, the reader finds the same fields in the same order and then its end.\<close>

theorem message_round_trip:
  assumes "\<forall>x \<in> set xs. field_ok x" "length (concat (map put_wire xs)) < 2 ^ 64"
  shows "pb_read (\<lambda>s f w b v. Inr (s @ [(f, w, b, v)])) (concat (map put_wire xs)) [] = Inr (map read_wire xs)"
proof -
  have "length xs < length (concat (map put_wire xs)) + 1" using fields_take_bytes[of xs] by simp
  from pb_fold_put[OF assms this, of "[]"] show ?thesis by (simp only: pb_read_def append_Nil)
qed

theorem message_round_trip_witness:
  "pb_read (\<lambda>s f w b v. Inr (s @ [(f, w, b, v)])) (pb_u64 1 300 @ pb_bytes 2 ''ab'' @ pb_f64 3 (2 ^ 63)) []
    = Inr [(1, 0, '''', 300), (2, 2, ''ab'', 0), (3, 1, '''', 2 ^ 63)]"
proof -
  let ?xs = "[WVar 1 300, WBytes 2 ''ab'', WFix64 3 (2 ^ 63)]"
  have "length (pb_tag f w) \<le> 10" for f w by (simp add: pb_tag_def PutUvarint_length)
  from this[of 1 0] this[of 2 2] this[of 3 1] have "length (concat (map put_wire ?xs)) \<le> 60"
    using PutUvarint_length[of 300] PutUvarint_length[of 2] by (simp add: pb_u64_def pb_f64_def pb_bytes_def)
  then show ?thesis using message_round_trip[of ?xs] by simp
qed

section \<open>Steam Guard\<close>

lemma guard_digits_shape: "length (guard_digits n full) = n \<and> set (guard_digits n full) \<subseteq> set guard_alphabet"
proof (induction n arbitrary: full)
  case (Suc n)
  have "guard_alphabet ! (full mod length guard_alphabet) \<in> set guard_alphabet" by (rule nth_mem) (simp add: guard_alphabet_def)
  then show ?case using Suc by simp
qed simp

lemma sha1_length: "length (sha1 m) = 20"
proof -
  have r: "length (sha1_round v tw) = 5" if l: "length v = 5" for v tw
  proof -
    obtain a b c d e where "v = [a, b, c, d, e]" using l by (auto simp: length_Suc_conv eval_nat_numeral)
    then show ?thesis by (auto simp: sha1_round_def Let_def split: prod.split)
  qed
  have f: "length (foldl sha1_round v tws) = 5" if "length v = 5" for v tws
    using that by (induction tws arbitrary: v) (simp_all add: r)
  have c: "length (foldl (\<lambda>h b. sha1_compress h (map be32 (chunks 4 b))) h bs) = 5" if "length h = 5" for h bs
    using that by (induction bs arbitrary: h) (simp_all add: sha1_compress_def f)
  show ?thesis unfolding sha1_def by (subst concat_uniform[of _ 4]) (auto simp: be_bytes_def c)
qed

text \<open>A code has five characters of the alphabet, is the same throughout its half minute, and is read inside the digest.\<close>

lemma guard_code_shape:
  assumes "GenerateOneTimeCode secret ts = Inr code"
  shows "length code = 5 \<and> set code \<subseteq> set guard_alphabet"
  using assms guard_digits_shape by (auto simp: GenerateOneTimeCode_def Let_def split: option.splits)

lemma guard_code_window:
  assumes "go_div ts 30 = go_div ts' 30"
  shows "GenerateOneTimeCode secret ts = GenerateOneTimeCode secret ts'"
  unfolding GenerateOneTimeCode_def assms by (rule refl)

lemma guard_code_inside: "length (hmac_sha1 key m) = 20 \<and> (of_char (hmac_sha1 key m ! 19) :: nat) mod 16 + 4 \<le> 20"
proof -
  have "(of_char (hmac_sha1 key m ! 19) :: nat) mod 16 < 16" by simp
  then show ?thesis by (simp add: hmac_sha1_def Let_def sha1_length)
qed

end
