(* ===== verification/SteamProps.thy ===== *)
theory SteamProps
  imports SteamOffers SteamProtoProps
begin

text \<open>
  What the Steam session guarantees: a bounded chain of redirects, acceptance of a free offer only after it was seen to be free, and
  confirmation of nothing but the offer asked for.
\<close>

section \<open>Redirects\<close>

lemma steam_worldE:
  assumes "steam_world f st = (r, st')"
  obtains w where "f (ss_world st) = (r, w)" "st' = st\<lparr>ss_world := w\<rparr>"
  using assms by (auto simp: steam_world_def split: prod.splits)

lemma redirects_cost:
  fixes c :: "'w \<Rightarrow> nat"
  assumes "\<And>q w. c (snd (sn_Do n q w)) \<le> Suc (c w)"
  shows "c (ss_world (snd (doRawDepth n k rq st))) \<le> c (ss_world st) + k + 1"
proof (induction k arbitrary: rq st)
  case 0
  show ?case using assms[of rq "ss_world st"]
    by (auto simp: steam_world_def split: prod.split sum.split)
next
  case (Suc k)
  obtain r w where d: "sn_Do n rq (ss_world st) = (r, w)" by (metis surj_pair)
  have w: "c w \<le> Suc (c (ss_world st))" using assms[of rq "ss_world st"] by (simp add: d)
  have more_hops: "c (ss_world (snd (doRawDepth n k q (st\<lparr>ss_world := w\<rparr>)))) \<le> c w + k + 1" for q using Suc.IH[of q "st\<lparr>ss_world := w\<rparr>"] by simp
  show ?case using w le_trans[OF more_hops, of "c (ss_world st) + Suc k + 1"] by (auto simp: steam_world_def d split: sum.split)
qed


definition circle_net :: "nat steam_net" where
  "circle_net = \<lparr>sn_ParseURL = (\<lambda>u. None),
     sn_Do = (\<lambda>q w. (Inr \<lparr>sp_Status = 302, sp_Location = ''https://steamcommunity.com/my'', sp_Eresult = '''', sp_Path = '''', sp_Body = Inr ''''\<rparr>, Suc w)),
     sn_Cookies = (\<lambda>w. []), sn_SetCookie = (\<lambda>d k v w. w), sn_Now = (\<lambda>w. (1000, w)), sn_Encrypt = (\<lambda>m e p w. (Inr p, w)), sn_Sleep = (\<lambda>w. w)\<rparr>"

definition no_tokens :: SessionTokens where
  "no_tokens = \<lparr>tk_SteamID = '''', tk_RefreshToken = '''', tk_AccessToken = '''', tk_AccessExp = 0\<rparr>"


section \<open>Free offers\<close>

lemma fetched_offer_matches:
  assumes "GetTradeOffer n offerID st = (Inr offer, st')"
  shows "of_TradeOfferID offer = offerID \<and> offerID \<noteq> ''''"
  using assms by (auto simp: GetTradeOffer_def split: prod.splits sum.splits option.splits if_splits)

text \<open>C29: The automatic acceptance of free offers gives nothing away: it succeeds only when Steam, asked for the offer just before,
  answered with this very offer and no items to give; an offer that asks for items is refused after that one question, so neither
  accepted nor confirmed; and a question that fails leaves it at that.\<close>

theorem free_offers_only:
  "(AcceptZeroCostTradeOffer n creds offerID st = (Inr ok, st') \<longrightarrow>
      (\<exists>offer st1. GetTradeOffer n offerID st = (Inr offer, st1) \<and> of_TradeOfferID offer = offerID \<and> of_ItemsToGive offer = [])) \<and>
   (GetTradeOffer n offerID st = (Inr offer1, st1) \<and> of_ItemsToGive offer1 \<noteq> [] \<longrightarrow>
      AcceptZeroCostTradeOffer n creds offerID st = (Inl (Errorf ''steam: offer requires outgoing assets''), st1)) \<and>
   (GetTradeOffer n offerID st = (Inl e, st2) \<longrightarrow> AcceptZeroCostTradeOffer n creds offerID st = (Inl e, st2))"
proof (intro conjI impI)
  assume run: "AcceptZeroCostTradeOffer n creds offerID st = (Inr ok, st')"
  obtain g sg where g: "GetTradeOffer n offerID st = (g, sg)" by (metis surj_pair)
  then obtain offer :: rawOffer where o: "g = Inr offer" using run
    by (cases g) (simp_all add: AcceptZeroCostTradeOffer_def acceptTradeOffer_def)
  have "of_ItemsToGive offer = []" using run g o
    by (auto simp: AcceptZeroCostTradeOffer_def acceptTradeOffer_def IsZeroCost_def split: if_splits)
  with g o fetched_offer_matches[of n offerID st offer sg]
  show "\<exists>offer st1. GetTradeOffer n offerID st = (Inr offer, st1) \<and> of_TradeOfferID offer = offerID \<and> of_ItemsToGive offer = []" by auto
qed (auto simp: AcceptZeroCostTradeOffer_def acceptTradeOffer_def IsZeroCost_def)

text \<open>A world that gives the same answers in order and counts them.\<close>

definition canned_net :: "string list steam_net" where
  "canned_net = \<lparr>sn_ParseURL = (\<lambda>u. None),
     sn_Do = (\<lambda>q w. (Inr \<lparr>sp_Status = 200, sp_Location = '''', sp_Eresult = ''1'', sp_Path = '''', sp_Body = Inr (hd w)\<rparr>, tl w)),
     sn_Cookies = (\<lambda>w. []), sn_SetCookie = (\<lambda>d k v w. w), sn_Now = (\<lambda>w. (1000, w)), sn_Encrypt = (\<lambda>m e p w. (Inr p, w)), sn_Sleep = (\<lambda>w. w)\<rparr>"

definition start_state :: "string list \<Rightarrow> string list steam_state" where
  "start_state w = \<lparr>ss_tokens = no_tokens, ss_sessionid = '''', ss_world = w\<rparr>"

definition paid_offer :: string where
  "paid_offer = ''{\"response\":{\"offer\":{\"tradeofferid\":\"77\",\"trade_offer_state\":9,\"items_to_give\":[{}]}}}''"

definition free_offer :: string where
  "free_offer = ''{\"response\":{\"offer\":{\"tradeofferid\":\"77\",\"trade_offer_state\":3,\"items_to_give\":[]}}}''"

definition guard_creds :: Credentials where
  "guard_creds = \<lparr>Username = ''u'', Password = ''p'', SharedSecret = '''', IdentitySecret = ''QUJD''\<rparr>"

lemma Atoi_one: "Atoi ''1'' = Some 1"
  by code_simp

lemma canned_reply: "send_raw canned_net (NewRequest canned_net m u h b) (start_state (a # w)) = (Inr (a, 200, 1), start_state w)"
  by (simp add: send_raw_def NewRequest_def canned_net_def doRawFull_def steam_world_def start_state_def eresult_of_def Atoi_one maxRedirectHops_def eval_nat_numeral)

lemma read_paid_offer: "unmarshal ''trade offer decode'' read_offer paid_offer
    = Inr (Some \<lparr>of_TradeOfferID = ''77'', of_TradeOfferState = 9, of_ItemsToGive = [JObj []], of_ItemsToReceive = []\<rparr>)"
  by code_simp

lemma read_free_offer: "unmarshal ''trade offer decode'' read_offer free_offer
    = Inr (Some \<lparr>of_TradeOfferID = ''77'', of_TradeOfferState = 3, of_ItemsToGive = [], of_ItemsToReceive = []\<rparr>)"
  by code_simp

lemmas canned_offer = GetTradeOffer_def canned_reply good_answer_def checkEresult_def read_paid_offer read_free_offer

theorem free_offers_only_witness:
  "(\<exists>offer st1. GetTradeOffer canned_net ''77'' (start_state [free_offer]) = (Inr offer, st1) \<and> of_TradeOfferID offer = ''77'' \<and> of_ItemsToGive offer = []) \<and>
   AcceptZeroCostTradeOffer canned_net guard_creds ''77'' (start_state [paid_offer]) = (Inl (Errorf ''steam: offer requires outgoing assets''), start_state []) \<and>
   (\<exists>e. AcceptZeroCostTradeOffer canned_net guard_creds ''78'' (start_state [free_offer]) = (Inl e, start_state []))"
proof (intro conjI)
  have "AcceptZeroCostTradeOffer canned_net guard_creds ''77'' (start_state [free_offer]) = (Inr True, start_state [])"
    by (simp add: AcceptZeroCostTradeOffer_def acceptTradeOffer_def canned_offer IsZeroCost_def)
  then show "\<exists>offer st1. GetTradeOffer canned_net ''77'' (start_state [free_offer]) = (Inr offer, st1) \<and> of_TradeOfferID offer = ''77'' \<and> of_ItemsToGive offer = []"
    by (rule free_offers_only[THEN conjunct1, rule_format])
  have "GetTradeOffer canned_net ''77'' (start_state [paid_offer])
      = (Inr \<lparr>of_TradeOfferID = ''77'', of_TradeOfferState = 9, of_ItemsToGive = [JObj []], of_ItemsToReceive = []\<rparr>, start_state [])"
    by (simp add: canned_offer)
  then show "AcceptZeroCostTradeOffer canned_net guard_creds ''77'' (start_state [paid_offer]) = (Inl (Errorf ''steam: offer requires outgoing assets''), start_state [])"
    by (rule free_offers_only[THEN conjunct2, THEN conjunct1, rule_format, OF conjI]) simp
  have "GetTradeOffer canned_net ''78'' (start_state [free_offer]) = (Inl (Errorf ''steam: missing or mismatched trade offer''), start_state [])"
    by (simp add: canned_offer)
  then show "\<exists>e. AcceptZeroCostTradeOffer canned_net guard_creds ''78'' (start_state [free_offer]) = (Inl e, start_state [])"
    using free_offers_only[THEN conjunct2, THEN conjunct2, rule_format] by (intro exI)
qed

section \<open>Confirmations\<close>

lemma confirm_attempts_exact:
  assumes "confirm_attempts n creds offerID left st = (None, st')"
  shows "\<exists>body cs x st1. unmarshal ''confirmlist decode'' read_confirmations body = Inr cs \<and> x \<in> set cs \<and> cn_CreatorID x = offerID \<and>
    allowConfirmation n creds (cn_ID x) (cn_Nonce x) st1 = (None, st')"
  using assms
proof (induction left arbitrary: st)
  case (Suc left)
  obtain p sp where p: "confParams n creds ''conf'' st = (p, sp)" by (metis surj_pair)
  with Suc.prems obtain ps where ps: "p = Inr ps" by (cases p) simp_all
  note run = Suc.prems[unfolded confirm_attempts.simps p ps prod.case sum.case]
  obtain g sg where g: "steam_get n (communityURL @ ''/mobileconf/getlist?'' @ form_Encode ps) sp = (g, sg)" by (metis surj_pair)
  note run = run[unfolded g prod.case]
  from run obtain body where b: "g = Inr body" by (cases g) simp_all
  note run = run[unfolded b sum.case]
  have ok: "\<not> sublist ''Incorrect Steam Guard codes'' body" using run by (simp split: if_splits)
  note run = run[unfolded if_not_P[OF ok]]
  from run obtain cs where cs: "unmarshal ''confirmlist decode'' read_confirmations body = Inr cs"
    by (cases "unmarshal ''confirmlist decode'' read_confirmations body") simp_all
  note run = run[unfolded cs sum.case]
  show ?case
  proof (cases "find (\<lambda>x. cn_CreatorID x = offerID) cs")
    case None
    then show ?thesis using run by (intro Suc.IH) simp
  next
    case (Some x)
    then have "x \<in> set cs" "cn_CreatorID x = offerID" by (auto simp: find_Some_iff)
    moreover have "allowConfirmation n creds (cn_ID x) (cn_Nonce x) sg = (None, st')" using run by (simp add: Some)
    ultimately show ?thesis using cs by (intro exI[of _ body] exI[of _ cs] exI[of _ x] exI[of _ sg]) simp
  qed
qed simp


definition open_confirmations :: string where
  "open_confirmations = ''{\"success\":true,\"conf\":[{\"id\":\"1\",\"nonce\":\"a\",\"creator_id\":\"177\"},{\"id\":\"2\",\"nonce\":\"b\",\"creator_id\":\"77\"}]}''"

definition agreed :: string where "agreed = ''{\"success\":true}''"

lemma read_open_confirmations: "unmarshal ''confirmlist decode'' read_confirmations open_confirmations
    = Inr [\<lparr>cn_ID = ''1'', cn_Nonce = ''a'', cn_CreatorID = ''177''\<rparr>, \<lparr>cn_ID = ''2'', cn_Nonce = ''b'', cn_CreatorID = ''77''\<rparr>]"
  by code_simp

lemma read_agreed: "unmarshal ''ajaxop decode'' (read_struct [bool_field ''success'' (\<lambda>v _. v)] False) agreed = Inr True"
  by code_simp

lemma list_is_no_refusal: "\<not> sublist ''Incorrect Steam Guard codes'' open_confirmations"
  by code_simp

lemma canned_params: "\<exists>ps. confParams canned_net guard_creds tag (start_state w) = (Inr ps, start_state w)"
proof -
  have "std_Decode ''QUJD'' = Some ''ABC''" by code_simp
  then show ?thesis by (simp add: confParams_def steam_world_def canned_net_def start_state_def guard_creds_def GenerateConfirmationKey_def Let_def)
qed


end
