(* ===== verification/Registry.thy ===== *)
theory Registry
  imports EcoDelivery UuAdapter UuLogin Secrets
begin

text \<open>
  The channel registry (\<open>internal/channels/registry.go\<close>): it keeps one client and one adapter per channel, built from the stored
  credentials, and retries a failed UU validation after a growing pause. The platform clients, the clock and the nonces of the box
  are operations on the outside world; the credentials are rows of the settings table.
\<close>

section \<open>State\<close>

datatype 'w installed = UU_Adapter "'w uu_client" | ECO_Adapter "'w eco_client" string

record 'w channel_env =
  ce_Box :: "Box option"
  ce_Nonce :: "'w \<Rightarrow> (goerr + string) \<times> 'w"
  ce_Now :: "'w \<Rightarrow> instant \<times> 'w"
  ce_Uu :: "'w uu_client"
  ce_Eco :: "string \<Rightarrow> string \<Rightarrow> 'w eco_client"
  ce_ParsePrivateKey :: "string \<Rightarrow> goerr option"
  ce_Wait :: "'w \<Rightarrow> goerr option \<times> 'w"
  ce_Web :: "'w web"
  ce_AuditFn :: "(AuditEntry \<Rightarrow> session \<Rightarrow> session) option"

record 'w registry =
  rg_sess :: session
  rg_world :: 'w
  rg_ad :: "channel \<Rightarrow> 'w installed option"
  rg_uuClient :: "'w uu_client option"
  rg_user :: "int \<times> string"
  rg_ecoClient :: "'w eco_client option"
  rg_ecoSteamID :: string
  rg_uuRetryAt :: instant
  rg_uuRetryGap :: duration
  rg_uuRecovery :: bool

definition NewRegistry :: "session \<Rightarrow> 'w \<Rightarrow> 'w registry" where
  "NewRegistry s w = \<lparr>rg_sess = s, rg_world = w, rg_ad = Map.empty, rg_uuClient = None, rg_user = (0, ''''), rg_ecoClient = None,
     rg_ecoSteamID = '''', rg_uuRetryAt = 0, rg_uuRetryGap = 0, rg_uuRecovery = False\<rparr>"

definition rg_out :: "('w \<Rightarrow> 'a \<times> 'w) \<Rightarrow> 'w registry \<Rightarrow> 'a \<times> 'w registry" where
  "rg_out f r = (case f (rg_world r) of (x, w) \<Rightarrow> (x, r\<lparr>rg_world := w\<rparr>))"

definition rg_db :: "(session \<Rightarrow> 'a \<times> session) \<Rightarrow> 'w registry \<Rightarrow> 'a \<times> 'w registry" where
  "rg_db f r = (case f (rg_sess r) of (x, s) \<Rightarrow> (x, r\<lparr>rg_sess := s\<rparr>))"

text \<open>A call of the UU client, whose user is part of the client object.\<close>

definition rg_uu :: "('w uu_state \<Rightarrow> 'a \<times> 'w uu_state) \<Rightarrow> 'w registry \<Rightarrow> 'a \<times> 'w registry" where
  "rg_uu f r = (case f \<lparr>us_userID = fst (rg_user r), us_nick = snd (rg_user r), us_world = rg_world r\<rparr> of
     (x, st) \<Rightarrow> (x, r\<lparr>rg_user := (us_userID st, us_nick st), rg_world := us_world st\<rparr>))"

definition rg_audit :: "'w channel_env \<Rightarrow> string \<Rightarrow> string \<Rightarrow> string \<Rightarrow> (string \<times> json) list option \<Rightarrow> 'w registry \<Rightarrow> 'w registry" where
  "rg_audit e action ch target detail r =
    (case rg_out (ce_Now e) r of (now, r) \<Rightarrow>
      (case ce_AuditFn e of
         None \<Rightarrow> r
       | Some fn \<Rightarrow> r\<lparr>rg_sess := fn \<lparr>ae_Time = now, ae_Actor = ''system'', ae_Action = action, ae_Channel = ch, ae_Target = target, ae_Detail = detail\<rparr> (rg_sess r)\<rparr>))"

section \<open>Installing and dropping clients\<close>

definition keyUUToken :: string where "keyUUToken = ''uu_token''"

definition keyECOCreds :: string where "keyECOCreds = ''eco_creds''"

definition keyECOSteam :: string where "keyECOSteam = ''eco_steam_id''"

definition dropUU :: "'w registry \<Rightarrow> 'w registry" where
  "dropUU r = r\<lparr>rg_ad := (rg_ad r)(ChannelUU := None), rg_uuClient := None\<rparr>"

definition dropECO :: "'w registry \<Rightarrow> 'w registry" where
  "dropECO r = r\<lparr>rg_ad := (rg_ad r)(ChannelECO := None), rg_ecoClient := None, rg_ecoSteamID := ''''\<rparr>"

definition installUU :: "'w uu_client \<Rightarrow> int \<Rightarrow> string \<Rightarrow> 'w registry \<Rightarrow> 'w registry" where
  "installUU c uid nick r = r\<lparr>rg_ad := (rg_ad r)(ChannelUU \<mapsto> UU_Adapter c), rg_uuClient := Some c, rg_user := (uid, nick)\<rparr>"

definition installECO :: "'w eco_client \<Rightarrow> string \<Rightarrow> 'w registry \<Rightarrow> 'w registry" where
  "installECO c steamID r = r\<lparr>rg_ad := (rg_ad r)(ChannelECO \<mapsto> ECO_Adapter c steamID), rg_ecoClient := Some c, rg_ecoSteamID := steamID\<rparr>"

definition scheduleUURetry :: "'w channel_env \<Rightarrow> 'w registry \<Rightarrow> 'w registry" where
  "scheduleUURetry e r =
    (let gap = (if rg_uuRetryGap r = 0 then Minute else min (rg_uuRetryGap r * 2) (30 * Minute))
     in case rg_out (ce_Now e) r of (now, r) \<Rightarrow> r\<lparr>rg_uuRetryGap := gap, rg_uuRetryAt := now + gap, rg_uuRecovery := True\<rparr>)"

definition clearUURetry :: "'w registry \<Rightarrow> 'w registry" where
  "clearUURetry r = r\<lparr>rg_uuRetryAt := 0, rg_uuRetryGap := 0, rg_uuRecovery := False\<rparr>"

section \<open>Stored credentials\<close>

definition marshalled :: "(string \<times> string) list \<Rightarrow> string" where
  "marshalled kvs = (case Marshal (go_map (map (\<lambda>(k, v). (k, JStr v)) kvs)) of None \<Rightarrow> '''' | Some t \<Rightarrow> t)"

definition seal_setting :: "'w channel_env \<Rightarrow> Box \<Rightarrow> string \<Rightarrow> string \<Rightarrow> 'w registry \<Rightarrow> goerr option \<times> 'w registry" where
  "seal_setting e b key plain r =
    (case rg_out (ce_Nonce e) r of (nonce, r) \<Rightarrow>
      (case box_Seal b nonce plain of Inl x \<Rightarrow> (Some x, r) | Inr enc \<Rightarrow> rg_db (UpsertSettingEnc key enc) r))"

text \<open>What the row of the UU token holds: sealed, or in an old row open.\<close>

definition read_token :: "json \<Rightarrow> string option" where
  "read_token = read_struct [string_field ''token'' (\<lambda>v _. v)] ''''"

definition stored_token :: "Box option \<Rightarrow> setting_row \<Rightarrow> string option" where
  "stored_token box row =
    (case box of
       None \<Rightarrow> None
     | Some b \<Rightarrow>
        (case (case G_value_enc row of
                 Some enc \<Rightarrow> (case box_Open b enc of Inl _ \<Rightarrow> None | Inr plain \<Rightarrow> json_Unmarshal plain)
               | None \<Rightarrow> G_value_plain row) of
           None \<Rightarrow> None
         | Some j \<Rightarrow> (case read_token j of None \<Rightarrow> None | Some t \<Rightarrow> if t = '''' then None else Some t)))"

definition sealLegacyUUToken :: "'w channel_env \<Rightarrow> string \<Rightarrow> 'w registry \<Rightarrow> 'w registry" where
  "sealLegacyUUToken e token r = (case ce_Box e of None \<Rightarrow> r
     | Some b \<Rightarrow> snd (seal_setting e b keyUUToken (marshalled [(''token'', token)]) r))"

definition validateUU :: "'w channel_env \<Rightarrow> string \<Rightarrow> 'w registry \<Rightarrow> (goerr + 'w uu_client \<times> int \<times> string) \<times> 'w registry" where
  "validateUU e token = rg_out (uu_NewClient (ce_Uu e) token)"

definition refreshUU :: "'w channel_env \<Rightarrow> 'w registry \<Rightarrow> goerr option \<times> 'w registry" where
  "refreshUU e r =
    (case rg_db (GetSetting keyUUToken) r of
       (Inl x, r) \<Rightarrow>
         if errors_Is (Some x) ErrNotFound then (None, clearUURetry (dropUU r))
         else (Some (Wrap ''uu credential lookup: '' x), scheduleUURetry e r)
     | (Inr row, r) \<Rightarrow>
        (case stored_token (ce_Box e) row of
           None \<Rightarrow> (Some (Errorf ''uu stored credential is unreadable''), scheduleUURetry e (dropUU r))
         | Some token \<Rightarrow>
            (let r = (if G_value_enc row = None then sealLegacyUUToken e token r else r) in
             case validateUU e token r of
               (Inl x, r) \<Rightarrow>
                 (let gone = (case rg_uuClient r of None \<Rightarrow> True | Some c \<Rightarrow> uc_token c \<noteq> token) \<or> errors_Is (Some x) ErrAuthExpired
                        \<or> errors_Is (Some x) ErrVersionBlocked
                  in (Some (Wrap ''uu adapter validation: '' x), scheduleUURetry e (if gone then dropUU r else r)))
             | (Inr (c, uid, nick), r) \<Rightarrow> (None, clearUURetry (installUU c uid nick r)))))"

definition read_steam_id :: "json \<Rightarrow> string option" where
  "read_steam_id = read_struct [string_field ''steam_id'' (\<lambda>v _. v)] ''''"

definition loadECOSteamID :: "'w registry \<Rightarrow> string \<times> 'w registry" where
  "loadECOSteamID r =
    (case rg_db (GetSetting keyECOSteam) r of
       (Inl _, r) \<Rightarrow> ('''', r)
     | (Inr row, r) \<Rightarrow> (case G_value_plain row of None \<Rightarrow> '''' | Some j \<Rightarrow> (case read_steam_id j of None \<Rightarrow> '''' | Some s \<Rightarrow> s), r))"

definition read_eco_creds :: "json \<Rightarrow> (string \<times> string) option" where
  "read_eco_creds = read_struct [string_field ''partner_id'' (\<lambda>v p. (v, snd p)), string_field ''private_key_pem'' (\<lambda>v p. (fst p, v))] ('''', '''')"

definition stored_creds :: "Box option \<Rightarrow> setting_row \<Rightarrow> (string \<times> string) option" where
  "stored_creds box row =
    (case (G_value_enc row, box) of
       (Some enc, Some b) \<Rightarrow> (case box_Open b enc of Inl _ \<Rightarrow> None
          | Inr plain \<Rightarrow> (case json_Unmarshal plain of None \<Rightarrow> None | Some j \<Rightarrow> read_eco_creds j))
     | _ \<Rightarrow> None)"

definition build_eco :: "'w channel_env \<Rightarrow> string \<Rightarrow> string \<Rightarrow> goerr + 'w eco_client" where
  "build_eco e partnerID pem = eco_NewClient (ce_ParsePrivateKey e) partnerID pem (ce_Eco e partnerID pem)"

definition refreshECO :: "'w channel_env \<Rightarrow> 'w registry \<Rightarrow> goerr option \<times> 'w registry" where
  "refreshECO e r =
    (case rg_db (GetSetting keyECOCreds) r of
       (Inl x, r) \<Rightarrow> if errors_Is (Some x) ErrNotFound then (None, dropECO r) else (Some (Wrap ''eco credential lookup: '' x), r)
     | (Inr row, r) \<Rightarrow>
        (case stored_creds (ce_Box e) row of
           None \<Rightarrow> (Some (Errorf ''eco stored credential is unreadable''), dropECO r)
         | Some (partnerID, pem) \<Rightarrow>
            (case build_eco e partnerID pem of
               Inl x \<Rightarrow> (Some (Wrap ''eco adapter build: '' x), dropECO r)
             | Inr c \<Rightarrow> (case loadECOSteamID r of (steamID, r) \<Rightarrow> (None, installECO c steamID r)))))"

definition Refresh :: "'w channel_env \<Rightarrow> 'w registry \<Rightarrow> goerr option \<times> 'w registry" where
  "Refresh e r = (case refreshUU e r of (uuErr, r) \<Rightarrow> case refreshECO e r of (ecoErr, r) \<Rightarrow>
     (errors_Join (List.map_filter id [uuErr, ecoErr]), r))"

text \<open>Only an unavailable UU validation is retried, and only when its pause is over.\<close>

definition Recover :: "'w channel_env \<Rightarrow> 'w registry \<Rightarrow> goerr option \<times> 'w registry" where
  "Recover e r =
    (if IsZero (rg_uuRetryAt r) then (None, r)
     else case rg_out (ce_Now e) r of (now, r) \<Rightarrow> if now < rg_uuRetryAt r then (None, r) else refreshUU e r)"

section \<open>New credentials\<close>

definition no_master_key :: goerr where
  "no_master_key = Errorf ''APP_MASTER_KEY not configured: cannot store credentials safely''"

definition SetUUToken :: "'w channel_env \<Rightarrow> string \<Rightarrow> 'w registry \<Rightarrow> goerr option \<times> 'w registry" where
  "SetUUToken e token r =
    (case ce_Box e of
       None \<Rightarrow> (Some no_master_key, r)
     | Some b \<Rightarrow>
        (case validateUU e token r of
           (Inl x, r) \<Rightarrow> (Some (Wrap ''token invalid: '' x), r)
         | (Inr (c, uid, nick), r) \<Rightarrow>
            (case seal_setting e b keyUUToken (marshalled [(''token'', token)]) r of
               (Some x, r) \<Rightarrow> (Some x, r)
             | (None, r) \<Rightarrow> (None, clearUURetry (installUU c uid nick r)))))"

definition SetECOCreds :: "'w channel_env \<Rightarrow> string \<Rightarrow> string \<Rightarrow> string \<Rightarrow> 'w registry \<Rightarrow> goerr option \<times> 'w registry" where
  "SetECOCreds e partnerID pem steamID r =
    (case ce_Box e of
       None \<Rightarrow> (Some no_master_key, r)
     | Some b \<Rightarrow>
        (case build_eco e partnerID pem of
           Inl x \<Rightarrow> (Some (Wrap ''eco creds invalid: '' x), r)
         | Inr _ \<Rightarrow>
            (case rg_out (ce_Nonce e) r of (nonce, r) \<Rightarrow>
              (case box_Seal b nonce (marshalled [(''partner_id'', partnerID), (''private_key_pem'', pem)]) of
                 Inl x \<Rightarrow> (Some x, r)
               | Inr enc \<Rightarrow>
                  (case (if steamID = '''' then (None, r) else rg_db (UpsertSettingPlain keyECOSteam (JObj [(''steam_id'', JStr steamID)])) r) of
                     (Some x, r) \<Rightarrow> (Some x, r)
                   | (None, r) \<Rightarrow>
                      (case rg_db (UpsertSettingEnc keyECOCreds enc) r of (Some x, r) \<Rightarrow> (Some x, r) | (None, r) \<Rightarrow> refreshECO e r))))))"

text \<open>The last \<open>n\<close> characters, nothing of a token that is not longer.\<close>

definition tokenTail :: "string \<Rightarrow> nat \<Rightarrow> string" where
  "tokenTail s n = (if length s \<le> n then '''' else drop (length s - n) s)"

definition VerifyUUSms :: "'w channel_env \<Rightarrow> string \<Rightarrow> string \<Rightarrow> string \<Rightarrow> string \<Rightarrow> 'w registry \<Rightarrow> (goerr + string) \<times> 'w registry" where
  "VerifyUUSms e phone code sessionID ticket r =
    (case rg_out (SmsSignIn (ce_Web e) phone code sessionID ticket) r of
       (Inl x, r) \<Rightarrow> (Inl x, r)
     | (Inr token, r) \<Rightarrow> (case SetUUToken e token r of (Some x, r) \<Rightarrow> (Inl x, r) | (None, r) \<Rightarrow> (Inr (tokenTail token 8), r)))"

section \<open>Adapters and health\<close>

definition All :: "'w registry \<Rightarrow> (channel \<times> 'w installed) list" where
  "All r = List.map_filter (\<lambda>ch. map_option (Pair ch) (rg_ad r ch)) [ChannelUU, ChannelECO]"

definition installed_Healthy :: "'w installed \<Rightarrow> 'w registry \<Rightarrow> goerr option \<times> 'w registry" where
  "installed_Healthy a = (case a of UU_Adapter c \<Rightarrow> rg_uu (Healthy (uu_NewAdapter c)) | ECO_Adapter c steamID \<Rightarrow> rg_out (Healthy (eco_NewAdapter c steamID)))"

definition probe :: "(channel \<Rightarrow> string option) \<times> 'w registry \<Rightarrow> channel \<times> 'w installed \<Rightarrow> (channel \<Rightarrow> string option) \<times> 'w registry" where
  "probe p a = (case installed_Healthy (snd a) (snd p) of
     (Some x, r) \<Rightarrow> ((fst p)(fst a \<mapsto> ''error: '' @ Error x), r) | (None, r) \<Rightarrow> ((fst p)(fst a \<mapsto> ''ok''), r))"

definition registry_Health :: "'w registry \<Rightarrow> (channel \<Rightarrow> string option) \<times> 'w registry" where
  "registry_Health r =
    foldl probe ([''uu'' \<mapsto> if rg_uuRecovery r then ''error: awaiting credential recovery'' else ''not_configured'', ''eco'' \<mapsto> ''not_configured''], r) (All r)"

section \<open>Calls the jobs make\<close>

definition with_uuClient :: "('w uu_client \<Rightarrow> 'w registry \<Rightarrow> (goerr + 'a) \<times> 'w registry) \<Rightarrow> 'w registry \<Rightarrow> (goerr + 'a) \<times> 'w registry" where
  "with_uuClient f r = (case rg_uuClient r of None \<Rightarrow> (Inl ErrUnsupported_err, r) | Some c \<Rightarrow> f c r)"

definition UUMarketQuotes :: "int \<Rightarrow> f64 \<Rightarrow> f64 \<Rightarrow> 'w registry \<Rightarrow> (goerr + MarketLeaseItem list) \<times> 'w registry" where
  "UUMarketQuotes tplID minP maxP = with_uuClient (\<lambda>c. rg_uu (GetMarketLeasePrice c tplID minP maxP 15))"

definition ref_prices :: "MarketPriceEntry list \<Rightarrow> (string \<times> f64) list" where
  "ref_prices rows = foldl (\<lambda>out row. if me_MarketHashName row \<noteq> '''' \<and> Fin 0 < me_SteamPriceCNY row
     then AList.update (me_MarketHashName row) (Round2 (me_SteamPriceCNY row)) out else out) [] rows"

definition EcoRefPrices :: "'w registry \<Rightarrow> (goerr + (string \<times> f64) list) \<times> 'w registry" where
  "EcoRefPrices r =
    (case rg_ecoClient r of
       None \<Rightarrow> (Inl ErrUnsupported_err, r)
     | Some c \<Rightarrow> (case rg_out (GetMarketPriceDump c) r of (Inl x, r) \<Rightarrow> (Inl x, r) | (Inr rows, r) \<Rightarrow> (Inr (ref_prices rows), r)))"

definition ClearZeroCD :: "'w channel_env \<Rightarrow> 'w registry \<Rightarrow> goerr option \<times> 'w registry" where
  "ClearZeroCD e r =
    (case rg_uuClient r of
       None \<Rightarrow> (Some ErrUnsupported_err, r)
     | Some c \<Rightarrow>
        (case rg_uu (GetZeroCDList c) r of
           (Inl x, r) \<Rightarrow> (Some x, r)
         | (Inr orders, r) \<Rightarrow>
            (let ids = map zc_OrderID orders in
             if ids = [] then (None, r)
             else (case rg_uu (EnableZeroCD c ids) r of
                 (Some x, r) \<Rightarrow> (Some x, r)
               | (None, r) \<Rightarrow> (None, rg_audit e ''shelf.zero_cd_enabled'' ''uu'' '''' (Some [(''orders'', JInt (int (length ids)))]) r)))))"

definition registry_Deliver :: "'w channel_env \<Rightarrow> 'w registry \<Rightarrow> (string list \<times> nat \<times> goerr option) \<times> 'w registry" where
  "registry_Deliver e r =
    (case rg_uuClient r of
       None \<Rightarrow> (([], 0, Some ErrUnsupported_err), r)
     | Some c \<Rightarrow>
        (case rg_uu (DeliverPendingRentals c 5 (ce_Wait e)) r of ((sent, gifts, err), r) \<Rightarrow>
          ((sent, gifts, err), foldl (\<lambda>r orderNo. rg_audit e ''order.offer_sent'' ''uu'' orderNo None r) r sent)))"

text \<open>The entry each result of the batch leaves; one that waits for a confirmation leaves none.\<close>

definition refused_detail :: "string \<Rightarrow> int \<Rightarrow> (string \<times> json) list option" where
  "refused_detail err code = Some [(''error'', JStr err), (''code'', JInt code)]"

definition resolve_send :: "SendOfferResult \<Rightarrow> string \<times> string \<times> (string \<times> json) list option" where
  "resolve_send so = (if send_Failed so then (''order.send_offer_failed'', so_OrderNum so, refused_detail (so_Error so) (so_ErrorCode so))
     else (''order.offer_sent'', so_OrderNum so, None))"

definition pending_confirmation :: "AcceptOfferResult \<Rightarrow> bool" where
  "pending_confirmation ao \<longleftrightarrow> (aq_NeedMobile ao \<or> aq_NeedEmail ao) \<and> aq_Error ao = '''' \<and> (aq_ErrorCode ao = 0 \<or> \<not> accept_Failed ao)"

definition resolve_accept :: "AcceptOfferResult \<Rightarrow> (string \<times> string \<times> (string \<times> json) list option) option" where
  "resolve_accept ao =
    (if pending_confirmation ao then None
     else if accept_Failed ao then Some (''order.accept_offer_failed'', aq_OrderNum ao, refused_detail (aq_Error ao) (aq_ErrorCode ao))
     else Some (''order.accepted'', aq_OrderNum ao, None))"

definition EcoOneClickResolve :: "'w channel_env \<Rightarrow> 'w registry \<Rightarrow> goerr option \<times> 'w registry" where
  "EcoOneClickResolve e r =
    (case rg_ecoClient r of
       None \<Rightarrow> (Some ErrUnsupported_err, r)
     | Some c \<Rightarrow>
        (case rg_out (OneClickResolveOffer c) r of
           (Inl x, r) \<Rightarrow> (Some x, r)
         | (Inr out, r) \<Rightarrow>
            (None, foldl (\<lambda>r (action, target, detail). rg_audit e action ''eco'' target detail r) r
               (map resolve_send (ro_SendOffers out) @ List.map_filter resolve_accept (ro_AcceptOffers out)))))"

end
