(* ===== verification/JsonRound.thy ===== *)
theory JsonRound
  imports EcoSign Jwt
begin

text \<open>
  Flat JSON objects, as credentials and tokens are stored: what \<open>json.Marshal\<close> prints of one \<open>json.Unmarshal\<close> reads back.
\<close>

definition leaf :: "json \<Rightarrow> bool" where
  "leaf j \<longleftrightarrow> (case j of JStr _ \<Rightarrow> True | JInt n \<Rightarrow> 0 \<le> n | _ \<Rightarrow> False)"

definition leaf_text :: "json \<Rightarrow> string" where
  "leaf_text j = (case j of JStr s \<Rightarrow> quoted s | JInt n \<Rightarrow> dec_int n | _ \<Rightarrow> '''')"

definition member_text :: "string \<times> json \<Rightarrow> string" where
  "member_text m = quoted (fst m) @ CHR '':'' # leaf_text (snd m)"

lemma json_members_flat: "\<forall>m \<in> set kvs. leaf (snd m) \<Longrightarrow> json_members quoted kvs = Some (map member_text kvs)"
proof (induction kvs)
  case (Cons m kvs)
  have "json_text quoted (snd m) = Some (leaf_text (snd m))" using Cons.prems by (cases "snd m") (simp_all add: leaf_def leaf_text_def)
  then show ?case using Cons by (cases m) (simp add: member_text_def)
qed simp

lemma parse_leaf: "leaf j \<Longrightarrow> d = CHR '','' \<or> d = CHR ''}'' \<Longrightarrow> parse_value (Suc n) (leaf_text j @ d # r) = Some (j, d # r)"
  by (cases j) (auto simp: leaf_def leaf_text_def parse_quoted parse_dec simp del: parse_value.simps)

lemma parse_members_flat:
  assumes "kvs \<noteq> []" "\<forall>m \<in> set kvs. leaf (snd m)" "length kvs < n"
  shows "parse_members n (join_with '','' (map member_text kvs) @ CHR ''}'' # r) = Some (kvs, r)"
  using assms
proof (induction kvs arbitrary: n)
  case (Cons m kvs)
  obtain n' where n: "n = Suc (Suc n')" using Cons.prems(3) by (cases n; cases "n - 1") auto
  have j: "leaf (snd m)" using Cons.prems(2) by simp
  show ?case
  proof (cases kvs)
    case Nil
    show ?thesis unfolding n Nil using member_last[OF parse_leaf[OF j], of n' "fst m" r] by (cases m) (simp add: member_text_def del: parse_members.simps)
  next
    case (Cons m' kvs')
    have "parse_members (Suc n') (join_with '','' (map member_text kvs) @ CHR ''}'' # r) = Some (kvs, r)"
      using Cons.IH[of "Suc n'"] Cons.prems \<open>kvs = m' # kvs'\<close> n by simp
    note rest = this[unfolded Cons]
    have "join_with '','' (map member_text (m # m' # kvs')) @ CHR ''}'' # r
        = quoted (fst m) @ CHR '':'' # leaf_text (snd m) @ CHR '','' # join_with '','' (map member_text (m' # kvs')) @ CHR ''}'' # r"
      by (simp add: member_text_def[of m])
    then show ?thesis unfolding n Cons
      using member_step[OF parse_leaf[OF j], of n' "fst m" "join_with '','' (map member_text (m' # kvs')) @ CHR ''}'' # r"] rest
      by (simp del: parse_members.simps list.map)
  qed
qed simp

lemma flat_object_reads_back:
  assumes "kvs \<noteq> []" "\<forall>m \<in> set kvs. leaf (snd m)"
  obtains t where "Marshal (JObj kvs) = Some t" "json_Unmarshal t = Some (JObj kvs)"
proof
  define t where "t = CHR ''{'' # join_with '','' (map member_text kvs) @ ''}''"
  show "Marshal (JObj kvs) = Some t" by (simp add: Marshal_def json_members_flat[OF assms(2)] t_def)
  obtain m kvs' where m: "kvs = m # kvs'" using assms(1) by (cases kvs) auto
  obtain rest where q: "join_with '','' (map member_text kvs) @ ''}'' = quoted (fst m) @ rest" unfolding m by (cases kvs') (auto simp: member_text_def)
  have len: "length kvs < length (join_with '','' (map member_text kvs) @ ''}'')"
  proof -
    have "length xs \<le> length (join_with '','' (map member_text xs))" for xs
    proof (induction xs)
      case (Cons x xs)
      then show ?case by (cases xs) (auto simp: member_text_def)
    qed simp
    then show ?thesis by (simp add: le_imp_less_Suc)
  qed
  have "parse_value (length t + 1) t = Some (JObj kvs, [])"
    unfolding t_def list.size add_Suc_right add_Suc q parse_object[of _ "fst m" rest] unfolding q[symmetric] using parse_members_flat[OF assms, of _ "[]"] len by (simp del: parse_members.simps)
  then show "json_Unmarshal t = Some (JObj kvs)" by (simp add: json_Unmarshal_def skip_ws_def)
qed

end
