(* ===== verification/RegistryProps.thy ===== *)
theory RegistryProps
  imports Registry JsonRound UuProps
begin

text \<open>
  What the registry guarantees: an adapter is in the map exactly when its client is there, the pause between retries stays between
  one and thirty minutes, a refused credential changes nothing, and a stored one is read back after a restart.
\<close>

section \<open>The invariant\<close>

definition registry_ok :: "'w registry \<Rightarrow> bool" where
  "registry_ok r \<longleftrightarrow>
     rg_ad r ChannelUU = map_option UU_Adapter (rg_uuClient r) \<and>
     rg_ad r ChannelECO = map_option (\<lambda>c. ECO_Adapter c (rg_ecoSteamID r)) (rg_ecoClient r) \<and>
     (rg_ecoClient r = None \<longrightarrow> rg_ecoSteamID r = '''') \<and>
     dom (rg_ad r) \<subseteq> {ChannelUU, ChannelECO} \<and>
     (rg_uuRecovery r \<longleftrightarrow> \<not> IsZero (rg_uuRetryAt r)) \<and> (rg_uuRecovery r \<longleftrightarrow> rg_uuRetryGap r \<noteq> 0) \<and>
     (rg_uuRecovery r \<longrightarrow> Minute \<le> rg_uuRetryGap r \<and> rg_uuRetryGap r \<le> 30 * Minute)"

text \<open>What a call outside leaves as it is.\<close>

definition core :: "'w registry \<Rightarrow> 'w registry \<Rightarrow> bool" where
  "core r r' \<longleftrightarrow> rg_ad r' = rg_ad r \<and> rg_uuClient r' = rg_uuClient r \<and> rg_ecoClient r' = rg_ecoClient r \<and> rg_ecoSteamID r' = rg_ecoSteamID r \<and>
     rg_uuRetryAt r' = rg_uuRetryAt r \<and> rg_uuRetryGap r' = rg_uuRetryGap r \<and> rg_uuRecovery r' = rg_uuRecovery r"

lemma core_refl: "core r r"
  by (simp add: core_def)

lemma core_trans: "core r r' \<Longrightarrow> core r' r'' \<Longrightarrow> core r r''"
  by (simp add: core_def)

lemma core_ok: "core r r' \<Longrightarrow> registry_ok r \<Longrightarrow> registry_ok r'"
  unfolding core_def registry_ok_def by metis

lemma rg_out_core: "rg_out f r = (x, r') \<Longrightarrow> core r r' \<and> rg_sess r' = rg_sess r"
  by (auto simp: rg_out_def core_def split: prod.splits)

lemma rg_db_core: "rg_db f r = (x, r') \<Longrightarrow> core r r' \<and> f (rg_sess r) = (x, rg_sess r')"
  by (auto simp: rg_db_def core_def split: prod.splits)

lemma rg_uu_core: "rg_uu f r = (x, r') \<Longrightarrow> core r r' \<and> rg_sess r' = rg_sess r"
  by (auto simp: rg_uu_def core_def split: prod.splits)

lemma rg_audit_core: "core r (rg_audit e a c t d r)"
  by (auto simp: rg_audit_def core_def rg_out_def split: prod.splits option.splits)

lemma seal_setting_core: "seal_setting e b k p r = (x, r') \<Longrightarrow> core r r'"
  unfolding seal_setting_def by (auto dest!: rg_out_core rg_db_core intro: core_trans split: prod.splits sum.splits)

lemma sealLegacy_core: "core r (sealLegacyUUToken e t r)"
  by (auto simp: sealLegacyUUToken_def core_refl split: option.splits) (metis prod.collapse seal_setting_core)

lemma loadECOSteamID_core: "loadECOSteamID r = (x, r') \<Longrightarrow> core r r'"
  by (auto simp: loadECOSteamID_def dest: rg_db_core split: prod.splits sum.splits)

lemma foldl_core: "(\<And>r x. core r (f r x)) \<Longrightarrow> core r (foldl f r xs)"
  by (induction xs arbitrary: r) (auto intro: core_refl core_trans)

lemma dropUU_ok: "registry_ok r \<Longrightarrow> registry_ok (dropUU r)"
  by (auto simp: registry_ok_def dropUU_def)

lemma dropECO_ok: "registry_ok r \<Longrightarrow> registry_ok (dropECO r)"
  by (auto simp: registry_ok_def dropECO_def)

lemma installUU_ok: "registry_ok r \<Longrightarrow> registry_ok (installUU c u n r)"
  by (auto simp: registry_ok_def installUU_def)

lemma installECO_ok: "registry_ok r \<Longrightarrow> registry_ok (installECO c s r)"
  by (auto simp: registry_ok_def installECO_def)

lemma clearUURetry_ok: "registry_ok r \<Longrightarrow> registry_ok (clearUURetry r)"
  by (auto simp: registry_ok_def clearUURetry_def IsZero_def)

lemma scheduleUURetry_ok:
  assumes "\<And>w. 0 < fst (ce_Now e w)" "registry_ok r"
  shows "registry_ok (scheduleUURetry e r)"
proof -
  obtain now w where now: "ce_Now e (rg_world r) = (now, w)" by (metis surj_pair)
  have "0 < now" using assms(1)[of "rg_world r"] by (simp add: now)
  moreover have m: "0 < Minute" by (simp add: Minute_def Second_def)
  ultimately show ?thesis using assms(2)
    by (auto simp: registry_ok_def scheduleUURetry_def rg_out_def now IsZero_def min_def Let_def)
qed

lemma refreshUU_ok:
  assumes "\<And>w. 0 < fst (ce_Now e w)" "registry_ok r" "refreshUU e r = (x, r')"
  shows "registry_ok r'"
proof -
  obtain g r1 where g: "rg_db (GetSetting keyUUToken) r = (g, r1)" by (metis surj_pair)
  have ok1: "registry_ok r1" using rg_db_core[OF g] core_ok assms(2) by blast
  note run = assms(3)[unfolded refreshUU_def g prod.case]
  show ?thesis
  proof (cases g)
    case (Inl y)
    then show ?thesis using run ok1 by (auto intro: scheduleUURetry_ok[OF assms(1)] clearUURetry_ok dropUU_ok split: if_splits)
  next
    case (Inr row)
    show ?thesis
    proof (cases "stored_token (ce_Box e) row")
      case None
      then show ?thesis using run ok1 Inr by (auto intro: scheduleUURetry_ok[OF assms(1)] dropUU_ok)
    next
      case (Some token)
      define r2 where "r2 = (if G_value_enc row = None then sealLegacyUUToken e token r1 else r1)"
      have ok2: "registry_ok r2" using ok1 sealLegacy_core core_ok unfolding r2_def by (metis (full_types))
      obtain v r3 where v: "validateUU e token r2 = (v, r3)" by (metis surj_pair)
      have "core r2 r3" using v by (simp add: validateUU_def rg_out_core)
      then have ok3: "registry_ok r3" using ok2 core_ok by blast
      note run = run[unfolded Inr sum.case Some option.case Let_def, folded r2_def, unfolded v prod.case]
      show ?thesis using run ok3
        by (cases v) (auto intro!: scheduleUURetry_ok[OF assms(1)] dropUU_ok clearUURetry_ok installUU_ok split: prod.splits)
    qed
  qed
qed

lemma refreshECO_ok:
  assumes "registry_ok r" "refreshECO e r = (x, r')"
  shows "registry_ok r'"
proof -
  obtain g r1 where g: "rg_db (GetSetting keyECOCreds) r = (g, r1)" by (metis surj_pair)
  have ok1: "registry_ok r1" using rg_db_core[OF g] core_ok assms(1) by blast
  obtain s r2 where s: "loadECOSteamID r1 = (s, r2)" by (metis surj_pair)
  have ok2: "registry_ok r2" using loadECOSteamID_core[OF s] core_ok ok1 by blast
  show ?thesis using assms(2) ok1 ok2 unfolding refreshECO_def g
    by (auto simp: s intro!: dropECO_ok installECO_ok split: sum.splits option.splits prod.splits if_splits)
qed

lemma SetUUToken_ok:
  assumes "registry_ok r" "SetUUToken e t r = (x, r')"
  shows "registry_ok r'"
proof (cases "ce_Box e")
  case (Some b)
  obtain v r1 where v: "validateUU e t r = (v, r1)" by (metis surj_pair)
  have "core r r1" using v by (simp add: validateUU_def rg_out_core)
  then have ok1: "registry_ok r1" using assms(1) core_ok by blast
  obtain y r2 where s: "seal_setting e b keyUUToken (marshalled [(''token'', t)]) r1 = (y, r2)" by (metis surj_pair)
  have ok2: "registry_ok r2" using seal_setting_core[OF s] ok1 core_ok by blast
  show ?thesis using assms(2) ok1 ok2 unfolding SetUUToken_def Some option.case v prod.case
    by (cases v; cases y) (auto simp: s intro!: clearUURetry_ok installUU_ok)
qed (use assms in \<open>simp add: SetUUToken_def\<close>)

lemma SetECOCreds_ok:
  assumes "registry_ok r" "SetECOCreds e p k s r = (x, r')"
  shows "registry_ok r'"
proof (cases "ce_Box e")
  case (Some b)
  show ?thesis
  proof (cases "build_eco e p k")
    case (Inr c)
    obtain nonce r1 where n: "rg_out (ce_Nonce e) r = (nonce, r1)" by (metis surj_pair)
    have ok1: "registry_ok r1" using rg_out_core[OF n] assms(1) core_ok by blast
    note run = assms(2)[unfolded SetECOCreds_def Some option.case Inr sum.case n prod.case]
    show ?thesis
    proof (cases "box_Seal b nonce (marshalled [(''partner_id'', p), (''private_key_pem'', k)])")
      case (Inr enc)
      obtain y r2 where y: "(if s = '''' then (None, r1) else rg_db (UpsertSettingPlain keyECOSteam (JObj [(''steam_id'', JStr s)])) r1) = (y, r2)"
        by (metis surj_pair)
      then have "core r1 r2" using rg_db_core[of _ r1 y r2] by (cases "s = ''''") (auto simp: core_refl)
      then have ok2: "registry_ok r2" using ok1 core_ok by blast
      obtain z r3 where z: "rg_db (UpsertSettingEnc keyECOCreds enc) r2 = (z, r3)" by (metis surj_pair)
      have ok3: "registry_ok r3" using rg_db_core[OF z] ok2 core_ok by blast
      show ?thesis using run[unfolded Inr sum.case y prod.case] ok2 ok3 refreshECO_ok[OF ok3] by (cases y; cases z) (auto simp: z)
    qed (use run ok1 in simp)
  qed (use assms Some in \<open>simp add: SetECOCreds_def\<close>)
qed (use assms in \<open>simp add: SetECOCreds_def\<close>)

lemma Refresh_ok:
  assumes "\<And>w. 0 < fst (ce_Now e w)" "registry_ok r" "Refresh e r = (x, r')"
  shows "registry_ok r'"
proof -
  obtain a r1 where a: "refreshUU e r = (a, r1)" by (metis surj_pair)
  obtain b r2 where b: "refreshECO e r1 = (b, r2)" by (metis surj_pair)
  have "registry_ok r2" by (rule refreshECO_ok[OF refreshUU_ok[OF assms(1,2) a] b])
  then show ?thesis using assms(3) by (simp add: Refresh_def a b)
qed

lemma Recover_ok:
  assumes "\<And>w. 0 < fst (ce_Now e w)" "registry_ok r" "Recover e r = (x, r')"
  shows "registry_ok r'"
proof -
  obtain now r1 where n: "rg_out (ce_Now e) r = (now, r1)" by (metis surj_pair)
  have ok1: "registry_ok r1" using rg_out_core[OF n] assms(2) core_ok by blast
  show ?thesis using assms(2,3) ok1 refreshUU_ok[OF assms(1) ok1] by (auto simp: Recover_def n split: if_splits)
qed

lemma probe_core: "core (snd p) (snd (probe p a))"
proof -
  obtain x r where h: "installed_Healthy (snd a) (snd p) = (x, r)" by (metis surj_pair)
  then have "core (snd p) r" by (cases "snd a") (auto simp: installed_Healthy_def dest: rg_uu_core rg_out_core)
  then show ?thesis by (cases x) (simp_all add: probe_def h)
qed

lemma probes_core: "core (snd p) (snd (foldl probe p as))"
proof (induction as arbitrary: p)
  case (Cons a as)
  show ?case using core_trans[OF probe_core[of p a] Cons.IH[of "probe p a"]] by simp
qed (simp add: core_refl)

lemma Health_core: "core r (snd (registry_Health r))"
  unfolding registry_Health_def using probes_core[of "(_, r)"] by simp

lemma ClearZeroCD_core: "core r (snd (ClearZeroCD e r))"
proof (cases "rg_uuClient r")
  case (Some c)
  obtain g r1 where g: "rg_uu (GetZeroCDList c) r = (g, r1)" by (metis surj_pair)
  note c1 = rg_uu_core[OF g, THEN conjunct1]
  have c2: "core r1 r2" if "rg_uu (EnableZeroCD c ids) r1 = (x, r2)" for ids x r2 using rg_uu_core[OF that] by simp
  show ?thesis using c1 core_trans[OF core_trans[OF c1 c2] rg_audit_core] core_trans[OF c1 c2]
    by (cases g) (auto simp: ClearZeroCD_def Some g Let_def split: prod.splits option.splits)
qed (simp add: ClearZeroCD_def core_refl)

lemma Deliver_core: "core r (snd (registry_Deliver e r))"
proof (cases "rg_uuClient r")
  case (Some c)
  obtain g r1 where g: "rg_uu (DeliverPendingRentals c 5 (ce_Wait e)) r = (g, r1)" by (metis surj_pair)
  show ?thesis using core_trans[OF rg_uu_core[OF g, THEN conjunct1] foldl_core[of "\<lambda>r orderNo. rg_audit e ''order.offer_sent'' ''uu'' orderNo None r"]]
    by (cases g) (simp add: registry_Deliver_def Some g rg_audit_core)
qed (simp add: registry_Deliver_def core_refl)

lemma Resolve_core: "core r (snd (EcoOneClickResolve e r))"
proof (cases "rg_ecoClient r")
  case (Some c)
  obtain g r1 where g: "rg_out (OneClickResolveOffer c) r = (g, r1)" by (metis surj_pair)
  note c1 = rg_out_core[OF g, THEN conjunct1]
  have c2: "core r1 (foldl (\<lambda>r (action, target, detail). rg_audit e action ''eco'' target detail r) r1 xs)" for xs
    by (rule foldl_core) (auto simp: rg_audit_core)
  show ?thesis
  proof (cases g)
    case (Inr out)
    then show ?thesis using core_trans[OF c1 c2] by (simp add: EcoOneClickResolve_def Some g del: foldl_append)
  qed (simp add: EcoOneClickResolve_def Some g c1)
qed (simp add: EcoOneClickResolve_def core_refl)

lemma VerifyUUSms_ok:
  assumes "registry_ok r" "VerifyUUSms e phone code sid ticket r = (y, r')"
  shows "registry_ok r'"
proof -
  obtain g r1 where g: "rg_out (SmsSignIn (ce_Web e) phone code sid ticket) r = (g, r1)" by (metis surj_pair)
  have ok1: "registry_ok r1" using rg_out_core[OF g] assms(1) core_ok by blast
  show ?thesis
  proof (cases g)
    case (Inr token)
    obtain x r2 where s: "SetUUToken e token r1 = (x, r2)" by (metis surj_pair)
    show ?thesis using assms(2) SetUUToken_ok[OF ok1 s] by (cases x) (auto simp: VerifyUUSms_def g Inr s)
  qed (use assms(2) ok1 in \<open>simp add: VerifyUUSms_def g\<close>)
qed

section \<open>Histories\<close>

text \<open>What happens to a registry: its operations, one at a time (\<open>updateMu\<close>), and whatever the rest of the program does to the
  database and the world.\<close>

inductive registry_step :: "'w channel_env \<Rightarrow> 'w registry \<Rightarrow> 'w registry \<Rightarrow> bool" for e where
  refresh: "Refresh e r = (x, r') \<Longrightarrow> registry_step e r r'"
| recover: "Recover e r = (x, r') \<Longrightarrow> registry_step e r r'"
| new_token: "SetUUToken e t r = (x, r') \<Longrightarrow> registry_step e r r'"
| sms_token: "VerifyUUSms e phone code sid ticket r = (y, r') \<Longrightarrow> registry_step e r r'"
| new_creds: "SetECOCreds e p k s r = (x, r') \<Longrightarrow> registry_step e r r'"
| health: "registry_step e r (snd (registry_Health r))"
| zero_cd: "registry_step e r (snd (ClearZeroCD e r))"
| deliver: "registry_step e r (snd (registry_Deliver e r))"
| resolve: "registry_step e r (snd (EcoOneClickResolve e r))"
| elsewhere: "registry_step e r (r\<lparr>rg_sess := s, rg_world := w, rg_user := u\<rparr>)"

inductive registry_history :: "'w channel_env \<Rightarrow> 'w registry \<Rightarrow> bool" for e where
  start: "registry_history e (NewRegistry s w)"
| step: "registry_history e r \<Longrightarrow> registry_step e r r' \<Longrightarrow> registry_history e r'"

lemma step_ok:
  assumes "\<And>w. 0 < fst (ce_Now e w)" "registry_step e r r'" "registry_ok r"
  shows "registry_ok r'"
  using assms(2,3)
proof cases
  case (refresh x)
  then show ?thesis using Refresh_ok[OF assms(1,3)] by blast
next
  case (recover x)
  then show ?thesis using Recover_ok[OF assms(1,3)] by blast
next
  case (new_token t x)
  then show ?thesis using SetUUToken_ok[OF assms(3)] by blast
next
  case (sms_token phone code sid ticket y)
  then show ?thesis using VerifyUUSms_ok[OF assms(3)] by blast
next
  case (new_creds p k s x)
  then show ?thesis using SetECOCreds_ok[OF assms(3)] by blast
next
  case (elsewhere s w u)
  then show ?thesis using assms(3) core_ok[of r r'] by (simp add: core_def)
qed (simp_all add: core_ok[OF Health_core assms(3)] core_ok[OF ClearZeroCD_core assms(3)] core_ok[OF Deliver_core assms(3)] core_ok[OF Resolve_core assms(3)])

text \<open>C31: Whatever happens to the registry, it is consistent: an adapter is offered for a channel exactly when its client is there,
  and for that client; no other channel has one; a UU retry is pending exactly while recovery is announced, and its pause lies
  between one and thirty minutes.\<close>

theorem registry_consistent:
  assumes "\<And>w. 0 < fst (ce_Now e w)" "registry_history e r"
  shows "registry_ok r"
  using assms(2)
proof induction
  case (start s w)
  show ?case by (simp add: registry_ok_def NewRegistry_def IsZero_def)
next
  case (step r r')
  show ?case by (rule step_ok[OF assms(1) step.hyps(2) step.IH])
qed

section \<open>A new token\<close>

lemma setting_after_upsert:
  "\<exists>row. setting_of k (sql_upsert_enc k enc now t) = Some row \<and> G_value_enc row = Some enc"
proof (cases "setting_of k t")
  case None
  then show ?thesis by (simp add: sql_upsert_enc_def setting_append)
next
  case (Some r)
  then have "G_key r = k" by (rule setting_of_key)
  then show ?thesis using Some by (simp add: sql_upsert_enc_def setting_upd)
qed

lemma UpsertSettingEnc_cases:
  assumes "UpsertSettingEnc k enc s = (x, s')"
  shows "db s' = (if x = None then sql_upsert_enc k enc (db_now s) (db s) else db s)"
  using assms Exec_db[of "sql_upsert_enc k enc (db_now s)" s] by (auto simp: UpsertSettingEnc_def split: prod.splits option.splits if_splits)

lemma token_text_reads_back: "json_Unmarshal (marshalled [(''token'', t)]) = Some (JObj [(''token'', JStr t)])"
proof -
  obtain x where "Marshal (JObj [(''token'', JStr t)]) = Some x" "json_Unmarshal x = Some (JObj [(''token'', JStr t)])"
    by (rule flat_object_reads_back[of "[(''token'', JStr t)]"]) (simp_all add: leaf_def)
  then show ?thesis by (simp add: marshalled_def go_map_def)
qed

lemma read_token_back: "read_token (JObj [(''token'', JStr t)]) = Some t"
  by (simp add: read_token_def read_struct_def to_struct_def store_field_def same_field_def lower_def string_field_def)

lemma validated_client:
  assumes "validateUU e token r = (Inr (c, uid, nick), r')"
  shows "uc_token c = token"
  using assms by (auto simp: validateUU_def rg_out_def uu_NewClient_def Let_def split: prod.splits option.splits)

lemma seal_setting_cases:
  assumes "seal_setting e b k plain r = (x, r')" "rg_sess r = s"
  shows "(x \<noteq> None \<longrightarrow> db (rg_sess r') = db s) \<and>
    (x = None \<longrightarrow> (\<exists>nonce w enc. ce_Nonce e (rg_world r) = (Inr nonce, w) \<and> box_Seal b (Inr nonce) plain = Inr enc \<and>
       db (rg_sess r') = sql_upsert_enc k enc (db_now s) (db s)))"
proof -
  obtain nonce w where n: "ce_Nonce e (rg_world r) = (nonce, w)" by (metis surj_pair)
  show ?thesis
  proof (cases nonce)
    case (Inl y)
    then show ?thesis using assms by (auto simp: seal_setting_def rg_out_def n box_Seal_def)
  next
    case (Inr nn)
    obtain enc where enc: "box_Seal b nonce plain = Inr enc" using Inr by (simp add: box_Seal_def)
    obtain y s' where u: "UpsertSettingEnc k enc s = (y, s')" by (metis surj_pair)
    have r: "x = y" "rg_sess r' = s'" using assms u by (auto simp: seal_setting_def rg_out_def n enc rg_db_def)
    show ?thesis using UpsertSettingEnc_cases[OF u] n enc Inr by (simp add: r)
  qed
qed

lemma refused_token:
  assumes run: "SetUUToken e token r = (Some x, r1)"
  shows "core r r1 \<and> db (rg_sess r1) = db (rg_sess r)"
proof (cases "ce_Box e")
  case None
  then show ?thesis using run by (simp add: SetUUToken_def core_refl)
next
  case (Some b)
  obtain v ra where v: "validateUU e token r = (v, ra)" by (metis surj_pair)
  have a: "core r ra" "rg_sess ra = rg_sess r" using rg_out_core[of _ r v ra] v by (simp_all add: validateUU_def)
  obtain y rb where s: "seal_setting e b keyUUToken (marshalled [(''token'', token)]) ra = (y, rb)" by (metis surj_pair)
  have d: "y \<noteq> None \<Longrightarrow> db (rg_sess rb) = db (rg_sess r)" using seal_setting_cases[OF s a(2)] by simp
  show ?thesis
  proof (cases v)
    case (Inl z)
    then show ?thesis using run a by (simp add: SetUUToken_def Some v)
  next
    case (Inr z)
    then show ?thesis using run a(1) d seal_setting_core[OF s] core_trans by (cases z; cases y) (auto simp: SetUUToken_def Some v s)
  qed
qed

lemma accepted_token:
  assumes run: "SetUUToken e token r = (None, r2)" and box: "ce_Box e = Some b"
    and h: "token \<noteq> ''''" "NewBox key = Inr b" "\<And>w n. fst (ce_Nonce e w) = Inr n \<Longrightarrow> length n = 12"
  shows "\<exists>c row. rg_uuClient r2 = Some c \<and> rg_ad r2 ChannelUU = Some (UU_Adapter c) \<and> uc_token c = token \<and> \<not> rg_uuRecovery r2 \<and>
        setting_of keyUUToken (db (rg_sess r2)) = Some row \<and> stored_token (ce_Box e) row = Some token"
proof -
  obtain v ra where v: "validateUU e token r = (v, ra)" by (metis surj_pair)
  obtain c uid nick where z: "v = Inr (c, uid, nick)" using run by (cases v) (auto simp: SetUUToken_def box v)
  obtain y rb where s: "seal_setting e b keyUUToken (marshalled [(''token'', token)]) ra = (y, rb)" by (metis surj_pair)
  have y: "y = None" and r2: "r2 = clearUURetry (installUU c uid nick rb)" using run by (cases y; simp add: SetUUToken_def box v z s)+
  obtain nonce w enc where n: "ce_Nonce e (rg_world ra) = (Inr nonce, w)" and enc: "box_Seal b (Inr nonce) (marshalled [(''token'', token)]) = Inr enc"
    and d: "db (rg_sess rb) = sql_upsert_enc keyUUToken enc (db_now (rg_sess ra)) (db (rg_sess ra))"
    using seal_setting_cases[OF s refl] y by auto
  have "length nonce = 12" using h(3) n by (metis fst_conv)
  then have opens: "box_Open b enc = Inr (marshalled [(''token'', token)])" using box_reopens h(2) enc by blast
  obtain row where row: "setting_of keyUUToken (db (rg_sess rb)) = Some row" "G_value_enc row = Some enc"
    using setting_after_upsert unfolding d by blast
  have "stored_token (ce_Box e) row = Some token" using h by (simp add: stored_token_def box row(2) opens token_text_reads_back read_token_back)
  then show ?thesis
    using row(1) validated_client[OF v[unfolded z]] by (intro exI[of _ c] exI[of _ row]) (simp add: r2 clearUURetry_def installUU_def)
qed

text \<open>A new UU token is taken over entirely or not at all. If it is refused (by the platform, for want of a master key, or because
  it could not be stored) the clients, the adapters, the pending retry and the database are as before. If it is accepted, the
  installed client and its adapter carry it, no retry is pending, and the row of the database, sealed under the master key, is read
  back as this token, so that a restart finds it.\<close>

theorem new_token_all_or_nothing:
  "(SetUUToken e token r = (Some x, r1) \<longrightarrow> core r r1 \<and> db (rg_sess r1) = db (rg_sess r)) \<and>
   (SetUUToken e token r = (None, r2) \<and> token \<noteq> '''' \<and> ce_Box e = Some b \<and> NewBox key = Inr b \<and> (\<forall>w n. fst (ce_Nonce e w) = Inr n \<longrightarrow> length n = 12) \<longrightarrow>
     (\<exists>c row. rg_uuClient r2 = Some c \<and> rg_ad r2 ChannelUU = Some (UU_Adapter c) \<and> uc_token c = token \<and> \<not> rg_uuRecovery r2 \<and>
        setting_of keyUUToken (db (rg_sess r2)) = Some row \<and> stored_token (ce_Box e) row = Some token))"
  using refused_token accepted_token by blast

section \<open>A sample registry\<close>

definition registry_tables :: tables where
  "registry_tables = \<lparr>templates = [], inventory_items = [], listings = [], lease_orders = [], market_snapshots = [], strategies = [], price_actions = [],
     fund_flows = [], app_settings = [\<lparr>G_key = keyUUToken, G_value_enc = None, G_value_plain = Some (JStr ''x''), G_updated_at = 0\<rparr>], audit_log = [],
     order_income_ledger = [], daily_stats = [], shelf_observations = (\<lambda>_. None), next_id = 9\<rparr>"

definition registry_session :: session where
  "registry_session = \<lparr>db = registry_tables, db_now = 0, faults = []\<rparr>"

definition user_body :: string where
  \<open>user_body = ''{"Code":0,"Data":{"NickName":"n","UserId":7}}''\<close>

definition registry_env :: "Box option \<Rightarrow> nat channel_env" where
  "registry_env box = \<lparr>ce_Box = box, ce_Nonce = (\<lambda>w. (Inr ''nonce-of-12b'', w)), ce_Now = (\<lambda>w. (1000, w)), ce_Uu = uu_fixed (\<lambda>_. user_body),
     ce_Eco = undefined, ce_ParsePrivateKey = (\<lambda>_. None), ce_Wait = (\<lambda>w. (None, w)), ce_Web = undefined, ce_AuditFn = None\<rparr>"

theorem registry_consistent_witness:
  "\<exists>r. Refresh (registry_env None) (NewRegistry registry_session 0) = (Some (Errorf ''uu stored credential is unreadable''), r) \<and>
     rg_uuRetryGap r = Minute \<and> registry_ok r"
proof -
  obtain x r where r: "Refresh (registry_env None) (NewRegistry registry_session 0) = (x, r)" by (metis surj_pair)
  have "registry_history (registry_env None) r" by (rule registry_history.step[OF registry_history.start registry_step.refresh[OF r]])
  then have "registry_ok r" by (rule registry_consistent[rotated]) (simp add: registry_env_def)
  moreover have "x = Some (Errorf ''uu stored credential is unreadable'') \<and> rg_uuRetryGap r = Minute" using r
    by (auto simp: Refresh_def refreshUU_def refreshECO_def rg_db_def GetSetting_def Query_def next_fault_def NewRegistry_def registry_session_def registry_tables_def
        setting_of_def stored_token_def registry_env_def scheduleUURetry_def rg_out_def dropUU_def dropECO_def Let_def past_def not_found_def keyECOCreds_def keyUUToken_def
        List.map_filter_def errors_Join_def Errorf_def)
  ultimately show ?thesis using r by blast
qed

lemma sample_user: "map_sum (\<lambda>_. ()) (\<lambda>(c, u, n). (u, n)) (fst (uu_NewClient (uu_fixed (\<lambda>_. user_body)) ''tok'' 0)) = Inr (7, ''n'')"
  by code_simp

lemma sample_stored: "\<exists>r. SetUUToken (registry_env (Some b)) ''tok'' (NewRegistry registry_session 0) = (None, r)"
proof -
  obtain v w where v: "uu_NewClient (uu_fixed (\<lambda>_. user_body)) ''tok'' 0 = (v, w)" by (metis surj_pair)
  then obtain c u n where z: "v = Inr (c, u, n)" using sample_user by (cases v) auto
  show ?thesis
    by (simp add: SetUUToken_def registry_env_def validateUU_def rg_out_def NewRegistry_def v z seal_setting_def box_Seal_def rg_db_def UpsertSettingEnc_def Exec_def
        next_fault_def registry_session_def past_def)
qed

theorem new_token_all_or_nothing_witness:
  "(\<exists>x r. SetUUToken (registry_env None) ''tok'' (NewRegistry registry_session 0) = (Some x, r) \<and> core (NewRegistry registry_session 0) r \<and>
     db (rg_sess r) = registry_tables) \<and>
   (\<exists>b r c row. SetUUToken (registry_env (Some b)) ''tok'' (NewRegistry registry_session 0) = (None, r) \<and> rg_uuClient r = Some c \<and> uc_token c = ''tok'' \<and>
     setting_of keyUUToken (db (rg_sess r)) = Some row \<and> stored_token (Some b) row = Some ''tok'')"
proof (rule conjI)
  obtain r where r: "SetUUToken (registry_env None) ''tok'' (NewRegistry registry_session 0) = (Some no_master_key, r)" by (simp add: SetUUToken_def registry_env_def)
  show "\<exists>x r. SetUUToken (registry_env None) ''tok'' (NewRegistry registry_session 0) = (Some x, r) \<and> core (NewRegistry registry_session 0) r \<and>
     db (rg_sess r) = registry_tables"
    using new_token_all_or_nothing[THEN conjunct1, rule_format, OF r] r by (simp add: NewRegistry_def registry_session_def)
  obtain b where b: "NewBox ''0123456789abcdef'' = Inr b" by (simp add: NewBox_def)
  obtain r where r: "SetUUToken (registry_env (Some b)) ''tok'' (NewRegistry registry_session 0) = (None, r)" using sample_stored by blast
  have box: "ce_Box (registry_env (Some b)) = Some b" by (simp add: registry_env_def)
  have n: "\<forall>w n. fst (ce_Nonce (registry_env (Some b)) w) = Inr n \<longrightarrow> length n = 12" by (auto simp: registry_env_def)
  show "\<exists>b r c row. SetUUToken (registry_env (Some b)) ''tok'' (NewRegistry registry_session 0) = (None, r) \<and> rg_uuClient r = Some c \<and> uc_token c = ''tok'' \<and>
     setting_of keyUUToken (db (rg_sess r)) = Some row \<and> stored_token (Some b) row = Some ''tok''"
    using new_token_all_or_nothing[THEN conjunct2, THEN mp, OF conjI[OF r conjI[OF _ conjI[OF box conjI[OF b n]]]]] r unfolding box by blast
qed

end
