(* ===== verification/SteamChannel.thy ===== *)
theory SteamChannel
  imports Registry SteamOffers
begin

text \<open>
  The Steam session of the program (\<open>internal/channels/steam.go\<close>): it is restored from the stored tokens, refreshed or logged in
  again when needed, and accepts the offers that cost nothing. A session object owns its cookie jar, so every new one brings its own
  net; box, nonces and clocks are operations on the outside world.
\<close>

section \<open>State\<close>

record 'w live_session =
  lv_net :: "'w steam_net"
  lv_creds :: Credentials
  lv_tokens :: SessionTokens
  lv_id :: string

record 'w steam_env =
  se_Box :: "Box option"
  se_Nonce :: "'w \<Rightarrow> (goerr + string) \<times> 'w"
  se_NewJar :: "'w \<Rightarrow> 'w steam_net \<times> 'w"
  se_Unix :: "'w \<Rightarrow> int \<times> 'w"
  se_Now :: "'w \<Rightarrow> instant \<times> 'w"
  se_AuditFn :: "(AuditEntry \<Rightarrow> session \<Rightarrow> session) option"

record 'w steam_channel =
  sc_sess :: session
  sc_world :: 'w
  sc_session :: "'w live_session option"

definition NewSteamSession :: "session \<Rightarrow> 'w \<Rightarrow> 'w steam_channel" where
  "NewSteamSession s w = \<lparr>sc_sess = s, sc_world = w, sc_session = None\<rparr>"

definition sc_out :: "('w \<Rightarrow> 'a \<times> 'w) \<Rightarrow> 'w steam_channel \<Rightarrow> 'a \<times> 'w steam_channel" where
  "sc_out f ch = (case f (sc_world ch) of (x, w) \<Rightarrow> (x, ch\<lparr>sc_world := w\<rparr>))"

definition sc_db :: "(session \<Rightarrow> 'a \<times> session) \<Rightarrow> 'w steam_channel \<Rightarrow> 'a \<times> 'w steam_channel" where
  "sc_db f ch = (case f (sc_sess ch) of (x, s) \<Rightarrow> (x, ch\<lparr>sc_sess := s\<rparr>))"

text \<open>\<open>steam.NewSession\<close>, and a call of a session object.\<close>

definition NewSession :: "'w steam_env \<Rightarrow> Credentials \<Rightarrow> 'w \<Rightarrow> 'w live_session \<times> 'w" where
  "NewSession e creds w = (case se_NewJar e w of (n, w) \<Rightarrow>
     (\<lparr>lv_net = n, lv_creds = creds, lv_tokens = \<lparr>tk_SteamID = '''', tk_RefreshToken = '''', tk_AccessToken = '''', tk_AccessExp = 0\<rparr>, lv_id = ''''\<rparr>, w))"

definition on_session :: "('w steam_net \<Rightarrow> 'w steam_state \<Rightarrow> 'a \<times> 'w steam_state) \<Rightarrow> 'w live_session \<Rightarrow> 'w \<Rightarrow> ('a \<times> 'w live_session) \<times> 'w" where
  "on_session f s w = (case f (lv_net s) \<lparr>ss_tokens = lv_tokens s, ss_sessionid = lv_id s, ss_world = w\<rparr> of
     (x, st) \<Rightarrow> ((x, s\<lparr>lv_tokens := ss_tokens st, lv_id := ss_sessionid st\<rparr>), ss_world st))"

text \<open>A call of the session in use, which it changes.\<close>

definition live :: "('w steam_net \<Rightarrow> 'w steam_state \<Rightarrow> 'a \<times> 'w steam_state) \<Rightarrow> 'w live_session \<Rightarrow> 'w steam_channel \<Rightarrow> ('a \<times> 'w live_session) \<times> 'w steam_channel" where
  "live f s ch = (case on_session f s (sc_world ch) of ((x, s), w) \<Rightarrow> ((x, s), ch\<lparr>sc_world := w, sc_session := Some s\<rparr>))"

section \<open>Stored credentials\<close>

definition keySteamCreds :: string where "keySteamCreds = ''steam_creds''"

definition keySteamTokens :: string where "keySteamTokens = ''steam_tokens''"

definition creds_json :: "Credentials \<Rightarrow> json" where
  "creds_json c = JObj [(''username'', JStr (Username c)), (''password'', JStr (Password c)), (''shared_secret'', JStr (SharedSecret c)),
     (''identity_secret'', JStr (IdentitySecret c))]"

definition read_creds :: "json \<Rightarrow> Credentials option" where
  "read_creds = read_struct [string_field ''username'' (\<lambda>v p. p\<lparr>Username := v\<rparr>), string_field ''password'' (\<lambda>v p. p\<lparr>Password := v\<rparr>),
     string_field ''shared_secret'' (\<lambda>v p. p\<lparr>SharedSecret := v\<rparr>), string_field ''identity_secret'' (\<lambda>v p. p\<lparr>IdentitySecret := v\<rparr>)]
     \<lparr>Username = '''', Password = '''', SharedSecret = '''', IdentitySecret = ''''\<rparr>"

definition tokens_json :: "SessionTokens \<Rightarrow> json" where
  "tokens_json t = JObj [(''steamid'', JStr (tk_SteamID t)), (''refresh_token'', JStr (tk_RefreshToken t)), (''access_token'', JStr (tk_AccessToken t)),
     (''access_exp'', JInt (tk_AccessExp t))]"

definition read_tokens :: "json \<Rightarrow> SessionTokens option" where
  "read_tokens = read_struct [string_field ''steamid'' (\<lambda>v p. p\<lparr>tk_SteamID := v\<rparr>), string_field ''refresh_token'' (\<lambda>v p. p\<lparr>tk_RefreshToken := v\<rparr>),
     string_field ''access_token'' (\<lambda>v p. p\<lparr>tk_AccessToken := v\<rparr>), int_field ''access_exp'' tk_AccessExp (\<lambda>v p. p\<lparr>tk_AccessExp := v\<rparr>)]
     \<lparr>tk_SteamID = '''', tk_RefreshToken = '''', tk_AccessToken = '''', tk_AccessExp = 0\<rparr>"

definition printed :: "json \<Rightarrow> string" where
  "printed j = (case Marshal j of None \<Rightarrow> '''' | Some t \<Rightarrow> t)"

text \<open>A sealed value opened and read.\<close>

definition unsealed :: "Box \<Rightarrow> (json \<Rightarrow> 'a option) \<Rightarrow> string \<Rightarrow> goerr + 'a" where
  "unsealed b read enc = (case box_Open b enc of
      Inl e \<Rightarrow> Inl e
    | Inr plain \<Rightarrow> (case json_Unmarshal plain of None \<Rightarrow> Inl (Errorf ''invalid JSON'')
         | Some j \<Rightarrow> (case read j of None \<Rightarrow> Inl (Errorf ''json: cannot unmarshal'') | Some v \<Rightarrow> Inr v)))"

definition loadCreds :: "'w steam_env \<Rightarrow> 'w steam_channel \<Rightarrow> (goerr + Credentials option) \<times> 'w steam_channel" where
  "loadCreds e ch =
    (case sc_db (GetSetting keySteamCreds) ch of
       (Inl x, ch) \<Rightarrow> (if errors_Is (Some x) ErrNotFound then Inr None else Inl x, ch)
     | (Inr row, ch) \<Rightarrow>
        (case (G_value_enc row, se_Box e) of
           (Some enc, Some b) \<Rightarrow> (map_sum id Some (unsealed b read_creds enc), ch)
         | _ \<Rightarrow> (Inl (Errorf ''steam credentials not stored''), ch)))"

text \<open>The fast path after a start: no login, only the stored tokens.\<close>

definition Restore :: "'w steam_env \<Rightarrow> 'w steam_channel \<Rightarrow> goerr option \<times> 'w steam_channel" where
  "Restore e ch =
    (case se_Box e of
       None \<Rightarrow> (Some (Errorf ''APP_MASTER_KEY not configured''), ch)
     | Some b \<Rightarrow>
        (case sc_db (GetSetting keySteamTokens) ch of
           (Inl x, ch) \<Rightarrow> (if errors_Is (Some x) ErrNotFound then None else Some x, ch)
         | (Inr row, ch) \<Rightarrow>
            (case G_value_enc row of
               None \<Rightarrow> (None, ch)
             | Some enc \<Rightarrow>
                (case unsealed b read_tokens enc of
                   Inl x \<Rightarrow> (Some x, ch)
                 | Inr tokens \<Rightarrow>
                    (case loadCreds e ch of
                       (Inl x, ch) \<Rightarrow> (Some x, ch)
                     | (Inr None, ch) \<Rightarrow> (None, ch)
                     | (Inr (Some creds), ch) \<Rightarrow>
                        (case sc_out (NewSession e creds) ch of (s, ch) \<Rightarrow>
                          (None, snd (live (\<lambda>n st. ((), AttachTokens n tokens st)) s ch))))))))"

section \<open>New credentials\<close>

definition seal_json :: "'w steam_env \<Rightarrow> Box \<Rightarrow> json \<Rightarrow> 'w steam_channel \<Rightarrow> (goerr + string) \<times> 'w steam_channel" where
  "seal_json e b j ch = (case sc_out (se_Nonce e) ch of (nonce, ch) \<Rightarrow> (box_Seal b nonce (printed j), ch))"

definition SetCredentials :: "'w steam_env \<Rightarrow> Credentials \<Rightarrow> 'w steam_channel \<Rightarrow> goerr option \<times> 'w steam_channel" where
  "SetCredentials e creds ch =
    (case se_Box e of
       None \<Rightarrow> (Some (Errorf ''APP_MASTER_KEY not configured''), ch)
     | Some b \<Rightarrow>
        (case sc_out (NewSession e creds) ch of (s, ch) \<Rightarrow>
          (case sc_out (on_session (\<lambda>n. Login n creds) s) ch of
             ((Some x, s), ch) \<Rightarrow> (Some (Wrap ''steam login failed: '' x), ch)
           | ((None, s), ch) \<Rightarrow>
              (case seal_json e b (creds_json creds) ch of
                 (Inl x, ch) \<Rightarrow> (Some x, ch)
               | (Inr enc, ch) \<Rightarrow>
                  (case seal_json e b (tokens_json (lv_tokens s)) ch of
                     (Inl x, ch) \<Rightarrow> (Some x, ch)
                   | (Inr tokEnc, ch) \<Rightarrow>
                      (case sc_db (UpsertSettingEnc keySteamCreds enc) ch of
                         (Some x, ch) \<Rightarrow> (Some x, ch)
                       | (None, ch) \<Rightarrow>
                          (case sc_db (UpsertSettingEnc keySteamTokens tokEnc) ch of
                             (Some x, ch) \<Rightarrow> (Some x, ch)
                           | (None, ch) \<Rightarrow> (None, ch\<lparr>sc_session := Some s\<rparr>))))))))"

section \<open>A live session\<close>

definition persistTokens :: "'w steam_env \<Rightarrow> 'w live_session \<Rightarrow> 'w steam_channel \<Rightarrow> 'w steam_channel" where
  "persistTokens e s ch = (case se_Box e of
      None \<Rightarrow> ch
    | Some b \<Rightarrow> (case seal_json e b (tokens_json (lv_tokens s)) ch of
        (Inl _, ch) \<Rightarrow> ch | (Inr enc, ch) \<Rightarrow> snd (sc_db (UpsertSettingEnc keySteamTokens enc) ch)))"

text \<open>A token that expires within the hour, or whose expiry is unknown, is refreshed; if that fails there is a new login.\<close>

definition EnsureSession :: "'w steam_env \<Rightarrow> 'w steam_channel \<Rightarrow> (goerr + 'w live_session) \<times> 'w steam_channel" where
  "EnsureSession e ch =
    (case sc_session ch of
       None \<Rightarrow> (Inl (Errorf ''steam not configured''), ch)
     | Some s \<Rightarrow>
        (case sc_out (se_Unix e) ch of (now, ch) \<Rightarrow>
          let expiry = tk_AccessExp (lv_tokens s) in
          if expiry = 0 \<or> expiry - now < 3600
          then (case live RefreshAccessToken s ch of
              ((None, s), ch) \<Rightarrow> (Inr s, persistTokens e s ch)
            | ((Some _, s), ch) \<Rightarrow>
               (case live (\<lambda>n. Login n (lv_creds s)) s ch of
                  ((Some x, s), ch) \<Rightarrow> (Inl x, ch) | ((None, s), ch) \<Rightarrow> (Inr s, persistTokens e s ch)))
          else (Inr s, ch)))"

definition steam_Health :: "'w steam_env \<Rightarrow> 'w steam_channel \<Rightarrow> string \<times> 'w steam_channel" where
  "steam_Health e ch =
    (if sc_session ch = None then (''not_configured'', ch)
     else case EnsureSession e ch of
         (Inl _, ch) \<Rightarrow> (''error: session dead'', ch)
       | (Inr s, ch) \<Rightarrow> (case live IsAlive s ch of ((alive, s), ch) \<Rightarrow>
           (if alive then ''ok:'' @ tk_SteamID (lv_tokens s) else ''error: session dead'', ch)))"

definition offer_audit :: "'w steam_env \<Rightarrow> string \<Rightarrow> 'w steam_channel \<Rightarrow> 'w steam_channel" where
  "offer_audit e offerID ch = (case se_AuditFn e of
      None \<Rightarrow> ch
    | Some fn \<Rightarrow> (case sc_out (se_Now e) ch of (now, ch) \<Rightarrow>
        ch\<lparr>sc_sess := fn \<lparr>ae_Time = now, ae_Actor = ''system'', ae_Action = ''order.accepted'', ae_Channel = ''steam'', ae_Target = offerID, ae_Detail = None\<rparr> (sc_sess ch)\<rparr>))"

text \<open>The first error ends the walk; what was accepted before it is still counted.\<close>

fun accept_walk :: "'w steam_env \<Rightarrow> rawOffer list \<Rightarrow> nat \<Rightarrow> nat \<Rightarrow> 'w live_session \<Rightarrow> 'w steam_channel \<Rightarrow> (nat \<times> nat \<times> goerr option) \<times> 'w steam_channel" where
  "accept_walk e [] accepted skipped s ch = ((accepted, skipped, None), ch)"
| "accept_walk e (x # xs) accepted skipped s ch =
    (if of_TradeOfferState x \<notin> {2, 9} then accept_walk e xs accepted skipped s ch
     else if \<not> IsZeroCost x then accept_walk e xs accepted (skipped + 1) s ch
     else case live (\<lambda>n. AcceptZeroCostTradeOffer n (lv_creds s) (of_TradeOfferID x)) s ch of
         ((Inl err, s), ch) \<Rightarrow> ((accepted, skipped, Some err), ch)
       | ((Inr ok, s), ch) \<Rightarrow>
          (if ok then accept_walk e xs (accepted + 1) skipped s (offer_audit e (of_TradeOfferID x) ch)
           else accept_walk e xs accepted skipped s ch))"

definition AcceptZeroCostOffers :: "'w steam_env \<Rightarrow> 'w steam_channel \<Rightarrow> (nat \<times> nat \<times> goerr option) \<times> 'w steam_channel" where
  "AcceptZeroCostOffers e ch =
    (case EnsureSession e ch of
       (Inl x, ch) \<Rightarrow> ((0, 0, Some x), ch)
     | (Inr s, ch) \<Rightarrow>
        (case live GetReceivedActiveOffers s ch of
           ((Inl x, s), ch) \<Rightarrow> ((0, 0, Some x), ch) | ((Inr offers, s), ch) \<Rightarrow> accept_walk e offers 0 0 s ch))"

definition channel_AcceptTradeOffer :: "'w steam_env \<Rightarrow> string \<Rightarrow> 'w steam_channel \<Rightarrow> (goerr + bool) \<times> 'w steam_channel" where
  "channel_AcceptTradeOffer e offerID ch =
    (case EnsureSession e ch of
       (Inl x, ch) \<Rightarrow> (Inl x, ch)
     | (Inr s, ch) \<Rightarrow> (case live (\<lambda>n. AcceptTradeOffer n (lv_creds s) offerID) s ch of ((x, _), ch) \<Rightarrow> (x, ch)))"

end
