(* ===== verification/SteamChannelProps.thy ===== *)
theory SteamChannelProps
  imports SteamChannel RegistryProps SteamProps
begin

text \<open>
  What the stored Steam session guarantees: it survives a restart, a failed login changes nothing, and what a failed write can leave
  behind.
\<close>

section \<open>Reading back\<close>

lemma creds_read_back: "read_creds (creds_json c) = Some c"
  by (simp add: read_creds_def creds_json_def read_struct_def to_struct_def store_field_def same_field_def lower_def string_field_def)

lemma tokens_read_back:
  assumes "0 \<le> tk_AccessExp t" "tk_AccessExp t < 2 ^ 63"
  shows "read_tokens (tokens_json t) = Some t"
  using assms by (simp add: read_tokens_def tokens_json_def read_struct_def to_struct_def store_field_def same_field_def lower_def string_field_def int_field_def to_int_def)

lemma printed_reads_back:
  assumes "kvs \<noteq> []" "\<forall>m \<in> set kvs. leaf (snd m)"
  shows "json_Unmarshal (printed (JObj kvs)) = Some (JObj kvs)"
  by (rule flat_object_reads_back[OF assms]) (simp add: printed_def)

lemma unsealed_sealed:
  assumes "NewBox key = Inr b" "length nonce = 12" "box_Seal b (Inr nonce) (printed j) = Inr enc" "json_Unmarshal (printed j) = Some j" "read j = Some v"
  shows "unsealed b read enc = Inr v"
  using assms by (simp add: unsealed_def box_reopens[OF assms(1-3)])

lemma creds_unsealed:
  assumes "NewBox key = Inr b" "length nonce = 12" "box_Seal b (Inr nonce) (printed (creds_json c)) = Inr enc"
  shows "unsealed b read_creds enc = Inr c"
  using assms creds_read_back[of c] printed_reads_back[of "[(''username'', JStr (Username c)), (''password'', JStr (Password c)), (''shared_secret'', JStr (SharedSecret c)),
     (''identity_secret'', JStr (IdentitySecret c))]"]
  by (intro unsealed_sealed[where read = read_creds and j = "creds_json c"]) (simp_all add: creds_json_def leaf_def)

lemma tokens_unsealed:
  assumes "NewBox key = Inr b" "length nonce = 12" "box_Seal b (Inr nonce) (printed (tokens_json t)) = Inr enc" "0 \<le> tk_AccessExp t" "tk_AccessExp t < 2 ^ 63"
  shows "unsealed b read_tokens enc = Inr t"
  using assms tokens_read_back[OF assms(4,5)] printed_reads_back[of "[(''steamid'', JStr (tk_SteamID t)), (''refresh_token'', JStr (tk_RefreshToken t)),
     (''access_token'', JStr (tk_AccessToken t)), (''access_exp'', JInt (tk_AccessExp t))]"]
  by (intro unsealed_sealed[where read = read_tokens and j = "tokens_json t"]) (simp_all add: tokens_json_def leaf_def)

lemma other_setting_kept: "k \<noteq> j \<Longrightarrow> setting_of j (sql_upsert_enc k enc now t) = setting_of j t"
  by (auto simp: sql_upsert_enc_def setting_append setting_upd dest: setting_of_key split: option.splits)

section \<open>What a start finds\<close>

text \<open>The rows, and the session a start builds from them.\<close>

definition stored_in :: "Box \<Rightarrow> Credentials \<Rightarrow> SessionTokens \<Rightarrow> tables \<Rightarrow> bool" where
  "stored_in b creds tokens t \<longleftrightarrow> (\<exists>r enc r' enc'. setting_of keySteamCreds t = Some r \<and> G_value_enc r = Some enc \<and> unsealed b read_creds enc = Inr creds \<and>
     setting_of keySteamTokens t = Some r' \<and> G_value_enc r' = Some enc' \<and> unsealed b read_tokens enc' = Inr tokens)"

lemma warmup_tokens: "ss_tokens (warmup n st) = ss_tokens st"
  by (auto simp: warmup_def visit_def captureSessionID_def steam_world_def split: prod.splits sum.splits option.splits bool.splits)

lemma attached_tokens: "ss_tokens (AttachTokens n t st) = t"
  by (simp add: AttachTokens_def warmup_tokens setLoginSecure_def Let_def)

lemma GetSetting_runs: "faults s = [] \<Longrightarrow> setting_of k (db s) = Some r \<Longrightarrow> GetSetting k s = (Inr r, s)"
  by (simp add: GetSetting_def Query_runs)

lemma Restore_stored:
  assumes "stored_in b creds tokens (db s)" "se_Box e = Some b" "faults s = []"
  shows "\<exists>ch ls. Restore e (NewSteamSession s w) = (None, ch) \<and> sc_session ch = Some ls \<and> lv_creds ls = creds \<and> lv_tokens ls = tokens"
proof -
  obtain r enc r' enc' where st: "setting_of keySteamCreds (db s) = Some r" "G_value_enc r = Some enc" "unsealed b read_creds enc = Inr creds"
      "setting_of keySteamTokens (db s) = Some r'" "G_value_enc r' = Some enc'" "unsealed b read_tokens enc' = Inr tokens"
    using assms(1) by (auto simp: stored_in_def)
  note g = GetSetting_runs[OF assms(3)]
  obtain n w1 where j: "se_NewJar e w = (n, w1)" by (metis surj_pair)
  show ?thesis
    by (simp add: Restore_def assms(2) sc_db_def NewSteamSession_def g[OF st(4)] st(5,6) loadCreds_def g[OF st(1)] st(2,3) sc_out_def NewSession_def j live_def on_session_def
        attached_tokens)
qed

section \<open>New credentials\<close>

lemma seal_json_cases:
  assumes "seal_json e b j ch = (x, ch')" "\<forall>w n. fst (se_Nonce e w) = Inr n \<longrightarrow> length n = 12"
  shows "sc_sess ch' = sc_sess ch \<and> sc_session ch' = sc_session ch \<and> (\<forall>enc. x = Inr enc \<longrightarrow> (\<exists>nonce. length nonce = 12 \<and> box_Seal b (Inr nonce) (printed j) = Inr enc))"
proof -
  obtain nonce w where n: "se_Nonce e (sc_world ch) = (nonce, w)" by (metis surj_pair)
  have "length m = 12" if "nonce = Inr m" for m using assms(2) n that by (metis fst_conv)
  then show ?thesis using assms(1) by (cases nonce) (auto simp: seal_json_def sc_out_def n box_Seal_def)
qed

lemma UpsertSettingEnc_db: "UpsertSettingEnc k enc s = (None, s') \<Longrightarrow> db s' = sql_upsert_enc k enc (db_now s) (db s)"
  using UpsertSettingEnc_cases by fastforce

lemma stored_after_upserts:
  assumes "unsealed b read_creds enc = Inr creds" "unsealed b read_tokens tokEnc = Inr tokens"
  shows "stored_in b creds tokens (sql_upsert_enc keySteamTokens tokEnc m (sql_upsert_enc keySteamCreds enc n t))"
proof -
  have k: "keySteamTokens \<noteq> keySteamCreds" by (simp add: keySteamTokens_def keySteamCreds_def)
  obtain r where "setting_of keySteamCreds (sql_upsert_enc keySteamCreds enc n t) = Some r" "G_value_enc r = Some enc"
    using setting_after_upsert by blast
  moreover obtain r' where "setting_of keySteamTokens (sql_upsert_enc keySteamTokens tokEnc m (sql_upsert_enc keySteamCreds enc n t)) = Some r'" "G_value_enc r' = Some tokEnc"
    using setting_after_upsert by blast
  ultimately show ?thesis using assms by (auto simp: stored_in_def other_setting_kept[OF k])
qed

lemma stored_after_half:
  assumes "stored_in b old tokens t" "unsealed b read_creds enc = Inr creds"
  shows "stored_in b creds tokens (sql_upsert_enc keySteamCreds enc n t)"
proof -
  obtain r where "setting_of keySteamCreds (sql_upsert_enc keySteamCreds enc n t) = Some r" "G_value_enc r = Some enc"
    using setting_after_upsert by blast
  moreover have "keySteamCreds \<noteq> keySteamTokens" by (simp add: keySteamTokens_def keySteamCreds_def)
  ultimately show ?thesis using assms by (auto simp: stored_in_def other_setting_kept)
qed

text \<open>A run of \<open>SetCredentials\<close> past the login and the sealing.\<close>

lemma SetCredentials_sealed:
  assumes "SetCredentials e creds ch = (x, ch')" "se_Box e = Some b" "\<forall>w n. fst (se_Nonce e w) = Inr n \<longrightarrow> length n = 12"
  obtains (refused) y where "x = Some y" "sc_sess ch' = sc_sess ch" "sc_session ch' = sc_session ch"
  | (sealed) ls enc tokEnc nonce nonce' ch1 where "sc_sess ch1 = sc_sess ch" "sc_session ch1 = sc_session ch"
      "length nonce = 12" "box_Seal b (Inr nonce) (printed (creds_json creds)) = Inr enc"
      "length nonce' = 12" "box_Seal b (Inr nonce') (printed (tokens_json (lv_tokens ls))) = Inr tokEnc" "lv_creds ls = creds"
      "(case sc_db (UpsertSettingEnc keySteamCreds enc) ch1 of
          (Some x, ch) \<Rightarrow> (Some x, ch)
        | (None, ch) \<Rightarrow> (case sc_db (UpsertSettingEnc keySteamTokens tokEnc) ch of (Some x, ch) \<Rightarrow> (Some x, ch) | (None, ch) \<Rightarrow> (None, ch\<lparr>sc_session := Some ls\<rparr>)))
        = (x, ch')"
proof -
  obtain s0 ch0 where s0: "sc_out (NewSession e creds) ch = (s0, ch0)" by (metis surj_pair)
  obtain l s1 ch1 where l: "sc_out (on_session (\<lambda>n. Login n creds) s0) ch0 = ((l, s1), ch1)" by (metis surj_pair)
  have k1: "sc_sess ch1 = sc_sess ch" "sc_session ch1 = sc_session ch" "lv_creds s1 = creds"
    using s0 l by (auto simp: sc_out_def NewSession_def on_session_def split: prod.splits)
  note run = assms(1)[unfolded SetCredentials_def assms(2) option.case s0 prod.case l]
  show thesis
  proof (cases l)
    case (Some y)
    then show thesis using run k1 by (intro refused[of "Wrap ''steam login failed: '' y"]) simp_all
  next
    case None
    obtain v ch2 where v: "seal_json e b (creds_json creds) ch1 = (v, ch2)" by (metis surj_pair)
    note c2 = seal_json_cases[OF v assms(3)]
    note run = run[unfolded None option.case v prod.case]
    show thesis
    proof (cases v)
      case (Inl y)
      then show thesis using run c2 k1 by (intro refused[of y]) simp_all
    next
      case (Inr enc)
      obtain v' ch3 where v': "seal_json e b (tokens_json (lv_tokens s1)) ch2 = (v', ch3)" by (metis surj_pair)
      note c3 = seal_json_cases[OF v' assms(3)]
      note run = run[unfolded Inr sum.case v' prod.case]
      show thesis
      proof (cases v')
        case (Inl y)
        then show thesis using run c2 c3 k1 by (intro refused[of y]) simp_all
      next
        case (Inr tokEnc)
        obtain nonce nonce' where "length nonce = 12" "box_Seal b (Inr nonce) (printed (creds_json creds)) = Inr enc"
            "length nonce' = 12" "box_Seal b (Inr nonce') (printed (tokens_json (lv_tokens s1))) = Inr tokEnc"
          using c2 c3 \<open>v = Inr enc\<close> Inr by blast
        then show thesis using run[unfolded Inr sum.case] c2 c3 k1 by (intro sealed[of ch3 nonce enc nonce' s1 tokEnc]) simp_all
      qed
    qed
  qed
qed

text \<open>C32: A Steam login survives a restart: once new credentials were taken over, a program started on the same database with the
  same master key builds its session from exactly these credentials and the tokens of that login, without logging in again.\<close>

theorem steam_login_survives_restart:
  assumes "SetCredentials e creds ch = (None, ch')" "se_Box e = Some b" "NewBox key = Inr b"
    and "\<forall>w n. fst (se_Nonce e w) = Inr n \<longrightarrow> length n = 12"
    and "sc_session ch' = Some ls" "0 \<le> tk_AccessExp (lv_tokens ls)" "tk_AccessExp (lv_tokens ls) < 2 ^ 63"
    and "db s = db (sc_sess ch')" "faults s = []"
  shows "lv_creds ls = creds \<and>
    (\<exists>ch2 ls2. Restore e (NewSteamSession s w) = (None, ch2) \<and> sc_session ch2 = Some ls2 \<and> lv_creds ls2 = creds \<and> lv_tokens ls2 = lv_tokens ls)"
  using assms(1,2,4)
proof (cases rule: SetCredentials_sealed)
  case (sealed ls1 enc tokEnc nonce nonce' ch1)
  obtain x s1 where u: "UpsertSettingEnc keySteamCreds enc (sc_sess ch1) = (x, s1)" by (metis surj_pair)
  have x: "x = None" using sealed(8) by (cases x) (simp_all add: sc_db_def u)
  obtain y s2 where u2: "UpsertSettingEnc keySteamTokens tokEnc s1 = (y, s2)" by (metis surj_pair)
  have y: "y = None" using sealed(8) by (cases y) (simp_all add: sc_db_def u x u2)
  have ls: "ls = ls1" and d: "db s = db s2" using sealed(8) assms(5,8) by (auto simp: sc_db_def u x u2 y)
  have "stored_in b creds (lv_tokens ls) (db s)"
    using stored_after_upserts[OF creds_unsealed[OF assms(3) sealed(3,4)] tokens_unsealed[OF assms(3) sealed(5,6)]] assms(6,7) UpsertSettingEnc_db[OF u[unfolded x]]
      UpsertSettingEnc_db[OF u2[unfolded y]] by (simp add: d ls)
  from Restore_stored[OF this assms(2,9)] show ?thesis using sealed(7) by (simp add: ls)
qed simp

text \<open>New Steam credentials that are not taken over leave the session in use as it was, but not always the database: the
  credentials and the tokens are two statements without a transaction, and when the second fails the new account's credentials stand
  beside the old account's tokens, for the next start to combine.\<close>

theorem steam_credentials_half_written:
  assumes "SetCredentials e creds ch = (Some x, ch')" "se_Box e = Some b" "NewBox key = Inr b"
    and "\<forall>w n. fst (se_Nonce e w) = Inr n \<longrightarrow> length n = 12"
    and "stored_in b old tokens (db (sc_sess ch))"
  shows "sc_session ch' = sc_session ch \<and> (stored_in b old tokens (db (sc_sess ch')) \<or> stored_in b creds tokens (db (sc_sess ch')))"
  using assms(1,2,4)
proof (cases rule: SetCredentials_sealed)
  case (refused y)
  then show ?thesis using assms(5) by simp
next
  case (sealed ls1 enc tokEnc nonce nonce' ch1)
  obtain y s1 where u: "UpsertSettingEnc keySteamCreds enc (sc_sess ch1) = (y, s1)" by (metis surj_pair)
  note d1 = UpsertSettingEnc_cases[OF u]
  show ?thesis
  proof (cases y)
    case (Some z)
    then have "ch' = ch1\<lparr>sc_sess := s1\<rparr>" using sealed(8) by (simp add: sc_db_def u)
    then show ?thesis using sealed(1,2) d1 assms(5) Some by simp
  next
    case None
    obtain z s2 where u2: "UpsertSettingEnc keySteamTokens tokEnc s1 = (z, s2)" by (metis surj_pair)
    have z: "z \<noteq> None" and c: "ch' = ch1\<lparr>sc_sess := s2\<rparr>" using sealed(8) by (cases z; simp add: sc_db_def u None u2)+
    from c have d: "db (sc_sess ch') = sql_upsert_enc keySteamCreds enc (db_now (sc_sess ch)) (db (sc_sess ch))" and k: "sc_session ch' = sc_session ch"
      using sealed(1,2) d1 UpsertSettingEnc_cases[OF u2] None z by auto
    have "stored_in b creds tokens (db (sc_sess ch'))"
      unfolding d by (rule stored_after_half[OF assms(5) creds_unsealed[OF assms(3) sealed(3,4)]])
    then show ?thesis using k by blast
  qed
qed

section \<open>A sample login\<close>

definition login_bodies :: "string list" where
  "login_bodies = ['''', pb_bytes 1 ''C1'' @ pb_bytes 2 ''03'' @ pb_u64 3 9,
     pb_u64 1 5 @ pb_bytes 2 ''rq'' @ pb_bytes 4 (pb_u64 1 4) @ pb_u64 5 77, '''', pb_bytes 3 ''refresh'' @ pb_bytes 4 ''access'', ''{}'', '''', '''']"

definition login_tokens :: SessionTokens where
  "login_tokens = \<lparr>tk_SteamID = ''77'', tk_RefreshToken = ''refresh'', tk_AccessToken = ''access'', tk_AccessExp = 0\<rparr>"

lemma sample_rsa: "decodeRSAKey (pb_bytes 1 ''C1'' @ pb_bytes 2 ''03'' @ pb_u64 3 9) = Inr (''C1'', ''03'', 9)"
  by code_simp

lemma sample_begin: "decodeBeginResponse (pb_u64 1 5 @ pb_bytes 2 ''rq'' @ pb_bytes 4 (pb_u64 1 4) @ pb_u64 5 77)
    = Inr \<lparr>br_ClientID = 5, br_RequestID = ''rq'', br_SteamID = 77, br_AllowedConfirmations = [4]\<rparr>"
  by code_simp

lemma sample_poll: "decodePoll (pb_bytes 3 ''refresh'' @ pb_bytes 4 ''access'') = Inr (''refresh'', ''access'')"
  by code_simp

lemma sample_numbers: "hex_int ''C1'' = Some 193" "hex_int ''03'' = Some 3" "jwtExp ''access'' = 0" "dec_int 77 = ''77''"
  by code_simp+

lemma canned_send: "ss_world st = a # w \<Longrightarrow> send_raw canned_net (NewRequest canned_net m u h b) st = (Inr (a, 200, 1), st\<lparr>ss_world := w\<rparr>)"
  by (simp add: send_raw_def NewRequest_def canned_net_def doRawFull_def steam_world_def eresult_of_def Atoi_one maxRedirectHops_def eval_nat_numeral)

lemma canned_visit: "ss_world st = a # w \<Longrightarrow> visit canned_net (NewRequest canned_net m u h b) st = (True, st\<lparr>ss_world := w\<rparr>)"
  by (simp add: visit_def NewRequest_def canned_net_def steam_world_def)

lemma canned_api: "ss_world st = a # w \<Longrightarrow> authAPIPOST canned_net m msg ig st = (Inr a, st\<lparr>ss_world := w\<rparr>)"
    "ss_world st = a # w \<Longrightarrow> authAPIGET canned_net m msg ig st = (Inr a, st\<lparr>ss_world := w\<rparr>)"
  by (simp_all add: authAPIPOST_def authAPIGET_def canned_send checked_body_def checkEresult_def)

lemma canned_jar: "captureSessionID canned_net st = st" "ss_world (setLoginSecure canned_net st) = ss_world st" "ss_tokens (setLoginSecure canned_net st) = ss_tokens st"
  by (simp_all add: captureSessionID_def canned_net_def setLoginSecure_def Let_def)

lemma canned_begin:
  assumes "ss_world st = (pb_bytes 1 ''C1'' @ pb_bytes 2 ''03'' @ pb_u64 3 9) # (pb_u64 1 5 @ pb_bytes 2 ''rq'' @ pb_bytes 4 (pb_u64 1 4) @ pb_u64 5 77) # w"
  shows "begin_session canned_net creds st = (Inr (\<lparr>br_ClientID = 5, br_RequestID = ''rq'', br_SteamID = 77, br_AllowedConfirmations = [4]\<rparr>, 4), st\<lparr>ss_world := w\<rparr>)"
proof -
  obtain q where q: "encryptPassword canned_net (Password creds) ''C1'' ''03'' st' = (Inr q, st')" for st'
    by (simp add: encryptPassword_def sample_numbers steam_world_def canned_net_def)
  show ?thesis using assms by (simp add: begin_session_def canned_api sample_rsa q sample_begin)
qed

lemma canned_finalize:
  assumes "ss_world st = ''{}'' # a # b # w"
  shows "\<exists>st'. finalize_login canned_net st = (None, st') \<and> ss_tokens st' = ss_tokens st"
proof -
  have r: "unmarshal ''finalizelogin decode'' read_transfers ''{}'' = Inr []" by code_simp
  define st1 where "st1 = setLoginSecure canned_net (st\<lparr>ss_world := a # b # w\<rparr>)"
  have w1: "ss_world st1 = a # b # w" "ss_tokens st1 = ss_tokens st" by (simp_all add: st1_def canned_jar)
  have wu: "warmup canned_net st1 = st1\<lparr>ss_world := b # w\<rparr>" using w1 by (simp add: warmup_def canned_visit canned_jar)
  show ?thesis using assms w1
    by (simp add: finalize_login_def doRaw_def canned_send r st1_def[symmetric] wu canned_visit Let_def)
qed

lemma login_runs: "\<exists>st. Login canned_net creds \<lparr>ss_tokens = t, ss_sessionid = i, ss_world = login_bodies\<rparr> = (None, st) \<and> ss_tokens st = login_tokens"
proof -
  let ?st = "\<lparr>ss_tokens = t, ss_sessionid = i, ss_world = login_bodies\<rparr>"
  obtain p where p: "NewRequest canned_net ''GET'' communityURL [] None = Inr p" by (simp add: NewRequest_def canned_net_def)
  have v: "visit canned_net (Inr p) ?st = (True, ?st\<lparr>ss_world := tl login_bodies\<rparr>)" using canned_visit[of ?st "''''" "tl login_bodies" "''GET''" communityURL "[]" None]
    by (simp add: p login_bodies_def)
  let ?rest = "['''', pb_bytes 3 ''refresh'' @ pb_bytes 4 ''access'', ''{}'', '''', '''']"
  note b = canned_begin[of "?st\<lparr>ss_world := tl login_bodies\<rparr>" ?rest creds]
  have "Login canned_net creds ?st = poll_tokens canned_net \<lparr>br_ClientID = 5, br_RequestID = ''rq'', br_SteamID = 77, br_AllowedConfirmations = [4]\<rparr>
      (?st\<lparr>ss_world := tl ?rest\<rparr>)"
    using b by (simp add: Login_def p v canned_jar) (simp add: login_bodies_def satisfy_guard_def canned_api Let_def)
  then show ?thesis using canned_finalize[of "?st\<lparr>ss_tokens := login_tokens, ss_world := drop 2 ?rest\<rparr>"]
    by (simp add: poll_tokens_def canned_api sample_poll sample_numbers login_tokens_def)
qed

definition steam_sample_env :: "Box \<Rightarrow> string list steam_env" where
  "steam_sample_env b = \<lparr>se_Box = Some b, se_Nonce = (\<lambda>w. (Inr ''nonce-of-12b'', w)), se_NewJar = (\<lambda>w. (canned_net, w)), se_Unix = (\<lambda>w. (1000, w)),
     se_Now = (\<lambda>w. (1000, w)), se_AuditFn = None\<rparr>"

text \<open>Before the run another account was stored.\<close>

definition old_creds :: Credentials where
  "old_creds = \<lparr>Username = ''old'', Password = ''p'', SharedSecret = '''', IdentitySecret = ''''\<rparr>"

definition old_tokens :: SessionTokens where
  "old_tokens = \<lparr>tk_SteamID = ''11'', tk_RefreshToken = ''r'', tk_AccessToken = ''a'', tk_AccessExp = 5\<rparr>"

definition steam_tables :: "Box \<Rightarrow> tables" where
  "steam_tables b = (case (box_Seal b (Inr ''nonce-of-12b'') (printed (creds_json old_creds)), box_Seal b (Inr ''nonce-of-12b'') (printed (tokens_json old_tokens))) of
     (Inr enc, Inr tokEnc) \<Rightarrow> sql_upsert_enc keySteamTokens tokEnc 0 (sql_upsert_enc keySteamCreds enc 0 registry_tables))"

definition steam_start :: "Box \<Rightarrow> goerr option list \<Rightarrow> string list steam_channel" where
  "steam_start b fs = NewSteamSession \<lparr>db = steam_tables b, db_now = 0, faults = fs\<rparr> login_bodies"

lemma old_account_stored:
  assumes "NewBox key = Inr b"
  shows "stored_in b old_creds old_tokens (steam_tables b)"
proof -
  obtain enc tokEnc where s: "box_Seal b (Inr ''nonce-of-12b'') (printed (creds_json old_creds)) = Inr enc"
      "box_Seal b (Inr ''nonce-of-12b'') (printed (tokens_json old_tokens)) = Inr tokEnc" by (simp add: box_Seal_def)
  have "unsealed b read_creds enc = Inr old_creds" by (rule creds_unsealed[OF assms _ s(1)]) simp
  moreover have "unsealed b read_tokens tokEnc = Inr old_tokens" by (rule tokens_unsealed[OF assms _ s(2)]) (simp_all add: old_tokens_def)
  ultimately show ?thesis by (simp add: steam_tables_def s stored_after_upserts)
qed

text \<open>The second write fails when \<open>fs\<close> says so.\<close>

lemma SetCredentials_runs:
  assumes "fs = [] \<or> fs = [None, Some x]"
  shows "\<exists>ch y. SetCredentials (steam_sample_env b) guard_creds (steam_start b fs) = (y, ch) \<and>
     (fs = [] \<longrightarrow> y = None \<and> (\<exists>ls. sc_session ch = Some ls \<and> lv_tokens ls = login_tokens)) \<and> 
     (fs \<noteq> [] \<longrightarrow> y \<noteq> None \<and> (\<exists>enc. box_Seal b (Inr ''nonce-of-12b'') (printed (creds_json guard_creds)) = Inr enc \<and>
        db (sc_sess ch) = sql_upsert_enc keySteamCreds enc 0 (steam_tables b)))"
proof -
  obtain st where l: "Login canned_net guard_creds \<lparr>ss_tokens = \<lparr>tk_SteamID = '''', tk_RefreshToken = '''', tk_AccessToken = '''', tk_AccessExp = 0\<rparr>, ss_sessionid = '''',
      ss_world = login_bodies\<rparr> = (None, st)" "ss_tokens st = login_tokens" using login_runs by blast
  show ?thesis using assms
    by (elim disjE) (simp_all add: SetCredentials_def steam_sample_env_def steam_start_def NewSteamSession_def sc_out_def NewSession_def on_session_def l seal_json_def box_Seal_def
        sc_db_def UpsertSettingEnc_def Exec_def next_fault_def past_def)
qed

lemma sample_box: "\<exists>b. NewBox ''0123456789abcdef'' = Inr b"
  by (simp add: NewBox_def)

lemma sample_nonces: "\<forall>w n. fst (se_Nonce (steam_sample_env b) w) = Inr n \<longrightarrow> length n = 12"
  by (auto simp: steam_sample_env_def)

theorem steam_login_survives_restart_witness:
  "\<exists>b s ch2 ls2. Restore (steam_sample_env b) (NewSteamSession s []) = (None, ch2) \<and> sc_session ch2 = Some ls2 \<and> lv_creds ls2 = guard_creds \<and> lv_tokens ls2 = login_tokens"
proof -
  obtain b where b: "NewBox ''0123456789abcdef'' = Inr b" using sample_box by blast
  obtain ch ls where run: "SetCredentials (steam_sample_env b) guard_creds (steam_start b []) = (None, ch)" and ls: "sc_session ch = Some ls" "lv_tokens ls = login_tokens"
    using SetCredentials_runs[of "[]" _ b] by auto
  have e: "se_Box (steam_sample_env b) = Some b" by (simp add: steam_sample_env_def)
  have t: "0 \<le> tk_AccessExp (lv_tokens ls)" "tk_AccessExp (lv_tokens ls) < 2 ^ 63" by (simp_all add: ls login_tokens_def)
  show ?thesis
    using steam_login_survives_restart[OF run e b sample_nonces ls(1) t, of "\<lparr>db = db (sc_sess ch), db_now = 1, faults = []\<rparr>" "[]"] ls(2) by auto
qed

theorem steam_credentials_half_written_witness:
  "\<exists>b x ch ch2 ls. SetCredentials (steam_sample_env b) guard_creds (steam_start b [None, Some (Errorf ''down'')]) = (Some x, ch) \<and> sc_session ch = None \<and>
     (stored_in b old_creds old_tokens (db (sc_sess ch)) \<or> stored_in b guard_creds old_tokens (db (sc_sess ch))) \<and>
     Restore (steam_sample_env b) (NewSteamSession ((sc_sess ch)\<lparr>faults := []\<rparr>) []) = (None, ch2) \<and>
     sc_session ch2 = Some ls \<and> lv_creds ls = guard_creds \<and> lv_tokens ls = old_tokens"
proof -
  obtain b where b: "NewBox ''0123456789abcdef'' = Inr b" using sample_box by blast
  obtain x ch enc where run: "SetCredentials (steam_sample_env b) guard_creds (steam_start b [None, Some (Errorf ''down'')]) = (Some x, ch)"
      and enc: "box_Seal b (Inr ''nonce-of-12b'') (printed (creds_json guard_creds)) = Inr enc" and d: "db (sc_sess ch) = sql_upsert_enc keySteamCreds enc 0 (steam_tables b)"
    using SetCredentials_runs[of "[None, Some (Errorf ''down'')]" "Errorf ''down''" b] by auto
  have e: "se_Box (steam_sample_env b) = Some b" by (simp add: steam_sample_env_def)
  note old = old_account_stored[OF b]
  have old': "stored_in b old_creds old_tokens (db (sc_sess (steam_start b [None, Some (Errorf ''down'')])))"
    using old by (simp add: steam_start_def NewSteamSession_def)
  note half = steam_credentials_half_written[OF run e b sample_nonces old']
  have k: "sc_session ch = None" using half by (simp add: steam_start_def NewSteamSession_def)
  have "unsealed b read_creds enc = Inr guard_creds" by (rule creds_unsealed[OF b _ enc]) simp
  then have "stored_in b guard_creds old_tokens (db ((sc_sess ch)\<lparr>faults := []\<rparr>))" using stored_after_half[OF old] by (simp add: d)
  then obtain ch2 ls where r: "Restore (steam_sample_env b) (NewSteamSession ((sc_sess ch)\<lparr>faults := []\<rparr>) []) = (None, ch2)" "sc_session ch2 = Some ls"
      "lv_creds ls = guard_creds" "lv_tokens ls = old_tokens" using Restore_stored[OF _ e, of guard_creds old_tokens "(sc_sess ch)\<lparr>faults := []\<rparr>" "[]"] by auto
  show ?thesis
    by (rule exI[of _ b], rule exI[of _ x], rule exI[of _ ch], rule exI[of _ ch2], rule exI[of _ ls]) (intro conjI run k half[THEN conjunct2] r)
qed

section \<open>Sessions in use\<close>

text \<open>A session that is handed out has a token for at least another hour, or was just refreshed or logged in.\<close>

lemma EnsureSession_fresh:
  assumes "EnsureSession e ch = (Inr ls, ch')" "se_Unix e (sc_world ch) = (now, w)"
  shows "\<exists>s. sc_session ch = Some s \<and>
    ((tk_AccessExp (lv_tokens s) \<noteq> 0 \<and> now + 3600 \<le> tk_AccessExp (lv_tokens s) \<and> ls = s) \<or>
     (\<exists>ch1 ch2. live RefreshAccessToken s ch1 = ((None, ls), ch2)) \<or>
     (\<exists>s1 ch1 ch2. live (\<lambda>n. Login n (lv_creds s1)) s1 ch1 = ((None, ls), ch2)))"
proof -
  obtain s where s: "sc_session ch = Some s" using assms(1) by (cases "sc_session ch") (simp_all add: EnsureSession_def)
  define ch1 where "ch1 = ch\<lparr>sc_world := w\<rparr>"
  obtain x s1 ch2 where r: "live RefreshAccessToken s ch1 = ((x, s1), ch2)" by (metis surj_pair)
  obtain y s2 ch3 where l: "live (\<lambda>n. Login n (lv_creds s1)) s1 ch2 = ((y, s2), ch3)" by (metis surj_pair)
  note run = assms(1)[unfolded EnsureSession_def s option.case sc_out_def assms(2) prod.case Let_def, folded ch1_def, unfolded r prod.case l]
  show ?thesis
  proof (cases "tk_AccessExp (lv_tokens s) = 0 \<or> tk_AccessExp (lv_tokens s) - now < 3600")
    case True
    then show ?thesis using run r l s by (cases x; cases y) auto
  next
    case False
    then show ?thesis using run s by auto
  qed
qed

text \<open>What the walk over the offers counts as accepted was listed, active or waiting for a confirmation, and free; each was accepted by
  the call that looks at the offer once more.\<close>

definition accepted_free :: "'w steam_env \<Rightarrow> string \<Rightarrow> rawOffer \<Rightarrow> bool" where
  "accepted_free e i x \<longleftrightarrow> of_TradeOfferID x = i \<and> IsZeroCost x \<and> of_TradeOfferState x \<in> {2, 9} \<and>
     (\<exists>(s1 :: 'w live_session) (ch1 :: 'w steam_channel) s2 ch2. live (\<lambda>n. AcceptZeroCostTradeOffer n (lv_creds s1) i) s1 ch1 = ((Inr True, s2), ch2))"

lemma accept_walk_counts:
  assumes "accept_walk e xs a k s ch = ((a', k', err), ch')"
  shows "\<exists>ids. length ids = a' - a \<and> a \<le> a' \<and> (\<forall>i \<in> set ids. \<exists>x \<in> set xs. accepted_free e i x)"
  using assms
proof (induction xs arbitrary: a k s ch)
  case (Cons x xs)
  have skip: ?case if "accept_walk e xs a k2 s2 ch2 = ((a', k', err), ch')" for k2 s2 ch2
    using Cons.IH[OF that] by (metis list.set_intros(2))
  show ?case
  proof (cases "of_TradeOfferState x \<notin> {2, 9} \<or> \<not> IsZeroCost x")
    case True
    then show ?thesis using Cons.prems skip by (auto split: if_splits)
  next
    case False
    obtain r s2 ch2 where l: "live (\<lambda>n. AcceptZeroCostTradeOffer n (lv_creds s) (of_TradeOfferID x)) s ch = ((r, s2), ch2)" by (metis surj_pair)
    have run: "(case r of Inl y \<Rightarrow> ((a, k, Some y), ch2) | Inr ok \<Rightarrow>
        if ok then accept_walk e xs (a + 1) k s2 (offer_audit e (of_TradeOfferID x) ch2) else accept_walk e xs a k s2 ch2) = ((a', k', err), ch')"
    proof -
      have c: "\<not> of_TradeOfferState x \<notin> {2, 9}" "\<not> \<not> IsZeroCost x" using False by blast+
      show ?thesis using Cons.prems unfolding accept_walk.simps if_not_P[OF c(1)] if_not_P[OF c(2)] l by (cases r) simp_all
    qed
    show ?thesis
    proof (cases r)
      case (Inl y)
      then show ?thesis using run by (intro exI[of _ "[]"]) simp
    next
      case (Inr ok)
      show ?thesis
      proof (cases ok)
        case True
        obtain ids where ids: "length ids = a' - (a + 1)" "a + 1 \<le> a'" "\<forall>i \<in> set ids. \<exists>x \<in> set xs. accepted_free e i x" using Cons.IH run Inr True by fastforce
        have "accepted_free e (of_TradeOfferID x) x" using False l Inr True by (auto simp: accepted_free_def)
        then show ?thesis using ids by (intro exI[of _ "of_TradeOfferID x # ids"]) auto
      next
        case no: False
        then show ?thesis using run Inr skip by simp
      qed
    qed
  qed
qed auto

end
