(* ===== verification/PanelLists.thy ===== *)
theory PanelLists
  imports RepriceStore OrderStore StrategyStore "HOL-Library.Multiset" "HOL-Library.Sublist"
begin

text \<open>
  The lists the panel reads from the store: templates, inventory, orders, listings with their last decision, and price
  actions (\<open>store/business.go\<close>, \<open>store/collect.go\<close>, \<open>store/panel.go\<close>), with their filters, orders and pages. \<open>ILIKE\<close>
  compares after the database's own \<open>lower\<close>, which depends on its locale and is the parameter \<open>low\<close>; text columns
  sort by bytes.
\<close>

section \<open>Matching and ordering\<close>

definition continuation :: "char \<Rightarrow> bool" where
  "continuation c \<longleftrightarrow> (of_char c :: int) div 64 = 2"

text \<open>\<open>LIKE\<close> walks over characters, so a wildcard takes a whole UTF-8 sequence.\<close>

definition next_char :: "string \<Rightarrow> string" where
  "next_char s = dropWhile continuation (tl s)"

lemma next_char_shorter: "s \<noteq> [] \<Longrightarrow> length (next_char s) < length s"
  using length_dropWhile_le[of continuation "tl s"] by (cases s) (simp_all add: next_char_def)

function like :: "string \<Rightarrow> string \<Rightarrow> bool" where
  "like s [] = (s = [])"
| "like s (c # p) =
    (if c = CHR ''%'' then like s p \<or> (if s = [] then False else like (next_char s) (c # p))
     else if c = CHR ''_'' then (if s = [] then False else like (next_char s) p)
     else if c = CHR 0x5C then (case p of [] \<Rightarrow> False | d # p \<Rightarrow> (case s of [] \<Rightarrow> False | x # s \<Rightarrow> x = d \<and> like s p))
     else (case s of [] \<Rightarrow> False | x # s \<Rightarrow> x = c \<and> like s p))"
  by pat_completeness auto
termination
  by (relation "measure (\<lambda>(s, p). length s + length p)") (simp_all add: next_char_shorter trans_less_add2 less_SucI next_char_shorter[THEN less_SucI])

definition ILIKE :: "(string \<Rightarrow> string) \<Rightarrow> string \<Rightarrow> string \<Rightarrow> bool" where
  "ILIKE low s p \<longleftrightarrow> like (low s) (low p)"

definition contains_pattern :: "string \<Rightarrow> string" where
  "contains_pattern search = ''%'' @ search @ ''%''"

text \<open>\<open>ORDER BY\<close> as a stable insertion sort; \<open>before a b\<close> says that \<open>a\<close> must come first.\<close>

fun insert_by :: "('r \<Rightarrow> 'r \<Rightarrow> bool) \<Rightarrow> 'r \<Rightarrow> 'r list \<Rightarrow> 'r list" where
  "insert_by before x [] = [x]"
| "insert_by before x (y # ys) = (if before y x then y # insert_by before x ys else x # y # ys)"

definition order_by :: "('r \<Rightarrow> 'r \<Rightarrow> bool) \<Rightarrow> 'r list \<Rightarrow> 'r list" where
  "order_by before rs = foldr (insert_by before) rs []"

definition by_asc :: "('r \<Rightarrow> 'k::ord) \<Rightarrow> 'r \<Rightarrow> 'r \<Rightarrow> bool" where
  "by_asc g a b \<longleftrightarrow> g a < g b"

definition by_desc :: "('r \<Rightarrow> 'k::ord) \<Rightarrow> 'r \<Rightarrow> 'r \<Rightarrow> bool" where
  "by_desc g a b \<longleftrightarrow> g b < g a"

definition then_by :: "('r \<Rightarrow> 'r \<Rightarrow> bool) \<Rightarrow> ('r \<Rightarrow> 'r \<Rightarrow> bool) \<Rightarrow> 'r \<Rightarrow> 'r \<Rightarrow> bool" where
  "then_by p q a b \<longleftrightarrow> p a b \<or> (\<not> p b a \<and> q a b)"

definition asc_nulls_last :: "('r \<Rightarrow> 'k::ord option) \<Rightarrow> 'r \<Rightarrow> 'r \<Rightarrow> bool" where
  "asc_nulls_last g a b \<longleftrightarrow> (case (g a, g b) of (Some x, Some y) \<Rightarrow> x < y | (Some _, None) \<Rightarrow> True | _ \<Rightarrow> False)"

definition desc_nulls_last :: "('r \<Rightarrow> 'k::ord option) \<Rightarrow> 'r \<Rightarrow> 'r \<Rightarrow> bool" where
  "desc_nulls_last g a b \<longleftrightarrow> (case (g a, g b) of (Some x, Some y) \<Rightarrow> y < x | (Some _, None) \<Rightarrow> True | _ \<Rightarrow> False)"

definition desc_nulls_first :: "('r \<Rightarrow> 'k::ord option) \<Rightarrow> 'r \<Rightarrow> 'r \<Rightarrow> bool" where
  "desc_nulls_first g a b \<longleftrightarrow> (case (g a, g b) of (Some x, Some y) \<Rightarrow> y < x | (None, Some _) \<Rightarrow> True | _ \<Rightarrow> False)"

section \<open>Pages\<close>

definition normalizePage :: "int \<Rightarrow> int \<Rightarrow> int \<times> int" where
  "normalizePage limit offset = (if limit \<le> 0 \<or> 200 < limit then 50 else limit, if offset < 0 then 0 else offset)"

text \<open>The count and the page are two statements over the same conditions.\<close>

definition counted_page ::
    "(tables \<Rightarrow> 'r list) \<Rightarrow> ('r \<Rightarrow> 'r \<Rightarrow> bool) \<Rightarrow> (tables \<Rightarrow> 'r \<Rightarrow> goerr + 'a) \<Rightarrow> int \<Rightarrow> int \<Rightarrow> session \<Rightarrow> (goerr + 'a list \<times> nat) \<times> session" where
  "counted_page rows before scan limit offset s =
    (case Query (\<lambda>t. length (rows t)) s of
       (Inl e, s) \<Rightarrow> (Inl e, s)
     | (Inr n, s) \<Rightarrow>
        (case normalizePage limit offset of (psize, poff) \<Rightarrow>
          (case QueryE (\<lambda>t. scan_rows (scan t) (page psize poff (order_by before (rows t)))) s of
             (Inl e, s) \<Rightarrow> (Inl e, s) | (Inr xs, s) \<Rightarrow> (Inr (xs, n), s))))"

definition given :: "string \<Rightarrow> bool \<Rightarrow> bool" where
  "given v b \<longleftrightarrow> v \<noteq> '''' \<longrightarrow> b"

section \<open>Templates\<close>

definition by_hash :: "template_row \<Rightarrow> template_row \<Rightarrow> bool" where
  "by_hash = by_asc T_hash_name"

definition ListTemplates :: "int \<Rightarrow> int \<Rightarrow> session \<Rightarrow> (goerr + template_row list) \<times> session" where
  "ListTemplates limit offset = Query (\<lambda>t.
     let rows = order_by by_hash (templates t)
     in if 0 < limit then page (if 200 < limit then 200 else limit) (if offset < 0 then 0 else offset) rows else rows)"

definition template_where :: "(string \<Rightarrow> string) \<Rightarrow> string \<Rightarrow> string \<Rightarrow> template_row \<Rightarrow> bool" where
  "template_where low search blacklist r \<longleftrightarrow>
    given search (ILIKE low (T_hash_name r) (contains_pattern search) \<or> ILIKE low (T_display_name r) (contains_pattern search))
    \<and> given blacklist (T_blacklisted r = (blacklist = ''true''))"

definition SearchTemplates :: "(string \<Rightarrow> string) \<Rightarrow> string \<Rightarrow> string \<Rightarrow> int \<Rightarrow> int \<Rightarrow> session \<Rightarrow> (goerr + template_row list \<times> nat) \<times> session" where
  "SearchTemplates low search blacklist =
    counted_page (\<lambda>t. filter (template_where low search blacklist) (templates t)) by_hash (\<lambda>_. Inr)"

section \<open>Inventory\<close>

record InventoryFilter =
  if_Channel :: channel
  if_Status :: string
  if_Search :: string
  if_Limit :: int
  if_Offset :: int
  if_Category :: string
  if_Sort :: string
  if_HashName :: string
  if_AssetID :: string
  if_CostMissing :: bool

record InventoryRow =
  iv_ID :: int
  iv_Channel :: channel
  iv_AssetID :: string
  iv_HashName :: string
  iv_MarketHash :: string
  iv_TemplateID :: "int option"
  iv_MarkPrice :: f64
  iv_Tradable :: bool
  iv_Status :: string
  iv_CostBasis :: f64
  iv_Category :: string
  iv_CostSource :: string
  iv_CostModifiedAt :: "instant option"
  iv_LastSyncedAt :: "instant option"

text \<open>A channel that is not one of the two is no condition at all.\<close>

definition inventory_where :: "(string \<Rightarrow> string) \<Rightarrow> InventoryFilter \<Rightarrow> tables \<Rightarrow> inventory_row \<Rightarrow> bool" where
  "inventory_where low f t i \<longleftrightarrow>
    (Valid (if_Channel f) \<longrightarrow> I_channel i = if_Channel f)
    \<and> given (if_Status f) (I_status i = if_Status f)
    \<and> given (if_Search f) (let p = contains_pattern (if_Search f) in
        ILIKE low (I_market_hash_name i) p \<or> ILIKE low (I_hash_name i) p \<or> ILIKE low (I_asset_id i) p)
    \<and> given (if_HashName f) (I_hash_name i = if_HashName f)
    \<and> given (if_AssetID f) (I_asset_id i = if_AssetID f)
    \<and> given (if_Category f) (category_of t (I_hash_name i) = if_Category f)
    \<and> (if_CostMissing f \<longrightarrow> or0 (I_cost_basis i) \<le> Fin 0)"

definition inventory_order :: "string \<Rightarrow> inventory_row \<Rightarrow> inventory_row \<Rightarrow> bool" where
  "inventory_order srt =
    (if srt = ''name'' then then_by (by_asc I_hash_name) (by_asc I_id)
     else if srt = ''price_desc'' then then_by (desc_nulls_first I_mark_price) (by_asc I_id)
     else if srt = ''price_asc'' then then_by (asc_nulls_last I_mark_price) (by_asc I_id)
     else if srt = ''cost_desc'' then then_by (desc_nulls_last I_cost_basis) (by_asc I_id)
     else by_asc I_id)"

definition scan_inventory :: "tables \<Rightarrow> inventory_row \<Rightarrow> goerr + InventoryRow" where
  "scan_inventory t i = (case I_mark_price i of None \<Rightarrow> Inl scan_null
    | Some mark \<Rightarrow> Inr \<lparr>iv_ID = I_id i, iv_Channel = I_channel i, iv_AssetID = I_asset_id i, iv_HashName = I_hash_name i,
        iv_MarketHash = I_market_hash_name i, iv_TemplateID = I_template_id i, iv_MarkPrice = mark, iv_Tradable = I_tradable i,
        iv_Status = I_status i, iv_CostBasis = or0 (I_cost_basis i), iv_Category = category_of t (I_hash_name i),
        iv_CostSource = I_cost_source i, iv_CostModifiedAt = I_cost_modified_at i, iv_LastSyncedAt = Some (I_last_synced_at i)\<rparr>)"

definition ListInventory :: "(string \<Rightarrow> string) \<Rightarrow> InventoryFilter \<Rightarrow> session \<Rightarrow> (goerr + InventoryRow list \<times> nat) \<times> session" where
  "ListInventory low f = counted_page (\<lambda>t. filter (inventory_where low f t) (inventory_items t)) (inventory_order (if_Sort f)) scan_inventory
     (if_Limit f) (if_Offset f)"

section \<open>Orders\<close>

record OrderFilter =
  of_Channel :: channel
  of_Status :: string
  of_Limit :: int
  of_Offset :: int
  of_Search :: string
  of_HashName :: string
  of_AssetID :: string
  of_OrderType :: string
  of_View :: string
  of_Sort :: string
  of_Since :: instant
  of_Until :: instant

record OrderRow =
  ov_ID :: int
  ov_Channel :: channel
  ov_OrderRef :: string
  ov_HashName :: string
  ov_AssetID :: string
  ov_OrderType :: string
  ov_Status :: string
  ov_RentDays :: int
  ov_RentPrice :: f64
  ov_Amount :: f64
  ov_Deposits :: f64
  ov_StartedAt :: "instant option"
  ov_DueAt :: "instant option"
  ov_FinishedAt :: "instant option"

definition view_where :: "string \<Rightarrow> string \<Rightarrow> bool" where
  "view_where view st \<longleftrightarrow>
    (if view = ''attention'' then st \<in> set [''pending_payment'', ''delivering'', ''returning'', ''arbitrating'', ''breach'', ''unknown'']
     else if view = ''active'' then st = ''leasing''
     else if view = ''history'' then st \<in> set [''done'', ''bought_out'', ''cancelled'']
     else True)"

definition since_where :: "instant \<Rightarrow> instant option \<Rightarrow> bool" where
  "since_where t v \<longleftrightarrow> \<not> IsZero t \<longrightarrow> (case v of None \<Rightarrow> False | Some x \<Rightarrow> t \<le> x)"

definition until_where :: "instant \<Rightarrow> instant option \<Rightarrow> bool" where
  "until_where t v \<longleftrightarrow> \<not> IsZero t \<longrightarrow> (case v of None \<Rightarrow> False | Some x \<Rightarrow> x < t)"

definition order_where :: "(string \<Rightarrow> string) \<Rightarrow> OrderFilter \<Rightarrow> order_row \<Rightarrow> bool" where
  "order_where low f x \<longleftrightarrow>
    (Valid (of_Channel f) \<longrightarrow> O_channel x = of_Channel f)
    \<and> given (of_Status f) (O_status x = of_Status f)
    \<and> given (of_Search f) (let p = contains_pattern (of_Search f) in ILIKE low (O_hash_name x) p \<or> ILIKE low (O_order_ref x) p)
    \<and> given (of_HashName f) (O_hash_name x = of_HashName f)
    \<and> given (of_AssetID f) (O_asset_id x = of_AssetID f)
    \<and> given (of_OrderType f) (O_order_type x = of_OrderType f)
    \<and> view_where (of_View f) (O_status x)
    \<and> since_where (of_Since f) (O_started_at x) \<and> until_where (of_Until f) (O_started_at x)"

definition order_order :: "string \<Rightarrow> order_row \<Rightarrow> order_row \<Rightarrow> bool" where
  "order_order srt =
    (if srt = ''due_asc'' then then_by (asc_nulls_last O_due_at) (by_desc O_id)
     else if srt = ''started_desc'' then then_by (desc_nulls_last O_started_at) (by_desc O_id)
     else if srt = ''amount_desc'' then then_by (by_desc O_order_amount) (by_desc O_id)
     else by_desc O_id)"

definition scan_order :: "order_row \<Rightarrow> OrderRow" where
  "scan_order x = \<lparr>ov_ID = O_id x, ov_Channel = O_channel x, ov_OrderRef = O_order_ref x, ov_HashName = O_hash_name x,
     ov_AssetID = O_asset_id x, ov_OrderType = O_order_type x, ov_Status = O_status x, ov_RentDays = O_rent_days x,
     ov_RentPrice = O_rent_price x, ov_Amount = O_order_amount x, ov_Deposits = O_deposits x, ov_StartedAt = O_started_at x,
     ov_DueAt = O_due_at x, ov_FinishedAt = O_finished_at x\<rparr>"

definition ListOrders :: "(string \<Rightarrow> string) \<Rightarrow> OrderFilter \<Rightarrow> session \<Rightarrow> (goerr + OrderRow list \<times> nat) \<times> session" where
  "ListOrders low f = counted_page (\<lambda>t. filter (order_where low f) (lease_orders t)) (order_order (of_Sort f)) (\<lambda>_ x. Inr (scan_order x))
     (of_Limit f) (of_Offset f)"

section \<open>Listings\<close>

record ListingFilter =
  lf_Channel :: channel
  lf_State :: string
  lf_Limit :: int
  lf_Offset :: int
  lf_HashName :: string
  lf_AssetID :: string
  lf_Search :: string
  lf_Mismatch :: bool

record LastDecision =
  ld_ID :: int
  ld_DryRun :: bool
  ld_Success :: bool
  ld_Action :: string
  ld_At :: "instant option"
  ld_NewRent :: "f64 option"
  ld_Skip :: string

record ListingRow =
  lv_ID :: int
  lv_Channel :: channel
  lv_AssetID :: string
  lv_HashName :: string
  lv_GoodsRef :: string
  lv_DesiredState :: string
  lv_ActualState :: string
  lv_RentPrice :: f64
  lv_LongRentPrice :: f64
  lv_MaxDays :: int
  lv_Deposit :: f64
  lv_ListedAt :: "instant option"
  lv_LastRepriceAt :: "instant option"
  lv_Factor :: f64
  lv_Last :: "LastDecision option"

definition mismatched :: "listing_row \<Rightarrow> bool" where
  "mismatched l \<longleftrightarrow> L_mismatch_since l \<noteq> None
    \<or> (L_desired_state l = ''active'' \<and> L_actual_state l \<noteq> ''active'' \<and> L_actual_state l \<noteq> ''leased'')
    \<or> ((L_desired_state l = ''none'' \<or> L_desired_state l = ''delisted'') \<and> L_actual_state l = ''active'')"

definition listing_where :: "(string \<Rightarrow> string) \<Rightarrow> ListingFilter \<Rightarrow> listing_row \<Rightarrow> bool" where
  "listing_where low f l \<longleftrightarrow>
    (Valid (lf_Channel f) \<longrightarrow> L_channel l = lf_Channel f)
    \<and> given (lf_State f) (L_actual_state l = lf_State f)
    \<and> given (lf_HashName f) (L_hash_name l = lf_HashName f)
    \<and> given (lf_AssetID f) (L_asset_id l = lf_AssetID f)
    \<and> given (lf_Search f) (let p = contains_pattern (lf_Search f) in
        ILIKE low (L_hash_name l) p \<or> ILIKE low (L_asset_id l) p \<or> ILIKE low (L_goods_ref l) p)
    \<and> (lf_Mismatch f \<longrightarrow> mismatched l)"

definition last_action :: "tables \<Rightarrow> int \<Rightarrow> action_row option" where
  "last_action t i = first_by (by_desc A_id) (filter (\<lambda>a. A_listing_id a = Some i) (price_actions t))"

definition skip_of :: "json option \<Rightarrow> string" where
  "skip_of d = (case d of None \<Rightarrow> ''''
    | Some j \<Rightarrow> (case to_struct [string_field ''skip'' (\<lambda>v _. v)] j '''' of None \<Rightarrow> '''' | Some v \<Rightarrow> v))"

definition last_decision :: "action_row \<Rightarrow> LastDecision" where
  "last_decision a = \<lparr>ld_ID = A_id a, ld_DryRun = A_dry_run a, ld_Success = A_success a, ld_Action = A_action a, ld_At = Some (A_ts a),
     ld_NewRent = A_new_rent a, ld_Skip = skip_of (A_decision a)\<rparr>"

definition scan_listing :: "tables \<Rightarrow> listing_row \<Rightarrow> goerr + ListingRow" where
  "scan_listing t l = (case L_rent_price l of None \<Rightarrow> Inl scan_null
    | Some rent \<Rightarrow> Inr \<lparr>lv_ID = L_id l, lv_Channel = L_channel l, lv_AssetID = L_asset_id l, lv_HashName = L_hash_name l,
        lv_GoodsRef = L_goods_ref l, lv_DesiredState = L_desired_state l, lv_ActualState = L_actual_state l, lv_RentPrice = rent,
        lv_LongRentPrice = or0 (L_long_rent_price l), lv_MaxDays = (case L_max_days l of None \<Rightarrow> 0 | Some d \<Rightarrow> d),
        lv_Deposit = or0 (L_deposit l), lv_ListedAt = L_listed_at l, lv_LastRepriceAt = L_last_reprice_at l, lv_Factor = L_factor l,
        lv_Last = map_option last_decision (last_action t (L_id l))\<rparr>)"

definition ListListings :: "(string \<Rightarrow> string) \<Rightarrow> ListingFilter \<Rightarrow> session \<Rightarrow> (goerr + ListingRow list \<times> nat) \<times> session" where
  "ListListings low f = counted_page (\<lambda>t. filter (listing_where low f) (listings t)) (by_desc L_id) scan_listing (lf_Limit f) (lf_Offset f)"

section \<open>Price actions\<close>

record PriceActionFilter =
  pf_Channel :: string
  pf_HashName :: string
  pf_AssetID :: string
  pf_Action :: string
  pf_Mode :: string
  pf_Result :: string
  pf_ListingID :: int
  pf_ID :: int
  pf_Since :: instant
  pf_Until :: instant
  pf_Limit :: int
  pf_Offset :: int

record PriceActionRow =
  pv_Row :: action_row
  pv_Decision :: json
  pv_Error :: string

definition result_where :: "string \<Rightarrow> action_row \<Rightarrow> bool" where
  "result_where res a \<longleftrightarrow>
    (if res = ''skip'' then A_action a = ''skip''
     else if res = ''success'' then A_action a \<noteq> ''skip'' \<and> A_success a
     else if res = ''failed'' then \<not> A_success a
     else True)"

definition action_where :: "PriceActionFilter \<Rightarrow> action_row \<Rightarrow> bool" where
  "action_where f a \<longleftrightarrow>
    given (pf_Channel f) (A_channel a = pf_Channel f)
    \<and> given (pf_HashName f) (A_hash_name a = pf_HashName f)
    \<and> given (pf_AssetID f) (A_asset_id a = pf_AssetID f)
    \<and> given (pf_Action f) (A_action a = pf_Action f)
    \<and> (0 < pf_ListingID f \<longrightarrow> A_listing_id a = Some (pf_ListingID f))
    \<and> (0 < pf_ID f \<longrightarrow> A_id a = pf_ID f)
    \<and> given (pf_Mode f) (A_dry_run a = (pf_Mode f = ''dry_run''))
    \<and> result_where (pf_Result f) a
    \<and> since_where (pf_Since f) (Some (A_ts a)) \<and> until_where (pf_Until f) (Some (A_ts a))"

text \<open>The stored error text never leaves the database; the message points at the channel status and the log.\<close>

definition action_failed_text :: string where
  "action_failed_text = map char_of [0xE6::int, 0x89, 0xA7, 0xE8, 0xA1, 0x8C, 0xE5, 0xA4, 0xB1, 0xE8, 0xB4, 0xA5, 0xEF, 0xBC, 0x8C, 0xE8, 0xAF, 0xB7,
     0xE6, 0xA3, 0x80, 0xE6, 0x9F, 0xA5, 0xE6, 0xB8, 0xA0, 0xE9, 0x81, 0x93, 0xE7, 0x8A, 0xB6, 0xE6, 0x80, 0x81, 0xE6, 0x88, 0x96, 0xE6, 0x9C, 0x8D,
     0xE5, 0x8A, 0xA1, 0xE7, 0xAB, 0xAF, 0xE6, 0x97, 0xA5, 0xE5, 0xBF, 0x97]"

definition action_view :: "action_row \<Rightarrow> PriceActionRow" where
  "action_view a = \<lparr>pv_Row = a, pv_Decision = (case A_decision a of None \<Rightarrow> JObj [] | Some j \<Rightarrow> j),
     pv_Error = (case A_error a of None \<Rightarrow> '''' | Some e \<Rightarrow> if e = '''' then '''' else action_failed_text)\<rparr>"

definition ListPriceActions :: "PriceActionFilter \<Rightarrow> session \<Rightarrow> (goerr + PriceActionRow list \<times> nat) \<times> session" where
  "ListPriceActions f = counted_page (\<lambda>t. filter (action_where f) (price_actions t)) (by_desc A_id) (\<lambda>_ a. Inr (action_view a))
     (pf_Limit f) (pf_Offset f)"

section \<open>Searching and paging\<close>

declare like.simps [simp del]

lemma like_end [simp]: "like s [] \<longleftrightarrow> s = []"
  by (simp add: like.simps(1))

lemma like_percent: "like s (CHR ''%'' # p) \<longleftrightarrow> like s p \<or> (s \<noteq> [] \<and> like (next_char s) (CHR ''%'' # p))"
  by (subst like.simps(2)) (simp del: like_end)

definition plain :: "char \<Rightarrow> bool" where
  "plain c \<longleftrightarrow> c \<noteq> CHR ''%'' \<and> c \<noteq> CHR ''_'' \<and> c \<noteq> CHR 0x5C"

lemma like_plain [simp]:
  assumes "plain c"
  shows "like [] (c # p) \<longleftrightarrow> False" "like (x # s) (c # p) \<longleftrightarrow> x = c \<and> like s p"
proof -
  have c: "(c = CHR ''%'') = False" "(c = CHR ''_'') = False" "(c = CHR 0x5C) = False" using assms by (simp_all add: plain_def)
  show "like [] (c # p) \<longleftrightarrow> False" by (subst like.simps(2)) (simp only: c if_False list.case)
  show "like (x # s) (c # p) \<longleftrightarrow> x = c \<and> like s p" by (subst like.simps(2)) (simp only: c if_False list.case)
qed

lemma like_all [simp]: "like s ''%''"
proof (induction s rule: length_induct)
  case (1 s)
  show ?case
  proof (cases "s = []")
    case False
    then have "like (next_char s) ''%''" using 1 next_char_shorter by blast
    then show ?thesis using False by (subst like_percent) blast
  next
    case True
    show ?thesis by (subst like_percent) (simp add: True)
  qed
qed

lemma like_prefix: "list_all plain w \<Longrightarrow> like s (w @ ''%'') \<longleftrightarrow> prefix w s"
proof (induction w arbitrary: s)
  case (Cons c w)
  then have c: "plain c" and w: "list_all plain w" by simp_all
  show ?case
  proof (cases s)
    case Nil
    then show ?thesis using c by simp
  next
    case (Cons x s)
    then show ?thesis using c Cons.IH[OF w] by (auto simp: prefix_Cons)
  qed
qed simp

text \<open>A search text without wildcards finds exactly the texts that contain it, where every byte is a character.\<close>

lemma like_contains:
  assumes w: "list_all plain w" and s: "list_all (\<lambda>c. \<not> continuation c) s"
  shows "like s (contains_pattern w) \<longleftrightarrow> sublist w s"
  using s
proof (induction s)
  case Nil
  show ?case unfolding contains_pattern_def append.simps by (subst like_percent) (simp add: like_prefix[OF w])
next
  case (Cons x s)
  have "next_char (x # s) = s" using Cons.prems by (cases s) (simp_all add: next_char_def)
  moreover have "like s (contains_pattern w) \<longleftrightarrow> sublist w s" using Cons by simp
  moreover have "like (x # s) (contains_pattern w) \<longleftrightarrow> like (x # s) (w @ ''%'') \<or> like (next_char (x # s)) (contains_pattern w)"
    unfolding contains_pattern_def append.simps by (subst like_percent) simp
  ultimately show ?case by (simp only: like_prefix[OF w] sublist_Cons_right)
qed

lemma mset_insert_by: "mset (insert_by b x xs) = add_mset x (mset xs)"
  by (induction xs) auto

lemma mset_order_by [simp]: "mset (order_by b rs) = mset rs"
  by (induction rs) (simp_all add: order_by_def mset_insert_by)

lemma length_order_by [simp]: "length (order_by b rs) = length rs"
  using mset_order_by[of b rs] by (metis size_mset)

lemma concat_pages: "concat (map (\<lambda>k. page sz (int k * sz) xs) [0..<n]) = take (n * nat sz) xs"
proof (cases "0 \<le> sz")
  case True
  then have *: "nat (int k * sz) = k * nat sz" for k by (simp add: nat_mult_distrib)
  show ?thesis by (induction n) (simp_all add: page_def * take_add add.commute[of _ "_ * _"])
qed (simp add: page_def)

lemma scan_rows_Inr: "scan_rows (\<lambda>x. Inr (f x)) xs = Inr (map f xs)"
  by (induction xs) simp_all

lemma map_page: "map f (page k m xs) = page k m (map f xs)"
  by (simp add: page_def take_map drop_map)

lemma counted_page_run:
  assumes "faults s = []" "0 < sz" "sz \<le> 200" "0 \<le> off"
  shows "counted_page rows b (\<lambda>_ x. Inr (f x)) sz off s
    = (Inr (page sz off (map f (order_by b (rows (db s)))), length (rows (db s))), s)"
  using assms by (simp add: counted_page_def Query_def QueryE_def normalizePage_def scan_rows_Inr map_page)

text \<open>All pages of a list together.\<close>

lemma pages_cover:
  assumes "faults s = []" "0 < sz" "sz \<le> 200" "length (rows (db s)) \<le> n * nat sz"
  shows "\<exists>pages. length pages = n
    \<and> (\<forall>k<n. counted_page rows b (\<lambda>_ x. Inr (f x)) sz (int k * sz) s = (Inr (pages ! k, length (rows (db s))), s))
    \<and> concat pages = map f (order_by b (rows (db s)))"
  using assms by (intro exI[of _ "map (\<lambda>k. page sz (int k * sz) (map f (order_by b (rows (db s))))) [0..<n]"])
    (simp add: counted_page_run concat_pages)

end
