(* ===== verification/FinanceStore.thy ===== *)
theory FinanceStore
  imports PanelLists FactorJob Civil
begin

text \<open>
  The panel's figures: the view \<open>physical_inventory\<close> (\<open>migrations/0010_financial_projection.up.sql\<close>), the reads over
  it and over the daily figures (\<open>store/analytics.go\<close>, \<open>store/panel.go\<close>), wallet snapshots, and the dashboard built
  from them (\<open>internal/analytics/analytics.go\<close>). A sum of money columns is computed by the database in cents and read
  as the nearest float64. Grouped rows without \<open>ORDER BY\<close> come in the order of their first row, which nothing uses.
\<close>

section \<open>Physical assets\<close>

text \<open>A row per channel is an observation; rows with the same asset id are one asset.\<close>

record physical_row =
  ph_key :: string
  ph_asset_id :: string
  ph_hash_name :: string
  ph_status :: string
  ph_cost_basis :: "f64 option"
  ph_cost_source :: "string option"
  ph_cost_updated_at :: "instant option"

definition physical_key :: "inventory_row \<Rightarrow> string" where
  "physical_key i = (if I_asset_id i \<noteq> '''' then ''asset:'' @ I_asset_id i else ''row:'' @ dec_int (I_id i))"

definition seen_first :: "inventory_row \<Rightarrow> inventory_row \<Rightarrow> bool" where
  "seen_first = then_by (by_asc (\<lambda>i. if I_status i = ''missing'' then (1::int) else 0)) (then_by (by_desc I_last_synced_at) (by_desc I_id))"

definition cost_first :: "inventory_row \<Rightarrow> inventory_row \<Rightarrow> bool" where
  "cost_first = then_by (by_asc (\<lambda>i. if I_cost_source i = ''manual'' then (0::int) else 1)) (then_by (desc_nulls_last I_cost_modified_at) (by_desc I_id))"

definition observed :: "inventory_row list \<Rightarrow> inventory_row list" where
  "observed rows = distinct_on physical_key (order_by (then_by (by_asc physical_key) seen_first) rows)"

definition costed :: "inventory_row list \<Rightarrow> string \<Rightarrow> inventory_row list" where
  "costed rows k = filter (\<lambda>i. physical_key i = k \<and> I_cost_basis i \<noteq> None) rows"

definition physical_inventory :: "tables \<Rightarrow> physical_row list" where
  "physical_inventory t = map (\<lambda>i.
     let k = physical_key i; cs = costed (inventory_items t) k; c = first_by cost_first cs in
     \<lparr>ph_key = k, ph_asset_id = I_asset_id i, ph_hash_name = I_hash_name i, ph_status = I_status i,
      ph_cost_basis = (case c of None \<Rightarrow> None | Some r \<Rightarrow> I_cost_basis r), ph_cost_source = map_option I_cost_source c,
      ph_cost_updated_at = min_null (map I_cost_updated_at cs)\<rparr>) (observed (inventory_items t))"

definition CostCoverage :: "session \<Rightarrow> (goerr + nat \<times> nat) \<times> session" where
  "CostCoverage = Query (\<lambda>t. (length (physical_inventory t), length (filter (\<lambda>p. Fin 0 < or0 (ph_cost_basis p)) (physical_inventory t))))"

text \<open>\<open>JOIN templates\<close>: the assets whose template the catalog holds.\<close>

definition template_known :: "tables \<Rightarrow> string \<Rightarrow> bool" where
  "template_known t h \<longleftrightarrow> h \<in> set (map T_hash_name (templates t))"

definition InventoryCategories :: "session \<Rightarrow> (goerr + string list) \<times> session" where
  "InventoryCategories = Query (\<lambda>t. sort (remdups (map (\<lambda>i. category_of t (I_hash_name i))
     (filter (\<lambda>i. template_known t (I_hash_name i)) (inventory_items t)))))"

section \<open>Sums\<close>

definition some_of :: "'a option list \<Rightarrow> 'a list" where
  "some_of xs = map the (filter (\<lambda>x. x \<noteq> None) xs)"

definition sql_sum :: "f64 option list \<Rightarrow> f64 option" where
  "sql_sum xs = (if some_of xs = [] then None else Some (cents (sum_list (map money_cents (some_of xs)))))"

definition AssetValuation :: "session \<Rightarrow> (goerr + f64) \<times> session" where
  "AssetValuation = Query (\<lambda>t. or0 (sql_sum (concat (map (\<lambda>p. map T_value_anchor (filter (\<lambda>r. T_hash_name r = ph_hash_name p) (templates t)))
     (filter (\<lambda>p. ph_status p \<in> set [''in_stock'', ''listed'', ''leased'']) (physical_inventory t))))))"

definition TotalCostEverBasis :: "session \<Rightarrow> (goerr + f64) \<times> session" where
  "TotalCostEverBasis = Query (\<lambda>t. or0 (sql_sum (map ph_cost_basis (physical_inventory t))))"

definition SoldCostBasis :: "session \<Rightarrow> (goerr + f64) \<times> session" where
  "SoldCostBasis = Query (\<lambda>t. or0 (sql_sum (map ph_cost_basis (filter (\<lambda>p. ph_status p = ''sold'') (physical_inventory t)))))"

definition FirstCostDate :: "session \<Rightarrow> (goerr + instant option) \<times> session" where
  "FirstCostDate = Query (\<lambda>t. min_null (map ph_cost_updated_at (filter (\<lambda>p. ph_cost_basis p \<noteq> None) (physical_inventory t))))"

definition HeldDeposits :: "session \<Rightarrow> (goerr + (channel \<times> f64) list) \<times> session" where
  "HeldDeposits = Query (\<lambda>t. let os = filter (\<lambda>x. O_status x = ''leasing'') (lease_orders t) in
     map (\<lambda>ch. (ch, or0 (sql_sum (map (Some \<circ> O_deposits) (filter (\<lambda>x. O_channel x = ch) os))))) (remdups (map O_channel os)))"

definition LeasedCount :: "session \<Rightarrow> (goerr + nat) \<times> session" where
  "LeasedCount = Query (\<lambda>t. length (filter (\<lambda>x. O_status x = ''leasing'') (lease_orders t)))"

section \<open>Income\<close>

record ChannelTotal =
  ct_Channel :: channel
  ct_Income :: f64
  ct_Orders :: int

definition income_where :: "(stat_row \<Rightarrow> bool) \<Rightarrow> tables \<Rightarrow> int \<times> int" where
  "income_where p t = (let bs = filter p (daily_stats t) in (sum_list (map B_income bs), sum_list (map B_order_count bs)))"

definition IncomeByChannel :: "session \<Rightarrow> (goerr + ChannelTotal list) \<times> session" where
  "IncomeByChannel = Query (\<lambda>t. map (\<lambda>ch. case income_where (\<lambda>b. B_channel b = ch) t of (inc, n) \<Rightarrow>
      \<lparr>ct_Channel = ch, ct_Income = cents inc, ct_Orders = n\<rparr>) (sort (remdups (map B_channel (daily_stats t)))))"

definition TodayIncome :: "session \<Rightarrow> (goerr + f64) \<times> session" where
  "TodayIncome s = Query (\<lambda>t. let bs = filter (\<lambda>b. B_stat_date b = day_of (db_now s)) (daily_stats t) in
     if bs = [] then Fin 0 else cents (sum_list (map B_income bs))) s"

record CategoryYield =
  cy_Category :: string
  cy_Cost :: f64
  cy_Income :: f64
  cy_Yield :: f64

definition cost_in :: "(physical_row \<Rightarrow> bool) \<Rightarrow> string \<Rightarrow> tables \<Rightarrow> int" where
  "cost_in p c t = sum_list (map (\<lambda>i. money_cents (or0 (ph_cost_basis i)))
     (filter (\<lambda>i. template_known t (ph_hash_name i) \<and> category_of t (ph_hash_name i) = c \<and> p i) (physical_inventory t)))"

definition category_yield :: "tables \<Rightarrow> string \<Rightarrow> CategoryYield" where
  "category_yield t c =
    (let cost = cents (cost_in (\<lambda>_. True) c t);
         inc = cents (fst (income_where (\<lambda>b. B_category b = c) t) - cost_in (\<lambda>i. ph_status i = ''sold'') c t)
     in \<lparr>cy_Category = c, cy_Cost = cost, cy_Income = inc, cy_Yield = (if Fin 0 < cost then inc / cost else Fin 0)\<rparr>)"

definition CategoryYields :: "session \<Rightarrow> (goerr + CategoryYield list) \<times> session" where
  "CategoryYields s = (case Query (\<lambda>t. map (category_yield t) (remdups (map (\<lambda>i. category_of t (ph_hash_name i))
       (filter (\<lambda>i. template_known t (ph_hash_name i)) (physical_inventory t))))) s of
     (Inl e, s) \<Rightarrow> (Inl (Wrap ''category yields: '' e), s) | (Inr cs, s) \<Rightarrow> (Inr cs, s))"

record DailyPoint =
  dp_Date :: string
  dp_Income :: f64
  dp_Orders :: int

definition IncomeSeries :: "int \<Rightarrow> session \<Rightarrow> (goerr + DailyPoint list) \<times> session" where
  "IncomeSeries days s = Query (\<lambda>t. map (\<lambda>d. case income_where (\<lambda>b. B_stat_date b = d) t of (inc, n) \<Rightarrow>
      \<lparr>dp_Date = date_text d, dp_Income = cents inc, dp_Orders = n\<rparr>)
    (sort (remdups (filter (\<lambda>d. day_of (db_now s) - days < d) (map B_stat_date (daily_stats t)))))) s"

section \<open>Wallet snapshots\<close>

definition walletFlowRef :: "channel \<Rightarrow> instant \<Rightarrow> int \<Rightarrow> string" where
  "walletFlowRef ch now n =
    (let s = now mod (24 * Hour) in
     ''wallet-'' @ ch @ ''-'' @ (case civil (day_of now) of (y, m, day) \<Rightarrow> padded 4 y @ padded 2 m @ padded 2 day)
       @ padded 2 (s div Hour) @ padded 2 (s div Minute mod 60) @ padded 2 (s div Second mod 60) @ ''.'' @ padded 9 (s mod Second)
       @ ''-'' @ padded 6 (n mod 1000000))"

text \<open>\<open>n\<close> is what \<open>walletRefSeq\<close> counts to; the two readings of the clock are one instant.\<close>

definition RecordWalletSnapshot :: "channel \<Rightarrow> f64 \<Rightarrow> instant \<Rightarrow> int \<Rightarrow> session \<Rightarrow> goerr option \<times> session" where
  "RecordWalletSnapshot ch amount now n = Exec (sql_insert_flow
     \<lparr>F_channel = ch, F_flow_ref = walletFlowRef ch now n, F_amount = round2Money amount, F_type = ''wallet_snapshot'', F_occurred_at = now\<rparr>)"

fun snapshot_wallets :: "(channel \<times> f64) list \<Rightarrow> instant \<Rightarrow> int \<Rightarrow> session \<Rightarrow> session" where
  "snapshot_wallets [] now n s = s"
| "snapshot_wallets ((ch, v) # ws) now n s = snapshot_wallets ws now (n + 1) (snd (RecordWalletSnapshot ch v now (n + 1) s))"

section \<open>The dashboard\<close>

definition NetIncome :: "f64 \<Rightarrow> f64 \<Rightarrow> f64" where
  "NetIncome gross soldCost = Round2 (gross - soldCost)"

text \<open>A negative span of days counts as one day, so \<open>Hours\<close> of a negative duration does not matter.\<close>

definition AnnualizedROI :: "f64 \<Rightarrow> f64 \<Rightarrow> instant \<Rightarrow> instant \<Rightarrow> f64" where
  "AnnualizedROI netIncome cost firstCost now =
    (if cost \<le> Fin 0 then Fin 0
     else let days = Hours (time_Sub now firstCost) / Fin 24;
              days = (if days < Fin 1 then Fin 1 else days);
              roi = (netIncome / cost) * (Fin 365 / days)
       in if is_inf roi \<or> is_nan roi then Fin 0 else fround (roi * Fin 10000) / Fin 10000)"

record Dashboard =
  da_Total :: f64
  da_Inventory :: f64
  da_Deposits :: "(channel \<times> f64) list"
  da_Wallets :: "(channel \<times> f64) list"
  da_Income :: f64
  da_Today :: f64
  da_ByChannel :: "ChannelTotal list"
  da_LeasedOut :: nat
  da_AnnualizedROI :: f64
  da_Categories :: "CategoryYield list"
  da_Series30d :: "DailyPoint list"
  da_ROIAvailable :: bool
  da_ObservationStartedAt :: "instant option"
  da_ObservationDays :: f64
  da_CostedItems :: nat
  da_InventoryItems :: nat
  da_CostTotal :: f64
  da_SoldCost :: f64

definition and_then :: "(session \<Rightarrow> (goerr + 'a) \<times> session) \<Rightarrow> ('a \<Rightarrow> session \<Rightarrow> (goerr + 'b) \<times> session) \<Rightarrow> session \<Rightarrow> (goerr + 'b) \<times> session" where
  "and_then m f s = (case m s of (Inl e, s) \<Rightarrow> (Inl e, s) | (Inr x, s) \<Rightarrow> f x s)"

definition rounded :: "(channel \<times> f64) list \<Rightarrow> (channel \<times> f64) list" where
  "rounded = map (\<lambda>(ch, v). (ch, Round2 v))"

definition add_up :: "f64 list \<Rightarrow> f64" where
  "add_up = foldl (+) (Fin 0)"

definition rounded_yield :: "CategoryYield \<Rightarrow> CategoryYield" where
  "rounded_yield c = c\<lparr>cy_Cost := Round2 (cy_Cost c), cy_Income := Round2 (cy_Income c), cy_Yield := fround (cy_Yield c * Fin 10000) / Fin 10000\<rparr>"

definition observe_costs :: "f64 \<Rightarrow> f64 \<Rightarrow> instant option \<Rightarrow> instant \<Rightarrow> Dashboard \<Rightarrow> Dashboard" where
  "observe_costs net cost first now d = (case first of None \<Rightarrow> d
     | Some f \<Rightarrow> if \<not> Fin 0 < cost then d
        else d\<lparr>da_ROIAvailable := True, da_ObservationStartedAt := Some f, da_ObservationDays := fmax (Fin 1) (Hours (time_Sub now f) / Fin 24),
               da_AnnualizedROI := AnnualizedROI net cost f now\<rparr>)"

text \<open>\<open>wallets\<close> lists the channels whose wallet answered, \<open>n\<close> is the wallet counter before the call.\<close>

definition BuildDashboard :: "(channel \<times> f64) list \<Rightarrow> instant \<Rightarrow> int \<Rightarrow> session \<Rightarrow> (goerr + Dashboard) \<times> session" where
  "BuildDashboard wallets now n =
    and_then AssetValuation (\<lambda>inv.
    and_then HeldDeposits (\<lambda>held.
    let held = rounded held; ws = rounded wallets; inventory = Round2 inv;
        total = Round2 (inventory + add_up (map snd held) + add_up (map snd ws)) in
    and_then IncomeByChannel (\<lambda>byCh.
    and_then TotalCostEverBasis (\<lambda>cost.
    and_then SoldCostBasis (\<lambda>sold.
    let net = NetIncome (add_up (map ct_Income byCh)) sold in
    and_then CostCoverage (\<lambda>(items, withCost).
    and_then TodayIncome (\<lambda>today.
    and_then LeasedCount (\<lambda>leased.
    and_then FirstCostDate (\<lambda>first.
    and_then CategoryYields (\<lambda>cats.
    and_then (IncomeSeries 30) (\<lambda>series s.
      (Inr (observe_costs net cost first now
        \<lparr>da_Total = total, da_Inventory = inventory, da_Deposits = held, da_Wallets = ws, da_Income = net, da_Today = Round2 today,
         da_ByChannel = byCh, da_LeasedOut = leased, da_AnnualizedROI = Fin 0, da_Categories = map rounded_yield cats, da_Series30d = series,
         da_ROIAvailable = False, da_ObservationStartedAt = None, da_ObservationDays = Fin 0, da_CostedItems = withCost,
         da_InventoryItems = items, da_CostTotal = Round2 cost, da_SoldCost = Round2 sold\<rparr>),
       snapshot_wallets wallets now n s))))))))))))"

end
