(* ===== verification/FinanceProps.thy ===== *)
theory FinanceProps
  imports FinanceStore IncomeProps
begin

text \<open>
  The dashboard's figures: assets seen on several channels count once and keep a cost entered by hand, the income shown
  is that of the ledger, and building the dashboard writes nothing but wallet snapshots.
\<close>

section \<open>Assets count once\<close>

lemma distinct_on_keys: "distinct (map g (distinct_on g rs)) \<and> set (map g (distinct_on g rs)) = set (map g rs) \<and> set (distinct_on g rs) \<subseteq> set rs"
proof (induction g rs rule: distinct_on.induct)
  case (2 g r rs)
  then show ?case by auto
qed simp

lemma set_order_by [simp]: "set (order_by b rs) = set rs"
  using mset_order_by[of b rs] by (metis set_mset_mset)

lemma observed_keys: "distinct (map physical_key (observed rows))" "set (map physical_key (observed rows)) = set (map physical_key rows)"
    "set (observed rows) \<subseteq> set rows"
  using distinct_on_keys[of physical_key "order_by (then_by (by_asc physical_key) seen_first) rows"] by (auto simp: observed_def)

lemma physical_keys: "map ph_key (physical_inventory t) = map physical_key (observed (inventory_items t))"
  by (simp add: physical_inventory_def Let_def)

lemma first_by_in: "first_by b xs = Some x \<Longrightarrow> x \<in> set xs"
proof -
  have "\<And>acc. foldl (\<lambda>best r. case best of None \<Rightarrow> Some r | Some c \<Rightarrow> if b r c then Some r else best) acc xs = Some x \<Longrightarrow> x \<in> set xs \<or> acc = Some x"
  proof (induction xs)
    case (Cons y ys)
    then show ?case by (fastforce split: option.splits if_splits)
  qed simp
  then show "first_by b xs = Some x \<Longrightarrow> ?thesis" unfolding first_by_def by fastforce
qed

lemma first_by_None: "first_by b xs = None \<longleftrightarrow> xs = []"
proof -
  have "\<And>a. foldl (\<lambda>best r. case best of None \<Rightarrow> Some r | Some c \<Rightarrow> if b r c then Some r else best) (Some a) ys \<noteq> None" for ys
    by (induction ys) simp_all
  then show ?thesis by (cases xs) (simp_all add: first_by_def)
qed

text \<open>A preference that every row with it keeps: the first row by that order has it when any row has it.\<close>

lemma first_by_prefers:
  assumes pref: "\<And>x y. P x \<Longrightarrow> \<not> P y \<Longrightarrow> b x y \<and> \<not> b y x" and "x \<in> set xs" "P x" "first_by b xs = Some r"
  shows "P r"
proof -
  have step: "P a \<Longrightarrow> foldl (\<lambda>best r. case best of None \<Rightarrow> Some r | Some c \<Rightarrow> if b r c then Some r else best) (Some a) ys = Some r \<Longrightarrow> P r" for a ys
  proof (induction ys arbitrary: a)
    case (Cons y ys)
    show ?case
    proof (cases "b y a")
      case True
      then have "P y" using pref Cons.prems(1) by blast
      then show ?thesis using Cons True by simp
    qed (use Cons in simp)
  qed simp
  have "foldl (\<lambda>best r. case best of None \<Rightarrow> Some r | Some c \<Rightarrow> if b r c then Some r else best) acc ys = Some r \<Longrightarrow> x \<in> set ys \<Longrightarrow> P r" for acc ys
  proof (induction ys arbitrary: acc)
    case (Cons y ys)
    show ?case
    proof (cases "x = y")
      case True
      define best where "best = (case acc of None \<Rightarrow> Some y | Some c \<Rightarrow> if b y c then Some y else acc)"
      have "\<exists>c. best = Some c \<and> P c" using pref[OF assms(3)] assms(3) True unfolding best_def by (auto split: option.splits)
      then obtain c where "best = Some c" "P c" by blast
      then show ?thesis using Cons.prems(1) step[of c ys] by (simp add: best_def)
    next
      case False
      then have "x \<in> set ys" using Cons.prems(2) by simp
      then show ?thesis using Cons.IH Cons.prems(1) by simp
    qed
  qed simp
  then show ?thesis using assms(2,4) unfolding first_by_def by blast
qed

text \<open>C33: The view shows every asset once, whatever channels it was seen on, and no other; an asset one of whose rows
  has a cost entered by hand shows a cost entered by hand.\<close>

theorem assets_counted_once:
  "distinct (map ph_key (physical_inventory t)) \<and> set (map ph_key (physical_inventory t)) = set (map physical_key (inventory_items t))
   \<and> (\<forall>p \<in> set (physical_inventory t). (\<exists>i \<in> set (inventory_items t). physical_key i = ph_key p \<and> I_cost_basis i \<noteq> None \<and> I_cost_source i = ''manual'')
        \<longrightarrow> ph_cost_source p = Some ''manual'' \<and> ph_cost_basis p \<noteq> None)"
proof (intro conjI ballI impI)
  show "distinct (map ph_key (physical_inventory t))" unfolding physical_keys by (rule observed_keys)
  show "set (map ph_key (physical_inventory t)) = set (map physical_key (inventory_items t))" unfolding physical_keys by (rule observed_keys)
next
  fix p assume p: "p \<in> set (physical_inventory t)"
    and "\<exists>i \<in> set (inventory_items t). physical_key i = ph_key p \<and> I_cost_basis i \<noteq> None \<and> I_cost_source i = ''manual''"
  then obtain i where i: "i \<in> set (costed (inventory_items t) (ph_key p))" "I_cost_source i = ''manual''" by (auto simp: costed_def)
  obtain c where c: "first_by cost_first (costed (inventory_items t) (ph_key p)) = Some c"
    using i(1) first_by_None[of cost_first "costed (inventory_items t) (ph_key p)"] by (cases "first_by cost_first (costed (inventory_items t) (ph_key p))") auto
  have "ph_cost_source p = Some (I_cost_source c)" "ph_cost_basis p = I_cost_basis c"
    using p c by (auto simp: physical_inventory_def Let_def)
  moreover have "I_cost_source c = ''manual''"
    by (rule first_by_prefers[where P = "\<lambda>r. I_cost_source r = ''manual''" and b = cost_first, OF _ i c])
      (simp add: cost_first_def then_by_def by_asc_def)
  moreover have "I_cost_basis c \<noteq> None" using first_by_in[OF c] by (auto simp: costed_def)
  ultimately show "ph_cost_source p = Some ''manual''" "ph_cost_basis p \<noteq> None" by simp_all
qed

definition seen_item :: "int \<Rightarrow> channel \<Rightarrow> string \<Rightarrow> instant \<Rightarrow> inventory_row" where
  "seen_item i ch source modified =
    \<lparr>I_id = i, I_channel = ch, I_asset_id = ''A'', I_hash_name = ''h'', I_market_hash_name = ''h'', I_template_id = None, I_mark_price = None,
     I_tradable = True, I_status = ''in_stock'', I_cost_basis = Some (Fin 5), I_cost_source = source, I_cost_updated_at = Some modified,
     I_cost_modified_at = Some modified, I_last_synced_at = modified\<rparr>"

definition two_channels :: tables where
  "two_channels = income_tables\<lparr>inventory_items := [seen_item 1 ''uu'' ''manual'' 10, seen_item 2 ''eco'' ''sync'' 20]\<rparr>"

theorem assets_counted_once_witness:
  "\<exists>p. physical_inventory two_channels = [p] \<and> ph_cost_source p = Some ''manual''"
proof -
  note all = assets_counted_once[of two_channels]
  have items: "inventory_items two_channels = [seen_item 1 ''uu'' ''manual'' 10, seen_item 2 ''eco'' ''sync'' 20]" by (simp add: two_channels_def)
  have "distinct (map ph_key (physical_inventory two_channels))" "set (map ph_key (physical_inventory two_channels)) = {''asset:A''}"
    using all unfolding items by (simp_all add: physical_key_def seen_item_def)
  then have "length (map ph_key (physical_inventory two_channels)) = 1" using distinct_card[of "map ph_key (physical_inventory two_channels)"] by simp
  then obtain p where p: "physical_inventory two_channels = [p]" by (auto simp: length_Suc_conv)
  then have "ph_key p = ''asset:A''" using \<open>set (map ph_key (physical_inventory two_channels)) = {''asset:A''}\<close> by simp
  then have "ph_cost_source p = Some ''manual''" using all unfolding items p by (simp add: physical_key_def seen_item_def)
  then show ?thesis using p by simp
qed

section \<open>The income shown\<close>

lemma sum_by_key:
  fixes f :: "'a \<Rightarrow> int"
  assumes "finite K" "g ` set xs \<subseteq> K"
  shows "sum_list (map f (filter (\<lambda>x. Q (g x)) xs)) = (\<Sum>k\<in>{k \<in> K. Q k}. sum_list (map f (filter (\<lambda>x. g x = k) xs)))"
  using assms(2)
proof (induction xs)
  case (Cons x xs)
  have "(\<Sum>k\<in>{k \<in> K. Q k}. sum_list (map f (filter (\<lambda>x. g x = k) (x # xs))))
      = (\<Sum>k\<in>{k \<in> K. Q k}. (if k = g x then f x else 0) + sum_list (map f (filter (\<lambda>x. g x = k) xs)))"
    by (rule sum.cong) auto
  also have "\<dots> = (\<Sum>k\<in>{k \<in> K. Q k}. if k = g x then f x else 0) + (\<Sum>k\<in>{k \<in> K. Q k}. sum_list (map f (filter (\<lambda>x. g x = k) xs)))"
    by (rule sum.distrib)
  also have "(\<Sum>k\<in>{k \<in> K. Q k}. if k = g x then f x else 0) = (if Q (g x) then f x else 0)"
    using assms(1) Cons.prems by (simp add: sum.delta')
  finally show ?case using Cons by simp
qed simp

lemma one_row_per_bucket:
  fixes f :: "stat_row \<Rightarrow> int"
  assumes "distinct (map stat_bucket bs)"
  shows "sum_list (map f (filter (\<lambda>b. stat_bucket b = k) bs)) = (case find (\<lambda>b. stat_bucket b = k) bs of None \<Rightarrow> 0 | Some b \<Rightarrow> f b)"
  using assms
proof (induction bs)
  case (Cons b bs)
  have "stat_bucket b = k \<Longrightarrow> filter (\<lambda>b. stat_bucket b = k) bs = []" using Cons.prems by (auto simp: filter_empty_conv image_iff)
  then show ?case using Cons by auto
qed simp

text \<open>The daily figures over any set of buckets are what the ledger has there.\<close>

lemma income_is_ledger:
  assumes "books_balance t" "distinct (map stat_bucket (daily_stats t))"
  shows "income_where (\<lambda>b. Q (stat_bucket b)) t
    = (let rs = filter (\<lambda>r. Q (ledger_bucket r)) (order_income_ledger t) in (sum_list (map (\<lambda>r. money_cents (D_amount r)) rs), int (length rs)))"
proof -
  define K where "K = stat_bucket ` set (daily_stats t) \<union> ledger_bucket ` set (order_income_ledger t)"
  have K: "finite K" "stat_bucket ` set (daily_stats t) \<subseteq> K" "ledger_bucket ` set (order_income_ledger t) \<subseteq> K" by (auto simp: K_def)
  have r: "reported t k = booked t k" for k using assms(1) unfolding books_balance_def by blast
  have len: "int (length xs) = sum_list (map (\<lambda>_. 1) xs)" for xs :: "ledger_row list" by (induction xs) simp_all
  have inc: "sum_list (map B_income (filter (\<lambda>b. stat_bucket b = k) (daily_stats t))) = fst (booked t k)"
      "sum_list (map B_order_count (filter (\<lambda>b. stat_bucket b = k) (daily_stats t))) = snd (booked t k)" for k
    unfolding one_row_per_bucket[OF assms(2)] r[symmetric] by (auto simp: reported_def split: option.splits)
  show ?thesis
    unfolding income_where_def Let_def len sum_by_key[OF K(1,2)] sum_by_key[OF K(1,3)] inc by (simp add: booked_def in_bucket_def Let_def len)
qed

lemma in_ledger_in_stats:
  assumes "books_balance t" "r \<in> set (order_income_ledger t)"
  shows "ledger_bucket r \<in> stat_bucket ` set (daily_stats t)"
proof -
  have "r \<in> set (in_bucket (ledger_bucket r) (order_income_ledger t))" using assms(2) by (simp add: in_bucket_def)
  then have "0 < snd (booked t (ledger_bucket r))" using length_pos_if_in_set by (fastforce simp: booked_def Let_def)
  then have "find (\<lambda>b. stat_bucket b = ledger_bucket r) (daily_stats t) \<noteq> None"
    using assms(1)[unfolded books_balance_def, THEN conjunct2, THEN spec, of "ledger_bucket r"] by (cases "booked t (ledger_bucket r)") (auto simp: reported_def split: option.splits)
  then show ?thesis unfolding find_None_iff by (metis image_eqI)
qed

section \<open>Building the dashboard\<close>

lemma and_then_InrD:
  assumes "and_then m f s = (Inr v, s')" "\<And>s r s1. m s = (r, s1) \<Longrightarrow> db s1 = db s"
  obtains x s1 where "m s = (Inr x, s1)" "f x s1 = (Inr v, s')" "db s1 = db s"
proof -
  obtain r s1 where m: "m s = (r, s1)" by (cases "m s")
  then obtain x where "r = Inr x" using assms(1) by (cases r) (simp_all add: and_then_def)
  then show thesis using that[of x s1] m assms by (simp add: and_then_def)
qed

lemma query_reads: "Query f s = (r, s1) \<Longrightarrow> db s1 = db s"
  by (auto simp: Query_def split: option.splits)

lemma finance_reads:
  "AssetValuation s = (r1, s1) \<Longrightarrow> db s1 = db s" "HeldDeposits s = (r2, s1) \<Longrightarrow> db s1 = db s" "IncomeByChannel s = (r3, s1) \<Longrightarrow> db s1 = db s"
  "TotalCostEverBasis s = (r4, s1) \<Longrightarrow> db s1 = db s" "SoldCostBasis s = (r4, s1) \<Longrightarrow> db s1 = db s" "CostCoverage s = (r5, s1) \<Longrightarrow> db s1 = db s"
  "TodayIncome s = (r4, s1) \<Longrightarrow> db s1 = db s" "LeasedCount s = (r6, s1) \<Longrightarrow> db s1 = db s" "FirstCostDate s = (r7, s1) \<Longrightarrow> db s1 = db s"
  "CategoryYields s = (r8, s1) \<Longrightarrow> db s1 = db s" "IncomeSeries d s = (r9, s1) \<Longrightarrow> db s1 = db s"
  by (auto simp: AssetValuation_def HeldDeposits_def IncomeByChannel_def TotalCostEverBasis_def SoldCostBasis_def CostCoverage_def
      TodayIncome_def LeasedCount_def FirstCostDate_def CategoryYields_def IncomeSeries_def dest: query_reads split: prod.splits sum.splits)

lemma observe_costs_frame [simp]: "da_ByChannel (observe_costs net cost first now d) = da_ByChannel d"
  by (simp add: observe_costs_def split: option.splits)

text \<open>The channels' totals are read from the tables the dashboard was asked on, and only wallet snapshots are written.\<close>

lemma dashboard_run:
  assumes "BuildDashboard ws now n s = (Inr d, s')"
  shows "(\<exists>s1 s2. IncomeByChannel s1 = (Inr (da_ByChannel d), s2) \<and> db s1 = db s) \<and> (\<exists>s2. s' = snapshot_wallets ws now n s2 \<and> db s2 = db s)"
  using assms unfolding BuildDashboard_def Let_def
  apply -
  apply (erule and_then_InrD, erule finance_reads)+
  apply (simp only: split_beta)
  apply (erule and_then_InrD, erule finance_reads)+
  apply fastforce
  done

lemma dashboard_by_channel:
  assumes "BuildDashboard ws now n s = (Inr d, s')"
  shows "da_ByChannel d = map (\<lambda>ch. case income_where (\<lambda>b. B_channel b = ch) (db s) of (inc, n) \<Rightarrow>
      \<lparr>ct_Channel = ch, ct_Income = cents inc, ct_Orders = n\<rparr>) (sort (remdups (map B_channel (daily_stats (db s)))))"
  using dashboard_run[OF assms] by (auto simp: IncomeByChannel_def dest!: Query_InrD)

lemma snapshot_wallets_adds: "\<exists>new. db (snapshot_wallets ws now n s) = (db s)\<lparr>fund_flows := fund_flows (db s) @ new\<rparr>
    \<and> length new \<le> length ws \<and> (\<forall>f \<in> set new. F_type f = ''wallet_snapshot'' \<and> F_occurred_at f = now)"
proof (induction ws now n s rule: snapshot_wallets.induct)
  case (1 now n s)
  show ?case by (rule exI[of _ "[]"]) simp
next
  case (2 ch v ws now n s)
  let ?s1 = "snd (RecordWalletSnapshot ch v now (n + 1) s)"
  obtain new where new: "db (snapshot_wallets ws now (n + 1) ?s1) = (db ?s1)\<lparr>fund_flows := fund_flows (db ?s1) @ new\<rparr>" "length new \<le> length ws"
      "\<forall>f \<in> set new. F_type f = ''wallet_snapshot'' \<and> F_occurred_at f = now" using 2 by blast
  obtain one where one: "db ?s1 = (db s)\<lparr>fund_flows := fund_flows (db s) @ one\<rparr>" "length one \<le> 1"
      "\<forall>f \<in> set one. F_type f = ''wallet_snapshot'' \<and> F_occurred_at f = now"
  proof (cases "db ?s1 = db s")
    case True
    show thesis by (rule that[of "[]"]) (simp_all add: True)
  next
    case False
    let ?f = "\<lparr>F_channel = ch, F_flow_ref = walletFlowRef ch now (n + 1), F_amount = round2Money v, F_type = ''wallet_snapshot'', F_occurred_at = now\<rparr>"
    have "db ?s1 = sql_insert_flow ?f (db s)" using False by (auto simp: RecordWalletSnapshot_def Exec_db split: if_splits)
    then have "db ?s1 = (db s)\<lparr>fund_flows := fund_flows (db s) @ [?f]\<rparr>" using False by (simp add: sql_insert_flow_def split: if_splits)
    then show thesis by (rule that[of "[?f]"]) simp_all
  qed
  show ?case using new one by (intro exI[of _ "one @ new"]) auto
qed

text \<open>C34: When the books balance and a day, channel and category have one row of daily figures, the dashboard lists every
  channel the ledger has income for, each with the sum in cents and the number of the ledger's rows of that channel.\<close>

theorem dashboard_reports_ledger:
  assumes "BuildDashboard ws now n s = (Inr d, s')" "books_balance (db s)" "distinct (map stat_bucket (daily_stats (db s)))"
  shows "D_channel ` set (order_income_ledger (db s)) \<subseteq> set (map ct_Channel (da_ByChannel d))
    \<and> list_all (\<lambda>c. let rs = filter (\<lambda>r. D_channel r = ct_Channel c) (order_income_ledger (db s)) in
         ct_Income c = cents (sum_list (map (\<lambda>r. money_cents (D_amount r)) rs)) \<and> ct_Orders c = int (length rs)) (da_ByChannel d)"
proof (intro conjI)
  note chans = dashboard_by_channel[OF assms(1)]
  have "D_channel r \<in> B_channel ` set (daily_stats (db s))" if "r \<in> set (order_income_ledger (db s))" for r
    using in_ledger_in_stats[OF assms(2) that] by (auto simp: ledger_bucket_def stat_bucket_def image_iff)
  then show "D_channel ` set (order_income_ledger (db s)) \<subseteq> set (map ct_Channel (da_ByChannel d))"
    unfolding chans by (auto simp: image_iff split: prod.splits)
  have "income_where (\<lambda>b. B_channel b = ch) (db s) = (let rs = filter (\<lambda>r. D_channel r = ch) (order_income_ledger (db s))
      in (sum_list (map (\<lambda>r. money_cents (D_amount r)) rs), int (length rs)))" for ch
    using income_is_ledger[OF assms(2,3), of "\<lambda>k. fst (snd k) = ch"] by (simp add: stat_bucket_def ledger_bucket_def)
  then show "list_all (\<lambda>c. let rs = filter (\<lambda>r. D_channel r = ct_Channel c) (order_income_ledger (db s)) in
         ct_Income c = cents (sum_list (map (\<lambda>r. money_cents (D_amount r)) rs)) \<and> ct_Orders c = int (length rs)) (da_ByChannel d)"
    unfolding chans by (simp add: list_all_iff Let_def)
qed

lemma dashboard_runs: "faults s = [] \<Longrightarrow> \<exists>d s'. BuildDashboard ws now n s = (Inr d, s')"
  by (simp add: BuildDashboard_def and_then_def Let_def AssetValuation_def HeldDeposits_def IncomeByChannel_def TotalCostEverBasis_def
      SoldCostBasis_def CostCoverage_def TodayIncome_def LeasedCount_def FirstCostDate_def CategoryYields_def IncomeSeries_def Query_runs)

theorem dashboard_reports_ledger_witness:
  "\<exists>d s'. BuildDashboard [] 0 0 income_session = (Inr d, s') \<and> ''uu'' \<in> set (map ct_Channel (da_ByChannel d))"
proof -
  obtain d s' where run: "BuildDashboard [] 0 0 income_session = (Inr d, s')" using dashboard_runs[of income_session "[]" 0 0] by (auto simp: income_session_def)
  have "distinct (map stat_bucket (daily_stats (db income_session)))" by (simp add: income_session_def income_tables_def)
  from dashboard_reports_ledger[OF run income_tables_ok(2) this] have "''uu'' \<in> set (map ct_Channel (da_ByChannel d))"
    by (simp add: income_session_def income_tables_def)
  then show ?thesis using run by blast
qed

text \<open>A step that only reads, before steps that add.\<close>

definition adds :: "nat \<Rightarrow> (session \<Rightarrow> 'a \<times> session) \<Rightarrow> bool" where
  "adds k m \<longleftrightarrow> (\<forall>s. \<exists>new. db (snd (m s)) = (db s)\<lparr>fund_flows := fund_flows (db s) @ new\<rparr> \<and> length new \<le> k)"

lemma and_then_adds:
  assumes "\<And>s r s1. m s = (r, s1) \<Longrightarrow> db s1 = db s" "\<And>x. adds k (f x)"
  shows "adds k (and_then m f)"
  unfolding adds_def
proof
  fix s
  obtain r s1 where m: "m s = (r, s1)" by (cases "m s")
  show "\<exists>new. db (snd (and_then m f s)) = (db s)\<lparr>fund_flows := fund_flows (db s) @ new\<rparr> \<and> length new \<le> k"
  proof (cases r)
    case (Inl e)
    then show ?thesis using m assms(1)[OF m] by (intro exI[of _ "[]"]) (simp add: and_then_def)
  next
    case (Inr x)
    then show ?thesis using m assms(1)[OF m] assms(2)[of x, unfolded adds_def, rule_format, of s1] by (simp add: and_then_def)
  qed
qed

lemma dashboard_adds: "adds (length ws) (BuildDashboard ws now n)"
  unfolding BuildDashboard_def Let_def
  apply (rule and_then_adds, erule finance_reads)+
  apply (simp only: split_beta)
  apply (rule and_then_adds, erule finance_reads)+
  using snapshot_wallets_adds by (fastforce simp: adds_def)

text \<open>Whatever wallets answered and wherever it fails, building the dashboard changes nothing but the fund flows,
  to which it adds one row a wallet at most.\<close>

theorem dashboard_only_adds_snapshots:
  "\<exists>new. db (snd (BuildDashboard ws now n s)) = (db s)\<lparr>fund_flows := fund_flows (db s) @ new\<rparr> \<and> length new \<le> length ws"
  using dashboard_adds[of ws now n] by (simp add: adds_def)

end
