(* ===== verification/PanelJson.thy ===== *)
theory PanelJson
  imports JsonText Money "HOL-Library.Sublist"
begin

text \<open>
  What the panel hides of stored details (\<open>publicDetail\<close> in \<open>internal/api/handlers_panel.go\<close>): the values of keys that
  name secrets or internals, at any depth, and credentials inside texts. The three regular expressions are
  written out as the matching they describe; their \<open>(?i)\<close> folds by Unicode, so the Kelvin sign counts as a \<open>k\<close>
  and the long s as an \<open>s\<close>.
\<close>

section \<open>Letters\<close>

definition ascii_lower :: "char \<Rightarrow> char" where
  "ascii_lower c = (if 65 \<le> (of_char c :: int) \<and> (of_char c :: int) \<le> 90 then char_of (of_char c + 32 :: int) else c)"

definition kelvin :: string where
  "kelvin = map char_of [0xE2::int, 0x84, 0xAA]"

definition long_s :: string where
  "long_s = map char_of [0xC5::int, 0xBF]"

definition dotted_i :: string where
  "dotted_i = map char_of [0xC4::int, 0xB0]"

fun is_word :: "char \<Rightarrow> bool" where
  "is_word c \<longleftrightarrow> (let n = of_char c :: int in 48 \<le> n \<and> n \<le> 57 \<or> 65 \<le> n \<and> n \<le> 90 \<or> 97 \<le> n \<and> n \<le> 122 \<or> n = 95)"

definition is_space :: "char \<Rightarrow> bool" where
  "is_space c \<longleftrightarrow> (of_char c :: int) \<in> set [9, 10, 12, 13, 32]"

text \<open>\<open>strip_ci w s\<close>: what follows the lower-case text \<open>w\<close> at the head of \<open>s\<close>, in any case.\<close>

fun strip_ci :: "string \<Rightarrow> string \<Rightarrow> string option" where
  "strip_ci [] s = Some s"
| "strip_ci (c # w) s =
    (case (if c = CHR ''k'' then strip_prefix kelvin s else None) of
       Some r \<Rightarrow> strip_ci w r
     | None \<Rightarrow> (case (if c = CHR ''s'' then strip_prefix long_s s else None) of
          Some r \<Rightarrow> strip_ci w r
        | None \<Rightarrow> (case s of [] \<Rightarrow> None | x # r \<Rightarrow> if ascii_lower x = c then strip_ci w r else None)))"

lemma strip_prefix_length: "strip_prefix w s = Some r \<Longrightarrow> length s = length w + length r"
  by (induction w s rule: strip_prefix.induct) (auto split: if_splits)

lemma strip_ci_length: "strip_ci w s = Some r \<Longrightarrow> length w + length r \<le> length s"
proof (induction w s arbitrary: r rule: strip_ci.induct)
  case (2 c w s)
  then show ?case
    by (fastforce dest: strip_prefix_length simp: kelvin_def long_s_def split: option.splits if_splits list.splits)
qed simp

section \<open>Credentials in a text\<close>

text \<open>\<open>[A-Za-z0-9_-]+\<close> takes what it can.\<close>

fun skip_token :: "string \<Rightarrow> string" where
  "skip_token [] = []"
| "skip_token (c # s) =
    (if is_word c \<or> c = CHR ''-'' then skip_token s
     else case strip_prefix kelvin (c # s) of Some r \<Rightarrow> skip_token (drop 2 s)
     | None \<Rightarrow> (case strip_prefix long_s (c # s) of Some r \<Rightarrow> skip_token (drop 1 s) | None \<Rightarrow> c # s))"

lemma skip_token_length: "length (skip_token s) \<le> length s"
  by (induction s rule: skip_token.induct) (auto split: option.splits)

definition token_rest :: "string \<Rightarrow> string option" where
  "token_rest s = (let r = skip_token s in if r = s then None else Some r)"

lemma token_rest_length: "token_rest s = Some r \<Longrightarrow> length r \<le> length s"
  using skip_token_length[of s] by (auto simp: token_rest_def Let_def split: if_splits)

definition jwt_rest :: "string \<Rightarrow> string option" where
  "jwt_rest s = Option.bind (strip_ci ''eyj'' s) (\<lambda>s. Option.bind (token_rest s) (\<lambda>s. Option.bind (strip_prefix ''.'' s) (\<lambda>s.
     Option.bind (token_rest s) (\<lambda>s. Option.bind (strip_prefix ''.'' s) token_rest))))"

definition bearer_rest :: "string \<Rightarrow> string option" where
  "bearer_rest s = (case strip_ci ''bearer'' s of None \<Rightarrow> None
     | Some s \<Rightarrow> (let r = dropWhile is_space s; e = dropWhile (\<lambda>c. \<not> is_space c) r in if r = s \<or> e = r then None else Some e))"

text \<open>\<open>-----BEGIN [^-]*PRIVATE KEY-----\<close>: the characters before the next dash end with the two words.\<close>

definition key_mark :: "string \<Rightarrow> string \<Rightarrow> string option" where
  "key_mark opening s = (case strip_ci opening s of None \<Rightarrow> None
     | Some s \<Rightarrow> (let u = takeWhile (\<lambda>c. c \<noteq> CHR ''-'') s in
         if list_ex (\<lambda>v. strip_ci ''private key'' v = Some '''') (suffixes u) then strip_prefix ''-----'' (drop (length u) s) else None))"

fun key_end :: "string \<Rightarrow> string option" where
  "key_end [] = None"
| "key_end (c # s) = (case key_mark ''-----end '' (c # s) of Some r \<Rightarrow> Some r | None \<Rightarrow> key_end s)"

definition key_rest :: "string \<Rightarrow> string option" where
  "key_rest s = (case key_mark ''-----begin '' s of None \<Rightarrow> None | Some r \<Rightarrow> key_end r)"

lemma key_mark_length: "key_mark w s = Some r \<Longrightarrow> length r < length s"
  by (fastforce simp: key_mark_def Let_def dest: strip_ci_length strip_prefix_length split: option.splits if_splits)

lemma key_end_length: "key_end s = Some r \<Longrightarrow> length r < length s"
  by (induction s) (auto dest: key_mark_length split: option.splits)

text \<open>The first alternative that matches at the head of \<open>s\<close>; \<open>w\<close> says that a word character stands before it.\<close>

definition secret_rest :: "bool \<Rightarrow> string \<Rightarrow> string option" where
  "secret_rest w s = (case key_rest s of Some r \<Rightarrow> Some r
     | None \<Rightarrow> (case (if w then None else jwt_rest s) of Some r \<Rightarrow> Some r | None \<Rightarrow> if w then None else bearer_rest s))"

lemma jwt_rest_length: "jwt_rest s = Some r \<Longrightarrow> length r < length s"
  by (auto simp: jwt_rest_def bind_eq_Some_conv simp del: strip_ci.simps dest!: strip_ci_length strip_prefix_length token_rest_length)

lemma bearer_rest_length: "bearer_rest s = Some r \<Longrightarrow> length r < length s"
  using length_dropWhile_le[of is_space] length_dropWhile_le[of "\<lambda>c. \<not> is_space c"] strip_ci_length[of "''bearer''" s]
  by (fastforce simp: bearer_rest_def Let_def split: option.splits if_splits intro: le_less_trans order_trans)

lemma secret_rest_length: "secret_rest w s = Some r \<Longrightarrow> length r < length s"
  by (auto simp: secret_rest_def key_rest_def dest: jwt_rest_length bearer_rest_length dest!: key_mark_length key_end_length split: option.splits if_splits)

definition hidden_credential :: string where
  "hidden_credential = ''['' @ map char_of [0xE5::int, 0xB7, 0xB2, 0xE9, 0x9A, 0x90, 0xE8, 0x97, 0x8F, 0xE5, 0x87, 0xAD, 0xE8, 0xAF, 0x81] @ '']''"

definition hidden_value :: string where
  "hidden_value = ''['' @ map char_of [0xE5::int, 0xB7, 0xB2, 0xE9, 0x9A, 0x90, 0xE8, 0x97, 0x8F, 0xE6, 0x95, 0x8F, 0xE6, 0x84, 0x9F, 0xE6, 0x88, 0x96,
     0xE5, 0x86, 0x85, 0xE9, 0x83, 0xA8, 0xE4, 0xBF, 0xA1, 0xE6, 0x81, 0xAF] @ '']''"

text \<open>\<open>ReplaceAllString\<close>, from left to right.\<close>

function hide_from :: "bool \<Rightarrow> string \<Rightarrow> string" where
  "hide_from w [] = []"
| "hide_from w (c # s) = (case secret_rest w (c # s) of
     None \<Rightarrow> c # hide_from (is_word c) s
   | Some r \<Rightarrow> hidden_credential @ hide_from (is_word ((c # s) ! (length s - length r))) r)"
  by pat_completeness auto
termination
  by (relation "measure (length \<circ> snd)") (auto dest: secret_rest_length)

definition hide_credentials :: "string \<Rightarrow> string" where
  "hide_credentials s = hide_from False s"

section \<open>Details\<close>

text \<open>\<open>strings.ToLower\<close> as far as ASCII words can be found in it: two other characters have ASCII lower-case letters.\<close>

fun lower_text :: "string \<Rightarrow> string" where
  "lower_text [] = []"
| "lower_text (c # s) =
    (if strip_prefix kelvin (c # s) \<noteq> None then CHR ''k'' # lower_text (drop 2 s)
     else if strip_prefix dotted_i (c # s) \<noteq> None then CHR ''i'' # lower_text (drop 1 s)
     else ascii_lower c # lower_text s)"

definition sensitive_words :: "string list" where
  "sensitive_words = [''password'', ''token'', ''secret'', ''private'', ''credential'', ''authorization'', ''cookie'', ''captcha'', ''session'',
     ''ticket'', ''randstr'', ''raw'', ''payload'', ''error'']"

definition sensitive :: "string \<Rightarrow> bool" where
  "sensitive key \<longleftrightarrow> list_ex (\<lambda>w. sublist w (lower_text key)) sensitive_words"

definition panelFingerprint :: "string \<Rightarrow> bool" where
  "panelFingerprint s \<longleftrightarrow> length s = 12 \<and> list_all (\<lambda>c. is_digit c \<or> (97 \<le> (of_char c :: int) \<and> (of_char c :: int) \<le> 102)) s"

definition panelTokenTail :: "string \<Rightarrow> bool" where
  "panelTokenTail s \<longleftrightarrow> length s = 8 \<and> list_all (\<lambda>c. is_word c \<or> c = CHR ''-'') s"

definition public_text :: "string \<Rightarrow> json \<Rightarrow> bool" where
  "public_text key v = (case v of JStr s \<Rightarrow> (key = ''key_fp'' \<or> key = ''secret_fp'') \<and> panelFingerprint s \<or> key = ''token_tail'' \<and> panelTokenTail s
     | _ \<Rightarrow> False)"

fun publicDetail :: "json \<Rightarrow> json" where
  "publicDetail (JObj kvs) = JObj (map (\<lambda>(k, v). (k, if public_text k v then v else if sensitive k then JStr hidden_value else publicDetail v)) kvs)"
| "publicDetail (JArr vs) = JArr (map publicDetail vs)"
| "publicDetail (JStr s) = JStr (hide_credentials s)"
| "publicDetail v = v"

text \<open>What may be shown: under a key that names a secret only the notice or a fingerprint, at every depth.\<close>

fun shows_no_secret :: "json \<Rightarrow> bool" where
  "shows_no_secret (JObj kvs) \<longleftrightarrow> list_all (\<lambda>(k, v). (if sensitive k then v = JStr hidden_value \<or> public_text k v else True) \<and> shows_no_secret v) kvs"
| "shows_no_secret (JArr vs) \<longleftrightarrow> list_all shows_no_secret vs"
| "shows_no_secret _ \<longleftrightarrow> True"

lemma public_text_JStr: "public_text k v \<Longrightarrow> \<exists>s. v = JStr s"
  by (cases v) (auto simp: public_text_def)

text \<open>C35: Of whatever detail was stored, the panel shows no value under a key that names a secret or an internal, at any
  depth of objects and lists, except fingerprints of the fixed forms.\<close>

theorem details_hide_secrets: "shows_no_secret (publicDetail j)"
proof (induction j rule: publicDetail.induct)
  case (1 kvs)
  have "(if sensitive k then v' = JStr hidden_value \<or> public_text k v' else True) \<and> shows_no_secret v'"
    if "(k, v) \<in> set kvs" "v' = (if public_text k v then v else if sensitive k then JStr hidden_value else publicDetail v)" for k v v'
    using "1.IH"[OF that(1) refl] public_text_JStr[of k v] that(2) by auto
  then show ?case by (fastforce simp: list_all_iff)
next
  case (2 vs)
  then show ?case by (auto simp: list_all_iff)
qed simp_all

end
