(* ===== verification/ApiData.thy ===== *)
theory ApiData
  imports Http FinanceStore PanelJson UuText
begin

text \<open>
  The panel's reading endpoints (\<open>internal/api/handlers_data.go\<close>, \<open>handlers_panel.go\<close>, \<open>handlers_dashboard.go\<close>): their
  query parameters, the rows as the JSON they send, and the dashboard. Times are shown in UTC, the zone of the process.
\<close>

section \<open>Query parameters\<close>

text \<open>\<open>strconv.Atoi\<close> with its error ignored: 0 for what is no number, the nearest int for what is out of range.\<close>

definition Atoi_value :: "string \<Rightarrow> int" where
  "Atoi_value s = (case Atoi s of Some n \<Rightarrow> n | None \<Rightarrow>
     (let signed = (s \<noteq> [] \<and> (hd s = CHR ''-'' \<or> hd s = CHR ''+'')); ds = (if signed then tl s else s)
      in if ds = [] \<or> \<not> list_all is_digit ds then 0 else if hd s = CHR ''-'' then - (2 ^ 63) else 2 ^ 63 - 1))"

definition pageParams :: "request \<Rightarrow> int \<times> int" where
  "pageParams r =
    (let pg = Atoi_value (rq_query r ''page''); size = Atoi_value (rq_query r ''page_size'');
         pg = (if pg < 1 then 1 else pg); size = (if size \<le> 0 then 50 else size); size = (if 200 < size then 200 else size)
     in (size, wrap64 ((pg - 1) * size)))"

definition bad_request :: "string \<Rightarrow> response" where
  "bad_request msg = writeErr 400 ''bad_request'' msg"

definition utf8_text :: "int list \<Rightarrow> string" where
  "utf8_text bs = map char_of bs"

definition bad_since :: response where
  "bad_since = bad_request (utf8_text [0xE8, 0xB5, 0xB7, 0xE5, 0xA7, 0x8B, 0xE6, 0x97, 0xB6, 0xE9, 0x97, 0xB4, 0xE6, 0x97, 0xA0, 0xE6, 0x95, 0x88])"

definition bad_until :: response where
  "bad_until = bad_request (utf8_text [0xE7, 0xBB, 0x93, 0xE6, 0x9D, 0x9F, 0xE6, 0x97, 0xB6, 0xE9, 0x97, 0xB4, 0xE6, 0x97, 0xA0, 0xE6, 0x95, 0x88])"

definition bad_order :: response where
  "bad_order = bad_request (utf8_text [0xE7, 0xBB, 0x93, 0xE6, 0x9D, 0x9F, 0xE6, 0x97, 0xB6, 0xE9, 0x97, 0xB4, 0xE5, 0xBF, 0x85, 0xE9, 0xA1, 0xBB,
     0xE6, 0x99, 0x9A, 0xE4, 0xBA, 0x8E, 0xE8, 0xB5, 0xB7, 0xE5, 0xA7, 0x8B, 0xE6, 0x97, 0xB6, 0xE9, 0x97, 0xB4])"

definition time_param :: "string \<Rightarrow> instant option" where
  "time_param v = (if v = '''' then Some 0 else parse_rfc3339 v)"

definition timeWindow :: "request \<Rightarrow> response + instant \<times> instant" where
  "timeWindow r =
    (case time_param (rq_query r ''since'') of None \<Rightarrow> Inl bad_since
     | Some since \<Rightarrow>
        (case time_param (rq_query r ''until'') of None \<Rightarrow> Inl bad_until
         | Some until \<Rightarrow> if \<not> IsZero since \<and> \<not> IsZero until \<and> \<not> since < until then Inl bad_order else Inr (since, until)))"

section \<open>Rows as JSON\<close>

text \<open>\<open>time.RFC3339Nano\<close> of a UTC time: the fraction without its trailing zeros.\<close>

definition trim_zeros :: "string \<Rightarrow> string" where
  "trim_zeros ds = rev (dropWhile (\<lambda>c. c = CHR ''0'') (rev ds))"

definition rfc3339_nano :: "instant \<Rightarrow> string" where
  "rfc3339_nano t =
    (let s = t mod (24 * Hour); frac = trim_zeros (padded 9 (s mod Second)) in
     date_text (day_of t) @ ''T'' @ padded 2 (s div Hour) @ '':'' @ padded 2 (s div Minute mod 60) @ '':'' @ padded 2 (s div Second mod 60)
       @ (if frac = '''' then '''' else ''.'' @ frac) @ ''Z'')"

definition time_json :: "instant \<Rightarrow> json" where
  "time_json t = JStr (rfc3339_nano t)"

definition opt_json :: "('a \<Rightarrow> json) \<Rightarrow> 'a option \<Rightarrow> json" where
  "opt_json f v = (case v of None \<Rightarrow> JNull | Some x \<Rightarrow> f x)"

text \<open>A field with \<open>omitempty\<close>.\<close>

definition opt_field :: "string \<Rightarrow> ('a \<Rightarrow> json) \<Rightarrow> 'a option \<Rightarrow> (string \<times> json) list" where
  "opt_field k f v = (case v of None \<Rightarrow> [] | Some x \<Rightarrow> [(k, f x)])"

definition text_field :: "string \<Rightarrow> string \<Rightarrow> (string \<times> json) list" where
  "text_field k v = (if v = '''' then [] else [(k, JStr v)])"

definition listed :: "json list \<Rightarrow> nat \<Rightarrow> json" where
  "listed rows n = JObj [(''items'', JArr rows), (''total'', JInt (int n))]"

definition inventory_json :: "InventoryRow \<Rightarrow> json" where
  "inventory_json v = JObj [(''id'', JInt (iv_ID v)), (''channel'', JStr (iv_Channel v)), (''asset_id'', JStr (iv_AssetID v)),
     (''hash_name'', JStr (iv_HashName v)), (''market_hash_name'', JStr (iv_MarketHash v)), (''template_id'', opt_json JInt (iv_TemplateID v)),
     (''mark_price'', JNum (iv_MarkPrice v)), (''tradable'', JBool (iv_Tradable v)), (''status'', JStr (iv_Status v)),
     (''cost_basis'', JNum (iv_CostBasis v)), (''category'', JStr (iv_Category v)), (''cost_source'', JStr (iv_CostSource v)),
     (''cost_modified_at'', opt_json time_json (iv_CostModifiedAt v)), (''last_synced_at'', opt_json time_json (iv_LastSyncedAt v))]"

definition order_json :: "OrderRow \<Rightarrow> json" where
  "order_json v = JObj [(''id'', JInt (ov_ID v)), (''channel'', JStr (ov_Channel v)), (''order_ref'', JStr (ov_OrderRef v)),
     (''hash_name'', JStr (ov_HashName v)), (''asset_id'', JStr (ov_AssetID v)), (''order_type'', JStr (ov_OrderType v)),
     (''status'', JStr (ov_Status v)), (''rent_days'', JInt (ov_RentDays v)), (''rent_price'', JNum (ov_RentPrice v)),
     (''order_amount'', JNum (ov_Amount v)), (''deposits'', JNum (ov_Deposits v)), (''started_at'', opt_json time_json (ov_StartedAt v)),
     (''due_at'', opt_json time_json (ov_DueAt v)), (''finished_at'', opt_json time_json (ov_FinishedAt v))]"

definition last_json :: "LastDecision \<Rightarrow> json" where
  "last_json v = JObj ([(''id'', JInt (ld_ID v)), (''dry_run'', JBool (ld_DryRun v)), (''success'', JBool (ld_Success v)),
     (''action'', JStr (ld_Action v)), (''at'', opt_json time_json (ld_At v))] @ opt_field ''new_rent'' JNum (ld_NewRent v) @ text_field ''skip'' (ld_Skip v))"

definition listing_json :: "ListingRow \<Rightarrow> json" where
  "listing_json v = JObj ([(''id'', JInt (lv_ID v)), (''channel'', JStr (lv_Channel v)), (''asset_id'', JStr (lv_AssetID v)),
     (''hash_name'', JStr (lv_HashName v)), (''goods_ref'', JStr (lv_GoodsRef v)), (''desired_state'', JStr (lv_DesiredState v)),
     (''actual_state'', JStr (lv_ActualState v)), (''rent_price'', JNum (lv_RentPrice v)), (''long_rent_price'', JNum (lv_LongRentPrice v)),
     (''max_days'', JInt (lv_MaxDays v)), (''deposit'', JNum (lv_Deposit v)), (''listed_at'', opt_json time_json (lv_ListedAt v)),
     (''last_reprice_at'', opt_json time_json (lv_LastRepriceAt v)), (''factor'', JNum (lv_Factor v))]
     @ opt_field ''last_decision'' last_json (lv_Last v))"

definition template_json :: "template_row \<Rightarrow> json" where
  "template_json v = JObj ([(''hash_name'', JStr (T_hash_name v)), (''display_name'', JStr (T_display_name v)), (''category'', JStr (T_category v)),
     (''uu_template_id'', opt_json JInt (T_uu_template_id v)), (''uu_mark_price'', opt_json JNum (T_uu_mark_price v)),
     (''eco_ref_price'', opt_json JNum (T_eco_ref_price v)), (''value_anchor'', opt_json JNum (T_value_anchor v)),
     (''blacklisted'', JBool (T_blacklisted v))] @ opt_field ''anchor_updated_at'' time_json (T_anchor_updated_at v))"

text \<open>A number too large for a float64 does not decode, and then the whole decision is shown as empty.\<close>

definition public_decision :: "json \<Rightarrow> json" where
  "public_decision d = (case to_any d of None \<Rightarrow> JObj [] | Some v \<Rightarrow> publicDetail v)"

definition action_json :: "PriceActionRow \<Rightarrow> json" where
  "action_json v = (let a = pv_Row v in JObj ([(''id'', JInt (A_id a)), (''ts'', time_json (A_ts a)), (''channel'', JStr (A_channel a)),
     (''hash_name'', JStr (A_hash_name a)), (''asset_id'', JStr (A_asset_id a)), (''listing_id'', opt_json JInt (A_listing_id a)),
     (''action'', JStr (A_action a)), (''old_rent'', opt_json JNum (A_old_rent a)), (''new_rent'', opt_json JNum (A_new_rent a)),
     (''old_long'', opt_json JNum (A_old_long a)), (''new_long'', opt_json JNum (A_new_long a)), (''old_days'', opt_json JInt (A_old_days a)),
     (''new_days'', opt_json JInt (A_new_days a)), (''old_deposit'', opt_json JNum (A_old_deposit a)),
     (''new_deposit'', opt_json JNum (A_new_deposit a)), (''decision'', public_decision (pv_Decision v)), (''dry_run'', JBool (A_dry_run a)),
     (''success'', JBool (A_success a))] @ text_field ''error'' (pv_Error v)))"

section \<open>Lists\<close>

text \<open>What the handlers of lists share: an error of the store is an internal error, rows go out with the total.\<close>

definition send_list :: "(session \<Rightarrow> (goerr + 'a list \<times> nat) \<times> session) \<Rightarrow> ('a \<Rightarrow> json) \<Rightarrow> 'w server \<Rightarrow> response \<times> 'w server" where
  "send_list q enc sv = (case q (ses sv) of
     (Inl e, s) \<Rightarrow> (internalError, sv\<lparr>ses := s\<rparr>) | (Inr (rows, n), s) \<Rightarrow> (writeJSON 200 (listed (map enc rows) n), sv\<lparr>ses := s\<rparr>))"

definition handleInventory :: "(string \<Rightarrow> string) \<Rightarrow> 'w handler" where
  "handleInventory low r sv = (let q = rq_query r; (limit, offset) = pageParams r in
     send_list (ListInventory low \<lparr>if_Channel = q ''channel'', if_Status = q ''status'', if_Search = q ''search'', if_Limit = limit, if_Offset = offset,
        if_Category = q ''category'', if_Sort = q ''sort'', if_HashName = q ''hash_name'', if_AssetID = q ''asset_id'',
        if_CostMissing = (q ''cost_missing'' = ''true'')\<rparr>) inventory_json sv)"

definition handleListings :: "(string \<Rightarrow> string) \<Rightarrow> 'w handler" where
  "handleListings low r sv = (let q = rq_query r; (limit, offset) = pageParams r in
     send_list (ListListings low \<lparr>lf_Channel = q ''channel'', lf_State = q ''state'', lf_Limit = limit, lf_Offset = offset, lf_HashName = q ''hash_name'',
        lf_AssetID = q ''asset_id'', lf_Search = q ''search'', lf_Mismatch = (q ''mismatch'' = ''true'')\<rparr>) listing_json sv)"

definition handleOrders :: "(string \<Rightarrow> string) \<Rightarrow> 'w handler" where
  "handleOrders low r sv = (case timeWindow r of Inl resp \<Rightarrow> (resp, sv)
     | Inr (since, until) \<Rightarrow>
        (let q = rq_query r; (limit, offset) = pageParams r in
         send_list (ListOrders low \<lparr>of_Channel = q ''channel'', of_Status = q ''status'', of_Limit = limit, of_Offset = offset, of_Search = q ''search'',
            of_HashName = q ''hash_name'', of_AssetID = q ''asset_id'', of_OrderType = q ''order_type'', of_View = q ''view'', of_Sort = q ''sort'',
            of_Since = since, of_Until = until\<rparr>) order_json sv))"

definition handleTemplates :: "'w handler" where
  "handleTemplates r sv =
    (let n = Atoi_value (rq_query r ''page_size''); (limit, offset) = (if 0 < n then pageParams r else (n, 0)) in
     case ListTemplates limit offset (ses sv) of
       (Inl e, s) \<Rightarrow> (internalError, sv\<lparr>ses := s\<rparr>) | (Inr rows, s) \<Rightarrow> (writeJSON 200 (JArr (map template_json rows)), sv\<lparr>ses := s\<rparr>))"

definition bad_blacklist :: response where
  "bad_blacklist = bad_request (utf8_text [0xE9, 0xBB, 0x91, 0xE5, 0x90, 0x8D, 0xE5, 0x8D, 0x95, 0xE8, 0xBF, 0x87, 0xE6, 0xBB, 0xA4, 0xE6, 0x97, 0xA0,
     0xE6, 0x95, 0x88])"

definition handleTemplateCatalog :: "(string \<Rightarrow> string) \<Rightarrow> 'w handler" where
  "handleTemplateCatalog low r sv = (let v = rq_query r ''blacklisted'' in
     if v \<noteq> '''' \<and> v \<noteq> ''true'' \<and> v \<noteq> ''false'' then (bad_blacklist, sv)
     else let (limit, offset) = pageParams r in send_list (SearchTemplates low (rq_query r ''search'') v limit offset) template_json sv)"

definition handleInventoryCategories :: "'w handler" where
  "handleInventoryCategories r sv = (case InventoryCategories (ses sv) of
     (Inl e, s) \<Rightarrow> (internalError, sv\<lparr>ses := s\<rparr>) | (Inr cs, s) \<Rightarrow> (writeJSON 200 (JArr (map JStr cs)), sv\<lparr>ses := s\<rparr>))"

section \<open>Price actions\<close>

definition bad_mode :: response where
  "bad_mode = bad_request (utf8_text [0xE6, 0xA8, 0xA1, 0xE5, 0xBC, 0x8F, 0xE6, 0x88, 0x96, 0xE7, 0xBB, 0x93, 0xE6, 0x9E, 0x9C, 0xE8, 0xBF, 0x87,
     0xE6, 0xBB, 0xA4, 0xE6, 0x97, 0xA0, 0xE6, 0x95, 0x88])"

definition bad_id :: response where
  "bad_id = bad_request (utf8_text [0xE8, 0xAE, 0xB0, 0xE5, 0xBD, 0x95] @ '' ID '' @ utf8_text [0xE6, 0x97, 0xA0, 0xE6, 0x95, 0x88])"

definition id_param :: "string \<Rightarrow> int option" where
  "id_param v = (if v = '''' then Some 0 else case ParseInt v of None \<Rightarrow> None | Some n \<Rightarrow> if n \<le> 0 then None else Some n)"

definition handlePriceActions :: "'w handler" where
  "handlePriceActions r sv = (case timeWindow r of Inl resp \<Rightarrow> (resp, sv)
     | Inr (since, until) \<Rightarrow>
        (let q = rq_query r; md = q ''mode''; res = q ''result'' in
         if (md \<noteq> '''' \<and> md \<noteq> ''dry_run'' \<and> md \<noteq> ''real'') \<or> (res \<noteq> '''' \<and> res \<noteq> ''skip'' \<and> res \<noteq> ''success'' \<and> res \<noteq> ''failed'')
         then (bad_mode, sv)
         else case (id_param (q ''id''), id_param (q ''listing_id'')) of
             (Some i, Some l) \<Rightarrow>
               (let (limit, offset) = pageParams r in
                send_list (ListPriceActions \<lparr>pf_Channel = q ''channel'', pf_HashName = q ''hash_name'', pf_AssetID = q ''asset_id'', pf_Action = q ''action'',
                   pf_Mode = md, pf_Result = res, pf_ListingID = l, pf_ID = i, pf_Since = since, pf_Until = until, pf_Limit = limit, pf_Offset = offset\<rparr>)
                 action_json sv)
           | _ \<Rightarrow> (bad_id, sv)))"

section \<open>Execution mode and dashboard\<close>

definition no_mode :: response where
  "no_mode = writeErr 503 ''unavailable'' (utf8_text [0xE6, 0x89, 0xA7, 0xE8, 0xA1, 0x8C, 0xE6, 0xA8, 0xA1, 0xE5, 0xBC, 0x8F, 0xE6, 0x9A, 0x82, 0xE4,
     0xB8, 0x8D, 0xE5, 0x8F, 0xAF, 0xE7, 0x94, 0xA8])"

definition dry_run_reasons :: "bool \<Rightarrow> EffectiveStrategy \<Rightarrow> string list" where
  "dry_run_reasons env es = (if env then [''environment_dry_run''] else []) @ (if es_GlobalRealEnabled es then [] else [''global_disabled''])
     @ (if \<not> es_RealEnabled es \<and> es_Params es \<noteq> None then [''template_disabled''] else [])"

definition handleExecutionStatus :: "'w api \<Rightarrow> 'w handler" where
  "handleExecutionStatus a r sv = (case EnvironmentDryRun a of None \<Rightarrow> (no_mode, sv)
     | Some env \<Rightarrow>
        (let h = rq_query r ''hash_name'' in
         case GetEffectiveStrategy h (ses sv) of
           (Inl e, s) \<Rightarrow> (internalError, sv\<lparr>ses := s\<rparr>)
         | (Inr es, s) \<Rightarrow>
            (let reasons = dry_run_reasons env es in
             (writeJSON 200 (JObj [(''dry_run'', JBool (reasons \<noteq> [])), (''reasons'', JArr (map JStr reasons)), (''environment_dry_run'', JBool env),
                (''global_real_enabled'', JBool (es_GlobalRealEnabled es)), (''effective_real_enabled'', JBool (es_RealEnabled es)),
                (''hash_name'', JStr h), (''channel_route'', JStr (es_Route es)), (''checked_at'', time_json (rq_now r))]), sv\<lparr>ses := s\<rparr>))))"

definition channel_json :: "ChannelTotal \<Rightarrow> json" where
  "channel_json c = JObj [(''channel'', JStr (ct_Channel c)), (''income'', JNum (ct_Income c)), (''orders'', JInt (ct_Orders c))]"

definition yield_json :: "CategoryYield \<Rightarrow> json" where
  "yield_json c = JObj [(''category'', JStr (cy_Category c)), (''cost'', JNum (cy_Cost c)), (''income'', JNum (cy_Income c)), (''yield'', JNum (cy_Yield c))]"

definition point_json :: "DailyPoint \<Rightarrow> json" where
  "point_json p = JObj [(''date'', JStr (dp_Date p)), (''income'', JNum (dp_Income p)), (''orders'', JInt (dp_Orders p))]"

definition amounts_json :: "(channel \<times> f64) list \<Rightarrow> json" where
  "amounts_json vs = JObj (map (\<lambda>(ch, v). (ch, JNum v)) vs)"

definition dashboard_json :: "Dashboard \<Rightarrow> json" where
  "dashboard_json d = JObj
    [(''assets'', JObj [(''total'', JNum (da_Total d)), (''inventory'', JNum (da_Inventory d)), (''deposits'', amounts_json (da_Deposits d)),
        (''wallets'', amounts_json (da_Wallets d))]),
     (''income'', JObj [(''total'', JNum (da_Income d)), (''today'', JNum (da_Today d)), (''by_channel'', JArr (map channel_json (da_ByChannel d)))]),
     (''leased_out'', JInt (int (da_LeasedOut d))), (''annualized_roi'', JNum (da_AnnualizedROI d)), (''categories'', JArr (map yield_json (da_Categories d))),
     (''series_30d'', JArr (map point_json (da_Series30d d))), (''roi_available'', JBool (da_ROIAvailable d)),
     (''observation_started_at'', opt_json time_json (da_ObservationStartedAt d)), (''observation_days'', JNum (da_ObservationDays d)),
     (''costed_items'', JInt (int (da_CostedItems d))), (''inventory_items'', JInt (int (da_InventoryItems d))), (''cost_total'', JNum (da_CostTotal d)),
     (''sold_cost'', JNum (da_SoldCost d))]"

text \<open>\<open>wallets\<close> asks the adapters for their balances, where the server has been given a way to. The wallet counter
  moves once a snapshot, so not at all when the dashboard fails.\<close>

definition handleDashboard :: "('w \<Rightarrow> (channel \<times> f64) list \<times> 'w) option \<Rightarrow> 'w handler" where
  "handleDashboard wallets r sv =
    (let (ws, w) = (case wallets of None \<Rightarrow> ([], outside sv) | Some f \<Rightarrow> f (outside sv)) in
     case BuildDashboard ws (rq_now r) (walletSeq sv) (ses sv) of
       (Inl e, s) \<Rightarrow> (internalError, sv\<lparr>ses := s, outside := w\<rparr>)
     | (Inr d, s) \<Rightarrow> (writeJSON 200 (dashboard_json d), sv\<lparr>ses := s, outside := w, walletSeq := walletSeq sv + int (length ws)\<rparr>))"

end
