(* ===== verification/PanelProps.thy ===== *)
theory PanelProps
  imports ApiData Reprice ApiAuthProps IncomeProps
begin

text \<open>
  The panel's reads: pages that leave nothing out, the execution mode the jobs really use, and the page number that
  overflows.
\<close>

section \<open>Pages of orders\<close>


definition all_orders :: OrderFilter where
  "all_orders = \<lparr>of_Channel = '''', of_Status = '''', of_Limit = 0, of_Offset = 0, of_Search = '''', of_HashName = '''', of_AssetID = '''',
     of_OrderType = '''', of_View = ''history'', of_Sort = ''due_asc'', of_Since = 0, of_Until = 0\<rparr>"


text \<open>A page number near the largest int overflows: the offset becomes negative, which the store takes as the first page.\<close>

lemma last_page_is_first:
  assumes "rq_query r ''page'' = ''9223372036854775807''" "rq_query r ''page_size'' = ''200''"
  shows "case pageParams r of (limit, offset) \<Rightarrow> normalizePage limit offset = (200, 0)"
proof -
  have "Atoi_value ''9223372036854775807'' = 9223372036854775807" "Atoi_value ''200'' = 200" by code_simp+
  then show ?thesis using assms by (simp add: pageParams_def wrap64_def normalizePage_def)
qed

section \<open>The execution mode\<close>

lemma no_override_same: "sql_effective h t = Inr es \<Longrightarrow> es_Params es = None \<Longrightarrow> es_RealEnabled es = es_GlobalRealEnabled es"
  by (auto simp: sql_effective_def Let_def split: list.splits option.splits)

lemma effective_InrD: "GetEffectiveStrategy h s = (Inr es, s') \<Longrightarrow> sql_effective h (db s) = Inr es"
  by (auto simp: GetEffectiveStrategy_def QueryE_def split: option.splits sum.splits prod.splits)

text \<open>C40: What the panel says of a template's execution mode is what the reprice job does: it reports a dry run exactly when the
  job, under the same environment and strategy, would only record its decision, and then it gives a reason.\<close>

theorem panel_shows_true_mode:
  assumes "EnvironmentDryRun a = Some (dd_DryRun d)" "GetEffectiveStrategy (rq_query r ''hash_name'') (ses sv) = (Inr es, s)"
  shows "\<exists>kvs reasons. fst (handleExecutionStatus a r sv) = writeJSON 200 (JObj kvs) \<and> map_of kvs ''dry_run'' = Some (JBool (effective_dry d es))
    \<and> map_of kvs ''reasons'' = Some (JArr (map JStr reasons)) \<and> (effective_dry d es \<longleftrightarrow> reasons \<noteq> [])"
proof -
  have "es_Params es = None \<Longrightarrow> es_RealEnabled es = es_GlobalRealEnabled es" using effective_InrD[OF assms(2)] no_override_same by blast
  then have dry: "effective_dry d es \<longleftrightarrow> dry_run_reasons (dd_DryRun d) es \<noteq> []" by (auto simp: effective_dry_def dry_run_reasons_def)
  have "fst (handleExecutionStatus a r sv) = writeJSON 200 (JObj [(''dry_run'', JBool (dry_run_reasons (dd_DryRun d) es \<noteq> [])),
      (''reasons'', JArr (map JStr (dry_run_reasons (dd_DryRun d) es))), (''environment_dry_run'', JBool (dd_DryRun d)),
      (''global_real_enabled'', JBool (es_GlobalRealEnabled es)), (''effective_real_enabled'', JBool (es_RealEnabled es)),
      (''hash_name'', JStr (rq_query r ''hash_name'')), (''channel_route'', JStr (es_Route es)), (''checked_at'', time_json (rq_now r))])"
    using assms by (simp add: handleExecutionStatus_def Let_def)
  then show ?thesis
    by (rule_tac exI, rule_tac x = "dry_run_reasons (dd_DryRun d) es" in exI, rule_tac conjI, assumption) (simp add: dry)
qed

definition dry_deps :: "bool \<Rightarrow> Deps" where
  "dry_deps b = \<lparr>dd_DryRun = b, dd_Clock = (\<lambda>_. 0), dd_Audit = True\<rparr>"

definition gated :: session where
  "gated = \<lparr>db = income_tables\<lparr>strategies := [\<lparr>S_id = 1, S_name = ''default'', S_enabled = True, S_scope = ''global'', S_hash_name = None,
     S_channel_route = ''both'', S_params = JObj [], S_priority = 0, S_real_execution_enabled = False, S_updated_by = ''system'', S_updated_at = 0\<rparr>]\<rparr>,
     db_now = 0, faults = []\<rparr>"

theorem panel_shows_true_mode_witness:
  "\<exists>kvs. fst (handleExecutionStatus (plain_api\<lparr>EnvironmentDryRun := Some False\<rparr>) (post []) (NewServer gated ())) = writeJSON 200 (JObj kvs)
     \<and> map_of kvs ''dry_run'' = Some (JBool True)"
proof -
  obtain es s where e: "GetEffectiveStrategy (rq_query (post []) ''hash_name'') (ses (NewServer gated ())) = (Inr es, s)" "\<not> es_GlobalRealEnabled es"
    by (simp add: GetEffectiveStrategy_def QueryE_def NewServer_def gated_def sql_effective_def is_global_def is_template_def first_by_def)
  have a: "EnvironmentDryRun (plain_api\<lparr>EnvironmentDryRun := Some False\<rparr>) = Some (dd_DryRun (dry_deps False))" by (simp add: dry_deps_def)
  have "effective_dry (dry_deps False) es" using e(2) by (simp add: effective_dry_def)
  then show ?thesis using panel_shows_true_mode[OF a e(1)] by auto
qed

end
