(* ===== verification/ApiAdmin.thy ===== *)
theory ApiAdmin
  imports ApiData
begin

text \<open>
  The panel's writing endpoints for costs, strategies and the blacklist, and the audit list
  (\<open>internal/api/handlers_admin.go\<close>).
\<close>

definition ok_json :: json where
  "ok_json = JObj [(''status'', JStr ''ok'')]"

section \<open>Costs\<close>

definition handleSetCost :: "'w handler" where
  "handleSetCost r sv =
    (let ch = rq_path r ''channel''; asset = rq_path r ''asset_id'' in
     if \<not> Valid ch then (bad_request ''invalid channel'', sv)
     else case decode [float_field ''cost'' id (\<lambda>v _. v)] (Fin 0) r of
         None \<Rightarrow> (bad_request ''cost must be >= 0'', sv)
       | Some cost \<Rightarrow>
          if cost < Fin 0 then (bad_request ''cost must be >= 0'', sv)
          else case SetCostBasis ch asset cost (ses sv) of
              (Some e, s) \<Rightarrow> (if e = not_found then writeErr 404 ''not_found'' ''inventory item missing'' else internalError, sv\<lparr>ses := s\<rparr>)
            | (None, s) \<Rightarrow> (writeJSON 200 (JObj [(''cost'', JNum cost)]),
                audit r ''inventory.cost_update'' (Some [(''channel'', JStr ch), (''target'', JStr asset), (''cost'', JNum cost)]) (sv\<lparr>ses := s\<rparr>)))"

section \<open>Strategies\<close>

definition strategy_json :: "strategy_row \<Rightarrow> json" where
  "strategy_json v = JObj [(''id'', JInt (S_id v)), (''name'', JStr (S_name v)), (''scope'', JStr (S_scope v)), (''channel_route'', JStr (S_channel_route v)),
     (''params'', S_params v), (''real_execution_enabled'', JBool (S_real_execution_enabled v)), (''priority'', JInt (S_priority v)),
     (''updated_at'', time_json (S_updated_at v))]"

definition strategy_order :: "strategy_row \<Rightarrow> strategy_row \<Rightarrow> bool" where
  "strategy_order = then_by (by_desc S_scope) (then_by (by_desc S_priority) (by_asc S_id))"

definition handleStrategiesList :: "'w handler" where
  "handleStrategiesList r sv = (case Query (\<lambda>t. order_by strategy_order (strategies t)) (ses sv) of
     (Inl e, s) \<Rightarrow> (internalError, sv\<lparr>ses := s\<rparr>) | (Inr rows, s) \<Rightarrow> (writeJSON 200 (JArr (map strategy_json rows)), sv\<lparr>ses := s\<rparr>))"

record strategyUpdate =
  su_Params :: "json option"
  su_Route :: "string option"
  su_RouteAlias :: "string option"
  su_RealEnabled :: "bool option"

definition update_fields :: "strategyUpdate field list" where
  "update_fields = [pointer_field ''params'' Some (\<lambda>v q. q\<lparr>su_Params := v\<rparr>), pointer_field ''channel_route'' read_string (\<lambda>v q. q\<lparr>su_Route := v\<rparr>),
     pointer_field ''route'' read_string (\<lambda>v q. q\<lparr>su_RouteAlias := v\<rparr>), pointer_field ''real_execution_enabled'' read_bool (\<lambda>v q. q\<lparr>su_RealEnabled := v\<rparr>)]"

definition no_update :: strategyUpdate where
  "no_update = \<lparr>su_Params = None, su_Route = None, su_RouteAlias = None, su_RealEnabled = None\<rparr>"

definition validRoutes :: "string list" where
  "validRoutes = [''uu_only'', ''eco_only'', ''both'', ''uu_primary_eco_fallback'']"

definition validateStrategyParams :: "json \<Rightarrow> json option \<Rightarrow> goerr option" where
  "validateStrategyParams global template = (case ParseParams (Some global) template of
     Inl e \<Rightarrow> Some \<lparr>Error = ''invalid strategy params: '' @ Error e, wrapped = [ErrInvalidStrategyParams]\<rparr> | Inr _ \<Rightarrow> None)"

fun validate_templates :: "json \<Rightarrow> json list \<Rightarrow> goerr option" where
  "validate_templates global [] = None"
| "validate_templates global (tm # tms) = (case validateStrategyParams global (Some tm) of
     Some e \<Rightarrow> Some (Wrap ''template override: '' e) | None \<Rightarrow> validate_templates global tms)"

definition validateGlobalStrategyParams :: "json \<Rightarrow> json list \<Rightarrow> goerr option" where
  "validateGlobalStrategyParams global tms = (case validateStrategyParams global None of Some e \<Rightarrow> Some e | None \<Rightarrow> validate_templates global tms)"

definition invalid_params :: "goerr \<Rightarrow> bool" where
  "invalid_params e \<longleftrightarrow> ErrInvalidStrategyParams \<in> set (wrapped e)"

text \<open>The gate can always be closed: only new parameters, or opening it, are validated.\<close>

definition update_validation :: "strategyUpdate \<Rightarrow> (json \<Rightarrow> json list \<Rightarrow> goerr option) option" where
  "update_validation q = (if su_Params q \<noteq> None \<or> su_RealEnabled q = Some True then Some validateGlobalStrategyParams else None)"

definition update_detail :: "int \<Rightarrow> strategyUpdate \<Rightarrow> (string \<times> json) list" where
  "update_detail i q = (''target'', JStr (dec_int i)) # opt_field ''channel_route'' JStr (su_Route q) @ opt_field ''real_execution_enabled'' JBool (su_RealEnabled q)"

definition update_global :: "strategyUpdate \<Rightarrow> 'w handler" where
  "update_global q r sv =
    (case EnsureGlobalStrategy (JObj []) (ses sv) of
       (Inl e, s) \<Rightarrow> (internalError, sv\<lparr>ses := s\<rparr>)
     | (Inr (i, _), s) \<Rightarrow>
        (case UpdateGlobalStrategyChecked i \<lparr>gp_Params = su_Params q, gp_Route = su_Route q, gp_RealEnabled = su_RealEnabled q\<rparr> (update_validation q) s of
           (Inl e, s) \<Rightarrow> (if invalid_params e then bad_request (Error e) else internalError, sv\<lparr>ses := s\<rparr>)
         | (Inr _, s) \<Rightarrow> (writeJSON 200 ok_json, audit r ''strategy.update_global'' (Some (update_detail i q)) (sv\<lparr>ses := s\<rparr>))))"

definition handleStrategyUpdateGlobal :: "'w handler" where
  "handleStrategyUpdateGlobal r sv =
    (case decode update_fields no_update r of
       None \<Rightarrow> (bad_request ''invalid json'', sv)
     | Some q \<Rightarrow>
        (let q = (if su_RouteAlias q \<noteq> None \<and> su_Route q = None then q\<lparr>su_Route := su_RouteAlias q\<rparr> else q) in
         if (case su_Route q of None \<Rightarrow> False | Some x \<Rightarrow> x \<notin> set validRoutes) then (bad_request ''invalid channel_route'', sv)
         else case (case su_Params q of None \<Rightarrow> None | Some j \<Rightarrow> validateStrategyParams j None) of
             Some e \<Rightarrow> (bad_request (Error e), sv)
           | None \<Rightarrow> update_global q r sv))"

record templateStrategyRequest =
  tr_HashName :: string
  tr_Route :: string
  tr_Params :: "json option"
  tr_RealEnabled :: "bool option"
  tr_Priority :: "int option"

definition upsert_fields :: "templateStrategyRequest field list" where
  "upsert_fields = [string_field ''hash_name'' (\<lambda>v q. q\<lparr>tr_HashName := v\<rparr>), string_field ''channel_route'' (\<lambda>v q. q\<lparr>tr_Route := v\<rparr>),
     pointer_field ''params'' Some (\<lambda>v q. q\<lparr>tr_Params := v\<rparr>), pointer_field ''real_execution_enabled'' read_bool (\<lambda>v q. q\<lparr>tr_RealEnabled := v\<rparr>),
     pointer_field ''priority'' read_int (\<lambda>v q. q\<lparr>tr_Priority := v\<rparr>)]"

definition no_upsert :: templateStrategyRequest where
  "no_upsert = \<lparr>tr_HashName = '''', tr_Route = '''', tr_Params = None, tr_RealEnabled = None, tr_Priority = None\<rparr>"

definition template_request :: "templateStrategyRequest \<Rightarrow> TemplateStrategy" where
  "template_request q = \<lparr>ts_HashName = tr_HashName q, ts_Route = tr_Route q, ts_Params = (case tr_Params q of None \<Rightarrow> JObj [] | Some j \<Rightarrow> j),
     ts_RealEnabled = tr_RealEnabled q, ts_Priority = (case tr_Priority q of None \<Rightarrow> 0 | Some n \<Rightarrow> n)\<rparr>"

definition upsert_template :: "templateStrategyRequest \<Rightarrow> 'w handler" where
  "upsert_template q r sv =
    (case EnsureGlobalStrategy (JObj []) (ses sv) of
       (Inl e, s) \<Rightarrow> (internalError, sv\<lparr>ses := s\<rparr>)
     | (Inr _, s) \<Rightarrow>
        (case UpsertTemplateStrategyChecked (template_request q) (Some (\<lambda>g p. validateStrategyParams g (Some p))) s of
           (Inl e, s) \<Rightarrow>
             (if invalid_params e then (bad_request (Error e), sv\<lparr>ses := s\<rparr>)
              else (writeErr 400 ''upsert_failed'' ''unknown template or invalid payload'',
                    audit r ''strategy.template_upsert_failed'' (Some [(''hash'', JStr (tr_HashName q)), (''error'', JStr (Error e))]) (sv\<lparr>ses := s\<rparr>)))
         | (Inr i, s) \<Rightarrow> (writeJSON 200 (JObj [(''id'', JInt i)]),
             audit r ''strategy.template_upsert'' (Some [(''id'', JInt i), (''hash'', JStr (tr_HashName q)), (''channel_route'', JStr (tr_Route q)),
                (''real_execution_enabled'', JBool (tr_RealEnabled q = Some True))]) (sv\<lparr>ses := s\<rparr>))))"

definition handleTemplateStrategyUpsert :: "'w handler" where
  "handleTemplateStrategyUpsert r sv =
    (case decode upsert_fields no_upsert r of
       None \<Rightarrow> (bad_request ''hash_name required'', sv)
     | Some q \<Rightarrow>
        if tr_HashName q = '''' then (bad_request ''hash_name required'', sv)
        else if tr_Route q \<notin> set validRoutes then (bad_request ''invalid channel_route'', sv)
        else upsert_template q r sv)"

definition handleTemplateStrategyDelete :: "'w handler" where
  "handleTemplateStrategyDelete r sv =
    (case ParseInt (rq_path r ''id'') of
       None \<Rightarrow> (bad_request ''invalid id'', sv)
     | Some i \<Rightarrow>
        if i \<le> 0 then (bad_request ''invalid id'', sv)
        else case DeleteTemplateStrategy i (ses sv) of
            (Inl e, s) \<Rightarrow> (if ErrNotFound \<in> set (wrapped e) then writeErr 404 ''not_found'' ''no such template strategy'' else internalError, sv\<lparr>ses := s\<rparr>)
          | (Inr _, s) \<Rightarrow> (writeJSON 200 ok_json, audit r ''strategy.template_delete'' (Some [(''id'', JInt i)]) (sv\<lparr>ses := s\<rparr>)))"

section \<open>The audit log and the blacklist\<close>

definition audit_json :: "AuditEntry \<Rightarrow> json" where
  "audit_json e = JObj ([(''ts'', time_json (ae_Time e)), (''actor'', JStr (ae_Actor e)), (''action'', JStr (ae_Action e))] @ text_field ''channel'' (ae_Channel e)
     @ text_field ''target'' (ae_Target e)
     @ (case ae_Detail e of None \<Rightarrow> [] | Some kvs \<Rightarrow> if kvs = [] then [] else [(''detail'', publicDetail (JObj kvs))]))"

definition handleAuditList :: "'w handler" where
  "handleAuditList r sv = (case timeWindow r of Inl resp \<Rightarrow> (resp, sv)
     | Inr (since, until) \<Rightarrow>
        (let (limit, offset) = pageParams r in
         send_list (ListAudit \<lparr>af_Action = rq_query r ''action'', af_Channel = rq_query r ''channel'', af_Since = since, af_Before = until,
            af_Limit = limit, af_Offset = offset\<rparr>) audit_json sv))"

record blacklistRequest =
  bq_HashName :: string
  bq_Blacklisted :: bool

definition blacklist_fields :: "blacklistRequest field list" where
  "blacklist_fields = [string_field ''hash_name'' (\<lambda>v q. q\<lparr>bq_HashName := v\<rparr>), bool_field ''blacklisted'' (\<lambda>v q. q\<lparr>bq_Blacklisted := v\<rparr>)]"

definition handleTemplateBlacklist :: "'w handler" where
  "handleTemplateBlacklist r sv =
    (case decode blacklist_fields \<lparr>bq_HashName = '''', bq_Blacklisted = False\<rparr> r of
       None \<Rightarrow> (bad_request ''hash_name required'', sv)
     | Some q \<Rightarrow>
        if bq_HashName q = '''' then (bad_request ''hash_name required'', sv)
        else case SetTemplateBlacklist (bq_HashName q) (bq_Blacklisted q) (ses sv) of
            (Some e, s) \<Rightarrow> (if ErrNotFound \<in> set (wrapped e) then writeErr 404 ''not_found'' ''unknown template'' else internalError, sv\<lparr>ses := s\<rparr>)
          | (None, s) \<Rightarrow> (writeJSON 200 (JObj [(''ok'', JBool True)]),
              audit r ''template.blacklist'' (Some [(''hash'', JStr (bq_HashName q)), (''blacklisted'', JBool (bq_Blacklisted q))]) (sv\<lparr>ses := s\<rparr>)))"

end
