(* ===== verification/ApiAdminProps.thy ===== *)
theory ApiAdminProps
  imports ApiAdmin IncomeProps
begin

text \<open>
  Strategies as the panel leaves them: whatever it is asked to change, the stored parameters keep parsing, alone and
  under every enabled template's override, so no job meets parameters it cannot read.
\<close>

section \<open>Stored parameters that parse\<close>

definition overrides :: "tables \<Rightarrow> json set" where
  "overrides t = S_params ` {r \<in> set (strategies t). S_scope r = ''template'' \<and> S_enabled r}"

definition params_parse :: "json \<Rightarrow> json option \<Rightarrow> bool" where
  "params_parse g tm \<longleftrightarrow> validateStrategyParams g tm = None"

text \<open>Ids are keys, there is one global row at most, and without one there is no override.\<close>

definition strategies_ok :: "tables \<Rightarrow> bool" where
  "strategies_ok t \<longleftrightarrow> distinct (map S_id (strategies t)) \<and> (\<forall>r \<in> set (strategies t). S_id r < next_id t)
     \<and> length (filter is_global (strategies t)) \<le> 1 \<and> (filter is_global (strategies t) = [] \<longrightarrow> overrides t = {})
     \<and> (\<forall>g \<in> set (strategies t). is_global g \<longrightarrow> params_parse (S_params g) None \<and> (\<forall>p \<in> overrides t. params_parse (S_params g) (Some p)))"

lemma set_enabled_templates: "set (enabled_templates t) = overrides t"
  by (auto simp: enabled_templates_def overrides_def)

lemma validate_templates_iff: "validate_templates g tms = None \<longleftrightarrow> (\<forall>p \<in> set tms. params_parse g (Some p))"
  by (induction tms) (auto simp: params_parse_def split: option.splits)

lemma validate_global_iff: "validateGlobalStrategyParams g tms = None \<longleftrightarrow> params_parse g None \<and> (\<forall>p \<in> set tms. params_parse g (Some p))"
  by (auto simp: validateGlobalStrategyParams_def validate_templates_iff params_parse_def split: option.splits)

lemma empty_params_parse: "params_parse (JObj []) None"
  using default_params_parse by (auto simp: params_parse_def validateStrategyParams_def ParseParams_def to_struct_def split: option.splits sum.splits)

lemma strategies_ok_frame:
  "strategies t' = strategies t \<Longrightarrow> next_id t' = next_id t \<Longrightarrow> strategies_ok t' = strategies_ok t"
  by (simp add: strategies_ok_def overrides_def)

section \<open>The statements\<close>

lemma not_both: "is_global r \<Longrightarrow> S_scope r \<noteq> ''template''"
  by (simp add: is_global_def)

lemma ensure_ok: "strategies_ok t \<Longrightarrow> strategies_ok (sql_ensure_global (JObj []) now t)"
proof (cases "list_ex is_global (strategies t)")
  case True
  assume "strategies_ok t"
  then show ?thesis using True by (fastforce simp: sql_ensure_global_def strategies_ok_def overrides_def)
next
  case False
  assume ok: "strategies_ok t"
  let ?row = "\<lparr>S_id = next_id t, S_name = ''default'', S_enabled = True, S_scope = ''global'',
              S_hash_name = None, S_channel_route = ''both'', S_params = JObj [], S_priority = 0,
              S_real_execution_enabled = False, S_updated_by = ''system'', S_updated_at = now\<rparr>"
  have st: "strategies (sql_ensure_global (JObj []) now t) = strategies t @ [?row]" "next_id (sql_ensure_global (JObj []) now t) = next_id t + 1"
    using False by (simp_all add: sql_ensure_global_def)
  have none: "filter is_global (strategies t) = []" using False by (auto simp: list_ex_iff filter_empty_conv)
  then have no: "overrides t = {}" using ok by (simp add: strategies_ok_def)
  moreover have "overrides (sql_ensure_global (JObj []) now t) = overrides t" by (auto simp: overrides_def st)
  ultimately show ?thesis using ok none empty_params_parse
    by (fastforce simp: strategies_ok_def st filter_empty_conv is_global_def)
qed

text \<open>The one global row, as the lock reads it.\<close>

lemma the_global:
  assumes "strategies_ok t" "filter is_global (strategies t) = g # gs" "r \<in> set (strategies t)" "is_global r"
  shows "r = g"
proof -
  have "gs = []" using assms(1,2) by (simp add: strategies_ok_def)
  moreover have "r \<in> set (filter is_global (strategies t))" using assms(3,4) by simp
  ultimately show ?thesis using assms(2) by simp
qed

lemma map_id_upd: "(\<And>r. S_id (f r) = S_id r) \<Longrightarrow> map S_id (upd_where p f rs) = map S_id rs"
  by (induction rs) (auto simp: upd_where_def)

lemma filter_upd: "(\<And>r. p r \<Longrightarrow> Q (f r) = Q r) \<Longrightarrow> length (filter Q (upd_where p f rs)) = length (filter Q rs)"
  by (induction rs) (auto simp: upd_where_def)

lemma filter_upd_empty: "(\<And>r. p r \<Longrightarrow> Q (f r) = Q r) \<Longrightarrow> filter Q (upd_where p f rs) = [] \<longleftrightarrow> filter Q rs = []"
  using filter_upd[of p Q f rs] by (metis length_0_conv)

lemma ids_upd: "(\<And>r. S_id (f r) = S_id r) \<Longrightarrow> (\<forall>r \<in> set (upd_where p f rs). S_id r < n) \<longleftrightarrow> (\<forall>r \<in> set rs. S_id r < n)"
  using map_id_upd[of f p rs] by (metis (no_types, lifting) in_set_conv_nth length_map nth_map)

lemma in_upd: "r \<in> set (upd_where p f rs) \<Longrightarrow> \<exists>q \<in> set rs. r = (if p q then f q else q)"
  by (auto simp: upd_where_def)

lemma patch_ok:
  assumes ok: "strategies_ok t" and g: "filter is_global (strategies t) = g # gs"
    and params: "params_parse params None \<and> (\<forall>p \<in> overrides t. params_parse params (Some p))"
  shows "strategies_ok (sql_patch_global (S_id g) params patch now t)"
proof -
  let ?t = "sql_patch_global (S_id g) params patch now t"
  have gin: "g \<in> set (strategies t)" "is_global g" using arg_cong[OF g, of set] by auto
  have only: "r = g" if "r \<in> set (strategies t)" "S_id r = S_id g" for r
    using ok that gin unfolding strategies_ok_def distinct_map inj_on_def by blast
  have frame: "\<And>r. is_global (r\<lparr>S_params := a, S_channel_route := b, S_real_execution_enabled := c, S_updated_by := d, S_updated_at := e\<rparr>) = is_global r"
    for a b c d e by (simp add: is_global_def)
  have ov: "overrides ?t \<subseteq> overrides t"
  proof
    fix p assume "p \<in> overrides ?t"
    then obtain r where r: "r \<in> set (strategies ?t)" "S_scope r = ''template''" "S_enabled r" "p = S_params r" by (auto simp: overrides_def)
    then obtain q where q: "q \<in> set (strategies t)" "S_id q \<noteq> S_id g" "r = q"
      using gin only by (fastforce simp: sql_patch_global_def upd_where_def is_global_def split: if_splits)
    then show "p \<in> overrides t" using r by (auto simp: overrides_def)
  qed
  have glob: "params_parse (S_params r) None \<and> (\<forall>p \<in> overrides ?t. params_parse (S_params r) (Some p))"
    if "r \<in> set (strategies ?t)" "is_global r" for r
  proof -
    have rin: "r \<in> set (strategies ?t)" by (rule that(1))
    obtain q where q: "q \<in> set (strategies t)" "r = (if S_id q = S_id g then q\<lparr>S_params := params,
              S_channel_route := (case gp_Route patch of None \<Rightarrow> S_channel_route q | Some x \<Rightarrow> x),
              S_real_execution_enabled := (case gp_RealEnabled patch of None \<Rightarrow> S_real_execution_enabled q | Some b \<Rightarrow> b),
              S_updated_by := ''user'', S_updated_at := now\<rparr> else q)"
      using in_upd[OF rin[unfolded sql_patch_global_def, simplified]] by blast
    have "is_global q" using that(2) q(2) frame by (auto split: if_splits)
    then have "q = g" using the_global[OF ok g q(1)] by simp
    then have "S_params r = params" using q(2) by simp
    then show ?thesis using params ov by auto
  qed
  have "filter is_global (strategies ?t) \<noteq> []" "length (filter is_global (strategies ?t)) \<le> 1"
    using g ok unfolding sql_patch_global_def strategies_ok_def
    by (simp_all add: filter_upd filter_upd_empty frame)
  moreover have "distinct (map S_id (strategies ?t))" "\<forall>r \<in> set (strategies ?t). S_id r < next_id ?t"
    using ok unfolding sql_patch_global_def strategies_ok_def by (simp_all add: map_id_upd ids_upd)
  ultimately show ?thesis using glob by (simp add: strategies_ok_def)
qed

lemma upsert_ok:
  assumes ok: "strategies_ok t" and g: "filter is_global (strategies t) = g # gs" and p: "params_parse (S_params g) (Some (ts_Params x))"
    and run: "sql_upsert_template_strategy x now t = (i, t')"
  shows "strategies_ok t'"
proof -
  have ov: "overrides t' \<subseteq> insert (ts_Params x) (overrides t)"
    using run by (auto simp: sql_upsert_template_strategy_def overrides_def upd_where_def is_template_def split: list.splits if_splits)
  have glob: "params_parse (S_params r) None \<and> (\<forall>p \<in> overrides t'. params_parse (S_params r) (Some p))"
    if "r \<in> set (strategies t')" "is_global r" for r
  proof -
    have "r \<in> set (strategies t)"
      using run that by (auto simp: sql_upsert_template_strategy_def upd_where_def is_template_def is_global_def split: list.splits if_splits)
    then have "r = g" using the_global[OF ok g] that(2) by simp
    moreover have "params_parse (S_params g) None \<and> (\<forall>p \<in> overrides t. params_parse (S_params g) (Some p))"
      using ok \<open>r \<in> set (strategies t)\<close> that(2) \<open>r = g\<close> by (simp add: strategies_ok_def)
    ultimately show ?thesis using ov p by auto
  qed
  have "filter is_global (strategies t') \<noteq> [] \<and> length (filter is_global (strategies t')) \<le> 1 \<and> distinct (map S_id (strategies t'))
      \<and> (\<forall>r \<in> set (strategies t'). S_id r < next_id t')"
  proof (cases "filter (is_template (ts_HashName x)) (strategies t)")
    case Nil
    then show ?thesis using run ok g
      by (fastforce simp: sql_upsert_template_strategy_def strategies_ok_def is_global_def)
  next
    case (Cons r rs)
    let ?f = "\<lambda>r. r\<lparr>S_channel_route := ts_Route x, S_params := ts_Params x, S_priority := ts_Priority x,
                S_real_execution_enabled := (case ts_RealEnabled x of None \<Rightarrow> S_real_execution_enabled r | Some b \<Rightarrow> b),
                S_enabled := True, S_updated_by := ''user'', S_updated_at := now\<rparr>"
    have t': "strategies t' = upd_where (is_template (ts_HashName x)) ?f (strategies t)" "next_id t' = next_id t + 1"
      using run Cons by (auto simp: sql_upsert_template_strategy_def)
    have frame: "is_global (?f r) = is_global r" for r by (simp add: is_global_def)
    have "\<forall>r \<in> set (strategies t'). S_id r < next_id t + 1" unfolding t' using ok by (fastforce simp: strategies_ok_def upd_where_def)
    then show ?thesis using ok g unfolding t' by (simp add: strategies_ok_def map_id_upd filter_upd filter_upd_empty frame)
  qed
  then show ?thesis using glob by (auto simp: strategies_ok_def)
qed

lemma delete_ok:
  assumes ok: "strategies_ok t" and s': "strategies t' = filter (\<lambda>r. \<not> is_template_id i r) (strategies t)" "next_id t' = next_id t"
  shows "strategies_ok t'"
proof -
  have g: "filter is_global (strategies t') = filter is_global (strategies t)" unfolding s'
    by (auto simp: filter_filter is_template_id_def is_global_def intro: filter_cong)
  have ov: "overrides t' \<subseteq> overrides t" by (auto simp: overrides_def s')
  show ?thesis using ok ov unfolding strategies_ok_def g s'(2) by (auto simp: s'(1) distinct_map_filter)
qed

section \<open>The transactions\<close>

lemma lock_InrD:
  assumes "lockGlobalStrategy s = (Inr (i, p), s1)"
  shows "\<exists>g gs. filter is_global (strategies (db s)) = g # gs \<and> i = S_id g \<and> p = S_params g \<and> db s1 = db s"
  using assms by (cases "filter is_global (strategies (db s))") (auto simp: lockGlobalStrategy_def QueryE_def split: option.splits)

lemma ExecR_InrD: "ExecR f s = (Inr x, s') \<Longrightarrow> f (db s) = (x, db s')"
  by (auto simp: ExecR_def split: option.splits prod.splits)

definition validates :: "StrategyGlobalPatch \<Rightarrow> (json \<Rightarrow> json list \<Rightarrow> goerr option) option \<Rightarrow> bool" where
  "validates p v \<longleftrightarrow> v = Some validateGlobalStrategyParams \<or> (v = None \<and> gp_Params p = None)"

lemma patch_body_ok:
  assumes run: "patch_body i p v s = (Inr (c, u), s')" and ok: "strategies_ok (db s)" and v: "validates p v"
  shows "strategies_ok (db s')"
proof -
  obtain j gp s1 where lock: "lockGlobalStrategy s = (Inr (j, gp), s1)" using run unfolding patch_body_def by (auto split: prod.splits sum.splits)
  then obtain g gs where g: "filter is_global (strategies (db s)) = g # gs" "j = S_id g" "gp = S_params g" "db s1 = db s" using lock_InrD by blast
  have i: "i = S_id g" using run g(2) unfolding patch_body_def lock by (auto split: if_splits)
  define params where "params = (case gp_Params p of None \<Rightarrow> gp | Some j \<Rightarrow> j)"
  obtain s2 where s2: "db s2 = db s" "Exec (sql_patch_global (S_id g) params p (db_now s2)) s2 = (None, s')"
    and val: "v = None \<or> validateGlobalStrategyParams params (enabled_templates (db s)) = None"
  proof (cases v)
    case None
    then show thesis using that[of s1] run g(2,4) i unfolding patch_body_def lock by (auto simp: params_def Let_def split: prod.splits option.splits)
  next
    case (Some f)
    then have f: "f = validateGlobalStrategyParams" using v by (simp add: validates_def)
    obtain ts s2 where q: "Query enabled_templates s1 = (Inr ts, s2)"
      using run g(2) i unfolding patch_body_def lock by (auto simp: Some Let_def split: prod.splits sum.splits)
    show thesis using that[of s2] run g(2,4) i Query_InrD[OF q] unfolding patch_body_def lock
      by (auto simp: params_def Let_def Some f q split: prod.splits option.splits)
  qed
  have "params_parse params None \<and> (\<forall>q \<in> overrides (db s). params_parse params (Some q))"
  proof (cases v)
    case None
    then have "params = S_params g" using v g(3) by (simp add: validates_def params_def)
    moreover have "g \<in> set (strategies (db s))" "is_global g" using arg_cong[OF g(1), of set] by auto
    ultimately show ?thesis using ok by (simp add: strategies_ok_def)
  next
    case (Some f)
    then show ?thesis using val by (simp add: validate_global_iff set_enabled_templates)
  qed
  then show ?thesis using patch_ok[OF ok g(1)] s2 Exec_NoneD[OF s2(2)] by simp
qed

lemma upsert_body_ok:
  assumes run: "upsert_body x (Some (\<lambda>g p. validateStrategyParams g (Some p))) s = (Inr (c, u), s')" and ok: "strategies_ok (db s)"
  shows "strategies_ok (db s')"
proof -
  obtain j gp s1 where lock: "lockGlobalStrategy s = (Inr (j, gp), s1)" using run unfolding upsert_body_def by (auto split: prod.splits sum.splits)
  then obtain g gs where g: "filter is_global (strategies (db s)) = g # gs" "gp = S_params g" "db s1 = db s" using lock_InrD by blast
  have p: "params_parse (S_params g) (Some (ts_Params x))"
    using run g(2) unfolding upsert_body_def lock by (auto simp: params_parse_def split: option.splits)
  obtain i where "ExecR (sql_upsert_template_strategy x (db_now s1)) s1 = (Inr i, s')"
    using run unfolding upsert_body_def lock by (auto split: option.splits prod.splits sum.splits)
  then have "sql_upsert_template_strategy x (db_now s1) (db s) = (i, db s')" using ExecR_InrD g(3) by metis
  then show ?thesis by (rule upsert_ok[OF ok g(1) p])
qed

lemma delete_body_ok:
  assumes run: "delete_body i s = (Inr (c, u), s')" and ok: "strategies_ok (db s)"
  shows "strategies_ok (db s')"
proof -
  obtain jp s1 where lock: "lockGlobalStrategy s = (Inr jp, s1)" using run unfolding delete_body_def by (auto split: prod.splits sum.splits)
  have d1: "db s1 = db s" using lock lock_InrD[of s "fst jp" "snd jp" s1] by auto
  obtain n where "ExecR (\<lambda>t. (length (filter (is_template_id i) (strategies t)),
      t\<lparr>strategies := filter (\<lambda>r. \<not> is_template_id i r) (strategies t)\<rparr>)) s1 = (Inr n, s')"
    using run unfolding delete_body_def lock by (auto split: prod.splits sum.splits if_splits)
  then have "db s' = (db s)\<lparr>strategies := filter (\<lambda>r. \<not> is_template_id i r) (strategies (db s))\<rparr>" using ExecR_InrD d1 by fastforce
  then show ?thesis using delete_ok[OF ok, of "db s'" i] by simp
qed

text \<open>A transaction whose body keeps the strategies in order keeps them in order however it ends.\<close>

lemma Tx_keeps:
  assumes "Tx wb body s = (r, s')" "strategies_ok (db s)" "\<And>c u s1. body (past s) = (Inr (c, u), s1) \<Longrightarrow> strategies_ok (db s1)"
  shows "strategies_ok (db s')"
proof (cases r)
  case (Inl e)
  then show ?thesis using Tx_error assms by metis
next
  case (Inr v)
  then obtain c s1 where "body (past s) = (Inr (c, v), s1)" "db s' = (if c then db s1 else db s)"
    using Tx_ok[of wb body s v s'] assms(1) by auto
  then show ?thesis using assms by (cases c) simp_all
qed

lemma ensure_keeps: "EnsureGlobalStrategy (JObj []) s = (r, s') \<Longrightarrow> strategies_ok (db s) \<Longrightarrow> strategies_ok (db s')"
  unfolding EnsureGlobalStrategy_def
  by (cases "Exec (sql_ensure_global (JObj []) (db_now s)) s" rule: prod.exhaust)
    (auto simp: Exec_def QueryE_def past_def ensure_ok split: option.splits)

lemma update_keeps:
  "UpdateGlobalStrategyChecked i p v s = (r, s') \<Longrightarrow> strategies_ok (db s) \<Longrightarrow> validates p v \<Longrightarrow> strategies_ok (db s')"
  unfolding UpdateGlobalStrategyChecked_def by (erule Tx_keeps) (auto intro: patch_body_ok)

lemma upsert_keeps:
  "UpsertTemplateStrategyChecked x (Some (\<lambda>g p. validateStrategyParams g (Some p))) s = (r, s') \<Longrightarrow> strategies_ok (db s) \<Longrightarrow> strategies_ok (db s')"
  unfolding UpsertTemplateStrategyChecked_def by (erule Tx_keeps) (auto intro: upsert_body_ok)

lemma delete_keeps: "DeleteTemplateStrategy i s = (r, s') \<Longrightarrow> strategies_ok (db s) \<Longrightarrow> strategies_ok (db s')"
  unfolding DeleteTemplateStrategy_def by (erule Tx_keeps) (auto intro: delete_body_ok)

lemma audit_frame: "strategies (db (ses (audit r a d sv))) = strategies (db (ses sv))" "next_id (db (ses (audit r a d sv))) = next_id (db (ses sv))"
  by (simp_all add: audit_def InsertAudit_def Exec_def past_def split: option.splits prod.splits)

lemma audit_keeps [simp]: "strategies_ok (db (ses (audit r a d sv))) \<longleftrightarrow> strategies_ok (db (ses sv))"
  by (rule strategies_ok_frame) (rule audit_frame)+

section \<open>The endpoints\<close>

lemma update_validation_validates:
  "validates \<lparr>gp_Params = su_Params q, gp_Route = rt, gp_RealEnabled = re\<rparr> (update_validation q)"
  by (simp add: validates_def update_validation_def)

lemma update_global_keeps: "strategies_ok (db (ses sv)) \<Longrightarrow> strategies_ok (db (ses (snd (update_global q r sv))))"
  unfolding update_global_def
  by (auto split: prod.splits sum.splits dest!: ensure_keeps intro: update_keeps[OF _ _ update_validation_validates])

lemma upsert_template_keeps: "strategies_ok (db (ses sv)) \<Longrightarrow> strategies_ok (db (ses (snd (upsert_template q r sv))))"
  unfolding upsert_template_def by (auto split: prod.splits sum.splits dest!: ensure_keeps intro: upsert_keeps)


definition one_global :: tables where
  "one_global = income_tables\<lparr>strategies := [\<lparr>S_id = 1, S_name = ''default'', S_enabled = True, S_scope = ''global'', S_hash_name = None,
     S_channel_route = ''both'', S_params = JObj [], S_priority = 0, S_real_execution_enabled = False, S_updated_by = ''system'', S_updated_at = 0\<rparr>]\<rparr>"

definition new_params :: request where
  "new_params = \<lparr>rq_body = Some (JObj [(''params'', JObj []), (''real_execution_enabled'', JBool True)]), rq_query = (\<lambda>_. ''''), rq_path = (\<lambda>_. ''''),
     rq_auth = '''', rq_ip = ''10.0.0.1'', rq_user = ''admin'', rq_now = 5\<rparr>"


end
