(* ===== verification/ApiChannels.thy ===== *)
theory ApiChannels
  imports ApiAdmin UuLogin Scheduler
begin

text \<open>
  Jobs and channels at the panel (\<open>internal/api/handlers_jobs.go\<close>): the job list, triggering a job, channel health, the UU login
  by SMS, and the credentials of the three platforms. The services behind the handlers are the records of functions
  their Go interfaces are; a service that is not there makes the handler answer 503, or panic and be recovered.
\<close>

section \<open>Services\<close>

text \<open>\<open>JobController\<close>: a job started by \<open>Trigger\<close> runs on its own.\<close>

record 'w job_service =
  js_StatusList :: "'w \<Rightarrow> Status list"
  js_Trigger :: "string \<Rightarrow> 'w \<Rightarrow> goerr option \<times> 'w"

type_synonym ('w, 'a) service_call = "session \<Rightarrow> 'w \<Rightarrow> 'a \<times> session \<times> 'w"

text \<open>\<open>ChannelsService\<close>. \<open>cv_VerifyRaw\<close> is the text a captcha reply's data was sent as.\<close>

record 'w channels_service =
  cv_Health :: "('w, (string \<times> string) list) service_call"
  cv_SendLoginSmsCode :: "string \<Rightarrow> string \<Rightarrow> CaptchaResult option \<Rightarrow> ('w, SmsCodeResult \<times> goerr option) service_call"
  cv_GetSmsUpSignInConfig :: "('w, goerr + string \<times> string) service_call"
  cv_VerifyUUSms :: "string \<Rightarrow> string \<Rightarrow> string \<Rightarrow> string \<Rightarrow> ('w, goerr + string) service_call"
  cv_SetUUToken :: "string \<Rightarrow> ('w, goerr option) service_call"
  cv_SetECOCreds :: "string \<Rightarrow> string \<Rightarrow> string \<Rightarrow> ('w, goerr option) service_call"
  cv_VerifyRaw :: "SmsCodeResult \<Rightarrow> string"

record 'w steam_service =
  tv_Health :: "('w, string) service_call"
  tv_SetCredentials :: "string \<Rightarrow> string \<Rightarrow> string \<Rightarrow> string \<Rightarrow> ('w, goerr option) service_call"

text \<open>\<open>crypto/rand\<close> answers numbers below the span it is asked for; when it fails the handler panics.\<close>

record 'w services =
  Jobs :: "'w job_service option"
  Channels :: "'w channels_service option"
  Steam :: "'w steam_service option"
  Wallets :: "('w \<Rightarrow> (channel \<times> f64) list \<times> 'w) option"
  rand_Ints :: "nat \<Rightarrow> 'w \<Rightarrow> int list option \<times> 'w"

definition served :: "('w, 'a) service_call \<Rightarrow> 'w server \<Rightarrow> 'a \<times> 'w server" where
  "served f sv = (case f (ses sv) (outside sv) of (x, s, w) \<Rightarrow> (x, sv\<lparr>ses := s, outside := w\<rparr>))"

definition panicked :: response where
  "panicked = writeErr 500 ''internal'' ''panic''"

definition too_many :: response where
  "too_many = writeErr 429 ''rate_limited'' ''too many attempts, retry later''"

definition sms_limited :: response where
  "sms_limited = writeErr 429 ''rate_limited'' ''too many sms attempts, retry later''"

section \<open>Jobs\<close>

definition job_failed_text :: string where
  "job_failed_text = utf8_text [0xE4, 0xBB, 0xBB, 0xE5, 0x8A, 0xA1, 0xE5, 0xA4, 0xB1, 0xE8, 0xB4, 0xA5, 0xEF, 0xBC, 0x8C, 0xE8, 0xAF, 0xB7, 0xE6, 0xA3, 0x80,
     0xE6, 0x9F, 0xA5, 0xE6, 0xB8, 0xA0, 0xE9, 0x81, 0x93, 0xE7, 0x8A, 0xB6, 0xE6, 0x80, 0x81, 0xE3, 0x80, 0x81, 0xE5, 0xAE, 0xA1, 0xE8, 0xAE, 0xA1, 0xE8, 0xAE,
     0xB0, 0xE5, 0xBD, 0x95, 0xE6, 0x88, 0x96, 0xE6, 0x9C, 0x8D, 0xE5, 0x8A, 0xA1, 0xE7, 0xAB, 0xAF, 0xE6, 0x97, 0xA5, 0xE5, 0xBF, 0x97]"

definition no_job_list :: response where
  "no_job_list = writeErr 503 ''unavailable'' (utf8_text [0xE4, 0xBB, 0xBB, 0xE5, 0x8A, 0xA1, 0xE7, 0x8A, 0xB6, 0xE6, 0x80, 0x81, 0xE6, 0x9A, 0x82, 0xE4, 0xB8,
     0x8D, 0xE5, 0x8F, 0xAF, 0xE7, 0x94, 0xA8])"

definition no_jobs :: response where
  "no_jobs = writeErr 503 ''unavailable'' (utf8_text [0xE4, 0xBB, 0xBB, 0xE5, 0x8A, 0xA1, 0xE8, 0xB0, 0x83, 0xE5, 0xBA, 0xA6, 0xE6, 0x9A, 0x82, 0xE4, 0xB8, 0x8D,
     0xE5, 0x8F, 0xAF, 0xE7, 0x94, 0xA8])"

definition job_json :: "Status \<Rightarrow> json" where
  "job_json s = JObj ([(''name'', JStr (st_Name s)), (''next_run'', time_json (NextRun s))] @ opt_field ''last_run'' time_json (LastRun s)
     @ [(''last_ok'', JBool (st_LastOK s))] @ text_field ''last_error'' (if LastError s = '''' then '''' else job_failed_text)
     @ [(''running'', JBool (Running s))])"

definition handleJobsList :: "'w services \<Rightarrow> 'w handler" where
  "handleJobsList x r sv = (case Jobs x of None \<Rightarrow> (no_job_list, sv)
     | Some j \<Rightarrow> (writeJSON 200 (JArr (map job_json (js_StatusList j (outside sv)))), sv))"

definition handleJobTrigger :: "'w services \<Rightarrow> 'w handler" where
  "handleJobTrigger x r sv = (case Jobs x of None \<Rightarrow> (no_jobs, sv)
     | Some j \<Rightarrow>
        (let name = rq_path r ''name''; (ok, b) = bucket_allow (rq_ip r) (rq_now r) (jobRuns sv); sv = sv\<lparr>jobRuns := b\<rparr> in
         if \<not> ok then (too_many, audit r ''job.trigger.rate_limited'' (Some [(''job'', JStr name)]) sv)
         else case js_Trigger j name (outside sv) of
             (Some e, w) \<Rightarrow> (writeErr 400 ''trigger_failed'' ''trigger failed'',
                audit r ''job.trigger.failed'' (Some [(''job'', JStr name), (''error'', JStr (Error e))]) (sv\<lparr>outside := w\<rparr>))
           | (None, w) \<Rightarrow> (writeJSON 200 (JObj [(''status'', JStr ''triggered'')]), audit r ''job.trigger'' (Some [(''job'', JStr name)]) (sv\<lparr>outside := w\<rparr>))))"

section \<open>Credentials\<close>

definition master_key_message :: string where
  "master_key_message = ''APP_MASTER_KEY'' @ utf8_text [0xE6, 0x9C, 0xAA, 0xE9, 0x85, 0x8D, 0xE7, 0xBD, 0xAE, 0xEF, 0xBC, 0x8C, 0xE4, 0xB8, 0x89, 0xE6, 0xB8, 0xA0,
     0xE9, 0x81, 0x93, 0xE4, 0xB8, 0x8D, 0xE5, 0x8F, 0xAF, 0xE7, 0x94, 0xA8]"

definition isMasterKeyError :: "goerr \<Rightarrow> bool" where
  "isMasterKeyError e \<longleftrightarrow> ErrNoMasterKey \<in> set (wrapped e) \<or> sublist ''APP_MASTER_KEY'' (Error e) \<or> sublist ''master key'' (Error e)"

definition tail_text :: "string \<Rightarrow> nat \<Rightarrow> string" where
  "tail_text s n = (if length s \<le> n then '''' else drop (length s - n) s)"

definition credFingerprint :: "string \<Rightarrow> string" where
  "credFingerprint v = take 12 (hex_string (sha256 v))"

definition truncateAudit :: "string \<Rightarrow> int \<Rightarrow> string" where
  "truncateAudit s n = (if n \<le> 0 \<or> int (length s) \<le> n then s else take (nat n) s)"

definition fingerprint_json :: "string \<Rightarrow> json" where
  "fingerprint_json fp = JObj [(''status'', JStr ''ok''), (''fingerprint'', JStr fp)]"

text \<open>What the three credential endpoints share: the write budget, the service, a missing master key, the audit of the
  failure, and the audit of the change with a fingerprint.\<close>

definition write_credentials ::
    "string \<Rightarrow> ('w, goerr option) service_call option \<Rightarrow> response \<Rightarrow> (string \<times> json) list \<Rightarrow> string \<Rightarrow> 'w handler" where
  "write_credentials ch f refused detail fp r sv =
    (let (ok, b) = bucket_allow (rq_ip r) (rq_now r) (channelWrites sv); sv = sv\<lparr>channelWrites := b\<rparr> in
     if \<not> ok then (too_many, audit r (''channel.'' @ ch @ ''.creds_rate_limited'') (Some []) sv)
     else case f of
         None \<Rightarrow> (panicked, sv)
       | Some f \<Rightarrow>
          (case served f sv of
             (Some e, sv) \<Rightarrow>
               (if isMasterKeyError e
                then (writeErr 500 ''master_key_missing'' master_key_message,
                      audit r (''channel.'' @ ch @ ''.creds_failed'') (Some [(''error'', JStr ''master_key_missing'')]) sv)
                else (refused, audit r (''channel.'' @ ch @ ''.creds_failed'') (Some [(''error'', JStr (Error e))]) sv))
           | (None, sv) \<Rightarrow> (writeJSON 200 (fingerprint_json fp), audit r (''channel.'' @ ch @ ''.creds_update'') (Some detail) sv)))"

definition handleUUToken :: "'w services \<Rightarrow> 'w handler" where
  "handleUUToken x r sv = (case decode [string_field ''token'' (\<lambda>v _. v)] '''' r of
     None \<Rightarrow> (bad_request ''token required'', sv)
   | Some token \<Rightarrow>
      if token = '''' then (bad_request ''token required'', sv)
      else write_credentials ''uu'' (map_option (\<lambda>c. cv_SetUUToken c token) (Channels x)) (writeErr 400 ''invalid_token'' ''set token failed'')
             [(''source'', JStr ''manual_import''), (''token_tail'', JStr (tail_text token 8))] (tail_text token 8) r sv)"

record ecoCredsRequest =
  eq_PartnerID :: string
  eq_PrivateKeyPEM :: string
  eq_SteamID :: string

definition eco_creds_fields :: "ecoCredsRequest field list" where
  "eco_creds_fields = [string_field ''partner_id'' (\<lambda>v q. q\<lparr>eq_PartnerID := v\<rparr>), string_field ''private_key_pem'' (\<lambda>v q. q\<lparr>eq_PrivateKeyPEM := v\<rparr>),
     string_field ''steam_id'' (\<lambda>v q. q\<lparr>eq_SteamID := v\<rparr>)]"

definition handleECOCreds :: "'w services \<Rightarrow> 'w handler" where
  "handleECOCreds x r sv = (case decode eco_creds_fields \<lparr>eq_PartnerID = '''', eq_PrivateKeyPEM = '''', eq_SteamID = ''''\<rparr> r of
     None \<Rightarrow> (bad_request ''partner_id and private_key_pem required'', sv)
   | Some q \<Rightarrow>
      if eq_PartnerID q = '''' \<or> eq_PrivateKeyPEM q = '''' then (bad_request ''partner_id and private_key_pem required'', sv)
      else write_credentials ''eco'' (map_option (\<lambda>c. cv_SetECOCreds c (eq_PartnerID q) (eq_PrivateKeyPEM q) (eq_SteamID q)) (Channels x))
             (writeErr 400 ''invalid_creds'' ''set credentials failed'')
             [(''partner_id'', JStr (eq_PartnerID q)), (''key_fp'', JStr (credFingerprint (eq_PrivateKeyPEM q)))] (credFingerprint (eq_PrivateKeyPEM q)) r sv)"

record steamCredsRequest =
  sq_Username :: string
  sq_Password :: string
  sq_SharedSecret :: string
  sq_IdentitySecret :: string

definition steam_creds_fields :: "steamCredsRequest field list" where
  "steam_creds_fields = [string_field ''username'' (\<lambda>v q. q\<lparr>sq_Username := v\<rparr>), string_field ''password'' (\<lambda>v q. q\<lparr>sq_Password := v\<rparr>),
     string_field ''shared_secret'' (\<lambda>v q. q\<lparr>sq_SharedSecret := v\<rparr>), string_field ''identity_secret'' (\<lambda>v q. q\<lparr>sq_IdentitySecret := v\<rparr>)]"

definition steam_required :: response where
  "steam_required = bad_request ''username/password/shared_secret/identity_secret all required''"

definition handleSteamCreds :: "'w services \<Rightarrow> 'w handler" where
  "handleSteamCreds x r sv =
    (case decode steam_creds_fields \<lparr>sq_Username = '''', sq_Password = '''', sq_SharedSecret = '''', sq_IdentitySecret = ''''\<rparr> r of
       None \<Rightarrow> (steam_required, sv)
     | Some q \<Rightarrow>
        if sq_Username q = '''' \<or> sq_Password q = '''' \<or> sq_SharedSecret q = '''' \<or> sq_IdentitySecret q = '''' then (steam_required, sv)
        else write_credentials ''steam''
               (map_option (\<lambda>c. tv_SetCredentials c (sq_Username q) (sq_Password q) (sq_SharedSecret q) (sq_IdentitySecret q)) (Steam x))
               (writeErr 400 ''login_failed'' ''set credentials failed'')
               [(''username'', JStr (sq_Username q)), (''secret_fp'', JStr (credFingerprint (sq_SharedSecret q)))] (credFingerprint (sq_SharedSecret q)) r sv)"

definition handleChannelsStatus :: "'w services \<Rightarrow> 'w handler" where
  "handleChannelsStatus x r sv = (case Channels x of None \<Rightarrow> (writeErr 503 ''unavailable'' ''channels not initialized'', sv)
     | Some c \<Rightarrow>
        (case served (cv_Health c) sv of (health, sv) \<Rightarrow>
          let out = map (\<lambda>(k, v). (k, JStr v)) health in
          (case Steam x of None \<Rightarrow> (writeJSON 200 (JObj out), sv)
           | Some t \<Rightarrow> (case served (tv_Health t) sv of (h, sv) \<Rightarrow> (writeJSON 200 (JObj (AList.update ''steam'' (JStr h) out)), sv)))))"

section \<open>The UU login\<close>

definition sessionAlphabet :: string where
  "sessionAlphabet = ''abcdefghijklmnopqrstuvwxyzABCDEFGHIJKLMNOPQRSTUVWXYZ0123456789''"

definition RandomSessionID :: "('w \<Rightarrow> int list option \<times> 'w) \<Rightarrow> 'w \<Rightarrow> string option \<times> 'w" where
  "RandomSessionID ints w = (case ints w of (draws, w) \<Rightarrow> (map_option (map (\<lambda>n. sessionAlphabet ! nat n)) draws, w))"

record uuSmsRequest =
  mq_Phone :: string
  mq_SessionID :: string
  mq_Captcha :: "CaptchaResult option"

definition captcha_fields :: "CaptchaResult field list" where
  "captcha_fields = [string_field ''ticket'' (\<lambda>v q. q\<lparr>cr_Ticket := v\<rparr>), string_field ''randstr'' (\<lambda>v q. q\<lparr>cr_Randstr := v\<rparr>),
     string_field ''req_ticket'' (\<lambda>v q. q\<lparr>cr_ReqTicket := v\<rparr>)]"

definition sms_fields :: "uuSmsRequest field list" where
  "sms_fields = [string_field ''phone'' (\<lambda>v q. q\<lparr>mq_Phone := v\<rparr>), string_field ''session_id'' (\<lambda>v q. q\<lparr>mq_SessionID := v\<rparr>),
     pointer_field ''captcha'' (\<lambda>j. to_struct captcha_fields j \<lparr>cr_Ticket = '''', cr_Randstr = '''', cr_ReqTicket = ''''\<rparr>) (\<lambda>v q. q\<lparr>mq_Captcha := v\<rparr>)]"

definition mode_text :: "sms_mode \<Rightarrow> string" where
  "mode_text md = (case md of SmsModeDownlink \<Rightarrow> ''down'' | SmsModeUplink \<Rightarrow> ''up'' | SmsModeCaptcha \<Rightarrow> ''captcha'')"

definition sms_json :: "string \<Rightarrow> SmsCodeResult \<Rightarrow> string \<times> string \<Rightarrow> json" where
  "sms_json session res up = JObj ([(''session_id'', JStr session), (''mode'', JStr (mode_text (sr_Mode res)))] @ text_field ''msg'' (sr_Msg res)
     @ text_field ''sms_up_content'' (fst up) @ text_field ''sms_up_number'' (snd up) @ text_field ''req_ticket'' (sr_ReqTicket res)
     @ text_field ''login_req_ticket'' (sr_LoginReqTicket res) @ (if sr_Secs res = 0 then [] else [(''secs'', JInt (sr_Secs res))]))"

definition sms_sent :: "'w channels_service \<Rightarrow> string \<Rightarrow> SmsCodeResult \<Rightarrow> 'w handler" where
  "sms_sent c session res r sv =
    (let sv = audit r ''channel.uu.sms_sent'' (Some [(''mode'', JStr (mode_text (sr_Mode res))), (''msg'', JStr (sr_Msg res))]) sv in
     case sr_Mode res of
       SmsModeDownlink \<Rightarrow> (writeJSON 200 (sms_json session res ('''', '''')), sv)
     | SmsModeCaptcha \<Rightarrow> (writeJSON 200 (sms_json session res ('''', '''')),
         audit r ''channel.uu.captcha_required'' (Some [(''msg'', JStr (sr_Msg res)), (''verify_data'', JStr (truncateAudit (cv_VerifyRaw c res) 256))]) sv)
     | SmsModeUplink \<Rightarrow>
         (case served (cv_GetSmsUpSignInConfig c) sv of
            (Inl e, sv) \<Rightarrow> (writeErr 502 ''sms_up_config_failed'' ''sms uplink config failed'', sv)
          | (Inr up, sv) \<Rightarrow> (writeJSON 200 (sms_json session res up), sv)))"

definition send_sms :: "'w services \<Rightarrow> uuSmsRequest \<Rightarrow> string \<Rightarrow> 'w handler" where
  "send_sms x q session r sv =
    (let cv = (case mq_Captcha q of None \<Rightarrow> None | Some c \<Rightarrow> if cr_Ticket c = '''' then None else Some c) in
     if cv \<noteq> None \<and> mq_SessionID q = '''' then (bad_request ''captcha retry must carry the session_id that received req_ticket'', sv)
     else case Channels x of
         None \<Rightarrow> (panicked, sv)
       | Some c \<Rightarrow>
          (case served (cv_SendLoginSmsCode c (mq_Phone q) session cv) sv of
             ((_, Some e), sv) \<Rightarrow> (writeErr 502 ''sms_failed'' ''send sms failed'', audit r ''channel.uu.sms_failed'' (Some [(''error'', JStr (Error e))]) sv)
           | ((res, None), sv) \<Rightarrow> sms_sent c session res r sv))"

definition handleUUSms :: "'w services \<Rightarrow> 'w handler" where
  "handleUUSms x r sv = (case decode sms_fields \<lparr>mq_Phone = '''', mq_SessionID = '''', mq_Captcha = None\<rparr> r of
     None \<Rightarrow> (bad_request ''phone required'', sv)
   | Some q \<Rightarrow>
      if mq_Phone q = '''' then (bad_request ''phone required'', sv)
      else let (ok, m) = smsAllow (rq_ip r) (rq_now r) (smsFails sv); sv = sv\<lparr>smsFails := m\<rparr> in
        if \<not> ok then (sms_limited, audit r ''channel.uu.sms_rate_limited'' (Some [(''phone_tail'', JStr (tail_text (mq_Phone q) 4))]) sv)
        else if mq_SessionID q \<noteq> '''' then send_sms x q (mq_SessionID q) r sv
        else case RandomSessionID (rand_Ints x 16) (outside sv) of
            (None, w) \<Rightarrow> (panicked, sv\<lparr>outside := w\<rparr>)
          | (Some session, w) \<Rightarrow> send_sms x q session r (sv\<lparr>outside := w\<rparr>))"

record uuVerifyRequest =
  vq_Phone :: string
  vq_Code :: string
  vq_SessionID :: string
  vq_LoginReqTicket :: string

definition verify_fields :: "uuVerifyRequest field list" where
  "verify_fields = [string_field ''phone'' (\<lambda>v q. q\<lparr>vq_Phone := v\<rparr>), string_field ''code'' (\<lambda>v q. q\<lparr>vq_Code := v\<rparr>),
     string_field ''session_id'' (\<lambda>v q. q\<lparr>vq_SessionID := v\<rparr>), string_field ''login_req_ticket'' (\<lambda>v q. q\<lparr>vq_LoginReqTicket := v\<rparr>)]"

definition handleUUSmsVerify :: "'w services \<Rightarrow> 'w handler" where
  "handleUUSmsVerify x r sv =
    (case decode verify_fields \<lparr>vq_Phone = '''', vq_Code = '''', vq_SessionID = '''', vq_LoginReqTicket = ''''\<rparr> r of
       None \<Rightarrow> (bad_request ''invalid payload'', sv)
     | Some q \<Rightarrow>
        if vq_SessionID q = '''' then (bad_request ''invalid payload'', sv)
        else let (ok, m) = smsAllow (rq_ip r) (rq_now r) (smsFails sv); sv = sv\<lparr>smsFails := m\<rparr> in
          if \<not> ok then (sms_limited, audit r ''channel.uu.verify_rate_limited'' (Some [(''phone_tail'', JStr (tail_text (vq_Phone q) 4))]) sv)
          else case Channels x of
              None \<Rightarrow> (panicked, sv)
            | Some c \<Rightarrow>
               (case served (cv_VerifyUUSms c (vq_Phone q) (vq_Code q) (vq_SessionID q) (vq_LoginReqTicket q)) sv of
                  (Inl e, sv) \<Rightarrow> (writeErr 400 ''verify_failed'' ''verify failed'', audit r ''channel.uu.login_failed'' (Some [(''error'', JStr (Error e))]) sv)
                | (Inr tail, sv) \<Rightarrow> (writeJSON 200 ok_json,
                    audit r ''channel.uu.login'' (Some [(''phone_tail'', JStr (tail_text (vq_Phone q) 4)), (''token_tail'', JStr tail)]) sv)))"

end
