(* ===== verification/ApiChannelsProps.thy ===== *)
theory ApiChannelsProps
  imports ApiChannels RegistryProps ApiAuthProps
begin

text \<open>
  The panel's credential endpoints on the registry. What the endpoint relies on is an interface, the locale
  \<open>credential_service\<close>: a write that is refused leaves the stored settings alone. The registry's UU token keeps it; the
  ECO and the Steam credentials do not, as they are stored in two statements.
\<close>

section \<open>The interface\<close>

locale credential_service =
  fixes put :: "('w, goerr option) service_call"
  assumes refused_keeps: "put s w = (Some e, s', w') \<Longrightarrow> app_settings (db s') = app_settings (db s)"
begin

lemma answer_tells_settings:
  assumes "write_credentials ch (Some put) refused detail fp r sv = (resp, sv')" "status refused \<noteq> 200" "status resp \<noteq> 200"
  shows "app_settings (db (ses sv')) = app_settings (db (ses sv))"
proof -
  obtain ok b where B: "bucket_allow (rq_ip r) (rq_now r) (channelWrites sv) = (ok, b)" by (metis surj_pair)
  obtain y s w where P: "put (ses sv) (outside sv) = (y, s, w)" by (metis surj_pair)
  show ?thesis
  proof (cases ok)
    case False
    then show ?thesis using assms(1) by (auto simp: write_credentials_def B audit_def InsertAudit_settings)
  next
    case True
    then obtain e where e: "y = Some e" using assms(1,3) by (cases y) (auto simp: write_credentials_def B served_def P writeJSON_def)
    have "app_settings (db (ses sv')) = app_settings (db s)"
      using assms(1) True by (auto simp: write_credentials_def B served_def P e Let_def audit_def InsertAudit_settings split: if_splits)
    then show ?thesis using refused_keeps[OF P[unfolded e]] by simp
  qed
qed

end

section \<open>The registry behind it\<close>

definition on_registry :: "('v registry \<Rightarrow> 'a \<times> 'v registry) \<Rightarrow> ('v registry, 'a) service_call" where
  "on_registry f s r = (case f (r\<lparr>rg_sess := s\<rparr>) of (x, r) \<Rightarrow> (x, rg_sess r, r))"

text \<open>\<open>*Registry\<close> as the handlers' \<open>ChannelsService\<close>; the unparsed captcha text is a parameter.\<close>

definition health_list :: "(channel \<Rightarrow> string option) \<Rightarrow> (string \<times> string) list" where
  "health_list m = List.map_filter (\<lambda>ch. map_option (Pair ch) (m ch)) [ChannelUU, ChannelECO]"

definition sms_outcome :: "goerr + SmsCodeResult \<times> goerr option \<Rightarrow> SmsCodeResult \<times> goerr option" where
  "sms_outcome x = (case x of Inl e \<Rightarrow> (no_sms, Some e) | Inr p \<Rightarrow> p)"

definition registry_channels :: "'v channel_env \<Rightarrow> (SmsCodeResult \<Rightarrow> string) \<Rightarrow> 'v registry channels_service" where
  "registry_channels e raw =
    \<lparr>cv_Health = on_registry (apfst health_list \<circ> registry_Health),
     cv_SendLoginSmsCode = (\<lambda>phone sid captcha. on_registry (apfst sms_outcome \<circ> rg_out (SendLoginSmsCode (ce_Web e) phone sid captcha))),
     cv_GetSmsUpSignInConfig = on_registry (rg_out (GetSmsUpSignInConfig (ce_Web e))),
     cv_VerifyUUSms = (\<lambda>phone code sid ticket. on_registry (VerifyUUSms e phone code sid ticket)),
     cv_SetUUToken = (\<lambda>token. on_registry (SetUUToken e token)),
     cv_SetECOCreds = (\<lambda>pid pem sid. on_registry (SetECOCreds e pid pem sid)),
     cv_VerifyRaw = raw\<rparr>"

lemma on_registry_token:
  assumes "on_registry (SetUUToken e token) s w = (Some x, s', w')"
  shows "core w w' \<and> db s' = db s"
proof -
  obtain y r where y: "SetUUToken e token (w\<lparr>rg_sess := s\<rparr>) = (y, r)" by (metis surj_pair)
  then have "y = Some x" "s' = rg_sess r" "w' = r" using assms by (auto simp: on_registry_def)
  then show ?thesis using refused_token[of e token "w\<lparr>rg_sess := s\<rparr>" x r] y by (simp add: core_def)
qed

interpretation registry_token: credential_service "on_registry (SetUUToken e token)" for e token
  by unfold_locales (simp add: on_registry_token)

section \<open>Importing a UU token at the panel\<close>

lemma bucket_frame: "write_credentials ch (Some f) refused detail fp r sv = (resp, sv') \<Longrightarrow> status refused \<noteq> 200 \<Longrightarrow> status resp = 200 \<Longrightarrow>
    \<exists>s w. f (ses sv) (outside sv) = (None, s, w) \<and> outside sv' = w \<and> app_settings (db (ses sv')) = app_settings (db s)"
  by (auto simp: write_credentials_def served_def audit_def InsertAudit_settings too_many_def writeErr_def writeJSON_def Let_def
      split: prod.splits option.splits if_splits)

lemma refused_frame: "write_credentials ch (Some f) refused detail fp r sv = (resp, sv') \<Longrightarrow> status resp \<noteq> 200 \<Longrightarrow>
    outside sv' = outside sv \<or> (\<exists>e s. f (ses sv) (outside sv) = (Some e, s, outside sv'))"
  by (auto simp: write_credentials_def served_def audit_def fingerprint_json_def writeJSON_def Let_def
      split: prod.splits option.splits if_splits)

text \<open>C37: A UU token imported at the panel is taken over entirely or not at all. Any answer but 200 leaves the stored settings and
  the registry's clients, adapters and retry as they were; after an answer of 200, with a master key, the registry's client carries
  the token of the request and the sealed row of the database reads back as this token.\<close>

theorem panel_token_all_or_nothing:
  assumes "handleUUToken x r sv = (resp, sv')" "Channels x = Some (registry_channels e raw)" "ce_Box e = Some b" "NewBox key = Inr b"
    "\<forall>w n. fst (ce_Nonce e w) = Inr n \<longrightarrow> length n = 12"
  shows "(status resp \<noteq> 200 \<longrightarrow> app_settings (db (ses sv')) = app_settings (db (ses sv)) \<and> core (outside sv) (outside sv'))
    \<and> (status resp = 200 \<longrightarrow> (\<exists>token c row. decode [string_field ''token'' (\<lambda>v _. v)] '''' r = Some token \<and> rg_uuClient (outside sv') = Some c
         \<and> uc_token c = token \<and> setting_of keyUUToken (db (ses sv')) = Some row \<and> stored_token (ce_Box e) row = Some token))"
proof (cases "\<exists>token. decode [string_field ''token'' (\<lambda>v _. v)] '''' r = Some token \<and> token \<noteq> ''''")
  case False
  then have "resp = bad_request ''token required'' \<and> sv' = sv" using assms(1) by (auto simp: handleUUToken_def split: option.splits if_splits)
  then show ?thesis by (simp add: bad_request_def writeErr_def writeJSON_def core_refl)
next
  case True
  then obtain token where token: "decode [string_field ''token'' (\<lambda>v _. v)] '''' r = Some token" "token \<noteq> ''''" by blast
  define refused where "refused = writeErr 400 ''invalid_token'' ''set token failed''"
  have st: "status refused \<noteq> 200" by (simp add: refused_def writeErr_def writeJSON_def)
  have run: "write_credentials ''uu'' (Some (on_registry (SetUUToken e token))) refused
      [(''source'', JStr ''manual_import''), (''token_tail'', JStr (tail_text token 8))] (tail_text token 8) r sv = (resp, sv')"
    using assms(1) token by (simp add: handleUUToken_def assms(2) registry_channels_def refused_def)
  show ?thesis
  proof (cases "status resp = 200")
    case False
    have "app_settings (db (ses sv')) = app_settings (db (ses sv))" by (rule registry_token.answer_tells_settings[OF run st False])
    moreover have "core (outside sv) (outside sv')" using refused_frame[OF run False] on_registry_token core_refl by metis
    ultimately show ?thesis using False by simp
  next
    case True
    obtain s w where f: "on_registry (SetUUToken e token) (ses sv) (outside sv) = (None, s, w)" "outside sv' = w"
        "app_settings (db (ses sv')) = app_settings (db s)" using bucket_frame[OF run st True] by blast
    have "SetUUToken e token ((outside sv)\<lparr>rg_sess := ses sv\<rparr>) = (None, w)" "s = rg_sess w"
      using f(1) by (auto simp: on_registry_def split: prod.splits)
    from accepted_token[OF this(1) assms(3) token(2) assms(4)] assms(5) obtain c row where
      "rg_uuClient w = Some c" "uc_token c = token" "setting_of keyUUToken (db (rg_sess w)) = Some row" "stored_token (ce_Box e) row = Some token" by blast
    moreover have "setting_of keyUUToken (db (ses sv')) = setting_of keyUUToken (db s)" using f(3) by (simp add: setting_of_def)
    ultimately show ?thesis using True token(1) f(2) \<open>s = rg_sess w\<close> by auto
  qed
qed

section \<open>A server over the sample registry\<close>

definition registry_services :: "Box \<Rightarrow> nat registry services" where
  "registry_services b = \<lparr>Jobs = None, Channels = Some (registry_channels (registry_env (Some b)) (\<lambda>_. '''')), Steam = None, Wallets = None,
     rand_Ints = (\<lambda>_ w. (None, w))\<rparr>"

definition registry_server :: "nat registry server" where
  "registry_server = NewServer registry_session (NewRegistry registry_session 0)"

lemma sample_import: "\<exists>sv'. handleUUToken (registry_services b) (post [(''token'', JStr ''tok'')]) registry_server = (writeJSON 200 (fingerprint_json ''''), sv')"
proof -
  obtain r where r: "SetUUToken (registry_env (Some b)) ''tok'' (NewRegistry registry_session 0) = (None, r)" using sample_stored by blast
  have d: "decode [string_field ''token'' (\<lambda>v _. v)] '''' (post [(''token'', JStr ''tok'')]) = Some ''tok''" by code_simp
  have a: "bucket_allow (rq_ip (post [(''token'', JStr ''tok'')])) (rq_now (post [(''token'', JStr ''tok'')])) (channelWrites registry_server)
      = (True, snd (bucket_allow (rq_ip (post [(''token'', JStr ''tok'')])) (rq_now (post [(''token'', JStr ''tok'')])) (channelWrites registry_server)))"
    by (simp add: registry_server_def NewServer_def channelWriteBucket0_def newWriteBucket_def bucket_allow_def admit_def slot_def sweep_def Let_def)
  have "(NewRegistry registry_session 0)\<lparr>rg_sess := registry_session\<rparr> = NewRegistry registry_session (0 :: nat)" by (simp add: NewRegistry_def)
  then show ?thesis unfolding handleUUToken_def d write_credentials_def
    by (subst a) (simp add: registry_services_def registry_channels_def served_def on_registry_def registry_server_def NewServer_def r tail_text_def)
qed

theorem panel_token_all_or_nothing_witness:
  "\<exists>b sv' c. handleUUToken (registry_services b) (post [(''token'', JStr ''tok'')]) registry_server = (writeJSON 200 (fingerprint_json ''''), sv')
     \<and> rg_uuClient (outside sv') = Some c \<and> uc_token c = ''tok''"
proof -
  obtain b where b: "NewBox ''0123456789abcdef'' = Inr b" by (simp add: NewBox_def)
  obtain sv' where run: "handleUUToken (registry_services b) (post [(''token'', JStr ''tok'')]) registry_server = (writeJSON 200 (fingerprint_json ''''), sv')"
    using sample_import by blast
  have c: "Channels (registry_services b) = Some (registry_channels (registry_env (Some b)) (\<lambda>_. ''''))" by (simp add: registry_services_def)
  have n: "ce_Box (registry_env (Some b)) = Some b" "\<forall>w n. fst (ce_Nonce (registry_env (Some b)) w) = Inr n \<longrightarrow> length n = 12"
    by (auto simp: registry_env_def)
  have d: "decode [string_field ''token'' (\<lambda>v _. v)] '''' (post [(''token'', JStr ''tok'')]) = Some ''tok''" by code_simp
  obtain c where "rg_uuClient (outside sv') = Some c" "uc_token c = ''tok''"
    using panel_token_all_or_nothing[OF run c n(1) b n(2)] d by (auto simp: writeJSON_def)
  then show ?thesis using run by blast
qed

end
