(* ===== verification/Routes.thy ===== *)
theory Routes
  imports ApiAuth ApiChannels
begin

text \<open>
  The panel's server as a whole (\<open>Routes\<close> in \<open>internal/api/server.go\<close>): which handler a call reaches, and what stands
  before it. A call has a method and a clean path, cut into its segments; redirects of unclean paths are the
  multiplexer's and not modelled. Security headers and request logs do not touch what is modelled here, and a body over
  the limit is one that does not parse.
\<close>

section \<open>Patterns\<close>

datatype segment = Lit string | Var string

fun match_segments :: "segment list \<Rightarrow> string list \<Rightarrow> (string \<times> string) list option" where
  "match_segments [] [] = Some []"
| "match_segments (Lit w # ps) (x # xs) = (if w = x then match_segments ps xs else None)"
| "match_segments (Var n # ps) (x # xs) = map_option ((#) (n, x)) (match_segments ps xs)"
| "match_segments _ _ = None"

definition path_value :: "(string \<times> string) list \<Rightarrow> string \<Rightarrow> string" where
  "path_value vs n = (case map_of vs n of None \<Rightarrow> '''' | Some v \<Rightarrow> v)"

text \<open>A \<open>GET\<close> pattern also takes \<open>HEAD\<close>.\<close>

definition takes_method :: "string \<Rightarrow> string \<Rightarrow> bool" where
  "takes_method pat md \<longleftrightarrow> pat = md \<or> (pat = ''GET'' \<and> md = ''HEAD'')"

type_synonym 'w route_entry = "string \<times> segment list \<times> 'w handler"

definition not_found_text :: response where
  "not_found_text = writeJSON 404 (JStr ''404 page not found'')"

definition method_not_allowed :: response where
  "method_not_allowed = writeJSON 405 (JStr ''Method Not Allowed'')"

text \<open>The multiplexer: no two patterns of one table match the same method and path.\<close>

definition mux :: "'w route_entry list \<Rightarrow> string \<Rightarrow> string list \<Rightarrow> 'w handler" where
  "mux table md path r sv =
    (case filter (\<lambda>(_, p, _). match_segments p path \<noteq> None) table of
       [] \<Rightarrow> (not_found_text, sv)
     | matching \<Rightarrow>
        (case find (\<lambda>(m, _, _). takes_method m md) matching of
           None \<Rightarrow> (method_not_allowed, sv)
         | Some (_, p, h) \<Rightarrow> h (r\<lparr>rq_path := path_value (the (match_segments p path))\<rparr>) sv))"

section \<open>The routes\<close>

definition v1 :: "string list \<Rightarrow> segment list" where
  "v1 ws = Lit ''api'' # Lit ''v1'' # map Lit ws"

definition protected_routes :: "'w api \<Rightarrow> 'w services \<Rightarrow> (string \<Rightarrow> string) \<Rightarrow> 'w route_entry list" where
  "protected_routes a x low =
    [(''GET'', v1 [''auth'', ''me''], handleMe),
     (''POST'', v1 [''auth'', ''logout''], handleLogout),
     (''PUT'', v1 [''auth'', ''password''], handlePasswordChange a),
     (''GET'', v1 [''inventory''], handleInventory low),
     (''GET'', v1 [''inventory'', ''categories''], handleInventoryCategories),
     (''GET'', v1 [''listings''], handleListings low),
     (''GET'', v1 [''orders''], handleOrders low),
     (''GET'', v1 [''templates''], handleTemplates),
     (''GET'', v1 [''templates'', ''catalog''], handleTemplateCatalog low),
     (''PUT'', v1 [''templates'', ''blacklist''], handleTemplateBlacklist),
     (''PUT'', v1 [''inventory''] @ [Var ''channel'', Var ''asset_id'', Lit ''cost''], handleSetCost),
     (''GET'', v1 [''strategies''], handleStrategiesList),
     (''PUT'', v1 [''strategies'', ''global''], handleStrategyUpdateGlobal),
     (''POST'', v1 [''strategies'', ''template''], handleTemplateStrategyUpsert),
     (''DELETE'', v1 [''strategies'', ''template''] @ [Var ''id''], handleTemplateStrategyDelete),
     (''GET'', v1 [''audit''], handleAuditList),
     (''GET'', v1 [''price-actions''], handlePriceActions),
     (''GET'', v1 [''execution'', ''status''], handleExecutionStatus a),
     (''GET'', v1 [''dashboard''], handleDashboard (Wallets x)),
     (''GET'', v1 [''jobs''], handleJobsList x),
     (''POST'', v1 [''jobs''] @ [Var ''name'', Lit ''run''], handleJobTrigger x),
     (''GET'', v1 [''channels''], handleChannelsStatus x),
     (''POST'', v1 [''channels'', ''uu'', ''sms''], handleUUSms x),
     (''POST'', v1 [''channels'', ''uu'', ''sms-verify''], handleUUSmsVerify x),
     (''PUT'', v1 [''channels'', ''uu''], handleUUToken x),
     (''PUT'', v1 [''channels'', ''eco''], handleECOCreds x),
     (''PUT'', v1 [''channels'', ''steam''], handleSteamCreds x)]"

definition unknown_endpoint :: response where
  "unknown_endpoint = writeErr 404 ''not_found'' ''unknown endpoint''"

text \<open>The public endpoints are exact; everything else under \<open>/api/v1/\<close> passes \<open>requireAuth\<close> first.\<close>

definition is_public :: "string \<Rightarrow> string list \<Rightarrow> bool" where
  "is_public md path \<longleftrightarrow> (takes_method ''GET'' md \<and> path = [''api'', ''v1'', ''health'']) \<or> (md = ''POST'' \<and> path = [''api'', ''v1'', ''auth'', ''login''])"

definition Routes :: "'w api \<Rightarrow> 'w services \<Rightarrow> (string \<Rightarrow> string) \<Rightarrow> string \<Rightarrow> string list \<Rightarrow> 'w handler" where
  "Routes a x low md path =
    (if takes_method ''GET'' md \<and> path = [''api'', ''v1'', ''health''] then handleHealth a
     else if md = ''POST'' \<and> path = [''api'', ''v1'', ''auth'', ''login''] then handleLogin a
     else if 3 \<le> length path \<and> take 2 path = [''api'', ''v1''] then requireAuth a (mux (protected_routes a x low) md path)
     else (\<lambda>r sv. (unknown_endpoint, sv)))"

end
