(* ===== verification/RoutesProps.thy ===== *)
theory RoutesProps
  imports Routes ApiAuthProps
begin

text \<open>
  The check in front of the panel: without a valid session of the present epoch no endpoint but the two public ones does
  anything.
\<close>

section \<open>Sessions of the present epoch\<close>

definition authorised :: "'w api \<Rightarrow> request \<Rightarrow> tables \<Rightarrow> bool" where
  "authorised a r t \<longleftrightarrow> (\<exists>tok c. bearer (rq_auth r) = Some tok \<and> Verify (Secret a) (rq_now r) tok = Inr c \<and> epoch_of t = Some (Ver c))"

lemma GetSetting_db: "db (snd (GetSetting k s)) = db s"
  by (simp add: GetSetting_def Query_def QueryE_def past_def split: option.splits prod.splits sum.splits)

lemma sessionEpoch_db: "sessionEpoch s = (x, s') \<Longrightarrow> db s' = db s"
  using GetSetting_db[of sessionEpochKey s]
  by (auto simp: sessionEpoch_def SessionEpoch_def split: prod.splits sum.splits option.splits if_splits)

lemma sessionEpoch_InrD:
  assumes "sessionEpoch s = (Inr n, s')" "\<not> errors_Is (next_fault s) ErrNotFound"
  shows "epoch_of (db s) = Some n"
  using assms
  by (auto simp: sessionEpoch_def SessionEpoch_def GetSetting_def epoch_of_def QueryE_def Query_def setting_of_def not_found_def read_int_def to_int_def
      split: prod.splits sum.splits option.splits if_splits json.splits)

text \<open>A call that is turned away leaves the server as it was, but for the faults of the statement that read the epoch.\<close>

definition turned_away :: "response \<Rightarrow> 'w server \<Rightarrow> 'w server \<Rightarrow> bool" where
  "turned_away resp sv sv' \<longleftrightarrow> (status resp = 401 \<or> status resp = 404) \<and> (\<exists>s. sv' = sv\<lparr>ses := s\<rparr> \<and> db s = db (ses sv))"

lemma requireAuth_refuses:
  assumes "\<not> authorised a r (db (ses sv))" "requireAuth a h r sv = (resp, sv')" "\<not> errors_Is (next_fault (ses sv)) ErrNotFound"
  shows "turned_away resp sv sv'"
proof (cases "bearer (rq_auth r)")
  case None
  then have "status resp = 401" "sv' = sv" using assms(2) by (auto simp: requireAuth_def writeErr_def writeJSON_def)
  then show ?thesis unfolding turned_away_def by (intro conjI exI[of _ "ses sv"]) simp_all
next
  case (Some tok)
  show ?thesis
  proof (cases "Verify (Secret a) (rq_now r) tok")
    case (Inl e)
    then have "status resp = 401" "sv' = sv" using assms(2) Some by (auto simp: requireAuth_def writeErr_def writeJSON_def)
    then show ?thesis unfolding turned_away_def by (intro conjI exI[of _ "ses sv"]) simp_all
  next
    case (Inr c)
    obtain x s where e: "sessionEpoch (ses sv) = (x, s)" by (cases "sessionEpoch (ses sv)")
    have "status resp = 401 \<and> sv' = sv\<lparr>ses := s\<rparr>"
    proof (cases x)
      case (Inl e')
      then show ?thesis using assms(2) Some Inr e by (auto simp: requireAuth_def writeErr_def writeJSON_def)
    next
      case (Inr n)
      have "n \<noteq> Ver c" using sessionEpoch_InrD e Inr assms(1,3) Some \<open>Verify (Secret a) (rq_now r) tok = Inr c\<close>
        unfolding authorised_def by metis
      then show ?thesis using assms(2) Some \<open>Verify (Secret a) (rq_now r) tok = Inr c\<close> e Inr
        by (auto simp: requireAuth_def writeErr_def writeJSON_def)
    qed
    then show ?thesis using sessionEpoch_db[OF e] by (auto simp: turned_away_def)
  qed
qed

text \<open>C38: A call other than health and login that does not carry a valid session token of the present epoch is turned away
  with 401 or 404: whatever its method, path and body, nothing is written, no throttle counts it, no job starts and no
  channel is called.\<close>

theorem no_session_no_effect:
  assumes "\<not> is_public md path" "\<not> authorised a r (db (ses sv))" "\<not> errors_Is (next_fault (ses sv)) ErrNotFound"
  shows "turned_away (fst (Routes a x low md path r sv)) sv (snd (Routes a x low md path r sv))"
proof (cases "3 \<le> length path \<and> take 2 path = [''api'', ''v1'']")
  case True
  obtain resp sv' where "requireAuth a (mux (protected_routes a x low) md path) r sv = (resp, sv')" by (metis surj_pair)
  moreover have "Routes a x low md path r sv = requireAuth a (mux (protected_routes a x low) md path) r sv"
    using assms(1) True unfolding Routes_def is_public_def by (simp only: if_False de_Morgan_disj if_True simp_thms)
  ultimately show ?thesis using requireAuth_refuses[OF assms(2) _ assms(3)] by simp
next
  case False
  then have "Routes a x low md path r sv = (unknown_endpoint, sv)" using assms(1) unfolding Routes_def is_public_def by (simp only: if_False de_Morgan_disj)
  then show ?thesis unfolding turned_away_def by (simp add: unknown_endpoint_def writeErr_def writeJSON_def exI[of _ "ses sv"])
qed

definition no_services :: "unit services" where
  "no_services = \<lparr>Jobs = None, Channels = None, Steam = None, Wallets = None, rand_Ints = (\<lambda>_ w. (None, w))\<rparr>"

theorem no_session_no_effect_witness:
  "turned_away (fst (Routes plain_api no_services id ''PUT'' [''api'', ''v1'', ''channels'', ''uu''] (post [(''token'', JStr ''t'')]) auth_server))
     auth_server (snd (Routes plain_api no_services id ''PUT'' [''api'', ''v1'', ''channels'', ''uu''] (post [(''token'', JStr ''t'')]) auth_server))"
  by (rule no_session_no_effect)
    (simp_all add: is_public_def takes_method_def authorised_def post_def bearer_def auth_server_def NewServer_def)

end
