(* ===== verification/Spec2Isabelle.thy ===== *)
theory Spec2Isabelle
  imports PricingProps ParamsJson ReconWitnesses StrategyStore SchedulerProps ThrottleProps ApiAuthProps BusinessStore OrderStore
    IncomeProps RepriceProps FactorProps Jobs ReconJobProps EcoProps EcoDelivery UuProps SteamProps RegistryProps SteamChannelProps
    FinanceProps PanelProps ApiAdminProps ApiChannelsProps RoutesProps
begin

text \<open>
  Verification of rent-auto (\<open>src/backend\<close>), a server that rents out game items on two trade channels, UU and ECO, and delivers them
  over Steam: it collects inventory, market quotes, shelves and orders into a Postgres database, decides prices, keeps the shelves of
  the channels as the strategies want them, and offers a panel with a JSON API.

  The parts and how they interact. The scheduler starts the jobs of \<open>scheduler/jobs.go\<close>. Jobs read and write the store
  (\<open>internal/store\<close>) and call the channels through the interface of \<open>platform/adapter.go\<close>; the registry
  (\<open>internal/channels\<close>) builds the adapters from sealed credentials. The planner and the executor of \<open>internal/recon\<close> publish,
  reprice and delist; the pricing engine (\<open>internal/pricing\<close>) computes the prices from the quotes the store kept. The panel's
  handlers (\<open>internal/api\<close>) act on the same store, the registry and the scheduler.

  How the code is modelled. A struct is a record, a map a function or an association list, an error value a \<open>goerr\<close>: its message
  with the sentinels \<open>errors.Is\<close> finds; a function that may fail returns \<open>goerr + 'a\<close> (\<open>Inl\<close> the error) or
  \<open>goerr option\<close>. \<open>float64\<close> is modelled exactly, as rationals rounded to nearest even (\<open>Float64\<close>); 32 and 64 bit integers are
  words where they may wrap. State is passed explicitly: a store function maps a \<open>session\<close> (the tables, the database clock and the
  faults still to come, one entry per statement) to its result and the session after it; what is outside the program (HTTP, clocks,
  random bytes, waiting) is a record of operations on a world of arbitrary type \<open>'w\<close>, so that every theorem holds for every
  behaviour of the platforms. Mutexes make a critical section one step; concurrency is a step relation where it matters (the
  scheduler, the histories of sessions, listings and the registry).

  \<^bold>\<open>Foundations.\<close> \<open>Prelude\<close> (clock values, messages, list and map facts, the hint collections), \<open>Float64\<close>, \<open>Money\<close> (\<open>Round2\<close>,
  \<open>Round4\<close>; the locale \<open>quantizer\<close> states what a rounding routine promises and is interpreted for both), \<open>Domain\<close>
  (\<open>internal/domain\<close>, errors), \<open>Platform\<close> (the adapter interface), \<open>Civil\<close> (civil dates and time texts), \<open>JsonText\<close>, \<open>ParamsJson\<close>
  and \<open>JsonRound\<close> (what is used of \<open>encoding/json\<close>), \<open>Sha256\<close>, \<open>Aes\<close>, \<open>Secrets\<close> (hashes, AES-GCM, base64, \<open>internal/secrets\<close>).

  \<^bold>\<open>Pricing\<close> (\<open>internal/pricing/engine.go\<close>): \<open>Pricing\<close>, \<open>PricingProps\<close>. The rent of a decision lies between the quantized floor and
  ceiling and moves by at most the configured step; the factor of the controller stays in its range; all over float64 arithmetic with
  its rounding errors. \<open>ParamsJson\<close>: every parameter set the parser accepts satisfies the ranges the engine relies on.

  \<^bold>\<open>Reconciliation\<close> (\<open>internal/recon\<close>): \<open>Recon\<close> (the planner's three passes as folds over the snapshot), \<open>Executor\<close>, \<open>ReconProps\<close>,
  \<open>ExecProps\<close>, \<open>Mirror\<close>, \<open>ReconWitnesses\<close>, \<open>ReconJob\<close>, \<open>ReconJobProps\<close>. Leased listings are never delisted, publishes stay within
  the wanted copies and the budget, a converged shelf yields no action, a dry run touches nothing, and after a run the store shows
  the shelf the platform has: the locale \<open>write_back\<close> is the contract the executor needs of the store, interpreted on the store.

  \<^bold>\<open>The store\<close> (\<open>internal/store\<close>): \<open>Tables\<close> (one record per table, sessions, statements, transactions), \<open>ListingStore\<close>,
  \<open>StoreProps\<close>, \<open>BusinessStore\<close>, \<open>OrderStore\<close>, \<open>IncomeProps\<close>, \<open>RepriceStore\<close>, \<open>StrategyStore\<close>, \<open>AuthStore\<close>, \<open>PanelLists\<close> (the lists the panel reads: filters, orders and pages),
  \<open>FinanceStore\<close> and \<open>FinanceProps\<close> (the physical-inventory view, the sums and the dashboard). Listings stay well
  formed under every statement, delisting needs a continuous mismatch, and the daily income figures are at all times the sums of the
  ledger of finished orders.

  \<^bold>\<open>Jobs\<close> (\<open>internal/scheduler\<close>, \<open>internal/bench\<close>): \<open>Scheduler\<close>, \<open>SchedulerProps\<close> (no job runs twice at once, a stop waits),
  \<open>Reprice\<close>, \<open>RepriceProps\<close>, \<open>FactorJob\<close>, \<open>FactorProps\<close> (one pass equals stepping every listing through its own finished orders),
  \<open>Jobs\<close>, \<open>EcoDelivery\<close>.

  \<^bold>\<open>Channels.\<close> ECO (\<open>platform/eco\<close>): \<open>EcoSign\<close>, \<open>EcoClient\<close>, \<open>EcoAdapter\<close>, \<open>EcoProps\<close>. UU (\<open>platform/uu\<close>): \<open>UuText\<close>, \<open>UuClient\<close>,
  \<open>UuEndpoints\<close>, \<open>UuAdapter\<close>, \<open>UuLogin\<close>, \<open>UuProps\<close>. Steam (\<open>platform/steam\<close>): \<open>SteamProto\<close>, \<open>SteamProtoProps\<close>, \<open>SteamSession\<close>,
  \<open>SteamOffers\<close>, \<open>SteamProps\<close>. Calls fail closed, snapshots are whole, what is reported as done was confirmed; redirects end; free
  offers are checked before they are accepted; a confirmation is the offer's own. Two adapters report a refused repricing call so that
  its risk signal is lost; the theorems named \<open>loses_risk_signals\<close> state it. \<open>internal/channels\<close>: \<open>Registry\<close>, \<open>RegistryProps\<close>,
  \<open>SteamChannel\<close>, \<open>SteamChannelProps\<close>: adapters and clients agree at all times, credentials are taken over entirely or not at all (but for
  the two Steam rows, written without a transaction) and survive a restart.

  \<^bold>\<open>The panel\<close> (\<open>internal/api\<close>, \<open>internal/auth\<close>): \<open>Throttle\<close>, \<open>ThrottleProps\<close>, \<open>Jwt\<close>, \<open>Http\<close>, \<open>ApiAuth\<close>, \<open>ApiAuthProps\<close>, \<open>PanelJson\<close> (the
  details of jobs and audit entries that leave the server), \<open>ApiData\<close> (reads and strategies), \<open>ApiAdmin\<close> (settings, jobs, blacklist,
  orders), \<open>ApiChannels\<close> (credentials and channels), \<open>Routes\<close> (the route tables and the order of the checks), with their properties in
  \<open>PanelProps\<close>, \<open>ApiAdminProps\<close>, \<open>ApiChannelsProps\<close>, \<open>RoutesProps\<close>. A budget bounds
  the attempts in any window, a signed token verifies, a revoked one never opens a session again, a password change is all or nothing,
  a request without a valid session has no effect, the stored strategies stay valid, the pages of a list cover it, an asset is counted
  once however many channels report it, public details hold no secret, and a refused credential changes nothing: the locale
  \<open>credential_service\<close> is the contract the handlers need of the registry, interpreted on the registry.

  Bounds and fuel. Pagination loops take the code's own page limits as fuel (\<open>maxListPages\<close> 500, the UU limits of
  \<open>UuEndpoints\<close>); parsers take the length of their input, each step consuming a byte; redirects the code's eight hops; retries and
  polls the attempts the code allows. No theorem assumes that fuel is left: running out is the code's own error or end.

  Assumptions stated where they are used: texts are valid UTF-8; text columns compare by bytes unless a collation is a parameter;
  numeric columns that the database adds up hold whole cents; the clock a theorem reads does not run before year 1.

  Not modelled, with the reason: start-up, shutdown and wiring of the processes (\<open>cmd/server/main.go\<close> but for its gates, jobs and hooks,
  \<open>cmd/migrate\<close>), configuration from the environment and logging (\<open>internal/config\<close>, \<open>internal/logging\<close>), the migration runner and
  the advisory instance lock (\<open>store/migrate.go\<close>, \<open>store/migrate_apply.go\<close>, \<open>store/instance_lock.go\<close>: a file system and a database
  connection), the token buckets of \<open>internal/ratelimit\<close> (a parameter of the clients), the resolution of a client's address behind
  trusted proxies (a field of the request), RSA and bcrypt (parameters), the encrypted device handshake of \<open>platform/uu\<close> (no code
  calls it), the test helpers, and the panel's frontend (TypeScript).
\<close>

end
